(* ===== verification/Json.thy ===== *)
theory Json
  imports Prelude
begin

text \<open>
  The JSON layer under every digest of the program: \<^verbatim>\<open>json.dumps(..., sort_keys=True,
  separators=(",", ":"), ensure_ascii=True)\<close> and \<^verbatim>\<open>json.loads\<close>, on values without floats. The
  theory proves that loading a printed value gives the value back with its keys sorted, that
  printing is insensitive to that normalisation, and that the fuel of the loader never matters.
\<close>

section \<open>Values\<close>

datatype json =
    JNull
  | JBool bool
  | JInt int
  | JStr string
  | JList "json list"
  | JObj "(string \<times> json) list"

text \<open>Dictionary keys are unique at every level.\<close>

fun json_wf :: "json \<Rightarrow> bool" where
  "json_wf (JList js) = (\<forall>j \<in> set js. json_wf j)"
| "json_wf (JObj kvs) = (distinct (map fst kvs) \<and> (\<forall>p \<in> set kvs. json_wf (snd p)))"
| "json_wf _ = True"

text \<open>The value with the keys of every dictionary in ascending order.\<close>

fun json_canon :: "json \<Rightarrow> json" where
  "json_canon (JList js) = JList (map json_canon js)"
| "json_canon (JObj kvs) = JObj (sort_key fst (map (\<lambda>p. (fst p, json_canon (snd p))) kvs))"
| "json_canon j = j"

section \<open>Printing\<close>

definition digit_char :: "nat \<Rightarrow> char" where
  "digit_char n = chr (48 + n)"

fun nat_repr :: "nat \<Rightarrow> string" where
  "nat_repr n = (if n < 10 then [digit_char n] else nat_repr (n div 10) @ [digit_char (n mod 10)])"

declare nat_repr.simps [simp del]

definition int_repr :: "int \<Rightarrow> string" where
  "int_repr i = (if i < 0 then CHR ''-'' # nat_repr (nat (- i)) else nat_repr (nat i))"

definition hex_char :: "nat \<Rightarrow> char" where
  "hex_char n = (if n < 10 then chr (48 + n) else chr (87 + n))"

text \<open>
  \<^verbatim>\<open>ESCAPE_ASCII\<close>: quotation mark and backslash, the five short escapes, \<^verbatim>\<open>\u00xx\<close> for every
  other character outside space to tilde.
\<close>

definition escape_char :: "char \<Rightarrow> string" where
  "escape_char c =
     (if code c = 34 then [chr 92, chr 34]
      else if code c = 92 then [chr 92, chr 92]
      else if code c = 8 then [chr 92, CHR ''b'']
      else if code c = 9 then [chr 92, CHR ''t'']
      else if code c = 10 then [chr 92, CHR ''n'']
      else if code c = 12 then [chr 92, CHR ''f'']
      else if code c = 13 then [chr 92, CHR ''r'']
      else if 32 \<le> code c \<and> code c \<le> 126 then [c]
      else [chr 92, CHR ''u'', CHR ''0'', CHR ''0'', hex_char (code c div 16), hex_char (code c mod 16)])"

definition quote :: "string \<Rightarrow> string" where
  "quote s = chr 34 # concat (map escape_char s) @ [chr 34]"

fun json_dumps :: "json \<Rightarrow> string" where
  "json_dumps JNull = ''null''"
| "json_dumps (JBool b) = (if b then ''true'' else ''false'')"
| "json_dumps (JInt i) = int_repr i"
| "json_dumps (JStr s) = quote s"
| "json_dumps (JList js) = ''['' @ join '','' (map json_dumps js) @ '']''"
| "json_dumps (JObj kvs) =
     ''{'' @ join '','' (map (\<lambda>p. quote (fst p) @ '':'' @ json_dumps (snd p)) (sort_key fst kvs)) @ ''}''"

section \<open>Loading\<close>

definition is_json_ws :: "char \<Rightarrow> bool" where
  "is_json_ws c \<longleftrightarrow> code c \<in> {9, 10, 13, 32}"

definition skip_ws :: "string \<Rightarrow> string" where
  "skip_ws s = dropWhile is_json_ws s"

definition hex_value :: "char \<Rightarrow> nat option" where
  "hex_value c =
     (if is_digit c then Some (code c - 48)
      else if 97 \<le> code c \<and> code c \<le> 102 then Some (code c - 87)
      else if 65 \<le> code c \<and> code c \<le> 70 then Some (code c - 55)
      else None)"

text \<open>
  The body of a string after its opening quotation mark. An escape beyond Latin-1 has no
  \<^typ>\<open>char\<close> and is refused.
\<close>

definition simple_escape :: "char \<Rightarrow> char option" where
  "simple_escape e =
     (if code e = 34 \<or> code e = 92 \<or> code e = 47 then Some e
      else if e = CHR ''b'' then Some (chr 8)
      else if e = CHR ''f'' then Some (chr 12)
      else if e = CHR ''n'' then Some (chr 10)
      else if e = CHR ''r'' then Some (chr 13)
      else if e = CHR ''t'' then Some (chr 9)
      else None)"

definition hex4_value :: "char \<Rightarrow> char \<Rightarrow> char \<Rightarrow> char \<Rightarrow> char option" where
  "hex4_value a b c d =
     (case (hex_value a, hex_value b, hex_value c, hex_value d) of
        (Some x, Some y, Some z, Some w) \<Rightarrow>
          (let n = 4096 * x + 256 * y + 16 * z + w in if n < 256 then Some (chr n) else None)
      | _ \<Rightarrow> None)"

fun parse_string :: "string \<Rightarrow> (string \<times> string) option" where
  "parse_string [] = None"
| "parse_string (c # s) =
     (if code c = 34 then Some ([], s)
      else if code c = 92 then
        (case s of
           [] \<Rightarrow> None
         | e # s1 \<Rightarrow>
             (if e = CHR ''u'' then
                (case s1 of
                   h1 # h2 # h3 # h4 # s2 \<Rightarrow>
                     (case hex4_value h1 h2 h3 h4 of
                        None \<Rightarrow> None
                      | Some ch \<Rightarrow> map_option (\<lambda>(t, r). (ch # t, r)) (parse_string s2))
                 | _ \<Rightarrow> None)
              else
                (case simple_escape e of
                   None \<Rightarrow> None
                 | Some ch \<Rightarrow> map_option (\<lambda>(t, r). (ch # t, r)) (parse_string s1))))
      else if code c < 32 then None
      else map_option (\<lambda>(t, r). (c # t, r)) (parse_string s))"

definition digits_value :: "string \<Rightarrow> nat" where
  "digits_value ds = foldl (\<lambda>n d. 10 * n + (code d - 48)) 0 ds"

text \<open>\<^verbatim>\<open>-?(0|[1-9][0-9]*)\<close>; a fraction or an exponent after it would be a float.\<close>

definition starts_fraction :: "string \<Rightarrow> bool" where
  "starts_fraction s = (case s of [] \<Rightarrow> False | c # _ \<Rightarrow> c = CHR ''.'' \<or> c = CHR ''e'' \<or> c = CHR ''E'')"

definition parse_nat :: "string \<Rightarrow> (nat \<times> string) option" where
  "parse_nat s =
     (case s of
        [] \<Rightarrow> None
      | c # r \<Rightarrow>
          if c = CHR ''0'' then (if starts_fraction r then None else Some (0, r))
          else if is_digit c then
            (let rest = dropWhile is_digit s in
             if starts_fraction rest then None else Some (digits_value (takeWhile is_digit s), rest))
          else None)"

definition parse_number :: "string \<Rightarrow> (json \<times> string) option" where
  "parse_number s =
     (case s of
        [] \<Rightarrow> None
      | c # r \<Rightarrow>
          if c = CHR ''-'' then map_option (\<lambda>(n, t). (JInt (- int n), t)) (parse_nat r)
          else map_option (\<lambda>(n, t). (JInt (int n), t)) (parse_nat s))"

definition parse_literal :: "string \<Rightarrow> json \<Rightarrow> string \<Rightarrow> (json \<times> string) option" where
  "parse_literal w j s = (if starts_with w s then Some (j, drop (length w) s) else None)"

text \<open>Each call of the three parsers spends one unit of fuel.\<close>

fun parse_value :: "nat \<Rightarrow> string \<Rightarrow> (json \<times> string) option"
and parse_elems :: "nat \<Rightarrow> string \<Rightarrow> (json list \<times> string) option"
and parse_members :: "nat \<Rightarrow> string \<Rightarrow> ((string \<times> json) list \<times> string) option" where
  "parse_value 0 s = None"
| "parse_value (Suc f) s =
     (case s of
        [] \<Rightarrow> None
      | c # r \<Rightarrow>
          if code c = 34 then map_option (\<lambda>(t, u). (JStr t, u)) (parse_string r)
          else if c = CHR ''['' then
            (case skip_ws r of
               [] \<Rightarrow> None
             | d # r1 \<Rightarrow>
                 if d = CHR '']'' then Some (JList [], r1)
                 else map_option (\<lambda>(js, u). (JList js, u)) (parse_elems f (d # r1)))
          else if c = CHR ''{'' then
            (case skip_ws r of
               [] \<Rightarrow> None
             | d # r1 \<Rightarrow>
                 if d = CHR ''}'' then Some (JObj [], r1)
                 else map_option (\<lambda>(kvs, u). (JObj (foldl (\<lambda>d p. dict_set (fst p) (snd p) d) [] kvs), u))
                        (parse_members f (d # r1)))
          else if c = CHR ''n'' then parse_literal ''null'' JNull s
          else if c = CHR ''t'' then parse_literal ''true'' (JBool True) s
          else if c = CHR ''f'' then parse_literal ''false'' (JBool False) s
          else parse_number s)"
| "parse_elems 0 s = None"
| "parse_elems (Suc f) s =
     (case parse_value f s of
        None \<Rightarrow> None
      | Some (j, r) \<Rightarrow>
          (case skip_ws r of
             [] \<Rightarrow> None
           | c # r1 \<Rightarrow>
               if c = CHR '','' then map_option (\<lambda>(js, u). (j # js, u)) (parse_elems f (skip_ws r1))
               else if c = CHR '']'' then Some ([j], r1)
               else None))"
| "parse_members 0 s = None"
| "parse_members (Suc f) s =
     (case s of
        [] \<Rightarrow> None
      | q # s0 \<Rightarrow>
          if code q \<noteq> 34 then None
          else
            (case parse_string s0 of
               None \<Rightarrow> None
             | Some (k, r) \<Rightarrow>
                 (case skip_ws r of
                    [] \<Rightarrow> None
                  | c # r1 \<Rightarrow>
                      if c \<noteq> CHR '':'' then None
                      else
                        (case parse_value f (skip_ws r1) of
                           None \<Rightarrow> None
                         | Some (j, r2) \<Rightarrow>
                             (case skip_ws r2 of
                                [] \<Rightarrow> None
                              | d # r3 \<Rightarrow>
                                  if d = CHR '','' then
                                    map_option (\<lambda>(kvs, u). ((k, j) # kvs, u)) (parse_members f (skip_ws r3))
                                  else if d = CHR ''}'' then Some ([(k, j)], r3)
                                  else None)))))"

definition load_fuel :: "string \<Rightarrow> nat" where
  "load_fuel s = 2 * length s + 2"

definition json_loads :: "string \<Rightarrow> json option" where
  "json_loads s =
     (case parse_value (load_fuel s) (skip_ws s) of
        None \<Rightarrow> None
      | Some (j, r) \<Rightarrow> if skip_ws r = [] then Some j else None)"

section \<open>Decimal numerals\<close>

lemma is_digit_digit_char [simp]: "n < 10 \<Longrightarrow> is_digit (digit_char n)"
  by (simp add: is_digit_def digit_char_def)

lemma digit_value_digit_char [simp]: "n < 10 \<Longrightarrow> code (digit_char n) - 48 = n"
  by (simp add: digit_char_def)

lemma nat_repr_digits: "\<forall>c \<in> set (nat_repr n). is_digit c"
proof (induction n rule: nat_repr.induct)
  case (1 n)
  then show ?case by (subst nat_repr.simps) auto
qed

lemma nat_repr_not_Nil [simp]: "nat_repr n \<noteq> []"
  by (subst nat_repr.simps) simp

lemma digits_value_snoc: "digits_value (ds @ [d]) = 10 * digits_value ds + (code d - 48)"
  by (simp add: digits_value_def)

lemma digits_value_nat_repr [simp]: "digits_value (nat_repr n) = n"
proof (induction n rule: nat_repr.induct)
  case (1 n)
  show ?case
  proof (cases "n < 10")
    case True
    then show ?thesis
      by (subst nat_repr.simps) (simp add: digits_value_def)
  next
    case False
    with 1 show ?thesis
      by (subst nat_repr.simps) (simp add: digits_value_snoc)
  qed
qed

lemma hd_nat_repr: "hd (nat_repr n) = CHR ''0'' \<longleftrightarrow> n = 0"
proof (induction n rule: nat_repr.induct)
  case (1 n)
  show ?case
  proof (cases "n < 10")
    case True
    then have "digit_char n = CHR ''0'' \<longleftrightarrow> n = 0"
      by (auto simp: digit_char_def chr_eq_iff)
    then show ?thesis
      using True by (subst nat_repr.simps) simp
  next
    case False
    with 1 show ?thesis by (subst nat_repr.simps) simp
  qed
qed

lemma nat_repr_0: "nat_repr 0 = ''0''"
  by (subst nat_repr.simps) (simp add: digit_char_def chr_eq_iff)

text \<open>What may follow a numeral in a printed value: no digit, no fraction, no exponent.\<close>

definition delim :: "string \<Rightarrow> bool" where
  "delim s = (case s of [] \<Rightarrow> True | c # _ \<Rightarrow> \<not> is_digit c \<and> \<not> starts_fraction s)"

lemma delim_Nil [simp]: "delim []"
  by (simp add: delim_def)

lemma delim_not_fraction: "delim s \<Longrightarrow> \<not> starts_fraction s"
  by (auto simp: delim_def starts_fraction_def split: list.splits)

lemma parse_nat_nat_repr:
  assumes "delim rest"
  shows "parse_nat (nat_repr n @ rest) = Some (n, rest)"
proof (cases "n = 0")
  case True
  then show ?thesis
    using assms by (simp add: parse_nat_def nat_repr_0 delim_not_fraction)
next
  case False
  obtain c r where cr: "nat_repr n = c # r"
    by (metis list.exhaust nat_repr_not_Nil)
  have "c \<noteq> CHR ''0''"
    using hd_nat_repr [of n] False cr by simp
  moreover have digits: "\<forall>d \<in> set (nat_repr n). is_digit d"
    by (rule nat_repr_digits)
  moreover have "takeWhile is_digit rest = []"
    using assms by (auto simp: delim_def split: list.splits)
  moreover have "dropWhile is_digit rest = rest"
    using assms by (auto simp: delim_def split: list.splits)
  moreover have "digits_value (c # r) = n"
    using digits_value_nat_repr [of n] cr by simp
  ultimately show ?thesis
    using assms cr
    by (simp add: parse_nat_def takeWhile_append2 dropWhile_append2 delim_not_fraction)
qed

lemma parse_number_int_repr:
  assumes "delim rest"
  shows "parse_number (int_repr i @ rest) = Some (JInt i, rest)"
proof (cases "i < 0")
  case True
  then show ?thesis
    using assms by (simp add: parse_number_def int_repr_def parse_nat_nat_repr)
next
  case False
  obtain c r where cr: "nat_repr (nat i) = c # r"
    by (metis list.exhaust nat_repr_not_Nil)
  then have "is_digit c"
    using nat_repr_digits [of "nat i"] by simp
  then have "c \<noteq> CHR ''-''"
    by (auto simp: is_digit_def)
  then show ?thesis
    using False cr parse_nat_nat_repr [OF assms, of "nat i"]
    by (simp add: parse_number_def int_repr_def)
qed

section \<open>Strings\<close>

lemma hex_value_hex_char [simp]: "n < 16 \<Longrightarrow> hex_value (hex_char n) = Some n"
  by (auto simp: hex_value_def hex_char_def is_digit_def)

lemma hex_value_0 [simp]: "hex_value CHR ''0'' = Some 0"
  by (simp add: hex_value_def is_digit_def)

lemma hex4_value_escape [simp]:
  "hex4_value CHR ''0'' CHR ''0'' (hex_char (code c div 16)) (hex_char (code c mod 16)) = Some c"
proof -
  have "code c div 16 < 16"
    using code_less [of c] by arith
  moreover have "code c mod 16 < 16" by simp
  moreover have "16 * (code c div 16) + code c mod 16 = code c" by simp
  ultimately show ?thesis by (simp add: hex4_value_def)
qed

lemma simple_escape_simps [simp]:
  "simple_escape (chr 34) = Some (chr 34)"
  "simple_escape (chr 92) = Some (chr 92)"
  "simple_escape CHR ''b'' = Some (chr 8)"
  "simple_escape CHR ''t'' = Some (chr 9)"
  "simple_escape CHR ''n'' = Some (chr 10)"
  "simple_escape CHR ''f'' = Some (chr 12)"
  "simple_escape CHR ''r'' = Some (chr 13)"
  by (simp_all add: simple_escape_def chr_eq_iff)

lemma chr_not_u [simp]: "chr 34 \<noteq> CHR ''u''" "chr 92 \<noteq> CHR ''u''"
  by (simp_all add: chr_eq_iff)

lemma parse_string_escape:
  "parse_string (escape_char c @ s) = map_option (\<lambda>(t, r). (c # t, r)) (parse_string s)"
proof -
  have eq: "c = chr n" if "code c = n" for n
    using that by (metis chr_code)
  consider "code c = 34" | "code c = 92" | "code c = 8" | "code c = 9" | "code c = 10"
    | "code c = 12" | "code c = 13"
    | "code c \<notin> {34, 92, 8, 9, 10, 12, 13}" "32 \<le> code c \<and> code c \<le> 126"
    | "code c \<notin> {34, 92, 8, 9, 10, 12, 13}" "\<not> (32 \<le> code c \<and> code c \<le> 126)"
    by auto
  then show ?thesis
    by cases (use eq in \<open>auto simp: escape_char_def\<close>)
qed

lemma parse_string_quote:
  "parse_string (concat (map escape_char s) @ chr 34 # rest) = Some (s, rest)"
  by (induction s) (auto simp: parse_string_escape)

section \<open>Loading a printed value\<close>

lemma not_ws [simp]:
  "\<not> is_json_ws CHR '',''" "\<not> is_json_ws CHR '':''" "\<not> is_json_ws CHR '']''"
  "\<not> is_json_ws CHR ''}''" "\<not> is_json_ws (chr 34)" "\<not> is_json_ws CHR ''[''" "\<not> is_json_ws CHR ''{''"
  by (simp_all add: is_json_ws_def chr_eq_iff)

lemma skip_ws_Cons [simp]: "\<not> is_json_ws c \<Longrightarrow> skip_ws (c # s) = c # s"
  by (simp add: skip_ws_def)

lemma skip_ws_Nil [simp]: "skip_ws [] = []"
  by (simp add: skip_ws_def)

lemma length_skip_ws [simp]: "length (skip_ws s) \<le> length s"
  by (simp add: skip_ws_def length_dropWhile_le)

text \<open>The first character of a numeral, and of any printed value.\<close>

lemma int_repr_first:
  obtains c r where "int_repr i = c # r" and "c = CHR ''-'' \<or> is_digit c"
proof (cases "i < 0")
  case True
  then show ?thesis using that by (simp add: int_repr_def)
next
  case False
  obtain c r where "nat_repr (nat i) = c # r"
    by (metis list.exhaust nat_repr_not_Nil)
  moreover then have "is_digit c"
    using nat_repr_digits [of "nat i"] by simp
  ultimately show ?thesis using that False by (simp add: int_repr_def)
qed

lemma number_first:
  assumes "c = CHR ''-'' \<or> is_digit c"
  shows "\<not> is_json_ws c" "c \<noteq> CHR '']''" "code c \<noteq> 34" "c \<noteq> CHR ''[''" "c \<noteq> CHR ''{''"
    "c \<noteq> CHR ''n''" "c \<noteq> CHR ''t''" "c \<noteq> CHR ''f''"
  using assms by (auto simp: is_digit_def is_json_ws_def)

lemma json_dumps_first:
  "\<exists>c r. json_dumps j = c # r \<and> \<not> is_json_ws c \<and> c \<noteq> CHR '']''"
proof (cases j)
  case (JInt i)
  then show ?thesis by (metis int_repr_first json_dumps.simps(3) number_first(1,2))
next
  case (JStr s)
  have "chr 34 \<noteq> CHR '']''" by (simp add: chr_eq_iff)
  with JStr show ?thesis by (auto simp: quote_def)
qed (auto simp: is_json_ws_def)

lemma json_dumps_nonempty: "1 \<le> length (json_dumps j)"
  using json_dumps_first [of j] by auto

lemma delim_closers [simp]: "delim (CHR '','' # s)" "delim (CHR '']'' # s)" "delim (CHR ''}'' # s)"
  by (simp_all add: delim_def starts_fraction_def is_digit_def)

lemma parse_elems_join:
  assumes "\<And>j f rest. j \<in> set js \<Longrightarrow> 2 * length (json_dumps j) \<le> f \<Longrightarrow> delim rest \<Longrightarrow>
             parse_value f (json_dumps j @ rest) = Some (g j, rest)"
    and "js \<noteq> []" and "2 * length (join '','' (map json_dumps js)) + 1 \<le> f"
  shows "parse_elems f (join '','' (map json_dumps js) @ CHR '']'' # rest) = Some (map g js, rest)"
  using assms
proof (induction js arbitrary: f)
  case (Cons j js)
  obtain f' where f: "f = Suc f'"
    using Cons.prems(3) by (cases f) auto
  show ?case
  proof (cases js)
    case Nil
    then show ?thesis
      using Cons.prems f by simp
  next
    case js: (Cons k ks)
    let ?body = "join '','' (map json_dumps js)"
    have split: "join '','' (map json_dumps (j # js)) = json_dumps j @ CHR '','' # ?body"
      using js by simp
    have first: "skip_ws (?body @ CHR '']'' # rest) = ?body @ CHR '']'' # rest"
      using json_dumps_first [of k] js by (cases ks) auto
    have "parse_value f' (json_dumps j @ CHR '','' # ?body @ CHR '']'' # rest) =
        Some (g j, CHR '','' # ?body @ CHR '']'' # rest)"
      using Cons.prems f split by (intro Cons.prems(1)) auto
    moreover have "parse_elems f' (?body @ CHR '']'' # rest) = Some (map g js, rest)"
      using Cons.prems f split js by (intro Cons.IH) auto
    ultimately show ?thesis
      using f split first by simp
  qed
qed simp

text \<open>One printed member of a dictionary.\<close>

definition member_text :: "string \<times> json \<Rightarrow> string" where
  "member_text p = quote (fst p) @ '':'' @ json_dumps (snd p)"

lemma parse_members_join:
  assumes "\<And>p f rest. p \<in> set kvs \<Longrightarrow> 2 * length (json_dumps (snd p)) \<le> f \<Longrightarrow> delim rest \<Longrightarrow>
             parse_value f (json_dumps (snd p) @ rest) = Some (g (snd p), rest)"
    and "kvs \<noteq> []" and "2 * length (join '','' (map member_text kvs)) + 1 \<le> f"
  shows "parse_members f (join '','' (map member_text kvs) @ CHR ''}'' # rest) =
           Some (map (\<lambda>p. (fst p, g (snd p))) kvs, rest)"
  using assms
proof (induction kvs arbitrary: f)
  case (Cons p kvs)
  obtain f' where f: "f = Suc f'"
    using Cons.prems(3) by (cases f) auto
  obtain c r where cr: "json_dumps (snd p) = c # r" "\<not> is_json_ws c"
    using json_dumps_first by blast
  show ?case
  proof (cases kvs)
    case Nil
    have "parse_value f' (json_dumps (snd p) @ CHR ''}'' # rest) = Some (g (snd p), CHR ''}'' # rest)"
      using Cons.prems f Nil by (intro Cons.prems(1)) (auto simp: member_text_def)
    then show ?thesis
      using f Nil cr by (simp add: member_text_def quote_def parse_string_quote)
  next
    case kvs: (Cons q qs)
    let ?body = "join '','' (map member_text kvs)"
    have split: "join '','' (map member_text (p # kvs)) = member_text p @ CHR '','' # ?body"
      using kvs by simp
    have first: "skip_ws (?body @ CHR ''}'' # rest) = ?body @ CHR ''}'' # rest"
      using kvs by (cases qs) (auto simp: member_text_def quote_def)
    have "parse_value f' (json_dumps (snd p) @ CHR '','' # ?body @ CHR ''}'' # rest) =
        Some (g (snd p), CHR '','' # ?body @ CHR ''}'' # rest)"
      using Cons.prems(3) f split by (intro Cons.prems(1)) (auto simp: member_text_def [of p] simp del: join.simps)
    moreover have "parse_members f' (?body @ CHR ''}'' # rest) =
        Some (map (\<lambda>p. (fst p, g (snd p))) kvs, rest)"
      using Cons.prems f split kvs by (intro Cons.IH) auto
    moreover have "member_text p = chr 34 # concat (map escape_char (fst p)) @ chr 34 # CHR '':'' # c # r"
      using cr by (simp add: member_text_def quote_def)
    ultimately show ?thesis
      using f first cr unfolding split by (simp add: parse_string_quote)
  qed
qed simp

lemma foldl_dict_set_distinct:
  "distinct (map fst (acc @ kvs)) \<Longrightarrow>
     foldl (\<lambda>d p. dict_set (fst p) (snd p) d) acc kvs = acc @ kvs"
proof (induction kvs arbitrary: acc)
  case (Cons p kvs)
  then have "dict_set (fst p) (snd p) acc = acc @ [p]"
    by (auto simp: dict_set_fresh)
  then show ?case
    using Cons.IH [of "acc @ [p]"] Cons.prems by simp
qed simp

lemma insort_key_map:
  "(\<And>x. f (g x) = h x) \<Longrightarrow> insort_key f (g x) (map g xs) = map g (insort_key h x xs)"
  by (induction xs) auto

lemma sort_key_map: "(\<And>x. f (g x) = h x) \<Longrightarrow> sort_key f (map g xs) = map g (sort_key h xs)"
  by (induction xs) (auto simp: insort_key_map)

section \<open>The round trip\<close>

lemma set_sort_key_fst: "p \<in> set (sort_key fst kvs) \<longleftrightarrow> p \<in> set kvs"
  by simp

lemma json_canon_JObj:
  "json_canon (JObj kvs) = JObj (map (\<lambda>p. (fst p, json_canon (snd p))) (sort_key fst kvs))"
  by (simp add: sort_key_map [where h = fst])

lemma distinct_fst_sort_key: "distinct (map fst kvs) \<Longrightarrow> distinct (map fst (sort_key fst kvs))"
  by (metis distinct_map distinct_sort set_sort)

lemma parse_value_dumps:
  "json_wf j \<Longrightarrow> 2 * length (json_dumps j) \<le> f \<Longrightarrow> delim rest \<Longrightarrow>
     parse_value f (json_dumps j @ rest) = Some (json_canon j, rest)"
proof (induction j arbitrary: f rest rule: json_canon.induct [case_names list object null bool int str])
  case (list js)
  obtain f' where f: "f = Suc f'" and f': "2 * length (join '','' (map json_dumps js)) + 1 \<le> f'"
    using list.prems(2) by (cases f) auto
  show ?case
  proof (cases "js = []")
    case False
    have "parse_elems f' (join '','' (map json_dumps js) @ CHR '']'' # rest) =
        Some (map json_canon js, rest)"
      using list.IH list.prems(1) False f' by (intro parse_elems_join) auto
    moreover obtain c r where cr: "join '','' (map json_dumps js) = c # r" "\<not> is_json_ws c" "c \<noteq> CHR '']''"
      using json_dumps_first [of "hd js"] False by (cases js; cases "tl js") auto
    ultimately show ?thesis
      using f by simp
  qed (use f in simp)
next
  case (object kvs)
  let ?kvs = "sort_key fst kvs"
  have dump: "json_dumps (JObj kvs) = ''{'' @ join '','' (map member_text ?kvs) @ ''}''"
    by (simp add: member_text_def [abs_def])
  obtain f' where f: "f = Suc f'" and f': "2 * length (join '','' (map member_text ?kvs)) + 1 \<le> f'"
    using object.prems(2) dump by (cases f) auto
  show ?case
  proof (cases "kvs = []")
    case False
    then have ne: "?kvs \<noteq> []" by (metis set_empty set_sort)
    have "parse_members f' (join '','' (map member_text ?kvs) @ CHR ''}'' # rest) =
        Some (map (\<lambda>p. (fst p, json_canon (snd p))) ?kvs, rest)"
      using object.IH object.prems(1) ne f' by (intro parse_members_join) auto
    moreover have "foldl (\<lambda>d p. dict_set (fst p) (snd p) d) [] (map (\<lambda>p. (fst p, json_canon (snd p))) ?kvs) =
        map (\<lambda>p. (fst p, json_canon (snd p))) ?kvs"
      using object.prems(1) distinct_fst_sort_key [of kvs]
      by (subst foldl_dict_set_distinct) (simp_all add: comp_def)
    moreover obtain r where cr: "join '','' (map member_text ?kvs) = chr 34 # r"
      using ne by (cases ?kvs; cases "tl ?kvs") (auto simp: member_text_def quote_def)
    moreover have "chr 34 \<noteq> CHR ''}''" by (simp add: chr_eq_iff)
    ultimately show ?thesis
      using f dump by (simp del: json_dumps.simps json_canon.simps add: json_canon_JObj)
  qed (use f in simp)
next
  case (int i)
  obtain f' where f: "f = Suc f'"
    using int.prems(2) json_dumps_nonempty [of "JInt i"] by (cases f) auto
  obtain c r where "int_repr i = c # r" "c = CHR ''-'' \<or> is_digit c"
    by (rule int_repr_first)
  then show ?case
    using f number_first [of c] parse_number_int_repr [OF int.prems(3), of i] by auto
next
  case (str s)
  then obtain f' where f: "f = Suc f'" by (cases f) (auto simp: quote_def)
  then show ?case by (simp add: quote_def parse_string_quote)
qed (auto simp: parse_literal_def numeral_eq_Suc Suc_le_eq dest!: less_imp_Suc_add)

text \<open>Parsing what was printed gives the value back, with the members of every object sorted.\<close>

lemma json_loads_dumps:
  assumes "json_wf j"
  shows "json_loads (json_dumps j) = Some (json_canon j)"
proof -
  obtain c r where cr: "json_dumps j = c # r" "\<not> is_json_ws c"
    using json_dumps_first by blast
  have "parse_value (load_fuel (json_dumps j)) (json_dumps j) = Some (json_canon j, [])"
    using parse_value_dumps [OF assms, of "load_fuel (json_dumps j)" "[]"] by (simp add: load_fuel_def)
  with cr show ?thesis by (simp add: json_loads_def)
qed

lemma json_dumps_canon [simp]: "json_dumps (json_canon j) = json_dumps j"
proof (induction j rule: json_canon.induct)
  case (2 kvs)
  have "map (\<lambda>p. quote (fst p) @ '':'' @ json_dumps (snd p)) (map (\<lambda>p. (fst p, json_canon (snd p))) (sort_key fst kvs)) =
      map (\<lambda>p. quote (fst p) @ '':'' @ json_dumps (snd p)) (sort_key fst kvs)"
    using "2.IH" by auto
  moreover have "sort_key fst (map (\<lambda>p. (fst p, json_canon (snd p))) (sort_key fst kvs)) =
      map (\<lambda>p. (fst p, json_canon (snd p))) (sort_key fst kvs)"
    by (simp add: sort_key_map [where h = fst] sort_key_id_if_sorted)
  ultimately show ?case
    using json_canon_JObj [of kvs] by (simp only: json_dumps.simps)
qed (auto cong: map_cong)

lemma json_wf_canon [simp]: "json_wf j \<Longrightarrow> json_wf (json_canon j)"
  by (induction j rule: json_canon.induct) (auto simp: distinct_fst_sort_key comp_def)

text \<open>Two well-formed values print alike exactly when they agree up to the order of keys.\<close>

lemma json_dumps_inject:
  assumes "json_wf a" "json_wf b"
  shows "json_dumps a = json_dumps b \<longleftrightarrow> json_canon a = json_canon b"
  by (metis assms json_dumps_canon json_loads_dumps option.inject)

section \<open>The fuel of the loader never matters\<close>

lemma parse_string_shorter: "parse_string s = Some (t, r) \<Longrightarrow> length r < length s"
proof (induction s arbitrary: t r rule: parse_string.induct)
  case (2 c s)
  then show ?case
    by (fastforce split: if_splits list.splits option.splits simp: less_Suc_eq_le)
qed simp

lemma parse_nat_shorter: "parse_nat s = Some (n, r) \<Longrightarrow> length r < length s"
  by (auto simp: parse_nat_def Let_def less_Suc_eq_le length_dropWhile_le
      split: list.splits if_splits)

lemma parse_number_shorter: "parse_number s = Some (j, r) \<Longrightarrow> length r < length s"
  by (fastforce simp: parse_number_def dest: parse_nat_shorter split: list.splits if_splits)

lemma parse_literal_shorter: "parse_literal w j s = Some (k, r) \<Longrightarrow> w \<noteq> [] \<Longrightarrow> length r < length s"
  by (cases w) (auto simp: parse_literal_def starts_with_iff split: if_splits)

lemma skip_ws_length: "skip_ws s = c # r \<Longrightarrow> length r < length s"
  using length_skip_ws [of s] by simp

lemmas shorter_intros =
  parse_string_shorter parse_number_shorter parse_literal_shorter skip_ws_length

lemma parse_shorter:
  "parse_value f s = Some (j, r) \<Longrightarrow> length r < length s"
  "parse_elems f s = Some (js, r) \<Longrightarrow> length r < length s"
  "parse_members f s = Some (kvs, r) \<Longrightarrow> length r < length s"
proof (induction f s and f s and f s arbitrary: j r and js r and kvs r
    rule: parse_value_parse_elems_parse_members.induct)
  case (2 f s)
  show ?case
  proof (cases s)
    case s: (Cons c t)
    consider "code c = 34"
      | "c = CHR ''[''" "code c \<noteq> 34"
      | "c = CHR ''{''" "code c \<noteq> 34"
      | "code c \<noteq> 34" "c \<noteq> CHR ''[''" "c \<noteq> CHR ''{''"
      by blast
    then show ?thesis
    proof cases
      case 1
      then show ?thesis using "2.prems" s parse_string_shorter [of t] by (auto simp: less_Suc_eq)
    next
      case 2
      then obtain d u where du: "skip_ws t = d # u"
        using "2.prems" s by (auto split: list.splits)
      note len = skip_ws_length [OF this]
      show ?thesis
      proof (cases "d = CHR '']''")
        case True
        then show ?thesis using "2.prems" 2 s du len by auto
      next
        case False
        then obtain js' where "parse_elems f (d # u) = Some (js', r)"
          using "2.prems" 2 s du by auto
        with "2.IH"(1) [of c t d u js' r] 2 s du False len show ?thesis by auto
      qed
    next
      case 3
      then obtain d u where du: "skip_ws t = d # u"
        using "2.prems" s by (auto split: list.splits)
      note len = skip_ws_length [OF this]
      show ?thesis
      proof (cases "d = CHR ''}''")
        case True
        then show ?thesis using "2.prems" 3 s du len by auto
      next
        case False
        then obtain kvs' where "parse_members f (d # u) = Some (kvs', r)"
          using "2.prems" 3 s du by auto
        with "2.IH"(2) [of c t d u kvs' r] 3 s du False len show ?thesis by auto
      qed
    next
      case 4
      then show ?thesis
        using "2.prems" s
        by (auto split: if_splits dest: parse_literal_shorter parse_number_shorter)
    qed
  qed (use 2 in simp)
next
  case (4 f s)
  from "4.prems" obtain j t c u where v: "parse_value f s = Some (j, t)" "skip_ws t = c # u"
    by (auto split: option.splits list.splits)
  have t: "length t < length s" using "4.IH"(1) v(1) by blast
  note u = skip_ws_length [OF v(2)]
  show ?case
  proof (cases "c = CHR '',''")
    case True
    then obtain js' where rest: "parse_elems f (skip_ws u) = Some (js', r)"
      using "4.prems" v by auto
    have "length r < length (skip_ws u)"
      using "4.IH"(2) [OF v(1) refl v(2) True rest] .
    with t u length_skip_ws [of u] show ?thesis by linarith
  next
    case False
    then show ?thesis using "4.prems" v t u by (auto split: if_splits)
  qed
next
  case (6 f s)
  from "6.prems" obtain q s0 k t c u j x d y where v: "s = q # s0" "code q = 34"
    "parse_string s0 = Some (k, t)" "skip_ws t = c # u" "c = CHR '':''"
    "parse_value f (skip_ws u) = Some (j, x)" "skip_ws x = d # y"
    by (auto split: option.splits list.splits if_splits)
  have x: "length x < length (skip_ws u)"
    using "6.IH"(1) [of q s0 _ k t c u j x] v by auto
  note lens = parse_string_shorter [OF v(3)] skip_ws_length [OF v(4)] x skip_ws_length [OF v(7)]
    length_skip_ws [of u] length_skip_ws [of y]
  show ?case
  proof (cases "d = CHR '',''")
    case True
    then obtain kvs' where rest: "parse_members f (skip_ws y) = Some (kvs', r)"
      using "6.prems" v by auto
    have "length r < length (skip_ws y)"
      using "6.IH"(2) [of q s0 _ k t c u _ j x d y kvs' r] v True rest by auto
    moreover have "length s = Suc (length s0)" using v(1) by simp
    ultimately show ?thesis using lens by linarith
  next
    case False
    then have "length r = length y" using "6.prems" v by (auto split: if_splits)
    moreover have "length s = Suc (length s0)" using v(1) by simp
    ultimately show ?thesis using lens by linarith
  qed
qed simp_all

lemma parse_fuel:
  "2 * length s + 1 \<le> f \<Longrightarrow> parse_value (Suc f) s = parse_value f s"
  "2 * length s + 2 \<le> f \<Longrightarrow> parse_elems (Suc f) s = parse_elems f s"
  "2 * length s + 2 \<le> f \<Longrightarrow> parse_members (Suc f) s = parse_members f s"
proof (induction f arbitrary: s)
  case (Suc f)
  {
    case 1
    show ?case
    proof (cases s)
      case s: (Cons c t)
      show ?thesis
      proof (cases "skip_ws t")
        case Nil
        then show ?thesis using s by simp
      next
        case t: (Cons d u)
        then have "2 * length (d # u) + 2 \<le> f"
          using 1 s skip_ws_length [of t d u] by simp
        then have "parse_elems (Suc f) (d # u) = parse_elems f (d # u)"
          "parse_members (Suc f) (d # u) = parse_members f (d # u)"
          by (blast intro: Suc.IH(2,3))+
        then show ?thesis
          unfolding parse_value.simps(2) [of "Suc f"] parse_value.simps(2) [of f] s list.case t
          by simp
      qed
    qed simp
  next
    case 2
    then have v: "parse_value (Suc f) s = parse_value f s"
      by (intro Suc.IH(1)) simp
    have r: "parse_elems (Suc f) (skip_ws u) = parse_elems f (skip_ws u)"
      if "parse_value f s = Some (j, t)" "skip_ws t = c # u" for j t c u
      using 2 parse_shorter(1) [OF that(1)] skip_ws_length [OF that(2)] length_skip_ws [of u]
      by (intro Suc.IH(2)) linarith
    show ?case
    proof (cases "parse_value f s")
      case Some
      then obtain j t where jt: "parse_value f s = Some (j, t)" by (cases "parse_value f s") auto
      show ?thesis
        unfolding parse_elems.simps(2) [of "Suc f"] parse_elems.simps(2) [of f] v jt
        using r [OF jt] by (simp split: list.split)
    qed (simp add: v parse_elems.simps(2) del: parse_value.simps)
  next
    case 3
    show ?case
    proof (cases "\<exists>q s0 k t c u. s = q # s0 \<and> parse_string s0 = Some (k, t) \<and> skip_ws t = c # u")
      case True
      then obtain q s0 k t c u where s: "s = q # s0" and k: "parse_string s0 = Some (k, t)"
        and u: "skip_ws t = c # u" by blast
      note lens = parse_string_shorter [OF k] skip_ws_length [OF u] length_skip_ws [of u]
      have n: "length s = Suc (length s0)" using s by simp
      have v: "parse_value (Suc f) (skip_ws u) = parse_value f (skip_ws u)"
        using 3 lens n by (intro Suc.IH(1)) linarith
      have r: "parse_members (Suc f) (skip_ws y) = parse_members f (skip_ws y)"
        if "parse_value f (skip_ws u) = Some (j, x)" "skip_ws x = d # y" for j x d y
        using 3 lens n parse_shorter(1) [OF that(1)] skip_ws_length [OF that(2)] length_skip_ws [of y]
        by (intro Suc.IH(3)) linarith
      show ?thesis
        unfolding parse_members.simps(2) [of "Suc f"] parse_members.simps(2) [of f] s list.case k
          option.case prod.case u v
        using r by (simp split: list.split option.split)
    next
      case False
      then show ?thesis
        unfolding parse_members.simps(2) [of "Suc f"] parse_members.simps(2) [of f]
        by (cases s; cases "parse_string (tl s)"; cases "skip_ws (snd (the (parse_string (tl s))))")
          (auto simp del: parse_value.simps parse_members.simps)
    qed
  }
qed simp_all

lemma load_fuel_irrelevant:
  "load_fuel s \<le> f \<Longrightarrow> parse_value f (skip_ws s) = parse_value (load_fuel s) (skip_ws s)"
proof (induction f rule: dec_induct)
  case (step n)
  have "2 * length (skip_ws s) + 1 \<le> n"
    using step.hyps length_skip_ws [of s] unfolding load_fuel_def by linarith
  then have "parse_value (Suc n) (skip_ws s) = parse_value n (skip_ws s)"
    by (rule parse_fuel(1))
  with step.IH show ?case by (simp only:)
qed simp

end
