(* ===== verification/Redaction.thy ===== *)
theory Redaction
  imports Json
begin

text \<open>
  \<^verbatim>\<open>src/ophelia/redaction.py\<close>: the recognisers of sensitive keys and of credential-shaped values,
  the scrubber of command strings (with \<^verbatim>\<open>shlex.split\<close> and \<^verbatim>\<open>shlex.quote\<close>), the shallow
  \<^verbatim>\<open>redact_mapping\<close> and the recursive \<^verbatim>\<open>deep_redact\<close>. Payloads are JSON values. The theory
  proves that a quoted command splits back into its words, what every word of a scrubbed command
  can be, and where a scalar may survive a recursive redaction.
\<close>

section \<open>Recognisers\<close>

definition REDACTED :: string where
  "REDACTED = ''<redacted>''"

definition SENSITIVE_KEY_PATTERNS :: "string list" where
  "SENSITIVE_KEY_PATTERNS =
     [''SECRET'', ''TOKEN'', ''PASSWORD'', ''PRIVATE_KEY'', ''DATABASE_URL'', ''REDIS_URL'',
      ''API_KEY'', ''CREDENTIAL'']"

definition SECRET_VALUE_PREFIXES :: "string list" where
  "SECRET_VALUE_PREFIXES =
     [''postgres://'', ''postgresql://'', ''redis://'', ''rediss://'', ''mysql://'',
      ''mongodb://'', ''amqp://'', ''amqps://'']"

definition COMMAND_STRING_KEYS :: "string list" where
  "COMMAND_STRING_KEYS = [''command'', ''commands'', ''exact_command'', ''recommended_command'']"

definition SENSITIVE_COMMAND_FLAGS :: "string list" where
  "SENSITIVE_COMMAND_FLAGS =
     [''password'', ''passwd'', ''secret'', ''token'', ''api-key'', ''apikey'', ''private-key'',
      ''private_key'', ''database-url'', ''database_url'', ''redis-url'', ''redis_url'']"

definition is_sensitive_key :: "string \<Rightarrow> bool" where
  "is_sensitive_key name = list_ex (\<lambda>pat. contains_sub pat (upper name)) SENSITIVE_KEY_PATTERNS"

text \<open>\<^verbatim>\<open>s.split("://", 1)[1]\<close> where the separator occurs.\<close>

fun after_scheme :: "string \<Rightarrow> string option" where
  "after_scheme [] = None"
| "after_scheme (c # cs) =
     (if starts_with ''://'' (c # cs) then Some (drop 3 (c # cs)) else after_scheme cs)"

definition looks_like_secret_text :: "string \<Rightarrow> bool" where
  "looks_like_secret_text value =
     (let candidate = strip value in
      if candidate = [] then False
      else if list_ex (\<lambda>prefix. starts_with prefix (lower candidate)) SECRET_VALUE_PREFIXES then True
      else (case after_scheme candidate of
              None \<Rightarrow> False
            | Some rest \<Rightarrow>
                (let authority = fst (split_first CHR ''/'' rest) in
                 CHR ''@'' \<in> set authority \<and> CHR '':'' \<in> set (fst (split_first CHR ''@'' authority)))))"

definition looks_like_secret_value :: "json \<Rightarrow> bool" where
  "looks_like_secret_value j = (case j of JStr s \<Rightarrow> looks_like_secret_text s | _ \<Rightarrow> False)"

definition looks_like_command_key :: "string option \<Rightarrow> bool" where
  "looks_like_command_key name =
     (case name of
        None \<Rightarrow> False
      | Some n \<Rightarrow>
          (let lowered = lower n in
           lowered \<in> set COMMAND_STRING_KEYS \<or> ends_with ''_command'' lowered \<or> ends_with ''_commands'' lowered))"

section \<open>Shell words\<close>

text \<open>
  \<^verbatim>\<open>shlex.split(command)\<close>: POSIX mode, splitting on whitespace only, no comments. The reader is
  between words, inside a bare word, inside a quoted part, or after a backslash inside a word
  (\<open>None\<close>) or inside double quotes (\<open>Some\<close> the quote). The Boolean records that the current word
  had a quoted part; the accumulated word is reversed. \<open>None\<close> is \<^verbatim>\<open>ValueError\<close>.
\<close>

datatype shlex_state = Between | Word | Quoted char | Escaped "char option"

definition shlex_space :: "char \<Rightarrow> bool" where
  "shlex_space c \<longleftrightarrow> code c \<in> {32, 9, 13, 10}"

definition is_quote :: "char \<Rightarrow> bool" where
  "is_quote c \<longleftrightarrow> code c = 39 \<or> code c = 34"

definition is_escape :: "char \<Rightarrow> bool" where
  "is_escape c \<longleftrightarrow> code c = 92"

fun shlex_words :: "shlex_state \<Rightarrow> bool \<Rightarrow> string \<Rightarrow> string \<Rightarrow> string list option" where
  "shlex_words Between q w [] = Some []"
| "shlex_words Between q w (c # cs) =
     (if shlex_space c then shlex_words Between False [] cs
      else if is_escape c then shlex_words (Escaped None) False [] cs
      else if is_quote c then shlex_words (Quoted c) True [] cs
      else shlex_words Word False [c] cs)"
| "shlex_words Word q w [] = (if w \<noteq> [] \<or> q then Some [rev w] else Some [])"
| "shlex_words Word q w (c # cs) =
     (if shlex_space c then
        (if w \<noteq> [] \<or> q then map_option (\<lambda>ws. rev w # ws) (shlex_words Between False [] cs)
         else shlex_words Between False [] cs)
      else if is_quote c then shlex_words (Quoted c) True w cs
      else if is_escape c then shlex_words (Escaped None) q w cs
      else shlex_words Word q (c # w) cs)"
| "shlex_words (Quoted d) q w [] = None"
| "shlex_words (Quoted d) q w (c # cs) =
     (if c = d then shlex_words Word True w cs
      else if is_escape c \<and> code d = 34 then shlex_words (Escaped (Some d)) True w cs
      else shlex_words (Quoted d) True (c # w) cs)"
| "shlex_words (Escaped e) q w [] = None"
| "shlex_words (Escaped e) q w (c # cs) =
     (case e of
        None \<Rightarrow> shlex_words Word q (c # w) cs
      | Some d \<Rightarrow>
          if is_escape c \<or> c = d then shlex_words (Quoted d) q (c # w) cs
          else shlex_words (Quoted d) q (c # chr 92 # w) cs)"

definition shlex_split :: "string \<Rightarrow> string list option" where
  "shlex_split s = shlex_words Between False [] s"

definition shell_safe :: "char \<Rightarrow> bool" where
  "shell_safe c \<longleftrightarrow> is_alnum c \<or> c \<in> set ''_@%+=:,./-''"

definition shlex_quote :: "string \<Rightarrow> string" where
  "shlex_quote s =
     (if s = [] then [chr 39, chr 39]
      else if list_all shell_safe s then s
      else chr 39 # concat (map (\<lambda>c. if code c = 39 then [chr 39, chr 34, chr 39, chr 34, chr 39] else [c]) s) @ [chr 39])"

section \<open>Redactors\<close>

definition sensitive_flag :: "string \<Rightarrow> bool" where
  "sensitive_flag option_name = list_ex (\<lambda>flag. contains_sub flag option_name) SENSITIVE_COMMAND_FLAGS"

definition option_name_of :: "string \<Rightarrow> string" where
  "option_name_of option = lower (dropWhile (\<lambda>c. c = CHR ''-'') option)"

text \<open>The loop over the words; the Boolean is \<^verbatim>\<open>redact_next\<close>.\<close>

fun redact_words :: "string \<Rightarrow> bool \<Rightarrow> string list \<Rightarrow> string list" where
  "redact_words marker redact_next [] = (if redact_next then [marker] else [])"
| "redact_words marker redact_next (part # parts) =
     (if redact_next then marker # redact_words marker False parts
      else
        (let option = fst (split_first CHR ''='' part);
             option_value = snd (split_first CHR ''='' part);
             option_name = option_name_of option
         in if option_value \<noteq> None \<and> sensitive_flag option_name
            then (option @ ''='' @ marker) # redact_words marker False parts
            else if option_value \<noteq> None \<and>
                    (is_sensitive_key option \<or> looks_like_secret_text (the option_value))
            then (option @ ''='' @ marker) # redact_words marker False parts
            else if starts_with ''-'' part \<and> sensitive_flag option_name
            then part # redact_words marker True parts
            else if looks_like_secret_text part
            then marker # redact_words marker False parts
            else part # redact_words marker False parts))"

definition redact_command_string :: "string \<Rightarrow> string \<Rightarrow> string" where
  "redact_command_string command marker =
     (if command = [] then command
      else
        (let parts = (case shlex_split command of Some ws \<Rightarrow> ws | None \<Rightarrow> split_ws command) in
         join '' '' (map shlex_quote (redact_words marker False parts))))"

definition redact_value :: "json \<Rightarrow> string \<Rightarrow> json" where
  "redact_value value marker =
     (if value = JNull then JNull else if value = JStr [] then JStr [] else JStr marker)"

definition redact_mapping ::
  "(string \<times> json) list \<Rightarrow> string \<Rightarrow> string list \<Rightarrow> bool \<Rightarrow> (string \<times> json) list" where
  "redact_mapping mapping marker safe_keys redact_by_value =
     map (\<lambda>(key, value).
            if key \<in> set safe_keys then (key, value)
            else if is_sensitive_key key \<or> (redact_by_value \<and> looks_like_secret_value value)
            then (key, redact_value value marker)
            else (key, value)) mapping"

text \<open>The inner \<^verbatim>\<open>_walk\<close>; \<^verbatim>\<open>safe\<close>, \<^verbatim>\<open>marker\<close> and \<^verbatim>\<open>propagate\<close> are those of the enclosing call.\<close>

fun walk :: "string \<Rightarrow> string list \<Rightarrow> bool \<Rightarrow> json \<Rightarrow> bool \<Rightarrow> string option \<Rightarrow> json" where
  "walk marker safe propagate (JObj kvs) key_is_sensitive key_name =
     JObj (map (\<lambda>p. (fst p,
       walk marker safe propagate (snd p)
         ((fst p \<notin> set safe \<and> is_sensitive_key (fst p)) \<or> (propagate \<and> key_is_sensitive))
         (Some (fst p)))) kvs)"
| "walk marker safe propagate (JList js) key_is_sensitive key_name =
     JList (map (\<lambda>j. walk marker safe propagate j key_is_sensitive key_name) js)"
| "walk marker safe propagate value key_is_sensitive key_name =
     (if key_is_sensitive then redact_value value marker
      else (case value of
              JStr s \<Rightarrow>
                if looks_like_command_key key_name then JStr (redact_command_string s marker)
                else if looks_like_secret_value value then redact_value value marker
                else value
            | _ \<Rightarrow> value))"

definition deep_redact :: "json \<Rightarrow> string \<Rightarrow> string list \<Rightarrow> bool \<Rightarrow> json" where
  "deep_redact obj marker safe_keys propagate = walk marker safe_keys propagate obj False None"

section \<open>Whitelisting redactors\<close>

definition CLOUDFLARE_SAFE_FIELDS :: "string list" where
  "CLOUDFLARE_SAFE_FIELDS =
     [''id'', ''type'', ''name'', ''content'', ''ttl'', ''proxied'', ''comment'', ''created_on'',
      ''modified_on'']"

definition redacted_cloudflare_record :: "(string \<times> json) list \<Rightarrow> (string \<times> json) list" where
  "redacted_cloudflare_record record =
     List.map_filter (\<lambda>key. map_option (\<lambda>v. (key, v)) (map_of record key)) CLOUDFLARE_SAFE_FIELDS"

definition COMPOSE_SAFE_KEYS :: "string list" where
  "COMPOSE_SAFE_KEYS = [''OPHELIA_APP'', ''OPHELIA_SERVICE'', ''PORT'']"

text \<open>\<^verbatim>\<open>str.splitlines()\<close> on ASCII: line breaks are 10 to 13 and 28 to 30, and 13 10 together.\<close>

definition is_line_break :: "char \<Rightarrow> bool" where
  "is_line_break c \<longleftrightarrow> (10 \<le> code c \<and> code c \<le> 13) \<or> (28 \<le> code c \<and> code c \<le> 30)"

fun splitlines_acc :: "string \<Rightarrow> string \<Rightarrow> string list" where
  "splitlines_acc acc [] = (if acc = [] then [] else [rev acc])"
| "splitlines_acc acc [c] = (if is_line_break c then [rev acc] else [rev (c # acc)])"
| "splitlines_acc acc (c # d # cs) =
     (if code c = 13 \<and> code d = 10 then rev acc # splitlines_acc [] cs
      else if is_line_break c then rev acc # splitlines_acc [] (d # cs)
      else splitlines_acc (c # acc) (d # cs))"

definition splitlines :: "string \<Rightarrow> string list" where
  "splitlines s = splitlines_acc [] s"

definition compose_key_masked :: "string \<Rightarrow> string \<Rightarrow> bool" where
  "compose_key_masked line key \<longleftrightarrow>
     key \<noteq> [] \<and> filter (\<lambda>c. c \<noteq> CHR ''_'') key \<noteq> [] \<and>
     list_all is_alnum (filter (\<lambda>c. c \<noteq> CHR ''_'') key) \<and>
     key \<notin> set COMPOSE_SAFE_KEYS \<and> starts_with ''      '' line"

definition redacted_compose_line :: "string \<Rightarrow> string \<Rightarrow> string" where
  "redacted_compose_line marker line =
     (case split_first CHR '':'' (strip line) of
        (key, Some _) \<Rightarrow>
          if compose_key_masked line key
          then takeWhile is_space line @ key @ '': '' @ [chr 34] @ marker @ [chr 34]
          else line
      | (_, None) \<Rightarrow> line)"

definition redacted_compose_text :: "string \<Rightarrow> string \<Rightarrow> string" where
  "redacted_compose_text content marker =
     join [chr 10] (map (redacted_compose_line marker) (splitlines content)) @ [chr 10]"

section \<open>Quoted words split back\<close>

lemma safe_not_special:
  assumes "shell_safe c"
  shows "\<not> shlex_space c" "\<not> is_quote c" "\<not> is_escape c"
  using assms
  by (auto simp: shell_safe_def shlex_space_def is_quote_def is_escape_def ascii_defs)

lemma shlex_words_safe:
  "list_all shell_safe s \<Longrightarrow> shlex_words Word q w (s @ rest) = shlex_words Word q (rev s @ w) rest"
  by (induction s arbitrary: w) (simp_all add: safe_not_special)

definition quote_inner :: "string \<Rightarrow> string" where
  "quote_inner s = concat (map (\<lambda>c. if code c = 39 then [chr 39, chr 34, chr 39, chr 34, chr 39] else [c]) s)"

lemma special_codes [simp]:
  "is_quote c \<longleftrightarrow> code c = 39 \<or> code c = 34" "is_escape c \<longleftrightarrow> code c = 92"
  "shlex_space c \<longleftrightarrow> code c \<in> {32, 9, 13, 10}"
  by (simp_all add: is_quote_def is_escape_def shlex_space_def)

lemma quote_inner_Cons:
  "quote_inner (c # s) = (if code c = 39 then [chr 39, chr 34, chr 39, chr 34, chr 39] else [c]) @ quote_inner s"
  by (simp add: quote_inner_def)

lemma eq_chr_iff: "n < 256 \<Longrightarrow> c = chr n \<longleftrightarrow> code c = n"
  by (metis chr_eq_iff)

lemma shlex_words_quoted:
  "shlex_words (Quoted (chr 39)) True w (quote_inner s @ chr 39 # rest) = shlex_words Word True (rev s @ w) rest"
proof (induction s arbitrary: w)
  case (Cons c s)
  show ?case
  proof (cases "code c = 39")
    case True
    then have c: "c = chr 39" by (simp add: eq_chr_iff)
    show ?thesis unfolding c using Cons.IH [of "chr 39 # w"] by (simp add: quote_inner_Cons chr_eq_iff)
  next
    case False
    then show ?thesis using Cons.IH [of "c # w"] by (simp add: quote_inner_Cons eq_chr_iff)
  qed
qed (simp add: quote_inner_def)

lemma shlex_words_quote:
  "\<exists>q'. shlex_words Between q w (shlex_quote s @ rest) = shlex_words Word q' (rev s) rest \<and> (s \<noteq> [] \<or> q')"
proof (cases "s \<noteq> [] \<and> list_all shell_safe s")
  case True
  then obtain c t where s: "s = c # t" by (cases s) auto
  with True have "shlex_words Between q w (shlex_quote s @ rest) = shlex_words Word False [c] (t @ rest)"
    using safe_not_special [of c] by (simp add: shlex_quote_def)
  with True s show ?thesis by (intro exI [of _ False]) (simp add: shlex_words_safe)
next
  case False
  then have "shlex_quote s = chr 39 # quote_inner s @ [chr 39]"
    by (auto simp: shlex_quote_def quote_inner_def)
  then show ?thesis
    using shlex_words_quoted [of "[]" s rest] by (intro exI [of _ True]) simp
qed

lemma shlex_split_join:
  "shlex_words Between q w (join '' '' (map shlex_quote ws)) = Some ws"
proof (induction ws arbitrary: q w)
  case (Cons v vs)
  show ?case
  proof (cases vs)
    case Nil
    obtain q' where "shlex_words Between q w (shlex_quote v @ []) = shlex_words Word q' (rev v) []"
      "v \<noteq> [] \<or> q'" using shlex_words_quote by blast
    then show ?thesis using Nil by auto
  next
    case (Cons u us)
    let ?rest = "CHR '' '' # join '' '' (map shlex_quote vs)"
    have "join '' '' (map shlex_quote (v # vs)) = shlex_quote v @ ?rest"
      using Cons by simp
    moreover obtain q' where "shlex_words Between q w (shlex_quote v @ ?rest) = shlex_words Word q' (rev v) ?rest"
      "v \<noteq> [] \<or> q'" using shlex_words_quote by blast
    ultimately show ?thesis using Cons.IH by auto
  qed
qed simp

text \<open>
  Splitting the quoted words of a command, joined by spaces, gives the words back: the scrubbed
  command a report shows denotes exactly the scrubbed argument vector.
\<close>

lemma shlex_split_quote: "shlex_split (join '' '' (map shlex_quote ws)) = Some ws"
  unfolding shlex_split_def by (rule shlex_split_join)

section \<open>What a scrubbed command keeps\<close>

lemma strip_not_space: "list_all (\<lambda>c. \<not> is_space c) s \<Longrightarrow> strip s = s"
proof -
  have "dropWhile is_space t = t" if "list_all (\<lambda>c. \<not> is_space c) t" for t
    using that by (cases t) auto
  from this [of s] this [of "rev s"] show "list_all (\<lambda>c. \<not> is_space c) s \<Longrightarrow> strip s = s"
    by (simp add: strip_def strip_left_def)
qed

lemma marker_not_secret [simp]: "\<not> looks_like_secret_text REDACTED"
  by code_simp

lemma marker_split [simp]: "split_first CHR ''='' REDACTED = (REDACTED, None)"
  by code_simp

lemma marker_no_flag [simp]: "\<not> starts_with ''-'' REDACTED"
  by code_simp

lemma split_first_append:
  "d \<notin> set l \<Longrightarrow> split_first d (l @ d # r) = (l, Some r)"
  by (induction l) auto

lemma split_first_fst: "d \<notin> set (fst (split_first d s))"
  by (induction s) (auto split: prod.splits)

lemma split_first_None: "snd (split_first d s) = None \<longleftrightarrow> d \<notin> set s"
  by (induction s) (auto split: prod.splits)

lemma split_first_marker [simp]:
  "split_first CHR ''='' (fst (split_first CHR ''='' s) @ CHR ''='' # m) = (fst (split_first CHR ''='' s), Some m)"
  by (simp add: split_first_append split_first_fst)

text \<open>
  The four kinds of words a scrubbed command consists of: the marker, an assignment whose value is
  the marker, a sensitive flag (which the marker follows), and a word that is none of these and
  does not look like a credential.
\<close>

definition word_scrubbed :: "string \<Rightarrow> bool" where
  "word_scrubbed w \<longleftrightarrow>
     (case split_first CHR ''='' w of
        (option, Some v) \<Rightarrow>
          v = REDACTED \<or>
          (\<not> sensitive_flag (option_name_of option) \<and> \<not> is_sensitive_key option \<and>
           \<not> looks_like_secret_text v \<and> \<not> looks_like_secret_text w)
      | (option, None) \<Rightarrow>
          w = REDACTED \<or> (starts_with ''-'' w \<and> sensitive_flag (option_name_of w)) \<or>
          \<not> looks_like_secret_text w)"

definition is_sensitive_flag_word :: "string \<Rightarrow> bool" where
  "is_sensitive_flag_word w \<longleftrightarrow>
     CHR ''='' \<notin> set w \<and> starts_with ''-'' w \<and> sensitive_flag (option_name_of w)"

fun flags_followed :: "string list \<Rightarrow> bool" where
  "flags_followed [] = True"
| "flags_followed [w] = (\<not> is_sensitive_flag_word w)"
| "flags_followed (w # v # ws) = ((is_sensitive_flag_word w \<longrightarrow> v = REDACTED) \<and> flags_followed (v # ws))"

lemma marker_plain [simp]: "\<not> is_sensitive_flag_word REDACTED"
  by (simp add: is_sensitive_flag_word_def)

lemma assignment_plain [simp]: "\<not> is_sensitive_flag_word (l @ CHR ''='' # r)"
  by (simp add: is_sensitive_flag_word_def)

lemma flags_followed_Cons:
  "flags_followed (w # ws) \<longleftrightarrow>
     (is_sensitive_flag_word w \<longrightarrow> (\<exists>vs. ws = REDACTED # vs)) \<and> flags_followed ws"
  by (cases ws) auto

lemma split_first_same: "split_first d s = (l, None) \<Longrightarrow> l = s"
  by (induction s arbitrary: l) (auto split: prod.splits if_splits)

lemma redact_words_Cons_cases:
  obtains (assigned) l where "redact_words m False (part # parts) = (l @ ''='' @ m) # redact_words m False parts"
      "l = fst (split_first CHR ''='' part)"
  | (flag) "redact_words m False (part # parts) = part # redact_words m True parts"
      "starts_with ''-'' part" "sensitive_flag (option_name_of (fst (split_first CHR ''='' part)))"
      "snd (split_first CHR ''='' part) = None"
  | (masked) "redact_words m False (part # parts) = m # redact_words m False parts"
  | (kept) "redact_words m False (part # parts) = part # redact_words m False parts"
      "\<not> looks_like_secret_text part" "\<not> is_sensitive_flag_word part"
      "\<And>v. snd (split_first CHR ''='' part) = Some v \<Longrightarrow>
         \<not> sensitive_flag (option_name_of (fst (split_first CHR ''='' part))) \<and>
         \<not> is_sensitive_key (fst (split_first CHR ''='' part)) \<and> \<not> looks_like_secret_text v"
proof -
  obtain l v where s: "split_first CHR ''='' part = (l, v)" by (cases "split_first CHR ''='' part")
  have plain: "is_sensitive_flag_word part \<Longrightarrow> v = None \<and> l = part"
    using s split_first_None [of "CHR ''=''" part] split_first_same [of "CHR ''=''" part]
    by (auto simp: is_sensitive_flag_word_def)
  show ?thesis
  proof (cases "v \<noteq> None \<and> (sensitive_flag (option_name_of l) \<or> is_sensitive_key l \<or> looks_like_secret_text (the v))")
    case True
    then show ?thesis using s by (intro assigned [of l]) (auto simp: Let_def)
  next
    case no_assign: False
    show ?thesis
    proof (cases "starts_with ''-'' part \<and> sensitive_flag (option_name_of l)")
      case True
      then show ?thesis using s no_assign by (intro flag) (auto simp: Let_def)
    next
      case False
      then have no_flag: "\<not> is_sensitive_flag_word part"
        using plain by (auto simp: is_sensitive_flag_word_def)
      show ?thesis
      proof (cases "looks_like_secret_text part")
        case True
        then show ?thesis using s no_assign False by (intro masked) (auto simp: Let_def)
      next
        case plain_word: False
        have "redact_words m False (part # parts) = part # redact_words m False parts"
          using s no_assign False plain_word by (auto simp: Let_def)
        then show ?thesis using plain_word no_flag by (rule kept) (use s no_assign in auto)
      qed
    qed
  qed
qed

lemma redact_words_scrubbed:
  "list_all word_scrubbed (redact_words REDACTED r parts)"
proof (induction parts arbitrary: r)
  case Nil
  then show ?case by (simp add: word_scrubbed_def)
next
  case (Cons part parts)
  show ?case
  proof (cases r)
    case True
    then show ?thesis using Cons.IH [of False] by (simp add: word_scrubbed_def)
  next
    case False
    show ?thesis
    proof (cases rule: redact_words_Cons_cases [of REDACTED part parts])
      case (assigned l)
      then show ?thesis using False Cons.IH [of False] by (simp del: redact_words.simps add: word_scrubbed_def)
    next
      case flag
      moreover from flag have "split_first CHR ''='' part = (part, None)"
        by (metis prod.collapse split_first_same)
      ultimately have "word_scrubbed part" by (simp add: word_scrubbed_def)
      then show ?thesis using False Cons.IH [of True] flag by (simp del: redact_words.simps)
    next
      case masked
      then show ?thesis using False Cons.IH [of False] by (simp del: redact_words.simps add: word_scrubbed_def)
    next
      case kept
      then have "word_scrubbed part" by (auto simp: word_scrubbed_def split: prod.splits option.splits)
      then show ?thesis using False Cons.IH [of False] kept by (simp del: redact_words.simps)
    qed
  qed
qed

lemma redact_words_next: "\<exists>vs. redact_words m True parts = m # vs"
  by (cases parts) auto

lemma redact_words_flags: "flags_followed (redact_words REDACTED r parts)"
proof (induction parts arbitrary: r)
  case Nil
  then show ?case by simp
next
  case (Cons part parts)
  show ?case
  proof (cases r)
    case True
    then show ?thesis using Cons.IH [of False] by (simp add: flags_followed_Cons)
  next
    case False
    show ?thesis
      by (cases rule: redact_words_Cons_cases [of REDACTED part parts])
         (use False Cons.IH redact_words_next in \<open>auto simp: flags_followed_Cons simp del: redact_words.simps\<close>)
  qed
qed

lemma redact_command_string_words:
  assumes "command \<noteq> []"
  shows "shlex_split (redact_command_string command m) =
    Some (redact_words m False (case shlex_split command of Some ws \<Rightarrow> ws | None \<Rightarrow> split_ws command))"
  using assms by (simp add: redact_command_string_def Let_def shlex_split_def shlex_split_join)

text \<open>
  C35. Every scrubbed command string splits into words of which none is an assignment to a sensitive
  name, or of a credential-shaped value, that keeps its value; every sensitive flag is followed by
  the marker; and every other word that still looks like a credential is an assignment whose value
  is masked.
\<close>

theorem redact_command_string_scrubbed:
  assumes "command \<noteq> []"
  shows "\<exists>ws. shlex_split (redact_command_string command REDACTED) = Some ws \<and>
           list_all word_scrubbed ws \<and> flags_followed ws"
  using redact_command_string_words [OF assms] redact_words_scrubbed redact_words_flags by simp

theorem redact_command_string_scrubbed_witness:
  "\<exists>ws. shlex_split (redact_command_string ''psql --password hunter2'' REDACTED) = Some ws \<and>
     list_all word_scrubbed ws \<and> flags_followed ws"
  by (rule redact_command_string_scrubbed) simp

lemma redact_command_string_example:
  "redact_command_string ''psql --password hunter2 PGTOKEN=abc redis://h'' REDACTED =
     ''psql --password '' @ shlex_quote REDACTED @ '' '' @ shlex_quote (''PGTOKEN='' @ REDACTED) @ '' '' @ shlex_quote REDACTED"
  by code_simp

lemma redact_words_plain:
  assumes "before = [] \<or> \<not> starts_with ''-'' (last before)"
  shows "\<exists>ws. redact_words m False (before @ rest) = ws @ redact_words m False rest"
proof (cases "before = []")
  case False
  have "\<exists>ws r. redact_words m b (xs @ ys) = ws @ redact_words m r ys" for b xs ys
  proof (induction xs arbitrary: b)
    case (Cons x xs)
    show ?case
    proof (cases b)
      case True
      then show ?thesis using Cons.IH [of False] by (metis append_Cons redact_words.simps(2))
    next
      case False
      show ?thesis
        by (cases rule: redact_words_Cons_cases [of m x "xs @ ys"])
           (simp_all add: False del: redact_words.simps, use Cons.IH in \<open>(metis append_Cons)+\<close>)
    qed
  qed (metis append_Nil)
  then obtain ws r where ws: "redact_words m False (butlast before @ last before # rest) = ws @ redact_words m r (last before # rest)" by blast
  have "\<exists>w. redact_words m r (last before # rest) = w # redact_words m False rest"
  proof (cases r)
    case False
    then show ?thesis
      by (cases rule: redact_words_Cons_cases [of m "last before" rest]) (use assms \<open>before \<noteq> []\<close> in \<open>auto simp del: redact_words.simps\<close>)
  qed simp
  then show ?thesis using ws False by (metis append_butlast_last_id append.assoc append_Cons append_Nil)
qed (metis append_Nil)

text \<open>
  C36. A word with an equals sign whose option part is sensitive, or whose value looks like a
  credential, keeps everything before the equals sign: for every command that splits into words with
  such a word in it, not directly behind a word with a leading hyphen, the scrubbed command still
  has the option part as it was, followed by the masked value. An option part that is a connection
  string with its password, the query of which names a sensitive parameter, is therefore disclosed.
\<close>

theorem redact_command_string_leaks:
  assumes "shlex_split command = Some (before @ word # after)" and "before = [] \<or> \<not> starts_with ''-'' (last before)"
    and "split_first CHR ''='' word = (option, Some v)"
    and "sensitive_flag (option_name_of option) \<or> is_sensitive_key option \<or> looks_like_secret_text v"
  shows "\<exists>ws. shlex_split (redact_command_string command REDACTED) = Some ws \<and> option @ ''='' @ REDACTED \<in> set ws"
proof -
  have "command \<noteq> []" using assms(1) by (auto simp: shlex_split_def)
  then have split: "shlex_split (redact_command_string command REDACTED) = Some (redact_words REDACTED False (before @ word # after))"
    using redact_command_string_words assms(1) by simp
  obtain us where us: "redact_words REDACTED False (before @ word # after) = us @ redact_words REDACTED False (word # after)"
    using redact_words_plain [OF assms(2)] by blast
  have "redact_words REDACTED False (word # after) = (option @ ''='' @ REDACTED) # redact_words REDACTED False after"
    using assms(3,4) by (auto simp: Let_def)
  then show ?thesis unfolding split us by simp
qed

theorem redact_command_string_leaks_witness:
  "looks_like_secret_text ''postgres://u:pw@h/d?sslpassword'' \<and>
   (\<exists>ws. shlex_split (redact_command_string ''psql postgres://u:pw@h/d?sslpassword=x'' REDACTED) = Some ws \<and>
     ''postgres://u:pw@h/d?sslpassword'' @ ''='' @ REDACTED \<in> set ws)"
proof -
  have parts: "shlex_split ''psql postgres://u:pw@h/d?sslpassword=x'' = Some ([''psql''] @ ''postgres://u:pw@h/d?sslpassword=x'' # [])"
    "[''psql''] = [] \<or> \<not> starts_with ''-'' (last [''psql''])"
    "split_first CHR ''='' ''postgres://u:pw@h/d?sslpassword=x'' = (''postgres://u:pw@h/d?sslpassword'', Some ''x'')"
    "sensitive_flag (option_name_of ''postgres://u:pw@h/d?sslpassword'')"
    "looks_like_secret_text ''postgres://u:pw@h/d?sslpassword''" by code_simp+
  show ?thesis using redact_command_string_leaks [OF parts(1-3)] parts(4,5) by blast
qed

section \<open>What survives a recursive redaction\<close>

text \<open>The scalars of a payload, each with the dictionary keys on its path from the root.\<close>

fun is_scalar :: "json \<Rightarrow> bool" where
  "is_scalar (JList js) = False"
| "is_scalar (JObj kvs) = False"
| "is_scalar j = True"

inductive occurs :: "json \<Rightarrow> string list \<Rightarrow> json \<Rightarrow> bool" where
  occurs_here: "is_scalar j \<Longrightarrow> occurs j [] j"
| occurs_item: "j \<in> set js \<Longrightarrow> occurs j path s \<Longrightarrow> occurs (JList js) path s"
| occurs_member: "(k, j) \<in> set kvs \<Longrightarrow> occurs j path s \<Longrightarrow> occurs (JObj kvs) (k # path) s"

inductive_cases occurs_listE: "occurs (JList js) path s"
inductive_cases occurs_objE: "occurs (JObj kvs) path s"

lemma occurs_scalar_iff: "is_scalar j \<Longrightarrow> occurs j path s \<longleftrightarrow> path = [] \<and> s = j"
  by (auto intro: occurs_here elim: occurs.cases)

definition masked_scalar :: "json \<Rightarrow> bool" where
  "masked_scalar s \<longleftrightarrow> s \<in> {JNull, JStr [], JStr REDACTED}"

definition last_key :: "string option \<Rightarrow> string list \<Rightarrow> string option" where
  "last_key key_name path = (if path = [] then key_name else Some (last path))"

definition sensitive_path :: "string list \<Rightarrow> string list \<Rightarrow> bool" where
  "sensitive_path safe path = list_ex (\<lambda>k. k \<notin> set safe \<and> is_sensitive_key k) path"

text \<open>A string that a command key holds after redaction: it splits into scrubbed words.\<close>

definition scrubbed_command :: "json \<Rightarrow> bool" where
  "scrubbed_command s \<longleftrightarrow> (\<forall>t. s = JStr t \<and> t \<noteq> [] \<longrightarrow>
     (\<exists>ws. shlex_split t = Some ws \<and> list_all word_scrubbed ws \<and> flags_followed ws))"

text \<open>Below a key the caller calls sensitive: directly, or anywhere below it with propagation.\<close>

definition below_sensitive :: "bool \<Rightarrow> string list \<Rightarrow> bool \<Rightarrow> string list \<Rightarrow> bool" where
  "below_sensitive propagate safe sens path \<longleftrightarrow>
     (if path = [] then sens else last path \<notin> set safe \<and> is_sensitive_key (last path)) \<or>
     propagate \<and> (sens \<or> sensitive_path safe path)"

definition surviving :: "bool \<Rightarrow> string list \<Rightarrow> bool \<Rightarrow> string option \<Rightarrow> string list \<Rightarrow> json \<Rightarrow> bool" where
  "surviving propagate safe sens key_name path s \<longleftrightarrow>
     (below_sensitive propagate safe sens path \<longrightarrow> masked_scalar s) \<and>
     (if looks_like_command_key (last_key key_name path) then scrubbed_command s else \<not> looks_like_secret_value s)"

lemma scrubbed_commands:
  "scrubbed_command (JStr (redact_command_string t REDACTED))" "masked_scalar s \<Longrightarrow> scrubbed_command s"
proof -
  show "scrubbed_command (JStr (redact_command_string t REDACTED))"
    using redact_command_string_words [of t REDACTED] redact_words_scrubbed redact_words_flags
    by (cases "t = []") (auto simp: scrubbed_command_def redact_command_string_def)
  have "shlex_split REDACTED = Some [REDACTED]" by code_simp
  then show "masked_scalar s \<Longrightarrow> scrubbed_command s"
    by (auto simp: masked_scalar_def scrubbed_command_def word_scrubbed_def)
qed

lemma masked_not_secret: "masked_scalar s \<Longrightarrow> \<not> looks_like_secret_value s"
  by (auto simp: masked_scalar_def looks_like_secret_value_def)
     (simp add: looks_like_secret_text_def strip_def strip_left_def)

lemma redact_value_masked [simp]: "masked_scalar (redact_value j REDACTED)"
  by (simp add: redact_value_def masked_scalar_def)

lemma empty_not_secret [simp]: "\<not> looks_like_secret_text []"
  by (simp add: looks_like_secret_text_def strip_def strip_left_def)

lemma walk_scalar:
  assumes "is_scalar j"
  shows "is_scalar (walk REDACTED safe propagate j sens kn)"
    and "surviving propagate safe sens kn [] (walk REDACTED safe propagate j sens kn)"
proof -
  have r: "is_scalar (redact_value j REDACTED)" by (simp add: redact_value_def)
  show "is_scalar (walk REDACTED safe propagate j sens kn)"
    using assms r by (cases j) (simp_all add: redact_value_def)
  have s: "\<not> looks_like_secret_value (redact_value j REDACTED)"
    by (rule masked_not_secret) simp
  have plain: "scrubbed_command JNull" "scrubbed_command (JBool b)" "scrubbed_command (JInt n)" for b n
    by (simp_all add: scrubbed_command_def)
  show "surviving propagate safe sens kn [] (walk REDACTED safe propagate j sens kn)"
    using assms s scrubbed_commands(2) [OF redact_value_masked, of j] plain
    by (cases j) (simp_all add: surviving_def below_sensitive_def sensitive_path_def last_key_def looks_like_secret_value_def scrubbed_commands)
qed

lemma walk_occurs:
  "occurs (walk REDACTED safe propagate j sens kn) path s \<Longrightarrow> surviving propagate safe sens kn path s"
proof (induction j arbitrary: sens kn path)
  case (JList js)
  from JList.prems obtain j where "j \<in> set js" "occurs (walk REDACTED safe propagate j sens kn) path s"
    by (auto elim!: occurs_listE simp: occurs_scalar_iff)
  with JList.IH show ?case by blast
next
  case (JObj kvs)
  let ?sens = "\<lambda>k. (k \<notin> set safe \<and> is_sensitive_key k) \<or> (propagate \<and> sens)"
  from JObj.prems obtain k j p where kj: "(k, j) \<in> set kvs" and path: "path = k # p"
    and occ: "occurs (walk REDACTED safe propagate j (?sens k) (Some k)) p s"
    by (auto elim!: occurs_objE)
  have "surviving propagate safe (?sens k) (Some k) p s"
    using JObj.IH [OF kj _ occ] by simp
  moreover have "below_sensitive propagate safe sens (k # p) \<Longrightarrow> below_sensitive propagate safe (?sens k) p"
    by (auto simp: below_sensitive_def sensitive_path_def split: if_splits)
  ultimately show ?case by (auto simp: surviving_def path last_key_def)
qed (use walk_scalar occurs_scalar_iff in \<open>metis is_scalar.simps\<close>)+

text \<open>
  C34. After a recursive redaction with the default marker and any list of safe keys, each scalar that
  is left, at any depth, is accounted for. With propagation a scalar below a sensitive key is null,
  the empty string or the marker; without propagation this holds when its nearest key is sensitive.
  A scalar whose nearest key is not a command key never has the shape of a credential; a string whose
  nearest key is a command key splits into scrubbed words, which may keep a credential before an
  equals sign.
\<close>

theorem deep_redact_masks:
  assumes "occurs (deep_redact j REDACTED safe propagate) path s"
  shows "(propagate \<and> sensitive_path safe path \<longrightarrow> masked_scalar s) \<and>
    (path \<noteq> [] \<and> last path \<notin> set safe \<and> is_sensitive_key (last path) \<longrightarrow> masked_scalar s) \<and>
    (\<not> looks_like_command_key (last_key None path) \<longrightarrow> \<not> looks_like_secret_value s) \<and>
    (looks_like_command_key (last_key None path) \<longrightarrow> scrubbed_command s)"
  using walk_occurs [OF assms [unfolded deep_redact_def]]
  by (auto simp: surviving_def below_sensitive_def split: if_splits)

theorem deep_redact_masks_witness:
  "masked_scalar (JStr REDACTED) \<and> occurs (deep_redact (JObj [(''password'', JStr ''hunter2'')]) REDACTED [] False) [''password''] (JStr REDACTED)"
proof -
  have "deep_redact (JObj [(''password'', JStr ''hunter2'')]) REDACTED [] False = JObj [(''password'', JStr REDACTED)]"
    by code_simp
  then have "occurs (deep_redact (JObj [(''password'', JStr ''hunter2'')]) REDACTED [] False) [''password''] (JStr REDACTED)"
    by simp (rule occurs_member [OF _ occurs_here], simp_all)
  moreover have "is_sensitive_key ''password''" by code_simp
  ultimately show ?thesis using deep_redact_masks by fastforce
qed

section \<open>Payloads a redaction leaves alone\<close>

text \<open>No sensitive key, no command key, no credential-shaped string.\<close>

fun redaction_free :: "string option \<Rightarrow> json \<Rightarrow> bool" where
  "redaction_free kn (JObj kvs) =
     (\<forall>p \<in> set kvs. \<not> is_sensitive_key (fst p) \<and> redaction_free (Some (fst p)) (snd p))"
| "redaction_free kn (JList js) = (\<forall>j \<in> set js. redaction_free kn j)"
| "redaction_free kn (JStr s) = (\<not> looks_like_command_key kn \<and> \<not> looks_like_secret_text s)"
| "redaction_free kn _ = True"

lemma walk_id: "redaction_free kn j \<Longrightarrow> walk marker safe propagate j False kn = j"
proof (induction j arbitrary: kn)
  case (JList js)
  then show ?case by (simp add: map_idI)
next
  case (JObj kvs)
  have "(\<lambda>p. (fst p, walk marker safe propagate (snd p)
      ((fst p \<notin> set safe \<and> is_sensitive_key (fst p)) \<or> propagate \<and> False) (Some (fst p)))) p = p"
    if "p \<in> set kvs" for p
    using JObj.IH [of p "snd p"] JObj.prems that by (cases p) (auto simp: snds.simps)
  then show ?case by (simp add: map_idI)
qed (simp_all add: looks_like_secret_value_def)

lemma deep_redact_id: "redaction_free None j \<Longrightarrow> deep_redact j marker safe propagate = j"
  by (simp add: deep_redact_def walk_id)

text \<open>Text without a colon is never credential-shaped.\<close>

lemma after_scheme_colon: "after_scheme s = Some r \<Longrightarrow> CHR '':'' \<in> set s"
  by (induction s) (auto simp: starts_with_iff split: if_splits)

lemma set_strip: "set (strip s) \<subseteq> set s"
  unfolding strip_def strip_left_def
  by (metis set_dropWhileD set_rev subsetI)

lemma lower_colon: "CHR '':'' \<in> set (lower s) \<Longrightarrow> CHR '':'' \<in> set s"
proof -
  have "to_lower c = CHR '':'' \<Longrightarrow> c = CHR '':''" for c
    by (auto simp: to_lower_def chr_eq_iff is_upper_def split: if_splits)
  then show "CHR '':'' \<in> set (lower s) \<Longrightarrow> CHR '':'' \<in> set s"
    by (force simp: lower_def)
qed

lemma prefix_colon: "p \<in> set SECRET_VALUE_PREFIXES \<Longrightarrow> CHR '':'' \<in> set p"
  by (auto simp: SECRET_VALUE_PREFIXES_def)

lemma not_secret_no_colon:
  assumes "CHR '':'' \<notin> set s"
  shows "\<not> looks_like_secret_text s"
proof -
  have colon: "CHR '':'' \<notin> set (strip s)" using assms set_strip by blast
  have "\<not> list_ex (\<lambda>prefix. starts_with prefix (lower (strip s))) SECRET_VALUE_PREFIXES"
    using colon lower_colon prefix_colon by (fastforce simp: list_ex_iff starts_with_iff)
  moreover have "after_scheme (strip s) = None"
    using colon after_scheme_colon by (cases "after_scheme (strip s)") auto
  ultimately show ?thesis by (simp add: looks_like_secret_text_def Let_def)
qed

end
