(* ===== verification/Sha256.thy ===== *)
theory Sha256
  imports Prelude "HOL-Library.Word"
begin

unbundle bit_operations_syntax

text \<open>
  \<^verbatim>\<open>hashlib.sha256(...).hexdigest()\<close>, the primitive under every digest of the program
  (\<^verbatim>\<open>canonical_digest\<close> and \<^verbatim>\<open>digest_text\<close>), as an executable function on text: UTF-8 encoding,
  padding, the compression function on 32-bit words, and the lowercase hexadecimal rendering.
  The components rely on the shape of the result only (64 lowercase hexadecimal characters).
\<close>

type_synonym w32 = "32 word"

section \<open>Constants\<close>

text \<open>
  The constants are computed from their definition in the standard: the first 32 bits of the
  fractional parts of the cube roots of the first 64 primes (round constants) and of the square
  roots of the first eight (initial state). A root is found bit by bit, from the highest.
\<close>

definition no_divisor :: "int \<Rightarrow> bool" where
  "no_divisor n = list_all (\<lambda>d. n mod d \<noteq> 0) [2..n - 1]"

definition small_primes :: "int list" where
  "small_primes = filter no_divisor [2..311]"

fun root_bits :: "nat \<Rightarrow> int \<Rightarrow> nat \<Rightarrow> int \<Rightarrow> int" where
  "root_bits k n 0 r = r"
| "root_bits k n (Suc b) r = root_bits k n b (if (r + 2 ^ b) ^ k \<le> n then r + 2 ^ b else r)"

definition root_fraction :: "nat \<Rightarrow> int \<Rightarrow> w32" where
  "root_fraction k p = word_of_int (root_bits k (p * 2 ^ (32 * k)) 40 0)"

definition sha_k :: "w32 list" where
  "sha_k = map (root_fraction 3) small_primes"

definition sha_h0 :: "w32 list" where
  "sha_h0 = map (root_fraction 2) (take 8 small_primes)"

lemma root_bits_bounds:
  "r ^ k \<le> n \<Longrightarrow> n < (r + 2 ^ b) ^ k \<Longrightarrow> root_bits k n b r ^ k \<le> n \<and> n < (root_bits k n b r + 1) ^ k"
proof (induction b arbitrary: r)
  case (Suc b)
  have "r + 2 ^ Suc b = r + 2 ^ b + 2 ^ b" by simp
  then have top: "n < (r + 2 ^ b + 2 ^ b) ^ k" using Suc.prems(2) by (simp only:)
  show ?case
  proof (cases "(r + 2 ^ b) ^ k \<le> n")
    case True
    then show ?thesis using Suc.IH [OF True top] by simp
  next
    case False
    then show ?thesis using Suc.IH [OF Suc.prems(1)] by simp
  qed
qed simp

section \<open>Encoding and padding\<close>

definition utf8 :: "string \<Rightarrow> nat list" where
  "utf8 s = concat (map (\<lambda>c. if code c < 128 then [code c]
     else [192 + code c div 64, 128 + code c mod 64]) s)"

definition big_endian :: "nat \<Rightarrow> nat \<Rightarrow> nat list" where
  "big_endian k n = map (\<lambda>i. n div 256 ^ (k - 1 - i) mod 256) [0..<k]"

definition sha_pad :: "nat list \<Rightarrow> nat list" where
  "sha_pad bs = bs @ [128] @ replicate ((55 + 64 - length bs mod 64) mod 64) 0 @ big_endian 8 (8 * length bs)"

fun sha_words :: "nat list \<Rightarrow> w32 list" where
  "sha_words (a # b # c # d # r) = of_nat (((a * 256 + b) * 256 + c) * 256 + d) # sha_words r"
| "sha_words _ = []"

fun chunks16 :: "nat \<Rightarrow> 'a list \<Rightarrow> 'a list list" where
  "chunks16 0 xs = []"
| "chunks16 (Suc n) xs = (if xs = [] then [] else take 16 xs # chunks16 n (drop 16 xs))"

section \<open>The compression function\<close>

definition rotr32 :: "nat \<Rightarrow> w32 \<Rightarrow> w32" where
  "rotr32 n w = drop_bit n w OR push_bit (32 - n) w"

text \<open>The message schedule, newest word first.\<close>

fun sha_schedule :: "nat \<Rightarrow> w32 list \<Rightarrow> w32 list" where
  "sha_schedule 0 ws = ws"
| "sha_schedule (Suc n) ws =
     (let w15 = ws ! 14; w2 = ws ! 1;
          s0 = rotr32 7 w15 XOR rotr32 18 w15 XOR drop_bit 3 w15;
          s1 = rotr32 17 w2 XOR rotr32 19 w2 XOR drop_bit 10 w2
      in sha_schedule n ((ws ! 15 + s0 + ws ! 6 + s1) # ws))"

type_synonym sha_state = "w32 \<times> w32 \<times> w32 \<times> w32 \<times> w32 \<times> w32 \<times> w32 \<times> w32"

fun sha_round :: "sha_state \<Rightarrow> w32 \<times> w32 \<Rightarrow> sha_state" where
  "sha_round (a, b, c, d, e, f, g, h) (k, w) =
     (let s1 = rotr32 6 e XOR rotr32 11 e XOR rotr32 25 e;
          ch = (e AND f) XOR (NOT e AND g);
          t1 = h + s1 + ch + k + w;
          s0 = rotr32 2 a XOR rotr32 13 a XOR rotr32 22 a;
          maj = (a AND b) XOR (a AND c) XOR (b AND c)
      in (t1 + (s0 + maj), a, b, c, d + t1, e, f, g))"

fun state_add :: "sha_state \<Rightarrow> sha_state \<Rightarrow> sha_state" where
  "state_add (a, b, c, d, e, f, g, h) (a', b', c', d', e', f', g', h') =
     (a + a', b + b', c + c', d + d', e + e', f + f', g + g', h + h')"

definition sha_block :: "sha_state \<Rightarrow> w32 list \<Rightarrow> sha_state" where
  "sha_block st ws =
     state_add st (foldl sha_round st (zip sha_k (rev (sha_schedule 48 (rev ws)))))"

definition sha_init :: sha_state where
  "sha_init = (sha_h0 ! 0, sha_h0 ! 1, sha_h0 ! 2, sha_h0 ! 3, sha_h0 ! 4, sha_h0 ! 5, sha_h0 ! 6, sha_h0 ! 7)"

section \<open>The digest as text\<close>

definition hex_digit :: "nat \<Rightarrow> char" where
  "hex_digit n = (if n < 10 then chr (48 + n) else chr (87 + n))"

definition word_hex :: "w32 \<Rightarrow> string" where
  "word_hex w = map (\<lambda>i. hex_digit (unat w div 16 ^ (7 - i) mod 16)) [0..<8]"

fun state_hex :: "sha_state \<Rightarrow> string" where
  "state_hex (a, b, c, d, e, f, g, h) =
     word_hex a @ word_hex b @ word_hex c @ word_hex d @ word_hex e @ word_hex f @ word_hex g @ word_hex h"

definition sha256_state :: "string \<Rightarrow> sha_state" where
  "sha256_state s =
     (let ws = sha_words (sha_pad (utf8 s)) in foldl sha_block sha_init (chunks16 (length ws) ws))"

definition sha256_hex :: "string \<Rightarrow> string" where
  "sha256_hex s = state_hex (sha256_state s)"

section \<open>The shape of a digest\<close>

lemma hex_digit_hex: "n < 16 \<Longrightarrow> is_hex_lower (hex_digit n)"
  by (auto simp: hex_digit_def is_hex_lower_def is_digit_def)

lemma length_word_hex [simp]: "length (word_hex w) = 8"
  by (simp add: word_hex_def)

lemma word_hex_hex: "c \<in> set (word_hex w) \<Longrightarrow> is_hex_lower c"
  by (auto simp: word_hex_def intro!: hex_digit_hex)

lemma length_sha256_hex [simp]: "length (sha256_hex s) = 64"
  by (cases "sha256_state s" rule: state_hex.cases) (simp add: sha256_hex_def)

lemma sha256_hex_hex: "\<forall>c \<in> set (sha256_hex s). is_hex_lower c"
  by (cases "sha256_state s" rule: state_hex.cases) (auto simp: sha256_hex_def intro: word_hex_hex)

end
