(* ===== verification/Patterns.thy ===== *)
theory Patterns
  imports Prelude
begin

text \<open>
  \<^verbatim>\<open>re.fullmatch\<close> on the fragment of Python's regular expressions the program uses: character
  classes, sequences, alternatives, \<^verbatim>\<open>*\<close>, \<^verbatim>\<open>+\<close>, \<^verbatim>\<open>?\<close>, \<^verbatim>\<open>{n}\<close> and \<^verbatim>\<open>{m,n}\<close>. The matcher computes
  derivatives; it is proved equivalent to the language of the expression, so that a component's
  patterns are written as in the source and reasoned about as languages.
\<close>

section \<open>Expressions\<close>

datatype rx =
    RNever
  | REmpty
  | RClass "char \<Rightarrow> bool"
  | RSeq rx rx
  | RAlt rx rx
  | RStar rx

definition rlit :: "char \<Rightarrow> rx" where
  "rlit c = RClass (\<lambda>d. d = c)"

fun rtext :: "string \<Rightarrow> rx" where
  "rtext [] = REmpty"
| "rtext (c # cs) = RSeq (rlit c) (rtext cs)"

definition rplus :: "rx \<Rightarrow> rx" where
  "rplus r = RSeq r (RStar r)"

definition ropt :: "rx \<Rightarrow> rx" where
  "ropt r = RAlt REmpty r"

fun rpow :: "nat \<Rightarrow> rx \<Rightarrow> rx" where
  "rpow 0 r = REmpty"
| "rpow (Suc n) r = RSeq r (rpow n r)"

fun rupto :: "nat \<Rightarrow> rx \<Rightarrow> rx" where
  "rupto 0 r = REmpty"
| "rupto (Suc n) r = RAlt REmpty (RSeq r (rupto n r))"

section \<open>The matcher\<close>

fun seq_opt :: "rx \<Rightarrow> rx \<Rightarrow> rx" where
  "seq_opt RNever s = RNever"
| "seq_opt REmpty s = s"
| "seq_opt r s = RSeq r s"

fun alt_opt :: "rx \<Rightarrow> rx \<Rightarrow> rx" where
  "alt_opt RNever s = s"
| "alt_opt r RNever = r"
| "alt_opt r s = RAlt r s"

fun nullable :: "rx \<Rightarrow> bool" where
  "nullable RNever = False"
| "nullable REmpty = True"
| "nullable (RClass p) = False"
| "nullable (RSeq r s) = (nullable r \<and> nullable s)"
| "nullable (RAlt r s) = (nullable r \<or> nullable s)"
| "nullable (RStar r) = True"

fun rderiv :: "char \<Rightarrow> rx \<Rightarrow> rx" where
  "rderiv c RNever = RNever"
| "rderiv c REmpty = RNever"
| "rderiv c (RClass p) = (if p c then REmpty else RNever)"
| "rderiv c (RSeq r s) =
     (if nullable r then alt_opt (seq_opt (rderiv c r) s) (rderiv c s) else seq_opt (rderiv c r) s)"
| "rderiv c (RAlt r s) = alt_opt (rderiv c r) (rderiv c s)"
| "rderiv c (RStar r) = seq_opt (rderiv c r) (RStar r)"

fun fullmatch :: "rx \<Rightarrow> string \<Rightarrow> bool" where
  "fullmatch r [] = nullable r"
| "fullmatch r (c # s) = fullmatch (rderiv c r) s"

section \<open>The language\<close>

inductive_set star :: "string set \<Rightarrow> string set" for L where
  star_Nil: "[] \<in> star L"
| star_step: "u \<in> L \<Longrightarrow> v \<in> star L \<Longrightarrow> u @ v \<in> star L"

fun lang :: "rx \<Rightarrow> string set" where
  "lang RNever = {}"
| "lang REmpty = {[]}"
| "lang (RClass p) = {[c] | c. p c}"
| "lang (RSeq r s) = {u @ v | u v. u \<in> lang r \<and> v \<in> lang s}"
| "lang (RAlt r s) = lang r \<union> lang s"
| "lang (RStar r) = star (lang r)"

lemma nullable_iff: "nullable r \<longleftrightarrow> [] \<in> lang r"
  by (induction r) (auto intro: star_Nil)

lemma lang_seq_opt [simp]: "lang (seq_opt r s) = lang (RSeq r s)"
  by (induction r s rule: seq_opt.induct) auto

lemma lang_alt_opt [simp]: "lang (alt_opt r s) = lang (RAlt r s)"
  by (induction r s rule: alt_opt.induct) auto

lemma star_Cons: "c # s \<in> star L \<longleftrightarrow> (\<exists>u v. s = u @ v \<and> c # u \<in> L \<and> v \<in> star L)"
proof
  assume "c # s \<in> star L"
  then show "\<exists>u v. s = u @ v \<and> c # u \<in> L \<and> v \<in> star L"
  proof (induction "c # s" arbitrary: s)
    case (star_step u v)
    then show ?case by (cases u) auto
  qed
next
  assume "\<exists>u v. s = u @ v \<and> c # u \<in> L \<and> v \<in> star L"
  then show "c # s \<in> star L"
    by (metis append_Cons star_step)
qed

lemma lang_rderiv: "s \<in> lang (rderiv c r) \<longleftrightarrow> c # s \<in> lang r"
proof (induction r arbitrary: s)
  case (RSeq r1 r2)
  show ?case
    using RSeq by (auto simp: nullable_iff Cons_eq_append_conv)
next
  case (RStar r)
  then show ?case by (auto simp: star_Cons)
qed auto

theorem fullmatch_iff: "fullmatch r s \<longleftrightarrow> s \<in> lang r"
  by (induction s arbitrary: r) (auto simp: nullable_iff lang_rderiv)

section \<open>Derived forms\<close>

lemma lang_rlit [simp]: "lang (rlit c) = {[c]}"
  by (auto simp: rlit_def)

lemma lang_rtext [simp]: "lang (rtext w) = {w}"
  by (induction w) auto

lemma lang_ropt [simp]: "lang (ropt r) = insert [] (lang r)"
  by (auto simp: ropt_def)

lemma star_class: "s \<in> star {[c] | c. p c} \<longleftrightarrow> (\<forall>c \<in> set s. p c)"
  by (induction s) (auto simp: star_Nil star_Cons)

lemma lang_star_class [simp]: "lang (RStar (RClass p)) = {s. \<forall>c \<in> set s. p c}"
  using star_class by auto

lemma lang_class_seq: "lang (RSeq (RClass p) r) = {c # v | c v. p c \<and> v \<in> lang r}"
proof -
  have "(\<exists>u v. s = u @ v \<and> (\<exists>c. u = [c] \<and> p c) \<and> v \<in> lang r) \<longleftrightarrow>
      (\<exists>c v. s = c # v \<and> p c \<and> v \<in> lang r)" for s
    by (metis append_Cons append_Nil)
  then show ?thesis by simp
qed

lemma lang_plus_class [simp]: "lang (rplus (RClass p)) = {s. s \<noteq> [] \<and> (\<forall>c \<in> set s. p c)}"
proof -
  have "(\<exists>c v. s = c # v \<and> p c \<and> (\<forall>d \<in> set v. p d)) \<longleftrightarrow> s \<noteq> [] \<and> (\<forall>c \<in> set s. p c)" for s
    by (cases s) auto
  then show ?thesis
    unfolding rplus_def lang_class_seq lang_star_class by auto
qed

lemma lang_pow_class [simp]: "lang (rpow n (RClass p)) = {s. length s = n \<and> (\<forall>c \<in> set s. p c)}"
proof (induction n)
  case (Suc n)
  have "length s = Suc n \<and> (\<forall>c \<in> set s. p c) \<longleftrightarrow>
      (\<exists>c v. s = c # v \<and> p c \<and> length v = n \<and> (\<forall>d \<in> set v. p d))" for s
    by (cases s) auto
  then show ?case using Suc unfolding rpow.simps lang_class_seq by auto
qed auto

lemma lang_upto_class [simp]: "lang (rupto n (RClass p)) = {s. length s \<le> n \<and> (\<forall>c \<in> set s. p c)}"
proof (induction n)
  case (Suc n)
  have "length s \<le> Suc n \<and> (\<forall>c \<in> set s. p c) \<longleftrightarrow>
      s = [] \<or> (\<exists>c v. s = c # v \<and> p c \<and> length v \<le> n \<and> (\<forall>d \<in> set v. p d))" for s
    by (cases s) auto
  then show ?case
    using Suc unfolding rupto.simps lang.simps(5) lang_class_seq by auto
qed auto

text \<open>An expression whose classes all satisfy a predicate matches only texts that satisfy it.\<close>

fun rx_within :: "(char \<Rightarrow> bool) \<Rightarrow> rx \<Rightarrow> bool" where
  "rx_within q (RClass p) = (\<forall>c. p c \<longrightarrow> q c)"
| "rx_within q (RSeq r s) = (rx_within q r \<and> rx_within q s)"
| "rx_within q (RAlt r s) = (rx_within q r \<and> rx_within q s)"
| "rx_within q (RStar r) = rx_within q r"
| "rx_within q _ = True"

lemma star_within:
  assumes "s \<in> star L" and "\<And>u c. u \<in> L \<Longrightarrow> c \<in> set u \<Longrightarrow> q c"
  shows "\<forall>c \<in> set s. q c"
  using assms by (induction rule: star.induct) auto

lemma lang_within: "rx_within q r \<Longrightarrow> s \<in> lang r \<Longrightarrow> \<forall>c \<in> set s. q c"
proof (induction r arbitrary: s)
  case (RSeq r1 r2)
  then show ?case by fastforce
next
  case (RStar r)
  then show ?case by (auto dest: star_within [where q = q])
qed auto

lemma fullmatch_within: "rx_within q r \<Longrightarrow> fullmatch r s \<Longrightarrow> \<forall>c \<in> set s. q c"
  by (simp add: fullmatch_iff lang_within)

end
