(* ===== verification/Datetime.thy ===== *)
theory Datetime
  imports Prelude "HOL-Library.Monad_Syntax"
begin

text \<open>
  The part of Python's \<^verbatim>\<open>datetime\<close> the contracts use. An instant is a number of microseconds
  since the epoch. \<^verbatim>\<open>fromtimestamp(t, timezone.utc).isoformat().replace("+00:00", "Z")\<close> is
  \<open>utc_text\<close>, with the proleptic Gregorian calendar computed as in \<^verbatim>\<open>_ord2ymd\<close>, and
  \<^verbatim>\<open>fromisoformat\<close> is \<open>fromisoformat\<close>, on the format its documentation gives
  (\<^verbatim>\<open>YYYY-MM-DD[*HH[:MM[:SS[.fff[fff]]]][+HH:MM[:SS[.ffffff]]]]\<close>). The theory proves that a
  rendered instant reads back as itself.
\<close>

section \<open>Calendar\<close>

definition is_leap :: "nat \<Rightarrow> bool" where
  "is_leap y \<longleftrightarrow> y mod 4 = 0 \<and> (y mod 100 \<noteq> 0 \<or> y mod 400 = 0)"

definition days_in_month :: "nat \<Rightarrow> nat \<Rightarrow> nat" where
  "days_in_month y m =
     (if m = 2 then (if is_leap y then 29 else 28)
      else if m \<in> {4, 6, 9, 11} then 30 else 31)"

definition days_before_year :: "nat \<Rightarrow> nat" where
  "days_before_year y = (y - 1) * 365 + (y - 1) div 4 - (y - 1) div 100 + (y - 1) div 400"

definition days_before_month :: "nat \<Rightarrow> nat \<Rightarrow> nat" where
  "days_before_month y m = sum_list (map (days_in_month y) [1..<m])"

definition ymd2ord :: "nat \<Rightarrow> nat \<Rightarrow> nat \<Rightarrow> nat" where
  "ymd2ord y m d = days_before_year y + days_before_month y m + d"

text \<open>The month and day of the zero-based day \<open>n\<close> of a year.\<close>

fun find_month :: "nat \<Rightarrow> nat list \<Rightarrow> nat \<Rightarrow> nat \<times> nat" where
  "find_month y [] n = (12, 31)"
| "find_month y (m # ms) n =
     (if n < days_in_month y m then (m, n + 1) else find_month y ms (n - days_in_month y m))"

definition ord2ymd :: "nat \<Rightarrow> nat \<times> nat \<times> nat" where
  "ord2ymd ordinal =
     (let n = ordinal - 1;
          n400 = n div 146097; n = n mod 146097;
          n100 = n div 36524; n = n mod 36524;
          n4 = n div 1461; n = n mod 1461;
          n1 = n div 365; n = n mod 365;
          year = n400 * 400 + 1 + n100 * 100 + n4 * 4 + n1
      in if n1 = 4 \<or> n100 = 4 then (year - 1, 12, 31)
         else (let (m, d) = find_month year [1..<13] n in (year, m, d)))"

section \<open>Rendering an instant\<close>

definition dec_char :: "nat \<Rightarrow> char" where
  "dec_char n = chr (48 + n)"

fun pad :: "nat \<Rightarrow> nat \<Rightarrow> string" where
  "pad 0 n = []"
| "pad (Suc k) n = pad k (n div 10) @ [dec_char (n mod 10)]"

abbreviation us_per_day :: int where
  "us_per_day \<equiv> 86400000000"

text \<open>The ordinal of 1970-01-01 is 719163; the ordinals of years 1 to 9999 are 1 to 3652059.\<close>

definition utc_text :: "int \<Rightarrow> string option" where
  "utc_text us =
     (let ordinal = us div us_per_day + 719163; t = nat (us mod us_per_day) in
      if 1 \<le> ordinal \<and> ordinal \<le> 3652059 then
        (case ord2ymd (nat ordinal) of (y, m, d) \<Rightarrow>
           Some (pad 4 y @ ''-'' @ pad 2 m @ ''-'' @ pad 2 d @ ''T'' @
                 pad 2 (t div 3600000000) @ '':'' @ pad 2 (t div 60000000 mod 60) @ '':'' @
                 pad 2 (t div 1000000 mod 60) @
                 (if t mod 1000000 = 0 then [] else ''.'' @ pad 6 (t mod 1000000)) @ ''Z''))
      else None)"

text \<open>\<^verbatim>\<open>fromtimestamp\<close> rounds half to even, to microseconds.\<close>

definition round_half_even :: "rat \<Rightarrow> int" where
  "round_half_even x =
     (let f = \<lfloor>x\<rfloor>; r = x - of_int f in
      if r < 1 / 2 then f else if r > 1 / 2 then f + 1 else if even f then f else f + 1)"

definition timestamp_us :: "rat \<Rightarrow> int" where
  "timestamp_us t = round_half_even (t * 1000000)"

definition utc_now_text :: "rat \<Rightarrow> string res" where
  "utc_now_text t = (case utc_text (timestamp_us t) of
      Some s \<Rightarrow> Inr s
    | None \<Rightarrow> Inl (ValueError ''year is out of range''))"

section \<open>Reading an instant\<close>

definition expect :: "char \<Rightarrow> string \<Rightarrow> string option" where
  "expect c s = (case s of [] \<Rightarrow> None | d # r \<Rightarrow> if d = c then Some r else None)"

fun take_digits_acc :: "nat \<Rightarrow> nat \<Rightarrow> string \<Rightarrow> (nat \<times> string) option" where
  "take_digits_acc 0 n s = Some (n, s)"
| "take_digits_acc (Suc k) n [] = None"
| "take_digits_acc (Suc k) n (c # s) =
     (if is_digit c then take_digits_acc k (10 * n + (code c - 48)) s else None)"

definition take_digits :: "nat \<Rightarrow> string \<Rightarrow> (nat \<times> string) option" where
  "take_digits k s = take_digits_acc k 0 s"

definition valid_date :: "nat \<Rightarrow> nat \<Rightarrow> nat \<Rightarrow> bool" where
  "valid_date y m d \<longleftrightarrow> 1 \<le> y \<and> y \<le> 9999 \<and> 1 \<le> m \<and> m \<le> 12 \<and> 1 \<le> d \<and> d \<le> days_in_month y m"

definition parse_date :: "string \<Rightarrow> (nat \<times> string) option" where
  "parse_date s0 = do {
     (y, s1) \<leftarrow> take_digits 4 s0;
     s2 \<leftarrow> expect CHR ''-'' s1;
     (m, s3) \<leftarrow> take_digits 2 s2;
     s4 \<leftarrow> expect CHR ''-'' s3;
     (d, s5) \<leftarrow> take_digits 2 s4;
     if valid_date y m d then Some (ymd2ord y m d, s5) else None }"

text \<open>\<^verbatim>\<open>[.fff[fff]]\<close>, then \<^verbatim>\<open>HH[:MM[:SS[.fff[fff]]]]\<close> in microseconds of the day.\<close>

definition parse_fraction :: "string \<Rightarrow> (nat \<times> string) option" where
  "parse_fraction s =
     (case expect CHR ''.'' s of
        None \<Rightarrow> Some (0, s)
      | Some r \<Rightarrow>
          (case take_digits 6 r of
             Some (f, u) \<Rightarrow> Some (f, u)
           | None \<Rightarrow> map_option (\<lambda>(f, u). (f * 1000, u)) (take_digits 3 r)))"

definition hms_us :: "nat \<Rightarrow> nat \<Rightarrow> nat \<Rightarrow> nat \<Rightarrow> nat option" where
  "hms_us h mi sec f =
     (if h < 24 \<and> mi < 60 \<and> sec < 60 then Some (((h * 60 + mi) * 60 + sec) * 1000000 + f) else None)"

definition parse_hms :: "string \<Rightarrow> (nat \<times> string) option" where
  "parse_hms s0 = do {
     (h, s1) \<leftarrow> take_digits 2 s0;
     (case expect CHR '':'' s1 of
        None \<Rightarrow> map_option (\<lambda>t. (t, s1)) (hms_us h 0 0 0)
      | Some s2 \<Rightarrow> do {
          (mi, s3) \<leftarrow> take_digits 2 s2;
          (case expect CHR '':'' s3 of
             None \<Rightarrow> map_option (\<lambda>t. (t, s3)) (hms_us h mi 0 0)
           | Some s4 \<Rightarrow> do {
               (sec, s5) \<leftarrow> take_digits 2 s4;
               (f, s6) \<leftarrow> parse_fraction s5;
               map_option (\<lambda>t. (t, s6)) (hms_us h mi sec f) }) }) }"

text \<open>The offset, in microseconds, or no offset at all.\<close>

definition parse_offset :: "string \<Rightarrow> int option option" where
  "parse_offset s =
     (case s of
        [] \<Rightarrow> Some None
      | c # r \<Rightarrow>
          if c = CHR ''+'' \<or> c = CHR ''-'' then do {
            (t, u) \<leftarrow> parse_hms r;
            if u = [] \<and> 5 \<le> length r
            then Some (Some (if c = CHR ''-'' then - int t else int t))
            else None }
          else None)"

definition fromisoformat :: "string \<Rightarrow> (int \<times> int option) option" where
  "fromisoformat s0 = do {
     (n, s1) \<leftarrow> parse_date s0;
     (let midnight = (int n - 719163) * us_per_day in
      if length s1 \<le> 1 then Some (midnight, None)
      else do {
        (t, s2) \<leftarrow> parse_hms (tl s1);
        z \<leftarrow> parse_offset s2;
        Some (midnight + int t, z) }) }"

definition replace_z :: "string \<Rightarrow> string" where
  "replace_z s = concat (map (\<lambda>c. if c = CHR ''Z'' then ''+00:00'' else [c]) s)"

section \<open>Calendar arithmetic\<close>

lemma find_month_sound:
  assumes "n < sum_list (map (days_in_month y) ms)" and "find_month y ms n = (m, d)"
  shows "\<exists>us vs. ms = us @ m # vs \<and> sum_list (map (days_in_month y) us) + d = n + 1
           \<and> 1 \<le> d \<and> d \<le> days_in_month y m"
  using assms
proof (induction ms arbitrary: n)
  case (Cons k ms)
  show ?case
  proof (cases "n < days_in_month y k")
    case True
    then show ?thesis using Cons.prems by (intro exI [of _ "[]"] exI [of _ ms]) auto
  next
    case False
    have "n - days_in_month y k < sum_list (map (days_in_month y) ms)"
      using False Cons.prems(1) by simp
    moreover have "find_month y ms (n - days_in_month y k) = (m, d)"
      using False Cons.prems(2) by simp
    ultimately obtain us vs where "ms = us @ m # vs"
      "sum_list (map (days_in_month y) us) + d = n - days_in_month y k + 1"
      "1 \<le> d" "d \<le> days_in_month y m"
      using Cons.IH by blast
    with False show ?thesis by (intro exI [of _ "k # us"] exI [of _ vs]) auto
  qed
qed simp

lemma upt_13: "[1..<13] = [1, 2, 3, 4, 5, 6, 7, 8, 9, 10, 11, 12 :: nat]"
  by (simp add: upt_rec)

lemma days_in_year: "sum_list (map (days_in_month y) [1..<13]) = (if is_leap y then 366 else 365)"
  unfolding upt_13 by (simp add: days_in_month_def)

lemma find_month_year:
  assumes "n < 365" and "find_month y [1..<13] n = (m, d)"
  shows "days_before_month y m + d = n + 1 \<and> 1 \<le> m \<and> m \<le> 12 \<and> 1 \<le> d \<and> d \<le> days_in_month y m"
proof -
  have "n < sum_list (map (days_in_month y) [1..<13])"
    using assms(1) by (simp only: days_in_year) simp
  then obtain us vs where split: "[1..<13] = us @ m # vs"
    and d: "sum_list (map (days_in_month y) us) + d = n + 1" "1 \<le> d" "d \<le> days_in_month y m"
    using find_month_sound assms(2) by blast
  have "length (us @ m # vs) = 12" unfolding split [symmetric] by simp
  then have us: "length us < 12" by simp
  have "(us @ m # vs) ! length us = m" by simp
  then have "[1..<13] ! length us = m" unfolding split .
  with us have m: "m = length us + 1" using nth_upt [of 1 "length us" 13] by simp
  have "us = take (length us) (us @ m # vs)" by simp
  also have "\<dots> = take (length us) [1..<13]" by (simp only: split)
  also have "\<dots> = [1..<1 + length us]" using us by (intro take_upt) simp
  finally have "us = [1..<m]" by (simp only: m add.commute)
  then have "days_before_month y m + d = n + 1"
    using d(1) by (simp only: days_before_month_def)
  moreover have "1 \<le> m \<and> m \<le> 12" using m us by linarith
  ultimately show ?thesis using d(2,3) by blast
qed


text \<open>\<^verbatim>\<open>_ord2ymd\<close> gives a date whose ordinal is the argument.\<close>

lemma days_before_year_cycles:
  assumes "b \<le> 3" "c \<le> 24" "d \<le> 3"
  shows "days_before_year (a * 400 + 1 + b * 100 + c * 4 + d) = a * 146097 + b * 36524 + c * 1461 + d * 365"
proof -
  let ?y = "a * 400 + b * 100 + c * 4 + d"
  have "?y div 4 = a * 100 + b * 25 + c" using assms by (intro div_nat_eqI) simp_all
  moreover have "?y div 100 = a * 4 + b" using assms by (intro div_nat_eqI) simp_all
  moreover have "?y div 400 = a" using assms by (intro div_nat_eqI) simp_all
  ultimately show ?thesis by (simp add: days_before_year_def)
qed

lemma days_before_december: "days_before_month y 12 = (if is_leap y then 335 else 334)"
proof -
  have "[1..<12] = [1, 2, 3, 4, 5, 6, 7, 8, 9, 10, 11 :: nat]" by (simp add: upt_rec)
  then show ?thesis unfolding days_before_month_def by (simp add: days_in_month_def)
qed

lemma ymd2ord_new_years_eve:
  assumes "is_leap y" "1 \<le> y"
  shows "ymd2ord y 12 31 = days_before_year y + 366"
  using assms by (simp add: ymd2ord_def days_before_december)

lemma ord2ymd_correct:
  assumes "1 \<le> ordinal" and "ord2ymd ordinal = (y, m, d)"
  shows "ymd2ord y m d = ordinal \<and> 1 \<le> y \<and> 1 \<le> m \<and> m \<le> 12 \<and> 1 \<le> d \<and> d \<le> days_in_month y m"
proof -
  define a where "a = (ordinal - 1) div 146097"
  define p where "p = (ordinal - 1) mod 146097"
  define b where "b = p div 36524"
  define q where "q = p mod 36524"
  define c where "c = q div 1461"
  define r where "r = q mod 1461"
  define e where "e = r div 365"
  define n where "n = r mod 365"
  note defs = a_def p_def b_def q_def c_def r_def e_def n_def
  have ordinal: "ordinal = a * 146097 + p + 1"
    unfolding a_def p_def using assms(1) by (simp add: div_mult_mod_eq)
  have p: "p = b * 36524 + q" "p < 146097" and q: "q = c * 1461 + r" "q < 36524"
    and r: "r = e * 365 + n" "r < 1461" and n: "n < 365"
    unfolding b_def q_def c_def r_def e_def n_def p_def by (simp_all add: div_mult_mod_eq)
  have b: "b \<le> 4" and c: "c \<le> 24" and e: "e \<le> 4" using p q r by linarith+
  let ?year = "a * 400 + 1 + b * 100 + c * 4 + e"
  have eq: "(y, m, d) = (if e = 4 \<or> b = 4 then (?year - 1, 12, 31)
      else (let (m, d) = find_month ?year [1..<13] n in (?year, m, d)))"
    using assms(2) unfolding ord2ymd_def Let_def defs by (simp add: algebra_simps)
  consider "b = 4" | "b \<le> 3" "e = 4" | "b \<le> 3" "e \<le> 3" using b e by linarith
  then show ?thesis
  proof cases
    case 1
    then have "q = 0" using p by linarith
    then have z: "c = 0" "e = 0" "p = 146096" using q r p 1 by simp_all
    then have y: "y = a * 400 + 400" "m = 12" "d = 31" using eq 1 by simp_all
    have "is_leap y" unfolding is_leap_def y by presburger
    moreover have "days_before_year y = a * 146097 + 145731"
      using days_before_year_cycles [of 3 24 3 a] y by (simp add: algebra_simps)
    ultimately show ?thesis
      using ymd2ord_new_years_eve [of y] y ordinal z by (simp add: days_in_month_def)
  next
    case 2
    then have "n = 0" using r by linarith
    then have r': "r = 1460" using r 2 by simp
    then have c': "c \<le> 23" using q c by linarith
    have y: "y = a * 400 + b * 100 + c * 4 + 4" "m = 12" "d = 31" using eq 2 by simp_all
    have "y mod 4 = 0" unfolding y by presburger
    moreover have "y mod 100 = c * 4 + 4"
    proof -
      have "y = (a * 4 + b) * 100 + (c * 4 + 4)" unfolding y by simp
      moreover have "c * 4 + 4 < 100" using c' by simp
      ultimately show ?thesis by (metis mod_less mod_mult_self3)
    qed
    ultimately have "is_leap y" unfolding is_leap_def by simp
    moreover have "days_before_year y = a * 146097 + b * 36524 + c * 1461 + 3 * 365"
      using days_before_year_cycles [of b c 3 a] 2 c y by (simp add: algebra_simps)
    ultimately show ?thesis
      using ymd2ord_new_years_eve [of y] y ordinal p q r' by (simp add: days_in_month_def)
  next
    case 3
    obtain m' d' where md: "find_month ?year [1..<13] n = (m', d')" by fastforce
    then have y: "y = ?year" "m = m'" "d = d'" using eq 3 by auto
    have "days_before_month y m + d = n + 1 \<and> 1 \<le> m \<and> m \<le> 12 \<and> 1 \<le> d \<and> d \<le> days_in_month y m"
      using find_month_year [OF n] md y by simp
    moreover have "days_before_year y = a * 146097 + b * 36524 + c * 1461 + e * 365"
      using days_before_year_cycles [of b c e a] 3 c y by simp
    ultimately show ?thesis using ordinal p q r y by (simp add: ymd2ord_def)
  qed
qed

section \<open>A rendered instant reads back\<close>

lemma is_digit_dec_char [simp]: "n < 10 \<Longrightarrow> is_digit (dec_char n)"
  by (simp add: is_digit_def dec_char_def)

lemma code_dec_char [simp]: "n < 10 \<Longrightarrow> code (dec_char n) = 48 + n"
  by (simp add: dec_char_def)

lemma length_pad [simp]: "length (pad k n) = k"
  by (induction k arbitrary: n) auto

lemma take_digits_acc_pad:
  "n < 10 ^ k \<Longrightarrow> take_digits_acc (k + j) a (pad k n @ s) = take_digits_acc j (a * 10 ^ k + n) s"
proof (induction k arbitrary: n j s)
  case (Suc k)
  have "n div 10 < 10 ^ k" using Suc.prems by (simp add: div_less_iff_less_mult mult.commute)
  then have "take_digits_acc (k + Suc j) a (pad k (n div 10) @ dec_char (n mod 10) # s) =
      take_digits_acc (Suc j) (a * 10 ^ k + n div 10) (dec_char (n mod 10) # s)"
    by (rule Suc.IH)
  moreover have "10 * (a * 10 ^ k + n div 10) + n mod 10 = a * 10 ^ Suc k + n"
    by (simp add: algebra_simps)
  ultimately show ?case by (simp add: ac_simps)
qed simp

lemma take_digits_pad [simp]: "n < 10 ^ k \<Longrightarrow> take_digits k (pad k n @ s) = Some (n, s)"
  using take_digits_acc_pad [of n k 0 0 s] by (simp add: take_digits_def)

lemma expect_Cons [simp]: "expect c (d # r) = (if d = c then Some r else None)"
  by (simp add: expect_def)

lemma pad_no_z: "replace_z (pad k n @ s) = pad k n @ replace_z s"
proof -
  have "dec_char (m mod 10) \<noteq> CHR ''Z''" for m
    by (simp add: dec_char_def chr_eq_iff)
  then have "concat (map (\<lambda>c. if c = CHR ''Z'' then ''+00:00'' else [c]) (pad k n)) = pad k n"
    by (induction k arbitrary: n) auto
  then show ?thesis by (simp add: replace_z_def)
qed

lemma replace_z_Cons: "replace_z (c # s) = (if c = CHR ''Z'' then ''+00:00'' else [c]) @ replace_z s"
  by (simp add: replace_z_def)

lemma replace_z_Nil [simp]: "replace_z [] = []"
  by (simp add: replace_z_def)

lemma days_before_year_10000: "10000 \<le> y \<Longrightarrow> 3652059 \<le> days_before_year y"
proof -
  have "3652059 \<le> x * 365 + x div 4 - x div 100 + x div 400" if "9999 \<le> x" for x :: nat
    using that
  proof (induction x rule: dec_induct)
    case (step x)
    have "Suc x div 100 \<le> x div 100 + 1" "x div 4 \<le> Suc x div 4" "x div 400 \<le> Suc x div 400"
      by (auto intro: div_le_mono)
    with step.IH show ?case unfolding mult_Suc by linarith
  qed simp
  then show "10000 \<le> y \<Longrightarrow> 3652059 \<le> days_before_year y"
    by (simp add: days_before_year_def)
qed

lemma take_two_digits:
  "take_digits 2 (c # d # s) =
     (if is_digit c \<and> is_digit d then Some (10 * (code c - 48) + (code d - 48), s) else None)"
  by (simp add: take_digits_def numeral_2_eq_2)

lemma parse_offset_utc: "parse_offset ''+00:00'' = Some (Some 0)"
  by (simp add: parse_offset_def parse_hms_def take_two_digits is_digit_def hms_us_def) (simp add: expect_def hms_us_def)

lemma parse_hms_text:
  assumes "h < 24" "mi < 60" "sec < 60" "f < 1000000"
  shows "parse_hms (pad 2 h @ CHR '':'' # pad 2 mi @ CHR '':'' # pad 2 sec @
           (if f = 0 then [] else CHR ''.'' # pad 6 f) @ ''+00:00'') =
         Some (((h * 60 + mi) * 60 + sec) * 1000000 + f, ''+00:00'')"
  using assms by (simp add: parse_hms_def parse_fraction_def hms_us_def)

lemma utc_text_reads_back:
  assumes "utc_text us = Some s"
  shows "fromisoformat (replace_z s) = Some (us, Some 0)"
proof -
  define ordinal where "ordinal = us div us_per_day + 719163"
  define t where "t = nat (us mod us_per_day)"
  obtain y m d where ymd: "ord2ymd (nat ordinal) = (y, m, d)" by (metis prod_cases3)
  have bounds: "1 \<le> ordinal" "ordinal \<le> 3652059"
    using assms by (auto simp: utc_text_def Let_def ordinal_def split: if_splits)
  have ok: "ymd2ord y m d = nat ordinal" "1 \<le> y" "1 \<le> m" "m \<le> 12" "1 \<le> d" "d \<le> days_in_month y m"
    using ord2ymd_correct [OF _ ymd] bounds by simp_all
  have "y \<le> 9999"
    using days_before_year_10000 [of y] ok(1,5) bounds unfolding ymd2ord_def by linarith
  then have valid: "valid_date y m d" using ok by (simp add: valid_date_def)
  have "days_in_month y m \<le> 31" by (simp add: days_in_month_def)
  then have small: "y < 10 ^ 4" "m < 10 ^ 2" "d < 10 ^ 2" using \<open>y \<le> 9999\<close> ok by simp_all
  have t: "t < 86400000000" unfolding t_def by (simp add: nat_less_iff)
  let ?h = "t div 3600000000" and ?mi = "t div 60000000 mod 60" and ?sec = "t div 1000000 mod 60"
    and ?f = "t mod 1000000"
  have parts: "?h < 24" "?mi < 60" "?sec < 60" "?f < 1000000" using t by simp_all
  have total: "((?h * 60 + ?mi) * 60 + ?sec) * 1000000 + ?f = t"
  proof -
    have "t div 60000000 = t div 1000000 div 60" "t div 3600000000 = t div 1000000 div 60 div 60"
      by (simp_all add: div_mult2_eq [symmetric])
    then show ?thesis by (simp only: div_mult_mod_eq)
  qed
  have s: "s = pad 4 y @ CHR ''-'' # pad 2 m @ CHR ''-'' # pad 2 d @ CHR ''T'' # pad 2 ?h @
      CHR '':'' # pad 2 ?mi @ CHR '':'' # pad 2 ?sec @ (if ?f = 0 then [] else CHR ''.'' # pad 6 ?f) @ ''Z''"
    using assms bounds ymd unfolding utc_text_def Let_def ordinal_def [symmetric] t_def [symmetric] by (auto split: if_splits)
  have r: "replace_z s = pad 4 y @ CHR ''-'' # pad 2 m @ CHR ''-'' # pad 2 d @ CHR ''T'' # (pad 2 ?h @
      CHR '':'' # pad 2 ?mi @ CHR '':'' # pad 2 ?sec @ (if ?f = 0 then [] else CHR ''.'' # pad 6 ?f) @ ''+00:00'')"
    unfolding s by (simp add: pad_no_z replace_z_Cons)
  have "parse_date (replace_z s) = Some (nat ordinal, CHR ''T'' # (pad 2 ?h @
      CHR '':'' # pad 2 ?mi @ CHR '':'' # pad 2 ?sec @ (if ?f = 0 then [] else CHR ''.'' # pad 6 ?f) @ ''+00:00''))"
    unfolding r parse_date_def using small valid ok(1) by simp
  moreover have "(int (nat ordinal) - 719163) * us_per_day + int t = us"
    using bounds by (simp add: ordinal_def t_def)
  ultimately show ?thesis
    unfolding fromisoformat_def
    using parse_hms_text [OF parts, unfolded total] parse_offset_utc by (simp add: Let_def)
qed

end
