(* ===== verification/Contracts.thy ===== *)
theory Contracts
  imports Redaction Sha256 Patterns Datetime
begin

text \<open>
  \<^verbatim>\<open>src/ophelia/domain/_contracts.py\<close>: the values a contract is made of, their secret-safe
  serialisation, the canonical JSON text and digest, and the validators every contract's
  \<^verbatim>\<open>__post_init__\<close> calls. Python's dynamic \<^verbatim>\<open>isinstance\<close> guards are the types of the model: an
  enumeration value is serialised as its string, tuples and lists as JSON lists.
\<close>

section \<open>Patterns\<close>

definition SHA256_PATTERN :: rx where
  "SHA256_PATTERN = RSeq (rtext ''sha256:'') (rpow 64 (RClass is_hex_lower))"

definition slug_rx :: rx where
  "slug_rx = RSeq (RClass is_lower) (RSeq (RStar (RClass is_lower_alnum))
     (RStar (RSeq (rlit CHR ''-'') (rplus (RClass is_lower_alnum)))))"

definition SLUG_PATTERN :: rx where
  "SLUG_PATTERN = slug_rx"

definition ENTITY_ID_PATTERN :: rx where
  "ENTITY_ID_PATTERN = RSeq (RClass is_lower) (RSeq (RStar (RClass is_lower_alnum)) (RSeq (rlit CHR ''_'')
     (RSeq (RClass is_alnum) (rupto 126 (RClass (\<lambda>c. is_alnum c \<or> c \<in> set ''._-''))))))"

definition OPERATION_PATTERN :: rx where
  "OPERATION_PATTERN = RSeq slug_rx (rplus (RSeq (rlit CHR ''.'') slug_rx))"

definition FORBIDDEN_MAPPING_KEYS :: "string list" where
  "FORBIDDEN_MAPPING_KEYS =
     [''nonce'', ''approval_nonce'', ''raw_nonce'', ''raw_approval_nonce'', ''secret_value'',
      ''secret_values'', ''stdout'', ''stderr'', ''output'', ''command_output'', ''subprocess_output'']"

section \<open>Secret-safe serialisation\<close>

datatype pyval =
    VNone
  | VBool bool
  | VInt int
  | VStr string
  | VList "pyval list"
  | VMap "(string \<times> pyval) list"
  | VContract string "(string \<times> pyval) list"

definition is_digest :: "string \<Rightarrow> bool" where
  "is_digest s = fullmatch SHA256_PATTERN s"

definition is_digest_json :: "json \<Rightarrow> bool" where
  "is_digest_json j = (case j of JStr s \<Rightarrow> is_digest s | _ \<Rightarrow> False)"

definition is_safe_digest_metadata :: "string \<Rightarrow> json \<Rightarrow> bool" where
  "is_safe_digest_metadata key value =
     (let lowered = lower key in
      if ends_with ''_digest'' lowered then is_digest_json value
      else if ends_with ''_digests'' lowered
      then (case value of JList js \<Rightarrow> list_all is_digest_json js | _ \<Rightarrow> False)
      else False)"

function (sequential) restore_digest_metadata :: "json \<Rightarrow> json \<Rightarrow> json" where
  "restore_digest_metadata (JObj kvs) (JObj rs) =
     JObj (foldl (\<lambda>acc p.
         if is_safe_digest_metadata (fst p) (snd p) then dict_set (fst p) (snd p) acc
         else (case map_of acc (fst p) of
                 None \<Rightarrow> acc
               | Some r \<Rightarrow> dict_set (fst p) (restore_digest_metadata (snd p) r) acc))
       rs kvs)"
| "restore_digest_metadata (JList js) (JList rs) =
     JList (map (\<lambda>p. restore_digest_metadata (fst p) (snd p)) (zip js rs))"
| "restore_digest_metadata original redacted = redacted"
  by pat_completeness auto

termination restore_digest_metadata
proof (relation "measure (\<lambda>p. size (fst p))", goal_cases)
  case (2 kvs rs acc p r)
  then have "size (snd p) \<le> size_list (size_prod (\<lambda>x. 0) size) kvs"
    by (intro size_list_estimation' [of p]) (cases p; simp)+
  then show ?case by simp
next
  case (3 js rs p)
  then have "fst p \<in> set js" by (metis prod.collapse set_zip_leftD)
  then show ?case by (auto simp: less_Suc_eq_le size_list_estimation')
qed simp

definition secret_safe :: "json \<Rightarrow> json" where
  "secret_safe payload = restore_digest_metadata payload (deep_redact payload REDACTED [] True)"

fun serialize :: "pyval \<Rightarrow> json" where
  "serialize (VContract kind fs) =
     secret_safe (JObj ((''schema_version'', JInt 1) # (''kind'', JStr kind) #
       map (\<lambda>p. (fst p, serialize (snd p))) fs))"
| "serialize (VMap kvs) =
     secret_safe (JObj (map (\<lambda>p. (fst p, serialize (snd p)))
       (filter (\<lambda>p. lower (fst p) \<notin> set FORBIDDEN_MAPPING_KEYS) kvs)))"
| "serialize (VList vs) = JList (map serialize vs)"
| "serialize VNone = JNull"
| "serialize (VBool b) = JBool b"
| "serialize (VInt i) = JInt i"
| "serialize (VStr s) = JStr s"

definition canonical_json :: "pyval \<Rightarrow> string" where
  "canonical_json value = json_dumps (serialize value)"

definition digest_text :: "string \<Rightarrow> string" where
  "digest_text value = ''sha256:'' @ sha256_hex value"

definition canonical_digest :: "pyval \<Rightarrow> string" where
  "canonical_digest value = digest_text (canonical_json value)"

text \<open>A serialised payload passed back to \<^verbatim>\<open>canonical_digest\<close> is a mapping of plain values.\<close>

fun of_json :: "json \<Rightarrow> pyval" where
  "of_json JNull = VNone"
| "of_json (JBool b) = VBool b"
| "of_json (JInt i) = VInt i"
| "of_json (JStr s) = VStr s"
| "of_json (JList js) = VList (map of_json js)"
| "of_json (JObj kvs) = VMap (map (\<lambda>p. (fst p, of_json (snd p))) kvs)"

text \<open>\<^verbatim>\<open>payload = self.to_dict(); payload.pop(k) ...; canonical_digest(payload)\<close>.\<close>

definition digest_without :: "string list \<Rightarrow> pyval \<Rightarrow> string" where
  "digest_without ks value =
     (case serialize value of
        JObj kvs \<Rightarrow> canonical_digest (of_json (JObj (filter (\<lambda>p. fst p \<notin> set ks) kvs)))
      | j \<Rightarrow> canonical_digest (of_json j))"

section \<open>Validators\<close>

definition contract_error :: "string \<Rightarrow> string \<Rightarrow> py_error" where
  "contract_error field_name msg = ContractValidationError (field_name @ msg)"

definition require_digest :: "string \<Rightarrow> string \<Rightarrow> check" where
  "require_digest value field_name =
     raise_unless (is_digest value)
       (contract_error field_name '' must be a sha256:<64 lowercase hex> digest.'')"

definition require_sorted_set :: "string list \<Rightarrow> string \<Rightarrow> check" where
  "require_sorted_set values field_name =
     raise_unless (values = sorted_set values)
       (contract_error field_name '' must be sorted and contain no duplicates.'')"

definition require_digests :: "string list \<Rightarrow> string \<Rightarrow> check" where
  "require_digests values field_name =
     first_error (map (\<lambda>value. require_digest value field_name) values @
       [require_sorted_set values field_name])"

definition is_slug :: "string \<Rightarrow> bool" where
  "is_slug value \<longleftrightarrow> length value \<le> 63 \<and> fullmatch SLUG_PATTERN value"

definition require_slug :: "string \<Rightarrow> string \<Rightarrow> check" where
  "require_slug value field_name =
     raise_unless (is_slug value)
       (contract_error field_name '' must be a 1-63 character lowercase Ophelia slug.'')"

definition is_entity_id :: "string \<Rightarrow> string \<Rightarrow> bool" where
  "is_entity_id prefix value \<longleftrightarrow>
     starts_with (prefix @ ''_'') value \<and> fullmatch ENTITY_ID_PATTERN value"

definition require_entity_id :: "string \<Rightarrow> string \<Rightarrow> string \<Rightarrow> check" where
  "require_entity_id value prefix field_name =
     raise_unless (is_entity_id prefix value)
       (contract_error field_name ('' must be an Ophelia '' @ prefix @ '' identifier.''))"

definition is_operation :: "string \<Rightarrow> bool" where
  "is_operation value \<longleftrightarrow> length value \<le> 127 \<and> fullmatch OPERATION_PATTERN value"

definition require_operation :: "string \<Rightarrow> check" where
  "require_operation value =
     raise_unless (is_operation value)
       (ContractValidationError ''operation must be a dotted lowercase operation name.'')"

definition printable :: "char \<Rightarrow> bool" where
  "printable c \<longleftrightarrow> 32 \<le> code c \<or> code c = 10 \<or> code c = 9"

definition is_text :: "nat \<Rightarrow> string \<Rightarrow> bool" where
  "is_text maximum value \<longleftrightarrow> value \<noteq> [] \<and> length value \<le> maximum \<and> list_all printable value"

definition require_text :: "string \<Rightarrow> string \<Rightarrow> nat \<Rightarrow> check" where
  "require_text value field_name maximum =
     first_error
       [raise_unless (value \<noteq> [] \<and> length value \<le> maximum)
          (contract_error field_name ('' must be a non-empty string of at most '' @ nat_repr maximum @ '' characters.'')),
        raise_unless (list_all printable value)
          (contract_error field_name '' must not contain control characters.'')]"

definition require_utc :: "string \<Rightarrow> string \<Rightarrow> check" where
  "require_utc value field_name =
     (if value = [] then Some (contract_error field_name '' must be a UTC timestamp.'')
      else (case fromisoformat (replace_z value) of
              None \<Rightarrow> Some (contract_error field_name '' must be an ISO-8601 timestamp.'')
            | Some (us, tz) \<Rightarrow>
                raise_unless (tz = Some 0) (contract_error field_name '' must include a UTC offset.'')))"

definition is_utc :: "string \<Rightarrow> bool" where
  "is_utc value \<longleftrightarrow> require_utc value ''timestamp'' = None"

text \<open>The instant of a valid timestamp, in microseconds.\<close>

definition parse_utc :: "string \<Rightarrow> int res" where
  "parse_utc value =
     (case require_utc value ''timestamp'' of
        Some e \<Rightarrow> Inl e
      | None \<Rightarrow> (case fromisoformat (replace_z value) of
                   Some (us, _) \<Rightarrow> Inr us
                 | None \<Rightarrow> Inl (ValueError ''Invalid isoformat string'')))"

definition utc_us :: "string \<Rightarrow> int" where
  "utc_us value = (case fromisoformat (replace_z value) of Some (us, _) \<Rightarrow> us | None \<Rightarrow> 0)"

definition optional :: "('a \<Rightarrow> check) \<Rightarrow> 'a option \<Rightarrow> check" where
  "optional f value = (case value of None \<Rightarrow> None | Some v \<Rightarrow> f v)"

definition optional_entity_id :: "string option \<Rightarrow> string \<Rightarrow> string \<Rightarrow> check" where
  "optional_entity_id value prefix field_name =
     optional (\<lambda>v. require_entity_id v prefix field_name) value"

definition require_positive :: "int \<Rightarrow> string \<Rightarrow> check" where
  "require_positive value msg = raise_unless (1 \<le> value) (ContractValidationError msg)"

section \<open>What the validators accept\<close>

lemma is_digest_iff: "is_digest s \<longleftrightarrow> (\<exists>h. s = ''sha256:'' @ h \<and> length h = 64 \<and> (\<forall>c \<in> set h. is_hex_lower c))"
  unfolding is_digest_def SHA256_PATTERN_def fullmatch_iff lang.simps lang_rtext lang_pow_class by blast

lemma digest_text_is_digest [simp]: "is_digest (digest_text s)"
  unfolding is_digest_iff digest_text_def using sha256_hex_hex by auto

lemma canonical_digest_is_digest [simp]: "is_digest (canonical_digest v)"
  by (simp add: canonical_digest_def)

lemma require_digest_None [simp, contract_defs]: "require_digest v f = None \<longleftrightarrow> is_digest v"
  by (simp add: require_digest_def)

lemma require_sorted_set_None [simp, contract_defs]:
  "require_sorted_set vs f = None \<longleftrightarrow> sorted vs \<and> distinct vs"
  by (simp add: require_sorted_set_def sorted_set_id_iff)

lemma require_digests_None [simp, contract_defs]:
  "require_digests vs f = None \<longleftrightarrow> (\<forall>v \<in> set vs. is_digest v) \<and> sorted vs \<and> distinct vs"
  by (auto simp: require_digests_def)

lemma require_slug_None [simp, contract_defs]: "require_slug v f = None \<longleftrightarrow> is_slug v"
  by (simp add: require_slug_def)

lemma require_entity_id_None [simp, contract_defs]:
  "require_entity_id v p f = None \<longleftrightarrow> is_entity_id p v"
  by (simp add: require_entity_id_def)

lemma require_operation_None [simp, contract_defs]: "require_operation v = None \<longleftrightarrow> is_operation v"
  by (simp add: require_operation_def)

lemma require_text_None [simp, contract_defs]: "require_text v f n = None \<longleftrightarrow> is_text n v"
  by (auto simp: require_text_def is_text_def)

lemma require_utc_None [simp, contract_defs]: "require_utc v f = None \<longleftrightarrow> is_utc v"
  by (auto simp: is_utc_def require_utc_def split: option.splits)

lemma optional_None [simp, contract_defs]: "optional f v = None \<longleftrightarrow> (\<forall>x. v = Some x \<longrightarrow> f x = None)"
  by (auto simp: optional_def split: option.splits)

lemma optional_entity_id_None [simp, contract_defs]:
  "optional_entity_id v p f = None \<longleftrightarrow> (\<forall>x. v = Some x \<longrightarrow> is_entity_id p x)"
  by (simp add: optional_entity_id_def)

lemma require_positive_None [simp, contract_defs]: "require_positive n m = None \<longleftrightarrow> 1 \<le> n"
  by (simp add: require_positive_def)

lemma parse_utc_valid [simp]: "is_utc v \<Longrightarrow> parse_utc v = Inr (utc_us v)"
  by (auto simp: is_utc_def require_utc_def parse_utc_def utc_us_def split: option.splits if_splits prod.splits)

lemma is_utc_rendered:
  assumes "utc_text us = Some s"
  shows "is_utc s" "utc_us s = us"
proof -
  have "s \<noteq> []" using assms by (auto simp: utc_text_def Let_def split: if_splits prod.splits)
  then show "is_utc s" "utc_us s = us"
    using utc_text_reads_back [OF assms] by (simp_all add: is_utc_def require_utc_def utc_us_def)
qed

text \<open>Identifiers contain neither a colon nor white space, so they never look like credentials.\<close>

definition id_char :: "char \<Rightarrow> bool" where
  "id_char c \<longleftrightarrow> is_alnum c \<or> c \<in> set ''._-''"

lemma id_char_no_colon: "\<not> id_char CHR '':''"
  by (simp add: id_char_def ascii_defs)

lemma rx_within_slug: "rx_within id_char slug_rx"
  by (auto simp: slug_rx_def rplus_def rlit_def id_char_def is_alnum_def is_lower_alnum_def)

lemma slug_chars: "is_slug s \<Longrightarrow> \<forall>c \<in> set s. id_char c"
  using rx_within_slug fullmatch_within by (auto simp: is_slug_def SLUG_PATTERN_def)

lemma rx_within_rupto: "rx_within q r \<Longrightarrow> rx_within q (rupto n r)"
  by (induction n) auto

lemma entity_id_chars: "is_entity_id p s \<Longrightarrow> \<forall>c \<in> set s. id_char c"
proof -
  have "rx_within id_char ENTITY_ID_PATTERN"
    unfolding ENTITY_ID_PATTERN_def
    by (auto simp: rlit_def id_char_def is_alnum_def is_lower_alnum_def intro!: rx_within_rupto simp del: rupto.simps)
  then show "is_entity_id p s \<Longrightarrow> \<forall>c \<in> set s. id_char c"
    using fullmatch_within by (auto simp: is_entity_id_def)
qed

lemma operation_chars: "is_operation s \<Longrightarrow> \<forall>c \<in> set s. id_char c"
proof -
  have "rx_within id_char OPERATION_PATTERN"
    using rx_within_slug by (auto simp: OPERATION_PATTERN_def rplus_def rlit_def id_char_def)
  then show "is_operation s \<Longrightarrow> \<forall>c \<in> set s. id_char c"
    using fullmatch_within by (auto simp: is_operation_def)
qed

lemma id_not_secret: "\<forall>c \<in> set s. id_char c \<Longrightarrow> \<not> looks_like_secret_text s"
  using id_char_no_colon not_secret_no_colon by blast

lemma slug_not_secret: "is_slug s \<Longrightarrow> \<not> looks_like_secret_text s"
  and entity_id_not_secret: "is_entity_id p s \<Longrightarrow> \<not> looks_like_secret_text s"
  and operation_not_secret: "is_operation s \<Longrightarrow> \<not> looks_like_secret_text s"
  using id_not_secret slug_chars entity_id_chars operation_chars by blast+

end
