(* ===== verification/Canonical.thy ===== *)
theory Canonical
  imports Contracts
begin

text \<open>
  How the secret-safe serialisation of nested contracts behaves. Every contract and mapping on the
  way is redacted on its own and the digests restored; the theory proves that all those passes
  amount to one pass (\<open>scrub\<close>) over the raw value, that the pass is idempotent, and what it leaves
  of every scalar. The lemmas on digests without some fields rest on this.
\<close>

section \<open>Redaction and digest restoration as one pass\<close>

fun scrub :: "bool \<Rightarrow> string option \<Rightarrow> json \<Rightarrow> json" where
  "scrub sens kn (JObj kvs) =
     JObj (map (\<lambda>p. (fst p,
       if is_safe_digest_metadata (fst p) (snd p) then snd p
       else scrub (is_sensitive_key (fst p) \<or> sens) (Some (fst p)) (snd p))) kvs)"
| "scrub sens kn (JList js) = JList (map (scrub sens kn) js)"
| "scrub sens kn j = walk REDACTED [] True j sens kn"

lemma dict_set_middle: "k \<notin> fst ` set xs \<Longrightarrow> dict_set k v (xs @ (k, w) # ys) = xs @ (k, v) # ys"
  by (induction xs) auto

lemma map_of_middle: "k \<notin> fst ` set xs \<Longrightarrow> map_of (xs @ (k, w) # ys) k = Some w"
  by (auto simp: map_add_Some_iff map_of_eq_None_iff)

definition restore_step :: "(string \<times> json) list \<Rightarrow> string \<times> json \<Rightarrow> (string \<times> json) list" where
  "restore_step acc p =
     (if is_safe_digest_metadata (fst p) (snd p) then dict_set (fst p) (snd p) acc
      else (case map_of acc (fst p) of
              None \<Rightarrow> acc
            | Some r \<Rightarrow> dict_set (fst p) (restore_digest_metadata (snd p) r) acc))"

lemma restore_JObj: "restore_digest_metadata (JObj kvs) (JObj rs) = JObj (foldl restore_step rs kvs)"
  by (simp add: restore_step_def [abs_def])

lemma restore_step_middle:
  "fst p \<notin> fst ` set xs \<Longrightarrow> restore_step (xs @ (fst p, w) # ys) p =
     xs @ (fst p, if is_safe_digest_metadata (fst p) (snd p) then snd p
                  else restore_digest_metadata (snd p) w) # ys"
  by (simp add: restore_step_def dict_set_middle map_of_middle del: map_of_append)

lemma restore_fold:
  assumes "distinct (map fst (xs @ ys))"
  shows "foldl restore_step (xs @ map (\<lambda>p. (fst p, w p)) ys) ys =
     xs @ map (\<lambda>p. (fst p, if is_safe_digest_metadata (fst p) (snd p) then snd p
                       else restore_digest_metadata (snd p) (w p))) ys"
  using assms
proof (induction ys arbitrary: xs)
  case (Cons p ys)
  let ?v = "if is_safe_digest_metadata (fst p) (snd p) then snd p else restore_digest_metadata (snd p) (w p)"
  have "fst p \<notin> fst ` set xs" using Cons.prems by simp
  moreover have "distinct (map fst ((xs @ [(fst p, ?v)]) @ ys))" using Cons.prems by simp
  ultimately show ?case
    using Cons.IH [of "xs @ [(fst p, ?v)]"] by (simp add: restore_step_middle del: fst_conv snd_conv)
qed simp

lemma restore_walk:
  "json_wf j \<Longrightarrow> restore_digest_metadata j (walk REDACTED [] True j sens kn) = scrub sens kn j"
proof (induction j arbitrary: sens kn)
  case (JList js)
  then show ?case by (auto simp: zip_map2 zip_same_conv_map)
next
  case (JObj kvs)
  have sub: "restore_digest_metadata (snd p) (walk REDACTED [] True (snd p) s kn') = scrub s kn' (snd p)"
    if "p \<in> set kvs" for p s kn'
    using JObj.IH [of p "snd p"] JObj.prems that by (auto simp: snds.simps)
  show ?case
    using restore_fold [of "[]" kvs "\<lambda>p. walk REDACTED [] True (snd p) (is_sensitive_key (fst p) \<or> sens) (Some (fst p))"]
      JObj.prems sub by (simp add: restore_JObj del: restore_digest_metadata.simps)
qed simp_all

lemma secret_safe_scrub: "json_wf j \<Longrightarrow> secret_safe j = scrub False None j"
  by (simp add: secret_safe_def deep_redact_def restore_walk)

lemma json_wf_scrub [simp]: "json_wf j \<Longrightarrow> json_wf (scrub sens kn j)"
proof (induction j arbitrary: sens kn)
  case (JObj kvs)
  have "json_wf (scrub s kn' (snd p))" if "p \<in> set kvs" for p s kn'
    using JObj.IH [of p "snd p"] JObj.prems that by (auto simp: snds.simps)
  with JObj.prems show ?case by (auto simp: comp_def)
next
  case (JStr s)
  then show ?case by (simp add: redact_value_def)
qed (auto simp: redact_value_def)

section \<open>The pass is idempotent\<close>

text \<open>Payloads without command strings, and without keys that mappings drop.\<close>

fun command_free :: "string option \<Rightarrow> json \<Rightarrow> bool" where
  "command_free kn (JObj kvs) = (\<forall>p \<in> set kvs. command_free (Some (fst p)) (snd p))"
| "command_free kn (JList js) = (\<forall>j \<in> set js. command_free kn j)"
| "command_free kn _ = (\<not> looks_like_command_key kn)"

fun forbidden_free :: "json \<Rightarrow> bool" where
  "forbidden_free (JObj kvs) =
     (\<forall>p \<in> set kvs. lower (fst p) \<notin> set FORBIDDEN_MAPPING_KEYS \<and> forbidden_free (snd p))"
| "forbidden_free (JList js) = (\<forall>j \<in> set js. forbidden_free j)"
| "forbidden_free _ = True"

definition scrub_text :: "string \<Rightarrow> string" where
  "scrub_text s = (if looks_like_secret_text s then REDACTED else s)"

lemma scrub_JStr:
  "\<not> looks_like_command_key kn \<Longrightarrow>
   scrub sens kn (JStr s) = JStr (if sens then (if s = [] then [] else REDACTED) else scrub_text s)"
  by (auto simp: scrub_text_def redact_value_def looks_like_secret_value_def)

lemma scrub_text_idem [simp]: "scrub_text (scrub_text s) = scrub_text s"
  by (simp add: scrub_text_def)

lemma not_digest_masked [simp]: "\<not> is_digest REDACTED" "\<not> is_digest []"
  unfolding is_digest_iff by (simp_all add: REDACTED_def)

lemma digest_not_secret: "is_digest s \<Longrightarrow> \<not> looks_like_secret_text s"
proof
  assume "is_digest s" and secret: "looks_like_secret_text s"
  then obtain h where s: "s = ''sha256:'' @ h" and h: "\<forall>c \<in> set h. is_hex_lower c"
    by (auto simp: is_digest_iff)
  have hc: "\<And>c. c \<in> set h \<Longrightarrow> \<not> is_space c \<and> c \<noteq> CHR ''/'' \<and> c \<noteq> CHR '':''"
    using h by (auto simp: ascii_defs)
  have strip: "strip s = s"
    using hc by (intro strip_not_space) (auto simp: s list_all_iff ascii_defs)
  have "CHR ''/'' \<notin> set s" using hc by (auto simp: s)
  moreover have "after_scheme s = Some r \<Longrightarrow> CHR ''/'' \<in> set s" for r
    by (induction s) (auto simp: starts_with_iff split: if_splits)
  ultimately have "after_scheme s = None" by (cases "after_scheme s") auto
  moreover have "\<not> list_ex (\<lambda>prefix. starts_with prefix (lower s)) SECRET_VALUE_PREFIXES"
    by (simp add: s SECRET_VALUE_PREFIXES_def lower_def to_lower_def is_upper_def)
  ultimately show False using secret by (simp add: looks_like_secret_text_def strip Let_def split: if_splits)
qed

lemma scrub_text_digest [simp]: "is_digest s \<Longrightarrow> scrub_text s = s"
  by (simp add: scrub_text_def digest_not_secret)

lemma is_digest_scrub:
  "command_free kn j \<Longrightarrow> is_digest_json (scrub sens kn j) \<Longrightarrow> is_digest_json j"
  by (cases j)
     (auto simp: is_digest_json_def scrub_JStr redact_value_def scrub_text_def simp del: walk.simps scrub.simps(3-6)
        split: if_splits, (auto simp: redact_value_def split: if_splits)+)

lemma scrub_JList_inv: "scrub sens kn j = JList rs \<Longrightarrow> \<exists>js. j = JList js \<and> rs = map (scrub sens kn) js"
  by (cases j) (auto simp: redact_value_def split: if_splits)

lemma is_safe_scrub:
  assumes free: "command_free (Some k) j" and safe: "is_safe_digest_metadata k (scrub sens (Some k) j)"
  shows "is_safe_digest_metadata k j"
proof (cases "ends_with ''_digest'' (lower k)")
  case True
  with safe have "is_digest_json (scrub sens (Some k) j)"
    by (simp add: is_safe_digest_metadata_def Let_def)
  with free have "is_digest_json j" by (rule is_digest_scrub)
  with True show ?thesis by (simp add: is_safe_digest_metadata_def Let_def)
next
  case False
  with safe obtain rs where key: "ends_with ''_digests'' (lower k)"
    and rs: "scrub sens (Some k) j = JList rs" "list_all is_digest_json rs"
    by (auto simp: is_safe_digest_metadata_def Let_def simp del: scrub.simps split: if_splits json.splits)
  then obtain js where js: "j = JList js" "rs = map (scrub sens (Some k)) js"
    using scrub_JList_inv by blast
  have "list_all is_digest_json js"
    using rs(2) free by (auto simp: js list_all_iff intro: is_digest_scrub [of "Some k" _ sens])
  with False key js show ?thesis by (simp add: is_safe_digest_metadata_def Let_def)
qed

definition scrub_member :: "bool \<Rightarrow> string \<Rightarrow> json \<Rightarrow> json" where
  "scrub_member sens k j =
     (if is_safe_digest_metadata k j then j else scrub (is_sensitive_key k \<or> sens) (Some k) j)"

lemma scrub_JObj: "scrub sens kn (JObj kvs) = JObj (map (\<lambda>p. (fst p, scrub_member sens (fst p) (snd p))) kvs)"
  by (simp add: scrub_member_def)

lemma scrub_scrub:
  assumes "s1 \<longrightarrow> s2" "command_free k1 j" "command_free k2 j"
  shows "scrub s2 k2 (scrub s1 k1 j) = scrub s2 k2 j"
  using assms
proof (induction j arbitrary: s1 s2 k1 k2)
  case (JStr s)
  then show ?case by (auto simp: scrub_JStr scrub_text_def simp del: scrub.simps)
next
  case (JObj kvs)
  have "scrub_member s2 (fst p) (scrub_member s1 (fst p) (snd p)) = scrub_member s2 (fst p) (snd p)"
    if p: "p \<in> set kvs" for p
  proof -
    have free: "command_free (Some (fst p)) (snd p)" using JObj.prems(2) p by simp
    have "scrub (is_sensitive_key (fst p) \<or> s2) (Some (fst p)) (scrub (is_sensitive_key (fst p) \<or> s1) (Some (fst p)) (snd p)) =
        scrub (is_sensitive_key (fst p) \<or> s2) (Some (fst p)) (snd p)"
      using JObj.prems(1) free by (intro JObj.IH [OF p]) (auto simp: snds.simps)
    then show ?thesis using is_safe_scrub [OF free] by (auto simp: scrub_member_def)
  qed
  then show ?case by (simp add: scrub_JObj del: scrub.simps)
qed (auto simp: redact_value_def)

section \<open>Nested passes fuse\<close>

text \<open>The value as plain JSON: no redaction at all.\<close>

fun raw :: "pyval \<Rightarrow> json" where
  "raw (VContract kind fs) =
     JObj ((''schema_version'', JInt 1) # (''kind'', JStr kind) # map (\<lambda>p. (fst p, raw (snd p))) fs)"
| "raw (VMap kvs) =
     JObj (map (\<lambda>p. (fst p, raw (snd p))) (filter (\<lambda>p. lower (fst p) \<notin> set FORBIDDEN_MAPPING_KEYS) kvs))"
| "raw (VList vs) = JList (map raw vs)"
| "raw VNone = JNull"
| "raw (VBool b) = JBool b"
| "raw (VInt i) = JInt i"
| "raw (VStr s) = JStr s"

lemma secret_safe_JObj: "\<exists>rs. secret_safe (JObj kvs) = JObj rs"
  by (simp add: secret_safe_def deep_redact_def)

lemma is_digest_serialize: "is_digest_json (serialize v) \<longleftrightarrow> is_digest_json (raw v)"
proof (cases v)
  case (VMap kvs)
  then show ?thesis
    using secret_safe_JObj [of "map (\<lambda>p. (fst p, serialize (snd p)))
      (filter (\<lambda>p. lower (fst p) \<notin> set FORBIDDEN_MAPPING_KEYS) kvs)"]
    by (auto simp: is_digest_json_def)
next
  case (VContract kind fs)
  then show ?thesis
    using secret_safe_JObj [of "(''schema_version'', JInt 1) # (''kind'', JStr kind) #
       map (\<lambda>p. (fst p, serialize (snd p))) fs"]
    by (auto simp: is_digest_json_def)
qed (simp_all add: is_digest_json_def)

lemma is_digest_serialize_eq: "is_digest_json (raw v) \<Longrightarrow> serialize v = raw v"
  by (cases v) (auto simp: is_digest_json_def)

lemma serialize_JList: "serialize v = JList js \<longleftrightarrow> (\<exists>vs. v = VList vs \<and> js = map serialize vs)"
proof (cases v)
  case (VMap kvs)
  then show ?thesis
    using secret_safe_JObj [of "map (\<lambda>p. (fst p, serialize (snd p)))
      (filter (\<lambda>p. lower (fst p) \<notin> set FORBIDDEN_MAPPING_KEYS) kvs)"] by auto
next
  case (VContract kind fs)
  then show ?thesis
    using secret_safe_JObj [of "(''schema_version'', JInt 1) # (''kind'', JStr kind) #
       map (\<lambda>p. (fst p, serialize (snd p))) fs"] by auto
qed auto

lemma raw_JList: "raw v = JList js \<longleftrightarrow> (\<exists>vs. v = VList vs \<and> js = map raw vs)"
  by (cases v) auto

lemma is_safe_iff:
  "is_safe_digest_metadata k j \<longleftrightarrow>
     (if ends_with ''_digest'' (lower k) then is_digest_json j
      else ends_with ''_digests'' (lower k) \<and> (\<exists>js. j = JList js \<and> (\<forall>x \<in> set js. is_digest_json x)))"
  by (cases j) (simp_all add: is_safe_digest_metadata_def Let_def list_all_iff)

lemma is_safe_serialize: "is_safe_digest_metadata k (serialize v) \<longleftrightarrow> is_safe_digest_metadata k (raw v)"
  by (auto simp: is_safe_iff is_digest_serialize serialize_JList raw_JList)

lemma safe_serialize_eq: "is_safe_digest_metadata k (raw v) \<Longrightarrow> serialize v = raw v"
  by (auto simp: is_safe_iff is_digest_serialize_eq raw_JList split: if_splits)

lemma scrub_member_serialize:
  assumes "scrub (is_sensitive_key k \<or> sens) (Some k) (serialize v) = scrub (is_sensitive_key k \<or> sens) (Some k) (raw v)"
  shows "scrub_member sens k (serialize v) = scrub_member sens k (raw v)"
  using assms safe_serialize_eq [of k v] by (auto simp: scrub_member_def is_safe_serialize)

lemma fuse_members:
  assumes wf: "json_wf (JObj (pre @ map (\<lambda>p. (fst p, raw (snd p))) fs))"
    and free: "command_free kn (JObj (pre @ map (\<lambda>p. (fst p, raw (snd p))) fs))"
    and IH: "\<And>p s kn. p \<in> set fs \<Longrightarrow> json_wf (raw (snd p)) \<Longrightarrow> command_free kn (raw (snd p)) \<Longrightarrow>
      scrub s kn (serialize (snd p)) = scrub s kn (raw (snd p)) \<and> json_wf (serialize (snd p))"
  shows "secret_safe (JObj (pre @ map (\<lambda>p. (fst p, serialize (snd p))) fs)) =
      scrub False None (JObj (pre @ map (\<lambda>p. (fst p, raw (snd p))) fs))" (is ?fused)
    and "scrub s kn (secret_safe (JObj (pre @ map (\<lambda>p. (fst p, serialize (snd p))) fs))) =
      scrub s kn (JObj (pre @ map (\<lambda>p. (fst p, raw (snd p))) fs))"
    and "json_wf (secret_safe (JObj (pre @ map (\<lambda>p. (fst p, serialize (snd p))) fs)))"
proof -
  have "json_wf (serialize (snd p))"
    and "scrub_member s (fst p) (serialize (snd p)) = scrub_member s (fst p) (raw (snd p))"
    if "p \<in> set fs" for p s
  proof -
    have "(fst p, raw (snd p)) \<in> set (pre @ map (\<lambda>p. (fst p, raw (snd p))) fs)" using that by simp
    then have "json_wf (raw (snd p))" "command_free (Some (fst p)) (raw (snd p))"
      using wf free by (metis json_wf.simps(2) snd_conv, metis command_free.simps(1) fst_conv snd_conv)
    note sub = IH [OF that this]
    show "json_wf (serialize (snd p))" using sub by simp
    show "scrub_member s (fst p) (serialize (snd p)) = scrub_member s (fst p) (raw (snd p))"
      using sub by (intro scrub_member_serialize) simp
  qed
  then have "json_wf (JObj (pre @ map (\<lambda>p. (fst p, serialize (snd p))) fs))"
    and "scrub False None (JObj (pre @ map (\<lambda>p. (fst p, serialize (snd p))) fs)) =
      scrub False None (JObj (pre @ map (\<lambda>p. (fst p, raw (snd p))) fs))"
    using wf by (auto simp: scrub_JObj comp_def simp del: scrub.simps)
  then show fused: ?fused by (simp only: secret_safe_scrub)
  show "scrub s kn (secret_safe (JObj (pre @ map (\<lambda>p. (fst p, serialize (snd p))) fs))) =
      scrub s kn (JObj (pre @ map (\<lambda>p. (fst p, raw (snd p))) fs))"
    unfolding fused using free by (intro scrub_scrub) (simp_all only: command_free.simps simp_thms)
  show "json_wf (secret_safe (JObj (pre @ map (\<lambda>p. (fst p, serialize (snd p))) fs)))"
    unfolding fused using wf by (rule json_wf_scrub)
qed

lemma fuse:
  "json_wf (raw v) \<Longrightarrow> command_free kn (raw v) \<Longrightarrow>
     scrub s kn (serialize v) = scrub s kn (raw v) \<and> json_wf (serialize v)"
proof (induction v arbitrary: s kn)
  case (VMap kvs)
  let ?fs = "filter (\<lambda>p. lower (fst p) \<notin> set FORBIDDEN_MAPPING_KEYS) kvs"
  have IH: "scrub s kn (serialize (snd p)) = scrub s kn (raw (snd p)) \<and> json_wf (serialize (snd p))"
    if "p \<in> set ?fs" "json_wf (raw (snd p))" "command_free kn (raw (snd p))" for p s kn
    using VMap.IH [of p "snd p"] that by (auto simp: snds.simps)
  show ?case
    using fuse_members [of "[]" ?fs kn] VMap.prems IH by simp
next
  case (VContract kind fs)
  let ?pre = "[(''schema_version'', JInt 1), (''kind'', JStr kind)]"
  have IH: "scrub s kn (serialize (snd p)) = scrub s kn (raw (snd p)) \<and> json_wf (serialize (snd p))"
    if "p \<in> set fs" "json_wf (raw (snd p))" "command_free kn (raw (snd p))" for p s kn
    using VContract.IH [of p "snd p"] that by (auto simp: snds.simps)
  show ?case
    using fuse_members [of ?pre fs kn] VContract.prems IH by simp
qed auto

text \<open>The serialised form of a contract is one pass over its raw form.\<close>

lemma serialize_contract:
  assumes "json_wf (raw (VContract kind fs))" and "command_free None (raw (VContract kind fs))"
  shows "serialize (VContract kind fs) = scrub False None (raw (VContract kind fs))"
  using fuse_members(1) [of "[(''schema_version'', JInt 1), (''kind'', JStr kind)]" fs None] assms fuse
  by simp

lemma serialize_map:
  assumes "json_wf (raw (VMap kvs))" and "command_free None (raw (VMap kvs))"
  shows "serialize (VMap kvs) = scrub False None (raw (VMap kvs))"
  using fuse_members(1) [of "[]" "filter (\<lambda>p. lower (fst p) \<notin> set FORBIDDEN_MAPPING_KEYS) kvs" None] assms fuse
  by simp

section \<open>What a serialised value reveals\<close>

lemma json_wf_secret_safe: "json_wf (JObj kvs) \<Longrightarrow> json_wf (secret_safe (JObj kvs))"
  by (simp only: secret_safe_scrub json_wf_scrub)

lemma json_wf_serialize: "json_wf (raw v) \<Longrightarrow> json_wf (serialize v)"
proof (induction v)
  case (VMap kvs)
  let ?fs = "filter (\<lambda>p. lower (fst p) \<notin> set FORBIDDEN_MAPPING_KEYS) kvs"
  have "json_wf (serialize (snd p))" if "p \<in> set ?fs" for p
    using VMap.IH [of p "snd p"] VMap.prems that by (cases p) (auto simp: snds.simps)
  then have "json_wf (JObj (map (\<lambda>p. (fst p, serialize (snd p))) ?fs))"
    using VMap.prems by (auto simp: comp_def)
  then show ?case by (simp only: serialize.simps json_wf_secret_safe)
next
  case (VContract kind fs)
  have "json_wf (serialize (snd p))" if "p \<in> set fs" for p
    using VContract.IH [of p "snd p"] VContract.prems that by (auto simp: snds.simps)
  then have "json_wf (JObj ((''schema_version'', JInt 1) # (''kind'', JStr kind) # map (\<lambda>p. (fst p, serialize (snd p))) fs))"
    using VContract.prems by (auto simp: comp_def image_image)
  then show ?case by (simp only: serialize.simps json_wf_secret_safe)
qed auto

definition digest_key :: "string \<Rightarrow> bool" where
  "digest_key k \<longleftrightarrow> ends_with ''_digest'' (lower k) \<or> ends_with ''_digests'' (lower k)"

text \<open>A scalar that may appear below a sensitive key: masked, or a digest directly under a digest key.\<close>

definition disclosed :: "bool \<Rightarrow> string option \<Rightarrow> string list \<Rightarrow> json \<Rightarrow> bool" where
  "disclosed sens kn path s \<longleftrightarrow>
     (sens \<or> sensitive_path [] path \<longrightarrow>
        masked_scalar s \<or> (is_digest_json s \<and> path \<noteq> [] \<and> digest_key (last path))) \<and>
     (if looks_like_command_key (last_key kn path) then scrubbed_command s else \<not> looks_like_secret_value s)"

lemma digest_key_no_command:
  assumes "digest_key k"
  shows "\<not> looks_like_command_key (Some k)"
proof -
  let ?x = "lower k"
  have "last ?x = CHR ''t'' \<or> last ?x = CHR ''s'' \<and> last (butlast ?x) = CHR ''t''"
    using assms by (auto simp: digest_key_def ends_with_iff butlast_append)
  moreover have "last ?x = CHR ''d'' \<or> last ?x = CHR ''s'' \<and> last (butlast ?x) = CHR ''d''"
    if "looks_like_command_key (Some k)"
    using that by (auto simp: looks_like_command_key_def Let_def COMMAND_STRING_KEYS_def ends_with_iff butlast_append)
  ultimately show ?thesis by auto
qed

lemma digest_scalar: "is_digest_json j \<Longrightarrow> is_scalar j \<and> \<not> looks_like_secret_value j"
  by (cases j) (auto simp: is_digest_json_def looks_like_secret_value_def digest_not_secret)

lemma occurs_safe:
  assumes "is_safe_digest_metadata k j" and "occurs j path s"
  shows "path = [] \<and> is_digest_json s \<and> digest_key k"
proof (cases "ends_with ''_digest'' (lower k)")
  case True
  then show ?thesis
    using assms digest_scalar [of j] by (auto simp: is_safe_iff occurs_scalar_iff digest_key_def)
next
  case False
  then obtain js where "j = JList js" "\<forall>x \<in> set js. is_digest_json x" "ends_with ''_digests'' (lower k)"
    using assms by (auto simp: is_safe_iff)
  then show ?thesis
    using assms(2) digest_scalar by (auto elim!: occurs_listE simp: occurs_scalar_iff digest_key_def)
qed

lemma occurs_scrub: "occurs (scrub sens kn j) path s \<Longrightarrow> disclosed sens kn path s"
proof (induction j arbitrary: sens kn path)
  case (JList js)
  from JList.prems obtain j where "j \<in> set js" "occurs (scrub sens kn j) path s"
    by (auto elim!: occurs_listE simp: occurs_scalar_iff)
  with JList.IH show ?case by blast
next
  case (JObj kvs)
  then obtain k j p where kj: "(k, j) \<in> set kvs" and path: "path = k # p"
    and occ: "occurs (scrub_member sens k j) p s"
    by (auto elim!: occurs_objE simp: scrub_JObj simp del: scrub.simps)
  show ?case
  proof (cases "is_safe_digest_metadata k j")
    case True
    with occ have "p = []" "is_digest_json s" "digest_key k"
      using occurs_safe by (auto simp: scrub_member_def)
    then show ?thesis using digest_scalar digest_key_no_command by (auto simp: disclosed_def path last_key_def)
  next
    case False
    with occ have "occurs (scrub (is_sensitive_key k \<or> sens) (Some k) j) p s" by (simp add: scrub_member_def)
    then have "disclosed (is_sensitive_key k \<or> sens) (Some k) p s"
      using JObj.IH [OF kj] by (auto simp: snds.simps)
    then show ?thesis
      by (auto simp: disclosed_def path sensitive_path_def last_key_def split: if_splits)
  qed
qed (use walk_scalar [where safe = "[]" and propagate = True] occurs_scalar_iff in
  \<open>auto simp: disclosed_def surviving_def below_sensitive_def sensitive_path_def simp del: walk.simps split: if_splits\<close>)

text \<open>
  C33. In the canonical form of a contract or a mapping, whatever values it nests, a scalar below a
  sensitive key is null, empty, the marker, or a well-formed SHA-256 digest whose own key ends in
  \<^verbatim>\<open>_digest\<close> or \<^verbatim>\<open>_digests\<close>. A scalar whose nearest key is not a command key never has the shape
  of a credential; a string under a command key splits into scrubbed words, which may keep a credential
  before an equals sign.
\<close>

theorem serialize_secret_safe:
  assumes "json_wf (raw (VContract kind fs))" and "occurs (serialize (VContract kind fs)) path s"
  shows "(sensitive_path [] path \<longrightarrow>
        masked_scalar s \<or> (is_digest_json s \<and> path \<noteq> [] \<and> digest_key (last path))) \<and>
     (\<not> looks_like_command_key (last_key None path) \<longrightarrow> \<not> looks_like_secret_value s) \<and>
     (looks_like_command_key (last_key None path) \<longrightarrow> scrubbed_command s)"
proof -
  let ?j = "JObj ((''schema_version'', JInt 1) # (''kind'', JStr kind) # map (\<lambda>p. (fst p, serialize (snd p))) fs)"
  have "json_wf (serialize (snd p))" if "p \<in> set fs" for p
    using assms(1) that by (auto intro: json_wf_serialize)
  then have "json_wf ?j" using assms(1) by (auto simp: comp_def image_image)
  then have "occurs (scrub False None ?j) path s"
    using assms(2) by (simp only: serialize.simps secret_safe_scrub)
  then have "disclosed False None path s" by (rule occurs_scrub)
  then show ?thesis by (simp add: disclosed_def split: if_splits)
qed

theorem serialize_secret_safe_witness:
  "occurs (serialize (VContract ''demo'' [(''password'', VStr ''hunter2'')])) [''password''] (JStr REDACTED) \<and>
   (masked_scalar (JStr REDACTED) \<or> is_digest_json (JStr REDACTED) \<and> digest_key ''password'')"
proof -
  have wf: "json_wf (raw (VContract ''demo'' [(''password'', VStr ''hunter2'')]))" by code_simp
  have "serialize (VContract ''demo'' [(''password'', VStr ''hunter2'')]) =
      JObj [(''schema_version'', JInt 1), (''kind'', JStr ''demo''), (''password'', JStr REDACTED)]" by code_simp
  then have occ: "occurs (serialize (VContract ''demo'' [(''password'', VStr ''hunter2'')])) [''password''] (JStr REDACTED)"
    by (simp del: serialize.simps) (rule occurs_member [OF _ occurs_here], simp_all)
  have "sensitive_path [] [''password'']" by code_simp
  with serialize_secret_safe [OF wf occ] occ show ?thesis by simp
qed

section \<open>Digests of a contract without some of its fields\<close>

lemma command_free_scrub: "command_free kn j \<Longrightarrow> command_free kn (scrub sens kn j)"
proof (induction j arbitrary: sens kn)
  case (JObj kvs)
  have "command_free (Some (fst p)) (scrub_member sens (fst p) (snd p))" if "p \<in> set kvs" for p
    using JObj.IH [OF that, of "snd p"] JObj.prems that by (auto simp: snds.simps scrub_member_def)
  then show ?case by (simp add: scrub_JObj del: scrub.simps)
qed (auto simp: redact_value_def)

lemma forbidden_free_scrub: "forbidden_free j \<Longrightarrow> forbidden_free (scrub sens kn j)"
proof (induction j arbitrary: sens kn)
  case (JObj kvs)
  have "forbidden_free (scrub_member sens (fst p) (snd p))" if "p \<in> set kvs" for p
    using JObj.IH [OF that, of "snd p"] JObj.prems that by (auto simp: snds.simps scrub_member_def)
  with JObj.prems show ?case by (simp add: scrub_JObj del: scrub.simps)
qed (auto simp: redact_value_def)

lemma raw_of_json: "forbidden_free j \<Longrightarrow> raw (of_json j) = j"
proof (induction j)
  case (JList js)
  then show ?case by (simp add: map_idI)
next
  case (JObj kvs)
  have "raw (of_json (snd p)) = snd p" if "p \<in> set kvs" for p
    using JObj.IH [OF that, of "snd p"] JObj.prems that by (auto simp: snds.simps)
  moreover have "filter (\<lambda>p. lower (fst p) \<notin> set FORBIDDEN_MAPPING_KEYS) (map (\<lambda>p. (fst p, of_json (snd p))) kvs) =
      map (\<lambda>p. (fst p, of_json (snd p))) kvs"
    using JObj.prems by (auto intro!: filter_True)
  ultimately show ?case by (simp add: map_idI)
qed simp_all

lemma scrub_member_idem:
  "command_free (Some k) j \<Longrightarrow> scrub_member sens k (scrub_member sens k j) = scrub_member sens k j"
  using is_safe_scrub [of k j] scrub_scrub [of _ _ "Some k" j "Some k"] by (auto simp: scrub_member_def)

text \<open>The members of a contract, and their canonical form.\<close>

definition members :: "string \<Rightarrow> (string \<times> pyval) list \<Rightarrow> (string \<times> json) list" where
  "members kind fs = (''schema_version'', JInt 1) # (''kind'', JStr kind) # map (\<lambda>p. (fst p, raw (snd p))) fs"

definition scrub_members :: "(string \<times> json) list \<Rightarrow> (string \<times> json) list" where
  "scrub_members kvs = map (\<lambda>p. (fst p, scrub_member False (fst p) (snd p))) kvs"

definition tame :: "string \<Rightarrow> (string \<times> pyval) list \<Rightarrow> bool" where
  "tame kind fs \<longleftrightarrow>
     json_wf (JObj (members kind fs)) \<and> command_free None (JObj (members kind fs)) \<and>
     forbidden_free (JObj (members kind fs))"

lemma raw_contract: "raw (VContract kind fs) = JObj (members kind fs)"
  by (simp add: members_def)

lemma serialize_tame: "tame kind fs \<Longrightarrow> serialize (VContract kind fs) = JObj (scrub_members (members kind fs))"
  by (simp add: serialize_contract tame_def raw_contract scrub_members_def scrub_JObj del: serialize.simps raw.simps scrub.simps)

lemma scrub_members_idem:
  "command_free None (JObj kvs) \<Longrightarrow> scrub_members (scrub_members kvs) = scrub_members kvs"
  by (simp add: scrub_members_def scrub_member_idem)

lemma filter_scrub_members:
  "filter (\<lambda>p. P (fst p)) (scrub_members kvs) = scrub_members (filter (\<lambda>p. P (fst p)) kvs)"
  by (simp add: scrub_members_def filter_map comp_def)

lemma serialize_of_json_members:
  assumes "json_wf (JObj kvs)" "command_free None (JObj kvs)" "forbidden_free (JObj kvs)"
  shows "serialize (of_json (JObj (scrub_members kvs))) = JObj (scrub_members kvs)"
proof -
  have eq: "JObj (scrub_members kvs) = scrub False None (JObj kvs)"
    by (simp add: scrub_members_def scrub_JObj del: scrub.simps)
  have "raw (of_json (JObj (scrub_members kvs))) = JObj (scrub_members kvs)"
    unfolding eq using assms(3) by (intro raw_of_json forbidden_free_scrub)
  then have r: "raw (VMap (map (\<lambda>p. (fst p, of_json (snd p))) (scrub_members kvs))) = scrub False None (JObj kvs)"
    by (simp only: of_json.simps eq [symmetric])
  have "serialize (VMap (map (\<lambda>p. (fst p, of_json (snd p))) (scrub_members kvs))) =
      scrub False None (scrub False None (JObj kvs))"
    using assms(1,2) by (subst serialize_map) (simp_all only: r json_wf_scrub command_free_scrub)
  also have "\<dots> = scrub False None (JObj kvs)" using assms(2) by (intro scrub_scrub) simp_all
  finally show ?thesis by (simp only: of_json.simps eq [symmetric])
qed

lemma digest_without_tame:
  assumes "tame kind fs"
  shows "digest_without ks (VContract kind fs) =
    digest_text (json_dumps (JObj (scrub_members (filter (\<lambda>p. fst p \<notin> set ks) (members kind fs)))))"
proof -
  have "distinct (map fst (filter (\<lambda>p. fst p \<notin> set ks) (members kind fs)))"
    using assms by (simp add: tame_def distinct_map_filter)
  then have "serialize (of_json (JObj (scrub_members (filter (\<lambda>p. fst p \<notin> set ks) (members kind fs))))) =
      JObj (scrub_members (filter (\<lambda>p. fst p \<notin> set ks) (members kind fs)))"
    using assms by (intro serialize_of_json_members) (auto simp: tame_def)
  then show ?thesis
    using assms by (simp add: digest_without_def serialize_tame canonical_digest_def canonical_json_def
        filter_scrub_members [where P = "\<lambda>k. k \<notin> set ks"] del: serialize.simps of_json.simps)
qed

end
