(* ===== verification/Enums.thy ===== *)
theory Enums
  imports Prelude
begin

text \<open>
  The string enumerations of \<^verbatim>\<open>src/ophelia/domain/\<close>, each a datatype with its \<^verbatim>\<open>.value\<close> and the
  list of its members. The interface \<open>str_enum\<close> promises that the list covers the type and that
  values are distinct; looking a value up then gives its member back, and nothing else is accepted.
\<close>

section \<open>Enumerations\<close>

text \<open>\<^verbatim>\<open>Enum(value)\<close>: the member with that value, or \<^verbatim>\<open>ValueError\<close>.\<close>

definition enum_of :: "'a list \<Rightarrow> ('a \<Rightarrow> string) \<Rightarrow> string \<Rightarrow> 'a res" where
  "enum_of members value s =
     (case find (\<lambda>x. value x = s) members of
        Some x \<Rightarrow> Inr x
      | None \<Rightarrow> Inl (ValueError (s @ '' is not a valid member'')))"

locale str_enum =
  fixes members :: "'a list" and val_of :: "'a \<Rightarrow> string"
  assumes covers: "x \<in> set members"
    and distinct_values: "distinct (map val_of members)"
begin

lemma value_inj: "val_of x = val_of y \<longleftrightarrow> x = y"
  using covers distinct_values by (auto simp: distinct_map dest: inj_onD)

lemma enum_of_value: "enum_of members val_of (val_of x) = Inr x"
proof (cases "find (\<lambda>y. val_of y = val_of x) members")
  case None
  then show ?thesis using covers by (auto simp: find_None_iff)
next
  case (Some y)
  then have "val_of y = val_of x" by (auto simp: find_Some_iff)
  with Some show ?thesis by (simp add: enum_of_def value_inj)
qed

lemma enum_of_Inr: "enum_of members val_of s = Inr x \<longleftrightarrow> s = val_of x"
proof
  assume "enum_of members val_of s = Inr x"
  then show "s = val_of x"
    by (auto simp: enum_of_def find_Some_iff split: option.splits)
qed (simp add: enum_of_value)

end

datatype operation_state =
    OS_ACCEPTED | OS_PLANNING | OS_AWAITING_APPROVAL | OS_QUEUED | OS_EXECUTING | OS_COMPENSATING
  | OS_SUCCEEDED | OS_FAILED_COMPENSATED | OS_FAILED_UNCOMPENSATED | OS_CANCELLING | OS_CANCELLED

fun os_value :: "operation_state \<Rightarrow> string" where
  "os_value OS_ACCEPTED = ''accepted''"
| "os_value OS_PLANNING = ''planning''"
| "os_value OS_AWAITING_APPROVAL = ''awaiting_approval''"
| "os_value OS_QUEUED = ''queued''"
| "os_value OS_EXECUTING = ''executing''"
| "os_value OS_COMPENSATING = ''compensating''"
| "os_value OS_SUCCEEDED = ''succeeded''"
| "os_value OS_FAILED_COMPENSATED = ''failed_compensated''"
| "os_value OS_FAILED_UNCOMPENSATED = ''failed_uncompensated''"
| "os_value OS_CANCELLING = ''cancelling''"
| "os_value OS_CANCELLED = ''cancelled''"

definition os_all :: "operation_state list" where
  "os_all = [OS_ACCEPTED, OS_PLANNING, OS_AWAITING_APPROVAL, OS_QUEUED, OS_EXECUTING, OS_COMPENSATING,
     OS_SUCCEEDED, OS_FAILED_COMPENSATED, OS_FAILED_UNCOMPENSATED, OS_CANCELLING, OS_CANCELLED]"

definition terminal :: "operation_state \<Rightarrow> bool" where
  "terminal s \<longleftrightarrow> s \<in> {OS_SUCCEEDED, OS_FAILED_COMPENSATED, OS_FAILED_UNCOMPENSATED, OS_CANCELLED}"

datatype workload_kind =
  WK_WEB | WK_INTERNAL | WK_WORKER | WK_CRON | WK_TASK | WK_MIGRATION | WK_STATIC

fun wk_value :: "workload_kind \<Rightarrow> string" where
  "wk_value WK_WEB = ''web''"
| "wk_value WK_INTERNAL = ''internal''"
| "wk_value WK_WORKER = ''worker''"
| "wk_value WK_CRON = ''cron''"
| "wk_value WK_TASK = ''task''"
| "wk_value WK_MIGRATION = ''migration''"
| "wk_value WK_STATIC = ''static''"

definition wk_all :: "workload_kind list" where
  "wk_all = [WK_WEB, WK_INTERNAL, WK_WORKER, WK_CRON, WK_TASK, WK_MIGRATION, WK_STATIC]"

fun activation_semantics :: "workload_kind \<Rightarrow> string" where
  "activation_semantics WK_WEB = ''blue_green''"
| "activation_semantics WK_INTERNAL = ''serial_replace''"
| "activation_semantics WK_WORKER = ''fenced_handoff''"
| "activation_semantics WK_CRON = ''fenced_singleton''"
| "activation_semantics WK_TASK = ''idempotent_once''"
| "activation_semantics WK_MIGRATION = ''exactly_once''"
| "activation_semantics WK_STATIC = ''atomic_pointer''"

definition long_running :: "workload_kind \<Rightarrow> bool" where
  "long_running k \<longleftrightarrow> k \<in> {WK_WEB, WK_INTERNAL, WK_WORKER, WK_CRON}"

definition receives_traffic :: "workload_kind \<Rightarrow> bool" where
  "receives_traffic k \<longleftrightarrow> k \<in> {WK_WEB, WK_STATIC}"

definition overlap_allowed_by_default :: "workload_kind \<Rightarrow> bool" where
  "overlap_allowed_by_default k \<longleftrightarrow> k \<in> {WK_WEB, WK_STATIC}"

definition requires_idempotency_key :: "workload_kind \<Rightarrow> bool" where
  "requires_idempotency_key k \<longleftrightarrow> k \<in> {WK_TASK, WK_MIGRATION}"

datatype revision_state =
    RS_CREATED | RS_STAGED | RS_PREFLIGHT_PASSED | RS_STARTING | RS_READY | RS_TRAFFIC_CANDIDATE
  | RS_ACTIVE | RS_DRAINING | RS_INACTIVE | RS_GARBAGE_COLLECTABLE | RS_ROLLBACK_STARTING | RS_FAILED

fun rs_value :: "revision_state \<Rightarrow> string" where
  "rs_value RS_CREATED = ''created''"
| "rs_value RS_STAGED = ''staged''"
| "rs_value RS_PREFLIGHT_PASSED = ''preflight_passed''"
| "rs_value RS_STARTING = ''starting''"
| "rs_value RS_READY = ''ready''"
| "rs_value RS_TRAFFIC_CANDIDATE = ''traffic_candidate''"
| "rs_value RS_ACTIVE = ''active''"
| "rs_value RS_DRAINING = ''draining''"
| "rs_value RS_INACTIVE = ''inactive''"
| "rs_value RS_GARBAGE_COLLECTABLE = ''garbage_collectable''"
| "rs_value RS_ROLLBACK_STARTING = ''rollback_starting''"
| "rs_value RS_FAILED = ''failed''"

definition rs_all :: "revision_state list" where
  "rs_all = [RS_CREATED, RS_STAGED, RS_PREFLIGHT_PASSED, RS_STARTING, RS_READY, RS_TRAFFIC_CANDIDATE,
     RS_ACTIVE, RS_DRAINING, RS_INACTIVE, RS_GARBAGE_COLLECTABLE, RS_ROLLBACK_STARTING, RS_FAILED]"

datatype plan_phase =
    PH_VALIDATE | PH_OBSERVE | PH_PLAN | PH_AUTHORIZE | PH_STAGE | PH_PREFLIGHT | PH_START_CANDIDATE
  | PH_READINESS_VERIFY | PH_SWITCH_TRAFFIC | PH_EXTERNAL_VERIFY | PH_DRAIN_PREVIOUS | PH_COMMIT
  | PH_EMIT_RECEIPT

fun ph_value :: "plan_phase \<Rightarrow> string" where
  "ph_value PH_VALIDATE = ''validate''"
| "ph_value PH_OBSERVE = ''observe''"
| "ph_value PH_PLAN = ''plan''"
| "ph_value PH_AUTHORIZE = ''authorize''"
| "ph_value PH_STAGE = ''stage''"
| "ph_value PH_PREFLIGHT = ''preflight''"
| "ph_value PH_START_CANDIDATE = ''start_candidate''"
| "ph_value PH_READINESS_VERIFY = ''readiness_verify''"
| "ph_value PH_SWITCH_TRAFFIC = ''switch_traffic''"
| "ph_value PH_EXTERNAL_VERIFY = ''external_verify''"
| "ph_value PH_DRAIN_PREVIOUS = ''drain_previous''"
| "ph_value PH_COMMIT = ''commit''"
| "ph_value PH_EMIT_RECEIPT = ''emit_receipt''"

definition ph_all :: "plan_phase list" where
  "ph_all = [PH_VALIDATE, PH_OBSERVE, PH_PLAN, PH_AUTHORIZE, PH_STAGE, PH_PREFLIGHT, PH_START_CANDIDATE,
     PH_READINESS_VERIFY, PH_SWITCH_TRAFFIC, PH_EXTERNAL_VERIFY, PH_DRAIN_PREVIOUS, PH_COMMIT, PH_EMIT_RECEIPT]"

datatype compensation_action =
    CA_NONE | CA_DELETE_CANDIDATE | CA_STOP_CANDIDATE | CA_RESTORE_TRAFFIC | CA_PRESERVE_PREVIOUS
  | CA_RECOVER_FROM_JOURNAL

fun ca_value :: "compensation_action \<Rightarrow> string" where
  "ca_value CA_NONE = ''none''"
| "ca_value CA_DELETE_CANDIDATE = ''delete_candidate''"
| "ca_value CA_STOP_CANDIDATE = ''stop_candidate''"
| "ca_value CA_RESTORE_TRAFFIC = ''restore_traffic''"
| "ca_value CA_PRESERVE_PREVIOUS = ''preserve_previous''"
| "ca_value CA_RECOVER_FROM_JOURNAL = ''recover_from_journal''"

definition ca_all :: "compensation_action list" where
  "ca_all = [CA_NONE, CA_DELETE_CANDIDATE, CA_STOP_CANDIDATE, CA_RESTORE_TRAFFIC, CA_PRESERVE_PREVIOUS,
     CA_RECOVER_FROM_JOURNAL]"

datatype authorization_kind =
  AK_LUMEN_DECISION | AK_LOCAL_OPERATOR | AK_LOCAL_BREAK_GLASS | AK_LEGACY_CONFIRMATION_ADAPTER

fun ak_value :: "authorization_kind \<Rightarrow> string" where
  "ak_value AK_LUMEN_DECISION = ''lumen_decision''"
| "ak_value AK_LOCAL_OPERATOR = ''local_operator''"
| "ak_value AK_LOCAL_BREAK_GLASS = ''local_break_glass''"
| "ak_value AK_LEGACY_CONFIRMATION_ADAPTER = ''legacy_confirmation_adapter''"

definition ak_all :: "authorization_kind list" where
  "ak_all = [AK_LUMEN_DECISION, AK_LOCAL_OPERATOR, AK_LOCAL_BREAK_GLASS, AK_LEGACY_CONFIRMATION_ADAPTER]"

datatype check_status = CS_PASSED | CS_FAILED | CS_SKIPPED

fun cs_value :: "check_status \<Rightarrow> string" where
  "cs_value CS_PASSED = ''passed''"
| "cs_value CS_FAILED = ''failed''"
| "cs_value CS_SKIPPED = ''skipped''"

definition cs_all :: "check_status list" where
  "cs_all = [CS_PASSED, CS_FAILED, CS_SKIPPED]"

datatype verification_status = VS_PASSED | VS_FAILED | VS_NOT_RUN

fun vs_value :: "verification_status \<Rightarrow> string" where
  "vs_value VS_PASSED = ''passed''"
| "vs_value VS_FAILED = ''failed''"
| "vs_value VS_NOT_RUN = ''not_run''"

definition vs_all :: "verification_status list" where
  "vs_all = [VS_PASSED, VS_FAILED, VS_NOT_RUN]"

datatype compensation_status = CO_NOT_NEEDED | CO_SUCCEEDED | CO_FAILED

fun co_value :: "compensation_status \<Rightarrow> string" where
  "co_value CO_NOT_NEEDED = ''not_needed''"
| "co_value CO_SUCCEEDED = ''succeeded''"
| "co_value CO_FAILED = ''failed''"

definition co_all :: "compensation_status list" where
  "co_all = [CO_NOT_NEEDED, CO_SUCCEEDED, CO_FAILED]"

datatype receipt_outcome = RO_SUCCEEDED | RO_FAILED_COMPENSATED | RO_FAILED_UNCOMPENSATED | RO_CANCELLED

fun ro_value :: "receipt_outcome \<Rightarrow> string" where
  "ro_value RO_SUCCEEDED = ''succeeded''"
| "ro_value RO_FAILED_COMPENSATED = ''failed_compensated''"
| "ro_value RO_FAILED_UNCOMPENSATED = ''failed_uncompensated''"
| "ro_value RO_CANCELLED = ''cancelled''"

definition ro_all :: "receipt_outcome list" where
  "ro_all = [RO_SUCCEEDED, RO_FAILED_COMPENSATED, RO_FAILED_UNCOMPENSATED, RO_CANCELLED]"

datatype receipt_effect =
  RE_PREVIEW | RE_FILES_ONLY | RE_RUNTIME_ACTIVATED | RE_BACKUP_CREATED | RE_RESTORE_VERIFIED | RE_NONE

fun re_value :: "receipt_effect \<Rightarrow> string" where
  "re_value RE_PREVIEW = ''preview''"
| "re_value RE_FILES_ONLY = ''files_only''"
| "re_value RE_RUNTIME_ACTIVATED = ''runtime_activated''"
| "re_value RE_BACKUP_CREATED = ''backup_created''"
| "re_value RE_RESTORE_VERIFIED = ''restore_verified''"
| "re_value RE_NONE = ''none''"

definition re_all :: "receipt_effect list" where
  "re_all = [RE_PREVIEW, RE_FILES_ONLY, RE_RUNTIME_ACTIVATED, RE_BACKUP_CREATED, RE_RESTORE_VERIFIED, RE_NONE]"

lemmas enum_lists [enum_simps] =
  os_all_def wk_all_def rs_all_def ph_all_def ca_all_def ak_all_def cs_all_def vs_all_def co_all_def
  ro_all_def re_all_def

interpretation os: str_enum os_all os_value
  by (unfold_locales, case_tac x) (simp_all add: enum_simps)

interpretation wk: str_enum wk_all wk_value
  by (unfold_locales, case_tac x) (simp_all add: enum_simps)

interpretation rs: str_enum rs_all rs_value
  by (unfold_locales, case_tac x) (simp_all add: enum_simps)

interpretation ph: str_enum ph_all ph_value
  by (unfold_locales, case_tac x) (simp_all add: enum_simps)

interpretation ca: str_enum ca_all ca_value
  by (unfold_locales, case_tac x) (simp_all add: enum_simps)

interpretation ak: str_enum ak_all ak_value
  by (unfold_locales, case_tac x) (simp_all add: enum_simps)

interpretation cs: str_enum cs_all cs_value
  by (unfold_locales, case_tac x) (simp_all add: enum_simps)

interpretation vs: str_enum vs_all vs_value
  by (unfold_locales, case_tac x) (simp_all add: enum_simps)

interpretation co: str_enum co_all co_value
  by (unfold_locales, case_tac x) (simp_all add: enum_simps)

interpretation ro: str_enum ro_all ro_value
  by (unfold_locales, case_tac x) (simp_all add: enum_simps)

interpretation re: str_enum re_all re_value
  by (unfold_locales, case_tac x) (simp_all add: enum_simps)

end
