(* ===== verification/Domain.thy ===== *)
theory Domain
  imports Contracts Enums
begin

text \<open>
  The kernel contracts of \<^verbatim>\<open>src/ophelia/domain/\<close> and the execution values of
  \<^verbatim>\<open>src/ophelia/execution/contracts.py\<close>: one record per frozen dataclass, its
  \<^verbatim>\<open>__post_init__\<close> as a chain of checks (\<open>..._check\<close>), its serialised form (\<open>..._val\<close>), and the
  constructors and predicates the classes define. Nested contracts were validated when they were
  built: \<open>..._ok\<close> is validity of a value together with its parts.
\<close>

section \<open>Field values\<close>

definition vopt :: "string option \<Rightarrow> pyval" where
  "vopt v = (case v of None \<Rightarrow> VNone | Some s \<Rightarrow> VStr s)"

definition vstrs :: "string list \<Rightarrow> pyval" where
  "vstrs vs = VList (map VStr vs)"

definition require_all_slugs :: "string list \<Rightarrow> string \<Rightarrow> check" where
  "require_all_slugs values field_name = first_error (map (\<lambda>v. require_slug v field_name) values)"

definition require_all_texts :: "string list \<Rightarrow> string \<Rightarrow> nat \<Rightarrow> check" where
  "require_all_texts values field_name maximum =
     first_error (map (\<lambda>v. require_text v field_name maximum) values)"

lemma require_all_slugs_None [simp, contract_defs]:
  "require_all_slugs vs f = None \<longleftrightarrow> (\<forall>v \<in> set vs. is_slug v)"
  by (auto simp: require_all_slugs_def)

lemma require_all_texts_None [simp, contract_defs]:
  "require_all_texts vs f n = None \<longleftrightarrow> (\<forall>v \<in> set vs. is_text n v)"
  by (auto simp: require_all_texts_def)

section \<open>Actors, requests and references\<close>

record actor =
  ac_actor_id :: string
  ac_source :: string
  ac_authenticated_by :: string

definition actor_check :: "actor \<Rightarrow> check" where
  "actor_check a = first_error
     [require_entity_id (ac_actor_id a) ''actor'' ''actor_id'',
      require_text (ac_source a) ''source'' 128,
      require_text (ac_authenticated_by a) ''authenticated_by'' 128]"

definition actor_val :: "actor \<Rightarrow> pyval" where
  "actor_val a = VContract ''ophelia.kernel.actor''
     [(''actor_id'', VStr (ac_actor_id a)), (''source'', VStr (ac_source a)),
      (''authenticated_by'', VStr (ac_authenticated_by a))]"

record operation_request =
  rq_request_id :: string
  rq_operation :: string
  rq_host_id :: string
  rq_app :: string
  rq_environment :: string
  rq_revision_id :: string
  rq_revision_digest :: string
  rq_idempotency_key :: string

definition operation_request_check :: "operation_request \<Rightarrow> check" where
  "operation_request_check r = first_error
     [require_entity_id (rq_request_id r) ''request'' ''request_id'',
      require_operation (rq_operation r),
      require_entity_id (rq_host_id r) ''host'' ''host_id'',
      require_slug (rq_app r) ''app'',
      require_slug (rq_environment r) ''environment'',
      require_entity_id (rq_revision_id r) ''rev'' ''revision_id'',
      require_digest (rq_revision_digest r) ''revision_digest'',
      require_text (rq_idempotency_key r) ''idempotency_key'' 255]"

definition operation_request_val :: "operation_request \<Rightarrow> pyval" where
  "operation_request_val r = VContract ''ophelia.kernel.operation_request''
     [(''request_id'', VStr (rq_request_id r)), (''operation'', VStr (rq_operation r)),
      (''host_id'', VStr (rq_host_id r)), (''app'', VStr (rq_app r)),
      (''environment'', VStr (rq_environment r)), (''revision_id'', VStr (rq_revision_id r)),
      (''revision_digest'', VStr (rq_revision_digest r)),
      (''idempotency_key'', VStr (rq_idempotency_key r))]"

definition intent_digest :: "operation_request \<Rightarrow> string" where
  "intent_digest r = digest_without [''request_id'', ''idempotency_key''] (operation_request_val r)"

record operation_ref =
  or_operation_id :: string
  or_request_id :: string
  or_state :: operation_state

definition operation_ref_check :: "operation_ref \<Rightarrow> check" where
  "operation_ref_check r = first_error
     [require_entity_id (or_operation_id r) ''operation'' ''operation_id'',
      require_entity_id (or_request_id r) ''request'' ''request_id'']"

section \<open>Events\<close>

record operation_event =
  ev_event_id :: string
  ev_operation_id :: string
  ev_sequence :: int
  ev_event_type :: string
  ev_occurred_at :: string
  ev_state :: operation_state
  ev_host_id :: string
  ev_app :: string
  ev_environment :: string
  ev_revision_id :: "string option"
  ev_message :: "string option"
  ev_evidence_digests :: "string list"
  ev_previous_event_digest :: "string option"

definition operation_event_check :: "operation_event \<Rightarrow> check" where
  "operation_event_check e = first_error
     [require_entity_id (ev_event_id e) ''event'' ''event_id'',
      require_entity_id (ev_operation_id e) ''operation'' ''operation_id'',
      require_positive (ev_sequence e) ''sequence must be a positive integer.'',
      require_text (ev_event_type e) ''event_type'' 128,
      require_utc (ev_occurred_at e) ''occurred_at'',
      require_entity_id (ev_host_id e) ''host'' ''host_id'',
      require_slug (ev_app e) ''app'',
      require_slug (ev_environment e) ''environment'',
      optional_entity_id (ev_revision_id e) ''rev'' ''revision_id'',
      optional (\<lambda>m. require_text m ''message'' 2048) (ev_message e),
      require_digests (ev_evidence_digests e) ''evidence_digests'',
      optional (\<lambda>d. require_digest d ''previous_event_digest'') (ev_previous_event_digest e)]"

definition operation_event_val :: "operation_event \<Rightarrow> pyval" where
  "operation_event_val e = VContract ''ophelia.kernel.operation_event''
     [(''event_id'', VStr (ev_event_id e)), (''operation_id'', VStr (ev_operation_id e)),
      (''sequence'', VInt (ev_sequence e)), (''event_type'', VStr (ev_event_type e)),
      (''occurred_at'', VStr (ev_occurred_at e)), (''state'', VStr (os_value (ev_state e))),
      (''host_id'', VStr (ev_host_id e)), (''app'', VStr (ev_app e)),
      (''environment'', VStr (ev_environment e)), (''revision_id'', vopt (ev_revision_id e)),
      (''message'', vopt (ev_message e)), (''evidence_digests'', vstrs (ev_evidence_digests e)),
      (''previous_event_digest'', vopt (ev_previous_event_digest e))]"

section \<open>Revisions\<close>

record workload =
  wl_workload_id :: string
  wl_workload_kind :: workload_kind
  wl_artifact_digest :: string
  wl_route_ids :: "string list"
  wl_overlap_safe :: bool

definition workload_check :: "workload \<Rightarrow> check" where
  "workload_check w = first_error
     [require_slug (wl_workload_id w) ''workload_id'',
      require_digest (wl_artifact_digest w) ''artifact_digest'',
      require_all_slugs (wl_route_ids w) ''route_id'',
      require_sorted_set (wl_route_ids w) ''route_ids'',
      raise_unless (wl_route_ids w = [] \<or> receives_traffic (wl_workload_kind w))
        (ContractValidationError ''Only web and static workloads may declare routes.''),
      raise_unless (\<not> wl_overlap_safe w \<or> wl_workload_kind w \<in> {WK_WEB, WK_WORKER, WK_STATIC})
        (ContractValidationError ''This workload kind cannot opt into revision overlap.'')]"

definition effective_overlap_allowed :: "workload \<Rightarrow> bool" where
  "effective_overlap_allowed w \<longleftrightarrow> overlap_allowed_by_default (wl_workload_kind w) \<or> wl_overlap_safe w"

definition workload_val :: "workload \<Rightarrow> pyval" where
  "workload_val w = VContract ''ophelia.kernel.workload''
     [(''workload_id'', VStr (wl_workload_id w)), (''workload_kind'', VStr (wk_value (wl_workload_kind w))),
      (''artifact_digest'', VStr (wl_artifact_digest w)), (''route_ids'', vstrs (wl_route_ids w)),
      (''overlap_safe'', VBool (wl_overlap_safe w))]"

record revision =
  rv_revision_id :: string
  rv_app :: string
  rv_environment :: string
  rv_manifest_digest :: string
  rv_artifact_digests :: "string list"
  rv_renderer_version :: string
  rv_workloads :: "workload list"
  rv_created_at :: string

definition revision_check :: "revision \<Rightarrow> check" where
  "revision_check r = first_error
     [require_entity_id (rv_revision_id r) ''rev'' ''revision_id'',
      require_slug (rv_app r) ''app'',
      require_slug (rv_environment r) ''environment'',
      require_digest (rv_manifest_digest r) ''manifest_digest'',
      require_digests (rv_artifact_digests r) ''artifact_digests'',
      require_text (rv_renderer_version r) ''renderer_version'' 128,
      require_utc (rv_created_at r) ''created_at'',
      raise_unless (rv_workloads r \<noteq> [])
        (ContractValidationError ''workloads must be a non-empty immutable tuple.''),
      raise_unless (map wl_workload_id (rv_workloads r) = sorted_set (map wl_workload_id (rv_workloads r)))
        (ContractValidationError ''workloads must be sorted by unique workload_id.''),
      raise_unless (list_all (\<lambda>w. wl_artifact_digest w \<in> set (rv_artifact_digests r)) (rv_workloads r))
        (ContractValidationError ''Every workload artifact_digest must appear in revision artifact_digests.'')]"

definition revision_ok :: "revision \<Rightarrow> bool" where
  "revision_ok r \<longleftrightarrow> revision_check r = None \<and> list_all (\<lambda>w. workload_check w = None) (rv_workloads r)"

definition revision_val :: "revision \<Rightarrow> pyval" where
  "revision_val r = VContract ''ophelia.kernel.revision''
     [(''revision_id'', VStr (rv_revision_id r)), (''app'', VStr (rv_app r)),
      (''environment'', VStr (rv_environment r)), (''manifest_digest'', VStr (rv_manifest_digest r)),
      (''artifact_digests'', vstrs (rv_artifact_digests r)),
      (''renderer_version'', VStr (rv_renderer_version r)),
      (''workloads'', VList (map workload_val (rv_workloads r))),
      (''created_at'', VStr (rv_created_at r))]"

definition content_digest :: "revision \<Rightarrow> string" where
  "content_digest r = digest_without [''revision_id'', ''created_at''] (revision_val r)"

text \<open>\<^verbatim>\<open>provisional.content_digest()[7:31]\<close>: 24 hexadecimal digits. \<^verbatim>\<open>replace\<close> validates again.\<close>

definition revision_create ::
  "string \<Rightarrow> string \<Rightarrow> string \<Rightarrow> string list \<Rightarrow> string \<Rightarrow> workload list \<Rightarrow> string \<Rightarrow> revision res" where
  "revision_create app environment manifest_digest artifact_digests renderer_version workloads created_at =
     (let provisional = \<lparr>rv_revision_id = ''rev_pending'', rv_app = app, rv_environment = environment,
            rv_manifest_digest = manifest_digest, rv_artifact_digests = artifact_digests,
            rv_renderer_version = renderer_version, rv_workloads = workloads, rv_created_at = created_at\<rparr>
      in bind_res (guarded (revision_check provisional) provisional) (\<lambda>p.
           (let r = p\<lparr>rv_revision_id := ''rev_'' @ take 24 (drop 7 (content_digest p))\<rparr>
            in guarded (revision_check r) r)))"

record observed_workload =
  ow_workload_id :: string
  ow_workload_kind :: workload_kind
  ow_runtime_state :: string
  ow_artifact_digest :: string
  ow_ready :: bool
  ow_fencing_token_digest :: "string option"

definition observed_workload_check :: "observed_workload \<Rightarrow> check" where
  "observed_workload_check w = first_error
     [require_slug (ow_workload_id w) ''workload_id'',
      require_text (ow_runtime_state w) ''runtime_state'' 128,
      require_digest (ow_artifact_digest w) ''artifact_digest'',
      optional (\<lambda>d. require_digest d ''fencing_token_digest'') (ow_fencing_token_digest w)]"

definition observed_workload_val :: "observed_workload \<Rightarrow> pyval" where
  "observed_workload_val w = VContract ''ophelia.kernel.observed_workload''
     [(''workload_id'', VStr (ow_workload_id w)), (''workload_kind'', VStr (wk_value (ow_workload_kind w))),
      (''runtime_state'', VStr (ow_runtime_state w)), (''artifact_digest'', VStr (ow_artifact_digest w)),
      (''ready'', VBool (ow_ready w)), (''fencing_token_digest'', vopt (ow_fencing_token_digest w))]"

record observed_revision =
  ob_host_id :: string
  ob_app :: string
  ob_environment :: string
  ob_revision_id :: "string option"
  ob_revision_digest :: "string option"
  ob_state :: revision_state
  ob_workloads :: "observed_workload list"
  ob_observed_at :: string

definition observed_revision_check :: "observed_revision \<Rightarrow> check" where
  "observed_revision_check r = first_error
     [require_entity_id (ob_host_id r) ''host'' ''host_id'',
      require_slug (ob_app r) ''app'',
      require_slug (ob_environment r) ''environment'',
      optional_entity_id (ob_revision_id r) ''rev'' ''revision_id'',
      optional (\<lambda>d. require_digest d ''revision_digest'') (ob_revision_digest r),
      require_utc (ob_observed_at r) ''observed_at'',
      raise_unless (map ow_workload_id (ob_workloads r) = sorted_set (map ow_workload_id (ob_workloads r)))
        (ContractValidationError ''observed workloads must be sorted by unique workload_id.'')]"

definition observed_revision_val :: "observed_revision \<Rightarrow> pyval" where
  "observed_revision_val r = VContract ''ophelia.kernel.observed_revision''
     [(''host_id'', VStr (ob_host_id r)), (''app'', VStr (ob_app r)),
      (''environment'', VStr (ob_environment r)), (''revision_id'', vopt (ob_revision_id r)),
      (''revision_digest'', vopt (ob_revision_digest r)), (''state'', VStr (rs_value (ob_state r))),
      (''workloads'', VList (map observed_workload_val (ob_workloads r))),
      (''observed_at'', VStr (ob_observed_at r))]"

section \<open>Plans and approvals\<close>

record plan_step =
  ps_order :: int
  ps_phase :: plan_phase
  ps_mutates_runtime :: bool
  ps_desired_effect_digest :: string
  ps_compensation :: compensation_action

definition plan_step_check :: "plan_step \<Rightarrow> check" where
  "plan_step_check s = first_error
     [require_positive (ps_order s) ''Plan step order must be a positive integer.'',
      require_digest (ps_desired_effect_digest s) ''desired_effect_digest'',
      raise_unless (\<not> (ps_mutates_runtime s \<and> ps_compensation s = CA_NONE))
        (ContractValidationError ''Every mutating plan step must declare compensation.'')]"

definition plan_step_val :: "plan_step \<Rightarrow> pyval" where
  "plan_step_val s = VContract ''ophelia.kernel.plan_step''
     [(''order'', VInt (ps_order s)), (''phase'', VStr (ph_value (ps_phase s))),
      (''mutates_runtime'', VBool (ps_mutates_runtime s)),
      (''desired_effect_digest'', VStr (ps_desired_effect_digest s)),
      (''compensation'', VStr (ca_value (ps_compensation s)))]"

record operation_plan =
  pl_plan_id :: string
  pl_request_digest :: string
  pl_operation :: string
  pl_host_id :: string
  pl_app :: string
  pl_environment :: string
  pl_revision_id :: string
  pl_revision_digest :: string
  pl_manifest_digest :: string
  pl_artifact_digests :: "string list"
  pl_observed_state_digest :: string
  pl_policy_digest :: string
  pl_steps :: "plan_step list"
  pl_blocker_codes :: "string list"
  pl_created_at :: string

definition operation_plan_check :: "operation_plan \<Rightarrow> check" where
  "operation_plan_check p = first_error
     [require_entity_id (pl_plan_id p) ''plan'' ''plan_id'',
      require_digest (pl_request_digest p) ''request_digest'',
      require_operation (pl_operation p),
      require_entity_id (pl_host_id p) ''host'' ''host_id'',
      require_slug (pl_app p) ''app'',
      require_slug (pl_environment p) ''environment'',
      require_entity_id (pl_revision_id p) ''rev'' ''revision_id'',
      require_digest (pl_revision_digest p) ''revision_digest'',
      require_digest (pl_manifest_digest p) ''manifest_digest'',
      require_digests (pl_artifact_digests p) ''artifact_digests'',
      require_digest (pl_observed_state_digest p) ''observed_state_digest'',
      require_digest (pl_policy_digest p) ''policy_digest'',
      require_utc (pl_created_at p) ''created_at'',
      raise_unless (pl_steps p \<noteq> [])
        (ContractValidationError ''steps must be a non-empty immutable tuple.''),
      raise_unless (map ps_order (pl_steps p) = map int [1..<length (pl_steps p) + 1])
        (ContractValidationError ''Plan steps must have unique contiguous order starting at one.''),
      require_all_texts (pl_blocker_codes p) ''blocker_code'' 128,
      require_sorted_set (pl_blocker_codes p) ''blocker_codes'']"

definition operation_plan_ok :: "operation_plan \<Rightarrow> bool" where
  "operation_plan_ok p \<longleftrightarrow>
     operation_plan_check p = None \<and> list_all (\<lambda>s. plan_step_check s = None) (pl_steps p)"

definition operation_plan_val :: "operation_plan \<Rightarrow> pyval" where
  "operation_plan_val p = VContract ''ophelia.kernel.operation_plan''
     [(''plan_id'', VStr (pl_plan_id p)), (''request_digest'', VStr (pl_request_digest p)),
      (''operation'', VStr (pl_operation p)), (''host_id'', VStr (pl_host_id p)),
      (''app'', VStr (pl_app p)), (''environment'', VStr (pl_environment p)),
      (''revision_id'', VStr (pl_revision_id p)), (''revision_digest'', VStr (pl_revision_digest p)),
      (''manifest_digest'', VStr (pl_manifest_digest p)),
      (''artifact_digests'', vstrs (pl_artifact_digests p)),
      (''observed_state_digest'', VStr (pl_observed_state_digest p)),
      (''policy_digest'', VStr (pl_policy_digest p)),
      (''steps'', VList (map plan_step_val (pl_steps p))),
      (''blocker_codes'', vstrs (pl_blocker_codes p)), (''created_at'', VStr (pl_created_at p))]"

definition approvable :: "operation_plan \<Rightarrow> bool" where
  "approvable p \<longleftrightarrow> pl_blocker_codes p = []"

definition plan_digest :: "operation_plan \<Rightarrow> string" where
  "plan_digest p = digest_without [''plan_id'', ''created_at''] (operation_plan_val p)"

definition operation_plan_create ::
  "operation_request \<Rightarrow> string \<Rightarrow> string list \<Rightarrow> string \<Rightarrow> string \<Rightarrow> plan_step list \<Rightarrow> string list \<Rightarrow>
    string \<Rightarrow> operation_plan res" where
  "operation_plan_create request manifest_digest artifact_digests observed_state_digest policy_digest
      steps blocker_codes created_at =
     (let provisional = \<lparr>pl_plan_id = ''plan_pending'', pl_request_digest = intent_digest request,
            pl_operation = rq_operation request, pl_host_id = rq_host_id request, pl_app = rq_app request,
            pl_environment = rq_environment request, pl_revision_id = rq_revision_id request,
            pl_revision_digest = rq_revision_digest request, pl_manifest_digest = manifest_digest,
            pl_artifact_digests = artifact_digests, pl_observed_state_digest = observed_state_digest,
            pl_policy_digest = policy_digest, pl_steps = steps, pl_blocker_codes = blocker_codes,
            pl_created_at = created_at\<rparr>
      in bind_res (guarded (operation_plan_check provisional) provisional) (\<lambda>p.
           (let q = p\<lparr>pl_plan_id := ''plan_'' @ take 24 (drop 7 (plan_digest p))\<rparr>
            in guarded (operation_plan_check q) q)))"

record approved_plan_ref =
  ap_plan_id :: string
  ap_plan_digest :: string
  ap_request_digest :: string
  ap_manifest_digest :: string
  ap_artifact_digests :: "string list"
  ap_observed_state_digest :: string
  ap_policy_digest :: string
  ap_host_id :: string
  ap_app :: string
  ap_environment :: string
  ap_revision_id :: string
  ap_revision_digest :: string
  ap_actor_id :: string
  ap_decision_id :: string
  ap_authorization_kind :: authorization_kind
  ap_issuer :: string
  ap_audience :: string
  ap_approved_at :: string
  ap_expires_at :: string
  ap_nonce_digest :: string
  ap_approval_digest :: string

definition approved_plan_ref_check :: "approved_plan_ref \<Rightarrow> check" where
  "approved_plan_ref_check a = first_error
     [require_entity_id (ap_plan_id a) ''plan'' ''plan_id'',
      require_digest (ap_plan_digest a) ''plan_digest'',
      require_digest (ap_request_digest a) ''request_digest'',
      require_digest (ap_manifest_digest a) ''manifest_digest'',
      require_digests (ap_artifact_digests a) ''artifact_digests'',
      require_digest (ap_observed_state_digest a) ''observed_state_digest'',
      require_digest (ap_policy_digest a) ''policy_digest'',
      require_entity_id (ap_host_id a) ''host'' ''host_id'',
      require_slug (ap_app a) ''app'',
      require_slug (ap_environment a) ''environment'',
      require_entity_id (ap_revision_id a) ''rev'' ''revision_id'',
      require_digest (ap_revision_digest a) ''revision_digest'',
      require_entity_id (ap_actor_id a) ''actor'' ''actor_id'',
      require_entity_id (ap_decision_id a) ''decision'' ''decision_id'',
      require_text (ap_issuer a) ''issuer'' 255,
      require_text (ap_audience a) ''audience'' 255,
      raise_unless (ap_audience a = ap_host_id a)
        (ContractValidationError ''Approval audience must match the planned host_id.''),
      require_utc (ap_approved_at a) ''approved_at'',
      require_utc (ap_expires_at a) ''expires_at'',
      raise_unless (\<not> utc_us (ap_expires_at a) \<le> utc_us (ap_approved_at a))
        (ContractValidationError ''expires_at must be after approved_at.''),
      require_digest (ap_nonce_digest a) ''nonce_digest'',
      require_digest (ap_approval_digest a) ''approval_digest'']"

definition approved_plan_ref_val :: "approved_plan_ref \<Rightarrow> pyval" where
  "approved_plan_ref_val a = VContract ''ophelia.kernel.approved_plan_ref''
     [(''plan_id'', VStr (ap_plan_id a)), (''plan_digest'', VStr (ap_plan_digest a)),
      (''request_digest'', VStr (ap_request_digest a)), (''manifest_digest'', VStr (ap_manifest_digest a)),
      (''artifact_digests'', vstrs (ap_artifact_digests a)),
      (''observed_state_digest'', VStr (ap_observed_state_digest a)),
      (''policy_digest'', VStr (ap_policy_digest a)), (''host_id'', VStr (ap_host_id a)),
      (''app'', VStr (ap_app a)), (''environment'', VStr (ap_environment a)),
      (''revision_id'', VStr (ap_revision_id a)), (''revision_digest'', VStr (ap_revision_digest a)),
      (''actor_id'', VStr (ap_actor_id a)), (''decision_id'', VStr (ap_decision_id a)),
      (''authorization_kind'', VStr (ak_value (ap_authorization_kind a))),
      (''issuer'', VStr (ap_issuer a)), (''audience'', VStr (ap_audience a)),
      (''approved_at'', VStr (ap_approved_at a)), (''expires_at'', VStr (ap_expires_at a)),
      (''nonce_digest'', VStr (ap_nonce_digest a)), (''approval_digest'', VStr (ap_approval_digest a))]"

definition approval_binding_digest :: "approved_plan_ref \<Rightarrow> string" where
  "approval_binding_digest a = digest_without [''approval_digest''] (approved_plan_ref_val a)"

definition zero_digest :: string where
  "zero_digest = ''sha256:'' @ replicate 64 CHR ''0''"

definition approved_plan_ref_bind ::
  "operation_plan \<Rightarrow> string \<Rightarrow> string \<Rightarrow> authorization_kind \<Rightarrow> string \<Rightarrow> string \<Rightarrow> string \<Rightarrow> string \<Rightarrow>
    string \<Rightarrow> approved_plan_ref res" where
  "approved_plan_ref_bind plan actor_id decision_id authorization_kind issuer audience approved_at
      expires_at approval_nonce =
     bind_res (guarded (first_error
         [raise_unless (approvable plan) (ContractValidationError ''A blocked plan cannot be approved.''),
          require_text approval_nonce ''approval_nonce'' 1024]) ())
       (\<lambda>_. let provisional = \<lparr>ap_plan_id = pl_plan_id plan, ap_plan_digest = plan_digest plan,
              ap_request_digest = pl_request_digest plan, ap_manifest_digest = pl_manifest_digest plan,
              ap_artifact_digests = pl_artifact_digests plan,
              ap_observed_state_digest = pl_observed_state_digest plan,
              ap_policy_digest = pl_policy_digest plan, ap_host_id = pl_host_id plan,
              ap_app = pl_app plan, ap_environment = pl_environment plan,
              ap_revision_id = pl_revision_id plan, ap_revision_digest = pl_revision_digest plan,
              ap_actor_id = actor_id, ap_decision_id = decision_id,
              ap_authorization_kind = authorization_kind, ap_issuer = issuer, ap_audience = audience,
              ap_approved_at = approved_at, ap_expires_at = expires_at,
              ap_nonce_digest = digest_text approval_nonce, ap_approval_digest = zero_digest\<rparr>
            in bind_res (guarded (approved_plan_ref_check provisional) provisional) (\<lambda>p.
                 (let a = p\<lparr>ap_approval_digest := approval_binding_digest p\<rparr>
                  in guarded (approved_plan_ref_check a) a)))"

definition matches :: "approved_plan_ref \<Rightarrow> operation_plan \<Rightarrow> bool" where
  "matches a plan \<longleftrightarrow>
     approvable plan \<and> ap_plan_id a = pl_plan_id plan \<and> ap_plan_digest a = plan_digest plan \<and>
     ap_request_digest a = pl_request_digest plan \<and> ap_manifest_digest a = pl_manifest_digest plan \<and>
     ap_artifact_digests a = pl_artifact_digests plan \<and>
     ap_observed_state_digest a = pl_observed_state_digest plan \<and>
     ap_policy_digest a = pl_policy_digest plan \<and> ap_host_id a = pl_host_id plan \<and>
     ap_app a = pl_app plan \<and> ap_environment a = pl_environment plan \<and>
     ap_revision_id a = pl_revision_id plan \<and> ap_revision_digest a = pl_revision_digest plan \<and>
     ap_approval_digest a = approval_binding_digest a"

definition verifies_nonce :: "approved_plan_ref \<Rightarrow> string \<Rightarrow> bool" where
  "verifies_nonce a approval_nonce \<longleftrightarrow> ap_nonce_digest a = digest_text approval_nonce"

text \<open>\<open>now\<close> is the current instant in microseconds.\<close>

definition expired :: "approved_plan_ref \<Rightarrow> int \<Rightarrow> bool" where
  "expired a now \<longleftrightarrow> utc_us (ap_expires_at a) \<le> now"

section \<open>Receipts\<close>

record verification_check =
  vc_name :: string
  vc_status :: check_status
  vc_observed_digest :: "string option"
  vc_summary :: "string option"

definition verification_check_check :: "verification_check \<Rightarrow> check" where
  "verification_check_check c = first_error
     [require_text (vc_name c) ''name'' 128,
      optional (\<lambda>d. require_digest d ''observed_digest'') (vc_observed_digest c),
      optional (\<lambda>t. require_text t ''summary'' 1024) (vc_summary c)]"

definition verification_check_val :: "verification_check \<Rightarrow> pyval" where
  "verification_check_val c = VContract ''ophelia.kernel.verification_check''
     [(''name'', VStr (vc_name c)), (''status'', VStr (cs_value (vc_status c))),
      (''observed_digest'', vopt (vc_observed_digest c)), (''summary'', vopt (vc_summary c))]"

record verification_result =
  vr_status :: verification_status
  vr_observed_revision_digest :: "string option"
  vr_observed_state_digest :: "string option"
  vr_observed_at :: string
  vr_checks :: "verification_check list"

definition verification_result_check :: "verification_result \<Rightarrow> check" where
  "verification_result_check v = first_error
     [optional (\<lambda>d. require_digest d ''observed_revision_digest'') (vr_observed_revision_digest v),
      optional (\<lambda>d. require_digest d ''observed_state_digest'') (vr_observed_state_digest v),
      require_utc (vr_observed_at v) ''observed_at'',
      raise_unless (vr_status v = VS_PASSED \<longrightarrow>
          vr_observed_revision_digest v \<noteq> None \<and> vr_observed_state_digest v \<noteq> None)
        (ContractValidationError ''Passed verification requires observed revision and state digests.''),
      raise_unless (vr_status v = VS_PASSED \<longrightarrow> list_all (\<lambda>c. vc_status c = CS_PASSED) (vr_checks v))
        (ContractValidationError ''Passed verification cannot contain failed or skipped checks.'')]"

definition verification_result_ok :: "verification_result \<Rightarrow> bool" where
  "verification_result_ok v \<longleftrightarrow>
     verification_result_check v = None \<and> list_all (\<lambda>c. verification_check_check c = None) (vr_checks v)"

definition verification_result_val :: "verification_result \<Rightarrow> pyval" where
  "verification_result_val v = VContract ''ophelia.kernel.verification_result''
     [(''status'', VStr (vs_value (vr_status v))),
      (''observed_revision_digest'', vopt (vr_observed_revision_digest v)),
      (''observed_state_digest'', vopt (vr_observed_state_digest v)),
      (''observed_at'', VStr (vr_observed_at v)),
      (''checks'', VList (map verification_check_val (vr_checks v)))]"

record compensation_result =
  cr_attempted :: bool
  cr_status :: compensation_status
  cr_restored_revision_id :: "string option"
  cr_restored_revision_digest :: "string option"
  cr_evidence_digests :: "string list"

definition compensation_result_check :: "compensation_result \<Rightarrow> check" where
  "compensation_result_check c = first_error
     [optional_entity_id (cr_restored_revision_id c) ''rev'' ''restored_revision_id'',
      optional (\<lambda>d. require_digest d ''restored_revision_digest'') (cr_restored_revision_digest c),
      require_digests (cr_evidence_digests c) ''evidence_digests'',
      raise_unless (\<not> (cr_status c = CO_NOT_NEEDED \<and> cr_attempted c))
        (ContractValidationError ''Compensation cannot be attempted with not_needed status.''),
      raise_unless (\<not> (cr_status c \<noteq> CO_NOT_NEEDED \<and> \<not> cr_attempted c))
        (ContractValidationError ''A compensation outcome requires attempted=true.''),
      raise_unless ((cr_restored_revision_id c = None) = (cr_restored_revision_digest c = None))
        (ContractValidationError ''Compensation must identify restored revision id and digest together.'')]"

definition compensation_result_val :: "compensation_result \<Rightarrow> pyval" where
  "compensation_result_val c = VContract ''ophelia.kernel.compensation_result''
     [(''attempted'', VBool (cr_attempted c)), (''status'', VStr (co_value (cr_status c))),
      (''restored_revision_id'', vopt (cr_restored_revision_id c)),
      (''restored_revision_digest'', vopt (cr_restored_revision_digest c)),
      (''evidence_digests'', vstrs (cr_evidence_digests c))]"

record terminal_receipt =
  rc_receipt_id :: string
  rc_operation_id :: string
  rc_operation :: string
  rc_plan_id :: string
  rc_plan_digest :: string
  rc_decision_id :: string
  rc_host_id :: string
  rc_app :: string
  rc_environment :: string
  rc_previous_revision_id :: "string option"
  rc_desired_revision_id :: string
  rc_desired_revision_digest :: string
  rc_active_revision_id :: "string option"
  rc_active_revision_digest :: "string option"
  rc_artifact_digests :: "string list"
  rc_verification :: verification_result
  rc_compensation :: compensation_result
  rc_effect :: receipt_effect
  rc_outcome :: receipt_outcome
  rc_started_at :: string
  rc_completed_at :: string
  rc_inputs_redacted :: bool

definition allowed_effect :: "string \<Rightarrow> receipt_effect option" where
  "allowed_effect operation = map_of
     [(''deploy.apply'', RE_RUNTIME_ACTIVATED), (''rollback.apply'', RE_RUNTIME_ACTIVATED),
      (''backup.apply'', RE_BACKUP_CREATED), (''restore-drill.apply'', RE_RESTORE_VERIFIED)] operation"

definition receipt_success_check :: "terminal_receipt \<Rightarrow> check" where
  "receipt_success_check r = first_error
     [raise_unless (allowed_effect (rc_operation r) = Some (rc_effect r))
        (ContractValidationError ''A successful kernel receipt must report the effect for its operation.''),
      raise_unless (vr_status (rc_verification r) = VS_PASSED)
        (ContractValidationError ''A successful operation requires passed verification.''),
      raise_unless (rc_active_revision_id r = Some (rc_desired_revision_id r) \<and>
          rc_active_revision_digest r = Some (rc_desired_revision_digest r) \<and>
          vr_observed_revision_digest (rc_verification r) = Some (rc_desired_revision_digest r))
        (ContractValidationError ''Success requires desired, active, and observed revision digests to match.''),
      raise_unless (cr_status (rc_compensation r) \<noteq> CO_FAILED)
        (ContractValidationError ''A successful receipt cannot contain failed compensation.'')]"

definition receipt_compensated_check :: "terminal_receipt \<Rightarrow> check" where
  "receipt_compensated_check r = first_error
     [raise_unless (cr_status (rc_compensation r) = CO_SUCCEEDED)
        (ContractValidationError ''failed_compensated requires successful compensation.''),
      raise_unless (rc_active_revision_id r = cr_restored_revision_id (rc_compensation r) \<and>
          rc_active_revision_digest r = cr_restored_revision_digest (rc_compensation r))
        (ContractValidationError ''The active revision must match the compensated revision.'')]"

definition terminal_receipt_check :: "terminal_receipt \<Rightarrow> check" where
  "terminal_receipt_check r = first_error
     [require_entity_id (rc_receipt_id r) ''receipt'' ''receipt_id'',
      require_entity_id (rc_operation_id r) ''operation'' ''operation_id'',
      require_operation (rc_operation r),
      require_entity_id (rc_plan_id r) ''plan'' ''plan_id'',
      require_digest (rc_plan_digest r) ''plan_digest'',
      require_entity_id (rc_decision_id r) ''decision'' ''decision_id'',
      require_entity_id (rc_host_id r) ''host'' ''host_id'',
      require_slug (rc_app r) ''app'',
      require_slug (rc_environment r) ''environment'',
      optional_entity_id (rc_previous_revision_id r) ''rev'' ''previous_revision_id'',
      require_entity_id (rc_desired_revision_id r) ''rev'' ''desired_revision_id'',
      require_digest (rc_desired_revision_digest r) ''desired_revision_digest'',
      optional_entity_id (rc_active_revision_id r) ''rev'' ''active_revision_id'',
      optional (\<lambda>d. require_digest d ''active_revision_digest'') (rc_active_revision_digest r),
      require_digests (rc_artifact_digests r) ''artifact_digests'',
      require_utc (rc_started_at r) ''started_at'',
      require_utc (rc_completed_at r) ''completed_at'',
      raise_unless (\<not> utc_us (rc_completed_at r) < utc_us (rc_started_at r))
        (ContractValidationError ''completed_at must not precede started_at.''),
      raise_unless (rc_inputs_redacted r)
        (ContractValidationError ''Kernel receipts must declare inputs_redacted=true.''),
      (if rc_outcome r = RO_SUCCEEDED then receipt_success_check r else None),
      (if rc_outcome r = RO_FAILED_COMPENSATED then receipt_compensated_check r else None),
      raise_unless (\<not> (rc_outcome r = RO_FAILED_UNCOMPENSATED \<and> cr_status (rc_compensation r) = CO_SUCCEEDED))
        (ContractValidationError ''failed_uncompensated cannot claim successful compensation.'')]"

definition terminal_receipt_ok :: "terminal_receipt \<Rightarrow> bool" where
  "terminal_receipt_ok r \<longleftrightarrow>
     terminal_receipt_check r = None \<and> verification_result_ok (rc_verification r) \<and>
     compensation_result_check (rc_compensation r) = None"

definition terminal_receipt_val :: "terminal_receipt \<Rightarrow> pyval" where
  "terminal_receipt_val r = VContract ''ophelia.kernel.terminal_receipt''
     [(''receipt_id'', VStr (rc_receipt_id r)), (''operation_id'', VStr (rc_operation_id r)),
      (''operation'', VStr (rc_operation r)), (''plan_id'', VStr (rc_plan_id r)),
      (''plan_digest'', VStr (rc_plan_digest r)), (''decision_id'', VStr (rc_decision_id r)),
      (''host_id'', VStr (rc_host_id r)), (''app'', VStr (rc_app r)),
      (''environment'', VStr (rc_environment r)),
      (''previous_revision_id'', vopt (rc_previous_revision_id r)),
      (''desired_revision_id'', VStr (rc_desired_revision_id r)),
      (''desired_revision_digest'', VStr (rc_desired_revision_digest r)),
      (''active_revision_id'', vopt (rc_active_revision_id r)),
      (''active_revision_digest'', vopt (rc_active_revision_digest r)),
      (''artifact_digests'', vstrs (rc_artifact_digests r)),
      (''verification'', verification_result_val (rc_verification r)),
      (''compensation'', compensation_result_val (rc_compensation r)),
      (''effect'', VStr (re_value (rc_effect r))), (''outcome'', VStr (ro_value (rc_outcome r))),
      (''started_at'', VStr (rc_started_at r)), (''completed_at'', VStr (rc_completed_at r)),
      (''inputs_redacted'', VBool (rc_inputs_redacted r))]"

section \<open>Execution input, control and lifecycle values\<close>

text \<open>\<^verbatim>\<open>PurePosixPath(p).parts\<close> of a relative path: empty and single-dot components vanish.\<close>

definition posix_parts :: "string \<Rightarrow> string list" where
  "posix_parts p = filter (\<lambda>part. part \<noteq> [] \<and> part \<noteq> ''.'') (split_on CHR ''/'' p)"

record revision_artifact_ref =
  ra_revision_id :: string
  ra_revision_digest :: string
  ra_relative_root :: string
  ra_artifact_digest :: string

definition revision_artifact_ref_check :: "revision_artifact_ref \<Rightarrow> check" where
  "revision_artifact_ref_check a = first_error
     [require_entity_id (ra_revision_id a) ''rev'' ''revision_id'',
      require_digest (ra_revision_digest a) ''revision_digest'',
      require_digest (ra_artifact_digest a) ''artifact_digest'',
      require_text (ra_relative_root a) ''relative_root'' 1024,
      raise_unless (chr 92 \<notin> set (ra_relative_root a))
        (ContractValidationError ''relative_root must use portable forward slashes.''),
      raise_unless (\<not> (starts_with ''/'' (ra_relative_root a) \<or> ra_relative_root a \<in> {[], ''.''} \<or>
          list_ex (\<lambda>part. part \<in> {[], ''.'', ''..''}) (posix_parts (ra_relative_root a))))
        (ContractValidationError ''relative_root must be a normalized relative artifact root.'')]"

definition revision_artifact_ref_val :: "revision_artifact_ref \<Rightarrow> pyval" where
  "revision_artifact_ref_val a = VContract ''ophelia.kernel.revision_artifact_ref''
     [(''revision_id'', VStr (ra_revision_id a)), (''revision_digest'', VStr (ra_revision_digest a)),
      (''relative_root'', VStr (ra_relative_root a)), (''artifact_digest'', VStr (ra_artifact_digest a))]"

record execution_input =
  ei_plan :: operation_plan
  ei_approved_plan :: approved_plan_ref
  ei_revision :: revision
  ei_artifact_ref :: revision_artifact_ref
  ei_deadline :: string
  ei_input_digest :: string

definition execution_input_val :: "execution_input \<Rightarrow> pyval" where
  "execution_input_val i = VContract ''ophelia.kernel.execution_input''
     [(''plan'', operation_plan_val (ei_plan i)),
      (''approved_plan'', approved_plan_ref_val (ei_approved_plan i)),
      (''revision'', revision_val (ei_revision i)),
      (''artifact_ref'', revision_artifact_ref_val (ei_artifact_ref i)),
      (''deadline'', VStr (ei_deadline i)), (''input_digest'', VStr (ei_input_digest i))]"

definition input_binding_digest :: "execution_input \<Rightarrow> string" where
  "input_binding_digest i = digest_without [''input_digest''] (execution_input_val i)"

definition input_reconciles :: "execution_input \<Rightarrow> bool" where
  "input_reconciles i \<longleftrightarrow>
     (let p = ei_plan i; r = ei_revision i; a = ei_artifact_ref i in
      rv_revision_id r = pl_revision_id p \<and> content_digest r = pl_revision_digest p \<and>
      rv_app r = pl_app p \<and> rv_environment r = pl_environment p \<and>
      rv_manifest_digest r = pl_manifest_digest p \<and> rv_artifact_digests r = pl_artifact_digests p \<and>
      ra_revision_id a = rv_revision_id r \<and> ra_revision_digest a = content_digest r \<and>
      ra_artifact_digest a \<in> set (rv_artifact_digests r))"

definition execution_input_check :: "execution_input \<Rightarrow> check" where
  "execution_input_check i = first_error
     [require_utc (ei_deadline i) ''deadline'',
      require_digest (ei_input_digest i) ''input_digest'',
      raise_unless (matches (ei_approved_plan i) (ei_plan i))
        (ContractValidationError ''approved_plan must bind the exact plan.''),
      raise_unless (input_reconciles i)
        (ContractValidationError ''Execution input plan, approval, revision, and artifact claims must reconcile.''),
      raise_unless (ei_input_digest i = input_binding_digest i)
        (ContractValidationError ''input_digest does not match execution input claims.'')]"

definition execution_input_ok :: "execution_input \<Rightarrow> bool" where
  "execution_input_ok i \<longleftrightarrow>
     execution_input_check i = None \<and> operation_plan_ok (ei_plan i) \<and>
     approved_plan_ref_check (ei_approved_plan i) = None \<and> revision_ok (ei_revision i) \<and>
     revision_artifact_ref_check (ei_artifact_ref i) = None"

definition input_digest_for ::
  "operation_plan \<Rightarrow> approved_plan_ref \<Rightarrow> revision \<Rightarrow> revision_artifact_ref \<Rightarrow> string \<Rightarrow> string" where
  "input_digest_for plan approved_plan revision artifact_ref deadline =
     canonical_digest (VMap
       [(''schema_version'', VInt 1), (''kind'', VStr ''ophelia.kernel.execution_input''),
        (''plan'', operation_plan_val plan), (''approved_plan'', approved_plan_ref_val approved_plan),
        (''revision'', revision_val revision),
        (''artifact_ref'', revision_artifact_ref_val artifact_ref), (''deadline'', VStr deadline)])"

definition request_binds_plan :: "operation_request \<Rightarrow> operation_plan \<Rightarrow> bool" where
  "request_binds_plan request plan \<longleftrightarrow>
     intent_digest request = pl_request_digest plan \<and> rq_operation request = pl_operation plan \<and>
     rq_host_id request = pl_host_id plan \<and> rq_app request = pl_app plan \<and>
     rq_environment request = pl_environment plan \<and> rq_revision_id request = pl_revision_id plan \<and>
     rq_revision_digest request = pl_revision_digest plan"

definition execution_input_bind ::
  "operation_request \<Rightarrow> operation_plan \<Rightarrow> approved_plan_ref \<Rightarrow> revision \<Rightarrow> revision_artifact_ref \<Rightarrow> string \<Rightarrow>
    execution_input res" where
  "execution_input_bind request plan approved_plan revision artifact_ref deadline =
     (if \<not> request_binds_plan request plan
      then Inl (ContractValidationError ''request must bind the exact execution plan.'')
      else (let i = \<lparr>ei_plan = plan, ei_approved_plan = approved_plan, ei_revision = revision,
                 ei_artifact_ref = artifact_ref, ei_deadline = deadline,
                 ei_input_digest = input_digest_for plan approved_plan revision artifact_ref deadline\<rparr>
            in guarded (execution_input_check i) i))"

text \<open>A lease's expiry is a clock reading; floats are rational numbers.\<close>

record execution_fence =
  fe_operation_id :: string
  fe_owner_id :: string
  fe_fencing_token :: int
  fe_expires_at :: rat

definition execution_fence_check :: "execution_fence \<Rightarrow> check" where
  "execution_fence_check f = first_error
     [require_entity_id (fe_operation_id f) ''operation'' ''operation_id'',
      require_text (fe_owner_id f) ''owner_id'' 255,
      require_positive (fe_fencing_token f) ''fencing_token must be a positive integer.'']"

record execution_control =
  ec_operation_id :: string
  ec_deadline :: "string option"
  ec_cancellation_requested :: bool
  ec_cancellation_actor :: "actor option"
  ec_cancellation_requested_at :: "string option"

definition execution_control_check :: "execution_control \<Rightarrow> check" where
  "execution_control_check c = first_error
     [require_entity_id (ec_operation_id c) ''operation'' ''operation_id'',
      optional (\<lambda>d. require_utc d ''deadline'') (ec_deadline c),
      (if ec_cancellation_requested c then first_error
         [raise_unless (ec_cancellation_actor c \<noteq> None)
            (ContractValidationError ''A cancellation request requires a server-derived Actor.''),
          raise_unless (ec_cancellation_requested_at c \<noteq> None)
            (ContractValidationError ''A cancellation request requires cancellation_requested_at.''),
          optional (\<lambda>d. require_utc d ''cancellation_requested_at'') (ec_cancellation_requested_at c)]
       else raise_unless (ec_cancellation_actor c = None \<and> ec_cancellation_requested_at c = None)
         (ContractValidationError ''Cancellation evidence cannot exist without cancellation_requested.''))]"

record revision_lifecycle_entry =
  le_operation_id :: string
  le_sequence :: int
  le_revision_id :: string
  le_revision_digest :: string
  le_state :: revision_state
  le_occurred_at :: string

definition revision_lifecycle_entry_check :: "revision_lifecycle_entry \<Rightarrow> check" where
  "revision_lifecycle_entry_check e = first_error
     [require_entity_id (le_operation_id e) ''operation'' ''operation_id'',
      require_positive (le_sequence e) ''sequence must be a positive integer.'',
      require_entity_id (le_revision_id e) ''rev'' ''revision_id'',
      require_digest (le_revision_digest e) ''revision_digest'',
      require_utc (le_occurred_at e) ''occurred_at'']"

definition revision_lifecycle_entry_val :: "revision_lifecycle_entry \<Rightarrow> pyval" where
  "revision_lifecycle_entry_val e = VContract ''ophelia.kernel.revision_lifecycle_entry''
     [(''operation_id'', VStr (le_operation_id e)), (''sequence'', VInt (le_sequence e)),
      (''revision_id'', VStr (le_revision_id e)), (''revision_digest'', VStr (le_revision_digest e)),
      (''state'', VStr (rs_value (le_state e))), (''occurred_at'', VStr (le_occurred_at e))]"

record active_revision =
  ar_host_id :: string
  ar_app :: string
  ar_environment :: string
  ar_operation_id :: string
  ar_revision_id :: string
  ar_revision_digest :: string
  ar_generation :: int
  ar_updated_at :: string

definition active_revision_check :: "active_revision \<Rightarrow> check" where
  "active_revision_check a = first_error
     [require_entity_id (ar_host_id a) ''host'' ''host_id'',
      require_slug (ar_app a) ''app'',
      require_slug (ar_environment a) ''environment'',
      require_entity_id (ar_operation_id a) ''operation'' ''operation_id'',
      require_entity_id (ar_revision_id a) ''rev'' ''revision_id'',
      require_digest (ar_revision_digest a) ''revision_digest'',
      require_positive (ar_generation a) ''generation must be a positive integer.'',
      require_utc (ar_updated_at a) ''updated_at'']"

definition active_revision_val :: "active_revision \<Rightarrow> pyval" where
  "active_revision_val a = VContract ''ophelia.kernel.active_revision''
     [(''host_id'', VStr (ar_host_id a)), (''app'', VStr (ar_app a)),
      (''environment'', VStr (ar_environment a)), (''operation_id'', VStr (ar_operation_id a)),
      (''revision_id'', VStr (ar_revision_id a)), (''revision_digest'', VStr (ar_revision_digest a)),
      (''generation'', VInt (ar_generation a)), (''updated_at'', VStr (ar_updated_at a))]"

section \<open>Policy and runtime results\<close>

record policy_decision =
  pd_allowed :: bool
  pd_policy_digest :: string
  pd_blocker_codes :: "string list"

definition policy_decision_check :: "policy_decision \<Rightarrow> check" where
  "policy_decision_check d = first_error
     [require_digest (pd_policy_digest d) ''policy_digest'',
      require_all_texts (pd_blocker_codes d) ''blocker_code'' 128,
      require_sorted_set (pd_blocker_codes d) ''blocker_codes'',
      raise_unless (\<not> (pd_allowed d \<and> pd_blocker_codes d \<noteq> []))
        (ContractValidationError ''An allowed policy decision cannot contain blockers.''),
      raise_unless (\<not> (\<not> pd_allowed d \<and> pd_blocker_codes d = []))
        (ContractValidationError ''A blocked policy decision must identify a blocker.'')]"

record preflight_result =
  pf_ok :: bool
  pf_observed_state_digest :: string
  pf_evidence_digests :: "string list"
  pf_blocker_codes :: "string list"

definition preflight_result_check :: "preflight_result \<Rightarrow> check" where
  "preflight_result_check p = first_error
     [require_digest (pf_observed_state_digest p) ''observed_state_digest'',
      require_digests (pf_evidence_digests p) ''evidence_digests'',
      require_all_texts (pf_blocker_codes p) ''blocker_code'' 128,
      raise_unless (\<not> (pf_ok p \<and> pf_blocker_codes p \<noteq> []))
        (ContractValidationError ''Successful preflight cannot contain blockers.''),
      raise_unless (\<not> (\<not> pf_ok p \<and> pf_blocker_codes p = []))
        (ContractValidationError ''Failed preflight must identify a blocker.'')]"

record runtime_handle =
  rh_backend :: string
  rh_handle_id :: string
  rh_revision_id :: string
  rh_revision_digest :: string

definition runtime_handle_check :: "runtime_handle \<Rightarrow> check" where
  "runtime_handle_check h = first_error
     [require_text (rh_backend h) ''backend'' 128,
      require_text (rh_handle_id h) ''handle_id'' 255,
      require_entity_id (rh_revision_id h) ''rev'' ''revision_id'',
      require_digest (rh_revision_digest h) ''revision_digest'']"

record stop_result =
  sr_stopped :: bool
  sr_observed_state_digest :: string

definition stop_result_check :: "stop_result \<Rightarrow> check" where
  "stop_result_check s = require_digest (sr_observed_state_digest s) ''observed_state_digest''"

record remove_result =
  rr_removed :: bool
  rr_observed_state_digest :: string

definition remove_result_check :: "remove_result \<Rightarrow> check" where
  "remove_result_check s = require_digest (rr_observed_state_digest s) ''observed_state_digest''"

record log_batch =
  lb_next_cursor :: "string option"
  lb_entry_digests :: "string list"
  lb_truncated :: bool

definition log_batch_check :: "log_batch \<Rightarrow> check" where
  "log_batch_check b = first_error
     [optional (\<lambda>c. require_text c ''next_cursor'' 255) (lb_next_cursor b),
      require_digests (lb_entry_digests b) ''entry_digests'',
      raise_unless (length (lb_entry_digests b) \<le> 1000)
        (ContractValidationError ''A log batch may reference at most 1000 entries.'')]"

record traffic_activation_result =
  ta_committed_atomically :: bool
  ta_previous_revision_digest :: "string option"
  ta_active_revision_digest :: "string option"
  ta_observed_state_digest :: string
  ta_evidence_digests :: "string list"

definition traffic_activation_result_check :: "traffic_activation_result \<Rightarrow> check" where
  "traffic_activation_result_check t = first_error
     [optional (\<lambda>d. require_digest d ''previous_revision_digest'') (ta_previous_revision_digest t),
      optional (\<lambda>d. require_digest d ''active_revision_digest'') (ta_active_revision_digest t),
      require_digest (ta_observed_state_digest t) ''observed_state_digest'',
      require_digests (ta_evidence_digests t) ''evidence_digests'']"

end
