(* ===== verification/Contract_Fields.thy ===== *)
theory Contract_Fields
  imports Canonical Domain
begin

text \<open>
  The field names of the kernel contracts are plain: none is sensitive, none carries a command and
  none is dropped from mappings. On plain fields one redaction pass has a closed form: strings are
  replaced by the marker exactly when they look like credentials, and everything else is kept. The
  canonical form of every contract follows, and with it the digests that leave out some fields.
\<close>

section \<open>Plain keys\<close>

definition plain_key :: "string \<Rightarrow> bool" where
  "plain_key k \<longleftrightarrow>
     \<not> is_sensitive_key k \<and> \<not> looks_like_command_key (Some k) \<and>
     lower k \<notin> set FORBIDDEN_MAPPING_KEYS"

text \<open>Letter case of the characters of field names, for evaluating the recognisers.\<close>

lemma upper_table: "map to_upper ''abcdefghijklmnopqrstuvwxyz_'' = ''ABCDEFGHIJKLMNOPQRSTUVWXYZ_''"
  by (simp add: to_upper_def is_lower_def chr_eq_iff)

lemma lower_table: "map to_lower ''abcdefghijklmnopqrstuvwxyz_'' = ''abcdefghijklmnopqrstuvwxyz_''"
  by (simp add: to_lower_def is_upper_def)

lemmas case_tables =
  upper_table [simplified list.map list.inject simp_thms]
  lower_table [simplified list.map list.inject simp_thms]

lemmas plain_key_eval =
  plain_key_def is_sensitive_key_def looks_like_command_key_def SENSITIVE_KEY_PATTERNS_def
  COMMAND_STRING_KEYS_def FORBIDDEN_MAPPING_KEYS_def upper_def lower_def ends_with_def case_tables

lemma plain_field_names:
  "list_all plain_key
    [''schema_version'', ''kind'', ''actor_id'', ''source'', ''authenticated_by'', ''request_id'',
     ''operation'', ''host_id'', ''app'', ''environment'', ''revision_id'', ''revision_digest'',
     ''idempotency_key'', ''idempotency_key_digest'', ''event_id'', ''operation_id'', ''sequence'',
     ''event_type'', ''occurred_at'', ''state'', ''message'', ''evidence_digests'',
     ''previous_event_digest'', ''workload_id'', ''workload_kind'', ''artifact_digest'',
     ''route_ids'', ''overlap_safe'', ''manifest_digest'', ''artifact_digests'',
     ''renderer_version'', ''workloads'', ''created_at'', ''order'', ''phase'',
     ''mutates_runtime'', ''desired_effect_digest'', ''compensation'', ''plan_id'',
     ''request_digest'', ''observed_state_digest'', ''policy_digest'', ''steps'',
     ''blocker_codes'', ''plan_digest'', ''decision_id'', ''authorization_kind'', ''issuer'',
     ''audience'', ''approved_at'', ''expires_at'', ''nonce_digest'', ''approval_digest'',
     ''name'', ''status'', ''observed_digest'', ''summary'', ''observed_revision_digest'',
     ''observed_at'', ''checks'', ''attempted'', ''restored_revision_id'',
     ''restored_revision_digest'', ''receipt_id'', ''previous_revision_id'',
     ''desired_revision_id'', ''desired_revision_digest'', ''active_revision_id'',
     ''active_revision_digest'', ''verification'', ''effect'', ''outcome'', ''started_at'',
     ''completed_at'', ''inputs_redacted'', ''relative_root'', ''plan'', ''approved_plan'',
     ''revision'', ''artifact_ref'', ''deadline'', ''input_digest'', ''generation'', ''updated_at'']"
  by (simp add: plain_key_eval)

lemmas plain_field_simps [simp] = plain_field_names [simplified list.pred_inject simp_thms]

lemma plain_keyD:
  "plain_key k \<Longrightarrow> \<not> is_sensitive_key k" "plain_key k \<Longrightarrow> \<not> looks_like_command_key (Some k)"
  "plain_key k \<Longrightarrow> lower k \<notin> set FORBIDDEN_MAPPING_KEYS"
  by (simp_all add: plain_key_def)

section \<open>One pass over a plain field\<close>

lemma scrub_member_scalar [simp]:
  assumes "plain_key k"
  shows "scrub_member False k (JStr s) = JStr (scrub_text s)"
    and "scrub_member False k JNull = JNull"
    and "scrub_member False k (JInt i) = JInt i"
    and "scrub_member False k (JBool b) = JBool b"
proof -
  have "is_safe_digest_metadata k (JStr s) \<Longrightarrow> is_digest s"
    by (auto simp: is_safe_iff is_digest_json_def split: if_splits)
  then show "scrub_member False k (JStr s) = JStr (scrub_text s)"
    using assms scrub_JStr [of "Some k" False s]
    by (auto simp: scrub_member_def plain_keyD simp del: scrub.simps)
qed (use assms in \<open>auto simp: scrub_member_def plain_keyD\<close>)

lemma scrub_member_strs [simp]:
  assumes "plain_key k"
  shows "scrub_member False k (JList (map JStr ss)) = JList (map JStr (map scrub_text ss))"
proof (cases "is_safe_digest_metadata k (JList (map JStr ss))")
  case True
  then have "\<forall>s \<in> set ss. is_digest s"
    by (auto simp: is_safe_iff is_digest_json_def split: if_splits)
  with True show ?thesis by (simp add: scrub_member_def map_idI)
next
  case False
  then show ?thesis
    using assms scrub_JStr [of "Some k" False]
    by (simp add: scrub_member_def plain_keyD del: scrub.simps(3-6) walk.simps)
qed

lemma scrub_member_obj [simp]:
  assumes "plain_key k"
  shows "scrub_member False k (JObj kvs) = JObj (scrub_members kvs)"
proof -
  have "\<not> is_safe_digest_metadata k (JObj kvs)" by (simp add: is_safe_iff is_digest_json_def)
  then show ?thesis
    using assms by (simp add: scrub_member_def plain_keyD scrub_JObj scrub_members_def del: scrub.simps)
qed

lemma scrub_member_objs [simp]:
  assumes "plain_key k"
  shows "scrub_member False k (JList (map (\<lambda>x. JObj (f x)) xs)) = JList (map (\<lambda>x. JObj (scrub_members (f x))) xs)"
proof (cases "is_safe_digest_metadata k (JList (map (\<lambda>x. JObj (f x)) xs))")
  case True
  then have "xs = []" by (auto simp: is_safe_iff is_digest_json_def split: if_splits)
  then show ?thesis by (simp add: scrub_member_def)
next
  case False
  then show ?thesis
    using assms by (simp add: scrub_member_def plain_keyD scrub_JObj scrub_members_def del: scrub.simps(1,3-6))
qed

lemma scrub_members_simps [simp]:
  "scrub_members [] = []"
  "scrub_members ((k, j) # kvs) = (k, scrub_member False k j) # scrub_members kvs"
  by (simp_all add: scrub_members_def)

section \<open>Plain values\<close>

text \<open>
  A payload all of whose keys are plain, at every level; scalars are anything. Such a payload is
  free of commands and of dropped keys.
\<close>

fun plain_json :: "json \<Rightarrow> bool" where
  "plain_json (JObj kvs) = (\<forall>p \<in> set kvs. plain_key (fst p) \<and> plain_json (snd p))"
| "plain_json (JList js) = (\<forall>j \<in> set js. plain_json j)"
| "plain_json _ = True"

lemma plain_json_free:
  "plain_json j \<Longrightarrow> \<not> looks_like_command_key kn \<Longrightarrow> command_free kn j"
  "plain_json j \<Longrightarrow> forbidden_free j"
proof (induction j arbitrary: kn)
  case (JObj kvs)
  {
    case 1
    have "command_free (Some (fst p)) (snd p)" if "p \<in> set kvs" for p
      using JObj.IH(1) [OF that, of "snd p"] 1 that by (auto simp: snds.simps plain_keyD)
    then show ?case by simp
  next
    case 2
    have "forbidden_free (snd p)" if "p \<in> set kvs" for p
      using JObj.IH(2) [OF that, of "snd p"] 2 that by (auto simp: snds.simps)
    with 2 show ?case by (auto simp: plain_keyD)
  }
qed auto

lemma no_command_key [simp]: "\<not> looks_like_command_key None"
  by (simp add: looks_like_command_key_def)

lemma tameI: "json_wf (JObj (members kind fs)) \<Longrightarrow> plain_json (JObj (members kind fs)) \<Longrightarrow> tame kind fs"
  unfolding tame_def using plain_json_free no_command_key by blast

end
