(* ===== verification/Utc_Text.thy ===== *)
theory Utc_Text
  imports Canonical
begin

text \<open>
  Timestamps never look like credentials: a connection string needs two slashes, and a text that
  parses as a date and time holds at most one character outside the digits and punctuation of the
  format, the separator. Redaction therefore leaves every validated timestamp alone.
\<close>

section \<open>Credentials need two slashes\<close>

abbreviation slashes :: "string \<Rightarrow> nat" where
  "slashes s \<equiv> count_list s CHR ''/''"

lemma count_list_append [simp]: "count_list (xs @ ys) z = count_list xs z + count_list ys z"
  by (induction xs) auto

lemma slashes_dropWhile: "slashes (dropWhile p s) \<le> slashes s"
  by (induction s) auto

lemma slashes_rev [simp]: "slashes (rev s) = slashes s"
  by (induction s) auto

lemma slashes_strip: "slashes (strip s) \<le> slashes s"
  unfolding strip_def strip_left_def
  by (metis order_trans slashes_dropWhile slashes_rev)

lemma slashes_lower [simp]: "slashes (lower s) = slashes s"
proof -
  have "to_lower c = CHR ''/'' \<longleftrightarrow> c = CHR ''/''" for c
    by (auto simp: to_lower_def is_upper_def chr_eq_iff)
  then show ?thesis by (induction s) (auto simp: lower_def)
qed

lemma after_scheme_slashes: "after_scheme s = Some r \<Longrightarrow> 2 \<le> slashes s"
  by (induction s) (auto simp: starts_with_iff split: if_splits)

lemma secret_slashes: "looks_like_secret_text s \<Longrightarrow> 2 \<le> slashes s"
proof -
  assume "looks_like_secret_text s"
  then consider p where "p \<in> set SECRET_VALUE_PREFIXES" "starts_with p (lower (strip s))"
    | r where "after_scheme (strip s) = Some r"
    by (auto simp: looks_like_secret_text_def Let_def list_ex_iff split: if_splits option.splits)
  then have "2 \<le> slashes (strip s)"
  proof cases
    case (1 p)
    then have "slashes p \<le> slashes (lower (strip s))" by (auto simp: starts_with_iff simp del: slashes_lower)
    moreover have "2 \<le> slashes p" using 1(1) by (auto simp: SECRET_VALUE_PREFIXES_def)
    ultimately show ?thesis by simp
  qed (rule after_scheme_slashes)
  with slashes_strip [of s] show "2 \<le> slashes s" by linarith
qed

section \<open>What the timestamp reader consumes\<close>

lemma expect_Some: "expect c s = Some r \<Longrightarrow> s = c # r"
  by (auto simp: expect_def split: list.splits if_splits)

lemma take_digits_slashes: "take_digits k s = Some (n, r) \<Longrightarrow> slashes s = slashes r"
proof -
  have "take_digits_acc k m s = Some (n, r) \<Longrightarrow> slashes s = slashes r" for m
    by (induction k m s rule: take_digits_acc.induct) (auto simp: is_digit_def split: if_splits)
  then show "take_digits k s = Some (n, r) \<Longrightarrow> slashes s = slashes r"
    by (simp add: take_digits_def)
qed

lemma parse_date_slashes: "parse_date s = Some (n, r) \<Longrightarrow> slashes s = slashes r"
  unfolding parse_date_def
  by (auto simp: bind_eq_Some_conv split: if_splits dest!: expect_Some) (auto dest!: take_digits_slashes)

lemma parse_fraction_slashes: "parse_fraction s = Some (n, r) \<Longrightarrow> slashes s = slashes r"
  unfolding parse_fraction_def
  by (auto split: option.splits dest!: expect_Some dest: take_digits_slashes)

lemma parse_hms_slashes: "parse_hms s = Some (n, r) \<Longrightarrow> slashes s = slashes r"
  unfolding parse_hms_def
  by (auto simp: bind_eq_Some_conv split: option.splits dest!: expect_Some)
     (auto dest!: take_digits_slashes parse_fraction_slashes)

lemma parse_offset_slashes: "parse_offset s = Some z \<Longrightarrow> slashes s = 0"
  unfolding parse_offset_def
  by (auto simp: bind_eq_Some_conv split: list.splits if_splits dest!: parse_hms_slashes)

lemma fromisoformat_slashes: "fromisoformat s = Some (us, tz) \<Longrightarrow> slashes s \<le> 1"
proof -
  assume "fromisoformat s = Some (us, tz)"
  then obtain n s1 where date: "parse_date s = Some (n, s1)"
    and rest: "length s1 \<le> 1 \<or> (\<exists>t s2 z. parse_hms (tl s1) = Some (t, s2) \<and> parse_offset s2 = Some z)"
    by (auto simp: fromisoformat_def Let_def bind_eq_Some_conv split: if_splits)
  have "slashes s1 \<le> 1"
  proof (cases s1)
    case (Cons c t)
    have "slashes t = 0 \<or> t = []"
      using rest Cons parse_hms_slashes parse_offset_slashes by fastforce
    then show ?thesis using Cons by auto
  qed simp
  with parse_date_slashes [OF date] show "slashes s \<le> 1" by simp
qed

lemma slashes_replace_z [simp]: "slashes (replace_z s) = slashes s"
  by (induction s) (auto simp: replace_z_def)

lemma utc_not_secret: "is_utc s \<Longrightarrow> \<not> looks_like_secret_text s"
proof
  assume "is_utc s" "looks_like_secret_text s"
  then obtain us tz where "fromisoformat (replace_z s) = Some (us, tz)"
    by (auto simp: is_utc_def require_utc_def split: if_splits option.splits)
  from fromisoformat_slashes [OF this] have "slashes s \<le> 1" by simp
  moreover have "2 \<le> slashes s" by (rule secret_slashes) fact
  ultimately show False by simp
qed

end
