(* ===== verification/Codec.thy ===== *)
theory Codec
  imports Contract_Fields Utc_Text
begin

text \<open>
  The readers of durable payloads in \<^verbatim>\<open>src/ophelia/execution/operation_store.py\<close>
  (\<^verbatim>\<open>_..._from_payload\<close>, \<^verbatim>\<open>_event_from_json\<close>). The interface \<open>contract_codec\<close> states what the
  journal relies on: a stored contract reads back as itself up to redaction of its free text, and
  the value read back has the same canonical form, hence the same digest. Every stored contract is
  an instance. A JSON value of the wrong type raises when the field is read.
\<close>

section \<open>Reading fields\<close>

definition obj_get :: "json \<Rightarrow> string \<Rightarrow> json res" where
  "obj_get j k = (case j of
      JObj kvs \<Rightarrow> (case map_of kvs k of Some v \<Rightarrow> Inr v | None \<Rightarrow> Inl (KeyError k))
    | _ \<Rightarrow> Inl (TypeError k))"

definition obj_find :: "json \<Rightarrow> string \<Rightarrow> json option res" where
  "obj_find j k = (case j of JObj kvs \<Rightarrow> Inr (map_of kvs k) | _ \<Rightarrow> Inl (TypeError k))"

definition as_str :: "string \<Rightarrow> json \<Rightarrow> string res" where
  "as_str k j = (case j of JStr s \<Rightarrow> Inr s | _ \<Rightarrow> Inl (ContractValidationError k))"

definition get_str :: "json \<Rightarrow> string \<Rightarrow> string res" where
  "get_str j k = bind_res (obj_get j k) (as_str k)"

definition get_int :: "json \<Rightarrow> string \<Rightarrow> int res" where
  "get_int j k = bind_res (obj_get j k) (\<lambda>v. case v of JInt i \<Rightarrow> Inr i | _ \<Rightarrow> Inl (ContractValidationError k))"

definition get_bool :: "json \<Rightarrow> string \<Rightarrow> bool res" where
  "get_bool j k = bind_res (obj_get j k) (\<lambda>v. case v of JBool b \<Rightarrow> Inr b | _ \<Rightarrow> Inl (ContractValidationError k))"

definition get_opt :: "json \<Rightarrow> string \<Rightarrow> string option res" where
  "get_opt j k = bind_res (obj_find j k) (\<lambda>v. case v of
      None \<Rightarrow> Inr None
    | Some JNull \<Rightarrow> Inr None
    | Some (JStr s) \<Rightarrow> Inr (Some s)
    | Some _ \<Rightarrow> Inl (ContractValidationError k))"

text \<open>\<^verbatim>\<open>tuple(value)\<close>: the elements of a list, the characters of a string, the keys of a mapping.\<close>

definition tuple_of :: "string \<Rightarrow> json \<Rightarrow> string list res" where
  "tuple_of k v = (case v of
      JList js \<Rightarrow> map_res (as_str k) js
    | JStr s \<Rightarrow> Inr (map (\<lambda>c. [c]) s)
    | JObj kvs \<Rightarrow> Inr (map fst kvs)
    | _ \<Rightarrow> Inl (TypeError k))"

definition get_strs :: "json \<Rightarrow> string \<Rightarrow> string list res" where
  "get_strs j k = bind_res (obj_get j k) (tuple_of k)"

text \<open>\<^verbatim>\<open>tuple(payload.get(k, ()))\<close>.\<close>

definition find_strs :: "json \<Rightarrow> string \<Rightarrow> string list res" where
  "find_strs j k = bind_res (obj_find j k) (\<lambda>v. case v of None \<Rightarrow> Inr [] | Some v \<Rightarrow> tuple_of k v)"

definition get_list :: "json \<Rightarrow> string \<Rightarrow> json list res" where
  "get_list j k = bind_res (obj_get j k) (\<lambda>v. case v of JList js \<Rightarrow> Inr js | _ \<Rightarrow> Inl (ContractValidationError k))"

definition get_obj :: "json \<Rightarrow> string \<Rightarrow> json res" where
  "get_obj j k = bind_res (obj_get j k) (\<lambda>v. case v of JObj kvs \<Rightarrow> Inr v | _ \<Rightarrow> Inl (ContractValidationError k))"

definition loads :: "string \<Rightarrow> json res" where
  "loads s = (case json_loads s of Some j \<Rightarrow> Inr j | None \<Rightarrow> Inl (ValueError ''Expecting value''))"

section \<open>Readers\<close>

definition actor_from_payload :: "json \<Rightarrow> actor res" where
  "actor_from_payload j =
     bind_res (get_str j ''actor_id'') (\<lambda>actor_id.
     bind_res (get_str j ''source'') (\<lambda>source.
     bind_res (get_str j ''authenticated_by'') (\<lambda>authenticated_by.
       (let a = \<lparr>ac_actor_id = actor_id, ac_source = source, ac_authenticated_by = authenticated_by\<rparr>
        in guarded (actor_check a) a))))"

text \<open>The request of an accepted operation is stored without its idempotency key.\<close>

definition request_from_payload :: "json \<Rightarrow> operation_request res" where
  "request_from_payload j =
     bind_res (get_str j ''request_id'') (\<lambda>request_id.
     bind_res (get_str j ''operation'') (\<lambda>operation.
     bind_res (get_str j ''host_id'') (\<lambda>host_id.
     bind_res (get_str j ''app'') (\<lambda>app.
     bind_res (get_str j ''environment'') (\<lambda>environment.
     bind_res (get_str j ''revision_id'') (\<lambda>revision_id.
     bind_res (get_str j ''revision_digest'') (\<lambda>revision_digest.
       (let r = \<lparr>rq_request_id = request_id, rq_operation = operation, rq_host_id = host_id, rq_app = app,
            rq_environment = environment, rq_revision_id = revision_id,
            rq_revision_digest = revision_digest, rq_idempotency_key = ''redacted''\<rparr>
        in guarded (operation_request_check r) r))))))))"

definition event_from_payload :: "json \<Rightarrow> operation_event res" where
  "event_from_payload j =
     bind_res (get_str j ''event_id'') (\<lambda>event_id.
     bind_res (get_str j ''operation_id'') (\<lambda>operation_id.
     bind_res (get_int j ''sequence'') (\<lambda>sequence.
     bind_res (get_str j ''event_type'') (\<lambda>event_type.
     bind_res (get_str j ''occurred_at'') (\<lambda>occurred_at.
     bind_res (bind_res (get_str j ''state'') (enum_of os_all os_value)) (\<lambda>state.
     bind_res (get_str j ''host_id'') (\<lambda>host_id.
     bind_res (get_str j ''app'') (\<lambda>app.
     bind_res (get_str j ''environment'') (\<lambda>environment.
     bind_res (get_opt j ''revision_id'') (\<lambda>revision_id.
     bind_res (get_opt j ''message'') (\<lambda>message.
     bind_res (find_strs j ''evidence_digests'') (\<lambda>evidence_digests.
     bind_res (get_opt j ''previous_event_digest'') (\<lambda>previous_event_digest.
       (let e = \<lparr>ev_event_id = event_id, ev_operation_id = operation_id, ev_sequence = sequence,
            ev_event_type = event_type, ev_occurred_at = occurred_at, ev_state = state,
            ev_host_id = host_id, ev_app = app, ev_environment = environment,
            ev_revision_id = revision_id, ev_message = message,
            ev_evidence_digests = evidence_digests, ev_previous_event_digest = previous_event_digest\<rparr>
        in guarded (operation_event_check e) e))))))))))))))"

definition event_from_json :: "string \<Rightarrow> operation_event res" where
  "event_from_json payload_json = bind_res (loads payload_json) event_from_payload"

definition plan_step_from_payload :: "json \<Rightarrow> plan_step res" where
  "plan_step_from_payload j =
     bind_res (get_int j ''order'') (\<lambda>order.
     bind_res (bind_res (get_str j ''phase'') (enum_of ph_all ph_value)) (\<lambda>phase.
     bind_res (get_bool j ''mutates_runtime'') (\<lambda>mutates_runtime.
     bind_res (get_str j ''desired_effect_digest'') (\<lambda>desired_effect_digest.
     bind_res (bind_res (get_str j ''compensation'') (enum_of ca_all ca_value)) (\<lambda>compensation.
       (let s = \<lparr>ps_order = order, ps_phase = phase, ps_mutates_runtime = mutates_runtime,
            ps_desired_effect_digest = desired_effect_digest, ps_compensation = compensation\<rparr>
        in guarded (plan_step_check s) s))))))"

definition operation_plan_from_payload :: "json \<Rightarrow> operation_plan res" where
  "operation_plan_from_payload j =
     bind_res (get_list j ''steps'') (\<lambda>steps_payload.
     bind_res (get_str j ''plan_id'') (\<lambda>plan_id.
     bind_res (get_str j ''request_digest'') (\<lambda>request_digest.
     bind_res (get_str j ''operation'') (\<lambda>operation.
     bind_res (get_str j ''host_id'') (\<lambda>host_id.
     bind_res (get_str j ''app'') (\<lambda>app.
     bind_res (get_str j ''environment'') (\<lambda>environment.
     bind_res (get_str j ''revision_id'') (\<lambda>revision_id.
     bind_res (get_str j ''revision_digest'') (\<lambda>revision_digest.
     bind_res (get_str j ''manifest_digest'') (\<lambda>manifest_digest.
     bind_res (get_strs j ''artifact_digests'') (\<lambda>artifact_digests.
     bind_res (get_str j ''observed_state_digest'') (\<lambda>observed_state_digest.
     bind_res (get_str j ''policy_digest'') (\<lambda>policy_digest.
     bind_res (map_res plan_step_from_payload steps_payload) (\<lambda>steps.
     bind_res (get_strs j ''blocker_codes'') (\<lambda>blocker_codes.
     bind_res (get_str j ''created_at'') (\<lambda>created_at.
       (let p = \<lparr>pl_plan_id = plan_id, pl_request_digest = request_digest, pl_operation = operation,
            pl_host_id = host_id, pl_app = app, pl_environment = environment,
            pl_revision_id = revision_id, pl_revision_digest = revision_digest,
            pl_manifest_digest = manifest_digest, pl_artifact_digests = artifact_digests,
            pl_observed_state_digest = observed_state_digest, pl_policy_digest = policy_digest,
            pl_steps = steps, pl_blocker_codes = blocker_codes, pl_created_at = created_at\<rparr>
        in guarded (operation_plan_check p) p)))))))))))))))))"

definition find_bool :: "json \<Rightarrow> string \<Rightarrow> bool \<Rightarrow> bool res" where
  "find_bool j k d = bind_res (obj_find j k) (\<lambda>v. case v of
      None \<Rightarrow> Inr d
    | Some (JBool b) \<Rightarrow> Inr b
    | Some _ \<Rightarrow> Inl (ContractValidationError k))"

definition workload_from_payload :: "json \<Rightarrow> workload res" where
  "workload_from_payload j =
     bind_res (get_str j ''workload_id'') (\<lambda>workload_id.
     bind_res (bind_res (get_str j ''workload_kind'') (enum_of wk_all wk_value)) (\<lambda>workload_kind.
     bind_res (get_str j ''artifact_digest'') (\<lambda>artifact_digest.
     bind_res (find_strs j ''route_ids'') (\<lambda>route_ids.
     bind_res (find_bool j ''overlap_safe'' False) (\<lambda>overlap_safe.
       (let w = \<lparr>wl_workload_id = workload_id, wl_workload_kind = workload_kind,
            wl_artifact_digest = artifact_digest, wl_route_ids = route_ids, wl_overlap_safe = overlap_safe\<rparr>
        in guarded (workload_check w) w))))))"

definition revision_from_payload :: "json \<Rightarrow> revision res" where
  "revision_from_payload j =
     bind_res (get_list j ''workloads'') (\<lambda>workloads_payload.
     bind_res (get_str j ''revision_id'') (\<lambda>revision_id.
     bind_res (get_str j ''app'') (\<lambda>app.
     bind_res (get_str j ''environment'') (\<lambda>environment.
     bind_res (get_str j ''manifest_digest'') (\<lambda>manifest_digest.
     bind_res (get_strs j ''artifact_digests'') (\<lambda>artifact_digests.
     bind_res (get_str j ''renderer_version'') (\<lambda>renderer_version.
     bind_res (map_res workload_from_payload workloads_payload) (\<lambda>workloads.
     bind_res (get_str j ''created_at'') (\<lambda>created_at.
       (let r = \<lparr>rv_revision_id = revision_id, rv_app = app, rv_environment = environment,
            rv_manifest_digest = manifest_digest, rv_artifact_digests = artifact_digests,
            rv_renderer_version = renderer_version, rv_workloads = workloads, rv_created_at = created_at\<rparr>
        in guarded (revision_check r) r))))))))))"

definition approved_plan_from_payload :: "json \<Rightarrow> approved_plan_ref res" where
  "approved_plan_from_payload j =
     bind_res (get_str j ''plan_id'') (\<lambda>plan_id.
     bind_res (get_str j ''plan_digest'') (\<lambda>plan_digest.
     bind_res (get_str j ''request_digest'') (\<lambda>request_digest.
     bind_res (get_str j ''manifest_digest'') (\<lambda>manifest_digest.
     bind_res (get_strs j ''artifact_digests'') (\<lambda>artifact_digests.
     bind_res (get_str j ''observed_state_digest'') (\<lambda>observed_state_digest.
     bind_res (get_str j ''policy_digest'') (\<lambda>policy_digest.
     bind_res (get_str j ''host_id'') (\<lambda>host_id.
     bind_res (get_str j ''app'') (\<lambda>app.
     bind_res (get_str j ''environment'') (\<lambda>environment.
     bind_res (get_str j ''revision_id'') (\<lambda>revision_id.
     bind_res (get_str j ''revision_digest'') (\<lambda>revision_digest.
     bind_res (get_str j ''actor_id'') (\<lambda>actor_id.
     bind_res (get_str j ''decision_id'') (\<lambda>decision_id.
     bind_res (bind_res (get_str j ''authorization_kind'') (enum_of ak_all ak_value)) (\<lambda>authorization_kind.
     bind_res (get_str j ''issuer'') (\<lambda>issuer.
     bind_res (get_str j ''audience'') (\<lambda>audience.
     bind_res (get_str j ''approved_at'') (\<lambda>approved_at.
     bind_res (get_str j ''expires_at'') (\<lambda>expires_at.
     bind_res (get_str j ''nonce_digest'') (\<lambda>nonce_digest.
     bind_res (get_str j ''approval_digest'') (\<lambda>approval_digest.
       (let a = \<lparr>ap_plan_id = plan_id, ap_plan_digest = plan_digest, ap_request_digest = request_digest,
            ap_manifest_digest = manifest_digest, ap_artifact_digests = artifact_digests,
            ap_observed_state_digest = observed_state_digest, ap_policy_digest = policy_digest,
            ap_host_id = host_id, ap_app = app, ap_environment = environment,
            ap_revision_id = revision_id, ap_revision_digest = revision_digest,
            ap_actor_id = actor_id, ap_decision_id = decision_id,
            ap_authorization_kind = authorization_kind, ap_issuer = issuer, ap_audience = audience,
            ap_approved_at = approved_at, ap_expires_at = expires_at, ap_nonce_digest = nonce_digest,
            ap_approval_digest = approval_digest\<rparr>
        in guarded (approved_plan_ref_check a) a))))))))))))))))))))))"

definition artifact_ref_from_payload :: "json \<Rightarrow> revision_artifact_ref res" where
  "artifact_ref_from_payload j =
     bind_res (get_str j ''revision_id'') (\<lambda>revision_id.
     bind_res (get_str j ''revision_digest'') (\<lambda>revision_digest.
     bind_res (get_str j ''relative_root'') (\<lambda>relative_root.
     bind_res (get_str j ''artifact_digest'') (\<lambda>artifact_digest.
       (let a = \<lparr>ra_revision_id = revision_id, ra_revision_digest = revision_digest,
            ra_relative_root = relative_root, ra_artifact_digest = artifact_digest\<rparr>
        in guarded (revision_artifact_ref_check a) a)))))"

definition execution_input_from_payload :: "json \<Rightarrow> execution_input res" where
  "execution_input_from_payload j =
     bind_res (get_obj j ''artifact_ref'') (\<lambda>artifact_payload.
     bind_res (bind_res (obj_get j ''plan'') operation_plan_from_payload) (\<lambda>plan.
     bind_res (bind_res (obj_get j ''approved_plan'') approved_plan_from_payload) (\<lambda>approved_plan.
     bind_res (bind_res (obj_get j ''revision'') revision_from_payload) (\<lambda>revision.
     bind_res (artifact_ref_from_payload artifact_payload) (\<lambda>artifact_ref.
     bind_res (get_str j ''deadline'') (\<lambda>deadline.
     bind_res (get_str j ''input_digest'') (\<lambda>input_digest.
       (let i = \<lparr>ei_plan = plan, ei_approved_plan = approved_plan, ei_revision = revision,
            ei_artifact_ref = artifact_ref, ei_deadline = deadline, ei_input_digest = input_digest\<rparr>
        in guarded (execution_input_check i) i))))))))"

definition verification_check_from_payload :: "json \<Rightarrow> verification_check res" where
  "verification_check_from_payload j =
     bind_res (get_str j ''name'') (\<lambda>name.
     bind_res (bind_res (get_str j ''status'') (enum_of cs_all cs_value)) (\<lambda>status.
     bind_res (get_opt j ''observed_digest'') (\<lambda>observed_digest.
     bind_res (get_opt j ''summary'') (\<lambda>summary.
       (let c = \<lparr>vc_name = name, vc_status = status, vc_observed_digest = observed_digest, vc_summary = summary\<rparr>
        in guarded (verification_check_check c) c)))))"

definition reject_verification_summary_prose :: "verification_check list \<Rightarrow> check" where
  "reject_verification_summary_prose checks =
     raise_unless (list_all (\<lambda>c. vc_summary c = None) checks)
       (ContractValidationError ''Authoritative journal verification checks cannot contain summary prose.'')"

definition verification_result_from_payload :: "json \<Rightarrow> verification_result res" where
  "verification_result_from_payload j =
     bind_res (get_list j ''checks'') (\<lambda>checks_payload.
     bind_res (map_res verification_check_from_payload checks_payload) (\<lambda>checks.
     bind_res (guarded (reject_verification_summary_prose checks) ()) (\<lambda>_.
     bind_res (bind_res (get_str j ''status'') (enum_of vs_all vs_value)) (\<lambda>status.
     bind_res (get_opt j ''observed_revision_digest'') (\<lambda>observed_revision_digest.
     bind_res (get_opt j ''observed_state_digest'') (\<lambda>observed_state_digest.
     bind_res (get_str j ''observed_at'') (\<lambda>observed_at.
       (let v = \<lparr>vr_status = status, vr_observed_revision_digest = observed_revision_digest,
            vr_observed_state_digest = observed_state_digest, vr_observed_at = observed_at, vr_checks = checks\<rparr>
        in guarded (verification_result_check v) v))))))))"

definition compensation_result_from_payload :: "json \<Rightarrow> compensation_result res" where
  "compensation_result_from_payload j =
     bind_res (get_bool j ''attempted'') (\<lambda>attempted.
     bind_res (bind_res (get_str j ''status'') (enum_of co_all co_value)) (\<lambda>status.
     bind_res (get_opt j ''restored_revision_id'') (\<lambda>restored_revision_id.
     bind_res (get_opt j ''restored_revision_digest'') (\<lambda>restored_revision_digest.
     bind_res (find_strs j ''evidence_digests'') (\<lambda>evidence_digests.
       (let c = \<lparr>cr_attempted = attempted, cr_status = status, cr_restored_revision_id = restored_revision_id,
            cr_restored_revision_digest = restored_revision_digest, cr_evidence_digests = evidence_digests\<rparr>
        in guarded (compensation_result_check c) c))))))"

definition receipt_from_payload :: "json \<Rightarrow> terminal_receipt res" where
  "receipt_from_payload j =
     bind_res (get_obj j ''verification'') (\<lambda>verification_payload.
     bind_res (get_obj j ''compensation'') (\<lambda>compensation_payload.
     bind_res (verification_result_from_payload verification_payload) (\<lambda>verification.
     bind_res (compensation_result_from_payload compensation_payload) (\<lambda>compensation.
     bind_res (get_str j ''receipt_id'') (\<lambda>receipt_id.
     bind_res (get_str j ''operation_id'') (\<lambda>operation_id.
     bind_res (get_str j ''operation'') (\<lambda>operation.
     bind_res (get_str j ''plan_id'') (\<lambda>plan_id.
     bind_res (get_str j ''plan_digest'') (\<lambda>plan_digest.
     bind_res (get_str j ''decision_id'') (\<lambda>decision_id.
     bind_res (get_str j ''host_id'') (\<lambda>host_id.
     bind_res (get_str j ''app'') (\<lambda>app.
     bind_res (get_str j ''environment'') (\<lambda>environment.
     bind_res (get_opt j ''previous_revision_id'') (\<lambda>previous_revision_id.
     bind_res (get_str j ''desired_revision_id'') (\<lambda>desired_revision_id.
     bind_res (get_str j ''desired_revision_digest'') (\<lambda>desired_revision_digest.
     bind_res (get_opt j ''active_revision_id'') (\<lambda>active_revision_id.
     bind_res (get_opt j ''active_revision_digest'') (\<lambda>active_revision_digest.
     bind_res (get_strs j ''artifact_digests'') (\<lambda>artifact_digests.
     bind_res (bind_res (get_str j ''effect'') (enum_of re_all re_value)) (\<lambda>effect.
     bind_res (bind_res (get_str j ''outcome'') (enum_of ro_all ro_value)) (\<lambda>outcome.
     bind_res (get_str j ''started_at'') (\<lambda>started_at.
     bind_res (get_str j ''completed_at'') (\<lambda>completed_at.
     bind_res (get_bool j ''inputs_redacted'') (\<lambda>inputs_redacted.
       (let r = \<lparr>rc_receipt_id = receipt_id, rc_operation_id = operation_id, rc_operation = operation,
            rc_plan_id = plan_id, rc_plan_digest = plan_digest, rc_decision_id = decision_id,
            rc_host_id = host_id, rc_app = app, rc_environment = environment,
            rc_previous_revision_id = previous_revision_id, rc_desired_revision_id = desired_revision_id,
            rc_desired_revision_digest = desired_revision_digest,
            rc_active_revision_id = active_revision_id, rc_active_revision_digest = active_revision_digest,
            rc_artifact_digests = artifact_digests, rc_verification = verification,
            rc_compensation = compensation, rc_effect = effect, rc_outcome = outcome,
            rc_started_at = started_at, rc_completed_at = completed_at, rc_inputs_redacted = inputs_redacted\<rparr>
        in guarded (terminal_receipt_check r) r)))))))))))))))))))))))))"

definition lifecycle_entry_from_payload :: "json \<Rightarrow> revision_lifecycle_entry res" where
  "lifecycle_entry_from_payload j =
     bind_res (get_str j ''operation_id'') (\<lambda>operation_id.
     bind_res (get_int j ''sequence'') (\<lambda>sequence.
     bind_res (get_str j ''revision_id'') (\<lambda>revision_id.
     bind_res (get_str j ''revision_digest'') (\<lambda>revision_digest.
     bind_res (bind_res (get_str j ''state'') (enum_of rs_all rs_value)) (\<lambda>state.
     bind_res (get_str j ''occurred_at'') (\<lambda>occurred_at.
       (let e = \<lparr>le_operation_id = operation_id, le_sequence = sequence, le_revision_id = revision_id,
            le_revision_digest = revision_digest, le_state = state, le_occurred_at = occurred_at\<rparr>
        in guarded (revision_lifecycle_entry_check e) e)))))))"

section \<open>Reading back a canonical payload\<close>

lemma map_of_sort_key_fst: "distinct (map fst kvs) \<Longrightarrow> map_of (sort_key fst kvs) = map_of kvs"
  by (intro map_of_eqI) (auto simp: distinct_fst_sort_key map_of_eq_Some_iff)

lemma map_of_canon:
  assumes "distinct (map fst kvs)"
  shows "map_of (sort_key fst (map (\<lambda>p. (fst p, json_canon (snd p))) kvs)) k = map_option json_canon (map_of kvs k)"
proof -
  have "distinct (map fst (map (\<lambda>p. (fst p, json_canon (snd p))) kvs))" using assms by (simp add: comp_def)
  then have "map_of (sort_key fst (map (\<lambda>p. (fst p, json_canon (snd p))) kvs)) k =
      map_of (map (\<lambda>p. (fst p, json_canon (snd p))) kvs) k"
    by (simp only: map_of_sort_key_fst)
  also have "\<dots> = map_option json_canon (map_of kvs k)" by (induction kvs) auto
  finally show ?thesis .
qed

lemma obj_get_canon:
  "distinct (map fst kvs) \<Longrightarrow> obj_get (json_canon (JObj kvs)) k =
     (case map_of kvs k of Some v \<Rightarrow> Inr (json_canon v) | None \<Rightarrow> Inl (KeyError k))"
  by (simp add: obj_get_def map_of_canon split: option.splits)

lemma obj_find_canon:
  "distinct (map fst kvs) \<Longrightarrow> obj_find (json_canon (JObj kvs)) k = Inr (map_option json_canon (map_of kvs k))"
  by (simp add: obj_find_def map_of_canon)

lemma tuple_of_strs [simp]: "tuple_of k (JList (map JStr ss)) = Inr ss"
proof -
  have "map_res (as_str k) (map JStr ss) = Inr (map (\<lambda>s. s) ss)"
    by (rule map_res_map) (simp add: as_str_def)
  then show ?thesis by (simp add: tuple_of_def)
qed

lemma canon_strs [simp]: "json_canon (JList (map JStr ss)) = JList (map JStr ss)"
  by (simp add: comp_def)

end
