(* ===== verification/Contract_Codec.thy ===== *)
theory Contract_Codec
  imports Codec
begin

text \<open>
  Every contract the journal stores is an instance of \<open>contract_codec\<close>: reading the canonical text
  of a valid contract succeeds and gives the contract with its free text redacted, and that value
  has the same canonical text. The proofs share one set of rules for reading a field of a stored
  contract (\<open>contract_reads\<close>) and one for what redaction leaves of a validated field
  (\<open>scrub_intros\<close>).
\<close>

section \<open>Fields of a stored contract\<close>

lemma map_of_scrub_members: "map_of (scrub_members kvs) k = map_option (scrub_member False k) (map_of kvs k)"
  by (induction kvs) (auto simp: scrub_members_def)

lemma map_of_members:
  "k \<noteq> ''schema_version'' \<Longrightarrow> k \<noteq> ''kind'' \<Longrightarrow> map_of (members kind fs) k = map_option raw (map_of fs k)"
proof -
  assume "k \<noteq> ''schema_version''" "k \<noteq> ''kind''"
  then have "map_of (members kind fs) k = map_of (map (\<lambda>p. (fst p, raw (snd p))) fs) k"
    by (simp add: members_def)
  also have "\<dots> = map_option raw (map_of fs k)" by (induction fs) auto
  finally show ?thesis .
qed

lemma distinct_scrub_members: "tame kind fs \<Longrightarrow> distinct (map fst (scrub_members (members kind fs)))"
  by (simp add: tame_def scrub_members_def comp_def)

lemma contract_field:
  assumes "tame kind fs" "k \<noteq> ''schema_version''" "k \<noteq> ''kind''" "map_of fs k = Some v"
  shows "obj_get (json_canon (serialize (VContract kind fs))) k = Inr (json_canon (scrub_member False k (raw v)))"
    and "obj_find (json_canon (serialize (VContract kind fs))) k = Inr (Some (json_canon (scrub_member False k (raw v))))"
  using assms obj_get_canon [OF distinct_scrub_members] obj_find_canon [OF distinct_scrub_members]
  by (simp_all add: serialize_tame map_of_scrub_members map_of_members del: serialize.simps json_canon.simps)

definition jopt :: "string option \<Rightarrow> json" where
  "jopt v = (case v of None \<Rightarrow> JNull | Some s \<Rightarrow> JStr s)"

lemma raw_vopt [simp]: "raw (vopt v) = jopt v"
  by (simp add: vopt_def jopt_def split: option.splits)

lemma jopt_simps [simp]:
  "json_wf (jopt v)" "plain_json (jopt v)" "json_canon (jopt v) = jopt v"
  "plain_key k \<Longrightarrow> scrub_member False k (jopt v) = jopt (map_option scrub_text v)"
  by (simp_all add: jopt_def split: option.splits)

lemma map_option_scrub_idem [simp]: "map_option scrub_text (map_option scrub_text v) = map_option scrub_text v"
  by (cases v) simp_all

lemma raw_vstrs [simp]: "raw (vstrs ss) = JList (map JStr ss)"
  by (simp add: vstrs_def comp_def)

lemmas contract_field_get =
  get_str_def get_int_def get_bool_def get_opt_def get_strs_def find_strs_def find_bool_def get_list_def
  get_obj_def as_str_def contract_field

lemma contract_str:
  assumes "tame kind fs" "k \<noteq> ''schema_version''" "k \<noteq> ''kind''" "plain_key k" "map_of fs k = Some (VStr s)"
  shows "get_str (json_canon (serialize (VContract kind fs))) k = Inr (scrub_text s)"
  using assms by (simp add: contract_field_get del: serialize.simps)

lemma contract_int:
  assumes "tame kind fs" "k \<noteq> ''schema_version''" "k \<noteq> ''kind''" "plain_key k" "map_of fs k = Some (VInt i)"
  shows "get_int (json_canon (serialize (VContract kind fs))) k = Inr i"
  using assms by (simp add: contract_field_get del: serialize.simps)

lemma contract_bool:
  assumes "tame kind fs" "k \<noteq> ''schema_version''" "k \<noteq> ''kind''" "plain_key k" "map_of fs k = Some (VBool b)"
  shows "get_bool (json_canon (serialize (VContract kind fs))) k = Inr b"
    and "find_bool (json_canon (serialize (VContract kind fs))) k d = Inr b"
  using assms by (simp_all add: contract_field_get del: serialize.simps)

lemma contract_opt:
  assumes "tame kind fs" "k \<noteq> ''schema_version''" "k \<noteq> ''kind''" "plain_key k" "map_of fs k = Some (vopt v)"
  shows "get_opt (json_canon (serialize (VContract kind fs))) k = Inr (map_option scrub_text v)"
  using assms by (cases v) (simp_all add: contract_field_get jopt_def del: serialize.simps)

lemma contract_strs:
  assumes "tame kind fs" "k \<noteq> ''schema_version''" "k \<noteq> ''kind''" "plain_key k" "map_of fs k = Some (vstrs ss)"
  shows "get_strs (json_canon (serialize (VContract kind fs))) k = Inr (map scrub_text ss)"
    and "find_strs (json_canon (serialize (VContract kind fs))) k = Inr (map scrub_text ss)"
  using assms tuple_of_strs [of k "map scrub_text ss"]
  by (simp_all add: contract_field_get comp_def del: serialize.simps)

text \<open>A value that is a contract with plain fields.\<close>

definition tame_val :: "pyval \<Rightarrow> bool" where
  "tame_val v \<longleftrightarrow> (case v of VContract kind fs \<Rightarrow> tame kind fs | _ \<Rightarrow> False)"

lemma tame_valE:
  assumes "tame_val v"
  obtains kind fs where "v = VContract kind fs" "tame kind fs"
  using assms by (cases v) (auto simp: tame_val_def)

lemma scrub_member_contract:
  assumes "plain_key k" "tame_val v"
  shows "scrub_member False k (raw v) = serialize v"
  using assms by (auto elim!: tame_valE simp: raw_contract serialize_tame simp del: serialize.simps raw.simps)

lemma scrub_member_contracts:
  assumes "plain_key k" "\<And>v. v \<in> set vs \<Longrightarrow> tame_val v"
  shows "scrub_member False k (raw (VList vs)) = JList (map serialize vs)"
proof -
  have "\<exists>kvs. raw v = JObj kvs \<and> serialize v = JObj (scrub_members kvs)" if "v \<in> set vs" for v
    using assms(2) [OF that] by (auto elim!: tame_valE simp: raw_contract serialize_tame simp del: serialize.simps raw.simps)
  then obtain f where f: "\<And>v. v \<in> set vs \<Longrightarrow> raw v = JObj (f v)" "\<And>v. v \<in> set vs \<Longrightarrow> serialize v = JObj (scrub_members (f v))"
    by metis
  have "raw (VList vs) = JList (map (\<lambda>v. JObj (f v)) vs)" using f(1) by simp
  then have "scrub_member False k (raw (VList vs)) = JList (map (\<lambda>v. JObj (scrub_members (f v))) vs)"
    using assms(1) by (simp only: scrub_member_objs)
  then show ?thesis using f(2) by simp
qed

lemma scrub_member_val_list:
  assumes "plain_key k" "\<And>x. tame_val (f x)"
  shows "scrub_member False k (raw (VList (map f xs))) = JList (map (\<lambda>x. serialize (f x)) xs)"
  using scrub_member_contracts [OF assms(1), of "map f xs"] assms(2) by (auto simp: comp_def simp del: serialize.simps raw.simps)

lemma contract_nested:
  assumes "tame kind fs" "k \<noteq> ''schema_version''" "k \<noteq> ''kind''" "plain_key k"
    "map_of fs k = Some v" "tame_val v"
  shows "obj_get (json_canon (serialize (VContract kind fs))) k = Inr (json_canon (serialize v))"
    and "get_obj (json_canon (serialize (VContract kind fs))) k = Inr (json_canon (serialize v))"
proof -
  have "\<exists>kvs. json_canon (serialize v) = JObj kvs"
    using assms(6) by (auto elim!: tame_valE simp: serialize_tame simp del: serialize.simps)
  then show "obj_get (json_canon (serialize (VContract kind fs))) k = Inr (json_canon (serialize v))"
    and "get_obj (json_canon (serialize (VContract kind fs))) k = Inr (json_canon (serialize v))"
    using assms by (auto simp: get_obj_def contract_field scrub_member_contract simp del: serialize.simps)
qed

lemma contract_list:
  assumes "tame kind fs" "k \<noteq> ''schema_version''" "k \<noteq> ''kind''" "plain_key k"
    "map_of fs k = Some (VList (map f xs))" "\<And>x. tame_val (f x)"
  shows "get_list (json_canon (serialize (VContract kind fs))) k = Inr (map (\<lambda>x. json_canon (serialize (f x))) xs)"
proof -
  have "scrub_member False k (raw (VList (map f xs))) = JList (map serialize (map f xs))"
    using assms(4,6) by (intro scrub_member_contracts) auto
  then show ?thesis
    using assms by (simp add: get_list_def contract_field comp_def del: serialize.simps raw.simps)
qed

lemmas contract_reads = contract_str contract_int contract_bool contract_opt contract_strs contract_nested contract_list

section \<open>The codec interface\<close>

locale contract_codec =
  fixes valid :: "'a \<Rightarrow> bool" and val_of :: "'a \<Rightarrow> pyval" and dec :: "json \<Rightarrow> 'a res" and norm :: "'a \<Rightarrow> 'a"
  assumes wf: "json_wf (serialize (val_of x))"
    and dec_enc: "valid x \<Longrightarrow> dec (json_canon (serialize (val_of x))) = Inr (norm x)"
    and same_form: "valid x \<Longrightarrow> serialize (val_of (norm x)) = serialize (val_of x)"
begin

lemma loads_canonical: "loads (canonical_json (val_of x)) = Inr (json_canon (serialize (val_of x)))"
  using json_loads_dumps wf by (simp add: loads_def canonical_json_def)

lemma reads_back: "valid x \<Longrightarrow> bind_res (loads (canonical_json (val_of x))) dec = Inr (norm x)"
  by (simp add: loads_canonical dec_enc)

lemma canonical_json_norm: "valid x \<Longrightarrow> canonical_json (val_of (norm x)) = canonical_json (val_of x)"
  by (simp add: canonical_json_def same_form)

lemma canonical_digest_norm: "valid x \<Longrightarrow> canonical_digest (val_of (norm x)) = canonical_digest (val_of x)"
  by (simp add: canonical_digest_def canonical_json_norm)

end

lemma tame_wf: "tame kind fs \<Longrightarrow> json_wf (serialize (VContract kind fs))"
  by (simp add: json_wf_serialize raw_contract tame_def del: serialize.simps raw.simps)

lemma digest_without_cong: "serialize v = serialize w \<Longrightarrow> digest_without ks v = digest_without ks w"
  by (simp add: digest_without_def)

section \<open>Text fields\<close>

lemmas not_secret =
  slug_not_secret entity_id_not_secret operation_not_secret digest_not_secret utc_not_secret

lemma scrub_text_safe: "\<not> looks_like_secret_text s \<Longrightarrow> scrub_text s = s"
  by (simp add: scrub_text_def)

lemma scrub_text_no_colon [simp]: "CHR '':'' \<notin> set s \<Longrightarrow> scrub_text s = s"
  by (simp add: scrub_text_def not_secret_no_colon)

lemma scrub_slug: "is_slug s \<Longrightarrow> scrub_text s = s"
  and scrub_entity: "is_entity_id p s \<Longrightarrow> scrub_text s = s"
  and scrub_operation: "is_operation s \<Longrightarrow> scrub_text s = s"
  and scrub_utc: "is_utc s \<Longrightarrow> scrub_text s = s"
  by (simp_all add: scrub_text_def not_secret)

lemma is_text_scrub: "is_text n s \<Longrightarrow> 10 \<le> n \<Longrightarrow> is_text n (scrub_text s)"
  by (simp add: scrub_text_def is_text_def REDACTED_def printable_def)

lemma scrub_digests: "\<forall>s \<in> set ss. is_digest s \<Longrightarrow> map scrub_text ss = ss"
  and scrub_slugs: "\<forall>s \<in> set ss. is_slug s \<Longrightarrow> map scrub_text ss = ss"
  by (simp_all add: map_idI scrub_slug)

lemma scrub_opt:
  "\<forall>x. v = Some x \<longrightarrow> is_digest x \<Longrightarrow> map_option scrub_text v = v"
  "\<forall>x. v = Some x \<longrightarrow> is_entity_id p x \<Longrightarrow> map_option scrub_text v = v"
  by (cases v; simp add: scrub_text_def not_secret)+

lemmas scrub_intros =
  scrub_entity scrub_slug scrub_operation scrub_utc scrub_text_digest scrub_digests scrub_slugs scrub_opt

lemma opt_text_scrub:
  "\<forall>x. v = Some x \<longrightarrow> is_text n x \<Longrightarrow> 10 \<le> n \<Longrightarrow> \<forall>x. map_option scrub_text v = Some x \<longrightarrow> is_text n x"
  by (auto intro: is_text_scrub)

lemma os_no_colon [simp]: "CHR '':'' \<notin> set (os_value x)"
  by (cases x) simp_all

lemma wk_no_colon [simp]: "CHR '':'' \<notin> set (wk_value x)"
  by (cases x) simp_all

lemma rs_no_colon [simp]: "CHR '':'' \<notin> set (rs_value x)"
  by (cases x) simp_all

lemma ph_no_colon [simp]: "CHR '':'' \<notin> set (ph_value x)"
  by (cases x) simp_all

lemma ca_no_colon [simp]: "CHR '':'' \<notin> set (ca_value x)"
  by (cases x) simp_all

lemma ak_no_colon [simp]: "CHR '':'' \<notin> set (ak_value x)"
  by (cases x) simp_all

lemma cs_no_colon [simp]: "CHR '':'' \<notin> set (cs_value x)"
  by (cases x) simp_all

lemma vs_no_colon [simp]: "CHR '':'' \<notin> set (vs_value x)"
  by (cases x) simp_all

lemma co_no_colon [simp]: "CHR '':'' \<notin> set (co_value x)"
  by (cases x) simp_all

lemma ro_no_colon [simp]: "CHR '':'' \<notin> set (ro_value x)"
  by (cases x) simp_all

lemma re_no_colon [simp]: "CHR '':'' \<notin> set (re_value x)"
  by (cases x) simp_all

section \<open>Actors\<close>

lemma actor_tame: "actor_val a = VContract kind fs \<Longrightarrow> tame kind fs"
  by (auto simp: actor_val_def members_def intro!: tameI)

lemma actor_tame_val [simp]: "tame_val (actor_val a)"
  using actor_tame [OF actor_val_def] by (simp add: tame_val_def actor_val_def)

definition actor_norm :: "actor \<Rightarrow> actor" where
  "actor_norm a = \<lparr>
     ac_actor_id = ac_actor_id a, ac_source = scrub_text (ac_source a),
     ac_authenticated_by = scrub_text (ac_authenticated_by a)\<rparr>"

lemma actor_scrub:
  assumes "actor_check a = None"
  shows "scrub_text (ac_actor_id a) = ac_actor_id a"
  using assms by (auto simp: actor_check_def intro: scrub_intros)

interpretation actor_codec: contract_codec "\<lambda>a. actor_check a = None" actor_val actor_from_payload actor_norm
proof
  fix a
  note tame = actor_tame [OF actor_val_def]
  show "json_wf (serialize (actor_val a))"
    using tame_wf [OF tame] by (simp only: actor_val_def)
  assume valid: "actor_check a = None"
  show "serialize (actor_val (actor_norm a)) = serialize (actor_val a)"
    using tame [of a] tame [of "actor_norm a"]
    by (simp add: actor_val_def serialize_tame members_def actor_norm_def del: serialize.simps)
  have "actor_check (actor_norm a) = None"
    using valid by (auto simp: actor_check_def actor_norm_def is_text_scrub intro: opt_text_scrub)
  then show "actor_from_payload (json_canon (serialize (actor_val a))) = Inr (actor_norm a)"
    using tame [of a] actor_scrub [OF valid]
    by (simp add: actor_from_payload_def actor_val_def contract_reads actor_norm_def Let_def
      del: serialize.simps)
qed

section \<open>Events\<close>

lemma event_tame: "operation_event_val e = VContract kind fs \<Longrightarrow> tame kind fs"
  by (auto simp: operation_event_val_def members_def intro!: tameI)

lemma event_tame_val [simp]: "tame_val (operation_event_val e)"
  using event_tame [OF operation_event_val_def] by (simp add: tame_val_def operation_event_val_def)

definition event_norm :: "operation_event \<Rightarrow> operation_event" where
  "event_norm e = \<lparr>
     ev_event_id = ev_event_id e, ev_operation_id = ev_operation_id e,
     ev_sequence = ev_sequence e, ev_event_type = scrub_text (ev_event_type e),
     ev_occurred_at = ev_occurred_at e, ev_state = ev_state e, ev_host_id = ev_host_id e,
     ev_app = ev_app e, ev_environment = ev_environment e, ev_revision_id = ev_revision_id e,
     ev_message = map_option scrub_text (ev_message e),
     ev_evidence_digests = ev_evidence_digests e,
     ev_previous_event_digest = ev_previous_event_digest e\<rparr>"

lemma event_scrub:
  assumes "operation_event_check e = None"
  shows "scrub_text (ev_event_id e) = ev_event_id e"
    "scrub_text (ev_operation_id e) = ev_operation_id e"
    "scrub_text (ev_occurred_at e) = ev_occurred_at e"
    "scrub_text (ev_host_id e) = ev_host_id e"
    "scrub_text (ev_app e) = ev_app e"
    "scrub_text (ev_environment e) = ev_environment e"
    "map_option scrub_text (ev_revision_id e) = ev_revision_id e"
    "map_option scrub_text (ev_previous_event_digest e) = ev_previous_event_digest e"
    "map scrub_text (ev_evidence_digests e) = ev_evidence_digests e"
  using assms by (auto simp: operation_event_check_def intro: scrub_intros)

interpretation event_codec: contract_codec "\<lambda>e. operation_event_check e = None" operation_event_val event_from_payload event_norm
proof
  fix e
  note tame = event_tame [OF operation_event_val_def]
  show "json_wf (serialize (operation_event_val e))"
    using tame_wf [OF tame] by (simp only: operation_event_val_def)
  assume valid: "operation_event_check e = None"
  show "serialize (operation_event_val (event_norm e)) = serialize (operation_event_val e)"
    using tame [of e] tame [of "event_norm e"]
    by (simp add: operation_event_val_def serialize_tame members_def event_norm_def del: serialize.simps)
  have "operation_event_check (event_norm e) = None"
    using valid by (auto simp: operation_event_check_def event_norm_def is_text_scrub intro: opt_text_scrub)
  then show "event_from_payload (json_canon (serialize (operation_event_val e))) = Inr (event_norm e)"
    using tame [of e] event_scrub [OF valid]
    by (simp add: event_from_payload_def operation_event_val_def contract_reads event_norm_def Let_def os.enum_of_value
      del: serialize.simps)
qed

section \<open>Lifecycle entries\<close>

lemma lifecycle_tame: "revision_lifecycle_entry_val e = VContract kind fs \<Longrightarrow> tame kind fs"
  by (auto simp: revision_lifecycle_entry_val_def members_def intro!: tameI)

lemma lifecycle_tame_val [simp]: "tame_val (revision_lifecycle_entry_val e)"
  using lifecycle_tame [OF revision_lifecycle_entry_val_def] by (simp add: tame_val_def revision_lifecycle_entry_val_def)

definition lifecycle_norm :: "revision_lifecycle_entry \<Rightarrow> revision_lifecycle_entry" where
  "lifecycle_norm e = \<lparr>
     le_operation_id = le_operation_id e, le_sequence = le_sequence e,
     le_revision_id = le_revision_id e, le_revision_digest = le_revision_digest e,
     le_state = le_state e, le_occurred_at = le_occurred_at e\<rparr>"

lemma lifecycle_scrub:
  assumes "revision_lifecycle_entry_check e = None"
  shows "scrub_text (le_operation_id e) = le_operation_id e"
    "scrub_text (le_revision_id e) = le_revision_id e"
    "scrub_text (le_revision_digest e) = le_revision_digest e"
    "scrub_text (le_occurred_at e) = le_occurred_at e"
  using assms by (auto simp: revision_lifecycle_entry_check_def intro: scrub_intros)

interpretation lifecycle_codec: contract_codec "\<lambda>e. revision_lifecycle_entry_check e = None" revision_lifecycle_entry_val lifecycle_entry_from_payload lifecycle_norm
proof
  fix e
  note tame = lifecycle_tame [OF revision_lifecycle_entry_val_def]
  show "json_wf (serialize (revision_lifecycle_entry_val e))"
    using tame_wf [OF tame] by (simp only: revision_lifecycle_entry_val_def)
  assume valid: "revision_lifecycle_entry_check e = None"
  show "serialize (revision_lifecycle_entry_val (lifecycle_norm e)) = serialize (revision_lifecycle_entry_val e)"
    using tame [of e] tame [of "lifecycle_norm e"]
    by (simp add: revision_lifecycle_entry_val_def serialize_tame members_def lifecycle_norm_def del: serialize.simps)
  have "revision_lifecycle_entry_check (lifecycle_norm e) = None"
    using valid by (auto simp: revision_lifecycle_entry_check_def lifecycle_norm_def is_text_scrub intro: opt_text_scrub)
  then show "lifecycle_entry_from_payload (json_canon (serialize (revision_lifecycle_entry_val e))) = Inr (lifecycle_norm e)"
    using tame [of e] lifecycle_scrub [OF valid]
    by (simp add: lifecycle_entry_from_payload_def revision_lifecycle_entry_val_def contract_reads lifecycle_norm_def Let_def rs.enum_of_value
      del: serialize.simps)
qed

section \<open>Plan steps\<close>

lemma plan_step_tame: "plan_step_val s = VContract kind fs \<Longrightarrow> tame kind fs"
  by (auto simp: plan_step_val_def members_def intro!: tameI)

lemma plan_step_tame_val [simp]: "tame_val (plan_step_val s)"
  using plan_step_tame [OF plan_step_val_def] by (simp add: tame_val_def plan_step_val_def)

definition plan_step_norm :: "plan_step \<Rightarrow> plan_step" where
  "plan_step_norm s = \<lparr>
     ps_order = ps_order s, ps_phase = ps_phase s, ps_mutates_runtime = ps_mutates_runtime s,
     ps_desired_effect_digest = ps_desired_effect_digest s, ps_compensation = ps_compensation s\<rparr>"

lemma plan_step_scrub:
  assumes "plan_step_check s = None"
  shows "scrub_text (ps_desired_effect_digest s) = ps_desired_effect_digest s"
  using assms by (auto simp: plan_step_check_def intro: scrub_intros)

interpretation plan_step_codec: contract_codec "\<lambda>s. plan_step_check s = None" plan_step_val plan_step_from_payload plan_step_norm
proof
  fix s
  note tame = plan_step_tame [OF plan_step_val_def]
  show "json_wf (serialize (plan_step_val s))"
    using tame_wf [OF tame] by (simp only: plan_step_val_def)
  assume valid: "plan_step_check s = None"
  show "serialize (plan_step_val (plan_step_norm s)) = serialize (plan_step_val s)"
    using tame [of s] tame [of "plan_step_norm s"]
    by (simp add: plan_step_val_def serialize_tame members_def plan_step_norm_def del: serialize.simps)
  have "plan_step_check (plan_step_norm s) = None"
    using valid by (auto simp: plan_step_check_def plan_step_norm_def is_text_scrub intro: opt_text_scrub)
  then show "plan_step_from_payload (json_canon (serialize (plan_step_val s))) = Inr (plan_step_norm s)"
    using tame [of s] plan_step_scrub [OF valid]
    by (simp add: plan_step_from_payload_def plan_step_val_def contract_reads plan_step_norm_def Let_def ph.enum_of_value ca.enum_of_value
      del: serialize.simps)
qed

section \<open>Workloads\<close>

lemma workload_tame: "workload_val w = VContract kind fs \<Longrightarrow> tame kind fs"
  by (auto simp: workload_val_def members_def intro!: tameI)

lemma workload_tame_val [simp]: "tame_val (workload_val w)"
  using workload_tame [OF workload_val_def] by (simp add: tame_val_def workload_val_def)

definition workload_norm :: "workload \<Rightarrow> workload" where
  "workload_norm w = \<lparr>
     wl_workload_id = wl_workload_id w, wl_workload_kind = wl_workload_kind w,
     wl_artifact_digest = wl_artifact_digest w, wl_route_ids = wl_route_ids w,
     wl_overlap_safe = wl_overlap_safe w\<rparr>"

lemma workload_scrub:
  assumes "workload_check w = None"
  shows "scrub_text (wl_workload_id w) = wl_workload_id w"
    "scrub_text (wl_artifact_digest w) = wl_artifact_digest w"
    "map scrub_text (wl_route_ids w) = wl_route_ids w"
  using assms by (auto simp: workload_check_def intro: scrub_intros)

interpretation workload_codec: contract_codec "\<lambda>w. workload_check w = None" workload_val workload_from_payload workload_norm
proof
  fix w
  note tame = workload_tame [OF workload_val_def]
  show "json_wf (serialize (workload_val w))"
    using tame_wf [OF tame] by (simp only: workload_val_def)
  assume valid: "workload_check w = None"
  show "serialize (workload_val (workload_norm w)) = serialize (workload_val w)"
    using tame [of w] tame [of "workload_norm w"]
    by (simp add: workload_val_def serialize_tame members_def workload_norm_def del: serialize.simps)
  have "workload_check (workload_norm w) = None"
    using valid by (auto simp: workload_check_def workload_norm_def is_text_scrub intro: opt_text_scrub)
  then show "workload_from_payload (json_canon (serialize (workload_val w))) = Inr (workload_norm w)"
    using tame [of w] workload_scrub [OF valid]
    by (simp add: workload_from_payload_def workload_val_def contract_reads workload_norm_def Let_def wk.enum_of_value
      del: serialize.simps)
qed

section \<open>Approvals\<close>

lemma approval_tame: "approved_plan_ref_val a = VContract kind fs \<Longrightarrow> tame kind fs"
  by (auto simp: approved_plan_ref_val_def members_def intro!: tameI)

lemma approval_tame_val [simp]: "tame_val (approved_plan_ref_val a)"
  using approval_tame [OF approved_plan_ref_val_def] by (simp add: tame_val_def approved_plan_ref_val_def)

definition approval_norm :: "approved_plan_ref \<Rightarrow> approved_plan_ref" where
  "approval_norm a = \<lparr>
     ap_plan_id = ap_plan_id a, ap_plan_digest = ap_plan_digest a,
     ap_request_digest = ap_request_digest a, ap_manifest_digest = ap_manifest_digest a,
     ap_artifact_digests = ap_artifact_digests a,
     ap_observed_state_digest = ap_observed_state_digest a,
     ap_policy_digest = ap_policy_digest a, ap_host_id = ap_host_id a, ap_app = ap_app a,
     ap_environment = ap_environment a, ap_revision_id = ap_revision_id a,
     ap_revision_digest = ap_revision_digest a, ap_actor_id = ap_actor_id a,
     ap_decision_id = ap_decision_id a, ap_authorization_kind = ap_authorization_kind a,
     ap_issuer = scrub_text (ap_issuer a), ap_audience = ap_audience a,
     ap_approved_at = ap_approved_at a, ap_expires_at = ap_expires_at a,
     ap_nonce_digest = ap_nonce_digest a, ap_approval_digest = ap_approval_digest a\<rparr>"

lemma approval_scrub:
  assumes "approved_plan_ref_check a = None"
  shows "scrub_text (ap_plan_id a) = ap_plan_id a"
    "scrub_text (ap_plan_digest a) = ap_plan_digest a"
    "scrub_text (ap_request_digest a) = ap_request_digest a"
    "scrub_text (ap_manifest_digest a) = ap_manifest_digest a"
    "scrub_text (ap_observed_state_digest a) = ap_observed_state_digest a"
    "scrub_text (ap_policy_digest a) = ap_policy_digest a"
    "scrub_text (ap_host_id a) = ap_host_id a"
    "scrub_text (ap_app a) = ap_app a"
    "scrub_text (ap_environment a) = ap_environment a"
    "scrub_text (ap_revision_id a) = ap_revision_id a"
    "scrub_text (ap_revision_digest a) = ap_revision_digest a"
    "scrub_text (ap_actor_id a) = ap_actor_id a"
    "scrub_text (ap_decision_id a) = ap_decision_id a"
    "scrub_text (ap_audience a) = ap_audience a"
    "scrub_text (ap_approved_at a) = ap_approved_at a"
    "scrub_text (ap_expires_at a) = ap_expires_at a"
    "scrub_text (ap_nonce_digest a) = ap_nonce_digest a"
    "scrub_text (ap_approval_digest a) = ap_approval_digest a"
    "map scrub_text (ap_artifact_digests a) = ap_artifact_digests a"
  using assms by (auto simp: approved_plan_ref_check_def intro: scrub_intros)

interpretation approval_codec: contract_codec "\<lambda>a. approved_plan_ref_check a = None" approved_plan_ref_val approved_plan_from_payload approval_norm
proof
  fix a
  note tame = approval_tame [OF approved_plan_ref_val_def]
  show "json_wf (serialize (approved_plan_ref_val a))"
    using tame_wf [OF tame] by (simp only: approved_plan_ref_val_def)
  assume valid: "approved_plan_ref_check a = None"
  show "serialize (approved_plan_ref_val (approval_norm a)) = serialize (approved_plan_ref_val a)"
    using tame [of a] tame [of "approval_norm a"]
    by (simp add: approved_plan_ref_val_def serialize_tame members_def approval_norm_def del: serialize.simps)
  have "approved_plan_ref_check (approval_norm a) = None"
    using valid by (auto simp: approved_plan_ref_check_def approval_norm_def is_text_scrub intro: opt_text_scrub)
  then show "approved_plan_from_payload (json_canon (serialize (approved_plan_ref_val a))) = Inr (approval_norm a)"
    using tame [of a] approval_scrub [OF valid]
    by (simp add: approved_plan_from_payload_def approved_plan_ref_val_def contract_reads approval_norm_def Let_def ak.enum_of_value
      del: serialize.simps)
qed

lemma marker_root:
  "chr 92 \<notin> set REDACTED" "\<not> starts_with ''/'' REDACTED" "REDACTED \<noteq> []" "REDACTED \<noteq> ''.''"
  "REDACTED \<noteq> ''..''" "posix_parts REDACTED = [REDACTED]" "is_text 1024 REDACTED"
  by (simp_all add: REDACTED_def posix_parts_def chr_eq_iff is_text_def printable_def)

section \<open>Artifact references\<close>

lemma artifact_ref_tame: "revision_artifact_ref_val a = VContract kind fs \<Longrightarrow> tame kind fs"
  by (auto simp: revision_artifact_ref_val_def members_def intro!: tameI)

lemma artifact_ref_tame_val [simp]: "tame_val (revision_artifact_ref_val a)"
  using artifact_ref_tame [OF revision_artifact_ref_val_def] by (simp add: tame_val_def revision_artifact_ref_val_def)

definition artifact_ref_norm :: "revision_artifact_ref \<Rightarrow> revision_artifact_ref" where
  "artifact_ref_norm a = \<lparr>
     ra_revision_id = ra_revision_id a, ra_revision_digest = ra_revision_digest a,
     ra_relative_root = scrub_text (ra_relative_root a), ra_artifact_digest = ra_artifact_digest a\<rparr>"

lemma artifact_ref_scrub:
  assumes "revision_artifact_ref_check a = None"
  shows "scrub_text (ra_revision_id a) = ra_revision_id a"
    "scrub_text (ra_revision_digest a) = ra_revision_digest a"
    "scrub_text (ra_artifact_digest a) = ra_artifact_digest a"
  using assms by (auto simp: revision_artifact_ref_check_def intro: scrub_intros)

interpretation artifact_ref_codec: contract_codec "\<lambda>a. revision_artifact_ref_check a = None" revision_artifact_ref_val artifact_ref_from_payload artifact_ref_norm
proof
  fix a
  note tame = artifact_ref_tame [OF revision_artifact_ref_val_def]
  show "json_wf (serialize (revision_artifact_ref_val a))"
    using tame_wf [OF tame] by (simp only: revision_artifact_ref_val_def)
  assume valid: "revision_artifact_ref_check a = None"
  show "serialize (revision_artifact_ref_val (artifact_ref_norm a)) = serialize (revision_artifact_ref_val a)"
    using tame [of a] tame [of "artifact_ref_norm a"]
    by (simp add: revision_artifact_ref_val_def serialize_tame members_def artifact_ref_norm_def del: serialize.simps)
  have "revision_artifact_ref_check (artifact_ref_norm a) = None"
    using valid by (auto simp: revision_artifact_ref_check_def artifact_ref_norm_def is_text_scrub scrub_text_def marker_root intro: opt_text_scrub)
  then show "artifact_ref_from_payload (json_canon (serialize (revision_artifact_ref_val a))) = Inr (artifact_ref_norm a)"
    using tame [of a] artifact_ref_scrub [OF valid]
    by (simp add: artifact_ref_from_payload_def revision_artifact_ref_val_def contract_reads artifact_ref_norm_def Let_def
      del: serialize.simps)
qed

section \<open>Compensation results\<close>

lemma compensation_tame: "compensation_result_val c = VContract kind fs \<Longrightarrow> tame kind fs"
  by (auto simp: compensation_result_val_def members_def intro!: tameI)

lemma compensation_tame_val [simp]: "tame_val (compensation_result_val c)"
  using compensation_tame [OF compensation_result_val_def] by (simp add: tame_val_def compensation_result_val_def)

definition compensation_norm :: "compensation_result \<Rightarrow> compensation_result" where
  "compensation_norm c = \<lparr>
     cr_attempted = cr_attempted c, cr_status = cr_status c,
     cr_restored_revision_id = cr_restored_revision_id c,
     cr_restored_revision_digest = cr_restored_revision_digest c,
     cr_evidence_digests = cr_evidence_digests c\<rparr>"

lemma compensation_scrub:
  assumes "compensation_result_check c = None"
  shows "map_option scrub_text (cr_restored_revision_id c) = cr_restored_revision_id c"
    "map_option scrub_text (cr_restored_revision_digest c) = cr_restored_revision_digest c"
    "map scrub_text (cr_evidence_digests c) = cr_evidence_digests c"
  using assms by (auto simp: compensation_result_check_def intro: scrub_intros)

interpretation compensation_codec: contract_codec "\<lambda>c. compensation_result_check c = None" compensation_result_val compensation_result_from_payload compensation_norm
proof
  fix c
  note tame = compensation_tame [OF compensation_result_val_def]
  show "json_wf (serialize (compensation_result_val c))"
    using tame_wf [OF tame] by (simp only: compensation_result_val_def)
  assume valid: "compensation_result_check c = None"
  show "serialize (compensation_result_val (compensation_norm c)) = serialize (compensation_result_val c)"
    using tame [of c] tame [of "compensation_norm c"]
    by (simp add: compensation_result_val_def serialize_tame members_def compensation_norm_def del: serialize.simps)
  have "compensation_result_check (compensation_norm c) = None"
    using valid by (auto simp: compensation_result_check_def compensation_norm_def is_text_scrub intro: opt_text_scrub)
  then show "compensation_result_from_payload (json_canon (serialize (compensation_result_val c))) = Inr (compensation_norm c)"
    using tame [of c] compensation_scrub [OF valid]
    by (simp add: compensation_result_from_payload_def compensation_result_val_def contract_reads compensation_norm_def Let_def co.enum_of_value
      del: serialize.simps)
qed

section \<open>Revisions\<close>

lemma revision_tame: "revision_val r = VContract kind fs \<Longrightarrow> tame kind fs"
  by (auto simp: revision_val_def workload_val_def members_def intro!: tameI)

lemma revision_tame_val [simp]: "tame_val (revision_val r)"
  using revision_tame [OF revision_val_def] by (simp add: tame_val_def revision_val_def)

definition revision_norm :: "revision \<Rightarrow> revision" where
  "revision_norm r = \<lparr>
     rv_revision_id = rv_revision_id r, rv_app = rv_app r, rv_environment = rv_environment r,
     rv_manifest_digest = rv_manifest_digest r, rv_artifact_digests = rv_artifact_digests r,
     rv_renderer_version = scrub_text (rv_renderer_version r), rv_workloads = rv_workloads r,
     rv_created_at = rv_created_at r\<rparr>"

lemma revision_scrub:
  assumes "revision_check r = None"
  shows "scrub_text (rv_revision_id r) = rv_revision_id r"
    "scrub_text (rv_app r) = rv_app r"
    "scrub_text (rv_environment r) = rv_environment r"
    "scrub_text (rv_manifest_digest r) = rv_manifest_digest r"
    "scrub_text (rv_created_at r) = rv_created_at r"
    "map scrub_text (rv_artifact_digests r) = rv_artifact_digests r"
  using assms by (auto simp: revision_check_def intro: scrub_intros)

lemma workload_norm_id [simp]: "workload_norm w = w"
  by (simp add: workload_norm_def)

lemma workloads_read:
  "list_all (\<lambda>w. workload_check w = None) ws \<Longrightarrow>
   map_res workload_from_payload (map (\<lambda>w. json_canon (serialize (workload_val w))) ws) = Inr ws"
  using map_res_map [of ws workload_from_payload "\<lambda>w. json_canon (serialize (workload_val w))" "\<lambda>w. w"]
  by (simp add: workload_codec.dec_enc list_all_iff comp_def)

interpretation revision_codec: contract_codec revision_ok revision_val revision_from_payload revision_norm
proof
  fix r
  note tame = revision_tame [OF revision_val_def]
  show "json_wf (serialize (revision_val r))"
    using tame_wf [OF tame] by (simp only: revision_val_def)
  assume ok: "revision_ok r"
  then have valid: "revision_check r = None" and ws: "list_all (\<lambda>w. workload_check w = None) (rv_workloads r)"
    by (simp_all add: revision_ok_def)
  show "serialize (revision_val (revision_norm r)) = serialize (revision_val r)"
    using tame [of r] tame [of "revision_norm r"]
    by (simp add: revision_val_def serialize_tame members_def revision_norm_def del: serialize.simps)
  have "revision_check (revision_norm r) = None"
    using valid by (auto simp: revision_check_def revision_norm_def is_text_scrub)
  then show "revision_from_payload (json_canon (serialize (revision_val r))) = Inr (revision_norm r)"
    using tame [of r] revision_scrub [OF valid] workloads_read [OF ws]
    by (simp add: revision_from_payload_def revision_val_def contract_reads revision_norm_def Let_def
      del: serialize.simps)
qed

section \<open>Plans\<close>

lemma plan_tame: "operation_plan_val p = VContract kind fs \<Longrightarrow> tame kind fs"
  by (auto simp: operation_plan_val_def plan_step_val_def members_def intro!: tameI)

lemma plan_tame_val [simp]: "tame_val (operation_plan_val p)"
  using plan_tame [OF operation_plan_val_def] by (simp add: tame_val_def operation_plan_val_def)

definition plan_norm :: "operation_plan \<Rightarrow> operation_plan" where
  "plan_norm p = \<lparr>
     pl_plan_id = pl_plan_id p, pl_request_digest = pl_request_digest p,
     pl_operation = pl_operation p, pl_host_id = pl_host_id p, pl_app = pl_app p,
     pl_environment = pl_environment p, pl_revision_id = pl_revision_id p,
     pl_revision_digest = pl_revision_digest p, pl_manifest_digest = pl_manifest_digest p,
     pl_artifact_digests = pl_artifact_digests p,
     pl_observed_state_digest = pl_observed_state_digest p,
     pl_policy_digest = pl_policy_digest p, pl_steps = pl_steps p,
     pl_blocker_codes = pl_blocker_codes p, pl_created_at = pl_created_at p\<rparr>"

lemma plan_scrub:
  assumes "operation_plan_check p = None"
  shows "scrub_text (pl_plan_id p) = pl_plan_id p"
    "scrub_text (pl_request_digest p) = pl_request_digest p"
    "scrub_text (pl_operation p) = pl_operation p"
    "scrub_text (pl_host_id p) = pl_host_id p"
    "scrub_text (pl_app p) = pl_app p"
    "scrub_text (pl_environment p) = pl_environment p"
    "scrub_text (pl_revision_id p) = pl_revision_id p"
    "scrub_text (pl_revision_digest p) = pl_revision_digest p"
    "scrub_text (pl_manifest_digest p) = pl_manifest_digest p"
    "scrub_text (pl_observed_state_digest p) = pl_observed_state_digest p"
    "scrub_text (pl_policy_digest p) = pl_policy_digest p"
    "scrub_text (pl_created_at p) = pl_created_at p"
    "map scrub_text (pl_artifact_digests p) = pl_artifact_digests p"
  using assms by (auto simp: operation_plan_check_def intro: scrub_intros)

lemma plan_step_norm_id [simp]: "plan_step_norm s = s"
  by (simp add: plan_step_norm_def)

lemma plan_norm_id [simp]: "plan_norm p = p"
  by (simp add: plan_norm_def)

lemma steps_read:
  "list_all (\<lambda>s. plan_step_check s = None) ss \<Longrightarrow>
   map_res plan_step_from_payload (map (\<lambda>s. json_canon (serialize (plan_step_val s))) ss) = Inr ss"
  using map_res_map [of ss plan_step_from_payload "\<lambda>s. json_canon (serialize (plan_step_val s))" "\<lambda>s. s"]
  by (simp add: plan_step_codec.dec_enc list_all_iff comp_def)

text \<open>
  A plan is stored only inside the input of an approved operation, and an approved plan has no
  blocker codes.
\<close>

definition stored_plan_ok :: "operation_plan \<Rightarrow> bool" where
  "stored_plan_ok p \<longleftrightarrow> operation_plan_ok p \<and> approvable p"

interpretation plan_codec: contract_codec stored_plan_ok operation_plan_val operation_plan_from_payload plan_norm
proof
  fix p
  note tame = plan_tame [OF operation_plan_val_def]
  show "json_wf (serialize (operation_plan_val p))"
    using tame_wf [OF tame] by (simp only: operation_plan_val_def)
  show "serialize (operation_plan_val (plan_norm p)) = serialize (operation_plan_val p)" by simp
  assume ok: "stored_plan_ok p"
  then have valid: "operation_plan_check p = None" and ss: "list_all (\<lambda>s. plan_step_check s = None) (pl_steps p)"
    and codes: "pl_blocker_codes p = []"
    by (simp_all add: stored_plan_ok_def operation_plan_ok_def approvable_def)
  have "operation_plan_check (plan_norm p) = None" using valid by simp
  then show "operation_plan_from_payload (json_canon (serialize (operation_plan_val p))) = Inr (plan_norm p)"
    using tame [of p] plan_scrub [OF valid] steps_read [OF ss] codes
    by (simp add: operation_plan_from_payload_def operation_plan_val_def contract_reads plan_norm_def Let_def
      del: serialize.simps plan_norm_id)
qed

section \<open>Verification checks\<close>

lemma verification_check_tame: "verification_check_val c = VContract kind fs \<Longrightarrow> tame kind fs"
  by (auto simp: verification_check_val_def members_def intro!: tameI)

lemma verification_check_tame_val [simp]: "tame_val (verification_check_val c)"
  using verification_check_tame [OF verification_check_val_def] by (simp add: tame_val_def verification_check_val_def)

definition verification_check_norm :: "verification_check \<Rightarrow> verification_check" where
  "verification_check_norm c = \<lparr>
     vc_name = scrub_text (vc_name c), vc_status = vc_status c,
     vc_observed_digest = vc_observed_digest c, vc_summary = map_option scrub_text (vc_summary c)\<rparr>"

lemma verification_check_scrub:
  assumes "verification_check_check c = None"
  shows "map_option scrub_text (vc_observed_digest c) = vc_observed_digest c"
  using assms by (auto simp: verification_check_check_def intro: scrub_intros)

interpretation verification_check_codec: contract_codec "\<lambda>c. verification_check_check c = None" verification_check_val verification_check_from_payload verification_check_norm
proof
  fix c
  note tame = verification_check_tame [OF verification_check_val_def]
  show "json_wf (serialize (verification_check_val c))"
    using tame_wf [OF tame] by (simp only: verification_check_val_def)
  assume valid: "verification_check_check c = None"
  show "serialize (verification_check_val (verification_check_norm c)) = serialize (verification_check_val c)"
    using tame [of c] tame [of "verification_check_norm c"]
    by (simp add: verification_check_val_def serialize_tame members_def verification_check_norm_def del: serialize.simps)
  have "verification_check_check (verification_check_norm c) = None"
    using valid by (auto simp: verification_check_check_def verification_check_norm_def is_text_scrub intro: opt_text_scrub)
  then show "verification_check_from_payload (json_canon (serialize (verification_check_val c))) = Inr (verification_check_norm c)"
    using tame [of c] verification_check_scrub [OF valid]
    by (simp add: verification_check_from_payload_def verification_check_val_def contract_reads verification_check_norm_def Let_def cs.enum_of_value
      del: serialize.simps)
qed

section \<open>Verification results\<close>

lemma verification_tame: "verification_result_val v = VContract kind fs \<Longrightarrow> tame kind fs"
  by (auto simp: verification_result_val_def verification_check_val_def members_def intro!: tameI)

lemma verification_tame_val [simp]: "tame_val (verification_result_val v)"
  using verification_tame [OF verification_result_val_def] by (simp add: tame_val_def verification_result_val_def)

definition verification_norm :: "verification_result \<Rightarrow> verification_result" where
  "verification_norm v = \<lparr>
     vr_status = vr_status v, vr_observed_revision_digest = vr_observed_revision_digest v,
     vr_observed_state_digest = vr_observed_state_digest v, vr_observed_at = vr_observed_at v,
     vr_checks = map verification_check_norm (vr_checks v)\<rparr>"

lemma verification_scrub:
  assumes "verification_result_check v = None"
  shows "scrub_text (vr_observed_at v) = vr_observed_at v"
    "map_option scrub_text (vr_observed_revision_digest v) = vr_observed_revision_digest v"
    "map_option scrub_text (vr_observed_state_digest v) = vr_observed_state_digest v"
  using assms by (auto simp: verification_result_check_def intro: scrub_intros)

definition stored_verification_ok :: "verification_result \<Rightarrow> bool" where
  "stored_verification_ok v \<longleftrightarrow>
     verification_result_ok v \<and> reject_verification_summary_prose (vr_checks v) = None"

lemma checks_read:
  "list_all (\<lambda>c. verification_check_check c = None) cs \<Longrightarrow>
   map_res verification_check_from_payload (map (\<lambda>c. json_canon (serialize (verification_check_val c))) cs) =
     Inr (map verification_check_norm cs)"
  using map_res_map [of cs verification_check_from_payload "\<lambda>c. json_canon (serialize (verification_check_val c))" verification_check_norm]
  by (simp add: verification_check_codec.dec_enc list_all_iff comp_def)

interpretation verification_codec:
  contract_codec stored_verification_ok verification_result_val verification_result_from_payload verification_norm
proof
  fix v
  note tame = verification_tame [OF verification_result_val_def]
  show "json_wf (serialize (verification_result_val v))"
    using tame_wf [OF tame] by (simp only: verification_result_val_def)
  assume ok: "stored_verification_ok v"
  then have valid: "verification_result_check v = None"
    and cs: "list_all (\<lambda>c. verification_check_check c = None) (vr_checks v)"
    and prose: "list_all (\<lambda>c. vc_summary c = None) (vr_checks v)"
    by (simp_all add: stored_verification_ok_def verification_result_ok_def reject_verification_summary_prose_def)
  have same: "\<forall>c \<in> set (vr_checks v). serialize (verification_check_val (verification_check_norm c)) =
      serialize (verification_check_val c)"
    using cs verification_check_codec.same_form by (simp add: list_all_iff)
  show "serialize (verification_result_val (verification_norm v)) = serialize (verification_result_val v)"
    using tame [of v] tame [of "verification_norm v"] same scrub_member_val_list [of "''checks''" "\<lambda>c. verification_check_val (verification_check_norm c)"]
    by (simp add: verification_result_val_def serialize_tame members_def verification_norm_def scrub_member_val_list comp_def
      del: serialize.simps raw.simps(3))
  have "verification_result_check (verification_norm v) = None"
    using valid by (auto simp: verification_result_check_def verification_norm_def verification_check_norm_def list_all_iff)
  moreover have "reject_verification_summary_prose (map verification_check_norm (vr_checks v)) = None"
    using prose by (auto simp: reject_verification_summary_prose_def verification_check_norm_def list_all_iff)
  ultimately show "verification_result_from_payload (json_canon (serialize (verification_result_val v))) = Inr (verification_norm v)"
    using tame [of v] verification_scrub [OF valid] checks_read [OF cs]
    by (simp add: verification_result_from_payload_def verification_result_val_def contract_reads verification_norm_def
      Let_def vs.enum_of_value del: serialize.simps)
qed

section \<open>Receipts\<close>

lemma receipt_tame: "terminal_receipt_val r = VContract kind fs \<Longrightarrow> tame kind fs"
  by (auto simp: terminal_receipt_val_def verification_result_val_def verification_check_val_def compensation_result_val_def members_def intro!: tameI)

lemma receipt_tame_val [simp]: "tame_val (terminal_receipt_val r)"
  using receipt_tame [OF terminal_receipt_val_def] by (simp add: tame_val_def terminal_receipt_val_def)

definition receipt_norm :: "terminal_receipt \<Rightarrow> terminal_receipt" where
  "receipt_norm r = \<lparr>
     rc_receipt_id = rc_receipt_id r, rc_operation_id = rc_operation_id r,
     rc_operation = rc_operation r, rc_plan_id = rc_plan_id r, rc_plan_digest = rc_plan_digest r,
     rc_decision_id = rc_decision_id r, rc_host_id = rc_host_id r, rc_app = rc_app r,
     rc_environment = rc_environment r, rc_previous_revision_id = rc_previous_revision_id r,
     rc_desired_revision_id = rc_desired_revision_id r,
     rc_desired_revision_digest = rc_desired_revision_digest r,
     rc_active_revision_id = rc_active_revision_id r,
     rc_active_revision_digest = rc_active_revision_digest r,
     rc_artifact_digests = rc_artifact_digests r,
     rc_verification = verification_norm (rc_verification r),
     rc_compensation = rc_compensation r, rc_effect = rc_effect r, rc_outcome = rc_outcome r,
     rc_started_at = rc_started_at r, rc_completed_at = rc_completed_at r,
     rc_inputs_redacted = rc_inputs_redacted r\<rparr>"

lemma receipt_scrub:
  assumes "terminal_receipt_check r = None"
  shows "scrub_text (rc_receipt_id r) = rc_receipt_id r"
    "scrub_text (rc_operation_id r) = rc_operation_id r"
    "scrub_text (rc_operation r) = rc_operation r"
    "scrub_text (rc_plan_id r) = rc_plan_id r"
    "scrub_text (rc_plan_digest r) = rc_plan_digest r"
    "scrub_text (rc_decision_id r) = rc_decision_id r"
    "scrub_text (rc_host_id r) = rc_host_id r"
    "scrub_text (rc_app r) = rc_app r"
    "scrub_text (rc_environment r) = rc_environment r"
    "scrub_text (rc_desired_revision_id r) = rc_desired_revision_id r"
    "scrub_text (rc_desired_revision_digest r) = rc_desired_revision_digest r"
    "scrub_text (rc_started_at r) = rc_started_at r"
    "scrub_text (rc_completed_at r) = rc_completed_at r"
    "map_option scrub_text (rc_previous_revision_id r) = rc_previous_revision_id r"
    "map_option scrub_text (rc_active_revision_id r) = rc_active_revision_id r"
    "map_option scrub_text (rc_active_revision_digest r) = rc_active_revision_digest r"
    "map scrub_text (rc_artifact_digests r) = rc_artifact_digests r"
  using assms by (auto simp: terminal_receipt_check_def intro: scrub_intros)

lemma compensation_norm_id [simp]: "compensation_norm c = c"
  by (simp add: compensation_norm_def)

definition stored_receipt_ok :: "terminal_receipt \<Rightarrow> bool" where
  "stored_receipt_ok r \<longleftrightarrow>
     terminal_receipt_check r = None \<and> stored_verification_ok (rc_verification r) \<and>
     compensation_result_check (rc_compensation r) = None"

lemma verification_norm_simps [simp]:
  "vr_status (verification_norm v) = vr_status v"
  "vr_observed_revision_digest (verification_norm v) = vr_observed_revision_digest v"
  by (simp_all add: verification_norm_def)

interpretation receipt_codec: contract_codec stored_receipt_ok terminal_receipt_val receipt_from_payload receipt_norm
proof
  fix r
  note tame = receipt_tame [OF terminal_receipt_val_def]
  show "json_wf (serialize (terminal_receipt_val r))"
    using tame_wf [OF tame] by (simp only: terminal_receipt_val_def)
  assume ok: "stored_receipt_ok r"
  then have valid: "terminal_receipt_check r = None" and v: "stored_verification_ok (rc_verification r)"
    and c: "compensation_result_check (rc_compensation r) = None"
    by (simp_all add: stored_receipt_ok_def)
  show "serialize (terminal_receipt_val (receipt_norm r)) = serialize (terminal_receipt_val r)"
    using tame [of r] tame [of "receipt_norm r"] verification_codec.same_form [OF v]
    by (simp add: terminal_receipt_val_def serialize_tame members_def receipt_norm_def
      scrub_member_contract [OF _ verification_tame_val] del: serialize.simps)
  have "terminal_receipt_check (receipt_norm r) = None"
    using valid by (auto simp: terminal_receipt_check_def receipt_norm_def receipt_success_check_def receipt_compensated_check_def split: if_splits)
  then show "receipt_from_payload (json_canon (serialize (terminal_receipt_val r))) = Inr (receipt_norm r)"
    using tame [of r] receipt_scrub [OF valid] verification_codec.dec_enc [OF v] compensation_codec.dec_enc [OF c]
    by (simp add: receipt_from_payload_def terminal_receipt_val_def contract_reads receipt_norm_def
      Let_def re.enum_of_value ro.enum_of_value del: serialize.simps)
qed

section \<open>Execution inputs\<close>

lemma input_tame: "execution_input_val i = VContract kind fs \<Longrightarrow> tame kind fs"
  by (auto simp: execution_input_val_def operation_plan_val_def plan_step_val_def approved_plan_ref_val_def revision_val_def workload_val_def revision_artifact_ref_val_def members_def intro!: tameI)

lemma input_tame_val [simp]: "tame_val (execution_input_val i)"
  using input_tame [OF execution_input_val_def] by (simp add: tame_val_def execution_input_val_def)

definition input_norm :: "execution_input \<Rightarrow> execution_input" where
  "input_norm i = \<lparr>
     ei_plan = ei_plan i, ei_approved_plan = approval_norm (ei_approved_plan i),
     ei_revision = revision_norm (ei_revision i),
     ei_artifact_ref = artifact_ref_norm (ei_artifact_ref i), ei_deadline = ei_deadline i,
     ei_input_digest = ei_input_digest i\<rparr>"

lemma digests_norm:
  "approved_plan_ref_check a = None \<Longrightarrow> approval_binding_digest (approval_norm a) = approval_binding_digest a"
  "revision_ok r \<Longrightarrow> content_digest (revision_norm r) = content_digest r"
  by (simp_all add: approval_binding_digest_def content_digest_def digest_without_cong
      [OF approval_codec.same_form] digest_without_cong [OF revision_codec.same_form])

lemma digest_without_is_digest [simp]: "is_digest (digest_without ks v)"
  by (simp add: digest_without_def split: json.splits)

lemma binding_digests [simp]:
  "is_digest (input_binding_digest i)" "is_digest (approval_binding_digest a)" "is_digest (content_digest r)"
  "is_digest (plan_digest p)" "is_digest (intent_digest q)"
  by (simp_all add: input_binding_digest_def approval_binding_digest_def content_digest_def plan_digest_def intent_digest_def)

lemma matches_norm:
  "approved_plan_ref_check a = None \<Longrightarrow> matches (approval_norm a) p = matches a p"
  by (simp add: matches_def digests_norm) (simp add: approval_norm_def)

interpretation input_codec: contract_codec execution_input_ok execution_input_val execution_input_from_payload input_norm
proof
  fix i
  note tame = input_tame [OF execution_input_val_def]
  show "json_wf (serialize (execution_input_val i))"
    using tame_wf [OF tame] by (simp only: execution_input_val_def)
  assume ok: "execution_input_ok i"
  then have valid: "execution_input_check i = None" and a: "approved_plan_ref_check (ei_approved_plan i) = None"
    and r: "revision_ok (ei_revision i)" and t: "revision_artifact_ref_check (ei_artifact_ref i) = None"
    by (simp_all add: execution_input_ok_def)
  have p: "stored_plan_ok (ei_plan i)"
    using ok by (auto simp: execution_input_ok_def stored_plan_ok_def execution_input_check_def matches_def)
  have scrub: "scrub_text (ei_deadline i) = ei_deadline i" "scrub_text (ei_input_digest i) = ei_input_digest i"
    using valid by (auto simp: execution_input_check_def intro: scrub_intros)
  show same: "serialize (execution_input_val (input_norm i)) = serialize (execution_input_val i)"
    using tame [of i] tame [of "input_norm i"] approval_codec.same_form [OF a] revision_codec.same_form [OF r]
      artifact_ref_codec.same_form [OF t]
    by (simp add: execution_input_val_def serialize_tame members_def input_norm_def
      scrub_member_contract [OF _ approval_tame_val] scrub_member_contract [OF _ revision_tame_val]
      scrub_member_contract [OF _ artifact_ref_tame_val] del: serialize.simps)
  have "input_binding_digest (input_norm i) = input_binding_digest i"
    by (simp add: input_binding_digest_def digest_without_cong [OF same])
  moreover have "input_reconciles (input_norm i) = input_reconciles i"
    by (simp add: input_reconciles_def input_norm_def digests_norm(2) [OF r] Let_def)
       (simp add: revision_norm_def artifact_ref_norm_def)
  ultimately have "execution_input_check (input_norm i) = None"
    using valid by (simp add: execution_input_check_def) (simp add: input_norm_def matches_norm [OF a])
  then show "execution_input_from_payload (json_canon (serialize (execution_input_val i))) = Inr (input_norm i)"
    using tame [of i] scrub plan_codec.dec_enc [OF p] approval_codec.dec_enc [OF a] revision_codec.dec_enc [OF r]
      artifact_ref_codec.dec_enc [OF t]
    by (simp add: execution_input_from_payload_def execution_input_val_def contract_reads input_norm_def
      Let_def del: serialize.simps)
qed

end
