(* ===== verification/Digests.thy ===== *)
theory Digests
  imports Contract_Codec
begin

text \<open>
  The digests of the contracts that leave out some of their fields: the canonical text each of them
  hashes, and that a change of a left-out field does not change the digest.
\<close>

section \<open>Digests that leave out fields\<close>

text \<open>The canonical text of a contract without some fields.\<close>

definition text_without :: "string list \<Rightarrow> pyval \<Rightarrow> string" where
  "text_without ks v = (case v of
      VContract kind fs \<Rightarrow> json_dumps (JObj (scrub_members (filter (\<lambda>p. fst p \<notin> set ks) (members kind fs))))
    | _ \<Rightarrow> [])"

lemma digest_without_text: "tame_val v \<Longrightarrow> digest_without ks v = digest_text (text_without ks v)"
  by (auto elim!: tame_valE simp: text_without_def digest_without_tame simp del: serialize.simps)

lemma request_tame: "tame_val (operation_request_val r)"
proof -
  have "operation_request_val r = VContract kind fs \<Longrightarrow> tame kind fs" for kind fs
    by (auto simp: operation_request_val_def members_def intro!: tameI)
  from this [OF operation_request_val_def] show ?thesis
    by (simp add: tame_val_def operation_request_val_def)
qed

text \<open>Each digest ignores the fields it leaves out.\<close>

lemma intent_digest_update:
  "intent_digest (r\<lparr>rq_request_id := i, rq_idempotency_key := k\<rparr>) = intent_digest r"
  unfolding intent_digest_def digest_without_text [OF request_tame]
  by (simp add: operation_request_val_def text_without_def members_def)

lemma approval_binding_digest_update:
  "approval_binding_digest (a\<lparr>ap_approval_digest := d\<rparr>) = approval_binding_digest a"
  unfolding approval_binding_digest_def digest_without_text [OF approval_tame_val]
  by (simp add: approved_plan_ref_val_def text_without_def members_def)

lemma content_digest_update:
  "content_digest (r\<lparr>rv_revision_id := i, rv_created_at := t\<rparr>) = content_digest r"
  unfolding content_digest_def digest_without_text [OF revision_tame_val]
  by (simp add: revision_val_def text_without_def members_def)

lemma plan_digest_update:
  "plan_digest (p\<lparr>pl_plan_id := i, pl_created_at := t\<rparr>) = plan_digest p"
  unfolding plan_digest_def digest_without_text [OF plan_tame_val]
  by (simp add: operation_plan_val_def text_without_def members_def)

lemma input_binding_digest_update:
  "input_binding_digest (i\<lparr>ei_input_digest := d\<rparr>) = input_binding_digest i"
  unfolding input_binding_digest_def digest_without_text [OF input_tame_val]
  by (simp add: execution_input_val_def text_without_def members_def)

end
