(* ===== verification/Samples.thy ===== *)
theory Samples
  imports Digests
begin

text \<open>
  One consistent set of contracts: an actor, a revision with one web workload, the request to deploy
  it, its plan, the approval of that plan, the execution input and the receipts of a success and of a
  compensated failure. They show that the hypotheses of the properties can be met together.
\<close>

definition sample_actor :: actor where
  "sample_actor = \<lparr>ac_actor_id = ''actor_a'', ac_source = ''cli'', ac_authenticated_by = ''local''\<rparr>"

definition sample_workload :: workload where
  "sample_workload = \<lparr>wl_workload_id = ''web'', wl_workload_kind = WK_WEB, wl_artifact_digest = zero_digest,
     wl_route_ids = [''main''], wl_overlap_safe = False\<rparr>"

definition sample_revision :: revision where
  "sample_revision = \<lparr>rv_revision_id = ''rev_a'', rv_app = ''demo'', rv_environment = ''prod'',
     rv_manifest_digest = zero_digest, rv_artifact_digests = [zero_digest], rv_renderer_version = ''v1'',
     rv_workloads = [sample_workload], rv_created_at = ''2026-01-01T00:00:00Z''\<rparr>"

definition sample_request :: operation_request where
  "sample_request = \<lparr>rq_request_id = ''request_a'', rq_operation = ''deploy.apply'', rq_host_id = ''host_a'',
     rq_app = ''demo'', rq_environment = ''prod'', rq_revision_id = ''rev_a'',
     rq_revision_digest = content_digest sample_revision, rq_idempotency_key = ''key''\<rparr>"

text \<open>The complete activation pipeline of the executor, with the effects it expects.\<close>

definition sample_effect :: "plan_phase \<Rightarrow> string" where
  "sample_effect phase = canonical_digest (VMap [(''phase'', VStr (ph_value phase)),
     (''revision_digest'', VStr (content_digest sample_revision)), (''artifact_digest'', VStr zero_digest)])"

definition sample_step :: "int \<Rightarrow> plan_phase \<Rightarrow> bool \<Rightarrow> compensation_action \<Rightarrow> plan_step" where
  "sample_step order phase mutates compensation = \<lparr>ps_order = order, ps_phase = phase, ps_mutates_runtime = mutates,
     ps_desired_effect_digest = sample_effect phase, ps_compensation = compensation\<rparr>"

definition sample_steps :: "plan_step list" where
  "sample_steps =
     [sample_step 1 PH_STAGE False CA_NONE, sample_step 2 PH_PREFLIGHT False CA_NONE,
      sample_step 3 PH_START_CANDIDATE True CA_DELETE_CANDIDATE, sample_step 4 PH_READINESS_VERIFY False CA_NONE,
      sample_step 5 PH_SWITCH_TRAFFIC True CA_RESTORE_TRAFFIC, sample_step 6 PH_EXTERNAL_VERIFY False CA_NONE,
      sample_step 7 PH_DRAIN_PREVIOUS True CA_PRESERVE_PREVIOUS, sample_step 8 PH_COMMIT True CA_RECOVER_FROM_JOURNAL,
      sample_step 9 PH_EMIT_RECEIPT True CA_RECOVER_FROM_JOURNAL]"

definition sample_plan :: operation_plan where
  "sample_plan = \<lparr>pl_plan_id = ''plan_a'', pl_request_digest = intent_digest sample_request,
     pl_operation = ''deploy.apply'', pl_host_id = ''host_a'', pl_app = ''demo'', pl_environment = ''prod'',
     pl_revision_id = ''rev_a'', pl_revision_digest = content_digest sample_revision,
     pl_manifest_digest = zero_digest, pl_artifact_digests = [zero_digest],
     pl_observed_state_digest = zero_digest, pl_policy_digest = zero_digest,
     pl_steps = sample_steps,
     pl_blocker_codes = [], pl_created_at = ''2026-01-01T00:00:00Z''\<rparr>"

definition sample_unbound_approval :: approved_plan_ref where
  "sample_unbound_approval = \<lparr>ap_plan_id = ''plan_a'', ap_plan_digest = plan_digest sample_plan,
     ap_request_digest = intent_digest sample_request, ap_manifest_digest = zero_digest,
     ap_artifact_digests = [zero_digest], ap_observed_state_digest = zero_digest,
     ap_policy_digest = zero_digest, ap_host_id = ''host_a'', ap_app = ''demo'', ap_environment = ''prod'',
     ap_revision_id = ''rev_a'', ap_revision_digest = content_digest sample_revision,
     ap_actor_id = ''actor_a'', ap_decision_id = ''decision_a'', ap_authorization_kind = AK_LOCAL_OPERATOR,
     ap_issuer = ''operator'', ap_audience = ''host_a'', ap_approved_at = ''2026-01-01T00:00:00Z'',
     ap_expires_at = ''2026-01-02T00:00:00Z'', ap_nonce_digest = digest_text ''nonce'',
     ap_approval_digest = zero_digest\<rparr>"

definition sample_approval :: approved_plan_ref where
  "sample_approval = sample_unbound_approval\<lparr>ap_approval_digest := approval_binding_digest sample_unbound_approval\<rparr>"

definition sample_artifact :: revision_artifact_ref where
  "sample_artifact = \<lparr>ra_revision_id = ''rev_a'', ra_revision_digest = content_digest sample_revision,
     ra_relative_root = ''staging/a/candidate'', ra_artifact_digest = zero_digest\<rparr>"

definition sample_unbound_input :: execution_input where
  "sample_unbound_input = \<lparr>ei_plan = sample_plan, ei_approved_plan = sample_approval, ei_revision = sample_revision,
     ei_artifact_ref = sample_artifact, ei_deadline = ''2026-01-01T12:00:00Z'', ei_input_digest = zero_digest\<rparr>"

definition sample_input :: execution_input where
  "sample_input = sample_unbound_input\<lparr>ei_input_digest := input_binding_digest sample_unbound_input\<rparr>"

definition sample_verification :: verification_result where
  "sample_verification = \<lparr>vr_status = VS_PASSED, vr_observed_revision_digest = Some (content_digest sample_revision),
     vr_observed_state_digest = Some zero_digest, vr_observed_at = ''2026-01-01T00:00:00Z'',
     vr_checks = [\<lparr>vc_name = ''ready'', vc_status = CS_PASSED, vc_observed_digest = None, vc_summary = None\<rparr>]\<rparr>"

definition sample_receipt :: "string \<Rightarrow> terminal_receipt" where
  "sample_receipt operation_id = \<lparr>rc_receipt_id = ''receipt_a'', rc_operation_id = operation_id,
     rc_operation = ''deploy.apply'', rc_plan_id = ''plan_a'', rc_plan_digest = plan_digest sample_plan,
     rc_decision_id = ''decision_a'', rc_host_id = ''host_a'', rc_app = ''demo'', rc_environment = ''prod'',
     rc_previous_revision_id = None, rc_desired_revision_id = ''rev_a'',
     rc_desired_revision_digest = content_digest sample_revision, rc_active_revision_id = Some ''rev_a'',
     rc_active_revision_digest = Some (content_digest sample_revision), rc_artifact_digests = [zero_digest],
     rc_verification = sample_verification,
     rc_compensation = \<lparr>cr_attempted = False, cr_status = CO_NOT_NEEDED, cr_restored_revision_id = None,
       cr_restored_revision_digest = None, cr_evidence_digests = []\<rparr>,
     rc_effect = RE_RUNTIME_ACTIVATED, rc_outcome = RO_SUCCEEDED, rc_started_at = ''2026-01-01T00:00:00Z'',
     rc_completed_at = ''2026-01-01T00:00:00Z'', rc_inputs_redacted = True\<rparr>"

definition sample_failed_receipt :: "string \<Rightarrow> terminal_receipt" where
  "sample_failed_receipt operation_id = (sample_receipt operation_id)\<lparr>
     rc_active_revision_id := None, rc_active_revision_digest := None,
     rc_verification := sample_verification\<lparr>vr_status := VS_FAILED\<rparr>,
     rc_compensation := \<lparr>cr_attempted = True, cr_status = CO_SUCCEEDED, cr_restored_revision_id = None,
       cr_restored_revision_digest = None, cr_evidence_digests = []\<rparr>,
     rc_effect := RE_NONE, rc_outcome := RO_FAILED_COMPENSATED\<rparr>"

lemma sample_words [simp]:
  "is_entity_id ''actor'' ''actor_a''" "is_entity_id ''rev'' ''rev_a''" "is_entity_id ''request'' ''request_a''"
  "is_entity_id ''host'' ''host_a''" "is_entity_id ''plan'' ''plan_a''" "is_entity_id ''decision'' ''decision_a''"
  "is_entity_id ''receipt'' ''receipt_a''" "is_entity_id ''rev'' ''rev_pending''"
  "is_slug ''demo''" "is_slug ''prod''" "is_slug ''web''" "is_slug ''main''" "is_operation ''deploy.apply''"
  "is_text 128 ''cli''" "is_text 128 ''local''" "is_text 128 ''v1''" "is_text 255 ''key''" "is_text 255 ''operator''"
  "is_text 255 ''host_a''" "is_text 1024 ''staging/a/candidate''" "is_text 128 ''ready''" "is_text 1024 ''nonce''"
  "is_digest zero_digest"
  by code_simp+

text \<open>Evaluation of rendered instants; a rendered instant is a valid timestamp.\<close>

lemma dec_char_digits:
  "dec_char 0 = CHR ''0''" "dec_char (Suc 0) = CHR ''1''" "dec_char 2 = CHR ''2''" "dec_char (Suc (Suc 0)) = CHR ''2''" "dec_char 3 = CHR ''3''" "dec_char 4 = CHR ''4''"
  "dec_char 5 = CHR ''5''" "dec_char 6 = CHR ''6''" "dec_char 7 = CHR ''7''" "dec_char 8 = CHR ''8''" "dec_char 9 = CHR ''9''"
  by code_simp+

lemma months: "[Suc 0..<13] = [1, 2, 3, 4, 5, 6, 7, 8, 9, 10, 11, 12]"
  by (simp add: upt_rec)

lemma pads:
  "pad 2 n = [dec_char (n div 10 mod 10), dec_char (n mod 10)]"
  "pad 4 n = [dec_char (n div 1000 mod 10), dec_char (n div 100 mod 10), dec_char (n div 10 mod 10), dec_char (n mod 10)]"
proof -
  have two: "2 = Suc (Suc 0)" and four: "4 = Suc (Suc (Suc (Suc 0)))" by simp_all
  have d: "n div 10 div 10 = n div 100" "n div 100 div 10 = n div 1000"
    by (simp_all only: div_mult2_eq [symmetric]) simp_all
  show "pad 2 n = [dec_char (n div 10 mod 10), dec_char (n mod 10)]"
    unfolding two pad.simps by (simp only: append.simps)
  show "pad 4 n = [dec_char (n div 1000 mod 10), dec_char (n div 100 mod 10), dec_char (n div 10 mod 10), dec_char (n mod 10)]"
    unfolding four pad.simps d by (simp only: append.simps)
qed

lemma sample_instants:
  "utc_text 1767225600000000 = Some ''2026-01-01T00:00:00Z''"
  "utc_text 1767268800000000 = Some ''2026-01-01T12:00:00Z''"
  "utc_text 1767312000000000 = Some ''2026-01-02T00:00:00Z''"
  by (simp_all add: utc_text_def ord2ymd_def months days_in_month_def pads dec_char_digits)

lemmas sample_times [simp] =
  sample_instants [THEN is_utc_rendered(1)] sample_instants [THEN is_utc_rendered(2)]

lemma sample_root: "posix_parts ''staging/a/candidate'' = [''staging'', ''a'', ''candidate'']" "chr 92 \<notin> set ''staging/a/candidate''"
  by code_simp+

lemma sample_plan_fields [simp]:
  "pl_plan_id sample_plan = ''plan_a''" "pl_request_digest sample_plan = intent_digest sample_request"
  "pl_operation sample_plan = ''deploy.apply''" "pl_host_id sample_plan = ''host_a''" "pl_app sample_plan = ''demo''"
  "pl_environment sample_plan = ''prod''" "pl_revision_id sample_plan = ''rev_a''"
  "pl_revision_digest sample_plan = content_digest sample_revision" "pl_manifest_digest sample_plan = zero_digest"
  "pl_artifact_digests sample_plan = [zero_digest]" "pl_observed_state_digest sample_plan = zero_digest"
  "pl_policy_digest sample_plan = zero_digest" "pl_blocker_codes sample_plan = []"
  by (simp_all add: sample_plan_def)

lemma sample_request_ok: "operation_request_check sample_request = None"
  by (simp add: operation_request_check_def sample_request_def)

lemma sample_actor_ok: "actor_check sample_actor = None"
  by (simp add: actor_check_def sample_actor_def)

lemma sample_steps_ok: "list_all (\<lambda>s. plan_step_check s = None) sample_steps" "map ps_order sample_steps = map int [1..<length sample_steps + 1]"
  by (simp_all add: sample_steps_def sample_step_def plan_step_check_def sample_effect_def upt_rec)

lemma sample_plan_ok: "operation_plan_ok sample_plan"
  using sample_steps_ok
  by (simp add: operation_plan_ok_def operation_plan_check_def) (simp add: sample_plan_def sample_steps_def)

lemma sample_revision_ok: "revision_ok sample_revision"
  by (simp add: revision_ok_def revision_check_def workload_check_def sample_revision_def sample_workload_def sorted_set_def receives_traffic_def)

lemma sample_artifact_ok: "revision_artifact_ref_check sample_artifact = None"
  using sample_root by (simp add: revision_artifact_ref_check_def sample_artifact_def)

lemma sample_approval_binding: "approval_binding_digest sample_approval = ap_approval_digest sample_approval"
  by (simp add: sample_approval_def approval_binding_digest_update)

lemma sample_approval_ok: "approved_plan_ref_check sample_approval = None"
  by (simp add: approved_plan_ref_check_def sample_approval_def sample_unbound_approval_def)

lemma sample_unbound_approval_ok: "approved_plan_ref_check sample_unbound_approval = None"
  by (simp add: approved_plan_ref_check_def sample_unbound_approval_def)

lemma sample_operation_id: "is_entity_id ''operation'' ''operation_a''"
  by code_simp

text \<open>A prefix, an underscore and up to 127 characters form an identifier.\<close>

lemma lang_seqI: "u \<in> lang r \<Longrightarrow> v \<in> lang t \<Longrightarrow> u @ v \<in> lang (RSeq r t)"
  by auto

lemma entity_idI:
  assumes "is_lower l" "\<forall>c \<in> set ls. is_lower_alnum c" "is_alnum c" "length cs \<le> 126" "\<forall>c \<in> set cs. id_char c"
  shows "is_entity_id (l # ls) ((l # ls) @ ''_'' @ c # cs)"
proof -
  have "[l] @ ls @ ''_'' @ [c] @ cs \<in> lang ENTITY_ID_PATTERN"
    unfolding ENTITY_ID_PATTERN_def using assms by (intro lang_seqI) (simp_all add: id_char_def star_class)
  then show ?thesis by (simp add: is_entity_id_def fullmatch_iff starts_with_iff)
qed

lemma digest_entity_id:
  assumes "is_digest d"
  shows "is_entity_id ''rev'' (''rev_'' @ take 24 (drop 7 d))"
proof -
  obtain h where d: "d = ''sha256:'' @ h" and len: "length h = 64" and hex: "\<forall>c \<in> set h. is_hex_lower c"
    using assms by (auto simp: is_digest_iff)
  obtain c cs where h: "take 24 h = c # cs" using len by (cases "take 24 h") auto
  have "\<forall>x \<in> set (c # cs). is_hex_lower x" using hex h by (metis in_set_takeD)
  then have chars: "is_alnum c" "\<forall>x \<in> set cs. id_char x"
    by (auto simp: is_hex_lower_def is_alnum_def is_lower_def id_char_def is_digit_def)
  have "length (take 24 h) = 24" using len by simp
  then have "length cs \<le> 126" using h by simp
  with chars have "is_entity_id ''rev'' (''rev'' @ ''_'' @ c # cs)"
    by (intro entity_idI) (simp_all add: is_lower_def is_lower_alnum_def code_def is_digit_def)
  then show ?thesis by (simp add: d h)
qed

lemma sample_revision_create:
  assumes "is_utc t"
  shows "\<exists>r. revision_create ''demo'' ''prod'' zero_digest [zero_digest] ''v1'' [sample_workload] t = Inr r"
  using assms digest_entity_id
  by (simp add: revision_create_def Let_def bind_res_Inr revision_check_def sample_workload_def sorted_set_def)

lemma sample_matches: "matches sample_approval sample_plan"
  by (simp add: matches_def sample_approval_binding approvable_def)
     (simp add: sample_approval_def sample_unbound_approval_def)

lemma sample_input_ok: "execution_input_ok sample_input"
proof -
  have "input_binding_digest sample_input = ei_input_digest sample_input"
    by (simp add: sample_input_def input_binding_digest_update)
  moreover have "input_reconciles sample_input"
    by (simp add: input_reconciles_def sample_input_def sample_unbound_input_def sample_artifact_def)
       (simp add: sample_revision_def)
  ultimately have "execution_input_check sample_input = None"
    using sample_matches by (simp add: execution_input_check_def)
      (simp add: sample_input_def sample_unbound_input_def)
  then show ?thesis
    using sample_plan_ok sample_approval_ok sample_revision_ok sample_artifact_ok
    by (simp add: execution_input_ok_def sample_input_def sample_unbound_input_def)
qed

lemma sample_verification_ok: "verification_result_ok sample_verification"
  by (simp add: verification_result_ok_def verification_result_check_def verification_check_check_def sample_verification_def)

lemma sample_receipt_ok:
  assumes "is_entity_id ''operation'' operation_id"
  shows "terminal_receipt_ok (sample_receipt operation_id)"
  using assms sample_verification_ok
  by (simp add: terminal_receipt_ok_def terminal_receipt_check_def receipt_success_check_def allowed_effect_def
      compensation_result_check_def sample_receipt_def) (simp add: sample_verification_def)

lemma sample_failed_receipt_ok:
  assumes "is_entity_id ''operation'' operation_id"
  shows "terminal_receipt_ok (sample_failed_receipt operation_id)"
  using assms sample_verification_ok
  by (simp add: terminal_receipt_ok_def terminal_receipt_check_def receipt_compensated_check_def
      compensation_result_check_def sample_failed_receipt_def sample_receipt_def verification_result_ok_def
      verification_result_check_def)

end
