(* ===== verification/Domain_Facts.thy ===== *)
theory Domain_Facts
  imports Samples
begin

text \<open>
  What the kernel contracts guarantee once they have been constructed: a success receipt is
  truthful, an approval binds exactly one plan and survives verification, an execution input can be
  bound exactly when its parts reconcile, and a revision's identity depends on its content only.
\<close>

section \<open>Receipts are truthful\<close>

text \<open>
  C27. A success receipt that passed construction reports the effect of its operation, a passed
  verification whose every check passed, and the desired revision as the active and the observed
  one; its compensation did not fail and its inputs are redacted.
\<close>

theorem success_receipt_truthful:
  assumes "terminal_receipt_ok r" and "rc_outcome r = RO_SUCCEEDED"
  shows "allowed_effect (rc_operation r) = Some (rc_effect r) \<and>
    vr_status (rc_verification r) = VS_PASSED \<and>
    list_all (\<lambda>c. vc_status c = CS_PASSED) (vr_checks (rc_verification r)) \<and>
    rc_active_revision_id r = Some (rc_desired_revision_id r) \<and>
    rc_active_revision_digest r = Some (rc_desired_revision_digest r) \<and>
    vr_observed_revision_digest (rc_verification r) = Some (rc_desired_revision_digest r) \<and>
    vr_observed_state_digest (rc_verification r) \<noteq> None \<and>
    cr_status (rc_compensation r) \<noteq> CO_FAILED \<and> rc_inputs_redacted r"
  using assms
  by (auto simp: terminal_receipt_ok_def terminal_receipt_check_def receipt_success_check_def
      verification_result_ok_def verification_result_check_def)

theorem success_receipt_truthful_witness:
  "allowed_effect (rc_operation (sample_receipt ''operation_a'')) = Some (rc_effect (sample_receipt ''operation_a'')) \<and>
   vr_status (rc_verification (sample_receipt ''operation_a'')) = VS_PASSED"
  using success_receipt_truthful [OF sample_receipt_ok [OF sample_operation_id]] by (simp add: sample_receipt_def)

section \<open>Approvals\<close>

text \<open>
  C29. Binding an approval succeeds only for a plan without blockers; the approval then matches that
  plan, verifies the nonce it was given and is itself a valid contract addressed to the planned host.
\<close>

theorem bind_matches:
  assumes "approved_plan_ref_bind plan actor_id decision_id kind issuer audience approved_at expires_at nonce = Inr a"
  shows "approvable plan \<and> matches a plan \<and> verifies_nonce a nonce \<and> approved_plan_ref_check a = None \<and>
    ap_audience a = pl_host_id plan \<and> \<not> expired a (utc_us (ap_approved_at a))"
proof -
  let ?p = "\<lparr>ap_plan_id = pl_plan_id plan, ap_plan_digest = plan_digest plan,
      ap_request_digest = pl_request_digest plan, ap_manifest_digest = pl_manifest_digest plan,
      ap_artifact_digests = pl_artifact_digests plan, ap_observed_state_digest = pl_observed_state_digest plan,
      ap_policy_digest = pl_policy_digest plan, ap_host_id = pl_host_id plan, ap_app = pl_app plan,
      ap_environment = pl_environment plan, ap_revision_id = pl_revision_id plan,
      ap_revision_digest = pl_revision_digest plan, ap_actor_id = actor_id, ap_decision_id = decision_id,
      ap_authorization_kind = kind, ap_issuer = issuer, ap_audience = audience,
      ap_approved_at = approved_at, ap_expires_at = expires_at, ap_nonce_digest = digest_text nonce,
      ap_approval_digest = zero_digest\<rparr>"
  have a: "a = ?p\<lparr>ap_approval_digest := approval_binding_digest ?p\<rparr>"
    and plan: "approvable plan" and ok: "approved_plan_ref_check a = None"
    using assms unfolding approved_plan_ref_bind_def Let_def bind_res_Inr guarded_Inr by auto
  have "approval_binding_digest a = approval_binding_digest ?p"
    unfolding a by (rule approval_binding_digest_update)
  then have "matches a plan" using plan by (simp add: matches_def) (simp add: a)
  moreover have "verifies_nonce a nonce" by (simp add: a verifies_nonce_def)
  moreover have "ap_host_id a = pl_host_id plan" by (simp add: a)
  ultimately show ?thesis
    using plan ok by (auto simp: approved_plan_ref_check_def expired_def)
qed

theorem bind_matches_witness:
  "approved_plan_ref_bind sample_plan ''actor_a'' ''decision_a'' AK_LOCAL_OPERATOR ''operator'' ''host_a''
     ''2026-01-01T00:00:00Z'' ''2026-01-02T00:00:00Z'' ''nonce'' = Inr sample_approval \<and>
   matches sample_approval sample_plan \<and> verifies_nonce sample_approval ''nonce''"
proof -
  have "approved_plan_ref_bind sample_plan ''actor_a'' ''decision_a'' AK_LOCAL_OPERATOR ''operator'' ''host_a''
     ''2026-01-01T00:00:00Z'' ''2026-01-02T00:00:00Z'' ''nonce'' = Inr sample_approval"
    using sample_approval_ok sample_unbound_approval_ok
    by (simp add: approved_plan_ref_bind_def Let_def sample_approval_def approvable_def bind_res_Inr flip: sample_unbound_approval_def)
  with bind_matches show ?thesis by blast
qed

lemma map_JStr_inject: "map JStr xs = map JStr ys \<longleftrightarrow> xs = ys"
  by (simp add: inj_map_eq_map inj_def)

lemma map_canon_JStr: "map json_canon (map JStr xs) = map JStr xs"
  by simp

lemma json_canon_JObj_inject:
  assumes "map fst kvs = map fst lvs" "distinct (map fst kvs)" "json_canon (JObj kvs) = json_canon (JObj lvs)"
  shows "map (\<lambda>p. json_canon (snd p)) kvs = map (\<lambda>p. json_canon (snd p)) lvs"
proof -
  have len: "length kvs = length lvs" using arg_cong [OF assms(1), of length] by simp
  have d: "distinct (map fst lvs)" using assms(1,2) by simp
  have "map_option json_canon (map_of kvs k) = map_option json_canon (map_of lvs k)" for k
    using assms(3) map_of_canon [OF assms(2), of k] map_of_canon [OF d, of k] by simp
  then have "map_option json_canon (map_of kvs (fst (kvs ! n))) = map_option json_canon (map_of lvs (fst (lvs ! n)))"
    if "n < length kvs" for n
    using assms(1) len that by (metis nth_map)
  moreover have "map_of kvs (fst (kvs ! n)) = Some (snd (kvs ! n))" "map_of lvs (fst (lvs ! n)) = Some (snd (lvs ! n))"
    if "n < length kvs" for n
    using assms(2) d len that by (simp_all add: map_of_eq_Some_iff)
  ultimately show ?thesis using len by (intro nth_equalityI) auto
qed

lemma text_without_inject:
  assumes tame: "tame kind fs" "tame kind gs" and keys: "map fst fs = map fst gs"
    and eq: "text_without ks (VContract kind fs) = text_without ks (VContract kind gs)"
  shows "map (\<lambda>p. json_canon (snd p)) (scrub_members (filter (\<lambda>p. fst p \<notin> set ks) (members kind fs))) =
    map (\<lambda>p. json_canon (snd p)) (scrub_members (filter (\<lambda>p. fst p \<notin> set ks) (members kind gs)))"
proof -
  let ?m = "\<lambda>fs. scrub_members (filter (\<lambda>p. fst p \<notin> set ks) (members kind fs))"
  have wf: "json_wf (JObj (?m hs))" if "tame kind hs" for hs
  proof -
    have "json_wf (JObj (filter (\<lambda>p. fst p \<notin> set ks) (members kind hs)))"
      using that by (auto simp: tame_def distinct_map_filter)
    then show ?thesis using json_wf_scrub [of _ False None] by (metis scrub_JObj scrub_members_def)
  qed
  have "map fst (filter (\<lambda>p. P (fst p)) xs) = filter P (map fst xs)" for P :: "string \<Rightarrow> bool" and xs :: "(string \<times> json) list"
    by (simp add: filter_map comp_def)
  then have k: "map fst (?m hs) = filter (\<lambda>k. k \<notin> set ks) (''schema_version'' # ''kind'' # map fst hs)" for hs
    by (simp add: scrub_members_def members_def comp_def filter_map)
  have "json_canon (JObj (?m fs)) = json_canon (JObj (?m gs))"
    using eq json_dumps_inject [OF wf [OF tame(1)] wf [OF tame(2)]] by (simp only: text_without_def pyval.case)
  then show ?thesis
    using json_canon_JObj_inject [of "?m fs" "?m gs"] k [of fs] k [of gs] keys wf [OF tame(1)] by simp
qed

text \<open>
  C30. The approval digest binds the claims of the approval up to redaction: if two valid approvals
  have the same binding digest and SHA-256 does not collide on their two binding texts, they agree
  on every field but the stored digest once their issuers are redacted, and on every field but the
  stored digest when neither issuer looks like a credential. Issuers that do are not told apart.
\<close>

theorem approval_digest_binds:
  assumes "approved_plan_ref_check a = None" "approved_plan_ref_check b = None"
    and "approval_binding_digest a = approval_binding_digest b"
    and collision_free: "sha256_hex (text_without [''approval_digest''] (approved_plan_ref_val a)) =
        sha256_hex (text_without [''approval_digest''] (approved_plan_ref_val b)) \<Longrightarrow>
      text_without [''approval_digest''] (approved_plan_ref_val a) =
        text_without [''approval_digest''] (approved_plan_ref_val b)"
  shows "a\<lparr>ap_approval_digest := zero_digest, ap_issuer := scrub_text (ap_issuer a)\<rparr> =
      b\<lparr>ap_approval_digest := zero_digest, ap_issuer := scrub_text (ap_issuer b)\<rparr> \<and>
    (\<not> looks_like_secret_text (ap_issuer a) \<and> \<not> looks_like_secret_text (ap_issuer b) \<longrightarrow>
      a\<lparr>ap_approval_digest := zero_digest\<rparr> = b\<lparr>ap_approval_digest := zero_digest\<rparr>)"
proof -
  have "text_without [''approval_digest''] (approved_plan_ref_val a) = text_without [''approval_digest''] (approved_plan_ref_val b)"
    using assms(3) collision_free
    by (simp add: approval_binding_digest_def digest_without_text [OF approval_tame_val] digest_text_def)
  then have fields: "map (\<lambda>p. json_canon (snd p)) (scrub_members (filter (\<lambda>p. fst p \<notin> set [''approval_digest'']) (members k fs))) =
      map (\<lambda>p. json_canon (snd p)) (scrub_members (filter (\<lambda>p. fst p \<notin> set [''approval_digest'']) (members k gs)))"
    if "approved_plan_ref_val a = VContract k fs" "approved_plan_ref_val b = VContract k gs" "map fst fs = map fst gs" for k fs gs
    using text_without_inject [OF approval_tame [OF that(1)] approval_tame [OF that(2)] that(3)] that
    by (simp only:)
  note fields [OF approved_plan_ref_val_def approved_plan_ref_val_def]
  then have same: "approval_norm (a\<lparr>ap_approval_digest := zero_digest\<rparr>) = approval_norm (b\<lparr>ap_approval_digest := zero_digest\<rparr>)"
    using approval_scrub [OF assms(1)] approval_scrub [OF assms(2)]
    by (simp add: members_def approval_norm_def ak.value_inj map_JStr_inject map_canon_JStr del: map_map)
  have norm: "approval_norm c = c\<lparr>ap_issuer := scrub_text (ap_issuer c)\<rparr>" for c by (simp add: approval_norm_def)
  have plain: "\<not> looks_like_secret_text t \<Longrightarrow> scrub_text t = t" for t by (simp add: scrub_text_def)
  have equal: "a\<lparr>ap_approval_digest := zero_digest, ap_issuer := scrub_text (ap_issuer a)\<rparr> =
      b\<lparr>ap_approval_digest := zero_digest, ap_issuer := scrub_text (ap_issuer b)\<rparr>"
    using same by (simp add: norm)
  have kept: "c\<lparr>ap_approval_digest := zero_digest, ap_issuer := ap_issuer c\<rparr> = c\<lparr>ap_approval_digest := zero_digest\<rparr>"
    for c :: approved_plan_ref by simp
  show ?thesis
    using equal kept [of a] kept [of b] plain [of "ap_issuer a"] plain [of "ap_issuer b"] by metis
qed

theorem approval_digest_binds_witness:
  "approval_binding_digest sample_approval = approval_binding_digest sample_unbound_approval \<and>
   \<not> looks_like_secret_text (ap_issuer sample_approval) \<and>
   sample_approval\<lparr>ap_approval_digest := zero_digest\<rparr> = sample_unbound_approval\<lparr>ap_approval_digest := zero_digest\<rparr>"
proof -
  have digest: "approval_binding_digest sample_approval = approval_binding_digest sample_unbound_approval"
    by (simp add: sample_approval_def approval_binding_digest_update)
  have texts: "text_without [''approval_digest''] (approved_plan_ref_val sample_approval) =
      text_without [''approval_digest''] (approved_plan_ref_val sample_unbound_approval)"
    by (simp add: sample_approval_def approved_plan_ref_val_def text_without_def members_def)
  have "\<not> looks_like_secret_text ''operator''" by code_simp
  then have plain: "\<not> looks_like_secret_text (ap_issuer sample_approval)" "\<not> looks_like_secret_text (ap_issuer sample_unbound_approval)"
    by (simp_all add: sample_approval_def sample_unbound_approval_def)
  show ?thesis
    using approval_digest_binds [OF sample_approval_ok sample_unbound_approval_ok digest texts] digest plain by blast
qed

section \<open>Execution inputs\<close>

lemma input_digest_for_binding:
  "input_digest_for (ei_plan i) (ei_approved_plan i) (ei_revision i) (ei_artifact_ref i) (ei_deadline i) =
   input_binding_digest i"
proof -
  let ?m = "[(''schema_version'', JInt 1), (''kind'', JStr ''ophelia.kernel.execution_input''),
    (''plan'', raw (operation_plan_val (ei_plan i))), (''approved_plan'', raw (approved_plan_ref_val (ei_approved_plan i))),
    (''revision'', raw (revision_val (ei_revision i))), (''artifact_ref'', raw (revision_artifact_ref_val (ei_artifact_ref i))),
    (''deadline'', JStr (ei_deadline i))]"
  let ?v = "VMap [(''schema_version'', VInt 1), (''kind'', VStr ''ophelia.kernel.execution_input''),
    (''plan'', operation_plan_val (ei_plan i)), (''approved_plan'', approved_plan_ref_val (ei_approved_plan i)),
    (''revision'', revision_val (ei_revision i)), (''artifact_ref'', revision_artifact_ref_val (ei_artifact_ref i)),
    (''deadline'', VStr (ei_deadline i))]"
  have filt: "filter (\<lambda>p. fst p \<notin> set [''input_digest''])
      (members ''ophelia.kernel.execution_input''
        [(''plan'', operation_plan_val (ei_plan i)), (''approved_plan'', approved_plan_ref_val (ei_approved_plan i)),
         (''revision'', revision_val (ei_revision i)), (''artifact_ref'', revision_artifact_ref_val (ei_artifact_ref i)),
         (''deadline'', VStr (ei_deadline i)), (''input_digest'', VStr (ei_input_digest i))]) = ?m"
    by (simp add: members_def)
  note tame = input_tame [OF execution_input_val_def, of i]
  have raw: "raw ?v = JObj ?m"
    by (simp add: plain_keyD)
  have "json_wf (JObj ?m)" "command_free None (JObj ?m)"
    using tame unfolding tame_def filt [symmetric] by (auto simp: distinct_map_filter)
  then have "serialize ?v = scrub False None (JObj ?m)"
    using serialize_map raw by metis
  also have "\<dots> = JObj (scrub_members ?m)" by (simp only: scrub_JObj scrub_members_def)
  finally have "canonical_json ?v = json_dumps (JObj (scrub_members ?m))" by (simp only: canonical_json_def)
  then show ?thesis
    unfolding input_digest_for_def input_binding_digest_def digest_without_text [OF input_tame_val]
    by (simp only: canonical_digest_def execution_input_val_def text_without_def pyval.case filt)
qed

text \<open>
  C31. An execution input can be bound exactly when the request binds the plan, the approval matches
  it, revision and artifact reconcile with it and the deadline is a timestamp: the digest computed
  ahead of construction is always the one construction verifies.
\<close>

theorem execution_input_bind_iff:
  "(\<exists>i. execution_input_bind request plan approved_plan revision artifact_ref deadline = Inr i) \<longleftrightarrow>
     request_binds_plan request plan \<and> matches approved_plan plan \<and> is_utc deadline \<and>
     input_reconciles \<lparr>ei_plan = plan, ei_approved_plan = approved_plan, ei_revision = revision,
       ei_artifact_ref = artifact_ref, ei_deadline = deadline, ei_input_digest = []\<rparr>"
proof -
  let ?i = "\<lparr>ei_plan = plan, ei_approved_plan = approved_plan, ei_revision = revision,
    ei_artifact_ref = artifact_ref, ei_deadline = deadline,
    ei_input_digest = input_digest_for plan approved_plan revision artifact_ref deadline\<rparr>"
  have "input_digest_for plan approved_plan revision artifact_ref deadline = input_binding_digest ?i"
    using input_digest_for_binding [of ?i] by simp
  moreover have "is_digest (input_digest_for plan approved_plan revision artifact_ref deadline)"
    by (simp add: input_digest_for_def)
  ultimately show ?thesis
    by (auto simp: execution_input_bind_def execution_input_check_def input_reconciles_def Let_def)
qed

section \<open>Revisions\<close>

text \<open>
  C32. A created revision is valid, its identifier is derived from its content digest, and creating
  the same content at another time gives the same identifier and digest.
\<close>

theorem revision_create_content_addressed:
  assumes "revision_create app env manifest artifacts renderer workloads t1 = Inr r1"
    and "revision_create app env manifest artifacts renderer workloads t2 = Inr r2"
  shows "revision_check r1 = None \<and> rv_revision_id r1 = ''rev_'' @ take 24 (drop 7 (content_digest r1)) \<and>
    content_digest r1 = content_digest r2 \<and> rv_revision_id r1 = rv_revision_id r2"
proof -
  have "revision_create app env manifest artifacts renderer workloads t = Inr r \<Longrightarrow>
      revision_check r = None \<and> rv_revision_id r = ''rev_'' @ take 24 (drop 7 (content_digest r)) \<and>
      content_digest r = content_digest \<lparr>rv_revision_id = ''rev_pending'', rv_app = app, rv_environment = env,
            rv_manifest_digest = manifest, rv_artifact_digests = artifacts,
            rv_renderer_version = renderer, rv_workloads = workloads, rv_created_at = []\<rparr>" for t r
  proof -
    let ?p = "\<lambda>t. \<lparr>rv_revision_id = ''rev_pending'', rv_app = app, rv_environment = env,
            rv_manifest_digest = manifest, rv_artifact_digests = artifacts,
            rv_renderer_version = renderer, rv_workloads = workloads, rv_created_at = t\<rparr>"
    assume "revision_create app env manifest artifacts renderer workloads t = Inr r"
    then have r: "r = (?p t)\<lparr>rv_revision_id := ''rev_'' @ take 24 (drop 7 (content_digest (?p t)))\<rparr>"
      and ok: "revision_check r = None"
      unfolding revision_create_def Let_def bind_res_Inr guarded_Inr by auto
    have "content_digest r = content_digest (?p [])" "content_digest (?p t) = content_digest (?p [])"
      using content_digest_update [where r = "?p []" and i = "rv_revision_id r" and t = t]
        content_digest_update [where r = "?p []" and i = "''rev_pending''" and t = t]
      by (simp_all add: r)
    with ok show ?thesis by (simp add: r)
  qed
  from this [OF assms(1)] this [OF assms(2)] show ?thesis by simp
qed

theorem revision_create_content_addressed_witness:
  "\<exists>r1 r2. revision_create ''demo'' ''prod'' zero_digest [zero_digest] ''v1'' [sample_workload] ''2026-01-01T00:00:00Z'' = Inr r1 \<and>
     revision_create ''demo'' ''prod'' zero_digest [zero_digest] ''v1'' [sample_workload] ''2026-01-02T00:00:00Z'' = Inr r2 \<and>
     rv_revision_id r1 = rv_revision_id r2"
proof -
  obtain r1 r2 where
    "revision_create ''demo'' ''prod'' zero_digest [zero_digest] ''v1'' [sample_workload] ''2026-01-01T00:00:00Z'' = Inr r1"
    "revision_create ''demo'' ''prod'' zero_digest [zero_digest] ''v1'' [sample_workload] ''2026-01-02T00:00:00Z'' = Inr r2"
    using sample_revision_create [of "''2026-01-01T00:00:00Z''"] sample_revision_create [of "''2026-01-02T00:00:00Z''"]
    by (simp only: sample_times) blast
  with revision_create_content_addressed show ?thesis by blast
qed

section \<open>Artifact roots\<close>

lemma join_dots:
  "2 \<le> n \<Longrightarrow> join ''/'' (replicate n ''.'') = ''./'' @ join ''/'' (replicate (n - 1) ''.'')"
  by (cases n; cases "n - 1") auto

lemma split_dots: "1 \<le> n \<Longrightarrow> split_on CHR ''/'' (join ''/'' (replicate n ''.'')) = replicate n ''.''"
proof (induction n)
  case (Suc n)
  then show ?case by (cases n) simp_all
qed simp

lemma dots_chars: "set (join ''/'' (replicate n ''.'')) \<subseteq> {CHR ''.'', CHR ''/''}" "length (join ''/'' (replicate n ''.'')) = 2 * n - 1"
proof (induction n)
  case (Suc n)
  case 1
  then show ?case using Suc by (cases n) auto
  case 2
  then show ?case using Suc by (cases n) auto
qed simp_all

text \<open>
  C37. A relative artifact root may denote the staging root itself although \<^verbatim>\<open>.\<close> is refused: every
  path of two or more single-dot components and at most 1024 characters is accepted, and its parts
  are empty.
\<close>

theorem artifact_root_dot_accepted:
  assumes "is_entity_id ''rev'' revision_id" and "is_digest revision_digest" and "is_digest artifact_digest"
    and "2 \<le> n" and "n \<le> 512"
  shows "posix_parts (join ''/'' (replicate n ''.'')) = [] \<and>
    revision_artifact_ref_check \<lparr>ra_revision_id = revision_id, ra_revision_digest = revision_digest,
      ra_relative_root = join ''/'' (replicate n ''.''), ra_artifact_digest = artifact_digest\<rparr> = None \<and>
    revision_artifact_ref_check \<lparr>ra_revision_id = revision_id, ra_revision_digest = revision_digest,
      ra_relative_root = ''.'', ra_artifact_digest = artifact_digest\<rparr> \<noteq> None"
proof -
  let ?root = "join ''/'' (replicate n ''.'')"
  have parts: "posix_parts ?root = []" using split_dots [of n] assms(4) by (simp add: posix_parts_def)
  have root: "?root = ''./'' @ join ''/'' (replicate (n - 1) ''.'')" using join_dots assms(4) by blast
  have fits: "is_text 1024 ?root"
    using dots_chars [of n] assms(5) root by (auto simp: is_text_def list_all_iff printable_def)
  have slash: "chr 92 \<notin> set ?root" using dots_chars(1) [of n] by (auto simp: chr_eq_iff)
  show ?thesis
    using assms(1-3) parts fits slash root by (simp add: revision_artifact_ref_check_def)
qed

theorem artifact_root_dot_accepted_witness:
  "revision_artifact_ref_check \<lparr>ra_revision_id = ''rev_a'', ra_revision_digest = zero_digest,
     ra_relative_root = ''./.'', ra_artifact_digest = zero_digest\<rparr> = None"
  using artifact_root_dot_accepted [OF sample_words(2) sample_words(23) sample_words(23), of 2] by (simp add: numeral_2_eq_2)

end
