(* ===== verification/Schema.thy ===== *)
theory Schema
  imports Contract_Codec
begin

text \<open>
  The tables of \<^verbatim>\<open>src/ophelia/execution/migrations.py\<close>, one row type per table and one
  list per table in the database, with the statements the journal executes on them. Primary keys,
  unique columns, foreign keys and \<^verbatim>\<open>CHECK\<close> clauses are enforced by the statements as SQLite does:
  a violation raises \<^verbatim>\<open>sqlite3.IntegrityError\<close>. \<^verbatim>\<open>REAL\<close> columns are rational numbers.
\<close>

section \<open>Rows\<close>

record plan_row =
  pr_plan_id :: string
  pr_plan_digest :: string
  pr_request_digest :: string
  pr_payload_json :: string

record approval_row =
  av_decision_id :: string
  av_plan_id :: string
  av_actor_id :: string
  av_approval_digest :: string
  av_payload_json :: string

record operation_row =
  op_operation_id :: string
  op_request_id :: string
  op_actor_id :: string
  op_operation_class :: string
  op_request_digest :: string
  op_state :: string
  op_host_id :: string
  op_app :: string
  op_environment :: string
  op_revision_id :: string
  op_decision_id :: string
  op_request_json :: string
  op_actor_json :: string
  op_accepted_at :: string

record idempotency_row =
  ik_actor_id :: string
  ik_operation_class :: string
  ik_key_digest :: string
  ik_request_digest :: string
  ik_operation_id :: string

record event_row =
  oe_operation_id :: string
  oe_sequence :: int
  oe_event_id :: string
  oe_event_digest :: string
  oe_payload_json :: string

record lease_row =
  ls_operation_id :: string
  ls_owner_id :: "string option"
  ls_fencing_token :: int
  ls_expires_at :: rat

record receipt_row =
  tr_receipt_id :: string
  tr_operation_id :: string
  tr_outcome :: string
  tr_receipt_digest :: string
  tr_payload_json :: string

record input_row =
  in_operation_id :: string
  in_input_digest :: string
  in_deadline :: string
  in_payload_json :: string

record control_row =
  ct_operation_id :: string
  ct_actor_json :: "string option"
  ct_requested_at :: "string option"

record lifecycle_row =
  lr_operation_id :: string
  lr_sequence :: int
  lr_revision_id :: string
  lr_revision_digest :: string
  lr_state :: string
  lr_occurred_at :: string
  lr_lease_owner :: string
  lr_fencing_token :: int
  lr_payload_json :: string

record active_row =
  at_host_id :: string
  at_app :: string
  at_environment :: string
  at_operation_id :: string
  at_revision_id :: string
  at_revision_digest :: string
  at_generation :: int
  at_updated_at :: string
  at_payload_json :: string

record atomic_row =
  as_operation_id :: string
  as_active_generation :: int

record scope_lease_row =
  sl_host_id :: string
  sl_app :: string
  sl_environment :: string
  sl_operation_id :: string
  sl_owner_id :: "string option"
  sl_fencing_token :: int
  sl_expires_at :: rat

record host_event_row =
  he_cursor :: int
  he_event_id :: string
  he_event_type :: string
  he_operation_id :: "string option"
  he_workload_run_id :: "string option"
  he_event_digest :: string
  he_occurred_at :: string
  he_payload_json :: string

record delivery_row =
  dv_consumer_id :: string
  dv_acknowledged_cursor :: int
  dv_updated_at :: string

record plan_request_row =
  pq_actor_id :: string
  pq_key_digest :: string
  pq_request_digest :: string
  pq_plan_id :: string
  pq_created_at :: string

record host_row =
  hs_host_id :: string
  hs_lifecycle_state :: string
  hs_maintenance_mode :: bool
  hs_drained :: bool
  hs_capabilities_json :: string
  hs_agent_version :: string
  hs_protocol_version :: int
  hs_started_at :: string
  hs_heartbeat_at :: string
  hs_updated_at :: string

record observation_row =
  ob_observation_id :: int
  ob_host_id :: string
  ob_observed_at :: string
  ob_status :: string
  ob_observation_digest :: string
  ob_payload_json :: string

record workload_run_row =
  wr_run_id :: string
  wr_actor_id :: string
  wr_key_digest :: string
  wr_host_id :: string
  wr_app :: string
  wr_environment :: string
  wr_revision_id :: string
  wr_revision_digest :: string
  wr_workload_name :: string
  wr_workload_kind :: string
  wr_trigger_kind :: string
  wr_state :: string
  wr_request_digest :: string
  wr_request_json :: string
  wr_accepted_at :: string
  wr_started_at :: "string option"
  wr_completed_at :: "string option"
  wr_cancellation_requested_at :: "string option"
  wr_lease_owner :: "string option"
  wr_lease_expires :: "rat option"
  wr_fencing_token :: int
  wr_result_digest :: "string option"
  wr_exit_code :: "int option"
  wr_exit_reason :: "string option"

record run_event_row =
  we_run_id :: string
  we_sequence :: int
  we_event_id :: string
  we_event_digest :: string
  we_payload_json :: string

record agent_state_row =
  ag_host_id :: string
  ag_acknowledged :: int
  ag_connection_state :: string
  ag_connected_at :: "string option"
  ag_last_exchange_at :: "string option"
  ag_last_error_type :: "string option"
  ag_updated_at :: string

record agent_command_row =
  ag_command_id :: string
  ag_sequence :: int
  ag_operation :: string
  ag_actor_id :: string
  ag_key_digest :: string
  ag_envelope_digest :: string
  ag_request_digest :: string
  ag_payload_json :: string
  ag_state :: string
  ag_accepted_at :: string
  ag_started_at :: "string option"
  ag_completed_at :: "string option"
  ag_result_digest :: "string option"
  ag_result_json :: "string option"
  ag_bundle_pruned_at :: "string option"

text \<open>
  \<open>db_sequence\<close> is the last cursor \<^verbatim>\<open>AUTOINCREMENT\<close> handed out for \<^verbatim>\<open>host_events\<close>, and
  \<open>db_observation_sequence\<close> the last one for \<^verbatim>\<open>host_observations\<close>.
\<close>

record database =
  db_plans :: "plan_row list"
  db_approvals :: "approval_row list"
  db_operations :: "operation_row list"
  db_idempotency_keys :: "idempotency_row list"
  db_operation_events :: "event_row list"
  db_operation_leases :: "lease_row list"
  db_terminal_receipts :: "receipt_row list"
  db_operation_inputs :: "input_row list"
  db_operation_controls :: "control_row list"
  db_revision_lifecycle :: "lifecycle_row list"
  db_active_revisions :: "active_row list"
  db_atomic_success_commits :: "atomic_row list"
  db_scope_leases :: "scope_lease_row list"
  db_host_events :: "host_event_row list"
  db_event_delivery :: "delivery_row list"
  db_sequence :: int
  db_plan_requests :: "plan_request_row list"
  db_host_state :: "host_row list"
  db_host_observations :: "observation_row list"
  db_observation_sequence :: int
  db_workload_runs :: "workload_run_row list"
  db_workload_run_events :: "run_event_row list"
  db_agent_state :: "agent_state_row list"
  db_agent_commands :: "agent_command_row list"

definition empty_database :: database where
  "empty_database = \<lparr>db_plans = [], db_approvals = [], db_operations = [], db_idempotency_keys = [],
     db_operation_events = [], db_operation_leases = [], db_terminal_receipts = [], db_operation_inputs = [],
     db_operation_controls = [], db_revision_lifecycle = [], db_active_revisions = [],
     db_atomic_success_commits = [], db_scope_leases = [], db_host_events = [], db_event_delivery = [],
     db_sequence = 0, db_plan_requests = [], db_host_state = [], db_host_observations = [], db_observation_sequence = 0,
     db_workload_runs = [], db_workload_run_events = [], db_agent_state = [], db_agent_commands = []\<rparr>"

section \<open>Constraints\<close>

definition sql_require :: "bool \<Rightarrow> string \<Rightarrow> check" where
  "sql_require ok constraint = raise_unless ok (SqliteIntegrityError constraint)"

lemma sql_require_None [simp, res_simps]: "sql_require ok c = None \<longleftrightarrow> ok"
  by (simp add: sql_require_def)

definition bounded_text :: "string \<Rightarrow> bool" where
  "bounded_text payload \<longleftrightarrow> length payload \<le> 65536"

definition operation_exists :: "string \<Rightarrow> database \<Rightarrow> bool" where
  "operation_exists oid db \<longleftrightarrow> list_ex (\<lambda>r. op_operation_id r = oid) (db_operations db)"

section \<open>Statements\<close>

text \<open>\<^verbatim>\<open>INSERT INTO plans ... ON CONFLICT(plan_id) DO NOTHING\<close>.\<close>

definition insert_plan :: "plan_row \<Rightarrow> database \<Rightarrow> database res" where
  "insert_plan r db =
     guarded (sql_require (bounded_text (pr_payload_json r)) ''CHECK plans.payload_json'')
       (if list_ex (\<lambda>q. pr_plan_id q = pr_plan_id r) (db_plans db) then db
        else db\<lparr>db_plans := db_plans db @ [r]\<rparr>)"

text \<open>\<^verbatim>\<open>INSERT INTO approvals ... ON CONFLICT(decision_id) DO NOTHING\<close>.\<close>

definition insert_approval :: "approval_row \<Rightarrow> database \<Rightarrow> database res" where
  "insert_approval r db =
     (if list_ex (\<lambda>q. av_decision_id q = av_decision_id r) (db_approvals db) then
        guarded (sql_require (bounded_text (av_payload_json r)) ''CHECK approvals.payload_json'') db
      else guarded (first_error
         [sql_require (bounded_text (av_payload_json r)) ''CHECK approvals.payload_json'',
          sql_require (\<not> list_ex (\<lambda>q. av_approval_digest q = av_approval_digest r) (db_approvals db))
            ''UNIQUE approvals.approval_digest'',
          sql_require (list_ex (\<lambda>p. pr_plan_id p = av_plan_id r) (db_plans db)) ''FOREIGN KEY approvals.plan_id''])
        (db\<lparr>db_approvals := db_approvals db @ [r]\<rparr>))"

definition insert_operation :: "operation_row \<Rightarrow> database \<Rightarrow> database res" where
  "insert_operation r db = guarded (first_error
     [sql_require (bounded_text (op_request_json r) \<and> bounded_text (op_actor_json r)) ''CHECK operations'',
      sql_require (\<not> operation_exists (op_operation_id r) db) ''UNIQUE operations.operation_id'',
      sql_require (list_ex (\<lambda>a. av_decision_id a = op_decision_id r) (db_approvals db))
        ''FOREIGN KEY operations.decision_id''])
     (db\<lparr>db_operations := db_operations db @ [r]\<rparr>)"

definition insert_idempotency_key :: "idempotency_row \<Rightarrow> database \<Rightarrow> database res" where
  "insert_idempotency_key r db = guarded (first_error
     [sql_require (\<not> list_ex (\<lambda>q. ik_actor_id q = ik_actor_id r \<and> ik_operation_class q = ik_operation_class r \<and>
          ik_key_digest q = ik_key_digest r) (db_idempotency_keys db)) ''UNIQUE idempotency_keys'',
      sql_require (\<not> list_ex (\<lambda>q. ik_operation_id q = ik_operation_id r) (db_idempotency_keys db))
        ''UNIQUE idempotency_keys.operation_id'',
      sql_require (operation_exists (ik_operation_id r) db) ''FOREIGN KEY idempotency_keys.operation_id''])
     (db\<lparr>db_idempotency_keys := db_idempotency_keys db @ [r]\<rparr>)"

definition insert_input :: "input_row \<Rightarrow> database \<Rightarrow> database res" where
  "insert_input r db = guarded (first_error
     [sql_require (bounded_text (in_payload_json r)) ''CHECK operation_inputs.payload_json'',
      sql_require (\<not> list_ex (\<lambda>q. in_operation_id q = in_operation_id r) (db_operation_inputs db))
        ''UNIQUE operation_inputs.operation_id'',
      sql_require (operation_exists (in_operation_id r) db) ''FOREIGN KEY operation_inputs.operation_id''])
     (db\<lparr>db_operation_inputs := db_operation_inputs db @ [r]\<rparr>)"

definition insert_control :: "control_row \<Rightarrow> database \<Rightarrow> database res" where
  "insert_control r db = guarded (first_error
     [sql_require (case ct_actor_json r of None \<Rightarrow> True | Some json \<Rightarrow> bounded_text json)
        ''CHECK operation_controls.cancellation_actor_json'',
      sql_require (\<not> list_ex (\<lambda>q. ct_operation_id q = ct_operation_id r) (db_operation_controls db))
        ''UNIQUE operation_controls.operation_id'',
      sql_require (operation_exists (ct_operation_id r) db) ''FOREIGN KEY operation_controls.operation_id''])
     (db\<lparr>db_operation_controls := db_operation_controls db @ [r]\<rparr>)"

definition insert_event :: "event_row \<Rightarrow> database \<Rightarrow> database res" where
  "insert_event r db = guarded (first_error
     [sql_require (0 < oe_sequence r \<and> bounded_text (oe_payload_json r)) ''CHECK operation_events'',
      sql_require (\<not> list_ex (\<lambda>q. oe_operation_id q = oe_operation_id r \<and> oe_sequence q = oe_sequence r)
          (db_operation_events db)) ''UNIQUE operation_events'',
      sql_require (\<not> list_ex (\<lambda>q. oe_event_id q = oe_event_id r) (db_operation_events db))
        ''UNIQUE operation_events.event_id'',
      sql_require (operation_exists (oe_operation_id r) db) ''FOREIGN KEY operation_events.operation_id''])
     (db\<lparr>db_operation_events := db_operation_events db @ [r]\<rparr>)"

text \<open>The cursor of the row is the next one of the sequence.\<close>

definition insert_host_event :: "host_event_row \<Rightarrow> database \<Rightarrow> database res" where
  "insert_host_event r db = guarded (first_error
     [sql_require (bounded_text (he_payload_json r) \<and> (he_operation_id r \<noteq> None \<or> he_workload_run_id r \<noteq> None))
        ''CHECK host_events'',
      sql_require (\<not> list_ex (\<lambda>q. he_event_id q = he_event_id r) (db_host_events db)) ''UNIQUE host_events.event_id'',
      sql_require (case he_operation_id r of None \<Rightarrow> True | Some oid \<Rightarrow> operation_exists oid db)
        ''FOREIGN KEY host_events.operation_id''])
     (db\<lparr>db_host_events := db_host_events db @ [r\<lparr>he_cursor := db_sequence db + 1\<rparr>],
         db_sequence := db_sequence db + 1\<rparr>)"

definition set_operation_state :: "string \<Rightarrow> string \<Rightarrow> database \<Rightarrow> database" where
  "set_operation_state oid state db =
     db\<lparr>db_operations := map (\<lambda>r. if op_operation_id r = oid then r\<lparr>op_state := state\<rparr> else r) (db_operations db)\<rparr>"

definition insert_receipt :: "receipt_row \<Rightarrow> database \<Rightarrow> database res" where
  "insert_receipt r db = guarded (first_error
     [sql_require (bounded_text (tr_payload_json r)) ''CHECK terminal_receipts.payload_json'',
      sql_require (\<not> list_ex (\<lambda>q. tr_receipt_id q = tr_receipt_id r) (db_terminal_receipts db))
        ''UNIQUE terminal_receipts.receipt_id'',
      sql_require (\<not> list_ex (\<lambda>q. tr_operation_id q = tr_operation_id r) (db_terminal_receipts db))
        ''UNIQUE terminal_receipts.operation_id'',
      sql_require (operation_exists (tr_operation_id r) db) ''FOREIGN KEY terminal_receipts.operation_id''])
     (db\<lparr>db_terminal_receipts := db_terminal_receipts db @ [r]\<rparr>)"

text \<open>\<^verbatim>\<open>INSERT ... ON CONFLICT(...) DO UPDATE\<close>: replace the conflicting row in place, or append.\<close>

fun upsert :: "('r \<Rightarrow> bool) \<Rightarrow> 'r \<Rightarrow> 'r list \<Rightarrow> 'r list" where
  "upsert same r [] = [r]"
| "upsert same r (q # qs) = (if same q then r # qs else q # upsert same r qs)"

definition upsert_lease :: "lease_row \<Rightarrow> database \<Rightarrow> database res" where
  "upsert_lease r db = guarded (first_error
     [sql_require (0 < ls_fencing_token r) ''CHECK operation_leases.fencing_token'',
      sql_require (operation_exists (ls_operation_id r) db) ''FOREIGN KEY operation_leases.operation_id''])
     (db\<lparr>db_operation_leases :=
          upsert (\<lambda>q. ls_operation_id q = ls_operation_id r) r (db_operation_leases db)\<rparr>)"

definition same_scope :: "scope_lease_row \<Rightarrow> scope_lease_row \<Rightarrow> bool" where
  "same_scope q r \<longleftrightarrow> sl_host_id q = sl_host_id r \<and> sl_app q = sl_app r \<and> sl_environment q = sl_environment r"

definition upsert_scope_lease :: "scope_lease_row \<Rightarrow> database \<Rightarrow> database res" where
  "upsert_scope_lease r db = guarded (first_error
     [sql_require (0 < sl_fencing_token r) ''CHECK execution_scope_leases.fencing_token'',
      sql_require (operation_exists (sl_operation_id r) db) ''FOREIGN KEY execution_scope_leases.operation_id''])
     (db\<lparr>db_scope_leases := upsert (\<lambda>q. same_scope q r) r (db_scope_leases db)\<rparr>)"

definition update_leases :: "string \<Rightarrow> (lease_row \<Rightarrow> lease_row) \<Rightarrow> database \<Rightarrow> database" where
  "update_leases oid f db =
     db\<lparr>db_operation_leases := map (\<lambda>r. if ls_operation_id r = oid then f r else r) (db_operation_leases db)\<rparr>"

definition update_scope_leases :: "string \<Rightarrow> string \<Rightarrow> string \<Rightarrow> (scope_lease_row \<Rightarrow> scope_lease_row) \<Rightarrow> database \<Rightarrow> database" where
  "update_scope_leases host app env f db =
     db\<lparr>db_scope_leases :=
          map (\<lambda>r. if sl_host_id r = host \<and> sl_app r = app \<and> sl_environment r = env then f r else r)
            (db_scope_leases db)\<rparr>"

definition insert_lifecycle :: "lifecycle_row \<Rightarrow> database \<Rightarrow> database res" where
  "insert_lifecycle r db = guarded (first_error
     [sql_require (0 < lr_sequence r \<and> 0 < lr_fencing_token r \<and> bounded_text (lr_payload_json r))
        ''CHECK revision_lifecycle'',
      sql_require (\<not> list_ex (\<lambda>q. lr_operation_id q = lr_operation_id r \<and> lr_sequence q = lr_sequence r)
          (db_revision_lifecycle db)) ''UNIQUE revision_lifecycle'',
      sql_require (operation_exists (lr_operation_id r) db) ''FOREIGN KEY revision_lifecycle.operation_id''])
     (db\<lparr>db_revision_lifecycle := db_revision_lifecycle db @ [r]\<rparr>)"

definition same_active_scope :: "active_row \<Rightarrow> active_row \<Rightarrow> bool" where
  "same_active_scope q r \<longleftrightarrow> at_host_id q = at_host_id r \<and> at_app q = at_app r \<and> at_environment q = at_environment r"

definition upsert_active :: "active_row \<Rightarrow> database \<Rightarrow> database res" where
  "upsert_active r db = guarded (first_error
     [sql_require (0 < at_generation r \<and> bounded_text (at_payload_json r)) ''CHECK active_revisions'',
      sql_require (operation_exists (at_operation_id r) db) ''FOREIGN KEY active_revisions.operation_id''])
     (db\<lparr>db_active_revisions := upsert (\<lambda>q. same_active_scope q r) r (db_active_revisions db)\<rparr>)"

definition insert_atomic :: "atomic_row \<Rightarrow> database \<Rightarrow> database res" where
  "insert_atomic r db = guarded (first_error
     [sql_require (0 < as_active_generation r) ''CHECK atomic_success_commits.active_generation'',
      sql_require (\<not> list_ex (\<lambda>q. as_operation_id q = as_operation_id r) (db_atomic_success_commits db))
        ''UNIQUE atomic_success_commits.operation_id'',
      sql_require (list_ex (\<lambda>t. tr_operation_id t = as_operation_id r) (db_terminal_receipts db))
        ''FOREIGN KEY atomic_success_commits.operation_id''])
     (db\<lparr>db_atomic_success_commits := db_atomic_success_commits db @ [r]\<rparr>)"

definition upsert_delivery :: "delivery_row \<Rightarrow> database \<Rightarrow> database res" where
  "upsert_delivery r db = guarded
     (sql_require (0 \<le> dv_acknowledged_cursor r) ''CHECK event_delivery.acknowledged_cursor'')
     (db\<lparr>db_event_delivery :=
          upsert (\<lambda>q. dv_consumer_id q = dv_consumer_id r) r (db_event_delivery db)\<rparr>)"

section \<open>Queries\<close>

definition find_operation :: "string \<Rightarrow> database \<Rightarrow> operation_row option" where
  "find_operation oid db = fetchone (\<lambda>r. op_operation_id r = oid) (db_operations db)"

definition find_lease :: "string \<Rightarrow> database \<Rightarrow> lease_row option" where
  "find_lease oid db = fetchone (\<lambda>r. ls_operation_id r = oid) (db_operation_leases db)"

definition find_input :: "string \<Rightarrow> database \<Rightarrow> input_row option" where
  "find_input oid db = fetchone (\<lambda>r. in_operation_id r = oid) (db_operation_inputs db)"

definition find_receipt :: "string \<Rightarrow> database \<Rightarrow> receipt_row option" where
  "find_receipt oid db = fetchone (\<lambda>r. tr_operation_id r = oid) (db_terminal_receipts db)"

definition find_scope_lease :: "string \<Rightarrow> string \<Rightarrow> string \<Rightarrow> database \<Rightarrow> scope_lease_row option" where
  "find_scope_lease host app env db =
     fetchone (\<lambda>r. sl_host_id r = host \<and> sl_app r = app \<and> sl_environment r = env) (db_scope_leases db)"

definition find_active :: "string \<Rightarrow> string \<Rightarrow> string \<Rightarrow> database \<Rightarrow> active_row option" where
  "find_active host app env db =
     fetchone (\<lambda>r. at_host_id r = host \<and> at_app r = app \<and> at_environment r = env) (db_active_revisions db)"

text \<open>\<^verbatim>\<open>... WHERE operation_id = ? ORDER BY sequence\<close>, and the last of those rows.\<close>

definition event_rows :: "string \<Rightarrow> database \<Rightarrow> event_row list" where
  "event_rows oid db = sort_key oe_sequence (filter (\<lambda>r. oe_operation_id r = oid) (db_operation_events db))"

definition lifecycle_rows :: "string \<Rightarrow> database \<Rightarrow> lifecycle_row list" where
  "lifecycle_rows oid db = sort_key lr_sequence (filter (\<lambda>r. lr_operation_id r = oid) (db_revision_lifecycle db))"

definition last_row :: "'r list \<Rightarrow> 'r option" where
  "last_row rows = (if rows = [] then None else Some (last rows))"

text \<open>\<^verbatim>\<open>operations JOIN approvals JOIN plans\<close> for one operation.\<close>

definition find_accepted :: "string \<Rightarrow> database \<Rightarrow> (operation_row \<times> approval_row \<times> plan_row) option" where
  "find_accepted oid db =
     (case find_operation oid db of
        None \<Rightarrow> None
      | Some o' \<Rightarrow>
          (case fetchone (\<lambda>a. av_decision_id a = op_decision_id o') (db_approvals db) of
             None \<Rightarrow> None
           | Some a \<Rightarrow>
               (case fetchone (\<lambda>p. pr_plan_id p = av_plan_id a) (db_plans db) of
                  None \<Rightarrow> None
                | Some p \<Rightarrow> Some (o', a, p))))"

text \<open>The fencing tokens of the leases of one application scope.\<close>

definition scope_tokens :: "string \<Rightarrow> string \<Rightarrow> string \<Rightarrow> database \<Rightarrow> int list" where
  "scope_tokens host app env db =
     map ls_fencing_token (filter (\<lambda>l. case find_operation (ls_operation_id l) db of
         None \<Rightarrow> False
       | Some o' \<Rightarrow> op_host_id o' = host \<and> op_app o' = app \<and> op_environment o' = env) (db_operation_leases db))"

definition max_or_zero :: "int list \<Rightarrow> int" where
  "max_or_zero xs = foldr max xs 0"

end
