(* ===== verification/Journal.thy ===== *)
theory Journal
  imports Schema "HOL-Library.Product_Lexorder"
begin

text \<open>
  \<^verbatim>\<open>SQLiteOperationJournal\<close> of \<^verbatim>\<open>src/ophelia/execution/operation_store.py\<close>: acceptance,
  cancellation, events, leases and fences, the revision lifecycle, the active revision and terminal
  receipts. An operation is a function from the journal's state to a result or an exception and a
  new state. The state holds the database, the clock and the source of random identifiers; each
  sample of the clock and each identifier advances a counter that a rollback does not restore.
\<close>

section \<open>Journal actions\<close>

record journal =
  jn_db :: database
  jn_clock :: "nat \<Rightarrow> rat option"
  jn_tick :: nat
  jn_uuid :: "nat \<Rightarrow> string"
  jn_ids :: nat

type_synonym 'a tx = "journal \<Rightarrow> 'a res \<times> journal"

definition tx_return :: "'a \<Rightarrow> 'a tx" where
  "tx_return x s = (Inr x, s)"

definition tx_raise :: "py_error \<Rightarrow> 'a tx" where
  "tx_raise e s = (Inl e, s)"

definition tx_bind :: "'a tx \<Rightarrow> ('a \<Rightarrow> 'b tx) \<Rightarrow> 'b tx" where
  "tx_bind m f s = (case m s of (Inl e, s') \<Rightarrow> (Inl e, s') | (Inr x, s') \<Rightarrow> f x s')"

definition tx_lift :: "'a res \<Rightarrow> 'a tx" where
  "tx_lift r s = (r, s)"

definition tx_check :: "check \<Rightarrow> unit tx" where
  "tx_check c = tx_lift (guarded c ())"

definition tx_query :: "(database \<Rightarrow> 'a) \<Rightarrow> 'a tx" where
  "tx_query f s = (Inr (f (jn_db s)), s)"

definition tx_read :: "(database \<Rightarrow> 'a res) \<Rightarrow> 'a tx" where
  "tx_read f s = (f (jn_db s), s)"

definition tx_execute :: "(database \<Rightarrow> database res) \<Rightarrow> unit tx" where
  "tx_execute f s = (case f (jn_db s) of Inl e \<Rightarrow> (Inl e, s) | Inr db \<Rightarrow> (Inr (), s\<lparr>jn_db := db\<rparr>))"

definition tx_update :: "(database \<Rightarrow> database) \<Rightarrow> unit tx" where
  "tx_update f = tx_execute (\<lambda>db. Inr (f db))"

text \<open>\<^verbatim>\<open>_transaction\<close>: commit on return, roll the database back on any exception.\<close>

definition transaction :: "'a tx \<Rightarrow> 'a tx" where
  "transaction m s = (case m s of
      (Inr x, s') \<Rightarrow> (Inr x, s')
    | (Inl e, s') \<Rightarrow> (Inl e, s'\<lparr>jn_db := jn_db s\<rparr>))"

definition clock_sample :: "rat tx" where
  "clock_sample s = (case jn_clock s (jn_tick s) of
      None \<Rightarrow> (Inl (IntegrityError ''Operation journal clock returned a non-finite sample.''), s\<lparr>jn_tick := jn_tick s + 1\<rparr>)
    | Some t \<Rightarrow> (Inr t, s\<lparr>jn_tick := jn_tick s + 1\<rparr>))"

definition fresh_uuid :: "string tx" where
  "fresh_uuid s = (Inr (jn_uuid s (jn_ids s)), s\<lparr>jn_ids := jn_ids s + 1\<rparr>)"

text \<open>\<^verbatim>\<open>datetime.fromtimestamp(t, timezone.utc)\<close>: an instant of the years 1 to 9999.\<close>

definition from_timestamp :: "rat \<Rightarrow> int res" where
  "from_timestamp t = (case utc_text (timestamp_us t) of
      None \<Rightarrow> Inl (ValueError ''year is out of range'')
    | Some _ \<Rightarrow> Inr (timestamp_us t))"

definition MAX_CANONICAL_JSON_BYTES :: nat where
  "MAX_CANONICAL_JSON_BYTES = 65536"

definition bounded_json :: "pyval \<Rightarrow> string res" where
  "bounded_json value =
     (let payload = canonical_json value in
      guarded (raise_unless (length payload \<le> MAX_CANONICAL_JSON_BYTES)
        (ContractValidationError ''Canonical journal payload exceeds the 65536-byte bound.'')) payload)"

definition operation_state_of :: "string \<Rightarrow> operation_state res" where
  "operation_state_of s = enum_of os_all os_value s"

definition conflict :: "bool \<Rightarrow> string \<Rightarrow> check" where
  "conflict ok msg = raise_unless ok (OperationConflict msg)"

section \<open>Acceptance\<close>

definition validate_acceptance_binding :: "actor \<Rightarrow> operation_request \<Rightarrow> approved_plan_ref \<Rightarrow> string \<Rightarrow> check" where
  "validate_acceptance_binding actor request approved_plan request_digest = first_error
     [conflict (ap_actor_id approved_plan = ac_actor_id actor) ''Approval actor does not match authenticated actor.'',
      conflict (ap_approval_digest approved_plan = approval_binding_digest approved_plan)
        ''Approval digest does not match its binding claims.'',
      conflict (ap_request_digest approved_plan = request_digest \<and> ap_host_id approved_plan = rq_host_id request \<and>
          ap_app approved_plan = rq_app request \<and> ap_environment approved_plan = rq_environment request \<and>
          ap_revision_id approved_plan = rq_revision_id request \<and>
          ap_revision_digest approved_plan = rq_revision_digest request)
        ''Approval does not bind the normalized request.'']"

definition validate_execution_input ::
  "operation_request \<Rightarrow> approved_plan_ref \<Rightarrow> execution_input \<Rightarrow> string \<Rightarrow> check" where
  "validate_execution_input request approved_plan i request_digest = first_error
     [conflict (\<not> utc_us (ei_deadline i) > utc_us (ap_expires_at approved_plan))
        ''Execution deadline cannot outlive the approved plan.'',
      conflict (pl_request_digest (ei_plan i) = request_digest \<and> pl_operation (ei_plan i) = rq_operation request \<and>
          pl_host_id (ei_plan i) = rq_host_id request \<and> pl_app (ei_plan i) = rq_app request \<and>
          pl_environment (ei_plan i) = rq_environment request \<and>
          pl_revision_id (ei_plan i) = rq_revision_id request \<and>
          pl_revision_digest (ei_plan i) = rq_revision_digest request \<and>
          canonical_json (approved_plan_ref_val (ei_approved_plan i)) = canonical_json (approved_plan_ref_val approved_plan))
        ''Execution input does not bind the accepted request and approval.'']"

text \<open>The request as it is stored: its key is replaced by the digest of the key.\<close>

definition request_claims :: "operation_request \<Rightarrow> string \<Rightarrow> pyval" where
  "request_claims request key_digest =
     (case serialize (operation_request_val request) of
        JObj kvs \<Rightarrow> of_json (JObj (filter (\<lambda>p. fst p \<noteq> ''idempotency_key'') kvs @
          [(''idempotency_key_digest'', JStr key_digest)]))
      | j \<Rightarrow> of_json j)"

definition plan_claims :: "approved_plan_ref \<Rightarrow> pyval" where
  "plan_claims a = VMap
     [(''schema_version'', VInt 1), (''kind'', VStr ''ophelia.kernel.approved_plan_claims''),
      (''plan_id'', VStr (ap_plan_id a)), (''plan_digest'', VStr (ap_plan_digest a)),
      (''request_digest'', VStr (ap_request_digest a)), (''host_id'', VStr (ap_host_id a)),
      (''app'', VStr (ap_app a)), (''environment'', VStr (ap_environment a)),
      (''revision_id'', VStr (ap_revision_id a)), (''revision_digest'', VStr (ap_revision_digest a)),
      (''manifest_digest'', VStr (ap_manifest_digest a)), (''artifact_digests'', vstrs (ap_artifact_digests a)),
      (''observed_state_digest'', VStr (ap_observed_state_digest a)),
      (''policy_digest'', VStr (ap_policy_digest a))]"

definition operation_ref_of :: "string \<Rightarrow> string \<Rightarrow> operation_state \<Rightarrow> operation_ref res" where
  "operation_ref_of operation_id request_id state =
     (let r = \<lparr>or_operation_id = operation_id, or_request_id = request_id, or_state = state\<rparr>
      in guarded (operation_ref_check r) r)"

definition find_idempotent ::
  "string \<Rightarrow> string \<Rightarrow> string \<Rightarrow> database \<Rightarrow> (idempotency_row \<times> operation_row \<times> input_row option) option" where
  "find_idempotent actor_id operation key_digest db =
     (case fetchone (\<lambda>i. ik_actor_id i = actor_id \<and> ik_operation_class i = operation \<and> ik_key_digest i = key_digest)
             (db_idempotency_keys db) of
        None \<Rightarrow> None
      | Some i \<Rightarrow>
          (case find_operation (ik_operation_id i) db of
             None \<Rightarrow> None
           | Some o' \<Rightarrow> Some (i, o', find_input (op_operation_id o') db)))"

text \<open>The branch of \<^verbatim>\<open>accept\<close> for a key that is already known.\<close>

definition accept_existing ::
  "string \<Rightarrow> execution_input option \<Rightarrow> idempotency_row \<times> operation_row \<times> input_row option \<Rightarrow> operation_ref res" where
  "accept_existing request_digest execution_input existing =
     (case existing of (i, o', inp) \<Rightarrow>
        if ik_request_digest i \<noteq> request_digest
        then Inl (IdempotencyConflict ''Idempotency key already identifies different normalized intent.'')
        else if map_option in_input_digest inp \<noteq> map_option ei_input_digest execution_input
        then Inl (IdempotencyConflict ''Idempotent retry must supply the identical execution input digest.'')
        else bind_res (operation_state_of (op_state o')) (\<lambda>st. operation_ref_of (op_operation_id o') (op_request_id o') st))"

text \<open>The plan and the approval are stored once; a second copy must be identical.\<close>

definition store_plan :: "approved_plan_ref \<Rightarrow> string \<Rightarrow> unit tx" where
  "store_plan approved_plan plan_json =
     tx_bind (tx_execute (insert_plan \<lparr>pr_plan_id = ap_plan_id approved_plan, pr_plan_digest = ap_plan_digest approved_plan,
       pr_request_digest = ap_request_digest approved_plan, pr_payload_json = plan_json\<rparr>)) (\<lambda>_.
     tx_bind (tx_query (\<lambda>db. fetchone (\<lambda>p. pr_plan_id p = ap_plan_id approved_plan) (db_plans db))) (\<lambda>stored.
       case stored of
         None \<Rightarrow> tx_raise (TypeError ''stored_plan'')
       | Some p \<Rightarrow> tx_check (conflict (pr_plan_digest p = ap_plan_digest approved_plan \<and>
           pr_request_digest p = ap_request_digest approved_plan \<and> pr_payload_json p = plan_json)
           ''Plan identity conflicts with durable plan content.'')))"

definition store_approval :: "approved_plan_ref \<Rightarrow> string \<Rightarrow> unit tx" where
  "store_approval approved_plan approval_json =
     tx_bind (tx_execute (insert_approval \<lparr>av_decision_id = ap_decision_id approved_plan, av_plan_id = ap_plan_id approved_plan,
       av_actor_id = ap_actor_id approved_plan, av_approval_digest = ap_approval_digest approved_plan,
       av_payload_json = approval_json\<rparr>)) (\<lambda>_.
     tx_bind (tx_query (\<lambda>db. fetchone (\<lambda>a. av_decision_id a = ap_decision_id approved_plan) (db_approvals db))) (\<lambda>stored.
       case stored of
         None \<Rightarrow> tx_raise (TypeError ''stored_approval'')
       | Some a \<Rightarrow> tx_check (conflict (av_plan_id a = ap_plan_id approved_plan \<and>
           av_actor_id a = ap_actor_id approved_plan \<and> av_approval_digest a = ap_approval_digest approved_plan \<and>
           av_payload_json a = approval_json)
           ''Approval identity conflicts with durable approval content.'')))"

definition accept_new ::
  "actor \<Rightarrow> operation_request \<Rightarrow> approved_plan_ref \<Rightarrow> execution_input option \<Rightarrow> string \<Rightarrow> string \<Rightarrow> string \<Rightarrow> string \<Rightarrow>
    string \<Rightarrow> string option \<Rightarrow> operation_ref tx" where
  "accept_new actor request approved_plan execution_input key_digest actor_json request_json approval_json plan_json input_json =
     tx_bind clock_sample (\<lambda>t.
     tx_bind (tx_lift (from_timestamp t)) (\<lambda>now.
     tx_bind (tx_check (conflict (case execution_input of None \<Rightarrow> True | Some i \<Rightarrow> \<not> utc_us (ei_deadline i) \<le> now)
       ''Execution deadline has expired.'')) (\<lambda>_.
     tx_bind (tx_check (conflict (\<not> expired approved_plan now) ''Approval has expired.'')) (\<lambda>_.
     tx_bind fresh_uuid (\<lambda>hex.
     tx_bind (tx_lift (utc_now_text t)) (\<lambda>accepted_at.
     (let operation_id = ''operation_'' @ hex in
     tx_bind (store_plan approved_plan plan_json) (\<lambda>_.
     tx_bind (store_approval approved_plan approval_json) (\<lambda>_.
     tx_bind (tx_execute (insert_operation \<lparr>op_operation_id = operation_id, op_request_id = rq_request_id request,
       op_actor_id = ac_actor_id actor, op_operation_class = rq_operation request,
       op_request_digest = intent_digest request, op_state = os_value OS_ACCEPTED, op_host_id = rq_host_id request,
       op_app = rq_app request, op_environment = rq_environment request, op_revision_id = rq_revision_id request,
       op_decision_id = ap_decision_id approved_plan, op_request_json = request_json, op_actor_json = actor_json,
       op_accepted_at = accepted_at\<rparr>)) (\<lambda>_.
     tx_bind (case (execution_input, input_json) of
         (Some i, Some json) \<Rightarrow> tx_execute (insert_input \<lparr>in_operation_id = operation_id, in_input_digest = ei_input_digest i,
           in_deadline = ei_deadline i, in_payload_json = json\<rparr>)
       | _ \<Rightarrow> tx_return ()) (\<lambda>_.
     tx_bind (tx_execute (insert_idempotency_key \<lparr>ik_actor_id = ac_actor_id actor, ik_operation_class = rq_operation request,
       ik_key_digest = key_digest, ik_request_digest = intent_digest request, ik_operation_id = operation_id\<rparr>)) (\<lambda>_.
     tx_lift (operation_ref_of operation_id (rq_request_id request) OS_ACCEPTED)))))))))))))"

definition accept ::
  "actor \<Rightarrow> operation_request \<Rightarrow> approved_plan_ref \<Rightarrow> execution_input option \<Rightarrow> operation_ref tx" where
  "accept actor request approved_plan execution_input =
     (let request_digest = intent_digest request; key_digest = digest_text (rq_idempotency_key request) in
     tx_bind (tx_check (validate_acceptance_binding actor request approved_plan request_digest)) (\<lambda>_.
     tx_bind (tx_check (case execution_input of None \<Rightarrow> None
       | Some i \<Rightarrow> validate_execution_input request approved_plan i request_digest)) (\<lambda>_.
     tx_bind (tx_lift (bounded_json (actor_val actor))) (\<lambda>actor_json.
     tx_bind (tx_lift (bounded_json (request_claims request key_digest))) (\<lambda>request_json.
     tx_bind (tx_lift (bounded_json (approved_plan_ref_val approved_plan))) (\<lambda>approval_json.
     tx_bind (case execution_input of None \<Rightarrow> tx_return None
       | Some i \<Rightarrow> tx_lift (bind_res (bounded_json (execution_input_val i)) (\<lambda>j. Inr (Some j)))) (\<lambda>input_json.
     tx_bind (tx_lift (bounded_json (plan_claims approved_plan))) (\<lambda>plan_json.
     transaction (
       tx_bind (tx_query (find_idempotent (ac_actor_id actor) (rq_operation request) key_digest)) (\<lambda>existing.
         case existing of
           Some ex \<Rightarrow> tx_lift (accept_existing request_digest execution_input ex)
         | None \<Rightarrow> accept_new actor request approved_plan execution_input key_digest actor_json request_json
             approval_json plan_json input_json))))))))))"

section \<open>Verified reads\<close>

text \<open>\<^verbatim>\<open>except Exception as exc: raise IntegrityError(msg) from exc\<close>.\<close>

definition wrap_integrity :: "string \<Rightarrow> 'a res \<Rightarrow> 'a res" where
  "wrap_integrity msg m = (case m of Inr x \<Rightarrow> Inr x | Inl _ \<Rightarrow> Inl (IntegrityError msg))"

definition integrity :: "bool \<Rightarrow> string \<Rightarrow> check" where
  "integrity ok msg = raise_unless ok (IntegrityError msg)"

definition is_obj :: "json \<Rightarrow> bool" where
  "is_obj j = (case j of JObj _ \<Rightarrow> True | _ \<Rightarrow> False)"

text \<open>The claims of an accepted operation, decoded: the digest of the key, request, actor and approval.\<close>

definition decode_acceptance ::
  "operation_row \<Rightarrow> approval_row \<Rightarrow> plan_row \<Rightarrow> (string \<times> operation_request \<times> actor \<times> approved_plan_ref) res" where
  "decode_acceptance o' a p =
     wrap_integrity ''Accepted operation payload is invalid.''
       (bind_res (loads (op_request_json o')) (\<lambda>request_json.
        bind_res (loads (op_actor_json o')) (\<lambda>actor_json.
        bind_res (loads (pr_payload_json p)) (\<lambda>plan_json.
        bind_res (loads (av_payload_json a)) (\<lambda>approval_json.
        bind_res (guarded (raise_unless (is_obj request_json \<and> is_obj actor_json \<and> is_obj plan_json \<and> is_obj approval_json)
          (TypeError ''accepted claims must be JSON objects'')) ()) (\<lambda>_.
        bind_res (get_str request_json ''idempotency_key_digest'') (\<lambda>key_digest.
        bind_res (guarded (require_digest key_digest ''idempotency_key_digest'') ()) (\<lambda>_.
        bind_res (request_from_payload request_json) (\<lambda>request.
        bind_res (actor_from_payload actor_json) (\<lambda>actor.
        bind_res (approved_plan_from_payload approval_json) (\<lambda>approval.
          Inr (key_digest, request, actor, approval))))))))))))"

definition acceptance_reconciles ::
  "operation_row \<Rightarrow> approval_row \<Rightarrow> plan_row \<Rightarrow> string \<Rightarrow> operation_request \<Rightarrow> actor \<Rightarrow> approved_plan_ref \<Rightarrow> bool" where
  "acceptance_reconciles o' a p key_digest request actor approval \<longleftrightarrow>
     canonical_json (request_claims request key_digest) = op_request_json o' \<and>
     canonical_json (actor_val actor) = op_actor_json o' \<and>
     canonical_json (plan_claims approval) = pr_payload_json p \<and>
     canonical_json (approved_plan_ref_val approval) = av_payload_json a \<and>
     rq_request_id request = op_request_id o' \<and> rq_operation request = op_operation_class o' \<and>
     rq_host_id request = op_host_id o' \<and> rq_app request = op_app o' \<and>
     rq_environment request = op_environment o' \<and> rq_revision_id request = op_revision_id o' \<and>
     intent_digest request = op_request_digest o' \<and> ac_actor_id actor = op_actor_id o' \<and>
     ap_plan_id approval = av_plan_id a \<and> ap_plan_digest approval = pr_plan_digest p \<and>
     ap_request_digest approval = pr_request_digest p \<and> op_request_digest o' = pr_request_digest p \<and>
     ap_host_id approval = op_host_id o' \<and> ap_app approval = op_app o' \<and>
     ap_environment approval = op_environment o' \<and> ap_revision_id approval = op_revision_id o' \<and>
     ap_revision_digest approval = rq_revision_digest request \<and> ap_decision_id approval = op_decision_id o' \<and>
     ap_actor_id approval = av_actor_id a \<and> ap_approval_digest approval = av_approval_digest a \<and>
     av_approval_digest a = approval_binding_digest approval"

text \<open>The approval stands for the two claim dictionaries the function returns.\<close>

definition verified_acceptance_claims :: "operation_row \<Rightarrow> approval_row \<Rightarrow> plan_row \<Rightarrow> approved_plan_ref res" where
  "verified_acceptance_claims o' a p =
     bind_res (decode_acceptance o' a p) (\<lambda>(key_digest, request, actor, approval).
       guarded (integrity (acceptance_reconciles o' a p key_digest request actor approval)
         ''Accepted operation, plan, and approval claims do not reconcile.'') approval)"

definition load_execution_input_tx :: "database \<Rightarrow> string \<Rightarrow> execution_input res" where
  "load_execution_input_tx db operation_id =
     (case (find_accepted operation_id db, find_input operation_id db) of
        (Some (o', a, p), Some inp) \<Rightarrow>
          as_integrity ''Execution input, operation, plan, approval, revision, and artifact claims do not reconcile.''
            (bind_res (verified_acceptance_claims o' a p) (\<lambda>_.
             bind_res (loads (in_payload_json inp)) (\<lambda>payload.
             bind_res (execution_input_from_payload payload) (\<lambda>i.
             bind_res (bind_res (loads (op_request_json o')) request_from_payload) (\<lambda>request.
             bind_res (bind_res (loads (av_payload_json a)) approved_plan_from_payload) (\<lambda>approval.
             bind_res (guarded (validate_execution_input request approval i (op_request_digest o')) ()) (\<lambda>_.
               guarded (integrity (ei_input_digest i = in_input_digest inp \<and> ei_deadline i = in_deadline inp \<and>
                   canonical_json (execution_input_val i) = in_payload_json inp)
                 ''Execution input durable columns do not match canonical content.'') i)))))))
      | _ \<Rightarrow> Inl (KeyError operation_id))"

definition load_execution_input :: "string \<Rightarrow> execution_input tx" where
  "load_execution_input operation_id = tx_read (\<lambda>db. load_execution_input_tx db operation_id)"

definition approved_plan :: "string \<Rightarrow> approved_plan_ref tx" where
  "approved_plan operation_id = tx_read (\<lambda>db.
     case find_accepted operation_id db of
       None \<Rightarrow> Inl (KeyError operation_id)
     | Some (o', a, p) \<Rightarrow> as_integrity ''Operation approval evidence is invalid.''
         (bind_res (verified_acceptance_claims o' a p) (\<lambda>_.
          bind_res (loads (av_payload_json a)) approved_plan_from_payload)))"

definition get :: "string \<Rightarrow> operation_ref tx" where
  "get operation_id = tx_read (\<lambda>db.
     case find_operation operation_id db of
       None \<Rightarrow> Inl (KeyError operation_id)
     | Some o' \<Rightarrow> bind_res (operation_state_of (op_state o'))
         (\<lambda>st. operation_ref_of (op_operation_id o') (op_request_id o') st))"

text \<open>One stored event against its position in the chain.\<close>

definition verify_event_row ::
  "operation_row \<Rightarrow> int \<Rightarrow> string option \<Rightarrow> event_row \<Rightarrow> operation_event res" where
  "verify_event_row o' expected_sequence previous_digest row =
     bind_res (wrap_integrity ''Operation event payload integrity validation failed.'' (event_from_json (oe_payload_json row))) (\<lambda>e.
       guarded (integrity (oe_sequence row = expected_sequence \<and> ev_sequence e = expected_sequence \<and>
           ev_operation_id e = op_operation_id o' \<and> ev_event_id e = oe_event_id row \<and>
           ev_host_id e = op_host_id o' \<and> ev_app e = op_app o' \<and> ev_environment e = op_environment o' \<and>
           (ev_revision_id e = None \<or> ev_revision_id e = Some (op_revision_id o')) \<and>
           oe_event_digest row = canonical_digest (operation_event_val e) \<and>
           ev_previous_event_digest e = previous_digest \<and>
           canonical_json (operation_event_val e) = oe_payload_json row)
         ''Operation event chain integrity validation failed.'') e)"

fun verify_event_chain ::
  "operation_row \<Rightarrow> int \<Rightarrow> string option \<Rightarrow> event_row list \<Rightarrow> operation_event list res" where
  "verify_event_chain o' n prev [] = Inr []"
| "verify_event_chain o' n prev (row # rows) =
     bind_res (verify_event_row o' n prev row) (\<lambda>e.
     bind_res (verify_event_chain o' (n + 1) (Some (canonical_digest (operation_event_val e))) rows) (\<lambda>es.
       Inr (e # es)))"

definition json_field :: "json \<Rightarrow> string \<Rightarrow> json option" where
  "json_field j k = (case j of JObj kvs \<Rightarrow> map_of kvs k | _ \<Rightarrow> None)"

text \<open>The receipt against the operation, its final event and the accepted claims.\<close>

definition receipt_reconciles ::
  "operation_row \<Rightarrow> approval_row \<Rightarrow> plan_row \<Rightarrow> approved_plan_ref \<Rightarrow> operation_state \<Rightarrow> operation_event list \<Rightarrow>
    receipt_row \<Rightarrow> json \<Rightarrow> terminal_receipt \<Rightarrow> bool" where
  "receipt_reconciles o' a p approval state events row payload r \<longleftrightarrow>
     canonical_json (terminal_receipt_val r) = tr_payload_json row \<and>
     canonical_digest (terminal_receipt_val r) = tr_receipt_digest row \<and>
     json_field payload ''receipt_id'' = Some (JStr (tr_receipt_id row)) \<and>
     json_field payload ''operation_id'' = Some (JStr (op_operation_id o')) \<and>
     json_field payload ''outcome'' = Some (JStr (tr_outcome row)) \<and>
     rc_operation r = op_operation_class o' \<and> rc_plan_id r = av_plan_id a \<and> rc_plan_digest r = pr_plan_digest p \<and>
     rc_decision_id r = op_decision_id o' \<and> rc_host_id r = op_host_id o' \<and> rc_app r = op_app o' \<and>
     rc_environment r = op_environment o' \<and> rc_desired_revision_id r = op_revision_id o' \<and>
     rc_desired_revision_digest r = ap_revision_digest approval \<and>
     rc_artifact_digests r = ap_artifact_digests approval \<and>
     ap_decision_id approval = rc_decision_id r \<and>
     terminal state \<and> tr_outcome row = os_value state \<and>
     (let terminal_events = filter (\<lambda>e. terminal (ev_state e)) events in
      length terminal_events = 1 \<and> events \<noteq> [] \<and> terminal (ev_state (last events)) \<and>
      ev_event_type (hd terminal_events) = ''operation.terminal'' \<and> ev_state (hd terminal_events) = state \<and>
      json_field payload ''completed_at'' = Some (JStr (ev_occurred_at (hd terminal_events))))"

definition verify_terminal ::
  "operation_row \<Rightarrow> approval_row \<Rightarrow> plan_row \<Rightarrow> approved_plan_ref \<Rightarrow> operation_event list \<Rightarrow> receipt_row option \<Rightarrow>
    operation_event list res" where
  "verify_terminal o' a p approval events receipt =
     bind_res (wrap_integrity ''Operation contains an unknown durable state.'' (operation_state_of (op_state o'))) (\<lambda>state.
     bind_res (guarded (integrity (state = (if events = [] then OS_ACCEPTED else ev_state (last events)))
       ''Operation state does not match its final event.'') ()) (\<lambda>_.
       case receipt of
         None \<Rightarrow> guarded (integrity (\<not> terminal state \<and> \<not> list_ex (\<lambda>e. terminal (ev_state e)) events)
           ''Terminal operation state requires an atomic terminal receipt.'') events
       | Some row \<Rightarrow>
           bind_res (wrap_integrity ''Terminal receipt payload is invalid.''
             (bind_res (loads (tr_payload_json row)) (\<lambda>payload.
              bind_res (receipt_from_payload payload) (\<lambda>r. Inr (payload, r))))) (\<lambda>(payload, r).
           guarded (integrity (receipt_reconciles o' a p approval state events row payload r)
             ''Terminal event, operation state, and receipt do not reconcile.'') events)))"

definition verified_events :: "database \<Rightarrow> string \<Rightarrow> operation_event list res" where
  "verified_events db operation_id =
     (case find_accepted operation_id db of
        None \<Rightarrow> Inl (IntegrityError ''Event history references an unknown operation.'')
      | Some (o', a, p) \<Rightarrow>
          bind_res (verified_acceptance_claims o' a p) (\<lambda>approval.
          bind_res (verify_event_chain o' 1 None (event_rows operation_id db)) (\<lambda>events.
            verify_terminal o' a p approval events (find_receipt operation_id db))))"

definition events :: "string \<Rightarrow> operation_event list tx" where
  "events operation_id = tx_read (\<lambda>db. verified_events db operation_id)"

section \<open>Cancellation and recovery\<close>

definition control_tx :: "database \<Rightarrow> string \<Rightarrow> execution_control res" where
  "control_tx db operation_id =
     (case find_operation operation_id db of
        None \<Rightarrow> Inl (KeyError operation_id)
      | Some o' \<Rightarrow>
          (let ctl = fetchone (\<lambda>c. ct_operation_id c = operation_id) (db_operation_controls db);
               actor_json = Option.bind ctl ct_actor_json
           in as_integrity ''Operation control payload is invalid.''
             (bind_res (case actor_json of
                 None \<Rightarrow> Inr None
               | Some js \<Rightarrow> bind_res (bind_res (loads js) actor_from_payload) (\<lambda>a. Inr (Some a))) (\<lambda>actor.
              (let c = \<lparr>ec_operation_id = operation_id,
                   ec_deadline = map_option in_deadline (find_input operation_id db),
                   ec_cancellation_requested = (actor \<noteq> None), ec_cancellation_actor = actor,
                   ec_cancellation_requested_at = Option.bind ctl ct_requested_at\<rparr>
               in bind_res (guarded (execution_control_check c) c) (\<lambda>c.
                  guarded (integrity (case (actor, actor_json) of
                      (Some a, Some js) \<Rightarrow> canonical_json (actor_val a) = js | _ \<Rightarrow> True)
                    ''Cancellation actor payload is not canonical.'') c))))))"

definition control :: "string \<Rightarrow> execution_control tx" where
  "control operation_id = tx_read (\<lambda>db. control_tx db operation_id)"

definition cancellation_requested :: "string \<Rightarrow> bool tx" where
  "cancellation_requested operation_id =
     tx_bind (control operation_id) (\<lambda>c. tx_return (ec_cancellation_requested c))"

definition request_cancellation :: "string \<Rightarrow> actor \<Rightarrow> execution_control tx" where
  "request_cancellation operation_id actor =
     tx_bind (tx_lift (bounded_json (actor_val actor))) (\<lambda>actor_json.
     transaction (
       tx_bind (tx_query (find_operation operation_id)) (\<lambda>operation.
       case operation of
         None \<Rightarrow> tx_raise (OperationConflict ''Unknown operation.'')
       | Some o' \<Rightarrow>
           tx_bind (tx_lift (operation_state_of (op_state o'))) (\<lambda>st.
           tx_bind (tx_check (conflict (\<not> terminal st) ''A terminal operation cannot request cancellation.'')) (\<lambda>_.
           tx_bind (tx_query (\<lambda>db. fetchone (\<lambda>c. ct_operation_id c = operation_id) (db_operation_controls db))) (\<lambda>existing.
           tx_bind (case existing of
               Some _ \<Rightarrow> tx_return ()
             | None \<Rightarrow>
                 tx_bind clock_sample (\<lambda>t.
                 tx_bind (tx_lift (utc_now_text t)) (\<lambda>requested_at.
                 tx_execute (insert_control \<lparr>ct_operation_id = operation_id, ct_actor_json = Some actor_json,
                   ct_requested_at = Some requested_at\<rparr>)))) (\<lambda>_.
           tx_read (\<lambda>db. control_tx db operation_id))))))))"

definition recoverable :: "rat \<Rightarrow> database \<Rightarrow> operation_row \<Rightarrow> bool" where
  "recoverable now db o' \<longleftrightarrow>
     find_input (op_operation_id o') db \<noteq> None \<and>
     op_state o' \<notin> {os_value OS_SUCCEEDED, os_value OS_FAILED_COMPENSATED, os_value OS_FAILED_UNCOMPENSATED,
       os_value OS_CANCELLED} \<and>
     (case find_lease (op_operation_id o') db of
        None \<Rightarrow> True
      | Some l \<Rightarrow> ls_owner_id l = None \<or> ls_expires_at l \<le> now)"

definition list_recoverable :: "int \<Rightarrow> operation_ref list tx" where
  "list_recoverable limit =
     tx_bind (tx_check (raise_unless (1 \<le> limit \<and> limit \<le> 1000)
       (ContractValidationError ''limit must be an integer from 1 through 1000.''))) (\<lambda>_.
     tx_bind clock_sample (\<lambda>now.
     tx_read (\<lambda>db.
       map_res (\<lambda>o'. bind_res (load_execution_input_tx db (op_operation_id o')) (\<lambda>_.
           bind_res (operation_state_of (op_state o')) (\<lambda>st. operation_ref_of (op_operation_id o') (op_request_id o') st)))
         (take (nat limit) (sort_key (\<lambda>o'. (op_accepted_at o', op_operation_id o')) (filter (recoverable now db) (db_operations db)))))))"

section \<open>Leases and fences\<close>

definition validate_lease_input :: "string \<Rightarrow> rat \<Rightarrow> check" where
  "validate_lease_input owner_id ttl_seconds = first_error
     [require_text owner_id ''owner_id'' 255,
      raise_unless (0 < ttl_seconds \<and> ttl_seconds \<le> 86400)
        (ContractValidationError ''ttl_seconds must be greater than zero and no more than 86400.'')]"

definition require_nonterminal_operation :: "database \<Rightarrow> string \<Rightarrow> unit res" where
  "require_nonterminal_operation db operation_id =
     (case find_operation operation_id db of
        None \<Rightarrow> Inl (OperationConflict ''Unknown operation.'')
      | Some o' \<Rightarrow> bind_res (operation_state_of (op_state o')) (\<lambda>st.
          guarded (conflict (\<not> terminal st) ''Terminal operations cannot be leased.'') ()))"

definition execution_fence_of :: "string \<Rightarrow> string \<Rightarrow> int \<Rightarrow> rat \<Rightarrow> execution_fence res" where
  "execution_fence_of operation_id owner_id token expires_at =
     (let f = \<lparr>fe_operation_id = operation_id, fe_owner_id = owner_id, fe_fencing_token = token, fe_expires_at = expires_at\<rparr>
      in guarded (execution_fence_check f) f)"

definition active_lease :: "database \<Rightarrow> string \<Rightarrow> string \<Rightarrow> int \<Rightarrow> rat \<Rightarrow> lease_row res" where
  "active_lease db operation_id owner_id fencing_token now =
     (case find_lease operation_id db of
        Some row \<Rightarrow>
          if ls_owner_id row = Some owner_id \<and> ls_fencing_token row = fencing_token \<and> \<not> ls_expires_at row \<le> now
          then Inr row else Inl (LeaseConflict ''Lease owner or fencing token is stale.'')
      | None \<Rightarrow> Inl (LeaseConflict ''Lease owner or fencing token is stale.''))"

definition execution_scope :: "database \<Rightarrow> string \<Rightarrow> (string \<times> string \<times> string) res" where
  "execution_scope db operation_id =
     (case find_operation operation_id db of
        None \<Rightarrow> Inl (OperationConflict ''Unknown operation.'')
      | Some o' \<Rightarrow> Inr (op_host_id o', op_app o', op_environment o'))"

definition active_scope_lease :: "database \<Rightarrow> execution_fence \<Rightarrow> rat \<Rightarrow> scope_lease_row res" where
  "active_scope_lease db fence now =
     bind_res (execution_scope db (fe_operation_id fence)) (\<lambda>(host, app, env).
       case find_scope_lease host app env db of
         Some row \<Rightarrow>
           if sl_operation_id row = fe_operation_id fence \<and> sl_owner_id row = Some (fe_owner_id fence) \<and>
              sl_fencing_token row = fe_fencing_token fence \<and> \<not> sl_expires_at row \<le> now
           then Inr row
           else Inl (LeaseConflict ''Application execution scope owner or fencing token is stale.'')
       | None \<Rightarrow> Inl (LeaseConflict ''Application execution scope owner or fencing token is stale.''))"

definition acquire_lease :: "string \<Rightarrow> string \<Rightarrow> rat \<Rightarrow> execution_fence tx" where
  "acquire_lease operation_id owner_id ttl_seconds =
     tx_bind (tx_check (validate_lease_input owner_id ttl_seconds)) (\<lambda>_.
     transaction (
       tx_bind (tx_read (\<lambda>db. require_nonterminal_operation db operation_id)) (\<lambda>_.
       tx_bind clock_sample (\<lambda>now.
       tx_bind (tx_query (find_lease operation_id)) (\<lambda>row.
       tx_bind (case row of
           None \<Rightarrow> tx_return 1
         | Some r \<Rightarrow>
             if ls_owner_id r \<noteq> None \<and> ls_expires_at r > now
             then (if ls_owner_id r \<noteq> Some owner_id
                   then tx_raise (LeaseConflict ''Operation lease is held by another owner.'')
                   else tx_return (ls_fencing_token r))
             else tx_return (ls_fencing_token r + 1)) (\<lambda>token.
       (let proposed = now + ttl_seconds;
            expires_at = (case row of
                None \<Rightarrow> proposed
              | Some r \<Rightarrow> if ls_owner_id r = Some owner_id then max (ls_expires_at r) proposed else proposed)
        in tx_bind (tx_execute (upsert_lease \<lparr>ls_operation_id = operation_id, ls_owner_id = Some owner_id,
             ls_fencing_token = token, ls_expires_at = expires_at\<rparr>)) (\<lambda>_.
           tx_lift (execution_fence_of operation_id owner_id token expires_at)))))))))"

definition heartbeat_lease :: "string \<Rightarrow> string \<Rightarrow> int \<Rightarrow> rat \<Rightarrow> execution_fence tx" where
  "heartbeat_lease operation_id owner_id fencing_token ttl_seconds =
     tx_bind (tx_check (validate_lease_input owner_id ttl_seconds)) (\<lambda>_.
     transaction (
       tx_bind clock_sample (\<lambda>now.
       tx_bind (tx_read (\<lambda>db. active_lease db operation_id owner_id fencing_token now)) (\<lambda>row.
       (let expires_at = max (ls_expires_at row) (now + ttl_seconds) in
        tx_bind (tx_update (update_leases operation_id (\<lambda>r. r\<lparr>ls_expires_at := expires_at\<rparr>))) (\<lambda>_.
          tx_lift (execution_fence_of operation_id owner_id (ls_fencing_token row) expires_at)))))))"

definition release_lease :: "string \<Rightarrow> string \<Rightarrow> int \<Rightarrow> unit tx" where
  "release_lease operation_id owner_id fencing_token =
     transaction (
       tx_bind clock_sample (\<lambda>now.
       tx_bind (tx_read (\<lambda>db. active_lease db operation_id owner_id fencing_token now)) (\<lambda>_.
       tx_update (update_leases operation_id (\<lambda>r. r\<lparr>ls_owner_id := None, ls_expires_at := now\<rparr>)))))"

definition assert_fence :: "string \<Rightarrow> string option \<Rightarrow> int option \<Rightarrow> unit tx" where
  "assert_fence operation_id owner_id fencing_token =
     tx_bind (tx_query (find_lease operation_id)) (\<lambda>row.
       case row of
         None \<Rightarrow>
           if owner_id \<noteq> None \<or> fencing_token \<noteq> None
           then tx_raise (LeaseConflict ''No durable lease exists for this operation.'')
           else tx_return ()
       | Some _ \<Rightarrow>
           (case (owner_id, fencing_token) of
              (Some owner, Some token) \<Rightarrow>
                tx_bind clock_sample (\<lambda>now.
                tx_bind (tx_read (\<lambda>db. active_lease db operation_id owner token now)) (\<lambda>lease.
                tx_bind (tx_query (find_input operation_id)) (\<lambda>inp.
                  case inp of
                    None \<Rightarrow> tx_return ()
                  | Some _ \<Rightarrow>
                      tx_bind (tx_lift (execution_fence_of operation_id owner token (ls_expires_at lease))) (\<lambda>fence.
                      tx_bind (tx_read (\<lambda>db. active_scope_lease db fence now)) (\<lambda>_. tx_return ())))))
            | _ \<Rightarrow> tx_raise (LeaseConflict ''A leased operation requires its owner and fencing token.'')))"

text \<open>A lease of another operation, or of another owner, that is still active in the scope.\<close>

definition foreign_scope_lease :: "string \<Rightarrow> string \<Rightarrow> string \<Rightarrow> rat \<Rightarrow> string \<Rightarrow> string \<Rightarrow> database \<Rightarrow> bool" where
  "foreign_scope_lease host app env now operation_id owner_id db =
     list_ex (\<lambda>l. (case find_operation (ls_operation_id l) db of
           None \<Rightarrow> False
         | Some o' \<Rightarrow> op_host_id o' = host \<and> op_app o' = app \<and> op_environment o' = env) \<and>
         ls_owner_id l \<noteq> None \<and> ls_expires_at l > now \<and>
         (ls_operation_id l \<noteq> operation_id \<or> ls_owner_id l \<noteq> Some owner_id)) (db_operation_leases db)"

text \<open>The token and expiry a fence gets: those of the active lease it renews, or a new token above every earlier one.\<close>

definition next_fence :: "string \<Rightarrow> string \<Rightarrow> string \<Rightarrow> rat \<Rightarrow> rat \<Rightarrow> scope_lease_row option \<Rightarrow> database \<Rightarrow> int \<times> rat" where
  "next_fence host app env now ttl_seconds scope_lease db =
     (case scope_lease of
        Some l \<Rightarrow>
          if sl_owner_id l \<noteq> None \<and> sl_expires_at l > now
          then (sl_fencing_token l, max (sl_expires_at l) (now + ttl_seconds))
          else (max 0 (max (sl_fencing_token l) (max_or_zero (scope_tokens host app env db))) + 1, now + ttl_seconds)
      | None \<Rightarrow> (max 0 (max_or_zero (scope_tokens host app env db)) + 1, now + ttl_seconds))"

definition acquire_fence :: "string \<Rightarrow> string \<Rightarrow> rat \<Rightarrow> execution_fence tx" where
  "acquire_fence operation_id owner_id ttl_seconds =
     tx_bind (tx_check (validate_lease_input owner_id ttl_seconds)) (\<lambda>_.
     transaction (
       tx_bind (tx_read (\<lambda>db. require_nonterminal_operation db operation_id)) (\<lambda>_.
       tx_bind (tx_read (\<lambda>db. execution_scope db operation_id)) (\<lambda>(host, app, env).
       tx_bind clock_sample (\<lambda>now.
       tx_bind (tx_query (find_lease operation_id)) (\<lambda>operation_lease.
       tx_bind (tx_check (raise_unless (case operation_lease of
           None \<Rightarrow> True
         | Some l \<Rightarrow> \<not> (ls_owner_id l \<noteq> None \<and> ls_expires_at l > now \<and> ls_owner_id l \<noteq> Some owner_id))
         (LeaseConflict ''Operation lease is held by another owner.''))) (\<lambda>_.
       tx_bind (tx_query (foreign_scope_lease host app env now operation_id owner_id)) (\<lambda>foreign.
       tx_bind (tx_check (raise_unless (\<not> foreign)
         (LeaseConflict ''Application execution scope has an active legacy operation lease.''))) (\<lambda>_.
       tx_bind (tx_query (find_scope_lease host app env)) (\<lambda>scope_lease.
       tx_bind (tx_check (raise_unless (case scope_lease of
           None \<Rightarrow> True
         | Some l \<Rightarrow> \<not> (sl_owner_id l \<noteq> None \<and> sl_expires_at l > now \<and>
             (sl_operation_id l \<noteq> operation_id \<or> sl_owner_id l \<noteq> Some owner_id)))
         (LeaseConflict ''Application execution scope is held by another operation.''))) (\<lambda>_.
       tx_bind (tx_query (next_fence host app env now ttl_seconds scope_lease)) (\<lambda>(token, expires_at).
       tx_bind (tx_execute (upsert_scope_lease \<lparr>sl_host_id = host, sl_app = app, sl_environment = env,
         sl_operation_id = operation_id, sl_owner_id = Some owner_id, sl_fencing_token = token, sl_expires_at = expires_at\<rparr>)) (\<lambda>_.
       tx_bind (tx_execute (upsert_lease \<lparr>ls_operation_id = operation_id, ls_owner_id = Some owner_id,
         ls_fencing_token = token, ls_expires_at = expires_at\<rparr>)) (\<lambda>_.
       tx_lift (execution_fence_of operation_id owner_id token expires_at)))))))))))))))"

definition heartbeat_fence :: "execution_fence \<Rightarrow> rat \<Rightarrow> execution_fence tx" where
  "heartbeat_fence fence ttl_seconds =
     tx_bind (tx_check (validate_lease_input (fe_owner_id fence) ttl_seconds)) (\<lambda>_.
     transaction (
       tx_bind clock_sample (\<lambda>now.
       tx_bind (tx_read (\<lambda>db. active_lease db (fe_operation_id fence) (fe_owner_id fence) (fe_fencing_token fence) now)) (\<lambda>lease.
       tx_bind (tx_read (\<lambda>db. active_scope_lease db fence now)) (\<lambda>scope.
       (let expires_at = max (max (ls_expires_at lease) (sl_expires_at scope)) (now + ttl_seconds) in
        tx_bind (tx_update (update_leases (fe_operation_id fence) (\<lambda>r. r\<lparr>ls_expires_at := expires_at\<rparr>))) (\<lambda>_.
        tx_bind (tx_update (update_scope_leases (sl_host_id scope) (sl_app scope) (sl_environment scope)
          (\<lambda>r. r\<lparr>sl_expires_at := expires_at\<rparr>))) (\<lambda>_.
        tx_lift (execution_fence_of (fe_operation_id fence) (fe_owner_id fence) (fe_fencing_token fence) expires_at)))))))))"

definition release_fence :: "execution_fence \<Rightarrow> unit tx" where
  "release_fence fence =
     transaction (
       tx_bind clock_sample (\<lambda>now.
       tx_bind (tx_read (\<lambda>db. active_lease db (fe_operation_id fence) (fe_owner_id fence) (fe_fencing_token fence) now)) (\<lambda>_.
       tx_bind (tx_read (\<lambda>db. active_scope_lease db fence now)) (\<lambda>scope.
       tx_bind (tx_update (update_leases (fe_operation_id fence) (\<lambda>r. r\<lparr>ls_owner_id := None, ls_expires_at := now\<rparr>))) (\<lambda>_.
       tx_update (update_scope_leases (sl_host_id scope) (sl_app scope) (sl_environment scope)
         (\<lambda>r. r\<lparr>sl_owner_id := None, sl_expires_at := now\<rparr>)))))))"

definition assert_execution_fence :: "string \<Rightarrow> execution_fence \<Rightarrow> unit tx" where
  "assert_execution_fence operation_id fence =
     tx_bind (tx_check (raise_unless (fe_operation_id fence = operation_id)
       (LeaseConflict ''Execution fence identifies a different operation.''))) (\<lambda>_.
     tx_bind clock_sample (\<lambda>now.
     tx_bind (tx_read (\<lambda>db. active_lease db operation_id (fe_owner_id fence) (fe_fencing_token fence) now)) (\<lambda>_.
     tx_bind (tx_read (\<lambda>db. active_scope_lease db fence now)) (\<lambda>_. tx_return ()))))"

section \<open>Events\<close>

definition append_event :: "operation_event \<Rightarrow> string \<Rightarrow> bool \<Rightarrow> unit tx" where
  "append_event event payload_json allow_terminal =
     tx_bind (tx_query (find_operation (ev_operation_id event))) (\<lambda>operation.
       case operation of
         None \<Rightarrow> tx_raise (OperationConflict ''Cannot append an event for an unknown operation.'')
       | Some o' \<Rightarrow>
           tx_bind (tx_lift (operation_state_of (op_state o'))) (\<lambda>st.
           tx_bind (tx_check (first_error
             [conflict (\<not> terminal st) ''Cannot append an event after terminal commit.'',
              conflict (\<not> (terminal (ev_state event) \<and> \<not> allow_terminal))
                ''Terminal state may only be appended with an atomic receipt commit.'',
              conflict (ev_host_id event = op_host_id o' \<and> ev_app event = op_app o' \<and>
                  ev_environment event = op_environment o' \<and>
                  (ev_revision_id event = None \<or> ev_revision_id event = Some (op_revision_id o')))
                ''Event identity does not match its operation.''])) (\<lambda>_.
           tx_bind (tx_query (\<lambda>db. last_row (event_rows (ev_operation_id event) db))) (\<lambda>previous.
           tx_bind (tx_check (first_error
             [conflict (ev_sequence event = (case previous of None \<Rightarrow> 1 | Some r \<Rightarrow> oe_sequence r + 1))
                ''Event sequence must be the next strict per-operation sequence.'',
              conflict (ev_previous_event_digest event = map_option oe_event_digest previous)
                ''Event digest chain does not match durable history.''])) (\<lambda>_.
           tx_bind (tx_execute (insert_event \<lparr>oe_operation_id = ev_operation_id event, oe_sequence = ev_sequence event,
             oe_event_id = ev_event_id event, oe_event_digest = canonical_digest (operation_event_val event),
             oe_payload_json = payload_json\<rparr>)) (\<lambda>_.
           tx_bind (tx_execute (insert_host_event \<lparr>he_cursor = 0, he_event_id = ev_event_id event, he_event_type = ''operation'',
             he_operation_id = Some (ev_operation_id event), he_workload_run_id = None,
             he_event_digest = canonical_digest (operation_event_val event), he_occurred_at = ev_occurred_at event,
             he_payload_json = payload_json\<rparr>)) (\<lambda>_.
           tx_update (set_operation_state (ev_operation_id event) (os_value (ev_state event))))))))))"

definition append :: "operation_event \<Rightarrow> string option \<Rightarrow> int option \<Rightarrow> unit tx" where
  "append event lease_owner fencing_token =
     tx_bind (tx_lift (bounded_json (operation_event_val event))) (\<lambda>payload_json.
     transaction (
       tx_bind (assert_fence (ev_operation_id event) lease_owner fencing_token) (\<lambda>_.
       append_event event payload_json False)))"

definition latest_cursor :: "database \<Rightarrow> int" where
  "latest_cursor db = max_or_zero (map he_cursor (db_host_events db))"

definition acknowledge_host_events :: "string \<Rightarrow> int \<Rightarrow> int tx" where
  "acknowledge_host_events consumer_id cursor =
     tx_bind (tx_check (first_error
       [require_text consumer_id ''consumer_id'' 2048,
        raise_unless (0 \<le> cursor) (ContractValidationError ''cursor must be a non-negative integer.'')])) (\<lambda>_.
     transaction (
       tx_bind (tx_query latest_cursor) (\<lambda>latest.
       tx_bind (tx_check (conflict (cursor \<le> latest) ''Event acknowledgement exceeds the host event cursor.'')) (\<lambda>_.
       tx_bind (tx_query (\<lambda>db. fetchone (\<lambda>d. dv_consumer_id d = consumer_id) (db_event_delivery db))) (\<lambda>existing.
       (let acknowledged = max cursor (case existing of None \<Rightarrow> 0 | Some d \<Rightarrow> dv_acknowledged_cursor d) in
        tx_bind clock_sample (\<lambda>t.
        tx_bind (tx_lift (utc_now_text t)) (\<lambda>now.
        tx_bind (tx_execute (upsert_delivery \<lparr>dv_consumer_id = consumer_id, dv_acknowledged_cursor = acknowledged,
          dv_updated_at = now\<rparr>)) (\<lambda>_.
        tx_return acknowledged)))))))))"

definition host_event_acknowledgement :: "string \<Rightarrow> int tx" where
  "host_event_acknowledgement consumer_id =
     tx_bind (tx_check (require_text consumer_id ''consumer_id'' 2048)) (\<lambda>_.
     tx_query (\<lambda>db. case fetchone (\<lambda>d. dv_consumer_id d = consumer_id) (db_event_delivery db) of
         None \<Rightarrow> 0
       | Some d \<Rightarrow> dv_acknowledged_cursor d))"

end
