(* ===== verification/Lifecycle.thy ===== *)
theory Lifecycle
  imports Journal
begin

text \<open>
  The revision lifecycle and the active revision of \<^verbatim>\<open>SQLiteOperationJournal\<close>: the transition
  table, the fenced append of a lifecycle state, the verified history, and the compare-and-swap of
  the active revision of an application scope.
\<close>

section \<open>The transition table\<close>

fun REVISION_TRANSITIONS :: "revision_state \<Rightarrow> revision_state list" where
  "REVISION_TRANSITIONS RS_CREATED = [RS_STAGED, RS_FAILED]"
| "REVISION_TRANSITIONS RS_STAGED = [RS_PREFLIGHT_PASSED, RS_FAILED]"
| "REVISION_TRANSITIONS RS_PREFLIGHT_PASSED = [RS_STARTING, RS_FAILED]"
| "REVISION_TRANSITIONS RS_STARTING = [RS_READY, RS_FAILED]"
| "REVISION_TRANSITIONS RS_READY = [RS_TRAFFIC_CANDIDATE, RS_ACTIVE, RS_FAILED]"
| "REVISION_TRANSITIONS RS_TRAFFIC_CANDIDATE = [RS_ACTIVE, RS_FAILED]"
| "REVISION_TRANSITIONS RS_ACTIVE = [RS_DRAINING, RS_ROLLBACK_STARTING]"
| "REVISION_TRANSITIONS RS_DRAINING = [RS_INACTIVE, RS_ROLLBACK_STARTING]"
| "REVISION_TRANSITIONS RS_INACTIVE = [RS_GARBAGE_COLLECTABLE, RS_ROLLBACK_STARTING]"
| "REVISION_TRANSITIONS RS_ROLLBACK_STARTING = [RS_ACTIVE, RS_FAILED]"
| "REVISION_TRANSITIONS RS_FAILED = [RS_GARBAGE_COLLECTABLE]"
| "REVISION_TRANSITIONS RS_GARBAGE_COLLECTABLE = []"

definition revision_state_of :: "string \<Rightarrow> revision_state res" where
  "revision_state_of s = enum_of rs_all rs_value s"

section \<open>Appending a state\<close>

text \<open>The sequence number of the next entry, when the table permits it.\<close>

definition next_lifecycle_sequence :: "lifecycle_row option \<Rightarrow> revision_state \<Rightarrow> int res" where
  "next_lifecycle_sequence previous state =
     (case previous of
        None \<Rightarrow> guarded (conflict (state = RS_CREATED) ''The first revision lifecycle state must be created.'') 1
      | Some row \<Rightarrow>
          bind_res (revision_state_of (lr_state row)) (\<lambda>current.
          guarded (conflict (state \<in> set (REVISION_TRANSITIONS current))
            ''Revision lifecycle transition is not permitted.'') (lr_sequence row + 1)))"

definition append_revision_state_tx ::
  "string \<Rightarrow> revision_state \<Rightarrow> execution_fence \<Rightarrow> revision_lifecycle_entry tx" where
  "append_revision_state_tx operation_id state fence =
     tx_bind (tx_query (find_operation operation_id)) (\<lambda>operation.
       case operation of
         None \<Rightarrow> tx_raise (OperationConflict ''Unknown operation.'')
       | Some o' \<Rightarrow>
           tx_bind (tx_lift (operation_state_of (op_state o'))) (\<lambda>st.
           tx_bind (tx_check (conflict (\<not> terminal st)
             ''A terminal operation cannot append revision lifecycle state.'')) (\<lambda>_.
           tx_bind (tx_read (\<lambda>db. load_execution_input_tx db operation_id)) (\<lambda>i.
           tx_bind (tx_query (\<lambda>db. last_row (lifecycle_rows operation_id db))) (\<lambda>previous.
           tx_bind (tx_lift (next_lifecycle_sequence previous state)) (\<lambda>sequence.
           tx_bind clock_sample (\<lambda>t.
           tx_bind (tx_lift (utc_now_text t)) (\<lambda>occurred_at.
           (let entry = \<lparr>le_operation_id = operation_id, le_sequence = sequence,
                le_revision_id = rv_revision_id (ei_revision i), le_revision_digest = content_digest (ei_revision i),
                le_state = state, le_occurred_at = occurred_at\<rparr>
            in tx_bind (tx_check (revision_lifecycle_entry_check entry)) (\<lambda>_.
               tx_bind (tx_lift (bounded_json (revision_lifecycle_entry_val entry))) (\<lambda>payload_json.
               tx_bind (tx_execute (insert_lifecycle \<lparr>lr_operation_id = operation_id, lr_sequence = sequence,
                 lr_revision_id = le_revision_id entry, lr_revision_digest = le_revision_digest entry,
                 lr_state = rs_value state, lr_occurred_at = occurred_at, lr_lease_owner = fe_owner_id fence,
                 lr_fencing_token = fe_fencing_token fence, lr_payload_json = payload_json\<rparr>)) (\<lambda>_.
               tx_return entry))))))))))))"

definition append_revision_state ::
  "string \<Rightarrow> revision_state \<Rightarrow> execution_fence \<Rightarrow> revision_lifecycle_entry tx" where
  "append_revision_state operation_id state fence =
     transaction (
       tx_bind (assert_execution_fence operation_id fence) (\<lambda>_.
       append_revision_state_tx operation_id state fence))"

section \<open>Verified history\<close>

definition permitted_after :: "revision_state option \<Rightarrow> revision_state \<Rightarrow> bool" where
  "permitted_after previous state =
     (case previous of None \<Rightarrow> state = RS_CREATED | Some p \<Rightarrow> state \<in> set (REVISION_TRANSITIONS p))"

definition lifecycle_reconciles :: "string \<Rightarrow> int \<Rightarrow> lifecycle_row \<Rightarrow> revision_lifecycle_entry \<Rightarrow> bool" where
  "lifecycle_reconciles operation_id expected_sequence row entry \<longleftrightarrow>
     le_operation_id entry = operation_id \<and> le_sequence entry = expected_sequence \<and>
     lr_sequence row = expected_sequence \<and> le_revision_id entry = lr_revision_id row \<and>
     le_revision_digest entry = lr_revision_digest row \<and> rs_value (le_state entry) = lr_state row \<and>
     le_occurred_at entry = lr_occurred_at row \<and>
     canonical_json (revision_lifecycle_entry_val entry) = lr_payload_json row \<and> 1 \<le> lr_fencing_token row"

fun verify_lifecycle_chain ::
  "string \<Rightarrow> int \<Rightarrow> revision_state option \<Rightarrow> lifecycle_row list \<Rightarrow> revision_lifecycle_entry list res" where
  "verify_lifecycle_chain operation_id n previous [] = Inr []"
| "verify_lifecycle_chain operation_id n previous (row # rows) =
     bind_res (wrap_integrity ''Revision lifecycle payload is invalid.''
       (bind_res (loads (lr_payload_json row)) lifecycle_entry_from_payload)) (\<lambda>entry.
     bind_res (guarded (first_error
       [integrity (lifecycle_reconciles operation_id n row entry) ''Revision lifecycle durable columns do not reconcile.'',
        integrity (permitted_after previous (le_state entry)) ''Revision lifecycle contains an invalid transition.'']) ()) (\<lambda>_.
     bind_res (verify_lifecycle_chain operation_id (n + 1) (Some (le_state entry)) rows) (\<lambda>entries.
       Inr (entry # entries))))"

definition verified_revision_history :: "database \<Rightarrow> string \<Rightarrow> revision_lifecycle_entry list res" where
  "verified_revision_history db operation_id =
     verify_lifecycle_chain operation_id 1 None (lifecycle_rows operation_id db)"

definition binds_input :: "execution_input \<Rightarrow> revision_lifecycle_entry \<Rightarrow> bool" where
  "binds_input i entry \<longleftrightarrow> le_revision_id entry = rv_revision_id (ei_revision i) \<and>
     le_revision_digest entry = content_digest (ei_revision i)"

definition revision_history :: "string \<Rightarrow> revision_lifecycle_entry list tx" where
  "revision_history operation_id = tx_read (\<lambda>db.
     bind_res (load_execution_input_tx db operation_id) (\<lambda>_.
     bind_res (verified_revision_history db operation_id) (\<lambda>history.
     bind_res (load_execution_input_tx db operation_id) (\<lambda>i.
     guarded (integrity (list_all (binds_input i) history) ''Revision lifecycle does not bind the execution input.'') history))))"

section \<open>The active revision\<close>

definition active_revision_from_row :: "active_row \<Rightarrow> active_revision res" where
  "active_revision_from_row row =
     (let a = \<lparr>ar_host_id = at_host_id row, ar_app = at_app row, ar_environment = at_environment row,
        ar_operation_id = at_operation_id row, ar_revision_id = at_revision_id row,
        ar_revision_digest = at_revision_digest row, ar_generation = at_generation row, ar_updated_at = at_updated_at row\<rparr>
      in guarded (active_revision_check a) a)"

definition active_revision_read :: "string \<Rightarrow> string \<Rightarrow> string \<Rightarrow> active_revision option tx" where
  "active_revision_read host_id app environment = tx_read (\<lambda>db.
     case find_active host_id app environment db of
       None \<Rightarrow> Inr None
     | Some row \<Rightarrow> as_integrity ''Active revision payload is invalid.''
         (bind_res (active_revision_from_row row) (\<lambda>active.
          guarded (integrity (canonical_json (active_revision_val active) = at_payload_json row)
            ''Active revision payload is not canonical.'') (Some active))))"

definition cas_active_revision_tx :: "string \<Rightarrow> string option \<Rightarrow> execution_fence \<Rightarrow> active_revision tx" where
  "cas_active_revision_tx operation_id expected fence =
     tx_bind (tx_check (optional (\<lambda>d. require_digest d ''expected_active_revision_digest'') expected)) (\<lambda>_.
     tx_bind (tx_query (find_operation operation_id)) (\<lambda>operation.
       case operation of
         None \<Rightarrow> tx_raise (OperationConflict ''Unknown operation.'')
       | Some o' \<Rightarrow>
           tx_bind (tx_query (find_active (op_host_id o') (op_app o') (op_environment o'))) (\<lambda>current.
           tx_bind (tx_check (conflict (map_option at_revision_digest current = expected)
             ''Active revision compare-and-swap conflict.'')) (\<lambda>_.
           tx_bind (tx_read (\<lambda>db. load_execution_input_tx db operation_id)) (\<lambda>i.
           tx_bind (append_revision_state_tx operation_id RS_ACTIVE fence) (\<lambda>_.
           tx_bind clock_sample (\<lambda>t.
           tx_bind (tx_lift (utc_now_text t)) (\<lambda>updated_at.
           (let active = \<lparr>ar_host_id = op_host_id o', ar_app = op_app o', ar_environment = op_environment o',
                ar_operation_id = operation_id, ar_revision_id = rv_revision_id (ei_revision i),
                ar_revision_digest = content_digest (ei_revision i),
                ar_generation = (case current of None \<Rightarrow> 1 | Some row \<Rightarrow> at_generation row + 1), ar_updated_at = updated_at\<rparr>
            in tx_bind (tx_check (active_revision_check active)) (\<lambda>_.
               tx_bind (tx_lift (bounded_json (active_revision_val active))) (\<lambda>payload_json.
               tx_bind (tx_execute (upsert_active \<lparr>at_host_id = ar_host_id active, at_app = ar_app active,
                 at_environment = ar_environment active, at_operation_id = ar_operation_id active,
                 at_revision_id = ar_revision_id active, at_revision_digest = ar_revision_digest active,
                 at_generation = ar_generation active, at_updated_at = ar_updated_at active,
                 at_payload_json = payload_json\<rparr>)) (\<lambda>_.
               tx_return active))))))))))))"

definition compare_and_swap_active_revision :: "string \<Rightarrow> string option \<Rightarrow> execution_fence \<Rightarrow> active_revision tx" where
  "compare_and_swap_active_revision operation_id expected fence =
     transaction (
       tx_bind (assert_execution_fence operation_id fence) (\<lambda>_.
       cas_active_revision_tx operation_id expected fence))"

end
