(* ===== verification/Receipts.thy ===== *)
theory Receipts
  imports Lifecycle
begin

text \<open>
  Terminal receipts of \<^verbatim>\<open>SQLiteOperationJournal\<close>: the commit of a receipt together with the
  terminal event, the atomic success commit (active revision, phase events, receipt and marker in one
  transaction) and the verified reads.
\<close>

section \<open>Committing a receipt\<close>

text \<open>\<^verbatim>\<open>dataclasses.replace\<close> constructs each contract again, so every check of a receipt runs again.\<close>

definition revalidate_receipt :: "terminal_receipt \<Rightarrow> terminal_receipt res" where
  "revalidate_receipt receipt = guarded (first_error
     [reject_verification_summary_prose (vr_checks (rc_verification receipt)),
      first_error (map verification_check_check (vr_checks (rc_verification receipt))),
      verification_result_check (rc_verification receipt),
      compensation_result_check (rc_compensation receipt),
      terminal_receipt_check receipt]) receipt"

definition next_sequence :: "event_row option \<Rightarrow> int" where
  "next_sequence previous = (case previous of None \<Rightarrow> 1 | Some r \<Rightarrow> oe_sequence r + 1)"

text \<open>The comparison with the stored plan claims stops at the first difference.\<close>

definition receipt_binds ::
  "terminal_receipt \<Rightarrow> operation_row \<Rightarrow> approval_row \<Rightarrow> plan_row \<Rightarrow> json \<Rightarrow> bool res" where
  "receipt_binds r o' a p claims =
     (if \<not> (rc_operation r = op_operation_class o' \<and> rc_plan_id r = av_plan_id a \<and>
            rc_plan_digest r = pr_plan_digest p \<and> rc_decision_id r = op_decision_id o' \<and>
            rc_host_id r = op_host_id o' \<and> rc_app r = op_app o' \<and> rc_environment r = op_environment o' \<and>
            rc_desired_revision_id r = op_revision_id o')
      then Inr False
      else bind_res (obj_get claims ''revision_digest'') (\<lambda>revision_digest.
        if revision_digest \<noteq> JStr (rc_desired_revision_digest r) then Inr False
        else bind_res (obj_get claims ''artifact_digests'') (\<lambda>artifact_digests.
          Inr (artifact_digests = JList (map JStr (rc_artifact_digests r))))))"

definition terminal_event_of ::
  "terminal_receipt \<Rightarrow> string \<Rightarrow> operation_state \<Rightarrow> event_row option \<Rightarrow> operation_event" where
  "terminal_event_of r hex state previous =
     \<lparr>ev_event_id = ''event_'' @ hex, ev_operation_id = rc_operation_id r, ev_sequence = next_sequence previous,
      ev_event_type = ''operation.terminal'', ev_occurred_at = rc_completed_at r, ev_state = state,
      ev_host_id = rc_host_id r, ev_app = rc_app r, ev_environment = rc_environment r,
      ev_revision_id = Some (rc_desired_revision_id r), ev_message = None, ev_evidence_digests = [],
      ev_previous_event_digest = map_option oe_event_digest previous\<rparr>"

definition commit_receipt_new ::
  "terminal_receipt \<Rightarrow> string \<Rightarrow> operation_row \<Rightarrow> approval_row \<Rightarrow> plan_row \<Rightarrow> bool tx" where
  "commit_receipt_new validated receipt_json o' a p =
     tx_bind (tx_lift (operation_state_of (op_state o'))) (\<lambda>st.
     tx_bind (tx_check (conflict (\<not> terminal st) ''Operation is already terminal.'')) (\<lambda>_.
     tx_bind (tx_lift (loads (pr_payload_json p))) (\<lambda>claims.
     tx_bind (tx_lift (receipt_binds validated o' a p claims)) (\<lambda>binds.
     tx_bind (tx_check (conflict binds ''Terminal receipt does not bind the accepted operation and plan.'')) (\<lambda>_.
     tx_bind (tx_query (\<lambda>db. last_row (event_rows (rc_operation_id validated) db))) (\<lambda>previous.
     tx_bind fresh_uuid (\<lambda>hex.
     tx_bind (tx_lift (operation_state_of (ro_value (rc_outcome validated)))) (\<lambda>state.
     (let event = terminal_event_of validated hex state previous in
     tx_bind (tx_check (operation_event_check event)) (\<lambda>_.
     tx_bind (tx_lift (bounded_json (operation_event_val event))) (\<lambda>payload_json.
     tx_bind (append_event event payload_json True) (\<lambda>_.
     tx_bind (tx_execute (insert_receipt \<lparr>tr_receipt_id = rc_receipt_id validated,
       tr_operation_id = rc_operation_id validated, tr_outcome = ro_value (rc_outcome validated),
       tr_receipt_digest = canonical_digest (terminal_receipt_val validated), tr_payload_json = receipt_json\<rparr>)) (\<lambda>_.
     tx_return True)))))))))))))"

definition commit_receipt_tx :: "terminal_receipt \<Rightarrow> string \<Rightarrow> bool tx" where
  "commit_receipt_tx validated receipt_json =
     tx_bind (tx_query (find_receipt (rc_operation_id validated))) (\<lambda>existing.
       case existing of
         Some row \<Rightarrow>
           tx_bind (tx_read (\<lambda>db. verified_events db (rc_operation_id validated))) (\<lambda>_.
           if tr_payload_json row = receipt_json then tx_return False
           else tx_raise (OperationConflict ''Operation already has a different terminal receipt.''))
       | None \<Rightarrow>
           tx_bind (tx_query (find_accepted (rc_operation_id validated))) (\<lambda>operation.
             case operation of
               None \<Rightarrow> tx_raise (OperationConflict ''Cannot commit a receipt for an unknown operation.'')
             | Some (o', a, p) \<Rightarrow> commit_receipt_new validated receipt_json o' a p))"

definition commit_receipt :: "terminal_receipt \<Rightarrow> string option \<Rightarrow> int option \<Rightarrow> unit tx" where
  "commit_receipt receipt lease_owner fencing_token =
     tx_bind (tx_lift (revalidate_receipt receipt)) (\<lambda>validated.
     tx_bind (tx_lift (bounded_json (terminal_receipt_val validated))) (\<lambda>receipt_json.
     transaction (
       tx_bind (assert_fence (rc_operation_id validated) lease_owner fencing_token) (\<lambda>_.
       tx_bind (commit_receipt_tx validated receipt_json) (\<lambda>_. tx_return ())))))"

section \<open>The atomic success commit\<close>

definition phase_event_of ::
  "terminal_receipt \<Rightarrow> string \<Rightarrow> int \<Rightarrow> string option \<Rightarrow> string \<Rightarrow> string list \<Rightarrow> operation_event" where
  "phase_event_of r hex sequence previous_digest event_type evidence_digests =
     \<lparr>ev_event_id = ''event_'' @ hex, ev_operation_id = rc_operation_id r, ev_sequence = sequence,
      ev_event_type = event_type, ev_occurred_at = rc_completed_at r, ev_state = OS_EXECUTING,
      ev_host_id = rc_host_id r, ev_app = rc_app r, ev_environment = rc_environment r,
      ev_revision_id = Some (rc_desired_revision_id r), ev_message = None,
      ev_evidence_digests = evidence_digests, ev_previous_event_digest = previous_digest\<rparr>"

fun append_phase_events :: "terminal_receipt \<Rightarrow> int \<Rightarrow> string option \<Rightarrow> (string \<times> string list) list \<Rightarrow> unit tx" where
  "append_phase_events r sequence previous_digest [] = tx_return ()"
| "append_phase_events r sequence previous_digest ((event_type, evidence) # required) =
     tx_bind fresh_uuid (\<lambda>hex.
     (let event = phase_event_of r hex sequence previous_digest event_type evidence in
     tx_bind (tx_check (operation_event_check event)) (\<lambda>_.
     tx_bind (tx_lift (bounded_json (operation_event_val event))) (\<lambda>payload_json.
     tx_bind (append_event event payload_json False) (\<lambda>_.
     append_phase_events r (sequence + 1) (Some (canonical_digest (operation_event_val event))) required)))))"

definition completion_events :: "terminal_receipt \<Rightarrow> (string \<times> string list) list" where
  "completion_events r =
     [(''phase.commit.completed'', [rc_desired_revision_digest r]),
      (''phase.emit_receipt.started'', []),
      (''phase.emit_receipt.completed'', [canonical_digest (terminal_receipt_val r)])]"

definition event_types :: "string \<Rightarrow> database \<Rightarrow> json list res" where
  "event_types operation_id db =
     map_res (\<lambda>row. bind_res (loads (oe_payload_json row)) (\<lambda>j. obj_get j ''event_type''))
       (filter (\<lambda>r. oe_operation_id r = operation_id) (db_operation_events db))"

definition append_success_phase_events_tx :: "terminal_receipt \<Rightarrow> unit tx" where
  "append_success_phase_events_tx r =
     tx_bind (tx_read (\<lambda>db. verified_events db (rc_operation_id r))) (\<lambda>_.
     tx_bind (tx_read (event_types (rc_operation_id r))) (\<lambda>existing_types.
     tx_bind (tx_check (conflict (\<not> list_ex (\<lambda>e. JStr (fst e) \<in> set existing_types) (completion_events r))
       ''Success phase completion events may only be committed atomically.'')) (\<lambda>_.
     tx_bind (tx_query (\<lambda>db. last_row (event_rows (rc_operation_id r) db))) (\<lambda>previous.
     append_phase_events r (next_sequence previous) (map_option oe_event_digest previous)
       ((if JStr ''phase.commit.started'' \<in> set existing_types then [] else [(''phase.commit.started'', [])]) @
        completion_events r)))))"

text \<open>The branch of a retried commit: the receipt, its events, the marker and the active revision must still agree.\<close>

definition commit_success_existing :: "terminal_receipt \<Rightarrow> string \<Rightarrow> receipt_row \<Rightarrow> active_revision tx" where
  "commit_success_existing validated receipt_json existing =
     tx_bind (tx_check (conflict (tr_payload_json existing = receipt_json)
       ''Operation already has a different terminal receipt.'')) (\<lambda>_.
     tx_bind (tx_read (\<lambda>db. verified_events db (rc_operation_id validated))) (\<lambda>_.
     tx_bind (tx_query (\<lambda>db. fetchone (\<lambda>m. as_operation_id m = rc_operation_id validated) (db_atomic_success_commits db))) (\<lambda>marker.
     tx_bind (tx_query (find_active (rc_host_id validated) (rc_app validated) (rc_environment validated))) (\<lambda>active.
     (case (marker, active) of
        (Some m, Some row) \<Rightarrow>
          if at_operation_id row = rc_operation_id validated \<and>
             at_revision_digest row = rc_desired_revision_digest validated \<and>
             as_active_generation m = at_generation row
          then tx_lift (active_revision_from_row row)
          else tx_raise (IntegrityError ''Atomic success receipt does not reconcile with active revision.'')
      | _ \<Rightarrow> tx_raise (IntegrityError ''Atomic success receipt does not reconcile with active revision.''))))))"

definition commit_success_new ::
  "terminal_receipt \<Rightarrow> string \<Rightarrow> string option \<Rightarrow> execution_fence \<Rightarrow> active_revision tx" where
  "commit_success_new validated receipt_json expected fence =
     tx_bind (tx_read (\<lambda>db. control_tx db (rc_operation_id validated))) (\<lambda>control.
     tx_bind clock_sample (\<lambda>t.
     tx_bind (tx_lift (from_timestamp t)) (\<lambda>now.
     tx_bind (tx_check (conflict (\<not> ec_cancellation_requested control)
       ''Successful commit is blocked by durable cancellation.'')) (\<lambda>_.
     tx_bind (tx_lift (case ec_deadline control of
         None \<Rightarrow> Inr True
       | Some d \<Rightarrow> bind_res (parse_utc d) (\<lambda>deadline. Inr (deadline \<le> now)))) (\<lambda>overdue.
     tx_bind (tx_check (conflict (\<not> overdue) ''Successful commit is blocked by the execution deadline.'')) (\<lambda>_.
     tx_bind (tx_query (find_active (rc_host_id validated) (rc_app validated) (rc_environment validated))) (\<lambda>current.
     tx_bind (tx_check (conflict (rc_previous_revision_id validated = map_option at_revision_id current)
       ''Successful receipt does not bind the exact predecessor revision.'')) (\<lambda>_.
     tx_bind (cas_active_revision_tx (rc_operation_id validated) expected fence) (\<lambda>active.
     tx_bind (tx_check (conflict (rc_active_revision_id validated = Some (ar_revision_id active) \<and>
         rc_active_revision_digest validated = Some (ar_revision_digest active))
       ''Successful receipt does not bind the activated revision.'')) (\<lambda>_.
     tx_bind (append_success_phase_events_tx validated) (\<lambda>_.
     tx_bind (commit_receipt_tx validated receipt_json) (\<lambda>_.
     tx_bind (tx_execute (insert_atomic \<lparr>as_operation_id = rc_operation_id validated,
       as_active_generation = ar_generation active\<rparr>)) (\<lambda>_.
     tx_return active)))))))))))))"

definition commit_success :: "terminal_receipt \<Rightarrow> string option \<Rightarrow> execution_fence \<Rightarrow> active_revision tx" where
  "commit_success receipt expected fence =
     tx_bind (tx_lift (revalidate_receipt receipt)) (\<lambda>validated.
     tx_bind (tx_check (conflict (rc_outcome validated = RO_SUCCEEDED)
       ''Atomic success requires a succeeded terminal receipt.'')) (\<lambda>_.
     tx_bind (tx_lift (bounded_json (terminal_receipt_val validated))) (\<lambda>receipt_json.
     transaction (
       tx_bind (assert_execution_fence (rc_operation_id validated) fence) (\<lambda>_.
       tx_bind (tx_query (find_receipt (rc_operation_id validated))) (\<lambda>existing.
         case existing of
           Some row \<Rightarrow> commit_success_existing validated receipt_json row
         | None \<Rightarrow> commit_success_new validated receipt_json expected fence))))))"

section \<open>Reads\<close>

definition receipt_payload :: "string \<Rightarrow> json option tx" where
  "receipt_payload operation_id = tx_read (\<lambda>db.
     case find_receipt operation_id db of
       None \<Rightarrow> Inr None
     | Some row \<Rightarrow>
         bind_res (verified_events db operation_id) (\<lambda>_.
         bind_res (wrap_integrity ''Terminal receipt payload is invalid.'' (loads (tr_payload_json row))) (\<lambda>payload.
         guarded (integrity (is_obj payload) ''Terminal receipt payload is invalid.'') (Some payload))))"

definition receipt :: "string \<Rightarrow> terminal_receipt option tx" where
  "receipt operation_id = tx_read (\<lambda>db.
     bind_res (verified_events db operation_id) (\<lambda>_.
     case find_receipt operation_id db of
       None \<Rightarrow> Inr None
     | Some row \<Rightarrow> wrap_integrity ''Terminal receipt payload is invalid.''
         (bind_res (loads (tr_payload_json row)) (\<lambda>j. bind_res (receipt_from_payload j) (\<lambda>r. Inr (Some r))))))"

record operation_summary =
  su_operation :: operation_row
  su_receipt :: "receipt_row option"

definition list_operations :: "int \<Rightarrow> operation_state option \<Rightarrow> operation_summary list tx" where
  "list_operations limit state =
     tx_bind (tx_check (raise_unless (1 \<le> limit \<and> limit \<le> 1000)
       (ContractValidationError ''limit must be an integer from 1 through 1000.''))) (\<lambda>_.
     tx_query (\<lambda>db.
       map (\<lambda>o'. \<lparr>su_operation = o', su_receipt = find_receipt (op_operation_id o') db\<rparr>)
         (take (nat limit) (rev (sort_key (\<lambda>o'. (op_accepted_at o', op_operation_id o'))
           (filter (\<lambda>o'. case state of None \<Rightarrow> True | Some st \<Rightarrow> op_state o' = os_value st) (db_operations db)))))))"

end
