(* ===== verification/Integrity.thy ===== *)
theory Integrity
  imports Receipts
begin

text \<open>
  The part of the semantic integrity check of the journal that concerns the operation tables:
  every event chain, the host event stream, delivery cursors, execution inputs, controls, scope
  leases, the revision lifecycle, the active revisions and the atomic success markers.
\<close>

definition each_ok :: "('a \<Rightarrow> unit res) \<Rightarrow> 'a list \<Rightarrow> unit res" where
  "each_ok f xs = bind_res (map_res f xs) (\<lambda>_. Inr ())"

definition discard :: "'a res \<Rightarrow> unit res" where
  "discard m = bind_res m (\<lambda>_. Inr ())"

section \<open>Host events\<close>

definition mirrors_operation_event :: "database \<Rightarrow> host_event_row \<Rightarrow> bool" where
  "mirrors_operation_event db h \<longleftrightarrow> he_operation_id h \<noteq> None \<and>
     (case fetchone (\<lambda>e. oe_event_id e = he_event_id h) (db_operation_events db) of
        None \<Rightarrow> False
      | Some e \<Rightarrow> oe_event_digest e = he_event_digest h \<and> oe_payload_json e = he_payload_json h)"

definition host_stream_reconciles :: "database \<Rightarrow> bool" where
  "host_stream_reconciles db \<longleftrightarrow>
     (let host_operation_events = filter (\<lambda>h. he_event_type h = ''operation'') (db_host_events db) in
      length host_operation_events = length (db_operation_events db) \<and>
      list_all (mirrors_operation_event db) host_operation_events)"

definition known_host_event :: "host_event_row \<Rightarrow> bool" where
  "known_host_event h \<longleftrightarrow>
     (he_event_type h = ''operation'' \<and> he_operation_id h \<noteq> None \<and> he_workload_run_id h = None) \<or>
     (he_event_type h = ''workload'' \<and> he_operation_id h = None \<and> he_workload_run_id h \<noteq> None)"

definition check_host_events :: "database \<Rightarrow> unit res" where
  "check_host_events db = guarded (first_error
     [integrity (host_stream_reconciles db) ''Host event stream does not reconcile with operation events.'',
      integrity (list_all known_host_event (db_host_events db)) ''Host event stream contains an invalid event type.'']) ()"

definition check_delivery :: "database \<Rightarrow> unit res" where
  "check_delivery db = each_ok (\<lambda>row.
     bind_res (guarded (require_text (dv_consumer_id row) ''consumer_id'' 2048) ()) (\<lambda>_.
     bind_res (parse_utc (dv_updated_at row)) (\<lambda>_.
     guarded (integrity (0 \<le> dv_acknowledged_cursor row \<and> dv_acknowledged_cursor row \<le> latest_cursor db)
       ''Event delivery cursor exceeds durable history.'') ())))
     (sort_key dv_consumer_id (db_event_delivery db))"

section \<open>Scope leases\<close>

definition scope_lease_reconciles :: "database \<Rightarrow> scope_lease_row \<Rightarrow> bool" where
  "scope_lease_reconciles db row \<longleftrightarrow>
     (case (find_operation (sl_operation_id row) db, find_lease (sl_operation_id row) db) of
        (Some o', Some l) \<Rightarrow>
          op_host_id o' = sl_host_id row \<and> op_app o' = sl_app row \<and> op_environment o' = sl_environment row \<and>
          1 \<le> sl_fencing_token row \<and>
          max_or_zero (scope_tokens (sl_host_id row) (sl_app row) (sl_environment row) db) \<le> sl_fencing_token row \<and>
          ls_owner_id l = sl_owner_id row \<and> ls_fencing_token l = sl_fencing_token row \<and>
          ls_expires_at l = sl_expires_at row
      | _ \<Rightarrow> False)"

definition check_scope_leases :: "database \<Rightarrow> unit res" where
  "check_scope_leases db = guarded (integrity (list_all (scope_lease_reconciles db) (db_scope_leases db))
     ''Execution scope lease does not reconcile with its operation.'') ()"

section \<open>Lifecycle and active revisions\<close>

definition check_lifecycle :: "database \<Rightarrow> unit res" where
  "check_lifecycle db = each_ok (\<lambda>operation_id.
     bind_res (load_execution_input_tx db operation_id) (\<lambda>i.
     bind_res (verified_revision_history db operation_id) (\<lambda>history.
     guarded (integrity (list_all (binds_input i) history) ''Revision lifecycle does not bind its execution input.'') ())))
     (sorted_set (map lr_operation_id (db_revision_lifecycle db)))"

definition ends_active :: "revision_lifecycle_entry list \<Rightarrow> bool" where
  "ends_active history \<longleftrightarrow> history \<noteq> [] \<and> le_state (last history) = RS_ACTIVE"

definition check_active :: "database \<Rightarrow> active_row \<Rightarrow> active_revision res" where
  "check_active db row =
     bind_res (active_revision_from_row row) (\<lambda>active.
     bind_res (load_execution_input_tx db (ar_operation_id active)) (\<lambda>i.
     bind_res (verified_revision_history db (ar_operation_id active)) (\<lambda>history.
     guarded (integrity (canonical_json (active_revision_val active) = at_payload_json row \<and> ends_active history \<and>
         ar_revision_id active = rv_revision_id (ei_revision i) \<and>
         ar_revision_digest active = content_digest (ei_revision i) \<and>
         ar_host_id active = pl_host_id (ei_plan i) \<and> ar_app active = pl_app (ei_plan i) \<and>
         ar_environment active = pl_environment (ei_plan i))
       ''Active revision does not reconcile with lifecycle and input.'') active)))"

section \<open>Atomic success markers\<close>

type_synonym scope = "string \<times> string \<times> string"

text \<open>The markers joined with their receipts and operations, in the order of the query.\<close>

definition atomic_rows :: "database \<Rightarrow> (atomic_row \<times> receipt_row \<times> operation_row) list" where
  "atomic_rows db =
     sort_key (\<lambda>(m, r, o'). (op_host_id o', op_app o', op_environment o', as_active_generation m, as_operation_id m))
       (List.map_filter (\<lambda>m. case (find_receipt (as_operation_id m) db, find_operation (as_operation_id m) db) of
           (Some r, Some o') \<Rightarrow> Some (m, r, o')
         | _ \<Rightarrow> None) (db_atomic_success_commits db))"

definition check_atomic ::
  "database \<Rightarrow> (scope \<times> string \<times> int) list \<Rightarrow> atomic_row \<times> receipt_row \<times> operation_row \<Rightarrow>
    (scope \<times> string \<times> int) list res" where
  "check_atomic db latest = (\<lambda>(m, row, o').
     bind_res (verified_revision_history db (as_operation_id m)) (\<lambda>history.
     bind_res (bind_res (loads (tr_payload_json row)) receipt_from_payload) (\<lambda>receipt.
     bind_res (load_execution_input_tx db (as_operation_id m)) (\<lambda>i.
     (let scope = (op_host_id o', op_app o', op_environment o') in
      guarded (integrity (tr_outcome row = ro_value RO_SUCCEEDED \<and> ends_active history \<and>
          rc_operation_id receipt = as_operation_id m \<and>
          rc_desired_revision_id receipt = rv_revision_id (ei_revision i) \<and>
          rc_desired_revision_digest receipt = content_digest (ei_revision i) \<and>
          le_revision_id (last history) = rc_desired_revision_id receipt \<and>
          le_revision_digest (last history) = rc_desired_revision_digest receipt \<and>
          (case map_of latest scope of None \<Rightarrow> True | Some (_, g) \<Rightarrow> g < as_active_generation m))
        ''Atomic success marker does not reconcile with its receipt and lifecycle.'')
        (dict_set scope (as_operation_id m, as_active_generation m) latest))))))"

fun check_atomic_rows ::
  "database \<Rightarrow> (scope \<times> string \<times> int) list \<Rightarrow> (atomic_row \<times> receipt_row \<times> operation_row) list \<Rightarrow>
    (scope \<times> string \<times> int) list res" where
  "check_atomic_rows db latest [] = Inr latest"
| "check_atomic_rows db latest (row # rows) =
     bind_res (check_atomic db latest row) (\<lambda>latest. check_atomic_rows db latest rows)"

definition active_agrees :: "active_revision list \<Rightarrow> scope \<times> string \<times> int \<Rightarrow> bool" where
  "active_agrees actives = (\<lambda>(scope, operation_id, generation).
     case fetchone (\<lambda>a. (ar_host_id a, ar_app a, ar_environment a) = scope) actives of
       None \<Rightarrow> False
     | Some a \<Rightarrow> \<not> ar_generation a < generation \<and>
         \<not> (ar_generation a = generation \<and> ar_operation_id a \<noteq> operation_id))"

section \<open>The parts of the check on operation tables\<close>

text \<open>What the check reads before the daemon, agent and workload tables, and what it reads after them.\<close>

definition check_histories :: "database \<Rightarrow> unit res" where
  "check_histories db =
     bind_res (each_ok (\<lambda>o'. discard (verified_events db (op_operation_id o'))) (sort_key op_operation_id (db_operations db))) (\<lambda>_.
     bind_res (check_host_events db) (\<lambda>_.
     check_delivery db))"

definition check_records :: "database \<Rightarrow> unit res" where
  "check_records db =
     bind_res (each_ok (\<lambda>r. discard (load_execution_input_tx db (in_operation_id r)))
       (sort_key in_operation_id (db_operation_inputs db))) (\<lambda>_.
     bind_res (each_ok (\<lambda>r. discard (control_tx db (ct_operation_id r)))
       (sort_key ct_operation_id (db_operation_controls db))) (\<lambda>_.
     bind_res (check_scope_leases db) (\<lambda>_.
     bind_res (check_lifecycle db) (\<lambda>_.
     bind_res (map_res (check_active db)
       (sort_key (\<lambda>r. (at_host_id r, at_app r, at_environment r)) (db_active_revisions db))) (\<lambda>actives.
     bind_res (check_atomic_rows db [] (atomic_rows db)) (\<lambda>latest.
     guarded (integrity (list_all (active_agrees actives) latest)
       ''Current active revision conflicts with atomic success history.'') ()))))))"

end
