(* ===== verification/Journal_Effects.thy ===== *)
theory Journal_Effects
  imports Integrity
begin

text \<open>
  What a journal action does when it succeeds, and what it leaves alone when it fails. The rules of
  \<open>tx_success\<close> turn the successful run of a composed action into the successful runs of its parts;
  the effect lemmas give the database after each operation in closed form.
\<close>

named_theorems tx_success \<open>inversion rules for successful actions\<close>

section \<open>Successful actions\<close>

lemma tx_bind_success [tx_success]:
  "tx_bind m f s = (Inr y, s') \<longleftrightarrow> (\<exists>x t. m s = (Inr x, t) \<and> f x t = (Inr y, s'))"
  by (auto simp: tx_bind_def split: prod.splits sum.splits)

lemma tx_basic_success [tx_success]:
  "tx_return x s = (Inr y, s') \<longleftrightarrow> y = x \<and> s' = s"
  "tx_raise e s = (Inr y, s') \<longleftrightarrow> False"
  "tx_lift r s = (Inr y, s') \<longleftrightarrow> r = Inr y \<and> s' = s"
  "tx_check c s = (Inr u, s') \<longleftrightarrow> c = None \<and> s' = s"
  "tx_query f s = (Inr y, s') \<longleftrightarrow> y = f (jn_db s) \<and> s' = s"
  "tx_read g s = (Inr y, s') \<longleftrightarrow> g (jn_db s) = Inr y \<and> s' = s"
  "tx_update h s = (Inr u, s') \<longleftrightarrow> s' = s\<lparr>jn_db := h (jn_db s)\<rparr>"
  "fresh_uuid s = (Inr v, s') \<longleftrightarrow> v = jn_uuid s (jn_ids s) \<and> s' = s\<lparr>jn_ids := Suc (jn_ids s)\<rparr>"
  by (auto simp: tx_return_def tx_raise_def tx_lift_def tx_check_def tx_query_def tx_read_def
      tx_update_def tx_execute_def fresh_uuid_def)

lemma tx_execute_success [tx_success]:
  "tx_execute f s = (Inr u, s') \<longleftrightarrow> (\<exists>db. f (jn_db s) = Inr db \<and> s' = s\<lparr>jn_db := db\<rparr>)"
  by (auto simp: tx_execute_def split: sum.splits)

lemma clock_sample_success [tx_success]:
  "clock_sample s = (Inr t, s') \<longleftrightarrow> jn_clock s (jn_tick s) = Some t \<and> s' = s\<lparr>jn_tick := Suc (jn_tick s)\<rparr>"
  by (auto simp: clock_sample_def split: option.splits)

lemma transaction_success [tx_success]: "transaction m s = (Inr y, s') \<longleftrightarrow> m s = (Inr y, s')"
  by (auto simp: transaction_def split: prod.splits sum.splits)

lemma conflict_None [simp, tx_success]: "conflict ok msg = None \<longleftrightarrow> ok"
  by (simp add: conflict_def)

lemma integrity_None [simp, tx_success]: "integrity ok msg = None \<longleftrightarrow> ok"
  by (simp add: integrity_def)

lemma wrap_integrity_Inr [simp]: "wrap_integrity msg m = Inr x \<longleftrightarrow> m = Inr x"
  by (auto simp: wrap_integrity_def split: sum.splits)

lemma bounded_json_Inr [simp]:
  "bounded_json v = Inr payload \<longleftrightarrow> payload = canonical_json v \<and> length (canonical_json v) \<le> MAX_CANONICAL_JSON_BYTES"
  by (auto simp: bounded_json_def Let_def)

lemma operation_state_of_Inr [simp]: "operation_state_of v = Inr st \<longleftrightarrow> v = os_value st"
  by (simp add: operation_state_of_def os.enum_of_Inr)

section \<open>Rollback\<close>

text \<open>An action that leaves the database alone, and one that restores it when it raises.\<close>

definition readonly :: "'a tx \<Rightarrow> bool" where
  "readonly m \<longleftrightarrow> (\<forall>s r s'. m s = (r, s') \<longrightarrow> jn_db s' = jn_db s)"

definition atomic :: "'a tx \<Rightarrow> bool" where
  "atomic m \<longleftrightarrow> (\<forall>s e s'. m s = (Inl e, s') \<longrightarrow> jn_db s' = jn_db s)"

lemma readonly_basic [simp]:
  "readonly (tx_return x)" "readonly (tx_raise e)" "readonly (tx_lift r)" "readonly (tx_check c)"
  "readonly (tx_query f)" "readonly (tx_read g)" "readonly clock_sample" "readonly fresh_uuid"
  by (auto simp: readonly_def tx_return_def tx_raise_def tx_lift_def tx_check_def tx_query_def tx_read_def
      clock_sample_def fresh_uuid_def split: option.splits)

lemma readonly_bind: "readonly m \<Longrightarrow> (\<And>x. readonly (f x)) \<Longrightarrow> readonly (tx_bind m f)"
  unfolding readonly_def tx_bind_def by (fastforce split: prod.splits sum.splits)

lemma readonly_atomic: "readonly m \<Longrightarrow> atomic m"
  by (auto simp: readonly_def atomic_def)

lemma atomic_transaction [simp]: "atomic (transaction m)"
  by (auto simp: atomic_def transaction_def split: prod.splits sum.splits)

lemma atomic_bind: "readonly m \<Longrightarrow> (\<And>x. atomic (f x)) \<Longrightarrow> atomic (tx_bind m f)"
  unfolding readonly_def atomic_def tx_bind_def by (fastforce split: prod.splits sum.splits)

section \<open>Lookups by key\<close>

lemma fetchone_key:
  "distinct (map key rows) \<Longrightarrow> fetchone (\<lambda>r. key r = k) rows = Some r \<longleftrightarrow> r \<in> set rows \<and> key r = k"
  by (induction rows) (auto simp: fetchone_def)

lemma fetchone_map:
  assumes "\<And>r. p (f r) = p r"
  shows "fetchone p (map f rows) = map_option f (fetchone p rows)"
  using assms by (induction rows) (auto simp: fetchone_def)

lemma fetchone_simps [simp]:
  "fetchone p [] = None" "fetchone p (x # rows) = (if p x then Some x else fetchone p rows)"
  by (simp_all add: fetchone_def)

lemma find_operation_mem:
  "distinct (map op_operation_id (db_operations db)) \<Longrightarrow>
   find_operation oid db = Some o' \<longleftrightarrow> o' \<in> set (db_operations db) \<and> op_operation_id o' = oid"
  by (simp add: find_operation_def fetchone_key)

lemma operation_exists_find: "operation_exists oid db \<longleftrightarrow> find_operation oid db \<noteq> None"
  by (auto simp: operation_exists_def find_operation_def list_ex_iff fetchone_None)

section \<open>Effects\<close>

definition event_row_of :: "operation_event \<Rightarrow> string \<Rightarrow> event_row" where
  "event_row_of e payload_json = \<lparr>oe_operation_id = ev_operation_id e, oe_sequence = ev_sequence e,
     oe_event_id = ev_event_id e, oe_event_digest = canonical_digest (operation_event_val e),
     oe_payload_json = payload_json\<rparr>"

definition host_row_of :: "operation_event \<Rightarrow> string \<Rightarrow> int \<Rightarrow> host_event_row" where
  "host_row_of e payload_json cursor = \<lparr>he_cursor = cursor, he_event_id = ev_event_id e, he_event_type = ''operation'',
     he_operation_id = Some (ev_operation_id e), he_workload_run_id = None,
     he_event_digest = canonical_digest (operation_event_val e), he_occurred_at = ev_occurred_at e,
     he_payload_json = payload_json\<rparr>"

definition add_event :: "operation_event \<Rightarrow> string \<Rightarrow> database \<Rightarrow> database" where
  "add_event e payload_json db = set_operation_state (ev_operation_id e) (os_value (ev_state e))
     (db\<lparr>db_operation_events := db_operation_events db @ [event_row_of e payload_json],
        db_host_events := db_host_events db @ [host_row_of e payload_json (db_sequence db + 1)],
        db_sequence := db_sequence db + 1\<rparr>)"

text \<open>The guards of \<open>append_event\<close>.\<close>

definition appendable :: "operation_event \<Rightarrow> bool \<Rightarrow> operation_row \<Rightarrow> database \<Rightarrow> bool" where
  "appendable e allow_terminal o' db \<longleftrightarrow>
     (\<exists>st. op_state o' = os_value st \<and> \<not> terminal st) \<and> (terminal (ev_state e) \<longrightarrow> allow_terminal) \<and>
     ev_host_id e = op_host_id o' \<and> ev_app e = op_app o' \<and> ev_environment e = op_environment o' \<and>
     (ev_revision_id e = None \<or> ev_revision_id e = Some (op_revision_id o')) \<and>
     ev_sequence e = next_sequence (last_row (event_rows (ev_operation_id e) db)) \<and>
     ev_previous_event_digest e = map_option oe_event_digest (last_row (event_rows (ev_operation_id e) db)) \<and>
     (\<forall>q \<in> set (db_operation_events db). oe_event_id q \<noteq> ev_event_id e) \<and>
     (\<forall>q \<in> set (db_host_events db). he_event_id q \<noteq> ev_event_id e)"

lemma append_event_success:
  assumes "append_event e payload_json allow_terminal s = (Inr u, s')"
  obtains o' where "find_operation (ev_operation_id e) (jn_db s) = Some o'"
    and "appendable e allow_terminal o' (jn_db s)"
    and "s' = s\<lparr>jn_db := add_event e payload_json (jn_db s)\<rparr>"
proof -
  from assms obtain o' where o': "find_operation (ev_operation_id e) (jn_db s) = Some o'"
    by (auto simp: append_event_def tx_success split: option.splits)
  show thesis
    by (rule that [OF o'], use assms o' in
      \<open>auto simp: append_event_def tx_success insert_event_def insert_host_event_def appendable_def next_sequence_def
         add_event_def event_row_of_def host_row_of_def list_ex_iff\<close>)
qed

section \<open>Frames\<close>

text \<open>
  A frame is a preorder on databases. An action stays in it when every successful run moves the
  database along it; composition follows from reflexivity and transitivity, so it is enough to look
  at the statements an operation executes.
\<close>

definition frames :: "(database \<Rightarrow> database \<Rightarrow> bool) \<Rightarrow> 'a tx \<Rightarrow> bool" where
  "frames R m \<longleftrightarrow> (\<forall>s x s'. m s = (Inr x, s') \<longrightarrow> R (jn_db s) (jn_db s'))"

lemma framesD: "frames R m \<Longrightarrow> m s = (Inr x, s') \<Longrightarrow> R (jn_db s) (jn_db s')"
  by (simp add: frames_def)

locale db_frame =
  fixes R :: "database \<Rightarrow> database \<Rightarrow> bool"
  assumes refl: "R db db" and trans: "R db1 db2 \<Longrightarrow> R db2 db3 \<Longrightarrow> R db1 db3"
begin

lemma basic:
  "frames R (tx_return x)" "frames R (tx_raise e)" "frames R (tx_lift r)" "frames R (tx_check c)"
  "frames R (tx_query f)" "frames R (tx_read g)" "frames R clock_sample" "frames R fresh_uuid"
  by (auto simp: frames_def tx_success refl)

lemma bind: "frames R m \<Longrightarrow> (\<And>x. frames R (f x)) \<Longrightarrow> frames R (tx_bind m f)"
  unfolding frames_def tx_success using trans by blast

lemma bind_lift: "(\<And>x. r = Inr x \<Longrightarrow> frames R (f x)) \<Longrightarrow> frames R (tx_bind (tx_lift r) f)"
  by (auto simp: frames_def tx_success)

lemma bind_check: "(c = None \<Longrightarrow> frames R m) \<Longrightarrow> frames R (tx_bind (tx_check c) (\<lambda>_. m))"
  by (auto simp: frames_def tx_success)

lemma transaction: "frames R m \<Longrightarrow> frames R (transaction m)"
  by (simp add: frames_def tx_success)

lemma execute: "(\<And>db db'. f db = Inr db' \<Longrightarrow> R db db') \<Longrightarrow> frames R (tx_execute f)"
  by (auto simp: frames_def tx_success)

lemma update: "(\<And>db. R db (f db)) \<Longrightarrow> frames R (tx_update f)"
  by (auto simp: frames_def tx_success)

lemma options: "frames R m \<Longrightarrow> (\<And>x. frames R (f x)) \<Longrightarrow> frames R (case v of None \<Rightarrow> m | Some x \<Rightarrow> f x)"
  by (cases v) simp_all

lemma pairs: "(\<And>x y. frames R (f x y)) \<Longrightarrow> frames R (case v of (x, y) \<Rightarrow> f x y)"
  by (cases v) simp_all

lemma conditional: "frames R m \<Longrightarrow> frames R m' \<Longrightarrow> frames R (if b then m else m')"
  by simp

lemmas intros = basic bind transaction execute update options pairs conditional

lemma append_event:
  "(\<And>db. R db (add_event e p db)) \<Longrightarrow> frames R (append_event e p allow)"
  unfolding frames_def by (fastforce elim: append_event_success)

lemma phase_events:
  assumes "\<And>e p db. R db (add_event e p db)"
  shows "frames R (append_phase_events r n prev required)"
  by (induction r n prev required rule: append_phase_events.induct) (auto simp: Let_def intro!: intros append_event assms)

end

end
