(* ===== verification/Journal_Calls.thy ===== *)
theory Journal_Calls
  imports Journal_Effects
begin

text \<open>
  The journal as a state machine. A call is one use of a writing method of
  \<^verbatim>\<open>SQLiteOperationJournal\<close> with contracts that passed their own construction; a journal is reachable
  when it starts empty and is used through calls only, each of which may return or raise. The locale
  \<open>journal_invariant\<close> states what a predicate on the database has to satisfy to hold in every
  reachable journal.
\<close>

section \<open>Calls\<close>

datatype call =
    Accept actor operation_request approved_plan_ref "execution_input option"
  | Request_Cancellation string actor
  | Append operation_event "string option" "int option"
  | Acknowledge_Host_Events string int
  | Acquire_Lease string string rat
  | Heartbeat_Lease string string int rat
  | Release_Lease string string int
  | Acquire_Fence string string rat
  | Heartbeat_Fence execution_fence rat
  | Release_Fence execution_fence
  | Append_Revision_State string revision_state execution_fence
  | Compare_And_Swap_Active_Revision string "string option" execution_fence
  | Commit_Receipt terminal_receipt "string option" "int option"
  | Commit_Success terminal_receipt "string option" execution_fence

definition returning :: "'a tx \<Rightarrow> unit tx" where
  "returning m = tx_bind m (\<lambda>_. tx_return ())"

fun run_call :: "call \<Rightarrow> unit tx" where
  "run_call (Accept actor request approval execution_input) = returning (accept actor request approval execution_input)"
| "run_call (Request_Cancellation operation_id actor) = returning (request_cancellation operation_id actor)"
| "run_call (Append event lease_owner fencing_token) = append event lease_owner fencing_token"
| "run_call (Acknowledge_Host_Events consumer_id cursor) = returning (acknowledge_host_events consumer_id cursor)"
| "run_call (Acquire_Lease operation_id owner_id ttl) = returning (acquire_lease operation_id owner_id ttl)"
| "run_call (Heartbeat_Lease operation_id owner_id token ttl) = returning (heartbeat_lease operation_id owner_id token ttl)"
| "run_call (Release_Lease operation_id owner_id token) = release_lease operation_id owner_id token"
| "run_call (Acquire_Fence operation_id owner_id ttl) = returning (acquire_fence operation_id owner_id ttl)"
| "run_call (Heartbeat_Fence fence ttl) = returning (heartbeat_fence fence ttl)"
| "run_call (Release_Fence fence) = release_fence fence"
| "run_call (Append_Revision_State operation_id state fence) = returning (append_revision_state operation_id state fence)"
| "run_call (Compare_And_Swap_Active_Revision operation_id expected fence) =
     returning (compare_and_swap_active_revision operation_id expected fence)"
| "run_call (Commit_Receipt rcpt lease_owner fencing_token) = commit_receipt rcpt lease_owner fencing_token"
| "run_call (Commit_Success rcpt expected fence) = returning (commit_success rcpt expected fence)"

text \<open>The arguments are contracts that were constructed, so their checks passed.\<close>

fun call_ok :: "call \<Rightarrow> bool" where
  "call_ok (Accept actor request approval execution_input) \<longleftrightarrow>
     actor_check actor = None \<and> operation_request_check request = None \<and> approved_plan_ref_check approval = None \<and>
     (case execution_input of None \<Rightarrow> True | Some i \<Rightarrow> execution_input_ok i)"
| "call_ok (Request_Cancellation operation_id actor) \<longleftrightarrow> actor_check actor = None"
| "call_ok (Append event lease_owner fencing_token) \<longleftrightarrow> operation_event_check event = None"
| "call_ok (Heartbeat_Fence fence ttl) \<longleftrightarrow> execution_fence_check fence = None"
| "call_ok (Release_Fence fence) \<longleftrightarrow> execution_fence_check fence = None"
| "call_ok (Append_Revision_State operation_id state fence) \<longleftrightarrow> execution_fence_check fence = None"
| "call_ok (Compare_And_Swap_Active_Revision operation_id expected fence) \<longleftrightarrow> execution_fence_check fence = None"
| "call_ok (Commit_Receipt rcpt lease_owner fencing_token) \<longleftrightarrow> terminal_receipt_ok rcpt"
| "call_ok (Commit_Success rcpt expected fence) \<longleftrightarrow> terminal_receipt_ok rcpt \<and> execution_fence_check fence = None"
| "call_ok _ \<longleftrightarrow> True"

section \<open>Rollback\<close>

lemma atomic_returning: "atomic m \<Longrightarrow> atomic (returning m)"
  unfolding atomic_def returning_def tx_bind_def tx_return_def by (fastforce split: prod.splits sum.splits)

lemma readonly_cases [simp]:
  "readonly (case v of None \<Rightarrow> tx_return x | Some y \<Rightarrow> tx_lift (f y))"
  by (cases v) simp_all

lemmas atomic_intros = atomic_bind atomic_returning readonly_bind atomic_transaction readonly_basic readonly_cases

lemma atomic_run_call: "atomic (run_call c)"
  by (cases c) (auto simp: accept_def request_cancellation_def append_def acknowledge_host_events_def acquire_lease_def
      heartbeat_lease_def release_lease_def acquire_fence_def heartbeat_fence_def release_fence_def
      append_revision_state_def compare_and_swap_active_revision_def commit_receipt_def commit_success_def Let_def
      intro!: atomic_intros)

text \<open>
  C11. A call that raises leaves the database as it was, whichever call it is and wherever in it the
  exception occurs: no event, receipt, lease or active revision of a failed call survives.
\<close>

theorem failed_call_rolls_back:
  assumes "run_call c s = (Inl e, s')"
  shows "jn_db s' = jn_db s"
  using assms atomic_run_call [of c] by (auto simp: atomic_def)

section \<open>Reachable journals\<close>

inductive reachable :: "(call \<Rightarrow> bool) \<Rightarrow> journal \<Rightarrow> bool" for permitted :: "call \<Rightarrow> bool" where
  initial: "jn_db s = empty_database \<Longrightarrow> reachable permitted s"
| step: "reachable permitted s \<Longrightarrow> permitted c \<Longrightarrow> call_ok c \<Longrightarrow> run_call c s = (r, s') \<Longrightarrow> reachable permitted s'"

text \<open>Later states of a journal, through any number of calls.\<close>

definition journal_step :: "journal \<Rightarrow> journal \<Rightarrow> bool" where
  "journal_step s s' \<longleftrightarrow> (\<exists>c r. call_ok c \<and> run_call c s = (r, s'))"

lemma frame_later:
  assumes "db_frame R" "\<And>c. call_ok c \<Longrightarrow> frames R (run_call c)" "journal_step\<^sup>*\<^sup>* s s'"
  shows "R (jn_db s) (jn_db s')"
  using assms(3)
proof (induction rule: rtranclp_induct)
  case base
  then show ?case using assms(1) by (simp add: db_frame.refl)
next
  case (step t u)
  then obtain c r where c: "call_ok c" "run_call c t = (r, u)" by (auto simp: journal_step_def)
  have "R (jn_db t) (jn_db u)"
  proof (cases r)
    case (Inl e)
    then show ?thesis
      using c atomic_run_call [of c] db_frame.refl [OF assms(1)] by (auto simp: atomic_def)
  next
    case (Inr x)
    then show ?thesis using c assms(2) framesD by fastforce
  qed
  with step.IH show ?case using db_frame.trans [OF assms(1)] by blast
qed

locale journal_invariant =
  fixes permitted :: "call \<Rightarrow> bool" and inv :: "database \<Rightarrow> bool"
  assumes empty: "inv empty_database"
    and preserved: "permitted c \<Longrightarrow> call_ok c \<Longrightarrow> inv (jn_db s) \<Longrightarrow> run_call c s = (Inr u, s') \<Longrightarrow> inv (jn_db s')"
begin

lemma holds: "reachable permitted s \<Longrightarrow> inv (jn_db s)"
proof (induction rule: reachable.induct)
  case (step s c r s')
  show ?case
  proof (cases r)
    case (Inl e)
    with step have "jn_db s' = jn_db s" using atomic_run_call [of c] by (auto simp: atomic_def)
    with step.IH show ?thesis by simp
  next
    case (Inr u)
    with step preserved show ?thesis by blast
  qed
qed (simp add: empty)

end

lemma returning_success [tx_success]: "returning m s = (Inr u, s') \<longleftrightarrow> (\<exists>x. m s = (Inr x, s'))"
  by (simp add: returning_def tx_success)

end
