(* ===== verification/Acceptance_Facts.thy ===== *)
theory Acceptance_Facts
  imports Journal_Calls Samples
begin

text \<open>
  What acceptance stores and that it verifies again: the stored claims of the request, the plan, the
  actor and the approval read back as contracts with the same canonical text, and the operation,
  approval and plan rows reconcile.
\<close>

section \<open>Stored claims\<close>

definition stored_request :: "operation_request \<Rightarrow> string \<Rightarrow> json" where
  "stored_request r key_digest = JObj
     [(''schema_version'', JInt 1), (''kind'', JStr ''ophelia.kernel.operation_request''),
      (''request_id'', JStr (rq_request_id r)), (''operation'', JStr (rq_operation r)),
      (''host_id'', JStr (rq_host_id r)), (''app'', JStr (rq_app r)),
      (''environment'', JStr (rq_environment r)), (''revision_id'', JStr (rq_revision_id r)),
      (''revision_digest'', JStr (rq_revision_digest r)), (''idempotency_key_digest'', JStr key_digest)]"

definition stored_plan :: "approved_plan_ref \<Rightarrow> json" where
  "stored_plan a = JObj
     [(''schema_version'', JInt 1), (''kind'', JStr ''ophelia.kernel.approved_plan_claims''),
      (''plan_id'', JStr (ap_plan_id a)), (''plan_digest'', JStr (ap_plan_digest a)),
      (''request_digest'', JStr (ap_request_digest a)), (''host_id'', JStr (ap_host_id a)),
      (''app'', JStr (ap_app a)), (''environment'', JStr (ap_environment a)),
      (''revision_id'', JStr (ap_revision_id a)), (''revision_digest'', JStr (ap_revision_digest a)),
      (''manifest_digest'', JStr (ap_manifest_digest a)), (''artifact_digests'', JList (map JStr (ap_artifact_digests a))),
      (''observed_state_digest'', JStr (ap_observed_state_digest a)),
      (''policy_digest'', JStr (ap_policy_digest a))]"

lemma request_scrub:
  assumes "operation_request_check r = None"
  shows "scrub_text (rq_request_id r) = rq_request_id r" "scrub_text (rq_operation r) = rq_operation r"
    "scrub_text (rq_host_id r) = rq_host_id r" "scrub_text (rq_app r) = rq_app r"
    "scrub_text (rq_environment r) = rq_environment r" "scrub_text (rq_revision_id r) = rq_revision_id r"
    "scrub_text (rq_revision_digest r) = rq_revision_digest r"
  using assms by (auto simp: operation_request_check_def intro: scrub_intros)

lemma plain_canonical:
  assumes "json_wf (JObj kvs)" "plain_json (JObj kvs)"
  shows "serialize (of_json (JObj (scrub_members kvs))) = JObj (scrub_members kvs)"
  using assms plain_json_free no_command_key by (intro serialize_of_json_members) blast+

lemma serialize_request_claims:
  assumes "operation_request_check r = None" "is_digest key_digest"
  shows "serialize (request_claims r key_digest) = stored_request r key_digest"
proof -
  obtain kvs where kvs: "stored_request r key_digest = JObj kvs" by (simp add: stored_request_def)
  have same: "scrub_members kvs = kvs"
    using request_scrub [OF assms(1)] assms(2) kvs by (auto simp: stored_request_def)
  have tame: "tame ''ophelia.kernel.operation_request'' fs" if "operation_request_val r = VContract ''ophelia.kernel.operation_request'' fs" for fs
    using request_tame [of r] that by (simp add: tame_val_def)
  have "request_claims r key_digest = of_json (JObj kvs)"
    using request_scrub [OF assms(1)] kvs serialize_tame [OF tame [OF operation_request_val_def]]
    by (simp add: request_claims_def operation_request_val_def stored_request_def members_def del: serialize.simps)
  moreover have "json_wf (JObj kvs)" "plain_json (JObj kvs)" using kvs by (auto simp: stored_request_def)
  ultimately show ?thesis using plain_canonical [of kvs] by (simp only: same kvs)
qed

lemma serialize_plan_claims:
  assumes "approved_plan_ref_check a = None"
  shows "serialize (plan_claims a) = stored_plan a"
proof -
  have raw: "raw (plan_claims a) = stored_plan a"
    by (simp add: plan_claims_def stored_plan_def plain_keyD)
  have "json_wf (stored_plan a)" "plain_json (stored_plan a)" by (auto simp: stored_plan_def)
  then have "serialize (plan_claims a) = scrub False None (stored_plan a)"
    using serialize_map plain_json_free(1) [OF _ no_command_key] raw by (metis plan_claims_def)
  also have "\<dots> = stored_plan a"
    unfolding stored_plan_def scrub_JObj scrub_members_def [symmetric]
    using approval_scrub [OF assms] by (simp del: map_map)
  finally show ?thesis .
qed

lemma loads_stored:
  assumes "json_wf j" "serialize v = j"
  shows "loads (canonical_json v) = Inr (json_canon j)"
  using assms json_loads_dumps by (simp add: loads_def canonical_json_def)

lemma stored_wf: "json_wf (stored_request r key_digest)" "json_wf (stored_plan a)"
  by (auto simp: stored_request_def stored_plan_def)

lemma request_reads_back:
  assumes "operation_request_check r = None"
  shows "request_from_payload (json_canon (stored_request r key_digest)) = Inr (r\<lparr>rq_idempotency_key := ''redacted''\<rparr>)"
    and "get_str (json_canon (stored_request r key_digest)) ''idempotency_key_digest'' = Inr key_digest"
proof -
  have "is_text 255 ''redacted''" by code_simp
  then have "operation_request_check (r\<lparr>rq_idempotency_key := ''redacted''\<rparr>) = None"
    using assms by (simp add: operation_request_check_def)
  moreover have "r\<lparr>rq_idempotency_key := ''redacted''\<rparr> =
      \<lparr>rq_request_id = rq_request_id r, rq_operation = rq_operation r, rq_host_id = rq_host_id r, rq_app = rq_app r,
       rq_environment = rq_environment r, rq_revision_id = rq_revision_id r,
       rq_revision_digest = rq_revision_digest r, rq_idempotency_key = ''redacted''\<rparr>"
    by simp
  ultimately show "request_from_payload (json_canon (stored_request r key_digest)) = Inr (r\<lparr>rq_idempotency_key := ''redacted''\<rparr>)"
    by (simp add: request_from_payload_def stored_request_def get_str_def obj_get_canon as_str_def Let_def del: json_canon.simps(1,2))
  show "get_str (json_canon (stored_request r key_digest)) ''idempotency_key_digest'' = Inr key_digest"
    by (simp add: stored_request_def get_str_def obj_get_canon as_str_def del: json_canon.simps(1,2))
qed

section \<open>Rows of an acceptance\<close>

definition plan_row_of :: "approved_plan_ref \<Rightarrow> plan_row" where
  "plan_row_of a = \<lparr>pr_plan_id = ap_plan_id a, pr_plan_digest = ap_plan_digest a,
     pr_request_digest = ap_request_digest a, pr_payload_json = canonical_json (plan_claims a)\<rparr>"

definition approval_row_of :: "approved_plan_ref \<Rightarrow> approval_row" where
  "approval_row_of a = \<lparr>av_decision_id = ap_decision_id a, av_plan_id = ap_plan_id a, av_actor_id = ap_actor_id a,
     av_approval_digest = ap_approval_digest a, av_payload_json = canonical_json (approved_plan_ref_val a)\<rparr>"

definition operation_row_of ::
  "actor \<Rightarrow> operation_request \<Rightarrow> approved_plan_ref \<Rightarrow> string \<Rightarrow> string \<Rightarrow> string \<Rightarrow> operation_row" where
  "operation_row_of actor request a operation_id accepted_at state = \<lparr>op_operation_id = operation_id,
     op_request_id = rq_request_id request, op_actor_id = ac_actor_id actor, op_operation_class = rq_operation request,
     op_request_digest = intent_digest request, op_state = state, op_host_id = rq_host_id request,
     op_app = rq_app request, op_environment = rq_environment request, op_revision_id = rq_revision_id request,
     op_decision_id = ap_decision_id a,
     op_request_json = canonical_json (request_claims request (digest_text (rq_idempotency_key request))),
     op_actor_json = canonical_json (actor_val actor), op_accepted_at = accepted_at\<rparr>"

lemma operation_row_of_sel [simp]:
  "op_operation_id (operation_row_of actor request a oid t st) = oid"
  "op_accepted_at (operation_row_of actor request a oid t st) = t"
  "op_state (operation_row_of actor request a oid t st) = st"
  "op_decision_id (operation_row_of actor request a oid t st) = ap_decision_id a"
  by (simp_all add: operation_row_of_def)

definition input_row_of :: "string \<Rightarrow> execution_input \<Rightarrow> input_row" where
  "input_row_of operation_id i = \<lparr>in_operation_id = operation_id, in_input_digest = ei_input_digest i,
     in_deadline = ei_deadline i, in_payload_json = canonical_json (execution_input_val i)\<rparr>"

definition key_row_of :: "actor \<Rightarrow> operation_request \<Rightarrow> string \<Rightarrow> idempotency_row" where
  "key_row_of actor request operation_id = \<lparr>ik_actor_id = ac_actor_id actor, ik_operation_class = rq_operation request,
     ik_key_digest = digest_text (rq_idempotency_key request), ik_request_digest = intent_digest request,
     ik_operation_id = operation_id\<rparr>"

text \<open>The contracts of an acceptance that the journal's own checks let through.\<close>

definition acceptable :: "actor \<Rightarrow> operation_request \<Rightarrow> approved_plan_ref \<Rightarrow> bool" where
  "acceptable actor request a \<longleftrightarrow>
     actor_check actor = None \<and> operation_request_check request = None \<and> approved_plan_ref_check a = None \<and>
     validate_acceptance_binding actor request a (intent_digest request) = None"

lemma verified_rows:
  assumes "acceptable actor request a"
  shows "verified_acceptance_claims (operation_row_of actor request a oid accepted_at state) (approval_row_of a) (plan_row_of a) =
    Inr (approval_norm a)"
proof -
  let ?k = "digest_text (rq_idempotency_key request)"
  have ok: "actor_check actor = None" "operation_request_check request = None" "approved_plan_ref_check a = None"
    and bind: "validate_acceptance_binding actor request a (intent_digest request) = None"
    using assms by (auto simp: acceptable_def)
  let ?r = "request\<lparr>rq_idempotency_key := ''redacted''\<rparr>"
  have r': "operation_request_check ?r = None" using request_reads_back(1) [OF ok(2)]
    by (simp add: operation_request_check_def ok(2) [unfolded operation_request_check_def, simplified]) code_simp
  have req: "serialize (request_claims request ?k) = stored_request request ?k"
    "serialize (request_claims ?r ?k) = stored_request request ?k"
    using serialize_request_claims [OF ok(2)] serialize_request_claims [OF r'] by (simp_all add: stored_request_def)
  have intent: "intent_digest ?r = intent_digest request"
    using intent_digest_update [where r = request and i = "rq_request_id request" and k = "''redacted''"] by simp
  have objs: "is_obj (json_canon (stored_request request ?k))" "is_obj (json_canon (stored_plan a))"
    "is_obj (json_canon (serialize (actor_val actor)))" "is_obj (json_canon (serialize (approved_plan_ref_val a)))"
    using serialize_tame [OF actor_tame [OF actor_val_def]] serialize_tame [OF approval_tame [OF approved_plan_ref_val_def]]
    by (simp_all add: is_obj_def stored_request_def stored_plan_def actor_val_def approved_plan_ref_val_def del: serialize.simps)
  have dec: "decode_acceptance (operation_row_of actor request a oid accepted_at state) (approval_row_of a) (plan_row_of a) =
      Inr (?k, ?r, actor_norm actor, approval_norm a)"
    using objs request_reads_back [OF ok(2), of ?k] actor_codec.dec_enc [OF ok(1)] approval_codec.dec_enc [OF ok(3)]
    by (simp add: decode_acceptance_def operation_row_of_def approval_row_of_def plan_row_of_def
        loads_stored [OF stored_wf(1) req(1)] loads_stored [OF stored_wf(2) serialize_plan_claims [OF ok(3)]]
        actor_codec.loads_canonical approval_codec.loads_canonical bind_res_Inr)
  have norm: "canonical_json (plan_claims (approval_norm a)) = canonical_json (plan_claims a)"
    by (simp add: plan_claims_def approval_norm_def)
  have "acceptance_reconciles (operation_row_of actor request a oid accepted_at state) (approval_row_of a) (plan_row_of a)
      ?k ?r (actor_norm actor) (approval_norm a)"
    using bind norm intent actor_codec.canonical_json_norm [OF ok(1)] approval_codec.canonical_json_norm [OF ok(3)]
      digests_norm(1) [OF ok(3)] req
    by (simp add: acceptance_reconciles_def validate_acceptance_binding_def)
       (simp add: operation_row_of_def approval_row_of_def plan_row_of_def canonical_json_def
         approval_norm_def actor_norm_def)
  then show ?thesis by (simp add: verified_acceptance_claims_def dec)
qed

section \<open>The effect of an acceptance\<close>

definition accepted_db ::
  "actor \<Rightarrow> operation_request \<Rightarrow> approved_plan_ref \<Rightarrow> execution_input option \<Rightarrow> string \<Rightarrow> string \<Rightarrow> database \<Rightarrow> database" where
  "accepted_db actor request a inp operation_id accepted_at db = db\<lparr>
     db_plans := (if list_ex (\<lambda>q. pr_plan_id q = ap_plan_id a) (db_plans db) then db_plans db else db_plans db @ [plan_row_of a]),
     db_approvals := (if list_ex (\<lambda>q. av_decision_id q = ap_decision_id a) (db_approvals db) then db_approvals db
       else db_approvals db @ [approval_row_of a]),
     db_operations := db_operations db @ [operation_row_of actor request a operation_id accepted_at (os_value OS_ACCEPTED)],
     db_operation_inputs := db_operation_inputs db @ (case inp of None \<Rightarrow> [] | Some i \<Rightarrow> [input_row_of operation_id i]),
     db_idempotency_keys := db_idempotency_keys db @ [key_row_of actor request operation_id]\<rparr>"

text \<open>The guards of an acceptance under a new key.\<close>

definition admits ::
  "actor \<Rightarrow> operation_request \<Rightarrow> approved_plan_ref \<Rightarrow> execution_input option \<Rightarrow> string \<Rightarrow> database \<Rightarrow> bool" where
  "admits actor request a inp operation_id db \<longleftrightarrow>
     validate_acceptance_binding actor request a (intent_digest request) = None \<and>
     (\<forall>i. inp = Some i \<longrightarrow> validate_execution_input request a i (intent_digest request) = None) \<and>
     is_entity_id ''operation'' operation_id \<and> is_entity_id ''request'' (rq_request_id request) \<and> \<not> operation_exists operation_id db \<and>
     (\<forall>p. fetchone (\<lambda>p. pr_plan_id p = ap_plan_id a) (db_plans db) = Some p \<longrightarrow> p = plan_row_of a) \<and>
     (\<forall>v. fetchone (\<lambda>v. av_decision_id v = ap_decision_id a) (db_approvals db) = Some v \<longrightarrow> v = approval_row_of a) \<and>
     (inp \<noteq> None \<longrightarrow> (\<forall>q \<in> set (db_operation_inputs db). in_operation_id q \<noteq> operation_id)) \<and>
     (\<forall>q \<in> set (db_idempotency_keys db). \<not> (ik_actor_id q = ac_actor_id actor \<and>
        ik_operation_class q = rq_operation request \<and> ik_key_digest q = digest_text (rq_idempotency_key request)))"

lemma store_plan_success:
  assumes "store_plan a (canonical_json (plan_claims a)) s = (Inr u, s')"
  shows "(\<forall>p. fetchone (\<lambda>p. pr_plan_id p = ap_plan_id a) (db_plans (jn_db s)) = Some p \<longrightarrow> p = plan_row_of a) \<and>
    s' = s\<lparr>jn_db := (jn_db s)\<lparr>db_plans := (if list_ex (\<lambda>q. pr_plan_id q = ap_plan_id a) (db_plans (jn_db s)) then db_plans (jn_db s)
      else db_plans (jn_db s) @ [plan_row_of a])\<rparr>\<rparr>"
proof (cases "list_ex (\<lambda>q. pr_plan_id q = ap_plan_id a) (db_plans (jn_db s))")
  case True
  then show ?thesis using assms
    by (auto simp: store_plan_def tx_success insert_plan_def plan_row_of_def dest: fetchone_Some split: option.splits)
next
  case False
  then have "fetchone (\<lambda>p. pr_plan_id p = ap_plan_id a) (db_plans (jn_db s)) = None"
    by (auto simp: fetchone_None list_ex_iff)
  with False show ?thesis using assms
    by (auto simp: store_plan_def tx_success insert_plan_def plan_row_of_def split: option.splits)
qed

lemma store_approval_success:
  assumes "store_approval a (canonical_json (approved_plan_ref_val a)) s = (Inr u, s')"
  shows "(\<forall>v. fetchone (\<lambda>v. av_decision_id v = ap_decision_id a) (db_approvals (jn_db s)) = Some v \<longrightarrow> v = approval_row_of a) \<and>
    s' = s\<lparr>jn_db := (jn_db s)\<lparr>db_approvals := (if list_ex (\<lambda>q. av_decision_id q = ap_decision_id a) (db_approvals (jn_db s))
      then db_approvals (jn_db s) else db_approvals (jn_db s) @ [approval_row_of a])\<rparr>\<rparr>"
proof (cases "list_ex (\<lambda>q. av_decision_id q = ap_decision_id a) (db_approvals (jn_db s))")
  case True
  then show ?thesis using assms
    by (auto simp: store_approval_def tx_success insert_approval_def approval_row_of_def dest: fetchone_Some split: option.splits)
next
  case False
  then have "fetchone (\<lambda>v. av_decision_id v = ap_decision_id a) (db_approvals (jn_db s)) = None"
    by (auto simp: fetchone_None list_ex_iff)
  with False show ?thesis using assms
    by (auto simp: store_approval_def tx_success insert_approval_def approval_row_of_def split: option.splits)
qed

lemma accept_new_success:
  assumes "accept_new actor request a inp (digest_text (rq_idempotency_key request)) (canonical_json (actor_val actor))
      (canonical_json (request_claims request (digest_text (rq_idempotency_key request))))
      (canonical_json (approved_plan_ref_val a)) (canonical_json (plan_claims a))
      (map_option (\<lambda>i. canonical_json (execution_input_val i)) inp) s = (Inr ref, s')"
    and "validate_acceptance_binding actor request a (intent_digest request) = None"
    and "\<forall>i. inp = Some i \<longrightarrow> validate_execution_input request a i (intent_digest request) = None"
  obtains oid accepted_at where "admits actor request a inp oid (jn_db s)"
    and "jn_db s' = accepted_db actor request a inp oid accepted_at (jn_db s)"
    and "ref = \<lparr>or_operation_id = oid, or_request_id = rq_request_id request, or_state = OS_ACCEPTED\<rparr>"
proof -
  from assms(1) show thesis
    by (cases inp)
      (auto simp: accept_new_def tx_success Let_def insert_operation_def insert_input_def insert_idempotency_key_def
        operation_ref_of_def operation_ref_check_def list_ex_iff operation_exists_def
        dest!: store_plan_success store_approval_success
        intro!: that simp: admits_def accepted_db_def operation_row_of_def input_row_of_def key_row_of_def assms(2,3))
qed

lemma accept_success:
  assumes "accept actor request a inp s = (Inr ref, s')"
  obtains (existing) ex where
      "find_idempotent (ac_actor_id actor) (rq_operation request) (digest_text (rq_idempotency_key request)) (jn_db s) = Some ex"
      and "accept_existing (intent_digest request) inp ex = Inr ref" and "s' = s"
  | (new) oid accepted_at where "admits actor request a inp oid (jn_db s)"
      and "jn_db s' = accepted_db actor request a inp oid accepted_at (jn_db s)"
      and "ref = \<lparr>or_operation_id = oid, or_request_id = rq_request_id request, or_state = OS_ACCEPTED\<rparr>"
proof (cases "find_idempotent (ac_actor_id actor) (rq_operation request) (digest_text (rq_idempotency_key request)) (jn_db s)")
  case None
  have valid: "validate_acceptance_binding actor request a (intent_digest request) = None"
    "\<forall>i. inp = Some i \<longrightarrow> validate_execution_input request a i (intent_digest request) = None"
    using assms by (auto simp: accept_def Let_def tx_success split: option.splits)
  have "accept_new actor request a inp (digest_text (rq_idempotency_key request)) (canonical_json (actor_val actor))
      (canonical_json (request_claims request (digest_text (rq_idempotency_key request))))
      (canonical_json (approved_plan_ref_val a)) (canonical_json (plan_claims a))
      (map_option (\<lambda>i. canonical_json (execution_input_val i)) inp) s = (Inr ref, s')"
    using assms None by (cases inp) (auto simp: accept_def Let_def tx_success bind_res_Inr)
  with valid show thesis using new by (elim accept_new_success)
next
  case (Some ex)
  with assms show thesis
    using existing by (cases inp) (auto simp: accept_def Let_def tx_success)
qed

section \<open>Provenance\<close>

text \<open>
  Every stored operation is the row of an acceptance whose approval and plan are still stored, and
  every stored execution input is one that its acceptance validated. Only the state of an operation
  row may differ from the row that was inserted.
\<close>

definition provenance :: "database \<Rightarrow> operation_row \<Rightarrow> actor \<Rightarrow> operation_request \<Rightarrow> approved_plan_ref \<Rightarrow> bool" where
  "provenance db o' actor request a \<longleftrightarrow>
     acceptable actor request a \<and> is_entity_id ''operation'' (op_operation_id o') \<and>
     o' = operation_row_of actor request a (op_operation_id o') (op_accepted_at o') (op_state o') \<and>
     fetchone (\<lambda>v. av_decision_id v = ap_decision_id a) (db_approvals db) = Some (approval_row_of a) \<and>
     fetchone (\<lambda>p. pr_plan_id p = ap_plan_id a) (db_plans db) = Some (plan_row_of a)"

definition input_provenance :: "database \<Rightarrow> input_row \<Rightarrow> bool" where
  "input_provenance db row \<longleftrightarrow> (\<exists>o' actor request a i.
     find_operation (in_operation_id row) db = Some o' \<and> provenance db o' actor request a \<and> execution_input_ok i \<and>
     validate_execution_input request a i (intent_digest request) = None \<and> row = input_row_of (in_operation_id row) i)"

definition accepted_inv :: "database \<Rightarrow> bool" where
  "accepted_inv db \<longleftrightarrow>
     distinct (map op_operation_id (db_operations db)) \<and>
     (\<forall>o' \<in> set (db_operations db). \<exists>actor request a. provenance db o' actor request a) \<and>
     (\<forall>row \<in> set (db_operation_inputs db). input_provenance db row)"

lemma accepted_inv_accepts:
  assumes inv: "accepted_inv db" and ok: "acceptable actor request a" and adm: "admits actor request a inp oid db"
    and inp: "\<forall>i. inp = Some i \<longrightarrow> execution_input_ok i"
  shows "accepted_inv (accepted_db actor request a inp oid accepted_at db)"
proof -
  let ?db = "accepted_db actor request a inp oid accepted_at db"
  let ?o = "operation_row_of actor request a oid accepted_at (os_value OS_ACCEPTED)"
  have keep: "provenance ?db o' c r b" if "provenance db o' c r b" for o' c r b
    using that by (auto simp: provenance_def accepted_db_def fetchone_append)
  have plans: "fetchone (\<lambda>p. pr_plan_id p = ap_plan_id a) (db_plans ?db) = Some (plan_row_of a)"
  proof (cases "fetchone (\<lambda>p. pr_plan_id p = ap_plan_id a) (db_plans db)")
    case None
    then have "\<not> list_ex (\<lambda>q. pr_plan_id q = ap_plan_id a) (db_plans db)" by (auto simp: list_ex_iff fetchone_None)
    with None show ?thesis by (simp add: accepted_db_def fetchone_append plan_row_of_def)
  next
    case (Some p)
    then show ?thesis using adm by (auto simp: accepted_db_def admits_def fetchone_append)
  qed
  have approvals: "fetchone (\<lambda>v. av_decision_id v = ap_decision_id a) (db_approvals ?db) = Some (approval_row_of a)"
  proof (cases "fetchone (\<lambda>v. av_decision_id v = ap_decision_id a) (db_approvals db)")
    case None
    then have "\<not> list_ex (\<lambda>q. av_decision_id q = ap_decision_id a) (db_approvals db)" by (auto simp: list_ex_iff fetchone_None)
    with None show ?thesis by (simp add: accepted_db_def fetchone_append approval_row_of_def)
  next
    case (Some p)
    then show ?thesis using adm by (auto simp: accepted_db_def admits_def fetchone_append)
  qed
  have new: "provenance ?db ?o actor request a"
    using ok plans approvals adm by (simp add: provenance_def operation_row_of_def admits_def)
  have fresh: "find_operation oid db = None" using adm by (simp add: admits_def operation_exists_find)
  have found: "find_operation x ?db = (if x = oid then Some ?o else find_operation x db)" for x
    using fresh unfolding find_operation_def accepted_db_def
    by (auto simp: fetchone_append operation_row_of_def split: option.splits)
  have "input_provenance ?db row" if "row \<in> set (db_operation_inputs db)" for row
    using inv that fresh keep unfolding accepted_inv_def input_provenance_def by (metis found option.distinct(1))
  moreover have "input_provenance ?db (input_row_of oid i)" if "inp = Some i" for i
  proof -
    have "execution_input_ok i" "validate_execution_input request a i (intent_digest request) = None"
      using that inp adm by (auto simp: admits_def)
    then show ?thesis
      unfolding input_provenance_def using new found by (fastforce simp: input_row_of_def)
  qed
  moreover have "distinct (map op_operation_id (db_operations ?db))"
    using inv adm by (auto simp: accepted_inv_def accepted_db_def admits_def operation_exists_def list_ex_iff operation_row_of_def)
  moreover have "\<exists>c r b. provenance ?db o' c r b" if "o' \<in> set (db_operations ?db)" for o'
  proof (cases "o' = ?o")
    case False
    then have "o' \<in> set (db_operations db)" using that by (simp add: accepted_db_def)
    then show ?thesis using inv keep unfolding accepted_inv_def by metis
  qed (use new in blast)
  moreover have "set (db_operation_inputs ?db) = set (db_operation_inputs db) \<union> {input_row_of oid i | i. inp = Some i}"
    by (auto simp: accepted_db_def split: option.splits)
  ultimately show ?thesis unfolding accepted_inv_def by blast
qed

section \<open>What other calls keep\<close>

definition stateless :: "operation_row \<Rightarrow> operation_row" where
  "stateless r = r\<lparr>op_state := []\<rparr>"

definition same_acceptance :: "database \<Rightarrow> database \<Rightarrow> bool" where
  "same_acceptance db db' \<longleftrightarrow>
     map stateless (db_operations db') = map stateless (db_operations db) \<and>
     db_plans db' = db_plans db \<and> db_approvals db' = db_approvals db \<and>
     db_operation_inputs db' = db_operation_inputs db \<and> db_idempotency_keys db' = db_idempotency_keys db"

interpretation acc: db_frame same_acceptance
  by unfold_locales (simp_all add: same_acceptance_def)

lemma stateless_iff: "stateless r' = stateless r \<longleftrightarrow> (\<exists>st. r' = r\<lparr>op_state := st\<rparr>)"
  by (cases r; cases r') (simp add: stateless_def)

lemma find_operation_stateless:
  assumes "map stateless (db_operations db') = map stateless (db_operations db)"
  shows "map_option stateless (find_operation oid db') = map_option stateless (find_operation oid db)"
proof -
  have "op_operation_id (stateless r) = op_operation_id r" for r by (simp add: stateless_def)
  then have "map_option stateless (find_operation oid d) =
      fetchone (\<lambda>r. op_operation_id r = oid) (map stateless (db_operations d))" for d
    unfolding find_operation_def by (subst fetchone_map) simp_all
  with assms show ?thesis by simp
qed

lemma operation_ids_stateless:
  assumes "map stateless (db_operations db') = map stateless (db_operations db)"
  shows "map op_operation_id (db_operations db') = map op_operation_id (db_operations db)"
proof -
  have "map op_operation_id (map stateless rs) = map op_operation_id rs" for rs
    by (simp add: stateless_def comp_def)
  with assms show ?thesis by metis
qed

lemma provenance_stateless:
  assumes "provenance db o' actor request a" "stateless o'' = stateless o'"
    and "db_plans db' = db_plans db" "db_approvals db' = db_approvals db"
  shows "provenance db' o'' actor request a"
proof -
  obtain st where o'': "o'' = o'\<lparr>op_state := st\<rparr>" using assms(2) by (auto simp: stateless_iff)
  have "o' = operation_row_of actor request a (op_operation_id o') (op_accepted_at o') (op_state o')"
    using assms(1) by (simp add: provenance_def)
  then have "o'' = operation_row_of actor request a (op_operation_id o') (op_accepted_at o') st"
    unfolding o'' by (cases o') (simp add: operation_row_of_def)
  then show ?thesis using assms by (simp add: provenance_def o'')
qed

lemma accepted_inv_frame:
  assumes "accepted_inv db" "same_acceptance db db'"
  shows "accepted_inv db'"
proof -
  have ops: "map stateless (db_operations db') = map stateless (db_operations db)"
    using assms(2) by (simp add: same_acceptance_def)
  have prov: "\<exists>o'. o' \<in> set (db_operations db) \<and> stateless o'' = stateless o'" if "o'' \<in> set (db_operations db')" for o''
    using ops that by (metis (no_types, lifting) image_iff image_set)
  have keep: "provenance db o' c r b \<Longrightarrow> stateless o'' = stateless o' \<Longrightarrow> provenance db' o'' c r b" for o' o'' c r b
    using provenance_stateless assms(2) unfolding same_acceptance_def by blast
  have "input_provenance db' row" if "row \<in> set (db_operation_inputs db')" for row
  proof -
    have "input_provenance db row" using that assms by (simp add: accepted_inv_def same_acceptance_def)
    then show ?thesis unfolding input_provenance_def
      using find_operation_stateless [OF ops, of "in_operation_id row"] keep
      by (elim exE conjE) (force simp: map_option_eq_Some)
  qed
  moreover have "\<exists>c r b. provenance db' o'' c r b" if "o'' \<in> set (db_operations db')" for o''
    using prov [OF that] keep assms(1) unfolding accepted_inv_def by blast
  ultimately show ?thesis
    using assms(1) operation_ids_stateless [OF ops] unfolding accepted_inv_def by simp
qed

lemma add_event_acceptance: "same_acceptance db (add_event e p db)"
proof -
  have "map stateless (db_operations (add_event e p db)) = map stateless (db_operations db)"
    by (simp add: add_event_def set_operation_state_def stateless_def)
  then show ?thesis by (simp add: same_acceptance_def add_event_def set_operation_state_def)
qed

lemmas statement_defs = insert_control_def upsert_lease_def upsert_scope_lease_def update_leases_def
  update_scope_leases_def insert_lifecycle_def upsert_active_def insert_atomic_def insert_receipt_def upsert_delivery_def

lemmas call_defs = request_cancellation_def append_def acknowledge_host_events_def acquire_lease_def
  heartbeat_lease_def release_lease_def acquire_fence_def heartbeat_fence_def release_fence_def
  append_revision_state_def compare_and_swap_active_revision_def commit_receipt_def commit_success_def
  assert_fence_def assert_execution_fence_def append_revision_state_tx_def cas_active_revision_tx_def
  commit_receipt_tx_def commit_receipt_new_def commit_success_existing_def commit_success_new_def
  append_success_phase_events_tx_def returning_def

lemma other_calls_acceptance:
  "frames same_acceptance (run_call c) \<or> (\<exists>actor request a inp. c = Accept actor request a inp)"
  by (cases c) (auto simp: call_defs Let_def statement_defs same_acceptance_def
      intro!: acc.intros acc.append_event acc.phase_events add_event_acceptance [unfolded same_acceptance_def])

interpretation accepted: journal_invariant "\<lambda>_. True" accepted_inv
proof
  show "accepted_inv empty_database" by (simp add: accepted_inv_def empty_database_def)
next
  fix c s u s'
  assume ok: "call_ok c" and inv: "accepted_inv (jn_db s)" and run: "run_call c s = (Inr u, s')"
  show "accepted_inv (jn_db s')"
  proof (cases "\<exists>actor request a inp. c = Accept actor request a inp")
    case False
    then have "frames same_acceptance (run_call c)" using other_calls_acceptance [of c] by blast
    then have "same_acceptance (jn_db s) (jn_db s')" using run by (rule framesD)
    then show ?thesis by (rule accepted_inv_frame [OF inv])
  next
    case True
    then obtain actor request a inp where c: "c = Accept actor request a inp" by blast
    with run obtain ref where "accept actor request a inp s = (Inr ref, s')" by (auto simp: tx_success)
    then show ?thesis
    proof (cases rule: accept_success)
      case (new oid accepted_at)
      then have "acceptable actor request a" using ok c by (auto simp: acceptable_def admits_def)
      then show ?thesis using accepted_inv_accepts [OF inv _ new(1)] new(2) ok c by (auto split: option.splits)
    qed (use inv in simp)
  qed
qed

lemma find_accepted_rows:
  assumes "accepted_inv db" "find_operation oid db = Some o'"
  obtains actor request a where "provenance db o' actor request a" "op_operation_id o' = oid"
    "find_accepted oid db = Some (o', approval_row_of a, plan_row_of a)"
    "verified_acceptance_claims o' (approval_row_of a) (plan_row_of a) = Inr (approval_norm a)"
proof -
  have o': "o' \<in> set (db_operations db)" "op_operation_id o' = oid"
    using assms find_operation_mem by (auto simp: accepted_inv_def)
  then obtain actor request a where prov: "provenance db o' actor request a"
    using assms(1) by (auto simp: accepted_inv_def)
  then have row: "o' = operation_row_of actor request a (op_operation_id o') (op_accepted_at o') (op_state o')"
    and ok: "acceptable actor request a" by (simp_all add: provenance_def)
  have "op_decision_id o' = ap_decision_id a" by (subst row) simp
  then have "find_accepted oid db = Some (o', approval_row_of a, plan_row_of a)"
    using prov assms(2) by (simp add: find_accepted_def provenance_def approval_row_of_def)
  moreover have "verified_acceptance_claims o' (approval_row_of a) (plan_row_of a) = Inr (approval_norm a)"
    by (subst row) (rule verified_rows [OF ok])
  ultimately show thesis using that prov o'(2) by blast
qed

lemma load_accepted_input:
  assumes inv: "accepted_inv db" and row: "find_input oid db = Some row"
  obtains o' actor request a i where "find_operation oid db = Some o'" "provenance db o' actor request a"
    "execution_input_ok i" "row = input_row_of oid i" "validate_execution_input request a i (intent_digest request) = None"
    "load_execution_input_tx db oid = Inr (input_norm i)"
proof -
  have "row \<in> set (db_operation_inputs db)" and id: "in_operation_id row = oid"
    using row by (auto simp: find_input_def dest: fetchone_Some)
  then have "input_provenance db row" using inv by (simp add: accepted_inv_def)
  then obtain o' actor request a i where o': "find_operation oid db = Some o'" and prov: "provenance db o' actor request a"
    and i: "execution_input_ok i" and r: "row = input_row_of oid i"
    and valid: "validate_execution_input request a i (intent_digest request) = None"
    by (auto simp: input_provenance_def id)
  have ok: "acceptable actor request a"
    and o'': "o' = operation_row_of actor request a (op_operation_id o') (op_accepted_at o') (op_state o')"
    using prov by (simp_all add: provenance_def)
  have dec: "op_decision_id o' = ap_decision_id a" by (subst o'') simp
  have acc: "find_accepted oid db = Some (o', approval_row_of a, plan_row_of a)"
    using prov o' dec by (simp add: find_accepted_def provenance_def approval_row_of_def)
  have ver: "verified_acceptance_claims o' (approval_row_of a) (plan_row_of a) = Inr (approval_norm a)"
    by (subst o'') (rule verified_rows [OF ok])
  have a: "approved_plan_ref_check a = None" and rq: "operation_request_check request = None" using ok by (auto simp: acceptable_def)
  have json: "op_request_json o' = canonical_json (request_claims request (digest_text (rq_idempotency_key request)))"
    "op_request_digest o' = intent_digest request"
    by (subst o'', simp add: operation_row_of_def)+
  have req: "bind_res (loads (op_request_json o')) request_from_payload = Inr (request\<lparr>rq_idempotency_key := ''redacted''\<rparr>)"
    using loads_stored [OF stored_wf(1) serialize_request_claims [OF rq digest_text_is_digest]] request_reads_back [OF rq] json by simp
  have app: "bind_res (loads (av_payload_json (approval_row_of a))) approved_plan_from_payload = Inr (approval_norm a)"
    using approval_codec.reads_back [OF a] by (simp add: approval_row_of_def)
  have "validate_execution_input (request\<lparr>rq_idempotency_key := ''redacted''\<rparr>) (approval_norm a) (input_norm i) (intent_digest request) = None"
  proof -
    have same: "canonical_json (approved_plan_ref_val (ei_approved_plan (input_norm i))) =
        canonical_json (approved_plan_ref_val (ei_approved_plan i))"
      using i approval_codec.canonical_json_norm by (simp add: input_norm_def execution_input_ok_def)
    show ?thesis
      using valid approval_codec.canonical_json_norm [OF a]
      by (simp add: validate_execution_input_def same) (simp add: input_norm_def approval_norm_def)
  qed
  then have check: "guarded (validate_execution_input (request\<lparr>rq_idempotency_key := ''redacted''\<rparr>) (approval_norm a)
      (input_norm i) (op_request_digest o')) () = Inr ()" by (simp add: json)
  have cols: "ei_input_digest (input_norm i) = ei_input_digest i" "ei_deadline (input_norm i) = ei_deadline i"
    by (simp_all add: input_norm_def)
  have "load_execution_input_tx db oid = Inr (input_norm i)"
    using input_codec.loads_canonical [of i] input_codec.dec_enc [OF i] input_codec.canonical_json_norm [OF i]
    by (simp add: load_execution_input_tx_def acc row r input_row_of_def ver req app check cols)
  with that o' prov i r valid show thesis by blast
qed

section \<open>Retries\<close>

lemma find_idempotent_accepted:
  assumes "accepted_inv db" "admits actor request a inp oid db"
  shows "find_idempotent (ac_actor_id actor) (rq_operation request) (digest_text (rq_idempotency_key request))
      (accepted_db actor request a inp oid accepted_at db) =
    Some (key_row_of actor request oid, operation_row_of actor request a oid accepted_at (os_value OS_ACCEPTED),
      map_option (input_row_of oid) inp)"
proof -
  let ?db = "accepted_db actor request a inp oid accepted_at db"
  have fresh: "find_operation oid db = None" using assms(2) by (simp add: admits_def operation_exists_find)
  have "fetchone (\<lambda>i. ik_actor_id i = ac_actor_id actor \<and> ik_operation_class i = rq_operation request \<and>
      ik_key_digest i = digest_text (rq_idempotency_key request)) (db_idempotency_keys db) = None"
    using assms(2) by (auto simp: admits_def fetchone_None)
  then have key: "fetchone (\<lambda>i. ik_actor_id i = ac_actor_id actor \<and> ik_operation_class i = rq_operation request \<and>
      ik_key_digest i = digest_text (rq_idempotency_key request)) (db_idempotency_keys ?db) = Some (key_row_of actor request oid)"
    by (simp add: accepted_db_def fetchone_append key_row_of_def)
  have op: "find_operation oid ?db = Some (operation_row_of actor request a oid accepted_at (os_value OS_ACCEPTED))"
    using fresh by (simp add: find_operation_def accepted_db_def fetchone_append)
  have "\<forall>q \<in> set (db_operation_inputs db). in_operation_id q \<noteq> oid"
    using assms(1) fresh unfolding accepted_inv_def input_provenance_def by force
  then have "find_input oid db = None" by (simp add: find_input_def fetchone_None)
  then have "find_input oid ?db = map_option (input_row_of oid) inp"
    by (cases inp) (simp_all add: find_input_def accepted_db_def fetchone_append input_row_of_def)
  with key op show ?thesis by (simp add: find_idempotent_def key_row_of_def)
qed

lemma accept_again:
  assumes inv: "accepted_inv (jn_db s)" and "accept actor request a inp s = (Inr ref, s')"
  shows "accept actor request a inp s' = (Inr ref, s')"
proof (cases rule: accept_success [OF assms(2)])
  case (1 ex)
  then show ?thesis using assms(2) by simp
next
  case (2 oid accepted_at)
  have id: "is_entity_id ''operation'' oid" using 2(1) by (simp add: admits_def)
  have request: "is_entity_id ''request'' (rq_request_id request)" using 2(1) by (simp add: admits_def)
  have state: "operation_state_of (os_value OS_ACCEPTED) = Inr OS_ACCEPTED" by simp
  have "operation_ref_of oid (rq_request_id request) OS_ACCEPTED = Inr ref"
    using 2(3) id request by (simp add: operation_ref_of_def operation_ref_check_def)
  with state have "accept_existing (intent_digest request) inp (key_row_of actor request oid,
      operation_row_of actor request a oid accepted_at (os_value OS_ACCEPTED), map_option (input_row_of oid) inp) = Inr ref"
    by (cases inp) (simp_all add: accept_existing_def key_row_of_def input_row_of_def operation_row_of_def state del: os_value.simps)
  then show ?thesis
    using assms(2) find_idempotent_accepted [OF inv 2(1)] 2(2)
    by (cases inp) (auto simp: accept_def Let_def tx_success)
qed

text \<open>
  C10. An accepted request can be retried: the same call on the resulting journal returns the same
  reference and changes nothing, neither the database nor the clock or the identifiers drawn.
\<close>

theorem accept_idempotent:
  assumes "reachable (\<lambda>_. True) s" and "accept actor request a inp s = (Inr ref, s')"
  shows "accept actor request a inp s' = (Inr ref, s')"
  by (rule accept_again [OF accepted.holds [OF assms(1)] assms(2)])

definition keys_kept :: "database \<Rightarrow> database \<Rightarrow> bool" where
  "keys_kept db db' \<longleftrightarrow> (\<exists>extra. db_idempotency_keys db' = db_idempotency_keys db @ extra)"

interpretation keys: db_frame keys_kept
  by unfold_locales (auto simp: keys_kept_def)

lemma calls_keep_keys: "frames keys_kept (run_call c)"
proof (cases "\<exists>actor request a inp. c = Accept actor request a inp")
  case False
  then show ?thesis
    using other_calls_acceptance [of c] by (auto simp: frames_def same_acceptance_def keys_kept_def)
next
  case True
  then show ?thesis
    by (auto simp: frames_def tx_success keys_kept_def accepted_db_def elim!: accept_success)
qed

lemma find_operation_id: "find_operation oid db = Some o' \<Longrightarrow> op_operation_id o' = oid"
  by (auto simp: find_operation_def dest: fetchone_Some)

lemma existing_operation:
  assumes "find_idempotent actor_id operation key_digest db = Some ex" "accept_existing request_digest inp ex = Inr ref"
  shows "\<exists>i. fetchone (\<lambda>i. ik_actor_id i = actor_id \<and> ik_operation_class i = operation \<and> ik_key_digest i = key_digest)
      (db_idempotency_keys db) = Some i \<and> ik_operation_id i = or_operation_id ref"
  using assms find_operation_id
  by (fastforce simp: find_idempotent_def accept_existing_def operation_ref_of_def Let_def bind_res_Inr
      split: option.splits if_splits)

lemma accepted_key:
  assumes "accept actor request a inp s = (Inr ref, s')"
  obtains i where "fetchone (\<lambda>i. ik_actor_id i = ac_actor_id actor \<and> ik_operation_class i = rq_operation request \<and>
      ik_key_digest i = digest_text (rq_idempotency_key request)) (db_idempotency_keys (jn_db s')) = Some i"
    and "ik_operation_id i = or_operation_id ref"
proof (cases rule: accept_success [OF assms])
  case (1 ex)
  then show thesis using that existing_operation by blast
next
  case (2 oid accepted_at)
  then have "fetchone (\<lambda>i. ik_actor_id i = ac_actor_id actor \<and> ik_operation_class i = rq_operation request \<and>
      ik_key_digest i = digest_text (rq_idempotency_key request)) (db_idempotency_keys (jn_db s)) = None"
    by (auto simp: admits_def fetchone_None)
  with 2 show thesis
    by (intro that [of "key_row_of actor request oid"]) (simp_all add: accepted_db_def fetchone_append key_row_of_def)
qed

text \<open>
  C9. An idempotency key identifies one operation for ever: whatever calls follow an acceptance, a
  later acceptance by the same actor for the same operation class under the same key, if it returns,
  returns the same operation and changes nothing.
\<close>

theorem key_identifies_one_operation:
  assumes "accept actor request a inp s = (Inr r1, s1)" and "journal_step\<^sup>*\<^sup>* s1 s2"
    and "accept actor' request' a' inp' s2 = (Inr r2, s3)"
    and "ac_actor_id actor' = ac_actor_id actor" "rq_operation request' = rq_operation request"
      "rq_idempotency_key request' = rq_idempotency_key request"
  shows "or_operation_id r2 = or_operation_id r1 \<and> s3 = s2"
proof -
  let ?p = "\<lambda>i. ik_actor_id i = ac_actor_id actor \<and> ik_operation_class i = rq_operation request \<and>
      ik_key_digest i = digest_text (rq_idempotency_key request)"
  obtain i where i: "fetchone ?p (db_idempotency_keys (jn_db s1)) = Some i" "ik_operation_id i = or_operation_id r1"
    using accepted_key [OF assms(1)] .
  have "keys_kept (jn_db s1) (jn_db s2)"
    using frame_later [OF keys.db_frame_axioms calls_keep_keys assms(2)] .
  then have key: "fetchone ?p (db_idempotency_keys (jn_db s2)) = Some i"
    using i by (auto simp: keys_kept_def fetchone_append)
  then have "?p i" "i \<in> set (db_idempotency_keys (jn_db s2))" by (auto dest: fetchone_Some)
  then have no_new: "\<not> admits actor' request' a' inp' oid (jn_db s2)" for oid
    using assms(4-6) unfolding admits_def by metis
  from assms(3) show ?thesis
  proof (cases rule: accept_success)
    case (existing ex)
    then have "or_operation_id r2 = ik_operation_id i"
      using key assms(4-6) existing_operation [OF existing(1,2)] by auto
    with existing i show ?thesis by simp
  qed (use no_new in blast)
qed

end
