(* ===== verification/Event_Facts.thy ===== *)
theory Event_Facts
  imports Acceptance_Facts
begin

text \<open>
  The event history of an operation: appending the next event to a verified history gives a verified
  history, a terminal event is stored together with its receipt, and so every journal that is used
  through its own calls verifies all its histories.
\<close>

section \<open>Chains\<close>

lemma insort_key_snoc: "f a \<le> f x \<Longrightarrow> insort_key f a (ys @ [x]) = insort_key f a ys @ [x]"
  by (induction ys) auto

lemma sort_key_snoc: "(\<And>y. y \<in> set xs \<Longrightarrow> f y \<le> f x) \<Longrightarrow> sort_key f (xs @ [x]) = sort_key f xs @ [x]"
  by (induction xs) (auto simp: insort_key_snoc)

definition chain_digest :: "string option \<Rightarrow> operation_event list \<Rightarrow> string option" where
  "chain_digest prev es = (if es = [] then prev else Some (canonical_digest (operation_event_val (last es))))"

lemma verify_event_row_Inr:
  "verify_event_row o' n prev row = Inr e \<Longrightarrow>
   oe_sequence row = n \<and> oe_event_digest row = canonical_digest (operation_event_val e)"
  by (auto simp: verify_event_row_def bind_res_Inr)

lemma chain_shape:
  assumes "verify_event_chain o' n prev rows = Inr es"
  shows "length es = length rows \<and> (\<forall>r \<in> set rows. oe_sequence r < n + int (length rows)) \<and>
    map_option oe_event_digest (last_row rows) = (if rows = [] then None else chain_digest prev es) \<and>
    next_sequence (last_row rows) = (if rows = [] then 1 else n + int (length rows))"
  using assms
proof (induction o' n prev rows arbitrary: es rule: verify_event_chain.induct)
  case (1 o' n prev)
  then show ?case by (simp add: last_row_def next_sequence_def)
next
  case (2 o' n prev row rows)
  then obtain e es' where e: "verify_event_row o' n prev row = Inr e" and es: "es = e # es'"
    and rest: "verify_event_chain o' (n + 1) (Some (canonical_digest (operation_event_val e))) rows = Inr es'"
    by (auto simp: bind_res_Inr)
  note IH = "2.IH" [OF rest]
  show ?case
  proof (cases "rows = []")
    case True
    then show ?thesis using e es rest verify_event_row_Inr [OF e]
      by (simp add: last_row_def next_sequence_def chain_digest_def)
  next
    case False
    then have "es' \<noteq> []" using IH by auto
    with False show ?thesis using IH es verify_event_row_Inr [OF e]
      by (auto simp: last_row_def next_sequence_def chain_digest_def)
  qed
qed

lemma chain_snoc:
  "verify_event_chain o' n prev (rows @ [row]) =
    bind_res (verify_event_chain o' n prev rows) (\<lambda>es.
    bind_res (verify_event_row o' (n + int (length rows)) (chain_digest prev es) row) (\<lambda>e. Inr (es @ [e])))"
proof (induction o' n prev rows rule: verify_event_chain.induct)
  case (1 o' n prev)
  then show ?case by (simp add: chain_digest_def)
next
  case (2 o' n prev r rows)
  show ?case
  proof (cases "verify_event_row o' n prev r")
    case (Inr e)
    have n: "n + 1 + int (length rows) = n + int (length (r # rows))" by simp
    have d: "chain_digest (Some (canonical_digest (operation_event_val e))) es = chain_digest prev (e # es)" for es
      by (simp add: chain_digest_def)
    show ?thesis
      using "2.IH" [of e] Inr
      by (cases "verify_event_chain o' (n + 1) (Some (canonical_digest (operation_event_val e))) rows")
         (simp_all add: d n bind_res_def split: sum.splits)
  qed simp
qed

lemma chain_state: "verify_event_chain (o'\<lparr>op_state := st\<rparr>) n prev rows = verify_event_chain o' n prev rows"
  by (induction o' n prev rows rule: verify_event_chain.induct) (simp_all add: verify_event_row_def)

lemma claims_state: "verified_acceptance_claims (o'\<lparr>op_state := st\<rparr>) a p = verified_acceptance_claims o' a p"
  by (simp add: verified_acceptance_claims_def decode_acceptance_def acceptance_reconciles_def)

text \<open>A valid event that the guards of \<open>append_event\<close> let through verifies at its position.\<close>

lemma appended_row:
  assumes e: "operation_event_check e = None" and g: "appendable e allow o' db" and id: "ev_operation_id e = op_operation_id o'"
    and chain: "verify_event_chain o' 1 None (event_rows (op_operation_id o') db) = Inr es"
  shows "verify_event_row o' (1 + int (length (event_rows (op_operation_id o') db))) (chain_digest None es)
      (event_row_of e (canonical_json (operation_event_val e))) = Inr (event_norm e)"
proof -
  have dec: "event_from_json (canonical_json (operation_event_val e)) = Inr (event_norm e)"
    using event_codec.reads_back [OF e] by (simp add: event_from_json_def)
  have same: "canonical_json (operation_event_val (event_norm e)) = canonical_json (operation_event_val e)"
    "canonical_digest (operation_event_val (event_norm e)) = canonical_digest (operation_event_val e)"
    using event_codec.canonical_json_norm [OF e] event_codec.canonical_digest_norm [OF e] by simp_all
  show ?thesis
    using g chain_shape [OF chain]
    by (auto simp: verify_event_row_def event_row_of_def dec same appendable_def id bind_res_Inr chain_digest_def split: if_splits)
       (auto simp: event_norm_def id chain_digest_def last_row_def next_sequence_def split: if_splits)
qed

section \<open>Histories after an event\<close>

lemma event_rows_add_event:
  "event_rows x (add_event e p db) =
    (if x = ev_operation_id e then sort_key oe_sequence (filter (\<lambda>r. oe_operation_id r = x) (db_operation_events db) @ [event_row_of e p])
     else event_rows x db)"
  by (simp add: event_rows_def add_event_def set_operation_state_def event_row_of_def)

lemma set_event_rows: "set (event_rows x db) = {r \<in> set (db_operation_events db). oe_operation_id r = x}"
  by (auto simp: event_rows_def)

lemma event_rows_snoc:
  assumes "\<forall>r \<in> set (event_rows (ev_operation_id e) db). oe_sequence r < ev_sequence e"
  shows "event_rows (ev_operation_id e) (add_event e p db) = event_rows (ev_operation_id e) db @ [event_row_of e p]"
proof -
  have "sort_key oe_sequence (filter (\<lambda>r. oe_operation_id r = ev_operation_id e) (db_operation_events db) @ [event_row_of e p]) =
      sort_key oe_sequence (filter (\<lambda>r. oe_operation_id r = ev_operation_id e) (db_operation_events db)) @ [event_row_of e p]"
    by (rule sort_key_snoc) (use assms set_event_rows [of "ev_operation_id e" db] in \<open>auto simp: event_row_of_def less_imp_le\<close>)
  then show ?thesis by (simp add: event_rows_add_event) (simp add: event_rows_def)
qed

lemma find_operation_add_event:
  "find_operation x (add_event e p db) =
    map_option (\<lambda>r. if x = ev_operation_id e then r\<lparr>op_state := os_value (ev_state e)\<rparr> else r) (find_operation x db)"
proof -
  have "find_operation x (add_event e p db) =
      map_option (\<lambda>r. if op_operation_id r = ev_operation_id e then r\<lparr>op_state := os_value (ev_state e)\<rparr> else r) (find_operation x db)"
    unfolding find_operation_def add_event_def set_operation_state_def by (simp add: fetchone_map)
  then show ?thesis by (cases "find_operation x db") (auto dest: find_operation_id)
qed

lemma find_accepted_add_event:
  "find_accepted x (add_event e p db) =
    map_option (\<lambda>(o', a, p). (if x = ev_operation_id e then o'\<lparr>op_state := os_value (ev_state e)\<rparr> else o', a, p)) (find_accepted x db)"
proof -
  have "db_approvals (add_event e p db) = db_approvals db" "db_plans (add_event e p db) = db_plans db"
    by (simp_all add: add_event_def set_operation_state_def)
  then show ?thesis
    by (cases "find_operation x db") (auto simp: find_accepted_def find_operation_add_event split: option.splits)
qed

lemma find_receipt_add_event [simp]: "find_receipt x (add_event e p db) = find_receipt x db"
  by (simp add: find_receipt_def add_event_def set_operation_state_def)

text \<open>The history and the claims of an operation that verifies.\<close>

lemma verified_eventsE:
  assumes "verified_events db oid = Inr es"
  obtains o' a p approval where "find_accepted oid db = Some (o', a, p)" "op_operation_id o' = oid"
    "find_operation oid db = Some o'" "verified_acceptance_claims o' a p = Inr approval"
    "verify_event_chain o' 1 None (event_rows oid db) = Inr es"
    "verify_terminal o' a p approval es (find_receipt oid db) = Inr es"
proof -
  from assms obtain o' a p approval es' where o: "find_accepted oid db = Some (o', a, p)"
    "verified_acceptance_claims o' a p = Inr approval" "verify_event_chain o' 1 None (event_rows oid db) = Inr es'"
    "verify_terminal o' a p approval es' (find_receipt oid db) = Inr es"
    by (auto simp: verified_events_def bind_res_Inr split: option.splits)
  moreover have "es' = es" using o(4) by (auto simp: verify_terminal_def bind_res_Inr split: option.splits)
  moreover have "find_operation oid db = Some o'" using o(1) by (auto simp: find_accepted_def split: option.splits)
  ultimately show thesis using that find_operation_id by blast
qed

lemma verified_events_other:
  assumes "x \<noteq> ev_operation_id e"
  shows "verified_events (add_event e p db) x = verified_events db x"
proof -
  have "find_accepted x (add_event e p db) = find_accepted x db"
    using assms by (cases "find_accepted x db") (auto simp: find_accepted_add_event)
  then show ?thesis
    using assms by (cases "find_accepted x db") (auto simp: verified_events_def event_rows_add_event)
qed

lemma chain_add_event:
  assumes e: "operation_event_check e = None" and o': "find_operation (ev_operation_id e) db = Some o'"
    and g: "appendable e allow o' db" and v: "verified_events db (ev_operation_id e) = Inr es"
  shows "verify_event_chain (o'\<lparr>op_state := st\<rparr>) 1 None (event_rows (ev_operation_id e)
      (add_event e (canonical_json (operation_event_val e)) db)) = Inr (es @ [event_norm e])"
proof -
  have id: "op_operation_id o' = ev_operation_id e" using find_operation_id [OF o'] .
  have chain: "verify_event_chain o' 1 None (event_rows (ev_operation_id e) db) = Inr es"
    using v o' by (elim verified_eventsE) simp
  have "\<forall>r \<in> set (event_rows (ev_operation_id e) db). oe_sequence r < ev_sequence e"
    using chain_shape [OF chain] g by (auto simp: appendable_def split: if_splits)
  then show ?thesis
    using appended_row [OF e g id [symmetric], unfolded id, OF chain] chain
    unfolding chain_state by (simp add: event_rows_snoc chain_snoc)
qed

lemma verified_append:
  assumes e: "operation_event_check e = None" and o': "find_operation (ev_operation_id e) db = Some o'"
    and g: "appendable e False o' db" and v: "verified_events db (ev_operation_id e) = Inr es"
  shows "verified_events (add_event e (canonical_json (operation_event_val e)) db) (ev_operation_id e) = Inr (es @ [event_norm e])"
proof -
  obtain a p approval where acc: "find_accepted (ev_operation_id e) db = Some (o', a, p)"
    and claims: "verified_acceptance_claims o' a p = Inr approval"
    and fin: "verify_terminal o' a p approval es (find_receipt (ev_operation_id e) db) = Inr es"
    using v o' by (elim verified_eventsE) simp
  obtain st where st: "op_state o' = os_value st" "\<not> terminal st" using g by (auto simp: appendable_def)
  have none: "find_receipt (ev_operation_id e) db = None" "\<not> list_ex (\<lambda>e. terminal (ev_state e)) es"
    using fin st by (auto simp: verify_terminal_def bind_res_Inr receipt_reconciles_def os.value_inj split: option.splits)
  have state: "ev_state (event_norm e) = ev_state e" by (simp add: event_norm_def)
  have "\<not> terminal (ev_state e)" using g by (auto simp: appendable_def)
  then show ?thesis
    using chain_add_event [OF e o' g v, of "os_value (ev_state e)"] claims none state
    by (simp add: verified_events_def find_accepted_add_event acc claims_state verify_terminal_def bind_res_Inr)
qed

end
