(* ===== verification/Receipt_Facts.thy ===== *)
theory Receipt_Facts
  imports Event_Facts
begin

text \<open>
  Terminal receipts: a commit stores the terminal event and the receipt together, the two reconcile
  with the accepted claims, and the resulting history verifies.
\<close>

section \<open>The effect of a commit\<close>

definition receipt_row_of :: "terminal_receipt \<Rightarrow> receipt_row" where
  "receipt_row_of r = \<lparr>tr_receipt_id = rc_receipt_id r, tr_operation_id = rc_operation_id r,
     tr_outcome = ro_value (rc_outcome r), tr_receipt_digest = canonical_digest (terminal_receipt_val r),
     tr_payload_json = canonical_json (terminal_receipt_val r)\<rparr>"

definition add_receipt :: "terminal_receipt \<Rightarrow> database \<Rightarrow> database" where
  "add_receipt r db = db\<lparr>db_terminal_receipts := db_terminal_receipts db @ [receipt_row_of r]\<rparr>"

fun outcome_state :: "receipt_outcome \<Rightarrow> operation_state" where
  "outcome_state RO_SUCCEEDED = OS_SUCCEEDED"
| "outcome_state RO_FAILED_COMPENSATED = OS_FAILED_COMPENSATED"
| "outcome_state RO_FAILED_UNCOMPENSATED = OS_FAILED_UNCOMPENSATED"
| "outcome_state RO_CANCELLED = OS_CANCELLED"

lemma outcome_value: "os_value (outcome_state oc) = ro_value oc"
  by (cases oc) simp_all

lemma outcome_terminal [simp]: "terminal (outcome_state oc)"
  by (cases oc) (simp_all add: terminal_def)

lemma revalidate_Inr: "revalidate_receipt r = Inr v \<longleftrightarrow> v = r \<and> stored_receipt_ok r"
  by (auto simp: revalidate_receipt_def stored_receipt_ok_def stored_verification_ok_def verification_result_ok_def list_all_iff)

text \<open>What the commit of a new receipt establishes.\<close>

definition committed :: "terminal_receipt \<Rightarrow> operation_event \<Rightarrow> operation_row \<Rightarrow> approval_row \<Rightarrow> plan_row \<Rightarrow> database \<Rightarrow> bool" where
  "committed r e o' a p db \<longleftrightarrow>
     (\<exists>hex. e = terminal_event_of r hex (outcome_state (rc_outcome r)) (last_row (event_rows (rc_operation_id r) db))) \<and>
     operation_event_check e = None \<and> appendable e True o' db \<and>
     (\<exists>claims. loads (pr_payload_json p) = Inr claims \<and> receipt_binds r o' a p claims = Inr True) \<and>
     (\<forall>q \<in> set (db_terminal_receipts db). tr_receipt_id q \<noteq> rc_receipt_id r \<and> tr_operation_id q \<noteq> rc_operation_id r)"

lemma commit_receipt_new_success:
  assumes "commit_receipt_new r (canonical_json (terminal_receipt_val r)) o' a p s = (Inr b, s')"
    and "find_operation (rc_operation_id r) (jn_db s) = Some o'"
  obtains e where "committed r e o' a p (jn_db s)"
    and "jn_db s' = add_receipt r (add_event e (canonical_json (operation_event_val e)) (jn_db s))"
proof -
  let ?db = "jn_db s" and ?e = "\<lambda>hex. terminal_event_of r hex (outcome_state (rc_outcome r)) (last_row (event_rows (rc_operation_id r) (jn_db s)))"
  obtain st hex t u where st: "ro_value (rc_outcome r) = os_value st"
    and claims: "\<exists>claims. loads (pr_payload_json p) = Inr claims \<and> receipt_binds r o' a p claims = Inr True"
    and e: "operation_event_check (terminal_event_of r hex st (last_row (event_rows (rc_operation_id r) ?db))) = None"
    and app: "append_event (terminal_event_of r hex st (last_row (event_rows (rc_operation_id r) ?db)))
      (canonical_json (operation_event_val (terminal_event_of r hex st (last_row (event_rows (rc_operation_id r) ?db))))) True t = (Inr (), u)"
    and t: "jn_db t = ?db"
    and ins: "insert_receipt (receipt_row_of r) (jn_db u) = Inr (jn_db s')"
    using assms(1) by (auto simp: commit_receipt_new_def tx_success Let_def receipt_row_of_def)
  have out: "st = outcome_state (rc_outcome r)"
    using st outcome_value [of "rc_outcome r"] by (simp add: os.value_inj)
  have "jn_db u = add_event (?e hex) (canonical_json (operation_event_val (?e hex))) ?db \<and> appendable (?e hex) True o' ?db"
    using app assms(2) t out by (elim append_event_success) (simp add: terminal_event_of_def)
  then show thesis
    using that [of "?e hex"] ins e claims out
    by (auto simp: committed_def insert_receipt_def add_receipt_def list_ex_iff add_event_def set_operation_state_def receipt_row_of_def)
qed

section \<open>The committed history verifies\<close>

lemma json_field_of_obj_get: "obj_get j k = Inr v \<Longrightarrow> json_field j k = Some v"
  by (auto simp: obj_get_def json_field_def split: json.splits option.splits)

lemma receipt_fields:
  assumes "terminal_receipt_check r = None"
  shows "json_field (json_canon (serialize (terminal_receipt_val r))) ''receipt_id'' = Some (JStr (rc_receipt_id r))"
    "json_field (json_canon (serialize (terminal_receipt_val r))) ''operation_id'' = Some (JStr (rc_operation_id r))"
    "json_field (json_canon (serialize (terminal_receipt_val r))) ''outcome'' = Some (JStr (ro_value (rc_outcome r)))"
    "json_field (json_canon (serialize (terminal_receipt_val r))) ''completed_at'' = Some (JStr (rc_completed_at r))"
  using receipt_scrub [OF assms] receipt_tame [OF terminal_receipt_val_def, of r]
  by (auto simp: terminal_receipt_val_def contract_field simp del: serialize.simps intro!: json_field_of_obj_get)

lemma receipt_binds_claims:
  assumes "approved_plan_ref_check a = None" "loads (pr_payload_json (plan_row_of a)) = Inr claims"
    and "receipt_binds r o' (approval_row_of a) (plan_row_of a) claims = Inr True"
  shows "rc_operation r = op_operation_class o' \<and> rc_plan_id r = ap_plan_id a \<and> rc_plan_digest r = ap_plan_digest a \<and>
    rc_decision_id r = op_decision_id o' \<and> rc_host_id r = op_host_id o' \<and> rc_app r = op_app o' \<and>
    rc_environment r = op_environment o' \<and> rc_desired_revision_id r = op_revision_id o' \<and>
    rc_desired_revision_digest r = ap_revision_digest a \<and> rc_artifact_digests r = ap_artifact_digests a"
proof -
  have c: "claims = json_canon (stored_plan a)"
    using assms(2) loads_stored [OF stored_wf(2) serialize_plan_claims [OF assms(1)]] by (simp add: plan_row_of_def)
  have get: "obj_get claims ''revision_digest'' = Inr (JStr (ap_revision_digest a))"
    "obj_get claims ''artifact_digests'' = Inr (JList (map JStr (ap_artifact_digests a)))"
    unfolding c stored_plan_def by (simp_all add: obj_get_canon del: json_canon.simps(2) map_map) (simp add: comp_def)
  have "map JStr xs = map JStr ys \<longleftrightarrow> xs = ys" for xs ys by (simp add: inj_map_eq_map inj_def)
  then show ?thesis
    using assms(3) by (auto simp: receipt_binds_def get approval_row_of_def plan_row_of_def split: if_splits)
qed

lemma add_receipt_frame [simp]:
  "event_rows x (add_receipt r db) = event_rows x db" "find_operation x (add_receipt r db) = find_operation x db"
  "find_accepted x (add_receipt r db) = find_accepted x db"
  by (simp_all add: add_receipt_def event_rows_def find_operation_def find_accepted_def cong: option.case_cong)

lemma verified_commit:
  assumes inv: "accepted_inv db" and r: "stored_receipt_ok r" and o': "find_operation (rc_operation_id r) db = Some o'"
    and acc: "find_accepted (rc_operation_id r) db = Some (o', a, p)" and c: "committed r e o' a p db"
    and v: "verified_events db (rc_operation_id r) = Inr es"
  shows "verified_events (add_receipt r (add_event e (canonical_json (operation_event_val e)) db)) (rc_operation_id r) =
    Inr (es @ [event_norm e])"
proof -
  let ?oid = "rc_operation_id r" and ?db = "add_receipt r (add_event e (canonical_json (operation_event_val e)) db)"
  obtain b where b: "a = approval_row_of b" "p = plan_row_of b" "approved_plan_ref_check b = None"
    "verified_acceptance_claims o' a p = Inr (approval_norm b)" "op_decision_id o' = ap_decision_id b"
  proof (rule find_accepted_rows [OF inv o'])
    fix actor request d
    assume d: "provenance db o' actor request d" "find_accepted ?oid db = Some (o', approval_row_of d, plan_row_of d)"
      "verified_acceptance_claims o' (approval_row_of d) (plan_row_of d) = Inr (approval_norm d)"
    have "op_decision_id o' = ap_decision_id d" using d(1) unfolding provenance_def by (metis operation_row_of_sel(4))
    with d show thesis using that [of d] acc by (auto simp: provenance_def acceptable_def)
  qed
  have valid: "terminal_receipt_check r = None" using r by (simp add: stored_receipt_ok_def)
  have e: "operation_event_check e = None" "appendable e True o' db" and oid: "ev_operation_id e = ?oid"
    and st: "ev_state e = outcome_state (rc_outcome r)" and ty: "ev_event_type e = ''operation.terminal''"
    and at: "ev_occurred_at e = rc_completed_at r"
    using c by (auto simp: committed_def terminal_event_of_def)
  have binds: "rc_operation r = op_operation_class o' \<and> rc_plan_id r = ap_plan_id b \<and> rc_plan_digest r = ap_plan_digest b \<and>
    rc_decision_id r = op_decision_id o' \<and> rc_host_id r = op_host_id o' \<and> rc_app r = op_app o' \<and>
    rc_environment r = op_environment o' \<and> rc_desired_revision_id r = op_revision_id o' \<and>
    rc_desired_revision_digest r = ap_revision_digest b \<and> rc_artifact_digests r = ap_artifact_digests b"
    using c b receipt_binds_claims by (auto simp: committed_def)
  obtain st' where st': "op_state o' = os_value st'" "\<not> terminal st'" using e(2) by (auto simp: appendable_def)
  have "verify_terminal o' a p (approval_norm b) es (find_receipt ?oid db) = Inr es"
    using v acc b(4) by (elim verified_eventsE) simp
  then have none: "find_receipt ?oid db = None" "\<not> list_ex (\<lambda>e. terminal (ev_state e)) es"
    using st' by (auto simp: verify_terminal_def bind_res_Inr receipt_reconciles_def os.value_inj split: option.splits)
  have norm: "ev_state (event_norm e) = outcome_state (rc_outcome r)" "ev_event_type (event_norm e) = ''operation.terminal''"
    "ev_occurred_at (event_norm e) = rc_completed_at r"
    by (simp_all add: event_norm_def st ty at)
  have filt: "filter (\<lambda>e. terminal (ev_state e)) (es @ [event_norm e]) = [event_norm e]"
    using none(2) norm by (auto simp: list_ex_iff filter_empty_conv)
  have recon: "receipt_reconciles (o'\<lparr>op_state := ro_value (rc_outcome r)\<rparr>) a p (approval_norm b) (outcome_state (rc_outcome r))
      (es @ [event_norm e]) (receipt_row_of r) (json_canon (serialize (terminal_receipt_val r))) (receipt_norm r)"
    unfolding receipt_reconciles_def Let_def filt
    using binds b(5) norm receipt_fields [OF valid] receipt_codec.canonical_json_norm [OF r] receipt_codec.canonical_digest_norm [OF r]
      outcome_value [of "rc_outcome r"] find_operation_id [OF o']
    by (simp add: receipt_row_of_def b(1,2) approval_row_of_def plan_row_of_def)
       (simp add: receipt_norm_def approval_norm_def)
  have rows: "event_rows ?oid ?db = event_rows ?oid (add_event e (canonical_json (operation_event_val e)) db)"
    "find_accepted ?oid ?db = find_accepted ?oid (add_event e (canonical_json (operation_event_val e)) db)"
    by simp_all
  have rec: "find_receipt ?oid ?db = Some (receipt_row_of r)"
    using none(1) by (simp add: find_receipt_def add_receipt_def add_event_def set_operation_state_def fetchone_append receipt_row_of_def)
  have chain: "verify_event_chain (o'\<lparr>op_state := os_value (ev_state e)\<rparr>) 1 None
      (event_rows ?oid (add_event e (canonical_json (operation_event_val e)) db)) = Inr (es @ [event_norm e])"
    using chain_add_event [OF e(1) _ e(2)] o' v by (simp add: oid)
  have reads: "bind_res (loads (canonical_json (terminal_receipt_val r))) (\<lambda>payload.
      bind_res (receipt_from_payload payload) (\<lambda>r'. Inr (payload, r'))) =
      Inr (json_canon (serialize (terminal_receipt_val r)), receipt_norm r)"
    by (simp add: receipt_codec.loads_canonical receipt_codec.dec_enc [OF r])
  have "verify_terminal (o'\<lparr>op_state := ro_value (rc_outcome r)\<rparr>) a p (approval_norm b) (es @ [event_norm e]) (Some (receipt_row_of r)) =
      Inr (es @ [event_norm e])"
    using recon reads norm(1)
    by (simp add: verify_terminal_def bind_res_Inr outcome_value [symmetric] del: os_value.simps)
       (simp add: receipt_row_of_def)
  then show ?thesis
    using chain b(4) st
    by (simp add: verified_events_def rows rec find_accepted_add_event acc oid claims_state outcome_value)
qed

end
