(* ===== verification/History_Facts.thy ===== *)
theory History_Facts
  imports Receipt_Facts
begin

text \<open>
  Every journal that is used through its own calls verifies: the history of each accepted operation
  passes the checks of \<^verbatim>\<open>_verified_events\<close>, whatever sequence of calls, retries and failures led to it.
\<close>

section \<open>The invariant\<close>

definition history_inv :: "database \<Rightarrow> bool" where
  "history_inv db \<longleftrightarrow> accepted_inv db \<and>
     (\<forall>oid. find_operation oid db \<noteq> None \<longrightarrow> (\<exists>es. verified_events db oid = Inr es)) \<and>
     (\<forall>r \<in> set (db_operation_events db). operation_exists (oe_operation_id r) db) \<and>
     (\<forall>r \<in> set (db_terminal_receipts db). operation_exists (tr_operation_id r) db)"

definition same_histories :: "database \<Rightarrow> database \<Rightarrow> bool" where
  "same_histories db db' \<longleftrightarrow> db_operations db' = db_operations db \<and> db_plans db' = db_plans db \<and>
     db_approvals db' = db_approvals db \<and> db_operation_inputs db' = db_operation_inputs db \<and>
     db_idempotency_keys db' = db_idempotency_keys db \<and> db_operation_events db' = db_operation_events db \<and>
     db_terminal_receipts db' = db_terminal_receipts db"

text \<open>
  Histories only grow, and one with a receipt is final. A call that finds the invariant keeps it and
  moves every history along this relation.
\<close>

definition grows :: "database \<Rightarrow> database \<Rightarrow> bool" where
  "grows db db' \<longleftrightarrow> (\<forall>oid es. verified_events db oid = Inr es \<longrightarrow>
     (\<exists>added. verified_events db' oid = Inr (es @ added) \<and>
       (find_receipt oid db \<noteq> None \<longrightarrow> added = [] \<and> find_receipt oid db' = find_receipt oid db)))"

definition evolves :: "database \<Rightarrow> database \<Rightarrow> bool" where
  "evolves db db' \<longleftrightarrow> (history_inv db \<longrightarrow> history_inv db' \<and> grows db db')"

lemma grows_trans: "grows db1 db2 \<Longrightarrow> grows db2 db3 \<Longrightarrow> grows db1 db3"
  unfolding grows_def by (metis append.assoc append.right_neutral)

interpretation hist: db_frame evolves
proof
  show "evolves db db" for db by (simp add: evolves_def grows_def)
qed (auto simp: evolves_def intro: grows_trans)

lemma grows_one:
  assumes "\<And>x. x \<noteq> oid \<Longrightarrow> verified_events db' x = verified_events db x" "\<And>x. x \<noteq> oid \<Longrightarrow> find_receipt x db' = find_receipt x db"
    and "verified_events db oid = Inr es" "verified_events db' oid = Inr (es @ added)" "find_receipt oid db = None"
  shows "grows db db'"
  unfolding grows_def
proof (intro allI impI)
  fix x es'
  assume x: "verified_events db x = Inr es'"
  show "\<exists>added. verified_events db' x = Inr (es' @ added) \<and>
      (find_receipt x db \<noteq> None \<longrightarrow> added = [] \<and> find_receipt x db' = find_receipt x db)"
    by (cases "x = oid") (use x assms in \<open>auto intro: exI [of _ "[]"]\<close>)
qed

text \<open>An operation that still takes events has no receipt.\<close>

lemma open_no_receipt:
  assumes "verified_events db oid = Inr es" "find_operation oid db = Some o'" "appendable e allow o' db"
  shows "find_receipt oid db = None"
proof -
  obtain st where st: "op_state o' = os_value st" "\<not> terminal st" using assms(3) by (auto simp: appendable_def)
  from assms(1) show ?thesis
  proof (rule verified_eventsE)
    fix q a p approval
    assume "find_operation oid db = Some q" "verify_terminal q a p approval es (find_receipt oid db) = Inr es"
    then show ?thesis
      using st assms(2) by (auto simp: verify_terminal_def bind_res_Inr receipt_reconciles_def os.value_inj split: option.splits)
  qed
qed

lemma verified_events_cong:
  assumes "find_accepted x db' = find_accepted x db" "event_rows x db' = event_rows x db" "find_receipt x db' = find_receipt x db"
  shows "verified_events db' x = verified_events db x"
  unfolding verified_events_def assms ..

lemma same_histories_queries:
  assumes "same_histories db db'"
  shows "find_operation oid db' = find_operation oid db" "operation_exists oid db' = operation_exists oid db"
    "verified_events db' oid = verified_events db oid"
proof -
  have q: "find_operation oid db' = find_operation oid db" "find_accepted oid db' = find_accepted oid db"
    "event_rows oid db' = event_rows oid db" "find_receipt oid db' = find_receipt oid db"
    using assms by (simp_all add: same_histories_def find_operation_def find_accepted_def event_rows_def find_receipt_def
        cong: option.case_cong)
  show "find_operation oid db' = find_operation oid db" by (rule q(1))
  show "verified_events db' oid = verified_events db oid" by (rule verified_events_cong [OF q(2-4)])
  show "operation_exists oid db' = operation_exists oid db"
    using assms by (simp add: same_histories_def operation_exists_def)
qed

lemma evolves_same_histories:
  assumes "same_histories db db'"
  shows "evolves db db'"
proof -
  have "same_acceptance db db'" using assms by (simp add: same_histories_def same_acceptance_def)
  then show ?thesis
    unfolding evolves_def grows_def history_inv_def same_histories_queries [OF assms]
    using accepted_inv_frame assms by (auto simp: same_histories_def find_receipt_def)
qed

section \<open>Events and receipts\<close>

lemma exists_add_event [simp]: "operation_exists x (add_event e p db) = operation_exists x db"
  by (simp add: operation_exists_find find_operation_add_event)

lemma exists_add_receipt [simp]: "operation_exists x (add_receipt r db) = operation_exists x db"
  by (simp add: operation_exists_find)

lemma events_add_event: "db_operation_events (add_event e p db) = db_operation_events db @ [event_row_of e p]"
  and receipts_add_event: "db_terminal_receipts (add_event e p db) = db_terminal_receipts db"
  by (simp_all add: add_event_def set_operation_state_def)

lemma history_append:
  assumes inv: "history_inv db" and e: "operation_event_check e = None"
    and o': "find_operation (ev_operation_id e) db = Some o'" and g: "appendable e False o' db"
  shows "history_inv (add_event e (canonical_json (operation_event_val e)) db) \<and>
    grows db (add_event e (canonical_json (operation_event_val e)) db)"
proof (rule conjI)
  obtain es where v: "verified_events db (ev_operation_id e) = Inr es" using inv o' by (auto simp: history_inv_def)
  have "\<exists>es. verified_events (add_event e (canonical_json (operation_event_val e)) db) oid = Inr es"
    if "find_operation oid db \<noteq> None" for oid
    using that inv verified_append [OF e o' g v] verified_events_other [of oid e]
    by (cases "oid = ev_operation_id e") (auto simp: history_inv_def)
  moreover have "operation_exists (ev_operation_id e) db" using o' by (simp add: operation_exists_find)
  ultimately show "history_inv (add_event e (canonical_json (operation_event_val e)) db)"
    using inv accepted_inv_frame [OF _ add_event_acceptance]
    by (auto simp: history_inv_def find_operation_add_event events_add_event receipts_add_event event_row_of_def)
  show "grows db (add_event e (canonical_json (operation_event_val e)) db)"
    by (rule grows_one [OF _ _ v verified_append [OF e o' g v] open_no_receipt [OF v o' g]])
       (simp_all add: verified_events_other)
qed

lemma append_event_keeps:
  assumes "operation_event_check e = None"
  shows "frames evolves (append_event e (canonical_json (operation_event_val e)) False)"
  using history_append [OF _ assms] by (fastforce simp: frames_def evolves_def elim: append_event_success)

lemma find_receipt_other: "x \<noteq> rc_operation_id r \<Longrightarrow> find_receipt x (add_receipt r db) = find_receipt x db"
  by (simp add: find_receipt_def add_receipt_def fetchone_append receipt_row_of_def split: option.splits)

lemma history_commit:
  assumes inv: "history_inv db" and r: "stored_receipt_ok r"
    and acc: "find_accepted (rc_operation_id r) db = Some (o', a, p)" and c: "committed r e o' a p db"
  shows "history_inv (add_receipt r (add_event e (canonical_json (operation_event_val e)) db)) \<and>
    grows db (add_receipt r (add_event e (canonical_json (operation_event_val e)) db))"
proof -
  let ?j = "canonical_json (operation_event_val e)"
  have o': "find_operation (rc_operation_id r) db = Some o'" using acc by (auto simp: find_accepted_def split: option.splits)
  have oid: "ev_operation_id e = rc_operation_id r" using c by (auto simp: committed_def terminal_event_of_def)
  have ops: "operation_exists (rc_operation_id r) db" using o' by (simp add: operation_exists_find)
  obtain es where v: "verified_events db (rc_operation_id r) = Inr es" using inv o' by (auto simp: history_inv_def)
  have other: "verified_events (add_receipt r (add_event e ?j db)) x = verified_events db x" if "x \<noteq> rc_operation_id r" for x
  proof -
    have "verified_events (add_receipt r (add_event e ?j db)) x = verified_events (add_event e ?j db) x"
      using that by (intro verified_events_cong) (simp_all add: find_receipt_other)
    then show ?thesis using that verified_events_other [of x e ?j db] by (simp add: oid)
  qed
  have "\<exists>es. verified_events (add_receipt r (add_event e ?j db)) x = Inr es" if "find_operation x db \<noteq> None" for x
    using that inv other verified_commit [OF _ r o' acc c v] by (cases "x = rc_operation_id r") (auto simp: history_inv_def)
  moreover have "same_acceptance (add_event e ?j db) (add_receipt r (add_event e ?j db))"
    by (simp add: same_acceptance_def add_receipt_def)
  then have "accepted_inv (add_receipt r (add_event e ?j db))"
    using inv accepted_inv_frame add_event_acceptance unfolding history_inv_def by blast
  moreover have "db_operation_events (add_receipt r (add_event e ?j db)) = db_operation_events db @ [event_row_of e ?j]"
    "db_terminal_receipts (add_receipt r (add_event e ?j db)) = db_terminal_receipts db @ [receipt_row_of r]"
    by (simp_all add: add_receipt_def events_add_event receipts_add_event)
  moreover have "accepted_inv db" "appendable e True o' db" using inv c by (simp_all add: history_inv_def committed_def)
  then have "grows db (add_receipt r (add_event e ?j db))"
    using v verified_commit [OF _ r o' acc c v] open_no_receipt [OF v o']
    by (intro grows_one [where oid = "rc_operation_id r" and es = es]) (simp_all add: other find_receipt_other)
  ultimately show ?thesis
    using inv ops oid by (auto simp: history_inv_def find_operation_add_event event_row_of_def receipt_row_of_def)
qed

lemma commit_receipt_tx_keeps:
  assumes "stored_receipt_ok r"
  shows "frames evolves (commit_receipt_tx r (canonical_json (terminal_receipt_val r)))"
  unfolding frames_def evolves_def
proof (intro allI impI)
  fix s x s'
  assume run: "commit_receipt_tx r (canonical_json (terminal_receipt_val r)) s = (Inr x, s')" and inv: "history_inv (jn_db s)"
  show "history_inv (jn_db s') \<and> grows (jn_db s) (jn_db s')"
  proof (cases "find_receipt (rc_operation_id r) (jn_db s)")
    case None
    with run obtain o' a p where acc: "find_accepted (rc_operation_id r) (jn_db s) = Some (o', a, p)"
      and new: "commit_receipt_new r (canonical_json (terminal_receipt_val r)) o' a p s = (Inr x, s')"
      by (auto simp: commit_receipt_tx_def tx_success split: option.splits)
    then have "find_operation (rc_operation_id r) (jn_db s) = Some o'" by (auto simp: find_accepted_def split: option.splits)
    with new obtain e where "committed r e o' a p (jn_db s)"
      "jn_db s' = add_receipt r (add_event e (canonical_json (operation_event_val e)) (jn_db s))"
      using commit_receipt_new_success by blast
    then show ?thesis using history_commit [OF inv assms acc] by simp
  next
    case (Some row)
    with run inv show ?thesis by (auto simp: commit_receipt_tx_def tx_success grows_def split: if_splits)
  qed
qed

lemma phase_events_keep: "frames evolves (append_phase_events r n prev required)"
proof (induction required arbitrary: n prev)
  case (Cons required_event required)
  obtain event_type evidence where req: "required_event = (event_type, evidence)" by (cases required_event)
  have "frames evolves (tx_bind (tx_check (operation_event_check e)) (\<lambda>_.
      tx_bind (tx_lift (bounded_json (operation_event_val e))) (\<lambda>payload.
      tx_bind (append_event e payload False) (\<lambda>_. append_phase_events r (n + 1) d required))))" for e d
  proof (cases "operation_event_check e")
    case None
    have "frames evolves (append_event e payload False)" if "bounded_json (operation_event_val e) = Inr payload" for payload
      using that append_event_keeps [OF None] by simp
    then show ?thesis by (intro hist.bind_lift hist.bind hist.basic Cons.IH)
  next
    case (Some err)
    then show ?thesis by (simp add: frames_def tx_success)
  qed
  then show ?case unfolding req append_phase_events.simps Let_def by (rule hist.bind [OF hist.basic(8)])
qed (simp add: hist.basic)

section \<open>Acceptance\<close>

lemma accepted_db_tables:
  "db_operation_events (accepted_db actor request a inp oid t db) = db_operation_events db"
  "db_terminal_receipts (accepted_db actor request a inp oid t db) = db_terminal_receipts db"
  by (simp_all add: accepted_db_def)

lemma accepted_db_find:
  assumes "admits actor request a inp oid db"
  shows "find_operation x (accepted_db actor request a inp oid t db) =
    (if x = oid then Some (operation_row_of actor request a oid t (os_value OS_ACCEPTED)) else find_operation x db)"
proof -
  have "find_operation oid db = None" using assms by (simp add: admits_def operation_exists_find)
  then show ?thesis
    unfolding find_operation_def accepted_db_def
    by (auto simp: fetchone_append operation_row_of_def split: option.splits)
qed

lemma find_accepted_parts:
  "find_accepted x db = Some (o', c, p) \<Longrightarrow> fetchone (\<lambda>a. av_decision_id a = op_decision_id o') (db_approvals db) = Some c \<and>
    fetchone (\<lambda>p. pr_plan_id p = av_plan_id c) (db_plans db) = Some p"
  by (auto simp: find_accepted_def split: option.splits)

lemma find_accepted_kept:
  assumes inv: "accepted_inv db" and o': "find_operation x db = Some o'" and adm: "admits actor request a inp oid db"
  shows "find_accepted x (accepted_db actor request a inp oid t db) = find_accepted x db"
proof -
  obtain c p where b: "find_accepted x db = Some (o', c, p)" "fetchone (\<lambda>a. av_decision_id a = op_decision_id o') (db_approvals db) = Some c"
    "fetchone (\<lambda>p. pr_plan_id p = av_plan_id c) (db_plans db) = Some p"
    using find_accepted_rows [OF inv o'] o' by (metis find_accepted_parts)
  have "x \<noteq> oid" using o' adm by (auto simp: admits_def operation_exists_find)
  then show ?thesis
    using b o' by (simp add: find_accepted_def accepted_db_find [OF adm]) (simp add: accepted_db_def fetchone_append)
qed

lemma history_accept:
  assumes inv: "history_inv db" and ok: "acceptable actor request a" and adm: "admits actor request a inp oid db"
    and inp: "\<And>i. inp = Some i \<Longrightarrow> execution_input_ok i"
  shows "history_inv (accepted_db actor request a inp oid t db) \<and> grows db (accepted_db actor request a inp oid t db)"
proof -
  let ?db = "accepted_db actor request a inp oid t db" and ?o = "operation_row_of actor request a oid t (os_value OS_ACCEPTED)"
  have acc: "accepted_inv db" using inv by (simp add: history_inv_def)
  have acc': "accepted_inv ?db" using accepted_inv_accepts [OF acc ok adm] inp by blast
  have fresh: "\<not> operation_exists oid db" using adm by (simp add: admits_def)
  have rows: "event_rows x ?db = event_rows x db" "find_receipt x ?db = find_receipt x db" for x
    by (simp_all add: event_rows_def find_receipt_def accepted_db_tables)
  have none: "event_rows oid db = []" "find_receipt oid db = None"
    using inv fresh set_event_rows [of oid db]
    by (auto simp: history_inv_def find_receipt_def fetchone_None simp flip: set_empty)
  have "\<exists>es. verified_events ?db x = Inr es" if x: "find_operation x ?db \<noteq> None" for x
  proof (cases "x = oid")
    case True
    obtain b where "find_accepted oid ?db = Some (?o, approval_row_of b, plan_row_of b)"
      "verified_acceptance_claims ?o (approval_row_of b) (plan_row_of b) = Inr (approval_norm b)"
      using find_accepted_rows [OF acc', of oid ?o] by (auto simp: accepted_db_find [OF adm])
    moreover have "verify_terminal ?o c p d [] None = Inr []" for c p d
      by (simp add: verify_terminal_def bind_res_Inr terminal_def del: os_value.simps)
    ultimately show ?thesis by (simp add: True verified_events_def rows none)
  next
    case False
    then obtain o' where "find_operation x db = Some o'" using x by (auto simp: accepted_db_find [OF adm])
    then show ?thesis
      using inv verified_events_cong [OF find_accepted_kept [OF acc _ adm] rows] by (fastforce simp: history_inv_def)
  qed
  moreover have "operation_exists x db \<Longrightarrow> operation_exists x ?db" for x
    by (simp add: operation_exists_find accepted_db_find [OF adm])
  moreover have "grows db ?db"
    unfolding grows_def
  proof (intro allI impI)
    fix x es
    assume v: "verified_events db x = Inr es"
    then obtain o' where "find_operation x db = Some o'" by (elim verified_eventsE)
    then have "verified_events ?db x = verified_events db x"
      using verified_events_cong [OF find_accepted_kept [OF acc _ adm] rows] by blast
    with v show "\<exists>added. verified_events ?db x = Inr (es @ added) \<and>
        (find_receipt x db \<noteq> None \<longrightarrow> added = [] \<and> find_receipt x ?db = find_receipt x db)"
      by (intro exI [of _ "[]"]) (simp add: rows)
  qed
  ultimately show ?thesis using inv acc' by (simp add: history_inv_def accepted_db_tables)
qed

section \<open>All calls\<close>

lemma assert_fence_keeps: "frames evolves (assert_fence oid owner token)"
  and assert_execution_fence_keeps: "frames evolves (assert_execution_fence oid fence)"
  by (auto simp: assert_fence_def assert_execution_fence_def split: prod.splits option.splits intro!: hist.intros)

lemma statements_keep:
  "frames evolves (tx_execute (insert_control c))"
  "frames evolves (tx_execute (upsert_lease l))"
  "frames evolves (tx_execute (upsert_scope_lease sl))"
  "frames evolves (tx_execute (insert_lifecycle lr))"
  "frames evolves (tx_execute (upsert_active ar))"
  "frames evolves (tx_execute (insert_atomic m))"
  "frames evolves (tx_execute (upsert_delivery d))"
  "frames evolves (tx_update (update_leases oid f))"
  "frames evolves (tx_update (update_scope_leases host app env g))"
  by ((rule hist.execute hist.update, rule evolves_same_histories, auto simp: statement_defs same_histories_def)+)

lemmas keep_intros = statements_keep hist.basic hist.bind hist.transaction hist.options hist.pairs hist.conditional

lemma cas_keeps: "frames evolves (cas_active_revision_tx oid expected fence)"
  and lifecycle_keeps: "frames evolves (append_revision_state_tx oid st fence)"
  by (auto simp: cas_active_revision_tx_def append_revision_state_tx_def Let_def intro!: keep_intros)

lemma accept_evolves:
  assumes "call_ok (Accept actor request a inp)"
  shows "frames evolves (run_call (Accept actor request a inp))"
proof -
  have "evolves (jn_db s) (jn_db s')" if "accept actor request a inp s = (Inr ref, s')" for s ref s'
    using that
  proof (cases rule: accept_success)
    case (new oid accepted_at)
    then have "acceptable actor request a" using assms by (auto simp: acceptable_def admits_def)
    then show ?thesis
      using history_accept [OF _ _ new(1)] new(2) assms by (auto simp: evolves_def split: option.splits)
  qed (simp add: hist.refl)
  then show ?thesis by (auto simp: frames_def tx_success)
qed

text \<open>Only the contracts of an acceptance and of an appended event enter the database unchecked.\<close>

lemma calls_evolve_unless:
  assumes "\<And>actor request a inp. c = Accept actor request a inp \<Longrightarrow> call_ok c"
    and "\<And>e owner token. c = Append e owner token \<Longrightarrow> call_ok c"
  shows "frames evolves (run_call c)"
proof (cases c)
  case (Accept actor request a inp)
  with assms accept_evolves show ?thesis by simp
next
  case (Append e owner token)
  have "frames evolves (append_event e payload False)"
    if "bounded_json (operation_event_val e) = Inr payload" for payload
    using that append_event_keeps [of e] assms Append by simp
  then show ?thesis unfolding Append run_call.simps append_def
    by (intro hist.bind_lift hist.transaction hist.bind assert_fence_keeps)
next
  case (Commit_Receipt r owner token)
  have "frames evolves (commit_receipt_tx v payload)"
    if "revalidate_receipt r = Inr v" "bounded_json (terminal_receipt_val v) = Inr payload" for v payload
    using that commit_receipt_tx_keeps [of v] by (simp add: revalidate_Inr)
  then show ?thesis unfolding Commit_Receipt run_call.simps commit_receipt_def
    by (intro hist.bind_lift hist.transaction hist.bind hist.basic assert_fence_keeps)
next
  case (Commit_Success r expected fence)
  have "frames evolves (commit_receipt_tx v payload)"
    if "revalidate_receipt r = Inr v" "bounded_json (terminal_receipt_val v) = Inr payload" for v payload
    using that commit_receipt_tx_keeps [of v] by (simp add: revalidate_Inr)
  then have new: "frames evolves (commit_success_new v payload expected fence)"
    if "revalidate_receipt r = Inr v" "bounded_json (terminal_receipt_val v) = Inr payload" for v payload
    using that unfolding commit_success_new_def append_success_phase_events_tx_def
    by (intro keep_intros cas_keeps phase_events_keep)
  have existing: "frames evolves (commit_success_existing v payload row)" for v payload row
    unfolding commit_success_existing_def by (auto intro!: hist.intros split: option.splits)
  show ?thesis unfolding Commit_Success run_call.simps commit_success_def returning_def
    by (intro hist.bind [OF _ hist.basic(1)] hist.bind_lift hist.bind_check hist.transaction
        hist.bind [OF assert_execution_fence_keeps] hist.bind [OF hist.basic(5)] hist.options new existing)
qed (auto simp: call_defs Let_def intro!: keep_intros)

lemma calls_evolve: "call_ok c \<Longrightarrow> frames evolves (run_call c)"
  by (rule calls_evolve_unless)

interpretation histories: journal_invariant "\<lambda>_. True" history_inv
proof
  show "history_inv empty_database"
    using accepted.empty by (simp add: history_inv_def) (simp add: empty_database_def find_operation_def)
qed (use calls_evolve framesD in \<open>fastforce simp: evolves_def\<close>)

section \<open>What a verified history says\<close>

text \<open>The abstract specification of a history: numbered from a start, each event naming the digest of its predecessor.\<close>

fun linked :: "int \<Rightarrow> string option \<Rightarrow> operation_event list \<Rightarrow> bool" where
  "linked n prev [] \<longleftrightarrow> True"
| "linked n prev (e # es) \<longleftrightarrow> ev_sequence e = n \<and> ev_previous_event_digest e = prev \<and>
     linked (n + 1) (Some (canonical_digest (operation_event_val e))) es"

lemma chain_linked:
  "verify_event_chain o' n prev rows = Inr es \<Longrightarrow>
   linked n prev es \<and> (\<forall>e \<in> set es. ev_operation_id e = op_operation_id o')"
  by (induction o' n prev rows arbitrary: es rule: verify_event_chain.induct)
     (fastforce simp: verify_event_row_def bind_res_Inr)+

lemma verified_terminal_state:
  assumes "verify_terminal o' a p approval es rcpt = Inr es"
  shows "op_state o' = os_value (if es = [] then OS_ACCEPTED else ev_state (last es))"
    and "rcpt = None \<longleftrightarrow> \<not> terminal (if es = [] then OS_ACCEPTED else ev_state (last es))"
    and "\<forall>e \<in> set (butlast es). \<not> terminal (ev_state e)"
proof -
  let ?st = "if es = [] then OS_ACCEPTED else ev_state (last es)"
  show st: "op_state o' = os_value ?st"
    using assms by (auto simp: verify_terminal_def bind_res_Inr)
  show "rcpt = None \<longleftrightarrow> \<not> terminal ?st"
    using assms st by (auto simp: verify_terminal_def bind_res_Inr receipt_reconciles_def terminal_def os.value_inj split: option.splits)
  show "\<forall>e \<in> set (butlast es). \<not> terminal (ev_state e)"
  proof (cases rcpt)
    case None
    then show ?thesis using assms by (auto simp: verify_terminal_def bind_res_Inr list_ex_iff dest: in_set_butlastD)
  next
    case (Some row)
    then have "length (filter (\<lambda>e. terminal (ev_state e)) es) = 1" "es \<noteq> []" "terminal (ev_state (last es))"
      using assms by (auto simp: verify_terminal_def bind_res_Inr receipt_reconciles_def Let_def)
    moreover from this have "filter (\<lambda>e. terminal (ev_state e)) es = filter (\<lambda>e. terminal (ev_state e)) (butlast es) @ [last es]"
      by (metis append_butlast_last_id filter.simps filter_append)
    ultimately show ?thesis by (auto simp: filter_empty_conv)
  qed
qed

text \<open>What the invariant says of a history.\<close>

lemma history_inv_verifies:
  assumes "history_inv (jn_db s)" and "find_operation oid (jn_db s) = Some o'"
  shows "\<exists>es. events oid s = (Inr es, s) \<and> linked 1 None es \<and> (\<forall>e \<in> set es. ev_operation_id e = oid) \<and>
    op_state o' = os_value (if es = [] then OS_ACCEPTED else ev_state (last es))"
proof -
  obtain es where v: "verified_events (jn_db s) oid = Inr es" using assms by (auto simp: history_inv_def)
  then have "linked 1 None es \<and> (\<forall>e \<in> set es. ev_operation_id e = oid) \<and>
      op_state o' = os_value (if es = [] then OS_ACCEPTED else ev_state (last es))"
    using assms(2) chain_linked verified_terminal_state(1) by (elim verified_eventsE) (metis option.inject)
  with v show ?thesis by (auto simp: events_def tx_read_def)
qed

lemma history_inv_receipt:
  assumes "history_inv (jn_db s)" and "find_operation oid (jn_db s) = Some o'"
  shows "(\<exists>st. op_state o' = os_value st \<and> terminal st) \<longleftrightarrow> find_receipt oid (jn_db s) \<noteq> None"
proof -
  obtain es where "verified_events (jn_db s) oid = Inr es" using assms by (auto simp: history_inv_def)
  then show ?thesis
  proof (rule verified_eventsE)
    fix q a p approval
    assume "find_operation oid (jn_db s) = Some q" "verify_terminal q a p approval es (find_receipt oid (jn_db s)) = Inr es"
    then show ?thesis using assms(2) verified_terminal_state(1,2) [of q a p approval es] os.value_inj by auto
  qed
qed

lemma evolves_events:
  assumes "history_inv (jn_db s)" and "evolves (jn_db s) (jn_db s')" and "events oid s = (Inr es, s)"
  shows "\<exists>added. events oid s' = (Inr (es @ added), s') \<and>
    (find_receipt oid (jn_db s) \<noteq> None \<longrightarrow> added = [] \<and> receipt oid s' = (fst (receipt oid s), s'))"
proof -
  have v: "verified_events (jn_db s) oid = Inr es" using assms(3) by (simp add: events_def tx_read_def)
  with assms(1,2) obtain added where added: "verified_events (jn_db s') oid = Inr (es @ added)"
    "find_receipt oid (jn_db s) \<noteq> None \<longrightarrow> added = [] \<and> find_receipt oid (jn_db s') = find_receipt oid (jn_db s)"
    unfolding evolves_def grows_def by blast
  have "receipt oid s' = (fst (receipt oid s), s')" if "find_receipt oid (jn_db s) \<noteq> None"
    using that added v by (simp add: receipt_def tx_read_def)
  with added show ?thesis by (auto simp: events_def tx_read_def)
qed

end
