(* ===== verification/Sizes.thy ===== *)
theory Sizes
  imports Acceptance_Facts
begin

text \<open>
  How long canonical payloads can get. The journal refuses a payload of more than
  \<^verbatim>\<open>_MAX_CANONICAL_JSON_BYTES\<close>; a weight of the raw value bounds the printed text, redaction
  included, so that payloads can be seen to fit without printing them.
\<close>

section \<open>The weight of a value\<close>

fun weight :: "json \<Rightarrow> nat" where
  "weight JNull = 12"
| "weight (JBool b) = 12"
| "weight (JInt i) = 12 + length (int_repr i)"
| "weight (JStr s) = 12 + 6 * length s"
| "weight (JList js) = 2 + sum_list (map (\<lambda>j. 1 + weight j) js)"
| "weight (JObj kvs) = 2 + sum_list (map (\<lambda>p. 4 + 6 * length (fst p) + weight (snd p)) kvs)"

lemma length_join: "length (join sep xs) \<le> sum_list (map (\<lambda>x. length sep + length x) xs)"
  by (induction sep xs rule: join.induct) auto

lemma length_escape: "length (escape_char c) \<le> 6"
  by (simp add: escape_char_def)

lemma length_quote: "length (quote s) \<le> 2 + 6 * length s"
proof -
  have "length (concat (map escape_char s)) \<le> 6 * length s"
  proof (induction s)
    case (Cons c s)
    then show ?case using length_escape [of c] by simp
  qed simp
  then show ?thesis by (simp add: quote_def)
qed

lemma sum_list_insort: "sum_list (map g (insort_key f x xs)) = (g x + sum_list (map g xs) :: nat)"
  by (induction xs) auto

lemma sum_list_sort: "sum_list (map g (sort_key f xs)) = (sum_list (map g xs) :: nat)"
  by (induction xs) (simp_all add: sum_list_insort)

lemma dumps_obj_length:
  assumes "\<And>p. p \<in> set kvs \<Longrightarrow> length (json_dumps (g p)) \<le> weight (snd p)"
  shows "length (json_dumps (JObj (map (\<lambda>p. (fst p, g p)) kvs))) \<le> weight (JObj kvs)"
proof -
  let ?row = "\<lambda>p. quote (fst p) @ '':'' @ json_dumps (snd p)" and ?kvs = "map (\<lambda>p. (fst p, g p)) kvs"
  have "length (json_dumps (JObj ?kvs)) \<le> 2 + sum_list (map (\<lambda>p. 1 + length (?row p)) (sort_key fst ?kvs))"
    using length_join [of "'',''" "map ?row (sort_key fst ?kvs)"] by (simp add: comp_def)
  also have "\<dots> = 2 + sum_list (map (\<lambda>p. 1 + length (?row (fst p, g p))) kvs)"
    unfolding sum_list_sort by (simp add: comp_def)
  also have "\<dots> \<le> weight (JObj kvs)"
  proof -
    have "1 + length (?row (fst p, g p)) \<le> 4 + 6 * length (fst p) + weight (snd p)" if "p \<in> set kvs" for p
      using assms [OF that] length_quote [of "fst p"] by simp
    then show ?thesis unfolding weight.simps by (intro add_left_mono sum_list_mono) blast
  qed
  finally show ?thesis .
qed

lemma dumps_list_length:
  assumes "\<And>j. j \<in> set js \<Longrightarrow> length (json_dumps (f j)) \<le> weight j"
  shows "length (json_dumps (JList (map f js))) \<le> weight (JList js)"
proof -
  have "length (json_dumps (JList (map f js))) \<le> 2 + sum_list (map (\<lambda>j. 1 + length (json_dumps (f j))) js)"
    using length_join [of "'',''" "map json_dumps (map f js)"] by (simp add: comp_def)
  also have "\<dots> \<le> weight (JList js)"
    using assms unfolding weight.simps by (intro add_left_mono sum_list_mono) simp
  finally show ?thesis .
qed

lemma length_str: "length (json_dumps (JStr s)) \<le> weight (JStr s)"
  using length_quote [of s] by simp

lemma redact_leaf:
  "scrub sens kn JNull \<in> {JNull, JStr REDACTED}"
  "scrub sens kn (JBool b) \<in> {JBool b, JStr REDACTED}"
  "scrub sens kn (JInt i) \<in> {JInt i, JStr REDACTED}"
  by (auto simp: redact_value_def split: if_splits)

lemma redacted_length: "length (json_dumps (JStr REDACTED)) = 12"
  by code_simp

lemma length_dumps: "length (json_dumps j) \<le> weight j"
proof (induction j)
  case (JList js)
  then show ?case using dumps_list_length [of js id] by simp
next
  case (JObj kvs)
  have "length (json_dumps (snd p)) \<le> weight (snd p)" if "p \<in> set kvs" for p
    using JObj [OF that] by (simp add: snds.simps)
  then show ?case using dumps_obj_length [of kvs snd] by simp
next
  case (JStr s)
  show ?case by (rule length_str)
qed simp_all

lemma length_scrub: "command_free kn j \<Longrightarrow> length (json_dumps (scrub sens kn j)) \<le> weight j"
proof (induction j arbitrary: sens kn)
  case JNull
  then show ?case using redact_leaf(1) [of sens kn] redacted_length by (auto simp del: scrub.simps json_dumps.simps(4))
next
  case (JBool b)
  then show ?case using redact_leaf(2) [of sens kn b] redacted_length by (auto simp del: scrub.simps json_dumps.simps(4))
next
  case (JInt i)
  then show ?case using redact_leaf(3) [of sens kn i] redacted_length by (auto simp del: scrub.simps json_dumps.simps(4))
next
  case (JStr s)
  then have "scrub sens kn (JStr s) \<in> {JStr s, JStr REDACTED, JStr []}"
    by (auto simp: scrub_JStr scrub_text_def simp del: scrub.simps)
  then show ?case
    using length_str [of s] length_str [of "[]"] redacted_length by (auto simp del: scrub.simps json_dumps.simps(4))
next
  case (JList js)
  then show ?case using dumps_list_length [of js "scrub sens kn"] by simp
next
  case (JObj kvs)
  have "length (json_dumps (scrub_member sens (fst p) (snd p))) \<le> weight (snd p)" if p: "p \<in> set kvs" for p
    unfolding scrub_member_def using length_dumps [of "snd p"] JObj.prems p by (auto simp: snds.simps intro!: JObj.IH [OF p])
  then show ?case unfolding scrub_JObj by (rule dumps_obj_length)
qed

lemma canonical_length:
  assumes "tame_val v"
  shows "length (canonical_json v) \<le> weight (raw v)"
proof -
  obtain kind fs where v: "v = VContract kind fs" and t: "tame kind fs" using assms by (rule tame_valE)
  have "serialize v = scrub False None (raw v)"
    unfolding v raw_contract scrub_JObj scrub_members_def [symmetric] by (rule serialize_tame [OF t])
  moreover have "command_free None (raw v)" using t unfolding v raw_contract tame_def by blast
  ultimately show ?thesis using length_scrub by (simp only: canonical_json_def)
qed

end
