(* ===== verification/Sample_Runs.thy ===== *)
theory Sample_Runs
  imports History_Facts Sizes
begin

text \<open>
  One journal that is really used: the sample request is accepted on an empty database. Every payload
  is seen to fit by its weight, and the run is evaluated statement by statement.
\<close>

section \<open>Payloads fit\<close>

lemma digest_length: "is_digest d \<Longrightarrow> length d = 71"
  by (auto simp: is_digest_iff)

lemmas digest_lengths = digest_length [of "content_digest r" for r, simplified] digest_length [of "intent_digest r" for r, simplified]
  digest_length [of "plan_digest r" for r, simplified] digest_length [of "approval_binding_digest r" for r, simplified]
  digest_length [of "input_binding_digest r" for r, simplified] digest_length [of zero_digest, simplified]
  digest_length [of "digest_text t" for t, simplified] digest_length [of "canonical_digest v" for v, simplified]

lemma one_repr: "length (int_repr 1) = 1"
  "length (int_repr 2) = 1" "length (int_repr 3) = 1" "length (int_repr 4) = 1" "length (int_repr 5) = 1"
  "length (int_repr 6) = 1" "length (int_repr 7) = 1" "length (int_repr 8) = 1" "length (int_repr 9) = 1"
  by code_simp+

lemma sample_weights:
  "weight (raw (actor_val sample_actor)) \<le> 10000"
  "weight (raw (approved_plan_ref_val sample_approval)) \<le> 10000"
  "weight (raw (operation_plan_val sample_plan)) \<le> 24000"
  "weight (raw (revision_val sample_revision)) \<le> 10000"
  "weight (raw (revision_artifact_ref_val sample_artifact)) \<le> 10000"
  by (simp_all add: actor_val_def sample_actor_def approved_plan_ref_val_def sample_approval_def sample_unbound_approval_def
      operation_plan_val_def sample_plan_def sample_steps_def sample_step_def sample_effect_def plan_step_val_def revision_val_def sample_revision_def workload_val_def
      sample_workload_def revision_artifact_ref_val_def sample_artifact_def vstrs_def members_def plain_keyD digest_lengths one_repr)

lemma input_weight: "weight (raw (execution_input_val sample_input)) \<le> 65536"
  using sample_weights
  by (simp add: execution_input_val_def sample_input_def sample_unbound_input_def members_def plain_keyD digest_lengths one_repr)

lemma claims_fit:
  "length (canonical_json (request_claims sample_request (digest_text ''key''))) \<le> 65536"
  "length (canonical_json (plan_claims sample_approval)) \<le> 65536"
proof -
  have "weight (stored_request sample_request (digest_text ''key'')) \<le> 65536" "weight (stored_plan sample_approval) \<le> 65536"
    by (simp_all add: stored_request_def stored_plan_def sample_request_def sample_approval_def sample_unbound_approval_def
        digest_lengths one_repr)
  then show "length (canonical_json (request_claims sample_request (digest_text ''key''))) \<le> 65536"
    "length (canonical_json (plan_claims sample_approval)) \<le> 65536"
    using length_dumps [of "stored_request sample_request (digest_text ''key'')"] length_dumps [of "stored_plan sample_approval"]
    by (simp_all add: canonical_json_def serialize_request_claims [OF sample_request_ok] serialize_plan_claims [OF sample_approval_ok])
qed

lemma contracts_fit:
  "length (canonical_json (actor_val sample_actor)) \<le> 65536"
  "length (canonical_json (approved_plan_ref_val sample_approval)) \<le> 65536"
  "length (canonical_json (execution_input_val sample_input)) \<le> 65536"
  using canonical_length [of "actor_val sample_actor"] canonical_length [of "approved_plan_ref_val sample_approval"]
    canonical_length [of "execution_input_val sample_input"] approval_tame_val input_tame_val actor_tame_val sample_weights input_weight
  by (simp_all add: order_trans)

section \<open>The accepted journal\<close>

definition sample_journal :: journal where
  "sample_journal = \<lparr>jn_db = empty_database, jn_clock = (\<lambda>_. Some 1767225600), jn_tick = 0,
     jn_uuid = (\<lambda>n. replicate (Suc n) CHR ''a''), jn_ids = 0\<rparr>"

definition sample_ref :: operation_ref where
  "sample_ref = \<lparr>or_operation_id = ''operation_a'', or_request_id = ''request_a'', or_state = OS_ACCEPTED\<rparr>"

definition accepted_journal :: journal where
  "accepted_journal = sample_journal\<lparr>jn_tick := 1, jn_ids := 1,
     jn_db := accepted_db sample_actor sample_request sample_approval (Some sample_input) ''operation_a''
       ''2026-01-01T00:00:00Z'' empty_database\<rparr>"

lemma sample_binding:
  "validate_acceptance_binding sample_actor sample_request sample_approval (intent_digest sample_request) = None"
  by (simp add: validate_acceptance_binding_def sample_approval_binding)
     (simp add: sample_approval_def sample_unbound_approval_def sample_actor_def sample_request_def)

lemma sample_input_binding:
  "validate_execution_input sample_request sample_approval sample_input (intent_digest sample_request) = None"
  by (simp add: validate_execution_input_def sample_input_def sample_unbound_input_def)
     (simp add: sample_approval_def sample_unbound_approval_def sample_request_def)

lemma sample_clock: "timestamp_us 1767225600 = 1767225600000000"
  by (simp add: timestamp_us_def round_half_even_def)

lemma sample_now:
  "from_timestamp 1767225600 = Inr 1767225600000000" "utc_now_text 1767225600 = Inr ''2026-01-01T00:00:00Z''"
  by (simp_all add: from_timestamp_def utc_now_text_def sample_clock sample_instants)

lemma sample_fresh:
  "ei_deadline sample_input = ''2026-01-01T12:00:00Z''" "\<not> expired sample_approval 1767225600000000"
  by (simp_all add: sample_input_def sample_unbound_input_def expired_def sample_approval_def sample_unbound_approval_def)

lemma sample_fields [simp]:
  "rq_idempotency_key sample_request = ''key''" "rq_request_id sample_request = ''request_a''"
  by (simp_all add: sample_request_def)

lemmas tx_run = tx_bind_def tx_return_def tx_lift_def tx_check_def tx_query_def tx_read_def tx_update_def tx_execute_def
  transaction_def clock_sample_def fresh_uuid_def

lemmas check_run = conflict_def integrity_def sql_require_def require_entity_id_def raise_unless_def first_error_unfold

lemma sample_accepts:
  "accept sample_actor sample_request sample_approval (Some sample_input) sample_journal = (Inr sample_ref, accepted_journal)"
  using claims_fit contracts_fit sample_binding sample_input_binding sample_now sample_fresh sample_operation_id
  by (simp add: accept_def accept_new_def Let_def tx_run check_run bounded_json_def MAX_CANONICAL_JSON_BYTES_def find_idempotent_def
      store_plan_def store_approval_def insert_plan_def insert_approval_def insert_operation_def insert_input_def
      insert_idempotency_key_def bounded_text_def operation_exists_def sample_journal_def accepted_journal_def
      accepted_db_def empty_database_def plan_row_of_def approval_row_of_def operation_row_of_def input_row_of_def key_row_of_def
      operation_ref_of_def operation_ref_check_def sample_ref_def)

lemma accepted_journal_reachable: "reachable (\<lambda>_. True) accepted_journal"
proof (rule reachable.step [where c = "Accept sample_actor sample_request sample_approval (Some sample_input)"])
  show "reachable (\<lambda>_. True) sample_journal" by (rule reachable.initial) (simp add: sample_journal_def)
  show "run_call (Accept sample_actor sample_request sample_approval (Some sample_input)) sample_journal = (Inr (), accepted_journal)"
    by (simp add: tx_success sample_accepts)
qed (simp_all add: sample_actor_ok sample_request_ok sample_approval_ok sample_input_ok)

definition accepted_row :: operation_row where
  "accepted_row = operation_row_of sample_actor sample_request sample_approval ''operation_a'' ''2026-01-01T00:00:00Z'' ''accepted''"

lemma accepted_journal_row: "find_operation ''operation_a'' (jn_db accepted_journal) = Some accepted_row"
  by (simp add: accepted_journal_def accepted_db_def find_operation_def empty_database_def accepted_row_def)

lemma accepted_journal_invs: "accepted_inv (jn_db accepted_journal)" "accepted_inv (jn_db sample_journal)"
  using accepted.holds [OF accepted_journal_reachable] accepted.empty by (simp_all add: sample_journal_def)

lemma accepted_journal_retry:
  "accept sample_actor sample_request sample_approval (Some sample_input) accepted_journal = (Inr sample_ref, accepted_journal)"
  by (rule accept_again [OF accepted_journal_invs(2) sample_accepts])

lemma accepted_journal_events: "events ''operation_a'' accepted_journal = (Inr [], accepted_journal)"
proof -
  obtain es where v: "verified_events (jn_db accepted_journal) ''operation_a'' = Inr es"
    using histories.holds [OF accepted_journal_reachable] accepted_journal_row by (auto simp: history_inv_def)
  moreover have "event_rows ''operation_a'' (jn_db accepted_journal) = []"
    by (simp add: event_rows_def accepted_journal_def accepted_db_def empty_database_def)
  ultimately have "es = []" by (elim verified_eventsE) simp
  with v show ?thesis by (simp add: events_def tx_read_def)
qed

section \<open>The properties at this journal\<close>

theorem failed_call_rolls_back_witness:
  "\<exists>e s'. run_call (Release_Lease ''operation_a'' ''owner'' 1) accepted_journal = (Inl e, s') \<and>
     jn_db s' = jn_db accepted_journal"
proof -
  obtain e s' where run: "run_call (Release_Lease ''operation_a'' ''owner'' 1) accepted_journal = (Inl e, s')"
    by (simp add: release_lease_def tx_run accepted_journal_def sample_journal_def active_lease_def find_lease_def
        accepted_db_def empty_database_def)
  show ?thesis using run failed_call_rolls_back [OF run] by blast
qed

theorem accept_idempotent_witness:
  "reachable (\<lambda>_. True) sample_journal \<and>
   accept sample_actor sample_request sample_approval (Some sample_input) sample_journal = (Inr sample_ref, accepted_journal) \<and>
   accept sample_actor sample_request sample_approval (Some sample_input) accepted_journal = (Inr sample_ref, accepted_journal)"
proof -
  have start: "reachable (\<lambda>_. True) sample_journal" by (rule reachable.initial) (simp add: sample_journal_def)
  show ?thesis using start sample_accepts accept_idempotent [OF start sample_accepts] by blast
qed

theorem key_identifies_one_operation_witness:
  "journal_step\<^sup>*\<^sup>* accepted_journal accepted_journal \<and>
   accept sample_actor sample_request sample_approval (Some sample_input) accepted_journal = (Inr sample_ref, accepted_journal) \<and>
   or_operation_id sample_ref = ''operation_a''"
  using key_identifies_one_operation [OF sample_accepts rtranclp.rtrancl_refl accepted_journal_retry] accepted_journal_retry
  by (simp add: sample_ref_def)

end
