(* ===== verification/Fence_Facts.thy ===== *)
theory Fence_Facts
  imports Sample_Runs
begin

text \<open>
  Execution fences. A fence of an application scope is a token that only its current holder can use:
  whoever obtains the scope later has a larger token, and every earlier fence is refused from then on.
\<close>

section \<open>The order of scope leases\<close>

text \<open>How the lease of a scope develops: its token never falls, and a token belongs to one holder.\<close>

definition lease_order :: "scope_lease_row \<Rightarrow> scope_lease_row \<Rightarrow> bool" where
  "lease_order l l' \<longleftrightarrow> sl_fencing_token l \<le> sl_fencing_token l' \<and>
     (sl_fencing_token l' = sl_fencing_token l \<longrightarrow>
        sl_operation_id l' = sl_operation_id l \<and> (sl_owner_id l' = sl_owner_id l \<or> sl_owner_id l' = None))"

definition fence_order :: "database \<Rightarrow> database \<Rightarrow> bool" where
  "fence_order db db' \<longleftrightarrow>
     (\<forall>oid scope. execution_scope db oid = Inr scope \<longrightarrow> execution_scope db' oid = Inr scope) \<and>
     (\<forall>host app env l. find_scope_lease host app env db = Some l \<longrightarrow>
        (\<exists>l'. find_scope_lease host app env db' = Some l' \<and> lease_order l l'))"

lemma lease_order_refl: "lease_order l l"
  by (simp add: lease_order_def)

lemma lease_order_trans: "lease_order l1 l2 \<Longrightarrow> lease_order l2 l3 \<Longrightarrow> lease_order l1 l3"
  unfolding lease_order_def by fastforce

interpretation fence: db_frame fence_order
proof
  show "fence_order db db" for db by (auto simp: fence_order_def intro: lease_order_refl)
next
  fix db1 db2 db3
  assume "fence_order db1 db2" "fence_order db2 db3"
  then show "fence_order db1 db3" unfolding fence_order_def using lease_order_trans by meson
qed

section \<open>Statements\<close>

lemma scope_stateless:
  assumes "map stateless (db_operations db') = map stateless (db_operations db)" "execution_scope db oid = Inr scope"
  shows "execution_scope db' oid = Inr scope"
proof -
  have "op_host_id o' = op_host_id (stateless o') \<and> op_app o' = op_app (stateless o') \<and>
      op_environment o' = op_environment (stateless o')" for o'
    by (simp add: stateless_def)
  then show ?thesis
    using assms(2) find_operation_stateless [OF assms(1), of oid] unfolding execution_scope_def
    by (auto split: option.splits) (metis prod.inject)+
qed

lemma fence_order_same:
  assumes "map stateless (db_operations db') = map stateless (db_operations db)" "db_scope_leases db' = db_scope_leases db"
  shows "fence_order db db'"
  using scope_stateless [OF assms(1)] assms(2)
  by (auto simp: fence_order_def find_scope_lease_def intro: lease_order_refl)

lemma find_upsert:
  assumes "\<And>q. same q \<longleftrightarrow> p q" "p r"
  shows "fetchone p (upsert same r rows) = Some r"
  using assms by (induction same r rows rule: upsert.induct) auto

lemma find_upsert_other:
  assumes "\<And>q. same q \<Longrightarrow> \<not> p q" "\<not> p r"
  shows "fetchone p (upsert same r rows) = fetchone p rows"
  using assms by (induction same r rows rule: upsert.induct) auto

lemma upsert_scope_order:
  assumes "upsert_scope_lease r db = Inr db'"
    and "\<And>l. find_scope_lease (sl_host_id r) (sl_app r) (sl_environment r) db = Some l \<Longrightarrow> lease_order l r"
  shows "fence_order db db'"
proof -
  have db': "db_scope_leases db' = upsert (\<lambda>q. same_scope q r) r (db_scope_leases db)" "db_operations db' = db_operations db"
    using assms(1) by (auto simp: upsert_scope_lease_def)
  have "\<exists>l'. find_scope_lease host app env db' = Some l' \<and> lease_order l l'"
    if l: "find_scope_lease host app env db = Some l" for host app env l
  proof (cases "host = sl_host_id r \<and> app = sl_app r \<and> env = sl_environment r")
    case True
    then have "find_scope_lease host app env db' = Some r"
      unfolding find_scope_lease_def db' by (intro find_upsert) (auto simp: same_scope_def)
    with assms(2) l True show ?thesis by blast
  next
    case False
    then have "find_scope_lease host app env db' = find_scope_lease host app env db"
      unfolding find_scope_lease_def db' by (intro find_upsert_other) (auto simp: same_scope_def)
    with l show ?thesis using lease_order_refl by auto
  qed
  then show ?thesis by (simp add: fence_order_def execution_scope_def find_operation_def db')
qed

lemma update_scope_order:
  assumes "\<And>r. lease_order r (f r)" "\<And>r. sl_host_id (f r) = sl_host_id r \<and> sl_app (f r) = sl_app r \<and> sl_environment (f r) = sl_environment r"
  shows "fence_order db (update_scope_leases host app env f db)"
proof -
  have "find_scope_lease h a e (update_scope_leases host app env f db) =
      map_option (\<lambda>r. if sl_host_id r = host \<and> sl_app r = app \<and> sl_environment r = env then f r else r) (find_scope_lease h a e db)" for h a e
    unfolding find_scope_lease_def update_scope_leases_def using assms(2) by (simp add: fetchone_map)
  then show ?thesis
    using assms(1) lease_order_refl
    by (auto simp: fence_order_def execution_scope_def find_operation_def update_scope_leases_def)
qed

lemma other_statements_order:
  "frames fence_order (tx_execute (insert_control c))" "frames fence_order (tx_execute (upsert_lease l))"
  "frames fence_order (tx_execute (insert_lifecycle lr))" "frames fence_order (tx_execute (upsert_active ar))"
  "frames fence_order (tx_execute (insert_atomic m))" "frames fence_order (tx_execute (upsert_delivery d))"
  "frames fence_order (tx_execute (insert_receipt rr))" "frames fence_order (tx_update (update_leases oid f))"
  by (rule fence.execute fence.update, rule fence_order_same, auto simp: statement_defs)+

lemma add_event_order: "fence_order db (add_event e p db)"
  using add_event_acceptance [of db e p]
  by (intro fence_order_same) (simp_all add: same_acceptance_def add_event_def set_operation_state_def)

lemma update_scope_frames:
  "frames fence_order (tx_update (update_scope_leases host app env (\<lambda>r. r\<lparr>sl_expires_at := t\<rparr>)))"
  "frames fence_order (tx_update (update_scope_leases host app env (\<lambda>r. r\<lparr>sl_owner_id := None, sl_expires_at := t\<rparr>)))"
  by (rule fence.update, rule update_scope_order, simp_all add: lease_order_def)+

section \<open>Acquiring a fence\<close>

text \<open>The scope is free, or it is already held by the same operation and owner.\<close>

definition scope_free :: "string \<Rightarrow> string \<Rightarrow> rat \<Rightarrow> scope_lease_row option \<Rightarrow> bool" where
  "scope_free operation_id owner_id now scope_lease \<longleftrightarrow> (\<forall>l. scope_lease = Some l \<longrightarrow>
     sl_owner_id l \<noteq> None \<and> sl_expires_at l > now \<longrightarrow> sl_operation_id l = operation_id \<and> sl_owner_id l = Some owner_id)"

lemma acquire_fence_success:
  assumes "acquire_fence oid owner ttl s = (Inr f, s')"
  obtains host app env now db where "execution_scope (jn_db s) oid = Inr (host, app, env)" "jn_clock s (jn_tick s) = Some now"
    "scope_free oid owner now (find_scope_lease host app env (jn_db s))"
    "(fe_fencing_token f, fe_expires_at f) = next_fence host app env now ttl (find_scope_lease host app env (jn_db s)) (jn_db s)"
    "fe_operation_id f = oid" "fe_owner_id f = owner"
    "upsert_scope_lease \<lparr>sl_host_id = host, sl_app = app, sl_environment = env, sl_operation_id = oid, sl_owner_id = Some owner,
       sl_fencing_token = fe_fencing_token f, sl_expires_at = fe_expires_at f\<rparr> (jn_db s) = Inr db"
    "upsert_lease \<lparr>ls_operation_id = oid, ls_owner_id = Some owner, ls_fencing_token = fe_fencing_token f,
       ls_expires_at = fe_expires_at f\<rparr> db = Inr (jn_db s')"
proof -
  obtain host app env where scope: "execution_scope (jn_db s) oid = Inr (host, app, env)"
    using assms by (auto simp: acquire_fence_def tx_success)
  obtain now where now: "jn_clock s (jn_tick s) = Some now"
    using assms by (auto simp: acquire_fence_def tx_success split_beta)
  obtain token expires_at where nf:
    "next_fence host app env now ttl (find_scope_lease host app env (jn_db s)) (jn_db s) = (token, expires_at)"
    by (cases "next_fence host app env now ttl (find_scope_lease host app env (jn_db s)) (jn_db s)")
  have free: "scope_free oid owner now (find_scope_lease host app env (jn_db s))"
    using assms scope now by (auto simp: acquire_fence_def tx_success scope_free_def split_beta split: option.splits)
  have f: "f = \<lparr>fe_operation_id = oid, fe_owner_id = owner, fe_fencing_token = token, fe_expires_at = expires_at\<rparr>"
    using assms scope now nf by (auto simp: acquire_fence_def tx_success execution_fence_of_def Let_def)
  obtain db where "upsert_scope_lease \<lparr>sl_host_id = host, sl_app = app, sl_environment = env, sl_operation_id = oid, sl_owner_id = Some owner,
       sl_fencing_token = token, sl_expires_at = expires_at\<rparr> (jn_db s) = Inr db"
    "upsert_lease \<lparr>ls_operation_id = oid, ls_owner_id = Some owner, ls_fencing_token = token, ls_expires_at = expires_at\<rparr> db = Inr (jn_db s')"
    using assms scope now nf by (auto simp: acquire_fence_def tx_success)
  with that [OF scope now free] show thesis using nf f by simp
qed

lemma exists_update: "operation_exists x (db\<lparr>db_scope_leases := rows\<rparr>) = operation_exists x db"
  by (simp add: operation_exists_def)

lemma acquired_scope_lease:
  assumes "acquire_fence oid owner ttl s = (Inr f, s')" "find_operation oid (jn_db s) = Some o'"
  shows "execution_scope (jn_db s') oid = Inr (op_host_id o', op_app o', op_environment o')"
    and "find_scope_lease (op_host_id o') (op_app o') (op_environment o') (jn_db s') =
      Some \<lparr>sl_host_id = op_host_id o', sl_app = op_app o', sl_environment = op_environment o', sl_operation_id = oid,
        sl_owner_id = Some owner, sl_fencing_token = fe_fencing_token f, sl_expires_at = fe_expires_at f\<rparr>"
proof -
  obtain db where up: "upsert_scope_lease \<lparr>sl_host_id = op_host_id o', sl_app = op_app o', sl_environment = op_environment o',
        sl_operation_id = oid, sl_owner_id = Some owner, sl_fencing_token = fe_fencing_token f, sl_expires_at = fe_expires_at f\<rparr> (jn_db s) = Inr db"
    "upsert_lease \<lparr>ls_operation_id = oid, ls_owner_id = Some owner, ls_fencing_token = fe_fencing_token f,
       ls_expires_at = fe_expires_at f\<rparr> db = Inr (jn_db s')"
    by (rule acquire_fence_success [OF assms(1)]) (use assms(2) that in \<open>simp add: execution_scope_def\<close>)
  have ops: "find_operation oid (jn_db s') = find_operation oid (jn_db s)"
    using up by (auto simp: upsert_scope_lease_def upsert_lease_def find_operation_def)
  then show "execution_scope (jn_db s') oid = Inr (op_host_id o', op_app o', op_environment o')" using assms(2) by (simp add: execution_scope_def)
  have rows: "db_scope_leases (jn_db s') = upsert (\<lambda>q. same_scope q \<lparr>sl_host_id = op_host_id o', sl_app = op_app o',
      sl_environment = op_environment o', sl_operation_id = oid, sl_owner_id = Some owner, sl_fencing_token = fe_fencing_token f,
      sl_expires_at = fe_expires_at f\<rparr>) \<lparr>sl_host_id = op_host_id o', sl_app = op_app o',
      sl_environment = op_environment o', sl_operation_id = oid, sl_owner_id = Some owner, sl_fencing_token = fe_fencing_token f,
      sl_expires_at = fe_expires_at f\<rparr> (db_scope_leases (jn_db s))"
    using up by (auto simp: upsert_scope_lease_def upsert_lease_def)
  show "find_scope_lease (op_host_id o') (op_app o') (op_environment o') (jn_db s') =
      Some \<lparr>sl_host_id = op_host_id o', sl_app = op_app o', sl_environment = op_environment o', sl_operation_id = oid,
        sl_owner_id = Some owner, sl_fencing_token = fe_fencing_token f, sl_expires_at = fe_expires_at f\<rparr>"
    unfolding find_scope_lease_def rows by (rule find_upsert) (auto simp: same_scope_def)
qed

lemma next_fence_order:
  assumes "scope_free oid owner now (Some l)" "(token, expires_at) = next_fence host app env now ttl (Some l) db"
  shows "lease_order l \<lparr>sl_host_id = host, sl_app = app, sl_environment = env, sl_operation_id = oid, sl_owner_id = Some owner,
    sl_fencing_token = token, sl_expires_at = expires_at\<rparr>"
  using assms by (auto simp: lease_order_def next_fence_def scope_free_def split: if_splits)

lemma acquire_fence_order: "frames fence_order (acquire_fence oid owner ttl)"
  unfolding frames_def
proof (intro allI impI)
  fix s f s'
  assume "acquire_fence oid owner ttl s = (Inr f, s')"
  then show "fence_order (jn_db s) (jn_db s')"
  proof (rule acquire_fence_success)
    fix host app env now db
    let ?r = "\<lparr>sl_host_id = host, sl_app = app, sl_environment = env, sl_operation_id = oid, sl_owner_id = Some owner,
       sl_fencing_token = fe_fencing_token f, sl_expires_at = fe_expires_at f\<rparr>"
    assume free: "scope_free oid owner now (find_scope_lease host app env (jn_db s))"
      and fence: "(fe_fencing_token f, fe_expires_at f) = next_fence host app env now ttl (find_scope_lease host app env (jn_db s)) (jn_db s)"
      and up: "upsert_scope_lease ?r (jn_db s) = Inr db"
      and lease: "upsert_lease \<lparr>ls_operation_id = oid, ls_owner_id = Some owner, ls_fencing_token = fe_fencing_token f,
       ls_expires_at = fe_expires_at f\<rparr> db = Inr (jn_db s')"
    have "fence_order (jn_db s) db" by (rule upsert_scope_order [OF up]) (use free fence next_fence_order in auto)
    moreover have "fence_order db (jn_db s')" using lease by (intro fence_order_same) (auto simp: upsert_lease_def)
    ultimately show ?thesis by (rule fence.trans)
  qed
qed

lemmas order_intros = other_statements_order update_scope_frames fence.basic fence.bind fence.transaction fence.options
  fence.pairs fence.conditional fence.append_event fence.phase_events add_event_order

lemma calls_order_fences: "frames fence_order (run_call c)"
proof (cases c)
  case (Accept actor request a inp)
  have "fence_order (jn_db s) (jn_db s')" if "accept actor request a inp s = (Inr ref, s')" for s ref s'
    using that
  proof (cases rule: accept_success)
    case (new oid accepted_at)
    have "execution_scope (jn_db s') x = Inr scope" if "execution_scope (jn_db s) x = Inr scope" for x scope
      using that new accepted_db_find [OF new(1)]
      by (auto simp: execution_scope_def admits_def operation_exists_find split: option.splits)
    moreover have "db_scope_leases (jn_db s') = db_scope_leases (jn_db s)" using new(2) by (simp add: accepted_db_def)
    ultimately show ?thesis
      by (auto simp: fence_order_def find_scope_lease_def intro: lease_order_refl)
  qed (simp add: fence.refl)
  then show ?thesis unfolding Accept by (auto simp: frames_def tx_success)
next
  case (Acquire_Fence oid owner ttl)
  then show ?thesis by (auto simp: returning_def intro!: fence.bind fence.basic acquire_fence_order)
qed (auto simp: call_defs Let_def intro!: order_intros)

section \<open>Stale fences\<close>

lemma fence_holds:
  assumes "assert_execution_fence oid f s = (Inr u, s')"
  obtains host app env l where "execution_scope (jn_db s) oid = Inr (host, app, env)" "find_scope_lease host app env (jn_db s) = Some l"
    "sl_operation_id l = oid" "sl_owner_id l = Some (fe_owner_id f)" "sl_fencing_token l = fe_fencing_token f" "fe_operation_id f = oid"
  using assms
  by (auto simp: assert_execution_fence_def tx_success active_scope_lease_def bind_res_Inr split: option.splits if_splits)

text \<open>
  C6. A superseded fence is dead: once another holder has a valid fence for the same application
  scope, an earlier fence that was valid before it is refused by every later check, whatever calls
  happen in between; its token is smaller than the token of the new holder.
\<close>

theorem superseded_fence_rejected:
  assumes "assert_execution_fence o1 f1 s = (Inr u, s0)" and "journal_step\<^sup>*\<^sup>* s s'"
    and "assert_execution_fence o2 f2 s' = (Inr v, s1)" and "execution_scope (jn_db s) o1 = execution_scope (jn_db s') o2"
    and "(o2, fe_owner_id f2, fe_fencing_token f2) \<noteq> (o1, fe_owner_id f1, fe_fencing_token f1)" and "journal_step\<^sup>*\<^sup>* s' s''"
  shows "fe_fencing_token f1 < fe_fencing_token f2 \<and> (\<forall>w t. assert_execution_fence o1 f1 s'' \<noteq> (Inr w, t))"
proof -
  obtain host app env l where l: "execution_scope (jn_db s) o1 = Inr (host, app, env)" "find_scope_lease host app env (jn_db s) = Some l"
    "sl_operation_id l = o1" "sl_owner_id l = Some (fe_owner_id f1)" "sl_fencing_token l = fe_fencing_token f1"
    using fence_holds [OF assms(1)] by metis
  obtain l' where l': "find_scope_lease host app env (jn_db s') = Some l'"
    "sl_operation_id l' = o2" "sl_owner_id l' = Some (fe_owner_id f2)" "sl_fencing_token l' = fe_fencing_token f2"
    using fence_holds [OF assms(3)] l(1) assms(4) by (metis Pair_inject sum.inject(2))
  have order: "fence_order (jn_db s) (jn_db s')" "fence_order (jn_db s') (jn_db s'')"
    using frame_later [OF fence.db_frame_axioms calls_order_fences] assms(2,6) by blast+
  then have "lease_order l l'" using l(2) l'(1) unfolding fence_order_def by (metis option.inject)
  then have less: "fe_fencing_token f1 < fe_fencing_token f2"
    using l l' assms(5) by (auto simp: lease_order_def)
  have "\<not> assert_execution_fence o1 f1 s'' = (Inr w, t)" for w t
  proof
    assume "assert_execution_fence o1 f1 s'' = (Inr w, t)"
    moreover have "execution_scope (jn_db s'') o1 = Inr (host, app, env)" using order l(1) unfolding fence_order_def by blast
    ultimately obtain l'' where l'': "find_scope_lease host app env (jn_db s'') = Some l''" "sl_fencing_token l'' = fe_fencing_token f1"
      using fence_holds by (metis Pair_inject sum.inject(2))
    then have "lease_order l' l''" using order(2) l'(1) unfolding fence_order_def by (metis option.inject)
    with less l' l'' show False by (simp add: lease_order_def)
  qed
  with less show ?thesis by blast
qed

text \<open>
  C7. Mutual exclusion: in one state of the journal at most one fence of an application scope is
  accepted. Two fences that pass the check there name the same operation, owner and token.
\<close>

theorem fence_mutual_exclusion:
  assumes "assert_execution_fence o1 f1 s = (Inr u, s1)" and "assert_execution_fence o2 f2 s = (Inr v, s2)"
    and "execution_scope (jn_db s) o1 = execution_scope (jn_db s) o2"
  shows "o1 = o2 \<and> fe_owner_id f1 = fe_owner_id f2 \<and> fe_fencing_token f1 = fe_fencing_token f2"
proof -
  obtain host app env l where l: "execution_scope (jn_db s) o1 = Inr (host, app, env)" "find_scope_lease host app env (jn_db s) = Some l"
    "sl_operation_id l = o1" "sl_owner_id l = Some (fe_owner_id f1)" "sl_fencing_token l = fe_fencing_token f1"
    using fence_holds [OF assms(1)] by metis
  show ?thesis by (rule fence_holds [OF assms(2)]) (use l assms(3) in auto)
qed

section \<open>Recovery\<close>

lemma max_or_zero_ge: "x \<in> set xs \<Longrightarrow> x \<le> max_or_zero xs" and max_or_zero_nonneg: "0 \<le> max_or_zero xs"
  by (induction xs) (auto simp: max_or_zero_def)

lemma find_rows:
  "find_lease oid db = Some r \<Longrightarrow> r \<in> set (db_operation_leases db)"
  "find_scope_lease host app env db = Some l \<Longrightarrow> l \<in> set (db_scope_leases db)"
  by (auto simp: find_lease_def find_scope_lease_def dest: fetchone_Some)

lemma expired_next_fence:
  assumes "\<forall>l \<in> set (db_scope_leases db). sl_expires_at l \<le> now"
  obtains token where "next_fence host app env now ttl (find_scope_lease host app env db) db = (token, now + ttl)" "0 < token"
    "\<And>l. find_scope_lease host app env db = Some l \<Longrightarrow> sl_fencing_token l < token"
    "\<And>x. x \<in> set (scope_tokens host app env db) \<Longrightarrow> x < token"
proof (cases "find_scope_lease host app env db")
  case None
  then show thesis
    using that [of "max 0 (max_or_zero (scope_tokens host app env db)) + 1"] max_or_zero_ge
    by (fastforce simp: next_fence_def)
next
  case (Some l)
  then have "\<not> sl_expires_at l > now" using assms find_rows(2) by (meson not_less)
  then show thesis
    using that [of "max 0 (max (sl_fencing_token l) (max_or_zero (scope_tokens host app env db))) + 1"] max_or_zero_ge Some
    by (fastforce simp: next_fence_def)
qed

lemma expired_not_foreign:
  "\<forall>l \<in> set (db_operation_leases db). ls_expires_at l \<le> now \<Longrightarrow> \<not> foreign_scope_lease host app env now oid owner db"
  by (auto simp: foreign_scope_lease_def list_ex_iff)

lemma expired_acquire:
  assumes valid: "validate_lease_input owner ttl = None" "is_entity_id ''operation'' oid"
    and op: "find_operation oid (jn_db s) = Some o'" "op_state o' = os_value st" "\<not> terminal st"
    and now: "jn_clock s (jn_tick s) = Some now"
    and expired: "\<forall>l \<in> set (db_operation_leases (jn_db s)). ls_expires_at l \<le> now" "\<forall>l \<in> set (db_scope_leases (jn_db s)). sl_expires_at l \<le> now"
    and nf: "next_fence (op_host_id o') (op_app o') (op_environment o') now ttl
      (find_scope_lease (op_host_id o') (op_app o') (op_environment o') (jn_db s)) (jn_db s) = (token, now + ttl)" "0 < token"
  shows "\<exists>s'. acquire_fence oid owner ttl s =
    (Inr \<lparr>fe_operation_id = oid, fe_owner_id = owner, fe_fencing_token = token, fe_expires_at = now + ttl\<rparr>, s')"
proof -
  let ?db = "jn_db s"
  have scope: "execution_scope ?db oid = Inr (op_host_id o', op_app o', op_environment o')" using op by (simp add: execution_scope_def)
  have open_op: "require_nonterminal_operation ?db oid = Inr ()"
  proof -
    have "operation_state_of (os_value st) = Inr st" by (simp add: operation_state_of_def os.enum_of_value)
    then show ?thesis using op by (simp add: require_nonterminal_operation_def del: operation_state_of_Inr)
  qed
  have lease: "\<not> ls_expires_at l > now" if "find_lease oid ?db = Some l" for l
    using that expired(1) find_rows(1) by (meson not_less)
  have sl: "\<not> sl_expires_at l > now" if "find_scope_lease h a e ?db = Some l" for h a e l
    using that expired(2) find_rows(2) by (meson not_less)
  have exists: "operation_exists oid ?db" using op(1) by (simp add: operation_exists_find)
  have owner_ok: "require_text owner ''owner_id'' 255 = None" using valid(1) by (simp add: validate_lease_input_def)
  let ?f = "\<lparr>fe_operation_id = oid, fe_owner_id = owner, fe_fencing_token = token, fe_expires_at = now + ttl\<rparr>"
  have ok: "execution_fence_of oid owner token (now + ttl) = Inr ?f"
    using valid owner_ok nf(2) by (simp add: execution_fence_of_def execution_fence_check_def require_positive_def)
  show ?thesis
    using valid(1) open_op scope now expired_not_foreign [OF expired(1)] nf exists ok lease sl
    by (cases "find_lease oid ?db"; cases "find_scope_lease (op_host_id o') (op_app o') (op_environment o') ?db")
       (simp_all add: acquire_fence_def tx_run check_run upsert_scope_lease_def upsert_lease_def exists_update)
qed


section \<open>A fence in use\<close>

definition sample_fence :: "int \<Rightarrow> execution_fence" where
  "sample_fence token = \<lparr>fe_operation_id = ''operation_a'', fe_owner_id = ''worker'', fe_fencing_token = token, fe_expires_at = 1767225660\<rparr>"

text \<open>The accepted journal with a lease of its scope, held or released.\<close>

definition leased_journal :: "nat \<Rightarrow> string option \<Rightarrow> int \<Rightarrow> rat \<Rightarrow> journal" where
  "leased_journal tick owner token expires_at = accepted_journal\<lparr>jn_tick := tick, jn_db := (jn_db accepted_journal)\<lparr>
     db_scope_leases := [\<lparr>sl_host_id = ''host_a'', sl_app = ''demo'', sl_environment = ''prod'', sl_operation_id = ''operation_a'',
       sl_owner_id = owner, sl_fencing_token = token, sl_expires_at = expires_at\<rparr>],
     db_operation_leases := [\<lparr>ls_operation_id = ''operation_a'', ls_owner_id = owner, ls_fencing_token = token,
       ls_expires_at = expires_at\<rparr>]\<rparr>\<rparr>"

lemma worker_text [simp]: "require_text ''worker'' ''owner_id'' 255 = None"
  by (simp add: require_text_def) code_simp

lemma accepted_journal_parts [simp]:
  "jn_clock accepted_journal = (\<lambda>_. Some 1767225600)" "jn_tick accepted_journal = 1"
  "db_operation_leases (jn_db accepted_journal) = []" "db_scope_leases (jn_db accepted_journal) = []"
  by (simp_all add: accepted_journal_def sample_journal_def accepted_db_def empty_database_def)

lemma accepted_row_parts [simp]:
  "op_state accepted_row = ''accepted''" "op_host_id accepted_row = ''host_a''" "op_app accepted_row = ''demo''"
  "op_environment accepted_row = ''prod''"
  by (simp_all add: accepted_row_def operation_row_of_def sample_request_def)

lemma leased_row: "find_operation ''operation_a'' (jn_db (leased_journal n ow tok t)) = Some accepted_row"
  using accepted_journal_row by (simp add: leased_journal_def find_operation_def)

lemma leased_scope: "execution_scope (jn_db (leased_journal n ow tok t)) ''operation_a'' = Inr (''host_a'', ''demo'', ''prod'')"
  by (simp add: execution_scope_def leased_row)

lemma leased_tables [simp]:
  "db_scope_leases (jn_db (leased_journal n ow tok t)) = [\<lparr>sl_host_id = ''host_a'', sl_app = ''demo'', sl_environment = ''prod'',
     sl_operation_id = ''operation_a'', sl_owner_id = ow, sl_fencing_token = tok, sl_expires_at = t\<rparr>]"
  "db_operation_leases (jn_db (leased_journal n ow tok t)) =
     [\<lparr>ls_operation_id = ''operation_a'', ls_owner_id = ow, ls_fencing_token = tok, ls_expires_at = t\<rparr>]"
  by (simp_all add: leased_journal_def)

lemma leased_parts [simp]:
  "jn_clock (leased_journal n ow tok t) = (\<lambda>_. Some 1767225600)" "jn_tick (leased_journal n ow tok t) = n"
  "find_lease ''operation_a'' (jn_db (leased_journal n ow tok t)) =
     Some \<lparr>ls_operation_id = ''operation_a'', ls_owner_id = ow, ls_fencing_token = tok, ls_expires_at = t\<rparr>"
  "find_scope_lease ''host_a'' ''demo'' ''prod'' (jn_db (leased_journal n ow tok t)) =
     Some \<lparr>sl_host_id = ''host_a'', sl_app = ''demo'', sl_environment = ''prod'', sl_operation_id = ''operation_a'',
       sl_owner_id = ow, sl_fencing_token = tok, sl_expires_at = t\<rparr>"
  "scope_tokens ''host_a'' ''demo'' ''prod'' (jn_db (leased_journal n ow tok t)) = [tok]"
  "operation_exists ''operation_a'' (jn_db (leased_journal n ow tok t))"
  using leased_row [of n ow tok t]
  by (simp_all add: leased_journal_def find_lease_def find_scope_lease_def scope_tokens_def operation_exists_find)

lemma accepted_parts [simp]:
  "find_lease ''operation_a'' (jn_db accepted_journal) = None"
  "find_scope_lease ''host_a'' ''demo'' ''prod'' (jn_db accepted_journal) = None"
  "scope_tokens ''host_a'' ''demo'' ''prod'' (jn_db accepted_journal) = []"
  "operation_exists ''operation_a'' (jn_db accepted_journal)"
  "execution_scope (jn_db accepted_journal) ''operation_a'' = Inr (''host_a'', ''demo'', ''prod'')"
  using accepted_journal_row
  by (simp_all add: find_lease_def find_scope_lease_def scope_tokens_def operation_exists_find execution_scope_def)

lemma accepted_is_open: "operation_state_of ''accepted'' = Inr OS_ACCEPTED" "\<not> terminal OS_ACCEPTED"
  by (simp_all add: terminal_def)

lemma fence_valid: "1 \<le> token \<Longrightarrow> execution_fence_check (sample_fence token) = None"
  using sample_operation_id by (simp add: execution_fence_check_def sample_fence_def)

lemma first_fence:
  "acquire_fence ''operation_a'' ''worker'' 60 accepted_journal =
    (Inr (sample_fence 1), leased_journal 2 (Some ''worker'') 1 1767225660)"
  using fence_valid [of 1]
  by (simp add: acquire_fence_def tx_run check_run validate_lease_input_def require_nonterminal_operation_def accepted_journal_row
      accepted_is_open foreign_scope_lease_def next_fence_def max_or_zero_def upsert_scope_lease_def upsert_lease_def
      execution_fence_of_def Let_def exists_update)
     (simp add: leased_journal_def sample_fence_def)

lemma fence_accepted:
  "assert_execution_fence ''operation_a'' (sample_fence token) (leased_journal n (Some ''worker'') token 1767225660) =
    (Inr (), leased_journal (Suc n) (Some ''worker'') token 1767225660)"
  by (simp add: assert_execution_fence_def tx_run check_run active_lease_def active_scope_lease_def leased_scope sample_fence_def)
     (simp add: leased_journal_def)

lemma fence_released:
  "release_fence (sample_fence 1) (leased_journal n (Some ''worker'') 1 1767225660) =
    (Inr (), leased_journal (Suc n) None 1 1767225600)"
  by (simp add: release_fence_def tx_run check_run active_lease_def active_scope_lease_def leased_scope sample_fence_def)
     (simp add: leased_journal_def update_leases_def update_scope_leases_def)

lemma second_fence:
  "acquire_fence ''operation_a'' ''worker'' 60 (leased_journal n None 1 1767225600) =
    (Inr (sample_fence 2), leased_journal (Suc n) (Some ''worker'') 2 1767225660)"
  using fence_valid [of 2]
  by (simp add: acquire_fence_def tx_run check_run validate_lease_input_def require_nonterminal_operation_def leased_row leased_scope
      accepted_is_open foreign_scope_lease_def next_fence_def max_or_zero_def upsert_scope_lease_def upsert_lease_def same_scope_def
      execution_fence_of_def Let_def exists_update)
     (simp add: leased_journal_def sample_fence_def)


section \<open>The properties at this journal\<close>

lemma fence_steps:
  "journal_step\<^sup>*\<^sup>* (leased_journal 2 (Some ''worker'') 1 1767225660) (leased_journal 4 (Some ''worker'') 2 1767225660)"
proof -
  have "journal_step (leased_journal 2 (Some ''worker'') 1 1767225660) (leased_journal 3 None 1 1767225600)"
    unfolding journal_step_def
    by (rule exI [of _ "Release_Fence (sample_fence 1)"]) (simp add: fence_released fence_valid)
  moreover have "journal_step (leased_journal 3 None 1 1767225600) (leased_journal 4 (Some ''worker'') 2 1767225660)"
    unfolding journal_step_def
    by (rule exI [of _ "Acquire_Fence ''operation_a'' ''worker'' 60"]) (simp add: second_fence returning_def tx_run)
  ultimately show ?thesis by (simp add: converse_rtranclp_into_rtranclp)
qed

theorem superseded_fence_rejected_witness:
  "assert_execution_fence ''operation_a'' (sample_fence 1) (leased_journal 2 (Some ''worker'') 1 1767225660) =
     (Inr (), leased_journal 3 (Some ''worker'') 1 1767225660) \<and>
   journal_step\<^sup>*\<^sup>* (leased_journal 2 (Some ''worker'') 1 1767225660) (leased_journal 4 (Some ''worker'') 2 1767225660) \<and>
   (\<forall>w t. assert_execution_fence ''operation_a'' (sample_fence 1) (leased_journal 4 (Some ''worker'') 2 1767225660) \<noteq> (Inr w, t))"
proof -
  have first: "assert_execution_fence ''operation_a'' (sample_fence 1) (leased_journal 2 (Some ''worker'') 1 1767225660) =
      (Inr (), leased_journal 3 (Some ''worker'') 1 1767225660)"
    using fence_accepted [of 1 2] by simp
  show ?thesis
    using first fence_steps superseded_fence_rejected [OF first fence_steps fence_accepted [of 2 4] _ _ rtranclp.rtrancl_refl]
    by (simp add: leased_scope sample_fence_def)
qed

theorem fence_mutual_exclusion_witness:
  "\<exists>s. assert_execution_fence ''operation_a'' (sample_fence 1) (leased_journal 2 (Some ''worker'') 1 1767225660) = (Inr (), s) \<and>
     fe_fencing_token (sample_fence 1) = 1 \<and> fe_owner_id (sample_fence 1) = ''worker''"
  using fence_mutual_exclusion [OF fence_accepted [of 1 2] fence_accepted [of 1 2] refl] fence_accepted [of 1 2]
  by (auto simp: sample_fence_def)


end
