(* ===== verification/Executor.thy ===== *)
theory Executor
  imports Journal_Calls
begin

text \<open>
  \<^verbatim>\<open>JournaledExecutor\<close> of \<^verbatim>\<open>src/ophelia/execution/executor.py\<close>: the journal-first pipeline that
  activates one revision, its recovery and its compensation. An executor action works on the journal
  and on the world of its runtime backend. The backend is the seam \<^verbatim>\<open>RecoverableExecutionBackend\<close>:
  a record of operations, a parameter of every definition. Other workers and the heartbeat thread of
  the executor use the same journal: before each access an arbitrary list of calls of theirs takes
  place, and a failed heartbeat is noticed at an arbitrary check.
\<close>

section \<open>Exceptions\<close>

record process_result =
  pr_argv :: "string list"
  pr_exit_code :: "int option"
  pr_exit_reason :: string
  pr_stdout :: string
  pr_stderr :: string
  pr_stdout_truncated :: bool
  pr_stderr_truncated :: bool

datatype exec_error =
    Raised py_error
  | Phase_Failure plan_phase "verification_result option" "string list"
  | Cancellation_Requested
  | Execution_Deadline_Expired
  | Backend_Contract_Error string
  | Journaled_Executor_Error string
  | Process_Failure process_result
  | OS_Error "int option"
  | Other_Error string

definition is_lease_conflict :: "exec_error \<Rightarrow> bool" where
  "is_lease_conflict e = (case e of Raised (LeaseConflict _) \<Rightarrow> True | _ \<Rightarrow> False)"

definition is_operation_conflict :: "exec_error \<Rightarrow> bool" where
  "is_operation_conflict e = (case e of Raised (OperationConflict _) \<Rightarrow> True | _ \<Rightarrow> False)"

section \<open>Backends\<close>

type_synonym ('a, 'w) seam = "'w \<Rightarrow> (exec_error + 'a) \<times> 'w"

record 'w backend =
  backend_name :: string
  bk_preflight :: "revision \<Rightarrow> (preflight_result, 'w) seam"
  bk_start :: "revision \<Rightarrow> (runtime_handle, 'w) seam"
  bk_handle_for :: "revision \<Rightarrow> (runtime_handle, 'w) seam"
  bk_inspect :: "runtime_handle \<Rightarrow> (observed_revision, 'w) seam"
  bk_verify :: "revision \<Rightarrow> observed_revision \<Rightarrow> (verification_result, 'w) seam"
  bk_activate :: "runtime_handle \<Rightarrow> string option \<Rightarrow> (traffic_activation_result, 'w) seam"
  bk_verify_active :: "revision \<Rightarrow> runtime_handle \<Rightarrow> (verification_result, 'w) seam"
  bk_restore :: "runtime_handle \<Rightarrow> runtime_handle \<Rightarrow> (traffic_activation_result, 'w) seam"
  bk_deactivate :: "runtime_handle \<Rightarrow> (traffic_activation_result, 'w) seam"
  bk_drain_previous :: "(runtime_handle \<Rightarrow> runtime_handle \<Rightarrow> (stop_result, 'w) seam) option"
  bk_remove :: "runtime_handle \<Rightarrow> (remove_result, 'w) seam"

text \<open>
  The names of the calls, for the history of a run. A call several phases make carries the phase that
  makes it.
\<close>

datatype backend_op =
    Op_Preflight plan_phase | Op_Start | Op_Handle_For | Op_Inspect plan_phase | Op_Verify plan_phase
  | Op_Activate | Op_Verify_Active plan_phase | Op_Restore | Op_Deactivate | Op_Drain_Previous | Op_Remove

section \<open>Actions\<close>

text \<open>The log is a history variable: each backend call with the database at that moment.\<close>

record 'w exec =
  ex_jn :: journal
  ex_world :: 'w
  ex_env :: "nat \<Rightarrow> call list"
  ex_access :: nat
  ex_beats :: "nat \<Rightarrow> exec_error option"
  ex_beat :: nat
  ex_failure :: "exec_error option"
  ex_clock :: "nat \<Rightarrow> rat option"
  ex_tick :: nat
  ex_uuid :: "nat \<Rightarrow> string"
  ex_ids :: nat
  ex_log :: "(backend_op \<times> database) list"

type_synonym ('a, 'w) ex = "'w exec \<Rightarrow> (exec_error + 'a) \<times> 'w exec"

definition ex_return :: "'a \<Rightarrow> ('a, 'w) ex" where
  "ex_return x s = (Inr x, s)"

definition ex_raise :: "exec_error \<Rightarrow> ('a, 'w) ex" where
  "ex_raise e s = (Inl e, s)"

definition ex_try :: "('a, 'w) ex \<Rightarrow> ('a \<Rightarrow> ('b, 'w) ex) \<Rightarrow> (exec_error \<Rightarrow> ('b, 'w) ex) \<Rightarrow> ('b, 'w) ex" where
  "ex_try m ok handler s = (case m s of (Inr x, t) \<Rightarrow> ok x t | (Inl e, t) \<Rightarrow> handler e t)"

definition ex_bind :: "('a, 'w) ex \<Rightarrow> ('a \<Rightarrow> ('b, 'w) ex) \<Rightarrow> ('b, 'w) ex" where
  "ex_bind m f = ex_try m f ex_raise"

definition ex_lift :: "'a res \<Rightarrow> ('a, 'w) ex" where
  "ex_lift r s = ((case r of Inl e \<Rightarrow> Inl (Raised e) | Inr x \<Rightarrow> Inr x), s)"

text \<open>Constructing a contract runs its checks.\<close>

definition construct :: "check \<Rightarrow> 'a \<Rightarrow> ('a, 'w) ex" where
  "construct c x = ex_lift (guarded c x)"

definition require :: "bool \<Rightarrow> exec_error \<Rightarrow> (unit, 'w) ex" where
  "require ok e = (if ok then ex_return () else ex_raise e)"

text \<open>The calls of other users of the journal, each with constructed contracts.\<close>

definition interfere :: "call list \<Rightarrow> journal \<Rightarrow> journal" where
  "interfere cs jn = foldl (\<lambda>jn c. if call_ok c then snd (run_call c jn) else jn) jn cs"

definition on_journal :: "'a tx \<Rightarrow> ('a, 'w) ex" where
  "on_journal m s =
     (case m (interfere (ex_env s (ex_access s)) (ex_jn s)) of
        (r, jn) \<Rightarrow> (case r of Inl e \<Rightarrow> Inl (Raised e) | Inr x \<Rightarrow> Inr x,
          s\<lparr>ex_jn := jn, ex_access := ex_access s + 1\<rparr>))"

definition on_backend :: "backend_op \<Rightarrow> ('a, 'w) seam \<Rightarrow> ('a, 'w) ex" where
  "on_backend op f s =
     (case f (ex_world s) of
        (r, w) \<Rightarrow> (r, s\<lparr>ex_world := w, ex_log := ex_log s @ [(op, jn_db (ex_jn s))]\<rparr>))"

text \<open>\<^verbatim>\<open>_FenceHeartbeat.raise_if_failed\<close>: a recorded failure of the heartbeat thread stays.\<close>

definition raise_if_failed :: "(unit, 'w) ex" where
  "raise_if_failed s =
     (let failure = (case ex_failure s of Some e \<Rightarrow> Some e | None \<Rightarrow> ex_beats s (ex_beat s));
          s' = s\<lparr>ex_failure := failure, ex_beat := ex_beat s + 1\<rparr>
      in (case failure of None \<Rightarrow> (Inr (), s') | Some e \<Rightarrow> (Inl e, s')))"

definition executor_clock_sample :: "(rat, 'w) ex" where
  "executor_clock_sample s = (case ex_clock s (ex_tick s) of
      None \<Rightarrow> (Inl (Journaled_Executor_Error ''Executor clock returned an invalid sample.''), s\<lparr>ex_tick := ex_tick s + 1\<rparr>)
    | Some t \<Rightarrow> (Inr t, s\<lparr>ex_tick := ex_tick s + 1\<rparr>))"

definition executor_utc_now :: "(string, 'w) ex" where
  "executor_utc_now = ex_bind executor_clock_sample (\<lambda>t. ex_lift (utc_now_text t))"

definition executor_uuid :: "(string, 'w) ex" where
  "executor_uuid s = (Inr (ex_uuid s (ex_ids s)), s\<lparr>ex_ids := ex_ids s + 1\<rparr>)"

section \<open>The executor\<close>

text \<open>
  The configuration after \<^verbatim>\<open>__init__\<close>. \<open>py_str\<close> stands for \<^verbatim>\<open>str(exc)\<close> and \<open>py_type\<close> for
  \<^verbatim>\<open>type(exc).__name__\<close>, which only enter a digest and a diagnostic message.
\<close>

record 'w executor =
  xc_factory :: "execution_input \<Rightarrow> operation_ref \<Rightarrow> execution_fence \<Rightarrow> ('w backend, 'w) seam"
  xc_lease_ttl_seconds :: rat
  xc_heartbeat_interval :: rat
  xc_py_str :: "exec_error \<Rightarrow> string"
  xc_py_type :: "exec_error \<Rightarrow> string"

definition executor_init_check :: "rat \<Rightarrow> rat option \<Rightarrow> check" where
  "executor_init_check lease_ttl_seconds interval = first_error
     [raise_unless (0 < lease_ttl_seconds \<and> lease_ttl_seconds \<le> 86400)
        (ValueError ''lease_ttl_seconds must be greater than zero and no more than 86400.''),
      (let heartbeat_interval = (case interval of None \<Rightarrow> min 60 (lease_ttl_seconds / 3) | Some i \<Rightarrow> i) in
       raise_unless (0 < heartbeat_interval \<and> heartbeat_interval < lease_ttl_seconds)
        (ValueError ''lease_heartbeat_interval_seconds must be greater than zero and less than lease_ttl_seconds.''))]"

definition phase_started :: "plan_phase \<Rightarrow> string" where
  "phase_started phase = ''phase.'' @ ph_value phase @ ''.started''"

definition phase_completed_type :: "plan_phase \<Rightarrow> string" where
  "phase_completed_type phase = ''phase.'' @ ph_value phase @ ''.completed''"

subsection \<open>Supported plans\<close>

definition SUPPORTED_PHASES :: "plan_phase list" where
  "SUPPORTED_PHASES = [PH_STAGE, PH_PREFLIGHT, PH_START_CANDIDATE, PH_READINESS_VERIFY, PH_SWITCH_TRAFFIC,
     PH_EXTERNAL_VERIFY, PH_DRAIN_PREVIOUS, PH_COMMIT, PH_EMIT_RECEIPT]"

definition SUPPORTED_STEPS :: "(plan_phase \<times> bool \<times> compensation_action) list" where
  "SUPPORTED_STEPS =
     [(PH_STAGE, False, CA_NONE), (PH_PREFLIGHT, False, CA_NONE),
      (PH_START_CANDIDATE, True, CA_DELETE_CANDIDATE), (PH_READINESS_VERIFY, False, CA_NONE),
      (PH_SWITCH_TRAFFIC, True, CA_RESTORE_TRAFFIC), (PH_EXTERNAL_VERIFY, False, CA_NONE),
      (PH_DRAIN_PREVIOUS, False, CA_NONE), (PH_COMMIT, True, CA_RECOVER_FROM_JOURNAL),
      (PH_EMIT_RECEIPT, True, CA_RECOVER_FROM_JOURNAL)]"

definition expected_static_effect_digest :: "plan_phase \<Rightarrow> string \<Rightarrow> string \<Rightarrow> string" where
  "expected_static_effect_digest phase revision_digest artifact_digest = canonical_digest (VMap
     [(''phase'', VStr (ph_value phase)), (''revision_digest'', VStr revision_digest),
      (''artifact_digest'', VStr artifact_digest)])"

definition expected_manifest_effect_digest :: "plan_phase \<Rightarrow> string \<Rightarrow> workload list \<Rightarrow> string" where
  "expected_manifest_effect_digest phase revision_digest workloads = canonical_digest (VMap
     [(''phase'', VStr (ph_value phase)), (''revision_digest'', VStr revision_digest),
      (''workloads'', VList (map (\<lambda>w. of_json (serialize (workload_val w))) workloads))])"

definition contract_violation :: "bool \<Rightarrow> string \<Rightarrow> exec_error option" where
  "contract_violation ok msg = (if ok then None else Some (Backend_Contract_Error msg))"

fun first_violation :: "exec_error option list \<Rightarrow> exec_error option" where
  "first_violation [] = None"
| "first_violation (c # cs) = (case c of None \<Rightarrow> first_violation cs | Some e \<Rightarrow> Some e)"

definition required_steps :: "execution_input \<Rightarrow> plan_phase \<Rightarrow> (bool \<times> compensation_action) option" where
  "required_steps i =
     (let workloads = rv_workloads (ei_revision i);
          manifest_v2 = rv_renderer_version (ei_revision i) = ''manifest-v2'';
          steps = map_of SUPPORTED_STEPS
      in if manifest_v2 \<or> wl_workload_kind (hd workloads) = WK_WEB
         then steps(PH_DRAIN_PREVIOUS \<mapsto> (True, CA_PRESERVE_PREVIOUS)) else steps)"

definition validate_supported_plan :: "execution_input \<Rightarrow> exec_error option" where
  "validate_supported_plan i =
     (let plan = ei_plan i; revision = ei_revision i; workloads = rv_workloads revision;
          artifact_digest = ra_artifact_digest (ei_artifact_ref i);
          manifest_v2 = rv_renderer_version revision = ''manifest-v2'';
          revision_digest = content_digest revision;
          parts = posix_parts (ra_relative_root (ei_artifact_ref i))
      in first_violation
        [contract_violation (pl_blocker_codes plan = []) ''Blocked plans cannot enter the canonical executor.'',
         contract_violation (map ps_phase (pl_steps plan) = SUPPORTED_PHASES)
           ''The current executor only accepts the complete activation pipeline.'',
         contract_violation (pl_operation plan \<in> {''deploy.apply'', ''rollback.apply''})
           ''The current executor only accepts deploy.apply and rollback.apply operations.'',
         contract_violation (\<not> (\<not> manifest_v2 \<and> (length workloads \<noteq> 1 \<or>
             wl_workload_kind (hd workloads) \<notin> {WK_STATIC, WK_WEB} \<or>
             wl_artifact_digest (hd workloads) \<noteq> artifact_digest \<or> rv_artifact_digests revision \<noteq> [artifact_digest])))
           ''The current executor requires one exact static or web workload artifact.'',
         contract_violation (\<not> (manifest_v2 \<and> (workloads = [] \<or> artifact_digest \<notin> set (rv_artifact_digests revision) \<or>
             list_ex (\<lambda>w. wl_artifact_digest w \<notin> set (rv_artifact_digests revision)) workloads)))
           ''Manifest v2 execution requires workloads bound to exact revision artifacts.'',
         contract_violation (\<not> list_ex (\<lambda>step. Some (ps_mutates_runtime step, ps_compensation step) \<noteq>
             required_steps i (ps_phase step)) (pl_steps plan))
           ''Activation steps do not declare the required mutation and compensation semantics.'',
         contract_violation (map ps_desired_effect_digest (pl_steps plan) =
             map (\<lambda>step. if manifest_v2 then expected_manifest_effect_digest (ps_phase step) revision_digest workloads
               else expected_static_effect_digest (ps_phase step) revision_digest artifact_digest) (pl_steps plan))
           ''Activation steps do not declare the exact desired effects.'',
         contract_violation (\<not> (length parts < 3 \<or> hd parts \<noteq> ''staging'' \<or> last parts \<noteq> ''candidate''))
           ''Execution artifacts must reference immutable operation staging.''])"

definition check_supported_plan :: "execution_input \<Rightarrow> (unit, 'w) ex" where
  "check_supported_plan i = (case validate_supported_plan i of None \<Rightarrow> ex_return () | Some e \<Rightarrow> ex_raise e)"

definition validate_handle :: "execution_input \<Rightarrow> runtime_handle \<Rightarrow> (unit, 'w) ex" where
  "validate_handle i handle = require (rh_revision_id handle = rv_revision_id (ei_revision i) \<and>
       rh_revision_digest handle = content_digest (ei_revision i))
     (Backend_Contract_Error ''Runtime handle does not bind the approved revision.'')"

definition previous_handle :: "'w backend \<Rightarrow> active_revision \<Rightarrow> (runtime_handle, 'w) ex" where
  "previous_handle backend previous =
     (let h = \<lparr>rh_backend = backend_name backend, rh_handle_id = ar_revision_id previous,
        rh_revision_id = ar_revision_id previous, rh_revision_digest = ar_revision_digest previous\<rparr>
      in construct (runtime_handle_check h) h)"

subsection \<open>Verification evidence\<close>

definition verification_evidence :: "verification_result \<Rightarrow> string list" where
  "verification_evidence v = sorted_set
     ((case vr_observed_state_digest v of None \<Rightarrow> [] | Some d \<Rightarrow> [d]) @
      List.map_filter vc_observed_digest (vr_checks v))"

text \<open>\<^verbatim>\<open>dataclasses.replace\<close> validates the rebuilt checks and the rebuilt result.\<close>

definition sanitized :: "verification_result \<Rightarrow> verification_result" where
  "sanitized v = v\<lparr>vr_checks := map (\<lambda>c. c\<lparr>vc_summary := None\<rparr>) (vr_checks v)\<rparr>"

definition sanitize_verification :: "verification_result \<Rightarrow> (verification_result, 'w) ex" where
  "sanitize_verification v = construct (first_error (map verification_check_check (vr_checks (sanitized v)) @
     [verification_result_check (sanitized v)])) (sanitized v)"

definition preflight_verification :: "preflight_result \<Rightarrow> (verification_result, 'w) ex" where
  "preflight_verification result =
     ex_bind executor_utc_now (\<lambda>observed_at.
     (let check = \<lparr>vc_name = ''preflight'', vc_status = CS_FAILED,
            vc_observed_digest = Some (pf_observed_state_digest result), vc_summary = None\<rparr>;
          v = \<lparr>vr_status = VS_FAILED, vr_observed_revision_digest = None,
            vr_observed_state_digest = Some (pf_observed_state_digest result), vr_observed_at = observed_at,
            vr_checks = [check]\<rparr>
      in construct (first_error [verification_check_check check, verification_result_check v]) v))"

definition not_run_verification :: "string \<Rightarrow> (verification_result, 'w) ex" where
  "not_run_verification observed_at =
     (let v = \<lparr>vr_status = VS_NOT_RUN, vr_observed_revision_digest = None, vr_observed_state_digest = None,
        vr_observed_at = observed_at, vr_checks = []\<rparr>
      in construct (verification_result_check v) v)"

subsection \<open>Control, events and lifecycle\<close>

definition checkpoint_control :: "string \<Rightarrow> execution_input \<Rightarrow> (unit, 'w) ex" where
  "checkpoint_control operation_id i =
     ex_bind (on_journal (control operation_id)) (\<lambda>c.
     ex_bind (require (\<not> ec_cancellation_requested c) Cancellation_Requested) (\<lambda>_.
     ex_bind (ex_lift (parse_utc (ei_deadline i))) (\<lambda>deadline.
     ex_bind executor_clock_sample (\<lambda>t.
     ex_bind (ex_lift (from_timestamp t)) (\<lambda>now.
     require (\<not> deadline \<le> now) Execution_Deadline_Expired)))))"

definition heartbeat :: "'w executor \<Rightarrow> execution_fence \<Rightarrow> (execution_fence, 'w) ex" where
  "heartbeat cf fence = on_journal (heartbeat_fence fence (xc_lease_ttl_seconds cf))"

definition ensure_revision_state :: "string \<Rightarrow> revision_state \<Rightarrow> execution_fence \<Rightarrow> (unit, 'w) ex" where
  "ensure_revision_state operation_id state fence =
     ex_bind (on_journal (revision_history operation_id)) (\<lambda>history.
     if list_ex (\<lambda>entry. le_state entry = state) history then ex_return ()
     else ex_bind (on_journal (append_revision_state operation_id state fence)) (\<lambda>_. ex_return ()))"

definition event_exists :: "string \<Rightarrow> string \<Rightarrow> (bool, 'w) ex" where
  "event_exists operation_id event_type =
     ex_bind (on_journal (events operation_id)) (\<lambda>es. ex_return (list_ex (\<lambda>e. ev_event_type e = event_type) es))"

definition phase_completed :: "string \<Rightarrow> plan_phase \<Rightarrow> (bool, 'w) ex" where
  "phase_completed operation_id phase = event_exists operation_id (phase_completed_type phase)"

text \<open>The event that follows the history \<open>es\<close>.\<close>

definition next_event ::
  "string \<Rightarrow> operation_event list \<Rightarrow> execution_input \<Rightarrow> string \<Rightarrow> string \<Rightarrow> string \<Rightarrow> operation_state \<Rightarrow> string list \<Rightarrow>
    string option \<Rightarrow> operation_event" where
  "next_event operation_id es i hex occurred_at event_type state evidence_digests message =
     \<lparr>ev_event_id = ''event_'' @ hex, ev_operation_id = operation_id,
      ev_sequence = int (length es) + 1, ev_event_type = event_type, ev_occurred_at = occurred_at,
      ev_state = state, ev_host_id = pl_host_id (ei_plan i), ev_app = pl_app (ei_plan i),
      ev_environment = pl_environment (ei_plan i), ev_revision_id = Some (rv_revision_id (ei_revision i)),
      ev_message = message, ev_evidence_digests = sorted_set evidence_digests,
      ev_previous_event_digest = (if es = [] then None else Some (canonical_digest (operation_event_val (last es))))\<rparr>"

definition append_next_event ::
  "string \<Rightarrow> operation_event list \<Rightarrow> string \<Rightarrow> operation_state \<Rightarrow> execution_fence \<Rightarrow> string list \<Rightarrow> string option \<Rightarrow>
    (operation_event, 'w) ex" where
  "append_next_event operation_id es event_type state fence evidence_digests message =
     ex_bind (on_journal (load_execution_input operation_id)) (\<lambda>i.
     ex_bind executor_uuid (\<lambda>hex.
     ex_bind executor_utc_now (\<lambda>occurred_at.
     (let event = next_event operation_id es i hex occurred_at event_type state evidence_digests message in
      ex_bind (construct (operation_event_check event) event) (\<lambda>event.
      ex_bind (on_journal (append event (Some (fe_owner_id fence)) (Some (fe_fencing_token fence)))) (\<lambda>_.
      ex_return event))))))"

definition executor_event ::
  "operation_ref \<Rightarrow> string \<Rightarrow> operation_state \<Rightarrow> execution_fence \<Rightarrow> string list \<Rightarrow> string option \<Rightarrow> (operation_event, 'w) ex" where
  "executor_event operation event_type state fence evidence_digests message =
     ex_bind (on_journal (events (or_operation_id operation))) (\<lambda>es.
     (case filter (\<lambda>e. ev_event_type e = event_type) es of
        ex # rest \<Rightarrow>
          if rest \<noteq> [] \<or> ev_state ex \<noteq> state
          then ex_raise (Backend_Contract_Error ''Durable executor event identity is inconsistent.'')
          else ex_return ex
      | [] \<Rightarrow> append_next_event (or_operation_id operation) es event_type state fence evidence_digests message))"

definition before_phase ::
  "'w executor \<Rightarrow> operation_ref \<Rightarrow> execution_input \<Rightarrow> plan_phase \<Rightarrow> execution_fence \<Rightarrow> (execution_fence, 'w) ex" where
  "before_phase cf operation i phase fence =
     ex_bind (checkpoint_control (or_operation_id operation) i) (\<lambda>_.
     ex_bind (heartbeat cf fence) (\<lambda>fence.
     ex_bind (executor_event operation (phase_started phase) OS_EXECUTING fence [] None) (\<lambda>_.
     ex_return fence)))"

definition complete_phase :: "operation_ref \<Rightarrow> plan_phase \<Rightarrow> string list \<Rightarrow> execution_fence \<Rightarrow> (unit, 'w) ex" where
  "complete_phase operation phase evidence_digests fence =
     ex_bind (executor_event operation (phase_completed_type phase) OS_EXECUTING fence evidence_digests None) (\<lambda>_. ex_return ())"

subsection \<open>Phases\<close>

definition phase_checked ::
  "'w executor \<Rightarrow> plan_phase \<Rightarrow> revision_state \<Rightarrow> operation_ref \<Rightarrow> execution_input \<Rightarrow> 'w backend \<Rightarrow> execution_fence \<Rightarrow>
    (execution_fence, 'w) ex" where
  "phase_checked cf phase state operation i backend fence =
     ex_bind (phase_completed (or_operation_id operation) phase) (\<lambda>done_before.
     if done_before then ex_return fence
     else
       ex_bind (before_phase cf operation i phase fence) (\<lambda>fence.
       ex_bind (on_backend (Op_Preflight phase) (bk_preflight backend (ei_revision i))) (\<lambda>result.
       ex_bind (if pf_ok result then ex_return ()
         else ex_bind (preflight_verification result) (\<lambda>v.
           ex_raise (Phase_Failure phase (Some v) (pf_evidence_digests result)))) (\<lambda>_.
       ex_bind (ensure_revision_state (or_operation_id operation) state fence) (\<lambda>_.
       ex_bind (complete_phase operation phase (pf_evidence_digests result) fence) (\<lambda>_.
       ex_return fence))))))"

definition phase_stage ::
  "'w executor \<Rightarrow> operation_ref \<Rightarrow> execution_input \<Rightarrow> 'w backend \<Rightarrow> execution_fence \<Rightarrow> (execution_fence, 'w) ex" where
  "phase_stage cf = phase_checked cf PH_STAGE RS_STAGED"

definition phase_preflight ::
  "'w executor \<Rightarrow> operation_ref \<Rightarrow> execution_input \<Rightarrow> 'w backend \<Rightarrow> execution_fence \<Rightarrow> (execution_fence, 'w) ex" where
  "phase_preflight cf = phase_checked cf PH_PREFLIGHT RS_PREFLIGHT_PASSED"

definition require_passed :: "plan_phase \<Rightarrow> verification_result \<Rightarrow> (unit, 'w) ex" where
  "require_passed phase v = require (vr_status v = VS_PASSED) (Phase_Failure phase (Some v) [])"

definition phase_start_candidate ::
  "'w executor \<Rightarrow> operation_ref \<Rightarrow> execution_input \<Rightarrow> 'w backend \<Rightarrow> runtime_handle \<Rightarrow> execution_fence \<Rightarrow>
    (runtime_handle \<times> verification_result \<times> execution_fence, 'w) ex" where
  "phase_start_candidate cf operation i backend candidate fence =
     ex_bind (phase_completed (or_operation_id operation) PH_START_CANDIDATE) (\<lambda>done_before.
     ex_bind (if done_before then ex_return (candidate, fence)
       else
         ex_bind (before_phase cf operation i PH_START_CANDIDATE fence) (\<lambda>fence.
         ex_bind (ensure_revision_state (or_operation_id operation) RS_STARTING fence) (\<lambda>_.
         ex_bind (on_backend Op_Start (bk_start backend (ei_revision i))) (\<lambda>candidate.
         ex_bind (validate_handle i candidate) (\<lambda>_. ex_return (candidate, fence)))))) (\<lambda>(candidate, fence).
     ex_bind (on_backend (Op_Inspect PH_START_CANDIDATE) (bk_inspect backend candidate)) (\<lambda>observed.
     ex_bind (on_backend (Op_Verify PH_START_CANDIDATE) (bk_verify backend (ei_revision i) observed)) (\<lambda>v.
     ex_bind (sanitize_verification v) (\<lambda>v.
     ex_bind (require_passed PH_START_CANDIDATE v) (\<lambda>_.
     ex_bind (ensure_revision_state (or_operation_id operation) RS_READY fence) (\<lambda>_.
     ex_bind (complete_phase operation PH_START_CANDIDATE (verification_evidence v) fence) (\<lambda>_.
     ex_return (candidate, v, fence)))))))))"

definition phase_readiness ::
  "'w executor \<Rightarrow> operation_ref \<Rightarrow> execution_input \<Rightarrow> 'w backend \<Rightarrow> runtime_handle \<Rightarrow> execution_fence \<Rightarrow>
    (verification_result \<times> execution_fence, 'w) ex" where
  "phase_readiness cf operation i backend candidate fence =
     ex_bind (phase_completed (or_operation_id operation) PH_READINESS_VERIFY) (\<lambda>done_before.
     ex_bind (if done_before then ex_return fence else before_phase cf operation i PH_READINESS_VERIFY fence) (\<lambda>fence.
     ex_bind (on_backend (Op_Inspect PH_READINESS_VERIFY) (bk_inspect backend candidate)) (\<lambda>observed.
     ex_bind (on_backend (Op_Verify PH_READINESS_VERIFY) (bk_verify backend (ei_revision i) observed)) (\<lambda>v.
     ex_bind (sanitize_verification v) (\<lambda>v.
     ex_bind (require_passed PH_READINESS_VERIFY v) (\<lambda>_.
     ex_bind (complete_phase operation PH_READINESS_VERIFY (verification_evidence v) fence) (\<lambda>_.
     ex_return (v, fence))))))))"

definition phase_switch_traffic ::
  "'w executor \<Rightarrow> operation_ref \<Rightarrow> execution_input \<Rightarrow> 'w backend \<Rightarrow> runtime_handle \<Rightarrow> active_revision option \<Rightarrow>
    execution_fence \<Rightarrow> (execution_fence, 'w) ex" where
  "phase_switch_traffic cf operation i backend candidate previous fence =
     ex_bind (phase_completed (or_operation_id operation) PH_SWITCH_TRAFFIC) (\<lambda>done_before.
     if done_before then ex_return fence
     else
       ex_bind (before_phase cf operation i PH_SWITCH_TRAFFIC fence) (\<lambda>fence.
       ex_bind (ensure_revision_state (or_operation_id operation) RS_TRAFFIC_CANDIDATE fence) (\<lambda>_.
       ex_bind (on_backend Op_Activate (bk_activate backend candidate (map_option ar_revision_digest previous))) (\<lambda>result.
       ex_bind (require (ta_active_revision_digest result = Some (content_digest (ei_revision i)))
         (Backend_Contract_Error ''Traffic backend did not activate the approved revision.'')) (\<lambda>_.
       ex_bind (complete_phase operation PH_SWITCH_TRAFFIC (ta_evidence_digests result) fence) (\<lambda>_.
       ex_return fence))))))"

definition phase_external_verify ::
  "'w executor \<Rightarrow> operation_ref \<Rightarrow> execution_input \<Rightarrow> 'w backend \<Rightarrow> runtime_handle \<Rightarrow> execution_fence \<Rightarrow>
    (verification_result \<times> execution_fence, 'w) ex" where
  "phase_external_verify cf operation i backend candidate fence =
     ex_bind (phase_completed (or_operation_id operation) PH_EXTERNAL_VERIFY) (\<lambda>done_before.
     ex_bind (if done_before then ex_return fence else before_phase cf operation i PH_EXTERNAL_VERIFY fence) (\<lambda>fence.
     ex_bind (on_backend (Op_Verify_Active PH_EXTERNAL_VERIFY) (bk_verify_active backend (ei_revision i) candidate)) (\<lambda>v.
     ex_bind (sanitize_verification v) (\<lambda>v.
     ex_bind (require_passed PH_EXTERNAL_VERIFY v) (\<lambda>_.
     ex_bind (complete_phase operation PH_EXTERNAL_VERIFY (verification_evidence v) fence) (\<lambda>_.
     ex_return (v, fence)))))))"

definition phase_drain_previous ::
  "'w executor \<Rightarrow> operation_ref \<Rightarrow> execution_input \<Rightarrow> 'w backend \<Rightarrow> runtime_handle \<Rightarrow> active_revision option \<Rightarrow>
    execution_fence \<Rightarrow> (execution_fence, 'w) ex" where
  "phase_drain_previous cf operation i backend candidate previous fence =
     ex_bind (phase_completed (or_operation_id operation) PH_DRAIN_PREVIOUS) (\<lambda>done_before.
     if done_before then ex_return fence
     else
       ex_bind (before_phase cf operation i PH_DRAIN_PREVIOUS fence) (\<lambda>fence.
       ex_bind (case (previous, bk_drain_previous backend) of
           (Some p, Some drain) \<Rightarrow>
             ex_bind (previous_handle backend p) (\<lambda>h.
             ex_bind (on_backend Op_Drain_Previous (drain h candidate)) (\<lambda>result.
             ex_bind (require (sr_stopped result)
               (Backend_Contract_Error ''Runtime backend did not verify predecessor drain.'')) (\<lambda>_.
             ex_return [sr_observed_state_digest result])))
         | _ \<Rightarrow> ex_return []) (\<lambda>evidence_digests.
       ex_bind (complete_phase operation PH_DRAIN_PREVIOUS evidence_digests fence) (\<lambda>_.
       ex_return fence))))"

subsection \<open>Diagnostics\<close>

text \<open>\<^verbatim>\<open>PurePosixPath(p).name\<close>: the last component, or nothing for a root.\<close>

definition path_name :: "string \<Rightarrow> string" where
  "path_name p = (let parts = posix_parts p in if parts = [] then [] else last parts)"

definition process_action :: "string list \<Rightarrow> string" where
  "process_action argv =
     (case argv of
        [] \<Rightarrow> ''external''
      | arg0 # rest \<Rightarrow>
          (let executable = path_name arg0 in
           if executable \<noteq> ''docker'' then (if executable \<noteq> [] then take 128 executable else ''external'')
           else if rest \<noteq> [] \<and> hd rest = ''compose'' then
             (case find (\<lambda>action. action \<in> set (tl rest))
                 [''up'', ''pull'', ''run'', ''exec'', ''down'', ''stop'', ''ps'', ''config''] of
                Some action \<Rightarrow> ''docker.compose.'' @ action
              | None \<Rightarrow> ''docker.compose'')
           else if rest \<noteq> [] \<and> hd rest \<in> {''pull'', ''run'', ''exec'', ''inspect'', ''create'', ''start'', ''stop'', ''rm''}
           then ''docker.'' @ hd rest
           else ''docker''))"

definition FAILURE_PATTERNS :: "(string \<times> string) list" where
  "FAILURE_PATTERNS =
     [(''failed to validate image signature'', ''image_signature_validation''),
      (''permission denied'', ''permission_denied''),
      (''no such file or directory'', ''missing_path''),
      (''no space left on device'', ''disk_full''),
      (''port is already allocated'', ''port_conflict''),
      (''address already in use'', ''port_conflict''),
      (''pull access denied'', ''registry_access_denied''),
      (''unauthorized'', ''registry_access_denied''),
      (''unhealthy'', ''workload_unhealthy''),
      (''invalid mount config'', ''invalid_mount'')]"

definition process_failure_code :: "string \<Rightarrow> string \<Rightarrow> string \<Rightarrow> string" where
  "process_failure_code stdout stderr exit_reason =
     (let detail = lower (stdout @ [chr 10] @ stderr) in
      case find (\<lambda>p. contains_sub (fst p) detail) FAILURE_PATTERNS of
        Some p \<Rightarrow> snd p
      | None \<Rightarrow>
          if exit_reason = ''timeout'' then ''process_timeout''
          else if exit_reason = ''cancelled'' then ''process_cancelled''
          else ''process_failed'')"

definition current_phase :: "string \<Rightarrow> (string, 'w) ex" where
  "current_phase operation_id =
     ex_bind (on_journal (events operation_id)) (\<lambda>es.
     ex_return (case find (\<lambda>e. starts_with ''phase.'' (ev_event_type e) \<and> ends_with ''.started'' (ev_event_type e)) (rev es) of
         Some e \<Rightarrow> take (length (ev_event_type e) - 14) (drop 6 (ev_event_type e))
       | None \<Rightarrow> ''unknown''))"

definition opt_int :: "int option \<Rightarrow> json" where
  "opt_int v = (case v of None \<Rightarrow> JNull | Some n \<Rightarrow> JInt n)"

definition failure_category :: "exec_error \<Rightarrow> string \<times> string" where
  "failure_category e = (case e of
      Phase_Failure _ _ _ \<Rightarrow> (''verification'', ''verification_failed'')
    | Execution_Deadline_Expired \<Rightarrow> (''execution_control'', ''deadline_expired'')
    | Backend_Contract_Error _ \<Rightarrow> (''backend_contract'', ''backend_contract_violation'')
    | OS_Error _ \<Rightarrow> (''operating_system'', ''os_error'')
    | _ \<Rightarrow> (''backend'', ''backend_error''))"

definition failure_diagnostic :: "'w executor \<Rightarrow> string \<Rightarrow> exec_error \<Rightarrow> (json, 'w) ex" where
  "failure_diagnostic cf operation_id e =
     ex_bind (case e of Phase_Failure phase _ _ \<Rightarrow> ex_return (ph_value phase) | _ \<Rightarrow> current_phase operation_id) (\<lambda>phase.
     (let head = [(''schema_version'', JInt 1), (''kind'', JStr ''ophelia.kernel.failure-diagnostic''),
            (''phase'', JStr phase), (''exception_type'', JStr (take 128 (xc_py_type cf e)))];
          stream = (\<lambda>name value. canonical_digest (VMap [(''stream'', VStr name), (''value'', VStr value)]))
      in ex_return (JObj (head @ (case e of
          Process_Failure r \<Rightarrow>
            [(''category'', JStr ''external_process''),
             (''code'', JStr (process_failure_code (pr_stdout r) (pr_stderr r) (pr_exit_reason r))),
             (''action'', JStr (process_action (pr_argv r))), (''exit_reason'', JStr (pr_exit_reason r)),
             (''exit_code'', opt_int (pr_exit_code r)),
             (''stdout_digest'', JStr (stream ''stdout'' (pr_stdout r))),
             (''stderr_digest'', JStr (stream ''stderr'' (pr_stderr r))),
             (''output_truncated'', JBool (pr_stdout_truncated r \<or> pr_stderr_truncated r))]
        | _ \<Rightarrow>
            (case e of OS_Error errno \<Rightarrow> [(''errno'', opt_int errno)] | _ \<Rightarrow> []) @
            [(''category'', JStr (fst (failure_category e))), (''code'', JStr (snd (failure_category e))),
             (''detail_digest'', JStr (canonical_digest (VMap
               [(''exception_type'', VStr (xc_py_type cf e)), (''detail'', VStr (xc_py_str cf e))])))])))))"

subsection \<open>Receipts\<close>

definition receipt_of ::
  "operation_ref \<Rightarrow> execution_input \<Rightarrow> active_revision option \<Rightarrow> string \<Rightarrow> string \<Rightarrow> string \<Rightarrow>
    string option \<Rightarrow> string option \<Rightarrow> verification_result \<Rightarrow> compensation_result \<Rightarrow> receipt_effect \<Rightarrow> receipt_outcome \<Rightarrow>
    terminal_receipt" where
  "receipt_of operation i previous hex started_at completed_at active_id active_digest verification compensation effect outcome =
     \<lparr>rc_receipt_id = ''receipt_'' @ hex, rc_operation_id = or_operation_id operation,
      rc_operation = pl_operation (ei_plan i), rc_plan_id = pl_plan_id (ei_plan i),
      rc_plan_digest = plan_digest (ei_plan i), rc_decision_id = ap_decision_id (ei_approved_plan i),
      rc_host_id = pl_host_id (ei_plan i), rc_app = pl_app (ei_plan i), rc_environment = pl_environment (ei_plan i),
      rc_previous_revision_id = map_option ar_revision_id previous,
      rc_desired_revision_id = rv_revision_id (ei_revision i), rc_desired_revision_digest = content_digest (ei_revision i),
      rc_active_revision_id = active_id, rc_active_revision_digest = active_digest,
      rc_artifact_digests = rv_artifact_digests (ei_revision i), rc_verification = verification,
      rc_compensation = compensation, rc_effect = effect, rc_outcome = outcome, rc_started_at = started_at,
      rc_completed_at = completed_at, rc_inputs_redacted = True\<rparr>"

definition NO_COMPENSATION :: compensation_result where
  "NO_COMPENSATION = \<lparr>cr_attempted = False, cr_status = CO_NOT_NEEDED, cr_restored_revision_id = None,
     cr_restored_revision_digest = None, cr_evidence_digests = []\<rparr>"

definition success_receipt ::
  "operation_ref \<Rightarrow> execution_input \<Rightarrow> active_revision option \<Rightarrow> verification_result \<Rightarrow> string \<Rightarrow> (terminal_receipt, 'w) ex" where
  "success_receipt operation i previous verification started_at =
     ex_bind executor_uuid (\<lambda>hex.
     ex_bind (sanitize_verification verification) (\<lambda>verification.
     ex_bind executor_utc_now (\<lambda>completed_at.
     (let r = receipt_of operation i previous hex started_at completed_at (Some (rv_revision_id (ei_revision i)))
            (Some (content_digest (ei_revision i))) verification NO_COMPENSATION RE_RUNTIME_ACTIVATED RO_SUCCEEDED
      in construct (terminal_receipt_check r) r))))"

subsection \<open>Compensation\<close>

definition construct_compensation :: "bool \<Rightarrow> compensation_status \<Rightarrow> active_revision option \<Rightarrow> string list \<Rightarrow> (compensation_result, 'w) ex" where
  "construct_compensation attempted status previous evidence =
     (let c = \<lparr>cr_attempted = attempted, cr_status = status, cr_restored_revision_id = map_option ar_revision_id previous,
        cr_restored_revision_digest = map_option ar_revision_digest previous, cr_evidence_digests = evidence\<rparr>
      in construct (compensation_result_check c) c)"

text \<open>
  The guarded part of \<^verbatim>\<open>_finish_interrupted\<close>. With a started switch, a predecessor and no started
  candidate \<^verbatim>\<open>result\<close> is unbound.
\<close>

definition restore_traffic ::
  "'w backend \<Rightarrow> runtime_handle \<Rightarrow> active_revision option \<Rightarrow> bool \<Rightarrow> bool \<Rightarrow> (string list, 'w) ex" where
  "restore_traffic backend candidate previous switch_started candidate_started =
     (case previous of
        Some p \<Rightarrow>
          if candidate_started then
            ex_bind (previous_handle backend p) (\<lambda>h.
            ex_bind (on_backend Op_Restore (bk_restore backend h candidate)) (\<lambda>result.
            ex_bind raise_if_failed (\<lambda>_.
            ex_bind (require (ta_active_revision_digest result = Some (ar_revision_digest p))
              (Backend_Contract_Error ''Compensation did not restore the exact predecessor.'')) (\<lambda>_.
            ex_return (ta_evidence_digests result)))))
          else if switch_started then ex_raise (Other_Error ''UnboundLocalError'')
          else ex_return []
      | None \<Rightarrow>
          if switch_started then
            ex_bind (on_backend Op_Deactivate (bk_deactivate backend candidate)) (\<lambda>result.
            ex_bind raise_if_failed (\<lambda>_.
            ex_bind (require (ta_active_revision_digest result = None)
              (Backend_Contract_Error ''Compensation did not verify an empty active state.'')) (\<lambda>_.
            ex_return (ta_evidence_digests result))))
          else ex_return [])"

definition remove_candidate :: "'w backend \<Rightarrow> runtime_handle \<Rightarrow> bool \<Rightarrow> (string list, 'w) ex" where
  "remove_candidate backend candidate cleanup_required =
     (if cleanup_required then
        ex_bind (on_backend Op_Remove (bk_remove backend candidate)) (\<lambda>removal.
        ex_bind raise_if_failed (\<lambda>_.
        ex_bind (require (rr_removed removal) (Backend_Contract_Error ''Candidate cleanup did not verify removal.'')) (\<lambda>_.
        ex_return [rr_observed_state_digest removal])))
      else ex_return [])"

definition compensate ::
  "'w backend \<Rightarrow> runtime_handle \<Rightarrow> active_revision option \<Rightarrow> bool \<Rightarrow> bool \<Rightarrow> bool \<Rightarrow> (compensation_result, 'w) ex" where
  "compensate backend candidate previous cancelled switch_started candidate_started =
     ex_bind (restore_traffic backend candidate previous switch_started candidate_started) (\<lambda>restored.
     ex_bind (remove_candidate backend candidate candidate_started) (\<lambda>removed.
     if \<not> switch_started \<and> \<not> candidate_started
     then construct_compensation (\<not> cancelled) (if cancelled then CO_NOT_NEEDED else CO_SUCCEEDED) previous []
     else construct_compensation True CO_SUCCEEDED previous (sorted_set (restored @ removed))))"

definition finish_interrupted ::
  "'w executor \<Rightarrow> operation_ref \<Rightarrow> execution_input \<Rightarrow> 'w backend \<Rightarrow> runtime_handle \<Rightarrow> active_revision option \<Rightarrow>
    execution_fence \<Rightarrow> string \<Rightarrow> bool \<Rightarrow> verification_result option \<Rightarrow> json option \<Rightarrow> (terminal_receipt, 'w) ex" where
  "finish_interrupted cf operation i backend candidate previous fence started_at cancelled verification diagnostic =
     ex_bind raise_if_failed (\<lambda>_.
     ex_bind (heartbeat cf fence) (\<lambda>fence.
     (let state = (if cancelled then OS_CANCELLING else OS_COMPENSATING); oid = or_operation_id operation in
     ex_bind (case diagnostic of
         None \<Rightarrow> ex_return ()
       | Some d \<Rightarrow> ex_bind (executor_event operation ''operation.failure_observed'' state fence [] (Some (json_dumps d)))
           (\<lambda>_. ex_return ())) (\<lambda>_.
     ex_bind (executor_event operation (if cancelled then ''operation.cancelling'' else ''operation.compensating'')
       state fence [] None) (\<lambda>_.
     ex_bind (ensure_revision_state oid RS_CREATED fence) (\<lambda>_.
     ex_bind (event_exists oid (phase_started PH_SWITCH_TRAFFIC)) (\<lambda>switch_started.
     ex_bind (event_exists oid (phase_started PH_START_CANDIDATE)) (\<lambda>candidate_started.
     ex_bind (ex_try (compensate backend candidate previous cancelled switch_started candidate_started) ex_return
       (\<lambda>_. construct_compensation True CO_FAILED None [])) (\<lambda>compensation.
     ex_bind raise_if_failed (\<lambda>_.
     ex_bind (ensure_revision_state oid RS_FAILED fence) (\<lambda>_.
     (let failed = cr_status compensation = CO_FAILED;
          outcome = (if failed then RO_FAILED_UNCOMPENSATED else if cancelled then RO_CANCELLED else RO_FAILED_COMPENSATED);
          active = (if failed then None else previous)
      in
     ex_bind executor_utc_now (\<lambda>completed_at.
     ex_bind executor_uuid (\<lambda>hex.
     ex_bind (case verification of Some v \<Rightarrow> ex_return v | None \<Rightarrow> not_run_verification completed_at) (\<lambda>v.
     (let r = receipt_of operation i previous hex started_at completed_at (map_option ar_revision_id active)
            (map_option ar_revision_digest active) v compensation RE_NONE outcome
      in
     ex_bind (construct (terminal_receipt_check r) r) (\<lambda>r.
     ex_bind raise_if_failed (\<lambda>_.
     ex_bind (on_journal (commit_receipt r (Some (fe_owner_id fence)) (Some (fe_fencing_token fence)))) (\<lambda>_.
     ex_return r)))))))))))))))))))"

subsection \<open>The pipeline\<close>

text \<open>
  The local variables of \<^verbatim>\<open>_run_fenced\<close> that its handlers read: an exception leaves them as the last
  completed assignment did.
\<close>

record locals =
  lv_candidate :: runtime_handle
  lv_verification :: "verification_result option"
  lv_fence :: execution_fence
  lv_receipt :: "terminal_receipt option"

fun run_steps :: "(locals \<Rightarrow> (locals, 'w) ex) list \<Rightarrow> locals \<Rightarrow> (locals \<times> exec_error option, 'w) ex" where
  "run_steps [] lv = ex_return (lv, None)"
| "run_steps (step # steps) lv = ex_try (step lv) (run_steps steps) (\<lambda>e. ex_return (lv, Some e))"

definition set_fence :: "locals \<Rightarrow> (execution_fence, 'w) ex \<Rightarrow> (locals, 'w) ex" where
  "set_fence lv m = ex_bind m (\<lambda>f. ex_return (lv\<lparr>lv_fence := f\<rparr>))"

definition set_verification :: "locals \<Rightarrow> (verification_result \<times> execution_fence, 'w) ex \<Rightarrow> (locals, 'w) ex" where
  "set_verification lv m = ex_bind m (\<lambda>(v, f). ex_return (lv\<lparr>lv_verification := Some v, lv_fence := f\<rparr>))"

definition no_change :: "locals \<Rightarrow> (unit, 'w) ex \<Rightarrow> (locals, 'w) ex" where
  "no_change lv m = ex_bind m (\<lambda>_. ex_return lv)"

definition pipeline ::
  "'w executor \<Rightarrow> operation_ref \<Rightarrow> execution_input \<Rightarrow> 'w backend \<Rightarrow> active_revision option \<Rightarrow> string \<Rightarrow>
    (locals \<Rightarrow> (locals, 'w) ex) list" where
  "pipeline cf operation i backend previous started_at =
     (let check = (\<lambda>lv. no_change lv raise_if_failed) in
     [\<lambda>lv. set_fence lv (phase_stage cf operation i backend (lv_fence lv)), check,
      \<lambda>lv. set_fence lv (phase_preflight cf operation i backend (lv_fence lv)), check,
      \<lambda>lv. ex_bind (phase_start_candidate cf operation i backend (lv_candidate lv) (lv_fence lv)) (\<lambda>(c, v, f).
        ex_return (lv\<lparr>lv_candidate := c, lv_verification := Some v, lv_fence := f\<rparr>)), check,
      \<lambda>lv. set_verification lv (phase_readiness cf operation i backend (lv_candidate lv) (lv_fence lv)), check,
      \<lambda>lv. set_fence lv (phase_switch_traffic cf operation i backend (lv_candidate lv) previous (lv_fence lv)), check,
      \<lambda>lv. set_verification lv (phase_external_verify cf operation i backend (lv_candidate lv) (lv_fence lv)), check,
      \<lambda>lv. set_fence lv (phase_drain_previous cf operation i backend (lv_candidate lv) previous (lv_fence lv)), check,
      \<lambda>lv. no_change lv (checkpoint_control (or_operation_id operation) i),
      \<lambda>lv. set_fence lv (heartbeat cf (lv_fence lv)), check,
      \<lambda>lv. no_change lv (ex_bind (executor_event operation (phase_started PH_COMMIT) OS_EXECUTING (lv_fence lv) [] None)
        (\<lambda>_. ex_return ())),
      \<lambda>lv. (case lv_verification lv of
          None \<Rightarrow> ex_raise (Other_Error ''AttributeError'')
        | Some v \<Rightarrow>
            ex_bind (success_receipt operation i previous v started_at) (\<lambda>r.
            ex_bind (on_journal (commit_success r (map_option ar_revision_digest previous) (lv_fence lv))) (\<lambda>_.
            ex_return (lv\<lparr>lv_receipt := Some r\<rparr>))))])"

text \<open>The \<^verbatim>\<open>except\<close> clauses of \<^verbatim>\<open>_run_fenced\<close>.\<close>

definition handle_raised ::
  "'w executor \<Rightarrow> operation_ref \<Rightarrow> execution_input \<Rightarrow> 'w backend \<Rightarrow> active_revision option \<Rightarrow> string \<Rightarrow> locals \<Rightarrow> exec_error \<Rightarrow>
    (terminal_receipt, 'w) ex" where
  "handle_raised cf operation i backend previous started_at lv e =
     (if is_lease_conflict e then ex_raise e
      else
        ex_bind raise_if_failed (\<lambda>_.
        if e = Cancellation_Requested then
          finish_interrupted cf operation i backend (lv_candidate lv) previous (lv_fence lv) started_at True
            (lv_verification lv) None
        else
          ex_bind (failure_diagnostic cf (or_operation_id operation) e) (\<lambda>d.
          finish_interrupted cf operation i backend (lv_candidate lv) previous (lv_fence lv) started_at False
            (case e of Phase_Failure _ v _ \<Rightarrow> v | _ \<Rightarrow> lv_verification lv) (Some d))))"

definition run_fenced ::
  "'w executor \<Rightarrow> operation_ref \<Rightarrow> execution_input \<Rightarrow> 'w backend \<Rightarrow> execution_fence \<Rightarrow> (terminal_receipt, 'w) ex" where
  "run_fenced cf operation i backend fence =
     ex_bind (on_journal (events (or_operation_id operation))) (\<lambda>es.
     ex_bind (if es \<noteq> [] then ex_return (ev_occurred_at (hd es)) else executor_utc_now) (\<lambda>started_at.
     ex_bind (on_journal (active_revision_read (pl_host_id (ei_plan i)) (pl_app (ei_plan i)) (pl_environment (ei_plan i)))) (\<lambda>previous.
     ex_bind (on_backend Op_Handle_For (bk_handle_for backend (ei_revision i))) (\<lambda>candidate.
     ex_bind (validate_handle i candidate) (\<lambda>_.
     if or_state operation \<in> {OS_COMPENSATING, OS_CANCELLING}
     then finish_interrupted cf operation i backend candidate previous fence started_at
       (or_state operation = OS_CANCELLING) None None
     else
       ex_bind (executor_event operation ''operation.executing'' OS_EXECUTING fence [] None) (\<lambda>_.
       ex_bind (ensure_revision_state (or_operation_id operation) RS_CREATED fence) (\<lambda>_.
       ex_bind (run_steps (pipeline cf operation i backend previous started_at)
         \<lparr>lv_candidate = candidate, lv_verification = None, lv_fence = fence, lv_receipt = None\<rparr>) (\<lambda>(lv, raised).
       (case raised of
          None \<Rightarrow> (case lv_receipt lv of Some r \<Rightarrow> ex_return r | None \<Rightarrow> ex_raise (Other_Error ''AttributeError''))
        | Some e \<Rightarrow> handle_raised cf operation i backend previous started_at lv e)))))))))"

subsection \<open>Entry points\<close>

definition existing_receipt :: "string \<Rightarrow> (terminal_receipt, 'w) ex \<Rightarrow> (terminal_receipt, 'w) ex" where
  "existing_receipt operation_id otherwise =
     ex_bind (on_journal (receipt operation_id)) (\<lambda>existing.
     case existing of Some r \<Rightarrow> ex_return r | None \<Rightarrow> otherwise)"

text \<open>The \<^verbatim>\<open>finally\<close> of \<^verbatim>\<open>run\<close>: the fence is released whatever happened; a stale fence is ignored.\<close>

definition releasing :: "execution_fence \<Rightarrow> ('a, 'w) ex \<Rightarrow> ('a, 'w) ex" where
  "releasing fence m s =
     (case m s of
        (r, t) \<Rightarrow> (case on_journal (release_fence fence) t of
            (Inl e, u) \<Rightarrow> if is_lease_conflict e then (r, u) else (Inl e, u)
          | (Inr _, u) \<Rightarrow> (r, u)))"

definition run_operation :: "'w executor \<Rightarrow> string \<Rightarrow> string \<Rightarrow> (terminal_receipt, 'w) ex" where
  "run_operation cf operation_id owner_id =
     existing_receipt operation_id
       (ex_try (on_journal (acquire_fence operation_id owner_id (xc_lease_ttl_seconds cf)))
         (\<lambda>fence. releasing fence (
           ex_bind (on_journal (get operation_id)) (\<lambda>operation.
           ex_bind (on_journal (load_execution_input operation_id)) (\<lambda>i.
           ex_bind (check_supported_plan i) (\<lambda>_.
           ex_bind (\<lambda>s. case xc_factory cf i operation fence (ex_world s) of (r, w) \<Rightarrow> (r, s\<lparr>ex_world := w\<rparr>)) (\<lambda>backend.
           run_fenced cf operation i backend fence))))))
         (\<lambda>e. if is_operation_conflict e then existing_receipt operation_id (ex_raise e) else ex_raise e))"

fun recover_each :: "'w executor \<Rightarrow> string \<Rightarrow> operation_ref list \<Rightarrow> (terminal_receipt list, 'w) ex" where
  "recover_each cf owner_id [] = ex_return []"
| "recover_each cf owner_id (operation # operations) =
     ex_bind (run_operation cf (or_operation_id operation) owner_id) (\<lambda>r.
     ex_bind (recover_each cf owner_id operations) (\<lambda>rs. ex_return (r # rs)))"

definition recover :: "'w executor \<Rightarrow> string \<Rightarrow> int \<Rightarrow> (terminal_receipt list, 'w) ex" where
  "recover cf owner_id limit =
     ex_bind (on_journal (list_recoverable limit)) (\<lambda>operations. recover_each cf owner_id operations)"

definition submit :: "actor \<Rightarrow> operation_request \<Rightarrow> approved_plan_ref \<Rightarrow> execution_input \<Rightarrow> (operation_ref, 'w) ex" where
  "submit actor request approval i =
     ex_bind (check_supported_plan i) (\<lambda>_. on_journal (accept actor request approval (Some i)))"

definition cancel :: "string \<Rightarrow> actor \<Rightarrow> (execution_control, 'w) ex" where
  "cancel operation_id actor = on_journal (request_cancellation operation_id actor)"

end
