(* ===== verification/Executor_Facts.thy ===== *)
theory Executor_Facts
  imports Executor History_Facts
begin

text \<open>
  What the executor guarantees whatever its backend does and whatever other users of the journal do
  in between: it never touches the runtime before the journal holds the evidence for it, it follows
  the order of the pipeline, and the receipt it returns is the receipt the journal stores.
\<close>

named_theorems keeps_intros \<open>what an executor action keeps\<close>

section \<open>Specifications of actions\<close>

text \<open>From \<open>P\<close>, a value leads to \<open>Q\<close> and an exception to \<open>X\<close>.\<close>

definition spec :: "('w exec \<Rightarrow> bool) \<Rightarrow> ('a, 'w) ex \<Rightarrow> ('a \<Rightarrow> 'w exec \<Rightarrow> bool) \<Rightarrow> ('w exec \<Rightarrow> bool) \<Rightarrow> bool" where
  "spec P m Q X \<longleftrightarrow> (\<forall>s. P s \<longrightarrow> (case m s of (Inr x, t) \<Rightarrow> Q x t | (Inl e, t) \<Rightarrow> X t))"

abbreviation keeps :: "('w exec \<Rightarrow> bool) \<Rightarrow> ('a, 'w) ex \<Rightarrow> bool" where
  "keeps P m \<equiv> spec P m (\<lambda>_. P) P"

lemma specD: "spec P m Q X \<Longrightarrow> P s \<Longrightarrow> m s = (Inr x, t) \<Longrightarrow> Q x t"
  and spec_errorD: "spec P m Q X \<Longrightarrow> P s \<Longrightarrow> m s = (Inl e, t) \<Longrightarrow> X t"
  by (simp_all add: spec_def) force+

lemma keepsD: "keeps P m \<Longrightarrow> P s \<Longrightarrow> m s = (r, t) \<Longrightarrow> P t"
  by (cases r) (auto dest: specD spec_errorD)

lemma spec_try:
  assumes "spec P m Q Y" "\<And>x. spec (Q x) (ok x) S X" "\<And>e. spec Y (h e) S X"
  shows "spec P (ex_try m ok h) S X"
  unfolding spec_def
proof (intro allI impI)
  fix s
  assume s: "P s"
  obtain r t where m: "m s = (r, t)" by (cases "m s")
  show "case ex_try m ok h s of (Inl e, t) \<Rightarrow> X t | (Inr x, t) \<Rightarrow> S x t"
  proof (cases r)
    case (Inl e)
    then have "Y t" using assms(1) s m by (auto dest: spec_errorD)
    then show ?thesis using assms(3) [of e] m Inl by (simp add: ex_try_def spec_def)
  next
    case (Inr x)
    then have "Q x t" using assms(1) s m by (auto dest: specD)
    then show ?thesis using assms(2) [of x] m Inr by (simp add: ex_try_def spec_def)
  qed
qed

lemma spec_raise: "(\<And>s. P s \<Longrightarrow> X s) \<Longrightarrow> spec P (ex_raise e) Q X"
  by (simp add: spec_def ex_raise_def)

lemma spec_return: "(\<And>s. P s \<Longrightarrow> Q x s) \<Longrightarrow> spec P (ex_return x) Q X"
  by (simp add: spec_def ex_return_def)

lemma spec_bind:
  assumes "spec P m Q X" "\<And>x. spec (Q x) (f x) S X"
  shows "spec P (ex_bind m f) S X"
  unfolding ex_bind_def by (rule spec_try [OF assms(1)]) (auto intro: assms spec_raise)

lemma spec_conseq:
  assumes "spec P m Q X" "\<And>s. P' s \<Longrightarrow> P s" "\<And>x s. Q x s \<Longrightarrow> Q' x s" "\<And>s. X s \<Longrightarrow> X' s"
  shows "spec P' m Q' X'"
  using assms unfolding spec_def by (fastforce split: prod.splits sum.splits)

lemma keeps_basic [keeps_intros]:
  "keeps P (ex_return x)" "keeps P (ex_raise e)" "keeps P (ex_lift r)" "keeps P (construct c x)" "keeps P (require b e)"
  by (auto simp: spec_def ex_return_def ex_raise_def ex_lift_def construct_def require_def split: sum.splits)

lemma keeps_bind [keeps_intros]: "keeps P m \<Longrightarrow> (\<And>x. keeps P (f x)) \<Longrightarrow> keeps P (ex_bind m f)"
  by (rule spec_bind)

lemma keeps_try [keeps_intros]:
  "keeps P m \<Longrightarrow> (\<And>x. keeps P (ok x)) \<Longrightarrow> (\<And>e. keeps P (h e)) \<Longrightarrow> keeps P (ex_try m ok h)"
  by (rule spec_try)

lemma keeps_cases [keeps_intros]:
  "keeps P m \<Longrightarrow> keeps P m' \<Longrightarrow> keeps P (if b then m else m')"
  "keeps P m \<Longrightarrow> (\<And>x. keeps P (f x)) \<Longrightarrow> keeps P (case v of None \<Rightarrow> m | Some x \<Rightarrow> f x)"
  "(\<And>x y. keeps P (g x y)) \<Longrightarrow> keeps P (case w of (x, y) \<Rightarrow> g x y)"
  by (auto split: option.splits prod.splits)

section \<open>Evolution of the journal\<close>

definition evolving :: "'a tx \<Rightarrow> bool" where
  "evolving m \<longleftrightarrow> (\<forall>s r s'. m s = (r, s') \<longrightarrow> evolves (jn_db s) (jn_db s'))"

lemma evolving_readonly: "readonly m \<Longrightarrow> evolving m"
  by (auto simp: evolving_def readonly_def hist.refl)

lemma evolving_frames: "frames evolves m \<Longrightarrow> atomic m \<Longrightarrow> evolving m"
  unfolding evolving_def
proof (intro allI impI)
  fix s r s'
  assume "frames evolves m" "atomic m" "m s = (r, s')"
  then show "evolves (jn_db s) (jn_db s')"
    using hist.refl by (cases r) (auto simp: atomic_def dest: framesD)
qed

lemma evolving_call: "call_ok c \<Longrightarrow> evolving (run_call c)"
  by (rule evolving_frames [OF calls_evolve atomic_run_call])

lemma evolving_returning: "evolving (returning m) \<Longrightarrow> evolving m"
proof -
  have "m s = (r, s') \<Longrightarrow> \<exists>r'. returning m s = (r', s')" for s r s'
    by (cases r) (auto simp: returning_def tx_bind_def tx_return_def)
  then show "evolving (returning m) \<Longrightarrow> evolving m" unfolding evolving_def by metis
qed

lemma evolves_interfere: "evolves (jn_db jn) (jn_db (interfere cs jn))"
proof (induction cs arbitrary: jn)
  case (Cons c cs)
  let ?jn = "if call_ok c then snd (run_call c jn) else jn"
  obtain r t where run: "run_call c jn = (r, t)" by (cases "run_call c jn")
  have "evolves (jn_db jn) (jn_db ?jn)"
    using evolving_call [of c] run hist.refl by (auto simp: evolving_def)
  moreover have "evolves (jn_db ?jn) (jn_db (interfere cs ?jn))" by (rule Cons)
  ultimately have "evolves (jn_db jn) (jn_db (interfere cs ?jn))" by (rule hist.trans)
  then show ?case by (simp add: interfere_def)
qed (simp add: interfere_def hist.refl)

lemma evolving_unit: "frames evolves (run_call c) \<Longrightarrow> run_call c = m \<Longrightarrow> evolving m"
  using evolving_frames atomic_run_call by blast

lemma evolving_value: "frames evolves (run_call c) \<Longrightarrow> run_call c = returning m \<Longrightarrow> evolving m"
  using evolving_frames [of "run_call c"] atomic_run_call [of c] evolving_returning [of m] by simp

lemma evolving_journal:
  "operation_event_check e = None \<Longrightarrow> evolving (append e ow tok)"
  "evolving (acquire_fence oid owner ttl)" "evolving (heartbeat_fence f ttl)" "evolving (release_fence f)"
  "evolving (append_revision_state oid st f)" "evolving (commit_receipt r ow tok)" "evolving (commit_success r d f)"
  by (rule evolving_unit [OF calls_evolve, of "Append e ow tok"], simp_all)
     (rule evolving_value [OF calls_evolve_unless, of "Acquire_Fence oid owner ttl"]
        evolving_value [OF calls_evolve_unless, of "Heartbeat_Fence f ttl"]
        evolving_unit [OF calls_evolve_unless, of "Release_Fence f"]
        evolving_value [OF calls_evolve_unless, of "Append_Revision_State oid st f"]
        evolving_unit [OF calls_evolve_unless, of "Commit_Receipt r ow tok"]
        evolving_value [OF calls_evolve_unless, of "Commit_Success r d f"], simp_all)+

section \<open>Journal first\<close>

definition has_event :: "string \<Rightarrow> string \<Rightarrow> database \<Rightarrow> bool" where
  "has_event oid event_type db \<longleftrightarrow> (\<exists>es. verified_events db oid = Inr es \<and> event_type \<in> ev_event_type ` set es)"

lemma has_event_evolves: "has_event oid ty db \<Longrightarrow> history_inv db \<Longrightarrow> evolves db db' \<Longrightarrow> has_event oid ty db'"
  unfolding has_event_def evolves_def grows_def by fastforce

text \<open>
  The evidence the journal must hold before the executor calls the backend. A call of a phase needs
  the event that announces the phase and the completions of all phases before it in the pipeline;
  only the observations that a resumed run repeats may find the completion of their own phase in
  place of its announcement. Compensation is announced too. \<^verbatim>\<open>handle_for\<close>, which only names the candidate
  and precedes the first event of a run, needs nothing.
\<close>

definition built_on :: "plan_phase \<Rightarrow> string set" where
  "built_on ph = phase_completed_type ` set (takeWhile (\<lambda>p. p \<noteq> ph) SUPPORTED_PHASES)"

definition announced :: "plan_phase \<Rightarrow> string set" where
  "announced ph = insert (phase_started ph) (built_on ph)"

definition resumed :: "plan_phase \<Rightarrow> string set" where
  "resumed ph = insert (phase_completed_type ph) (built_on ph)"

fun evidence :: "backend_op \<Rightarrow> string set set" where
  "evidence (Op_Preflight ph) = {announced ph}"
| "evidence Op_Start = {announced PH_START_CANDIDATE}"
| "evidence (Op_Inspect ph) = {announced ph, resumed ph}"
| "evidence (Op_Verify ph) = {announced ph, resumed ph}"
| "evidence Op_Activate = {announced PH_SWITCH_TRAFFIC}"
| "evidence (Op_Verify_Active ph) = {announced ph, resumed ph}"
| "evidence Op_Drain_Previous = {announced PH_DRAIN_PREVIOUS}"
| "evidence Op_Restore = {{''operation.compensating''}, {''operation.cancelling''}}"
| "evidence Op_Deactivate = {{''operation.compensating''}, {''operation.cancelling''}}"
| "evidence Op_Remove = {{''operation.compensating''}, {''operation.cancelling''}}"
| "evidence Op_Handle_For = {{}}"

lemma built_on_phases:
  "built_on PH_STAGE = {}" "built_on PH_PREFLIGHT = {phase_completed_type PH_STAGE}"
  "built_on PH_START_CANDIDATE = insert (phase_completed_type PH_PREFLIGHT) (built_on PH_PREFLIGHT)"
  "built_on PH_READINESS_VERIFY = insert (phase_completed_type PH_START_CANDIDATE) (built_on PH_START_CANDIDATE)"
  "built_on PH_SWITCH_TRAFFIC = insert (phase_completed_type PH_READINESS_VERIFY) (built_on PH_READINESS_VERIFY)"
  "built_on PH_EXTERNAL_VERIFY = insert (phase_completed_type PH_SWITCH_TRAFFIC) (built_on PH_SWITCH_TRAFFIC)"
  "built_on PH_DRAIN_PREVIOUS = insert (phase_completed_type PH_EXTERNAL_VERIFY) (built_on PH_EXTERNAL_VERIFY)"
  by (simp_all add: built_on_def SUPPORTED_PHASES_def insert_commute)

definition journaled :: "string \<Rightarrow> backend_op \<times> database \<Rightarrow> bool" where
  "journaled oid = (\<lambda>(op, db). \<exists>tys \<in> evidence op. \<forall>ty \<in> tys. has_event oid ty db)"

definition holds :: "string \<Rightarrow> string set \<Rightarrow> 'w exec \<Rightarrow> bool" where
  "holds oid E s \<longleftrightarrow> history_inv (jn_db (ex_jn s)) \<and> (\<forall>entry \<in> set (ex_log s). journaled oid entry) \<and>
     (\<forall>ty \<in> E. has_event oid ty (jn_db (ex_jn s)))"

lemma holds_mono: "holds oid E s \<Longrightarrow> E' \<subseteq> E \<Longrightarrow> holds oid E' s"
  by (auto simp: holds_def)

lemma holds_evolves:
  assumes "holds oid E s" "evolves (jn_db (ex_jn s)) (jn_db (ex_jn s'))" "ex_log s' = ex_log s"
  shows "holds oid E s'"
  using assms has_event_evolves by (auto simp: holds_def evolves_def)

lemma keeps_on_journal [keeps_intros]:
  assumes "evolving m"
  shows "keeps (holds oid E) (on_journal m :: ('a, 'w) ex)"
  unfolding spec_def
proof (intro allI impI)
  fix s :: "'w exec"
  assume s: "holds oid E s"
  let ?jn = "interfere (ex_env s (ex_access s)) (ex_jn s)"
  obtain r jn where m: "m ?jn = (r, jn)" by (cases "m ?jn")
  have "evolves (jn_db (ex_jn s)) (jn_db jn)"
  proof (rule hist.trans)
    show "evolves (jn_db (ex_jn s)) (jn_db ?jn)" by (rule evolves_interfere)
    show "evolves (jn_db ?jn) (jn_db jn)" using assms m unfolding evolving_def by blast
  qed
  then have "holds oid E (s\<lparr>ex_jn := jn, ex_access := ex_access s + 1\<rparr>)" by (intro holds_evolves [OF s]) simp_all
  then show "case on_journal m s of (Inl e, t) \<Rightarrow> holds oid E t | (Inr x, t) \<Rightarrow> holds oid E t"
    by (cases r) (simp_all add: on_journal_def m)
qed

lemma keeps_on_backend [keeps_intros]:
  assumes "\<exists>tys \<in> evidence op. tys \<subseteq> E"
  shows "keeps (holds oid E) (on_backend op f :: ('a, 'w) ex)"
  unfolding spec_def
proof (intro allI impI)
  fix s :: "'w exec"
  assume s: "holds oid E s"
  obtain r w where f: "f (ex_world s) = (r, w)" by (cases "f (ex_world s)")
  obtain tys where tys: "tys \<in> evidence op" "tys \<subseteq> E" using assms by (elim bexE)
  have "journaled oid (op, jn_db (ex_jn s))"
    unfolding journaled_def prod.case by (rule bexI [OF _ tys(1)]) (use s tys(2) in \<open>auto simp: holds_def\<close>)
  then have "holds oid E (s\<lparr>ex_world := w, ex_log := ex_log s @ [(op, jn_db (ex_jn s))]\<rparr>)" using s by (simp add: holds_def)
  then show "case on_backend op f s of (Inl e, t) \<Rightarrow> holds oid E t | (Inr x, t) \<Rightarrow> holds oid E t"
    by (cases r) (simp_all add: on_backend_def f)
qed

lemma keeps_local [keeps_intros]:
  "keeps (holds oid E) raise_if_failed" "keeps (holds oid E) executor_clock_sample" "keeps (holds oid E) executor_uuid"
  "keeps (holds oid E) executor_utc_now"
proof -
  show a: "keeps (holds oid E) raise_if_failed"
    by (auto simp: spec_def raise_if_failed_def holds_def Let_def split: option.splits)
  show b: "keeps (holds oid E) executor_clock_sample"
    by (auto simp: spec_def executor_clock_sample_def holds_def split: option.splits)
  show "keeps (holds oid E) executor_uuid" by (auto simp: spec_def executor_uuid_def holds_def)
  show "keeps (holds oid E) executor_utc_now" unfolding executor_utc_now_def by (intro keeps_intros b)
qed

lemma readonly_reads:
  "readonly (control oid)" "readonly (events oid)" "readonly (revision_history oid)" "readonly (load_execution_input oid)"
  "readonly (receipt oid)" "readonly (get oid)" "readonly (active_revision_read h a e)" "readonly (list_recoverable n)"
  by (auto simp: control_def events_def revision_history_def load_execution_input_def receipt_def get_def
      active_revision_read_def list_recoverable_def intro!: readonly_bind)

lemmas evolving_reads [keeps_intros] = readonly_reads [THEN evolving_readonly]
lemmas evolving_writes [keeps_intros] = evolving_journal(2-)

section \<open>Events of the executor\<close>

lemma readonly_assert_fence: "readonly (assert_fence oid ow tok)"
  by (auto simp: assert_fence_def intro!: readonly_bind split: option.splits)

lemma append_has_event:
  assumes inv: "history_inv (jn_db s)" and e: "operation_event_check e = None" and run: "append e ow tok s = (Inr u, s')"
    and ty: "scrub_text (ev_event_type e) = ev_event_type e"
  shows "has_event (ev_operation_id e) (ev_event_type e) (jn_db s')"
proof -
  obtain t where t: "assert_fence (ev_operation_id e) ow tok s = (Inr (), t)"
    and app: "append_event e (canonical_json (operation_event_val e)) False t = (Inr (), s')"
    using run by (auto simp: append_def tx_success)
  have db: "jn_db t = jn_db s" using readonly_assert_fence t unfolding readonly_def by blast
  obtain o' where o': "find_operation (ev_operation_id e) (jn_db t) = Some o'" "appendable e False o' (jn_db t)"
    "jn_db s' = add_event e (canonical_json (operation_event_val e)) (jn_db t)"
    using app by (elim append_event_success) simp
  obtain es where "verified_events (jn_db t) (ev_operation_id e) = Inr es"
    using inv o'(1) db by (auto simp: history_inv_def)
  then have "verified_events (jn_db s') (ev_operation_id e) = Inr (es @ [event_norm e])"
    using verified_append [OF e o'(1,2)] o'(3) by simp
  moreover have "ev_event_type (event_norm e) = ev_event_type e" using ty by (simp add: event_norm_def)
  ultimately show ?thesis by (auto simp: has_event_def)
qed

lemma on_journal_post:
  assumes "evolving m" "\<And>jn x jn'. history_inv (jn_db jn) \<Longrightarrow> m jn = (Inr x, jn') \<Longrightarrow> Q x (jn_db jn')"
  shows "spec (holds oid E) (on_journal m :: ('a, 'w) ex) (\<lambda>x s. holds oid E s \<and> Q x (jn_db (ex_jn s))) (holds oid E)"
  unfolding spec_def
proof (intro allI impI)
  fix s :: "'w exec"
  assume s: "holds oid E s"
  let ?jn = "interfere (ex_env s (ex_access s)) (ex_jn s)"
  obtain r jn where m: "m ?jn = (r, jn)" by (cases "m ?jn")
  have inv: "history_inv (jn_db ?jn)"
    using s evolves_interfere [of "ex_jn s" "ex_env s (ex_access s)"] by (auto simp: holds_def evolves_def)
  have "holds oid E (snd (on_journal m s))"
    using keepsD [OF keeps_on_journal [OF assms(1)] s] by (metis prod.collapse)
  then show "case on_journal m s of (Inl e, t) \<Rightarrow> holds oid E t | (Inr x, t) \<Rightarrow> holds oid E t \<and> Q x (jn_db (ex_jn t))"
    using assms(2) [OF inv] m by (cases r) (simp_all add: on_journal_def)
qed

lemma events_post:
  "spec (holds oid E) (on_journal (events oid) :: (operation_event list, 'w) ex)
     (\<lambda>es s. holds oid E s \<and> verified_events (jn_db (ex_jn s)) oid = Inr es) (holds oid E)"
proof (rule on_journal_post)
  show "evolving (events oid)" by (intro keeps_intros)
  show "verified_events (jn_db jn') oid = Inr x" if "events oid jn = (Inr x, jn')" for jn x jn'
    using that by (auto simp: events_def tx_read_def)
qed

lemma append_post:
  assumes "operation_event_check e = None" "scrub_text (ev_event_type e) = ev_event_type e" "ev_operation_id e = oid"
  shows "spec (holds oid E) (on_journal (append e ow tok) :: (unit, 'w) ex) (\<lambda>_. holds oid (insert (ev_event_type e) E)) (holds oid E)"
proof (rule spec_conseq)
  show "spec (holds oid E) (on_journal (append e ow tok) :: (unit, 'w) ex)
      (\<lambda>_ s. holds oid E s \<and> has_event oid (ev_event_type e) (jn_db (ex_jn s))) (holds oid E)"
    by (rule on_journal_post [OF evolving_journal(1) [OF assms(1)]]) (use append_has_event assms in metis)
qed (auto simp: holds_def)

lemma construct_spec: "(c = None \<Longrightarrow> spec P (f x) Q X) \<Longrightarrow> (\<And>s. P s \<Longrightarrow> X s) \<Longrightarrow> spec P (ex_bind (construct c x) f) Q X"
  by (cases c) (auto simp: spec_def ex_bind_def ex_try_def construct_def ex_lift_def guarded_def ex_raise_def)

lemma append_next_event_spec:
  assumes "scrub_text ty = ty"
  shows "spec (holds oid E) (append_next_event oid es ty st fence ds msg :: (operation_event, 'w) ex)
    (\<lambda>_. holds oid (insert ty E)) (holds oid E)"
proof -
  have "spec (holds oid E) (ex_bind (construct (operation_event_check e) e) (\<lambda>event.
      ex_bind (on_journal (append event (Some (fe_owner_id fence)) (Some (fe_fencing_token fence)))) (\<lambda>_. ex_return event)) ::
      (operation_event, 'w) ex) (\<lambda>_. holds oid (insert ty E)) (holds oid E)"
    if e: "e = next_event oid es i hex t ty st ds msg" for e i hex t
  proof (rule construct_spec)
    have f: "ev_event_type e = ty" "ev_operation_id e = oid" using e by (simp_all add: next_event_def)
    assume "operation_event_check e = None"
    then have "spec (holds oid E) (on_journal (append e (Some (fe_owner_id fence)) (Some (fe_fencing_token fence))) :: (unit, 'w) ex)
        (\<lambda>_. holds oid (insert ty E)) (holds oid E)"
      using append_post [of e oid E] assms by (simp add: f)
    then show "spec (holds oid E) (ex_bind (on_journal (append e (Some (fe_owner_id fence)) (Some (fe_fencing_token fence))))
        (\<lambda>_. ex_return e) :: (operation_event, 'w) ex) (\<lambda>_. holds oid (insert ty E)) (holds oid E)"
      by (rule spec_bind) (rule spec_return)
  qed simp
  then show ?thesis
    unfolding append_next_event_def Let_def by (intro spec_bind [OF keeps_on_journal] spec_bind [OF keeps_local(3)]
      spec_bind [OF keeps_local(4)] evolving_reads) simp_all
qed

lemma event_spec:
  assumes ty: "scrub_text ty = ty" and oid: "or_operation_id operation = oid"
  shows "spec (holds oid E) (executor_event operation ty st fence ds msg :: (operation_event, 'w) ex)
    (\<lambda>_. holds oid (insert ty E)) (holds oid E)"
  unfolding executor_event_def oid
proof (rule spec_bind [OF events_post])
  fix es
  let ?P = "\<lambda>s :: 'w exec. holds oid E s \<and> verified_events (jn_db (ex_jn s)) oid = Inr es"
  show "spec ?P (case filter (\<lambda>e. ev_event_type e = ty) es of
      ex # rest \<Rightarrow> if rest \<noteq> [] \<or> ev_state ex \<noteq> st
        then ex_raise (Backend_Contract_Error ''Durable executor event identity is inconsistent.'') else ex_return ex
    | [] \<Rightarrow> append_next_event oid es ty st fence ds msg) (\<lambda>_. holds oid (insert ty E)) (holds oid E)"
  proof (cases "filter (\<lambda>e. ev_event_type e = ty) es")
    case Nil
    show ?thesis unfolding Nil list.case by (rule spec_conseq [OF append_next_event_spec [OF ty]]) auto
  next
    case (Cons ex rest)
    then have "ty \<in> ev_event_type ` set es" by (metis (mono_tags, lifting) filter_eq_ConsD image_eqI in_set_conv_decomp)
    then show ?thesis unfolding Cons by (auto simp: spec_def ex_return_def ex_raise_def holds_def has_event_def)
  qed
qed

lemma keeps_event [keeps_intros]:
  assumes "scrub_text ty = ty" "or_operation_id operation = oid"
  shows "keeps (holds oid E) (executor_event operation ty st fence ds msg)"
  by (rule spec_conseq [OF event_spec [OF assms]]) (auto intro: holds_mono)

lemma event_exists_spec:
  "spec (holds oid E) (event_exists oid ty :: (bool, 'w) ex) (\<lambda>b. holds oid (if b then insert ty E else E)) (holds oid E)"
  unfolding event_exists_def
  by (rule spec_bind [OF events_post]) (rule spec_return, auto simp: holds_def has_event_def list_ex_iff)

lemma keeps_event_exists [keeps_intros]: "keeps (holds oid E) (event_exists oid ty)"
  by (rule spec_conseq [OF event_exists_spec]) (auto intro: holds_mono split: if_splits)

section \<open>Steps between the backend calls\<close>

lemma phase_types_plain [simp]:
  "scrub_text (phase_started ph) = phase_started ph" "scrub_text (phase_completed_type ph) = phase_completed_type ph"
  by (cases ph; simp add: phase_started_def phase_completed_type_def)+

lemma keeps_checkpoint [keeps_intros]: "keeps (holds oid E) (checkpoint_control x i)"
  unfolding checkpoint_control_def by (intro keeps_intros)

lemma keeps_heartbeat [keeps_intros]: "keeps (holds oid E) (heartbeat cf fence)"
  unfolding heartbeat_def by (intro keeps_intros)

lemma keeps_ensure [keeps_intros]: "keeps (holds oid E) (ensure_revision_state x st fence)"
  unfolding ensure_revision_state_def by (intro keeps_intros)

lemma keeps_verifications [keeps_intros]:
  "keeps (holds oid E) (sanitize_verification v)" "keeps (holds oid E) (preflight_verification pf)"
  "keeps (holds oid E) (not_run_verification t)" "keeps (holds oid E) (require_passed ph v)"
  "keeps (holds oid E) (validate_handle i h)" "keeps (holds oid E) (previous_handle backend p)"
  "keeps (holds oid E) (construct_compensation a st prev ds)"
  unfolding sanitize_verification_def preflight_verification_def not_run_verification_def require_passed_def
    validate_handle_def previous_handle_def construct_compensation_def Let_def
  by (intro keeps_intros)+

section \<open>Phases\<close>

text \<open>An action that may add evidence: from \<open>E\<close> it returns with \<open>F\<close>.\<close>

abbreviation leads :: "string \<Rightarrow> string set \<Rightarrow> ('a, 'w) ex \<Rightarrow> string set \<Rightarrow> bool" where
  "leads oid E m F \<equiv> spec (holds oid E) m (\<lambda>_. holds oid F) (holds oid {})"

lemma leads_keeps: "keeps (holds oid E) m \<Longrightarrow> leads oid E m E"
  by (erule spec_conseq) (auto intro: holds_mono)

lemma leads_sub: "leads oid E m F \<Longrightarrow> E \<subseteq> E' \<Longrightarrow> F' \<subseteq> F \<Longrightarrow> leads oid E' m F'"
  by (erule spec_conseq) (auto intro: holds_mono)

lemma leads_return: "F \<subseteq> E \<Longrightarrow> leads oid E (ex_return x) F"
  by (rule spec_return) (erule holds_mono)

lemma leads_raise: "leads oid E (ex_raise e) F"
  by (rule spec_raise) (auto intro: holds_mono)

lemma leads_event:
  "scrub_text ty = ty \<Longrightarrow> or_operation_id operation = oid \<Longrightarrow>
   leads oid E (executor_event operation ty st fence ds msg) (insert ty E)"
  by (rule spec_conseq [OF event_spec [where E = E]]) (auto intro: holds_mono)

lemma leads_before_phase:
  assumes "or_operation_id operation = oid"
  shows "leads oid E (before_phase cf operation i ph fence) (insert (phase_started ph) E)"
  unfolding before_phase_def
  by (intro spec_bind [OF leads_keeps [OF keeps_checkpoint]] spec_bind [OF leads_keeps [OF keeps_heartbeat]]
      spec_bind [OF leads_event [OF phase_types_plain(1) assms]] leads_return) simp

lemma leads_complete_phase:
  assumes "or_operation_id operation = oid"
  shows "leads oid E (complete_phase operation ph ds fence) (insert (phase_completed_type ph) E)"
  unfolding complete_phase_def
  by (intro spec_bind [OF leads_event [OF phase_types_plain(2) assms]] leads_return) simp

text \<open>A phase whose completion is journaled already is not repeated.\<close>

lemma leads_resume:
  assumes "spec (holds oid (insert (phase_completed_type ph) E)) m S (holds oid {})" "spec (holds oid E) m' S (holds oid {})"
  shows "spec (holds oid E) (ex_bind (phase_completed oid ph) (\<lambda>done_before. if done_before then m else m')) S (holds oid {})"
  unfolding phase_completed_def
proof (rule spec_bind)
  show "spec (holds oid E) (event_exists oid (phase_completed_type ph))
      (\<lambda>b. holds oid (if b then insert (phase_completed_type ph) E else E)) (holds oid {})"
    by (rule spec_conseq [OF event_exists_spec [where E = E]]) (auto intro: holds_mono)
  show "spec (holds oid (if b then insert (phase_completed_type ph) E else E)) (if b then m else m') S (holds oid {})" for b
    using assms by (cases b) simp_all
qed

lemma leads_resume_bind:
  assumes "leads oid (insert (phase_completed_type ph) E) m (insert (phase_completed_type ph) E)"
    "leads oid E m' (insert (phase_started ph) E)"
    "\<And>x. spec (holds oid (insert (phase_completed_type ph) E)) (g x) S (holds oid {})"
    "\<And>x. spec (holds oid (insert (phase_started ph) E)) (g x) S (holds oid {})"
  shows "spec (holds oid E) (ex_bind (phase_completed oid ph) (\<lambda>done_before. ex_bind (if done_before then m else m') g))
    S (holds oid {})"
proof -
  have "spec (holds oid E) (ex_bind (phase_completed oid ph) (\<lambda>done_before. if done_before then ex_bind m g else ex_bind m' g))
      S (holds oid {})"
    by (intro leads_resume spec_bind [OF assms(1)] spec_bind [OF assms(2)] assms(3,4))
  then show ?thesis by (simp add: if_distrib [of "\<lambda>m. ex_bind m g"] cong: if_cong)
qed

text \<open>One rule per action a phase is composed of.\<close>

lemmas leads_steps =
  keeps_ensure [THEN leads_keeps, THEN spec_bind] keeps_verifications [THEN leads_keeps, THEN spec_bind]
  keeps_on_backend [THEN leads_keeps, THEN spec_bind] keeps_heartbeat [THEN leads_keeps, THEN spec_bind]
  keeps_local [THEN leads_keeps, THEN spec_bind] keeps_checkpoint [THEN leads_keeps, THEN spec_bind]
  keeps_basic(4,5) [THEN leads_keeps, THEN spec_bind]
  leads_return leads_raise leads_resume leads_resume_bind
  leads_before_phase [THEN spec_bind] leads_complete_phase [THEN spec_bind]

lemma leads_guard: "spec (holds oid E) (g ()) S (holds oid {}) \<Longrightarrow> keeps (holds oid E) m \<Longrightarrow>
  spec (holds oid E) (ex_bind (if b then ex_return () else m) g) S (holds oid {})"
  by (rule spec_bind [where Q = "\<lambda>_. holds oid E"]) (auto intro: leads_keeps keeps_intros)

lemma leads_phase_checked:
  assumes "or_operation_id operation = oid" "built_on ph \<subseteq> E"
  shows "leads oid E (phase_checked cf ph st operation i backend fence) (insert (phase_completed_type ph) E)"
  unfolding phase_checked_def assms(1)
  by (intro leads_steps leads_guard keeps_intros assms(1)) (use assms(2) in \<open>auto simp: announced_def\<close>)

lemma leads_stage:
  assumes "or_operation_id operation = oid"
  shows "built_on PH_STAGE \<subseteq> E \<Longrightarrow>
      leads oid E (phase_stage cf operation i backend fence) (insert (phase_completed_type PH_STAGE) E)"
    "built_on PH_PREFLIGHT \<subseteq> E \<Longrightarrow>
      leads oid E (phase_preflight cf operation i backend fence) (insert (phase_completed_type PH_PREFLIGHT) E)"
  unfolding phase_stage_def phase_preflight_def by (rule leads_phase_checked [OF assms], assumption)+

lemma leads_switch_traffic:
  assumes "or_operation_id operation = oid" "built_on PH_SWITCH_TRAFFIC \<subseteq> E"
  shows "leads oid E (phase_switch_traffic cf operation i backend candidate previous fence) (insert (phase_completed_type PH_SWITCH_TRAFFIC) E)"
  unfolding phase_switch_traffic_def assms(1)
  by (intro leads_steps assms(1)) (use assms(2) in \<open>auto simp: announced_def\<close>)

lemma leads_pair: "(\<And>a b. spec P (g a b) S X) \<Longrightarrow> spec P (case x of (a, b) \<Rightarrow> g a b) S X"
  by (cases x) simp

lemma leads_start_candidate:
  assumes "or_operation_id operation = oid" "built_on PH_START_CANDIDATE \<subseteq> E"
  shows "leads oid E (phase_start_candidate cf operation i backend candidate fence) (insert (phase_completed_type PH_START_CANDIDATE) E)"
  unfolding phase_start_candidate_def assms(1)
  by (intro leads_steps leads_pair assms(1)) (use assms(2) in \<open>auto simp: announced_def resumed_def\<close>)

lemma leads_readiness:
  assumes "or_operation_id operation = oid" "built_on PH_READINESS_VERIFY \<subseteq> E"
  shows "leads oid E (phase_readiness cf operation i backend candidate fence) (insert (phase_completed_type PH_READINESS_VERIFY) E)"
  unfolding phase_readiness_def assms(1)
  by (intro leads_steps assms(1) leads_before_phase) (use assms(2) in \<open>auto simp: announced_def resumed_def\<close>)

lemma leads_external_verify:
  assumes "or_operation_id operation = oid" "built_on PH_EXTERNAL_VERIFY \<subseteq> E"
  shows "leads oid E (phase_external_verify cf operation i backend candidate fence) (insert (phase_completed_type PH_EXTERNAL_VERIFY) E)"
  unfolding phase_external_verify_def assms(1)
  by (intro leads_steps assms(1) leads_before_phase) (use assms(2) in \<open>auto simp: announced_def resumed_def\<close>)

lemma leads_drain_previous:
  assumes "or_operation_id operation = oid" "built_on PH_DRAIN_PREVIOUS \<subseteq> E"
  shows "leads oid E (phase_drain_previous cf operation i backend candidate previous fence) (insert (phase_completed_type PH_DRAIN_PREVIOUS) E)"
proof -
  let ?E = "insert (phase_started PH_DRAIN_PREVIOUS) E"
  have drain: "leads oid ?E (ex_bind (previous_handle backend p) (\<lambda>h.
      ex_bind (on_backend Op_Drain_Previous (drain h candidate)) (\<lambda>result.
      ex_bind (require (sr_stopped result) e) (\<lambda>_. ex_return [sr_observed_state_digest result])))) ?E" for p drain e
    by (intro leads_steps) (use assms(2) in \<open>auto simp: announced_def\<close>)
  have "leads oid ?E (case (previous, bk_drain_previous backend) of
      (Some p, Some drain) \<Rightarrow> ex_bind (previous_handle backend p) (\<lambda>h.
        ex_bind (on_backend Op_Drain_Previous (drain h candidate)) (\<lambda>result.
        ex_bind (require (sr_stopped result) e) (\<lambda>_. ex_return [sr_observed_state_digest result])))
    | _ \<Rightarrow> ex_return []) ?E" for e
    by (cases previous; cases "bk_drain_previous backend"; simp add: drain leads_return)
  note drained = this [THEN spec_bind]
  show ?thesis
    unfolding phase_drain_previous_def assms(1) by (intro leads_steps drained assms(1)) auto
qed

section \<open>The receipt\<close>

text \<open>The journal's receipt of the operation reads back as \<open>r\<close>, up to redaction.\<close>

definition stored :: "string \<Rightarrow> terminal_receipt \<Rightarrow> database \<Rightarrow> bool" where
  "stored oid r db \<longleftrightarrow> (\<exists>row. find_receipt oid db = Some row \<and>
     bind_res (loads (tr_payload_json row)) receipt_from_payload \<in> {Inr r, Inr (receipt_norm r)})"

lemma stored_evolves:
  assumes "stored oid r db" "history_inv db" "evolves db db'"
  shows "stored oid r db'"
proof -
  obtain row where row: "find_receipt oid db = Some row" using assms(1) by (auto simp: stored_def)
  then have "operation_exists oid db" using assms(2) by (auto simp: history_inv_def find_receipt_def dest: fetchone_Some)
  then obtain es where "verified_events db oid = Inr es" using assms(2) by (auto simp: history_inv_def operation_exists_find)
  then have "find_receipt oid db' = find_receipt oid db" using assms(2,3) row unfolding evolves_def grows_def by blast
  then show ?thesis using assms(1) by (simp add: stored_def)
qed

text \<open>A commit leaves the committed receipt, also when it finds it there already.\<close>

definition committed_as :: "terminal_receipt \<Rightarrow> database \<Rightarrow> bool" where
  "committed_as r db \<longleftrightarrow> (\<exists>row. find_receipt (rc_operation_id r) db = Some row \<and>
     tr_payload_json row = canonical_json (terminal_receipt_val r))"

lemma committed_stored: "committed_as r db \<Longrightarrow> stored_receipt_ok r \<Longrightarrow> stored (rc_operation_id r) r db"
  using receipt_codec.reads_back [of r] by (auto simp: committed_as_def stored_def)

lemma find_receipt_added:
  "find_receipt (rc_operation_id r) db = None \<Longrightarrow>
   committed_as r (add_receipt r (add_event e p db))"
  by (auto simp: committed_as_def find_receipt_def add_receipt_def receipts_add_event receipt_row_of_def fetchone_append)

lemma commit_tx_committed:
  assumes run: "commit_receipt_tx r (canonical_json (terminal_receipt_val r)) s = (Inr b, s')"
  shows "committed_as r (jn_db s')"
proof (cases "find_receipt (rc_operation_id r) (jn_db s)")
  case None
  obtain o' a p t where acc: "find_accepted (rc_operation_id r) (jn_db s) = Some (o', a, p)" and t: "jn_db t = jn_db s"
    and new: "commit_receipt_new r (canonical_json (terminal_receipt_val r)) o' a p t = (Inr b, s')"
    using run None by (auto simp: commit_receipt_tx_def tx_success split: option.splits)
  have "find_operation (rc_operation_id r) (jn_db t) = Some o'"
    using acc t by (auto simp: find_accepted_def split: option.splits)
  then obtain e where "jn_db s' = add_receipt r (add_event e (canonical_json (operation_event_val e)) (jn_db t))"
    by (rule commit_receipt_new_success [OF new]) (rule that)
  then show ?thesis using find_receipt_added None t by simp
next
  case (Some row)
  then show ?thesis using run by (auto simp: commit_receipt_tx_def tx_success committed_as_def split: if_splits)
qed

lemma commit_receipt_committed:
  assumes "commit_receipt r ow tok s = (Inr u, s')"
  shows "stored (rc_operation_id r) r (jn_db s')"
proof -
  have ok: "stored_receipt_ok r" and "\<exists>t b. commit_receipt_tx r (canonical_json (terminal_receipt_val r)) t = (Inr b, s')"
    using assms by (auto simp: commit_receipt_def tx_success revalidate_Inr)
  then show ?thesis using commit_tx_committed committed_stored by blast
qed

lemma insert_atomic_receipts: "insert_atomic row db = Inr db' \<Longrightarrow> committed_as r db' = committed_as r db"
  by (auto simp: insert_atomic_def guarded_def committed_as_def find_receipt_def split: option.splits)

lemma commit_success_committed:
  assumes "commit_success r expected fence s = (Inr active, s')"
  shows "stored (rc_operation_id r) r (jn_db s')"
proof -
  let ?json = "canonical_json (terminal_receipt_val r)"
  obtain t existing where ok: "stored_receipt_ok r" and existing: "find_receipt (rc_operation_id r) (jn_db t) = existing"
    and run: "(case existing of Some row \<Rightarrow> commit_success_existing r ?json row
      | None \<Rightarrow> commit_success_new r ?json expected fence) t = (Inr active, s')"
    using assms by (auto simp: commit_success_def tx_success revalidate_Inr)
  have "committed_as r (jn_db s')"
  proof (cases existing)
    case None
    then obtain u b v row where "commit_receipt_tx r ?json u = (Inr b, v)" "insert_atomic row (jn_db v) = Inr (jn_db s')"
      using run by (auto simp: commit_success_new_def tx_success)
    then show ?thesis using commit_tx_committed insert_atomic_receipts by blast
  next
    case (Some row)
    then have "tr_payload_json row = ?json" "jn_db s' = jn_db t"
      using run by (auto simp: commit_success_existing_def tx_success split: option.splits if_splits)
    then show ?thesis using existing Some by (simp add: committed_as_def)
  qed
  then show ?thesis using ok by (rule committed_stored)
qed

lemma receipt_read:
  assumes "receipt oid s = (Inr (Some r), s')"
  shows "stored oid r (jn_db s')"
  using assms by (auto simp: receipt_def tx_success stored_def wrap_integrity_def bind_res_Inr split: option.splits sum.splits)

section \<open>Compensation\<close>

lemma keeps_compensate:
  assumes "''operation.compensating'' \<in> E \<or> ''operation.cancelling'' \<in> E"
  shows "keeps (holds oid E) (compensate backend candidate previous cancelled switched started)"
  unfolding compensate_def restore_traffic_def remove_candidate_def by (intro keeps_intros) (use assms in simp_all)

text \<open>An action that ends with the stored receipt.\<close>

abbreviation receipted :: "string \<Rightarrow> terminal_receipt \<Rightarrow> 'w exec \<Rightarrow> bool" where
  "receipted oid r s \<equiv> holds oid {} s \<and> stored oid r (jn_db (ex_jn s))"

abbreviation finishes :: "string \<Rightarrow> string set \<Rightarrow> (terminal_receipt, 'w) ex \<Rightarrow> bool" where
  "finishes oid E m \<equiv> spec (holds oid E) m (receipted oid) (holds oid {})"

lemma receipt_of_id [simp]: "rc_operation_id (receipt_of operation i p h a b x y v c eff oc) = or_operation_id operation"
  by (simp add: receipt_of_def)

lemma finishes_commit:
  assumes "rc_operation_id r = oid"
  shows "finishes oid E (ex_bind (on_journal (commit_receipt r ow tok)) (\<lambda>_. ex_return r))"
proof (rule spec_bind)
  show "spec (holds oid E) (on_journal (commit_receipt r ow tok)) (\<lambda>_ s. holds oid E s \<and> stored oid r (jn_db (ex_jn s))) (holds oid {})"
    using commit_receipt_committed assms evolving_journal(6)
    by (intro spec_conseq [OF on_journal_post [where E = E]]) (auto intro: holds_mono)
qed (auto intro: spec_return holds_mono)

lemma finishes_interrupted:
  assumes oid: "or_operation_id operation = oid"
  shows "finishes oid E (finish_interrupted cf operation i backend candidate previous fence started_at cancelled verification diagnostic)"
proof -
  let ?ty = "if cancelled then ''operation.cancelling'' else ''operation.compensating''"
  have diag: "leads oid E (case diagnostic of None \<Rightarrow> ex_return ()
      | Some d \<Rightarrow> ex_bind (executor_event operation ''operation.failure_observed'' st f [] (Some (json_dumps d))) (\<lambda>_. ex_return ())) E"
    for st f
    by (rule leads_keeps) (intro keeps_intros oid, simp)
  have exists: "leads oid E (event_exists oid ty) E" for E ty by (rule leads_keeps [OF keeps_event_exists])
  have comp: "leads oid (insert ?ty E) (ex_try (compensate backend candidate previous cancelled a b) ex_return
      (\<lambda>_. construct_compensation True CO_FAILED None [])) (insert ?ty E)" for a b
    by (rule leads_keeps) (intro keeps_intros keeps_compensate, auto)
  have verif: "leads oid E (case verification of Some v \<Rightarrow> ex_return v | None \<Rightarrow> not_run_verification t) E" for E t
    by (rule leads_keeps) (intro keeps_intros)
  have event: "leads oid E (executor_event operation ?ty st f [] None) (insert ?ty E)" for st f
    by (rule leads_event) (simp_all add: oid)
  show ?thesis
    unfolding finish_interrupted_def Let_def oid
    by (intro leads_steps diag [THEN spec_bind] exists [THEN spec_bind] comp [THEN spec_bind] verif [THEN spec_bind]
        event [THEN spec_bind] construct_spec finishes_commit) (auto intro: holds_mono simp: oid)
qed

section \<open>The pipeline\<close>

definition settled :: "string \<Rightarrow> locals \<times> exec_error option \<Rightarrow> 'w exec \<Rightarrow> bool" where
  "settled oid = (\<lambda>(lv, raised) s. holds oid {} s \<and>
     (raised = None \<longrightarrow> (\<forall>r. lv_receipt lv = Some r \<longrightarrow> stored oid r (jn_db (ex_jn s)))))"

lemma steps_cons:
  assumes "leads oid E (step lv) F" "\<And>lv. spec (holds oid F) (run_steps steps lv) (settled oid) (holds oid {})"
  shows "spec (holds oid E) (run_steps (step # steps) lv) (settled oid) (holds oid {})"
  unfolding run_steps.simps
  by (rule spec_try [OF assms]) (rule spec_return, simp add: settled_def)

lemma steps_last:
  assumes "spec (holds oid E) (step lv) (\<lambda>lv s. settled oid (lv, None) s) (holds oid {})"
  shows "spec (holds oid E) (run_steps [step] lv) (settled oid) (holds oid {})"
  unfolding run_steps.simps by (rule spec_try [OF assms]) (rule spec_return, simp add: settled_def)+

lemma leads_locals:
  "leads oid E m F \<Longrightarrow> leads oid E (set_fence lv m) F" "leads oid E m' F \<Longrightarrow> leads oid E (set_verification lv m') F"
  "leads oid E m'' F \<Longrightarrow> leads oid E (no_change lv m'') F"
  unfolding set_fence_def set_verification_def no_change_def
  by (erule spec_bind, auto intro: leads_return split: prod.splits)+

lemma leads_check: "leads oid E (no_change lv raise_if_failed) E"
  by (rule leads_locals(3) [OF leads_keeps [OF keeps_local(1)]])

lemma steps_commit:
  assumes "or_operation_id operation = oid"
  shows "spec (holds oid E) (case lv_verification lv of
      None \<Rightarrow> ex_raise (Other_Error ''AttributeError'')
    | Some v \<Rightarrow>
        ex_bind (success_receipt operation i previous v started_at) (\<lambda>r.
        ex_bind (on_journal (commit_success r expected (lv_fence lv))) (\<lambda>_.
        ex_return (lv\<lparr>lv_receipt := Some r\<rparr>)))) (\<lambda>lv s. settled oid (lv, None) s) (holds oid {})"
proof -
  have commit: "spec (holds oid E) (ex_bind (on_journal (commit_success r expected f)) (\<lambda>_. ex_return (lv\<lparr>lv_receipt := Some r\<rparr>)))
      (\<lambda>lv s. settled oid (lv, None) s) (holds oid {})" if "rc_operation_id r = oid" for r f
  proof (rule spec_bind)
    show "spec (holds oid E) (on_journal (commit_success r expected f)) (\<lambda>_. receipted oid r) (holds oid {})"
      by (rule spec_conseq [OF on_journal_post [OF evolving_journal(7), where E = E and Q = "\<lambda>_. stored oid r"]])
         (use commit_success_committed that in \<open>auto intro: holds_mono\<close>)
  qed (auto intro: spec_return simp: settled_def)
  have made: "spec (holds oid E) (success_receipt operation i previous v started_at)
      (\<lambda>r s. holds oid E s \<and> rc_operation_id r = oid) (holds oid {})" for v
    unfolding success_receipt_def Let_def
    by (intro leads_steps) (auto simp: construct_def ex_lift_def guarded_def spec_def assms intro: holds_mono split: option.splits)
  have "spec (\<lambda>s. holds oid E s \<and> rc_operation_id r = oid) (ex_bind (on_journal (commit_success r expected f)) (\<lambda>_. ex_return (lv\<lparr>lv_receipt := Some r\<rparr>)))
      (\<lambda>lv s. settled oid (lv, None) s) (holds oid {})" for r f
    using commit [of r f] by (cases "rc_operation_id r = oid") (auto simp: spec_def)
  then show ?thesis by (cases "lv_verification lv") (auto intro: leads_raise spec_raise holds_mono spec_bind [OF made])
qed

lemma pipeline_settles:
  assumes oid: "or_operation_id operation = oid"
  shows "spec (holds oid {}) (run_steps (pipeline cf operation i backend previous started_at) lv) (settled oid) (holds oid {})"
proof -
  have start: "leads oid E (ex_bind (phase_start_candidate cf operation i backend c f) (\<lambda>(c, v, f).
      ex_return (lv\<lparr>lv_candidate := c, lv_verification := Some v, lv_fence := f\<rparr>))) (insert (phase_completed_type PH_START_CANDIDATE) E)"
    if "built_on PH_START_CANDIDATE \<subseteq> E" for E c f lv
    by (rule spec_bind [OF leads_start_candidate [OF oid that]]) (auto intro: leads_return split: prod.splits)
  have beat: "leads oid E (heartbeat cf f) E" for E f by (rule leads_keeps [OF keeps_heartbeat])
  have point: "leads oid E (checkpoint_control x i) E" for E x by (rule leads_keeps [OF keeps_checkpoint])
  have event: "leads oid E (ex_bind (executor_event operation (phase_started PH_COMMIT) OS_EXECUTING f [] None) (\<lambda>_. ex_return ()))
      (insert (phase_started PH_COMMIT) E)" for E f
    by (rule spec_bind [OF leads_event [OF phase_types_plain(1) oid]]) (rule leads_return, simp)
  show ?thesis
    unfolding pipeline_def Let_def
    by (rule steps_cons steps_last leads_check leads_locals leads_stage [OF oid] start leads_readiness [OF oid]
        leads_switch_traffic [OF oid] leads_external_verify [OF oid] leads_drain_previous [OF oid] beat point event
        steps_commit [OF oid] | simp add: built_on_phases)+
qed

section \<open>A run\<close>

lemma keeps_diagnostic [keeps_intros]: "keeps (holds oid E) (failure_diagnostic cf x e)"
  unfolding failure_diagnostic_def current_phase_def Let_def
  by (cases e) (simp, intro keeps_intros)+

lemma leads_read: "readonly m \<Longrightarrow> leads oid E (on_journal m) E"
  by (rule leads_keeps [OF keeps_on_journal [OF evolving_readonly]])

lemma finishes_raised:
  assumes "or_operation_id operation = oid"
  shows "finishes oid {} (handle_raised cf operation i backend previous started_at lv e)"
  unfolding handle_raised_def
  by (auto intro!: spec_raise leads_steps keeps_diagnostic [THEN leads_keeps, THEN spec_bind] finishes_interrupted [OF assms])

lemma finishes_pipeline:
  assumes "or_operation_id operation = oid"
  shows "finishes oid {} (ex_bind (run_steps (pipeline cf operation i backend previous started_at) lv) (\<lambda>(lv, raised).
      (case raised of
          None \<Rightarrow> (case lv_receipt lv of Some r \<Rightarrow> ex_return r | None \<Rightarrow> ex_raise e)
        | Some e \<Rightarrow> handle_raised cf operation i backend previous started_at lv e)))"
proof (rule spec_bind [OF pipeline_settles [OF assms]], clarify)
  fix lv raised
  have "spec (settled oid (lv, Some e)) (handle_raised cf operation i backend previous started_at lv e) (receipted oid) (holds oid {})" for e
    by (rule spec_conseq [OF finishes_raised [OF assms]]) (auto simp: settled_def)
  then show "spec (settled oid (lv, raised)) (case raised of
        None \<Rightarrow> (case lv_receipt lv of Some r \<Rightarrow> ex_return r | None \<Rightarrow> ex_raise e)
      | Some e \<Rightarrow> handle_raised cf operation i backend previous started_at lv e) (receipted oid) (holds oid {})"
    by (cases raised; cases "lv_receipt lv") (auto intro: spec_return spec_raise simp: settled_def)
qed

lemma spec_if: "spec P m S X \<Longrightarrow> spec P m' S X \<Longrightarrow> spec P (if b then m else m') S X"
  by simp

lemma finishes_fenced:
  assumes oid: "or_operation_id operation = oid"
  shows "finishes oid {} (run_fenced cf operation i backend fence)"
proof -
  have handle: "leads oid {} (on_backend Op_Handle_For f) {}" for f
    by (rule leads_keeps [OF keeps_on_backend]) simp
  have start: "leads oid {} (if b then ex_return t else executor_utc_now) {}" for b t
    by (rule leads_keeps) (intro keeps_intros)
  have event: "leads oid {} (executor_event operation ''operation.executing'' OS_EXECUTING fence [] None) {}"
    by (rule leads_keeps) (intro keeps_intros oid, simp)
  show ?thesis
    unfolding run_fenced_def oid
    by (rule leads_read [THEN spec_bind] readonly_reads start [THEN spec_bind] handle [THEN spec_bind] leads_steps
        event [THEN spec_bind] finishes_pipeline [OF oid] finishes_interrupted [OF oid] spec_if)+
qed

lemma keeps_receipted: "evolving m \<Longrightarrow> keeps (receipted oid r) (on_journal m :: ('a, 'w) ex)"
  unfolding spec_def
proof (intro allI impI)
  fix s :: "'w exec"
  assume m: "evolving m" and s: "receipted oid r s"
  let ?t = "snd (on_journal m s)"
  have "evolves (jn_db (ex_jn s)) (jn_db (ex_jn ?t))"
    using hist.trans [OF evolves_interfere] m by (fastforce simp: on_journal_def evolving_def split: prod.splits)
  then have "stored oid r (jn_db (ex_jn ?t))" using s stored_evolves by (auto simp: holds_def)
  moreover have "holds oid {} ?t" using keepsD [OF keeps_on_journal [OF m]] s by (metis prod.collapse)
  ultimately show "case on_journal m s of (Inl e, t) \<Rightarrow> receipted oid r t | (Inr x, t) \<Rightarrow> receipted oid r t"
    by (auto split: prod.splits sum.splits)
qed

lemma finishes_releasing:
  fixes m :: "(terminal_receipt, 'w) ex"
  assumes "finishes oid E m"
  shows "finishes oid E (releasing fence m)"
  unfolding spec_def
proof (intro allI impI)
  fix s :: "'w exec"
  assume s: "holds oid E s"
  obtain x t where m: "m s = (x, t)" by (cases "m s")
  obtain y u where rel: "on_journal (release_fence fence) t = (y, u)" by (cases "on_journal (release_fence fence) t")
  have held: "holds oid {} t \<Longrightarrow> holds oid {} u"
    using keepsD [OF keeps_on_journal [OF evolving_journal(4)]] rel by blast
  show "case releasing fence m s of (Inl e, t) \<Rightarrow> holds oid {} t | (Inr x, t) \<Rightarrow> receipted oid x t"
  proof (cases x)
    case (Inl e)
    then have "holds oid {} t" using assms s m by (auto dest: spec_errorD)
    then show ?thesis using held by (simp add: releasing_def m rel Inl split: sum.splits)
  next
    case (Inr r)
    then have "receipted oid r t" using assms s m by (auto dest: specD)
    then have "receipted oid r u" using keepsD [OF keeps_receipted [OF evolving_journal(4)]] rel by blast
    then show ?thesis by (simp add: releasing_def m rel Inr split: sum.splits)
  qed
qed

lemma finishes_existing:
  assumes "finishes oid E otherwise"
  shows "finishes oid E (existing_receipt oid otherwise)"
  unfolding existing_receipt_def
proof (rule spec_bind)
  show "spec (holds oid E) (on_journal (receipt oid))
      (\<lambda>x s. holds oid E s \<and> (\<forall>r. x = Some r \<longrightarrow> stored oid r (jn_db (ex_jn s)))) (holds oid {})"
    by (rule spec_conseq [OF on_journal_post [where E = E and Q = "\<lambda>x db. \<forall>r. x = Some r \<longrightarrow> stored oid r db"]])
       (use receipt_read in \<open>auto intro: holds_mono keeps_intros\<close>)
  show "spec (\<lambda>s. holds oid E s \<and> (\<forall>r. existing = Some r \<longrightarrow> stored oid r (jn_db (ex_jn s))))
      (case existing of None \<Rightarrow> otherwise | Some r \<Rightarrow> ex_return r) (receipted oid) (holds oid {})" for existing
    by (cases existing) (auto intro: spec_return holds_mono spec_conseq [OF assms])
qed

lemma get_identity: "get oid s = (Inr operation, s') \<Longrightarrow> or_operation_id operation = oid"
  by (auto simp: get_def tx_success bind_res_Inr operation_ref_of_def Let_def guarded_def find_operation_def split: option.splits
      dest!: fetchone_Some)

lemma finishes_run: "finishes oid {} (run_operation cf oid owner :: (terminal_receipt, 'w) ex)"
proof -
  have got: "spec (holds oid {}) (on_journal (get oid) :: (operation_ref, 'w) ex)
      (\<lambda>operation s. holds oid {} s \<and> or_operation_id operation = oid) (holds oid {})"
    by (rule on_journal_post) (auto intro: keeps_intros get_identity)
  have made: "leads oid {} (\<lambda>s. case f (ex_world s) of (r, w) \<Rightarrow> (r, s\<lparr>ex_world := w\<rparr>)) {}"
    for f :: "'w \<Rightarrow> (exec_error + 'a) \<times> 'w"
    by (auto simp: spec_def holds_def split: prod.splits sum.splits)
  have plan: "leads oid {} (check_supported_plan i) {}" for i
    unfolding check_supported_plan_def by (rule leads_keeps) (intro keeps_intros)
  have body: "spec (\<lambda>s. holds oid {} s \<and> or_operation_id operation = oid)
      (ex_bind (on_journal (load_execution_input oid)) (\<lambda>i.
       ex_bind (check_supported_plan i) (\<lambda>_.
       ex_bind (\<lambda>s. case xc_factory cf i operation fence (ex_world s) of (r, w) \<Rightarrow> (r, s\<lparr>ex_world := w\<rparr>)) (\<lambda>backend.
       run_fenced cf operation i backend fence)))) (receipted oid) (holds oid {})" for operation fence
  proof (cases "or_operation_id operation = oid")
    case True
    show ?thesis
      unfolding True simp_thms
      by (rule leads_read [THEN spec_bind] readonly_reads plan [THEN spec_bind] made [THEN spec_bind] finishes_fenced [OF True])+
  qed (simp add: spec_def)
  show ?thesis
    unfolding run_operation_def
    by (intro finishes_existing spec_try [OF leads_keeps [OF keeps_on_journal]] finishes_releasing evolving_journal
        spec_bind [OF got] body spec_if leads_raise) (auto intro: spec_raise)
qed

lemma run_holds:
  assumes "reachable (\<lambda>_. True) (ex_jn s)" "ex_log s = []"
  shows "holds oid {} s"
  using histories.holds [OF assms(1)] assms(2) by (simp add: holds_def)

text \<open>
  C4. Journal first: whatever the backend, the clock and the other users of the journal do, and
  however the run ends, each backend call of the run of an operation, except the naming of the
  candidate (\<^verbatim>\<open>handle_for\<close>, before the first event of the run), finds in the journal a verified event
  that announces it - the start of its phase, or the compensation or cancellation - and, for a call of
  a phase, the completions of all phases before it. An observation that a resumed run repeats may find
  the completion of its phase in place of the start.
\<close>

theorem journal_first:
  assumes "reachable (\<lambda>_. True) (ex_jn s)" "ex_log s = []"
  shows "list_all (journaled oid) (ex_log (snd (run_operation cf oid owner s)))"
proof -
  obtain result t where run: "run_operation cf oid owner s = (result, t)" by (cases "run_operation cf oid owner s")
  have "holds oid {} t"
    using finishes_run [of oid cf owner] run_holds [OF assms] run by (cases result) (auto dest: specD spec_errorD)
  then show ?thesis using run by (simp add: holds_def list_all_iff)
qed

text \<open>
  C5. The receipt a run returns is the receipt the journal stores for the operation, up to the
  redaction of its free text: reading the stored row back gives it.
\<close>

theorem returned_receipt_is_stored:
  assumes "reachable (\<lambda>_. True) (ex_jn s)" "ex_log s = []" "run_operation cf oid owner s = (Inr r, t)"
  shows "\<exists>row. find_receipt oid (jn_db (ex_jn t)) = Some row \<and>
    bind_res (loads (tr_payload_json row)) receipt_from_payload \<in> {Inr r, Inr (receipt_norm r)}"
  using specD [OF finishes_run run_holds [OF assms(1,2)] assms(3)] by (simp add: stored_def)

end
