(* ===== verification/Executor_Runs.thy ===== *)
theory Executor_Runs
  imports Executor_Facts Sample_Runs
begin

text \<open>
  The executor at a concrete journal: the sample operation, ended by a compensated failure receipt.
\<close>

section \<open>The finished journal\<close>

definition final_receipt :: terminal_receipt where
  "final_receipt = sample_failed_receipt ''operation_a''"

definition final_event :: operation_event where
  "final_event = terminal_event_of final_receipt ''aa'' OS_FAILED_COMPENSATED None"

definition finished_journal :: journal where
  "finished_journal = accepted_journal\<lparr>jn_ids := 2,
     jn_db := add_receipt final_receipt (add_event final_event (canonical_json (operation_event_val final_event)) (jn_db accepted_journal))\<rparr>"

lemma final_receipt_ok: "terminal_receipt_ok final_receipt" "stored_receipt_ok final_receipt"
proof -
  have id: "is_entity_id ''operation'' ''operation_a''" by code_simp
  show "terminal_receipt_ok final_receipt" unfolding final_receipt_def by (rule sample_failed_receipt_ok [OF id])
  then show "stored_receipt_ok final_receipt"
    by (auto simp: stored_receipt_ok_def terminal_receipt_ok_def final_receipt_def sample_failed_receipt_def sample_receipt_def
       stored_verification_ok_def sample_verification_def reject_verification_summary_prose_def)
qed

lemma final_weights:
  "weight (raw (terminal_receipt_val final_receipt)) \<le> 65536" "weight (raw (operation_event_val final_event)) \<le> 65536"
  by (simp_all add: terminal_receipt_val_def final_receipt_def sample_failed_receipt_def sample_receipt_def sample_verification_def
      verification_result_val_def verification_check_val_def compensation_result_val_def operation_event_val_def final_event_def
      terminal_event_of_def next_sequence_def vstrs_def members_def plain_keyD digest_lengths one_repr jopt_def)

lemma final_event_ok: "operation_event_check final_event = None"
proof -
  have id: "is_entity_id ''operation'' ''operation_a''" "is_entity_id ''event'' ''event_aa''" "is_text 128 ''operation.terminal''"
    by code_simp+
  then show ?thesis
    by (simp add: operation_event_check_def final_event_def terminal_event_of_def final_receipt_def sample_failed_receipt_def
        sample_receipt_def next_sequence_def)
qed

lemma final_fits:
  "length (canonical_json (terminal_receipt_val final_receipt)) \<le> 65536"
  "length (canonical_json (operation_event_val final_event)) \<le> 65536"
  using canonical_length [of "terminal_receipt_val final_receipt"] canonical_length [of "operation_event_val final_event"]
    final_weights by simp_all

lemma final_payloads:
  "bounded_json (terminal_receipt_val final_receipt) = Inr (canonical_json (terminal_receipt_val final_receipt))"
  "bounded_json (operation_event_val final_event) = Inr (canonical_json (operation_event_val final_event))"
  using final_fits by (simp_all add: MAX_CANONICAL_JSON_BYTES_def)

lemma accepted_journal_tables:
  "find_lease ''operation_a'' (jn_db accepted_journal) = None" "find_receipt ''operation_a'' (jn_db accepted_journal) = None"
  "db_operation_events (jn_db accepted_journal) = []" "db_host_events (jn_db accepted_journal) = []"
  "db_terminal_receipts (jn_db accepted_journal) = []"
  "find_accepted ''operation_a'' (jn_db accepted_journal) = Some (accepted_row, approval_row_of sample_approval, plan_row_of sample_approval)"
  by (simp_all add: accepted_journal_def accepted_db_def empty_database_def find_lease_def find_receipt_def find_accepted_def
      find_operation_def fetchone_def accepted_row_def operation_row_of_def approval_row_of_def plan_row_of_def)

lemma final_binds:
  "\<exists>claims. loads (pr_payload_json (plan_row_of sample_approval)) = Inr claims \<and>
     receipt_binds final_receipt accepted_row (approval_row_of sample_approval) (plan_row_of sample_approval) claims = Inr True"
proof -
  have c: "loads (pr_payload_json (plan_row_of sample_approval)) = Inr (json_canon (stored_plan sample_approval))"
    using loads_stored [OF stored_wf(2) serialize_plan_claims [OF sample_approval_ok]] by (simp add: plan_row_of_def)
  have get: "obj_get (json_canon (stored_plan a)) ''revision_digest'' = Inr (JStr (ap_revision_digest a))"
    "obj_get (json_canon (stored_plan a)) ''artifact_digests'' = Inr (JList (map JStr (ap_artifact_digests a)))" for a
    unfolding stored_plan_def by (simp_all add: obj_get_canon del: json_canon.simps(2) map_map) (simp add: comp_def)
  have "receipt_binds final_receipt accepted_row (approval_row_of sample_approval) (plan_row_of sample_approval)
      (json_canon (stored_plan sample_approval)) = Inr True"
    by (simp add: receipt_binds_def get accepted_row_def operation_row_of_def approval_row_of_def plan_row_of_def final_receipt_def
        sample_failed_receipt_def sample_receipt_def)
       (simp add: sample_approval_def sample_unbound_approval_def sample_request_def)
  with c show ?thesis by blast
qed

lemma final_commit: "commit_receipt final_receipt None None accepted_journal = (Inr (), finished_journal)"
proof -
  obtain claims where claims: "loads (pr_payload_json (plan_row_of sample_approval)) = Inr claims"
    "receipt_binds final_receipt accepted_row (approval_row_of sample_approval) (plan_row_of sample_approval) claims = Inr True"
    using final_binds by blast
  have id: "rc_operation_id final_receipt = ''operation_a''" "rc_outcome final_receipt = RO_FAILED_COMPENSATED"
    by (simp_all add: final_receipt_def sample_failed_receipt_def sample_receipt_def)
  have row: "op_state accepted_row = os_value OS_ACCEPTED" by (simp add: accepted_row_def operation_row_of_def)
  have state: "operation_state_of ''failed_compensated'' = Inr OS_FAILED_COMPENSATED"
    "operation_state_of (op_state accepted_row) = Inr OS_ACCEPTED"
    using os.enum_of_value [of OS_FAILED_COMPENSATED] os.enum_of_value [of OS_ACCEPTED]
    by (simp_all add: operation_state_of_def row)
  have ev: "terminal_event_of final_receipt ''aa'' OS_FAILED_COMPENSATED None = final_event" by (simp add: final_event_def)
  have same: "ev_operation_id final_event = ''operation_a''" "ev_state final_event = OS_FAILED_COMPENSATED"
    "ev_sequence final_event = 1" "ev_previous_event_digest final_event = None" "ev_event_id final_event = ''event_aa''"
    "ev_host_id final_event = op_host_id accepted_row" "ev_app final_event = op_app accepted_row"
    "ev_environment final_event = op_environment accepted_row" "ev_revision_id final_event = Some (op_revision_id accepted_row)"
    by (simp_all add: final_event_def terminal_event_of_def id next_sequence_def final_receipt_def sample_failed_receipt_def
        sample_receipt_def accepted_row_def operation_row_of_def sample_request_def)
  have journal: "jn_uuid accepted_journal (Suc 0) = ''aa''" "jn_ids accepted_journal = Suc 0"
    by (simp_all add: accepted_journal_def sample_journal_def)
  have revalid: "revalidate_receipt final_receipt = Inr final_receipt" using final_receipt_ok(2) by (simp add: revalidate_Inr)
  have no_rows: "event_rows ''operation_a'' (jn_db accepted_journal) = []" by (simp add: event_rows_def accepted_journal_tables)
  have exists: "operation_exists ''operation_a'' (jn_db accepted_journal)" using accepted_journal_row by (simp add: operation_exists_find)
  have exists': "operation_exists x (db\<lparr>db_operation_events := es\<rparr>) = operation_exists x db" for x db es
    by (simp add: operation_exists_def)
  have fence: "assert_fence ''operation_a'' None None accepted_journal = (Inr (), accepted_journal)"
    by (simp add: assert_fence_def tx_run accepted_journal_tables)
  have "append_event final_event (canonical_json (operation_event_val final_event)) True (accepted_journal\<lparr>jn_ids := 2\<rparr>) =
      (Inr (), accepted_journal\<lparr>jn_ids := 2, jn_db := add_event final_event (canonical_json (operation_event_val final_event)) (jn_db accepted_journal)\<rparr>)"
    using final_fits
    by (simp add: append_event_def tx_run check_run accepted_journal_row accepted_journal_tables same state no_rows exists exists'
        insert_event_def insert_host_event_def bounded_text_def add_event_def event_row_of_def host_row_of_def terminal_def last_row_def)
  then have "commit_receipt_tx final_receipt (canonical_json (terminal_receipt_val final_receipt)) accepted_journal =
      (Inr True, finished_journal)"
    using final_fits
    by (simp add: commit_receipt_tx_def commit_receipt_new_def tx_run check_run accepted_journal_tables id state claims
      no_rows journal ev Let_def final_event_ok final_payloads terminal_def last_row_def insert_receipt_def bounded_text_def
      receipts_add_event exists finished_journal_def add_receipt_def receipt_row_of_def numeral_2_eq_2)
  with fence show ?thesis
    by (simp add: commit_receipt_def revalid final_payloads tx_run id)
qed

lemma finished_journal_reachable: "reachable (\<lambda>_. True) finished_journal"
proof (rule reachable.step [OF accepted_journal_reachable, where c = "Commit_Receipt final_receipt None None"])
  show "run_call (Commit_Receipt final_receipt None None) accepted_journal = (Inr (), finished_journal)"
    by (simp add: final_commit)
qed (simp_all add: final_receipt_ok)

lemma finished_receipt: "receipt ''operation_a'' finished_journal = (Inr (Some (receipt_norm final_receipt)), finished_journal)"
proof -
  have id: "rc_operation_id final_receipt = ''operation_a''" by (simp add: final_receipt_def sample_failed_receipt_def sample_receipt_def)
  have "committed_as final_receipt (jn_db finished_journal)"
    unfolding finished_journal_def using accepted_journal_tables(2) id by (simp add: find_receipt_added)
  then obtain row where row: "find_receipt ''operation_a'' (jn_db finished_journal) = Some row"
    "tr_payload_json row = canonical_json (terminal_receipt_val final_receipt)" by (auto simp: committed_as_def id)
  have "operation_exists ''operation_a'' (jn_db finished_journal)"
    using accepted_journal_row by (simp add: finished_journal_def operation_exists_find find_operation_add_event)
  then obtain es where "verified_events (jn_db finished_journal) ''operation_a'' = Inr es"
    using histories.holds [OF finished_journal_reachable] by (auto simp: history_inv_def operation_exists_find)
  then show ?thesis
    using row receipt_codec.reads_back [OF final_receipt_ok(2)]
    by (auto simp: receipt_def tx_read_def wrap_integrity_def bind_res_Inr bind_res_def split: sum.splits)
qed

section \<open>Runs\<close>

definition sample_exec :: "journal \<Rightarrow> unit exec" where
  "sample_exec jn = \<lparr>ex_jn = jn, ex_world = (), ex_env = (\<lambda>_. []), ex_access = 0, ex_beats = (\<lambda>_. None), ex_beat = 0,
     ex_failure = None, ex_clock = (\<lambda>_. Some 1767225600), ex_tick = 0, ex_uuid = (\<lambda>n. replicate (Suc n) CHR ''a''), ex_ids = 0,
     ex_log = []\<rparr>"

text \<open>An executor whose backend cannot be built.\<close>

definition sample_executor :: "unit executor" where
  "sample_executor = \<lparr>xc_factory = (\<lambda>_ _ _ w. (Inl (Other_Error ''RuntimeError''), w)), xc_lease_ttl_seconds = 60,
     xc_heartbeat_interval = 20, xc_py_str = (\<lambda>_. []), xc_py_type = (\<lambda>_. ''RuntimeError'')\<rparr>"

theorem returned_receipt_is_stored_witness:
  "\<exists>r t. run_operation sample_executor ''operation_a'' ''worker'' (sample_exec finished_journal) = (Inr r, t) \<and>
     (\<exists>row. find_receipt ''operation_a'' (jn_db (ex_jn t)) = Some row \<and>
       bind_res (loads (tr_payload_json row)) receipt_from_payload \<in> {Inr r, Inr (receipt_norm r)})"
proof -
  obtain r t where run: "run_operation sample_executor ''operation_a'' ''worker'' (sample_exec finished_journal) = (Inr r, t)"
    by (simp add: run_operation_def existing_receipt_def ex_bind_def ex_try_def on_journal_def sample_exec_def interfere_def
        finished_receipt ex_return_def)
  have "reachable (\<lambda>_. True) (ex_jn (sample_exec finished_journal))" "ex_log (sample_exec finished_journal) = []"
    using finished_journal_reachable by (simp_all add: sample_exec_def)
  from returned_receipt_is_stored [OF this run] run show ?thesis by blast
qed

end
