(* ===== verification/Pipeline_Runs.thy ===== *)
theory Pipeline_Runs
  imports Executor_Runs Fence_Facts
begin

text \<open>
  The executor at work: the sample operation is accepted, its fence acquired, its execution announced,
  its revision created and its first phase started, before the backend is called and reports that it
  lost the lease.
\<close>

section \<open>The plan is supported\<close>

lemma sample_input_plain: "input_norm sample_input = sample_input"
proof -
  have "\<not> looks_like_secret_text ''operator''" "\<not> looks_like_secret_text ''v1''" "\<not> looks_like_secret_text ''staging/a/candidate''"
    by code_simp+
  then have "approval_norm sample_approval = sample_approval" "revision_norm sample_revision = sample_revision"
    "artifact_ref_norm sample_artifact = sample_artifact"
    by (simp_all add: approval_norm_def sample_approval_def sample_unbound_approval_def revision_norm_def sample_revision_def
        artifact_ref_norm_def sample_artifact_def scrub_text_safe)
  then show ?thesis by (simp add: input_norm_def sample_input_def sample_unbound_input_def)
qed

lemma sample_input_fields [simp]:
  "ei_plan sample_input = sample_plan" "ei_revision sample_input = sample_revision" "ei_artifact_ref sample_input = sample_artifact"
  "ei_approved_plan sample_input = sample_approval" "ei_deadline sample_input = ''2026-01-01T12:00:00Z''"
  by (simp_all add: sample_input_def sample_unbound_input_def)

lemma sample_supported: "validate_supported_plan sample_input = None"
proof -
  have effects: "sample_effect ph = expected_static_effect_digest ph (content_digest sample_revision) zero_digest" for ph
    by (simp add: sample_effect_def expected_static_effect_digest_def)
  have rev: "rv_workloads sample_revision = [sample_workload]" "rv_renderer_version sample_revision = ''v1''"
    "rv_artifact_digests sample_revision = [zero_digest]" by (simp_all add: sample_revision_def)
  have art: "ra_artifact_digest sample_artifact = zero_digest" "posix_parts (ra_relative_root sample_artifact) = [''staging'', ''a'', ''candidate'']"
    using sample_root by (simp_all add: sample_artifact_def)
  have steps: "pl_steps sample_plan = sample_steps" by (simp add: sample_plan_def)
  show ?thesis
    by (simp add: validate_supported_plan_def Let_def rev art steps contract_violation_def)
       (simp add: sample_steps_def sample_step_def SUPPORTED_PHASES_def SUPPORTED_STEPS_def required_steps_def rev effects sample_workload_def)
qed

section \<open>A live journal\<close>

definition event_id_of :: "nat \<Rightarrow> string" where
  "event_id_of n = ''event_'' @ replicate (Suc n) CHR ''a''"

definition live_fence :: execution_fence where
  "live_fence = sample_fence 1"

text \<open>
  The journal of the sample operation while the worker holds its fence, with the verified history
  \<open>es\<close>; \<open>fresh\<close> as long as the lifecycle of the revision has not started.
\<close>

definition live :: "bool \<Rightarrow> operation_event list \<Rightarrow> journal \<Rightarrow> bool" where
  "live fresh es s \<longleftrightarrow> reachable (\<lambda>_. True) s \<and> jn_clock s = (\<lambda>_. Some 1767225600) \<and>
     verified_events (jn_db s) ''operation_a'' = Inr es \<and>
     (\<exists>st. find_operation ''operation_a'' (jn_db s) = Some (accepted_row\<lparr>op_state := os_value st\<rparr>) \<and> \<not> terminal st) \<and>
     db_operation_leases (jn_db s) = db_operation_leases (jn_db (leased_journal 2 (Some ''worker'') 1 1767225660)) \<and>
     db_scope_leases (jn_db s) = db_scope_leases (jn_db (leased_journal 2 (Some ''worker'') 1 1767225660)) \<and>
     find_input ''operation_a'' (jn_db s) = Some (input_row_of ''operation_a'' sample_input) \<and>
     db_operation_controls (jn_db s) = [] \<and> db_active_revisions (jn_db s) = [] \<and>
     (\<forall>q \<in> set (db_operation_events (jn_db s)). oe_event_id q \<in> event_id_of ` {..<length es}) \<and>
     (\<forall>q \<in> set (db_host_events (jn_db s)). he_event_id q \<in> event_id_of ` {..<length es}) \<and>
     (fresh \<longrightarrow> db_revision_lifecycle (jn_db s) = [])"

lemma event_id_fresh: "event_id_of n \<notin> event_id_of ` {..<n}"
proof
  assume "event_id_of n \<in> event_id_of ` {..<n}"
  then obtain k where "k < n" "event_id_of n = event_id_of k" by blast
  then show False using arg_cong [of "event_id_of n" "event_id_of k" length] by (simp add: event_id_of_def)
qed

lemma live_lease:
  assumes "live fresh es s"
  shows "find_lease ''operation_a'' (jn_db s) = Some \<lparr>ls_operation_id = ''operation_a'', ls_owner_id = Some ''worker'',
      ls_fencing_token = 1, ls_expires_at = 1767225660\<rparr>"
    "find_scope_lease ''host_a'' ''demo'' ''prod'' (jn_db s) = Some \<lparr>sl_host_id = ''host_a'', sl_app = ''demo'', sl_environment = ''prod'',
      sl_operation_id = ''operation_a'', sl_owner_id = Some ''worker'', sl_fencing_token = 1, sl_expires_at = 1767225660\<rparr>"
    "execution_scope (jn_db s) ''operation_a'' = Inr (''host_a'', ''demo'', ''prod'')"
  using assms by (auto simp: live_def find_lease_def find_scope_lease_def execution_scope_def)

lemma live_input:
  assumes "live fresh es s"
  shows "load_execution_input_tx (jn_db s) ''operation_a'' = Inr sample_input"
proof -
  have "accepted_inv (jn_db s)" "find_input ''operation_a'' (jn_db s) = Some (input_row_of ''operation_a'' sample_input)"
    using assms accepted.holds by (auto simp: live_def)
  then obtain i where i: "execution_input_ok i" "input_row_of ''operation_a'' sample_input = input_row_of ''operation_a'' i"
    "load_execution_input_tx (jn_db s) ''operation_a'' = Inr (input_norm i)" by (rule load_accepted_input) blast
  have "canonical_json (execution_input_val i) = canonical_json (execution_input_val sample_input)"
    using i(2) by (simp add: input_row_of_def)
  then have "input_norm i = input_norm sample_input"
    using input_codec.reads_back [OF i(1)] input_codec.reads_back [OF sample_input_ok] by simp
  with i(3) sample_input_plain show ?thesis by simp
qed

definition idle_control :: execution_control where
  "idle_control = \<lparr>ec_operation_id = ''operation_a'', ec_deadline = Some ''2026-01-01T12:00:00Z'', ec_cancellation_requested = False,
     ec_cancellation_actor = None, ec_cancellation_requested_at = None\<rparr>"

text \<open>What the executor reads.\<close>

lemma live_reads:
  assumes "live fresh es s"
  shows "events ''operation_a'' s = (Inr es, s)" "load_execution_input ''operation_a'' s = (Inr sample_input, s)"
    "active_revision_read ''host_a'' ''demo'' ''prod'' s = (Inr None, s)"
    "fresh \<Longrightarrow> revision_history ''operation_a'' s = (Inr [], s)"
    "control ''operation_a'' s = (Inr idle_control, s)"
proof -
  show "events ''operation_a'' s = (Inr es, s)" "load_execution_input ''operation_a'' s = (Inr sample_input, s)"
    using assms live_input [OF assms] by (simp_all add: live_def events_def load_execution_input_def tx_read_def)
  show "active_revision_read ''host_a'' ''demo'' ''prod'' s = (Inr None, s)"
    using assms by (simp add: live_def active_revision_read_def tx_read_def find_active_def fetchone_def)
  show "revision_history ''operation_a'' s = (Inr [], s)" if fresh
    using assms that live_input [OF assms]
    by (simp add: live_def revision_history_def tx_read_def verified_revision_history_def lifecycle_rows_def)
  have "execution_control_check idle_control = None" using sample_operation_id by (simp add: execution_control_check_def idle_control_def)
  then have "control_tx (jn_db s) ''operation_a'' = Inr idle_control"
    using assms
    by (auto simp: live_def control_tx_def fetchone_def Let_def as_integrity_def input_row_of_def guarded_def check_run idle_control_def)
  then show "control ''operation_a'' s = (Inr idle_control, s)" by (simp add: control_def tx_read_def)
qed

section \<open>Writes keep the journal live\<close>

lemma live_fence_ok: "execution_fence_check live_fence = None"
  using fence_valid [of 1] by (simp add: live_fence_def)

lemma live_fence_fields [simp]:
  "fe_operation_id live_fence = ''operation_a''" "fe_owner_id live_fence = ''worker''" "fe_fencing_token live_fence = 1"
  by (simp_all add: live_fence_def sample_fence_def)

lemma heartbeat_live:
  assumes "live fresh es s"
  shows "\<exists>s'. heartbeat_fence live_fence 60 s = (Inr live_fence, s') \<and> live fresh es s'"
proof -
  let ?s = "s\<lparr>jn_tick := Suc (jn_tick s)\<rparr>"
  have "update_leases ''operation_a'' (\<lambda>r. r\<lparr>ls_expires_at := 1767225660\<rparr>) (jn_db s) = jn_db s"
    "update_scope_leases ''host_a'' ''demo'' ''prod'' (\<lambda>r. r\<lparr>sl_expires_at := 1767225660\<rparr>) (jn_db s) = jn_db s"
    using assms by (simp_all add: live_def update_leases_def update_scope_leases_def)
  then have run: "heartbeat_fence live_fence 60 s = (Inr live_fence, ?s)"
    using assms fence_valid [of 1] live_lease [OF assms]
    by (simp add: heartbeat_fence_def tx_run validate_lease_input_def check_run active_lease_def active_scope_lease_def
        execution_fence_of_def Let_def live_def live_fence_def sample_fence_def)
  have "reachable (\<lambda>_. True) ?s"
    using reachable.step [of "\<lambda>_. True" s "Heartbeat_Fence live_fence 60"] assms run live_fence_ok by (simp add: live_def returning_def tx_run)
  then have "live fresh es ?s" using assms by (simp add: live_def)
  with run show ?thesis by blast
qed

lemma append_event_runs:
  assumes o': "find_operation (ev_operation_id e) (jn_db s) = Some o'" and g: "appendable e False o' (jn_db s)"
    and fits: "length p \<le> 65536" and order: "\<forall>r \<in> set (event_rows (ev_operation_id e) (jn_db s)). oe_sequence r < ev_sequence e"
    and seq: "1 \<le> ev_sequence e"
  shows "append_event e p False s = (Inr (), s\<lparr>jn_db := add_event e p (jn_db s)\<rparr>)"
proof -
  obtain st where st: "op_state o' = os_value st" "\<not> terminal st" using g by (auto simp: appendable_def)
  have dec: "operation_state_of (os_value st) = Inr st" using os.enum_of_value [of st] by (simp add: operation_state_of_def)
  have exists: "operation_exists (ev_operation_id e) (jn_db s)" using o' by (simp add: operation_exists_find)
  have same: "operation_exists x (db\<lparr>db_operation_events := rows\<rparr>) = operation_exists x db" for x db rows by (simp add: operation_exists_def)
  have sequence: "ev_sequence e = (case last_row (event_rows (ev_operation_id e) (jn_db s)) of None \<Rightarrow> 1 | Some r \<Rightarrow> oe_sequence r + 1)"
    using g by (simp add: appendable_def next_sequence_def)
  have ins: "insert_event (event_row_of e p) (jn_db s) = Inr ((jn_db s)\<lparr>db_operation_events := db_operation_events (jn_db s) @ [event_row_of e p]\<rparr>)"
    using g fits exists seq order
    by (force simp: insert_event_def check_run bounded_text_def list_ex_iff event_row_of_def appendable_def set_event_rows guarded_def)
  have ins': "insert_host_event (host_row_of e p 0) ((jn_db s)\<lparr>db_operation_events := db_operation_events (jn_db s) @ [event_row_of e p]\<rparr>) =
      Inr ((jn_db s)\<lparr>db_operation_events := db_operation_events (jn_db s) @ [event_row_of e p],
        db_host_events := db_host_events (jn_db s) @ [host_row_of e p (db_sequence (jn_db s) + 1)],
        db_sequence := db_sequence (jn_db s) + 1\<rparr>)"
    using g fits exists
    by (simp add: insert_host_event_def check_run bounded_text_def list_ex_iff host_row_of_def appendable_def guarded_def same)
  show ?thesis
    using g ins ins'
    by (simp add: append_event_def tx_run check_run o' st dec sequence [symmetric] event_row_of_def host_row_of_def appendable_def
        add_event_def)
qed


text \<open>The events of the run.\<close>

definition run_event :: "operation_event list \<Rightarrow> string \<Rightarrow> operation_event" where
  "run_event es ty = next_event ''operation_a'' es sample_input (replicate (Suc (length es)) CHR ''a'') ''2026-01-01T00:00:00Z'' ty
     OS_EXECUTING [] None"

definition run_types :: "string list" where
  "run_types = [''operation.executing'', ''phase.stage.started'']"

lemma run_event_fields [simp]:
  "ev_operation_id (run_event es ty) = ''operation_a''" "ev_event_id (run_event es ty) = event_id_of (length es)"
  "ev_sequence (run_event es ty) = int (length es) + 1" "ev_state (run_event es ty) = OS_EXECUTING"
  "ev_event_type (run_event es ty) = ty"
  by (simp_all add: run_event_def next_event_def event_id_of_def)

lemma run_types_plain: "ty \<in> set run_types \<Longrightarrow> is_text 128 ty \<and> scrub_text ty = ty \<and> length ty \<le> 20"
proof -
  have "is_text 128 ''operation.executing''" "is_text 128 ''phase.stage.started''"
    "\<not> looks_like_secret_text ''operation.executing''" "\<not> looks_like_secret_text ''phase.stage.started''" by code_simp+
  then show "ty \<in> set run_types \<Longrightarrow> ?thesis" by (auto simp: run_types_def scrub_text_safe)
qed

lemma run_event_ok:
  assumes "ty \<in> set run_types" "length es \<le> 1"
  shows "operation_event_check (run_event es ty) = None"
proof -
  have "is_entity_id ''event'' ''event_a''" "is_entity_id ''event'' ''event_aa''" by code_simp+
  moreover have "length es = 0 \<or> length es = 1" using assms(2) by linarith
  ultimately have "is_entity_id ''event'' (event_id_of (length es))" by (auto simp: event_id_of_def)
  moreover have "rv_revision_id sample_revision = ''rev_a''" by (simp add: sample_revision_def)
  ultimately show ?thesis
    using sample_operation_id run_types_plain [OF assms(1)]
    by (simp add: operation_event_check_def) (simp add: run_event_def next_event_def sorted_set_def)
qed

lemma run_event_fits:
  assumes "ty \<in> set run_types" "length es \<le> 1"
  shows "bounded_json (operation_event_val (run_event es ty)) = Inr (canonical_json (operation_event_val (run_event es ty)))"
    "length (canonical_json (operation_event_val (run_event es ty))) \<le> 65536"
proof -
  have n: "length es = 0 \<or> length es = 1" using assms(2) by linarith
  have "weight (raw (operation_event_val (run_event es ty))) \<le> 65536"
    using run_types_plain [OF assms(1)] n
    by (auto simp: operation_event_val_def run_event_def next_event_def vstrs_def members_def plain_keyD digest_lengths one_repr jopt_def
        sorted_set_def sample_revision_def)
  then show "length (canonical_json (operation_event_val (run_event es ty))) \<le> 65536"
    using canonical_length [of "operation_event_val (run_event es ty)"] by simp
  then show "bounded_json (operation_event_val (run_event es ty)) = Inr (canonical_json (operation_event_val (run_event es ty)))"
    by (simp add: MAX_CANONICAL_JSON_BYTES_def)
qed


lemma live_asserts:
  assumes "live fresh es s"
  shows "assert_fence ''operation_a'' (Some ''worker'') (Some 1) s = (Inr (), s\<lparr>jn_tick := Suc (jn_tick s)\<rparr>)"
    "assert_execution_fence ''operation_a'' live_fence s = (Inr (), s\<lparr>jn_tick := Suc (jn_tick s)\<rparr>)"
proof -
  have clock: "jn_clock s = (\<lambda>_. Some 1767225600)" "find_input ''operation_a'' (jn_db s) = Some (input_row_of ''operation_a'' sample_input)"
    using assms by (simp_all add: live_def)
  show "assert_fence ''operation_a'' (Some ''worker'') (Some 1) s = (Inr (), s\<lparr>jn_tick := Suc (jn_tick s)\<rparr>)"
    using fence_valid [of 1] live_lease [OF assms]
    by (simp add: assert_fence_def tx_run clock check_run active_lease_def active_scope_lease_def execution_fence_of_def Let_def sample_fence_def)
  show "assert_execution_fence ''operation_a'' live_fence s = (Inr (), s\<lparr>jn_tick := Suc (jn_tick s)\<rparr>)"
    using live_lease [OF assms]
    by (simp add: assert_execution_fence_def tx_run clock check_run active_lease_def active_scope_lease_def)
qed

lemma live_appendable:
  assumes "live fresh es s"
  shows "\<exists>o'. find_operation ''operation_a'' (jn_db s) = Some o' \<and> appendable (run_event es ty) False o' (jn_db s)"
    "\<forall>r \<in> set (event_rows ''operation_a'' (jn_db s)). oe_sequence r < int (length es) + 1"
proof -
  obtain st where o': "find_operation ''operation_a'' (jn_db s) = Some (accepted_row\<lparr>op_state := os_value st\<rparr>)" "\<not> terminal st"
    using assms by (auto simp: live_def)
  have v: "verified_events (jn_db s) ''operation_a'' = Inr es" using assms by (simp add: live_def)
  obtain o'' where chain: "verify_event_chain o'' 1 None (event_rows ''operation_a'' (jn_db s)) = Inr es"
    using v by (elim verified_eventsE)
  note shape = chain_shape [OF chain]
  show "\<forall>r \<in> set (event_rows ''operation_a'' (jn_db s)). oe_sequence r < int (length es) + 1" using shape by auto
  have fields: "ev_host_id (run_event es ty) = ''host_a''" "ev_app (run_event es ty) = ''demo''" "ev_environment (run_event es ty) = ''prod''"
    "ev_revision_id (run_event es ty) = Some (op_revision_id accepted_row)"
    "ev_previous_event_digest (run_event es ty) = (if es = [] then None else Some (canonical_digest (operation_event_val (last es))))"
    by (simp_all add: run_event_def next_event_def accepted_row_def operation_row_of_def sample_request_def sample_revision_def)
  have new: "oe_event_id q \<noteq> event_id_of (length es)" if "q \<in> set (db_operation_events (jn_db s))" for q
    using that assms event_id_fresh by (metis live_def)
  have new': "he_event_id q \<noteq> event_id_of (length es)" if "q \<in> set (db_host_events (jn_db s))" for q
    using that assms event_id_fresh by (metis live_def)
  have "appendable (run_event es ty) False (accepted_row\<lparr>op_state := os_value st\<rparr>) (jn_db s)"
    unfolding appendable_def using o'(2) shape new new' by (auto simp: fields terminal_def chain_digest_def)
  with o'(1) show "\<exists>o'. find_operation ''operation_a'' (jn_db s) = Some o' \<and> appendable (run_event es ty) False o' (jn_db s)" by blast
qed

lemma append_live:
  assumes l: "live fresh es s" and ty: "ty \<in> set run_types" "length es \<le> 1"
  shows "\<exists>s'. append (run_event es ty) (Some ''worker'') (Some 1) s = (Inr (), s') \<and> live fresh (es @ [event_norm (run_event es ty)]) s'"
proof -
  let ?e = "run_event es ty" and ?s = "s\<lparr>jn_tick := Suc (jn_tick s)\<rparr>"
  let ?p = "canonical_json (operation_event_val ?e)"
  let ?t = "?s\<lparr>jn_db := add_event ?e ?p (jn_db s)\<rparr>"
  obtain o' where o': "find_operation ''operation_a'' (jn_db s) = Some o'" "appendable ?e False o' (jn_db s)"
    using live_appendable(1) [OF l] by blast
  note fits = run_event_fits [OF ty] and ok = run_event_ok [OF ty]
  have "append_event ?e ?p False ?s = (Inr (), ?t)"
    using append_event_runs [of ?e ?s o' ?p] o' fits(2) live_appendable(2) [OF l] by simp
  then have run: "append ?e (Some ''worker'') (Some 1) s = (Inr (), ?t)"
    by (simp add: append_def fits(1) live_asserts [OF l] tx_run)
  have v: "verified_events (add_event ?e ?p (jn_db s)) ''operation_a'' = Inr (es @ [event_norm ?e])"
    using verified_append [OF ok, of "jn_db s" o'] o' l by (simp add: live_def)
  have "reachable (\<lambda>_. True) ?t"
    using reachable.step [of "\<lambda>_. True" s "Append ?e (Some ''worker'') (Some 1)"] l run ok by (simp add: live_def)
  moreover have "\<exists>st. find_operation ''operation_a'' (add_event ?e ?p (jn_db s)) = Some (accepted_row\<lparr>op_state := os_value st\<rparr>) \<and> \<not> terminal st"
    by (rule exI [of _ OS_EXECUTING]) (use l in \<open>auto simp: find_operation_add_event live_def terminal_def\<close>)
  moreover have "db_operation_leases (jn_db ?t) = db_operation_leases (jn_db s)" "db_scope_leases (jn_db ?t) = db_scope_leases (jn_db s)"
    "find_input ''operation_a'' (jn_db ?t) = find_input ''operation_a'' (jn_db s)"
    "db_operation_controls (jn_db ?t) = db_operation_controls (jn_db s)" "db_active_revisions (jn_db ?t) = db_active_revisions (jn_db s)"
    "db_operation_events (jn_db ?t) = db_operation_events (jn_db s) @ [event_row_of ?e ?p]"
    "db_host_events (jn_db ?t) = db_host_events (jn_db s) @ [host_row_of ?e ?p (db_sequence (jn_db s) + 1)]"
    "db_revision_lifecycle (jn_db ?t) = db_revision_lifecycle (jn_db s)"
    by (simp_all add: add_event_def set_operation_state_def find_input_def)
  moreover have "event_id_of ` {..<Suc (length es)} = insert (event_id_of (length es)) (event_id_of ` {..<length es})"
    by (simp add: lessThan_Suc)
  ultimately have "live fresh (es @ [event_norm ?e]) ?t"
    using l v unfolding live_def by (simp add: event_row_of_def host_row_of_def)
  with run show ?thesis by blast
qed


definition created_entry :: revision_lifecycle_entry where
  "created_entry = \<lparr>le_operation_id = ''operation_a'', le_sequence = 1, le_revision_id = ''rev_a'',
     le_revision_digest = content_digest sample_revision, le_state = RS_CREATED, le_occurred_at = ''2026-01-01T00:00:00Z''\<rparr>"

definition created_row :: lifecycle_row where
  "created_row = \<lparr>lr_operation_id = ''operation_a'', lr_sequence = 1, lr_revision_id = ''rev_a'',
     lr_revision_digest = content_digest sample_revision, lr_state = ''created'', lr_occurred_at = ''2026-01-01T00:00:00Z'',
     lr_lease_owner = ''worker'', lr_fencing_token = 1, lr_payload_json = canonical_json (revision_lifecycle_entry_val created_entry)\<rparr>"

lemma created_entry_ok: "revision_lifecycle_entry_check created_entry = None"
  using sample_operation_id by (simp add: revision_lifecycle_entry_check_def created_entry_def)

lemma created_entry_fits:
  "bounded_json (revision_lifecycle_entry_val created_entry) = Inr (canonical_json (revision_lifecycle_entry_val created_entry))"
  "length (canonical_json (revision_lifecycle_entry_val created_entry)) \<le> 65536"
proof -
  have "weight (raw (revision_lifecycle_entry_val created_entry)) \<le> 65536"
    by (simp add: revision_lifecycle_entry_val_def created_entry_def members_def plain_keyD digest_lengths one_repr)
  then show "length (canonical_json (revision_lifecycle_entry_val created_entry)) \<le> 65536"
    using canonical_length [of "revision_lifecycle_entry_val created_entry"] by simp
  then show "bounded_json (revision_lifecycle_entry_val created_entry) = Inr (canonical_json (revision_lifecycle_entry_val created_entry))"
    by (simp add: MAX_CANONICAL_JSON_BYTES_def)
qed

lemma created_live:
  assumes l: "live True es s"
  shows "\<exists>s'. append_revision_state ''operation_a'' RS_CREATED live_fence s = (Inr created_entry, s') \<and> live False es s'"
proof -
  let ?t = "s\<lparr>jn_tick := Suc (Suc (jn_tick s)), jn_db := (jn_db s)\<lparr>db_revision_lifecycle := [created_row]\<rparr>\<rparr>"
  obtain st where o': "find_operation ''operation_a'' (jn_db s) = Some (accepted_row\<lparr>op_state := os_value st\<rparr>)" "\<not> terminal st"
    using l by (auto simp: live_def)
  have dec: "operation_state_of (os_value st) = Inr st" using os.enum_of_value [of st] by (simp add: operation_state_of_def)
  have clock: "jn_clock s = (\<lambda>_. Some 1767225600)" "db_revision_lifecycle (jn_db s) = []" using l by (simp_all add: live_def)
  have rev: "rv_revision_id sample_revision = ''rev_a''" by (simp add: sample_revision_def)
  have exists: "operation_exists ''operation_a'' (jn_db s)" using o'(1) by (simp add: operation_exists_find)
  have run: "append_revision_state ''operation_a'' RS_CREATED live_fence s = (Inr created_entry, ?t)"
    using created_entry_fits(2) exists
    by (simp add: created_entry_ok created_entry_fits(1) append_revision_state_def live_asserts [OF l] tx_run append_revision_state_tx_def o' dec check_run clock
        live_input [OF l] lifecycle_rows_def last_row_def next_lifecycle_sequence_def guarded_def sample_now Let_def rev
        insert_lifecycle_def bounded_text_def created_entry_def [symmetric] created_row_def)
  have same: "find_operation x (db\<lparr>db_revision_lifecycle := r\<rparr>) = find_operation x db" "find_input x (db\<lparr>db_revision_lifecycle := r\<rparr>) = find_input x db"
    "verified_events (db\<lparr>db_revision_lifecycle := r\<rparr>) x = verified_events db x" for x db r
    by (simp_all add: find_operation_def find_input_def verified_events_def find_accepted_def event_rows_def find_receipt_def cong: option.case_cong)
  have "reachable (\<lambda>_. True) ?t"
    using reachable.step [of "\<lambda>_. True" s "Append_Revision_State ''operation_a'' RS_CREATED live_fence"] l run live_fence_ok
    by (simp add: live_def returning_def tx_run)
  then have "live False es ?t" using l by (simp add: live_def same)
  with run show ?thesis by blast
qed


section \<open>The run\<close>

text \<open>From \<open>P\<close>, an action ends with \<open>r\<close> in \<open>Q\<close>.\<close>

definition runs :: "('w exec \<Rightarrow> bool) \<Rightarrow> ('a, 'w) ex \<Rightarrow> exec_error + 'a \<Rightarrow> ('w exec \<Rightarrow> bool) \<Rightarrow> bool" where
  "runs P m r Q \<longleftrightarrow> (\<forall>s. P s \<longrightarrow> (\<exists>t. m s = (r, t) \<and> Q t))"

lemma runs_bind: "runs P m (Inr x) Q \<Longrightarrow> runs Q (f x) r R \<Longrightarrow> runs P (ex_bind m f) r R"
  unfolding runs_def ex_bind_def ex_try_def by fastforce

lemma runs_bind_error: "runs P m (Inl e) Q \<Longrightarrow> runs P (ex_bind m f) (Inl e) Q"
  unfolding runs_def ex_bind_def ex_try_def ex_raise_def by fastforce

lemma runs_return: "runs P (ex_return x) (Inr x) P" "runs P (ex_raise e) (Inl e) P"
  by (simp_all add: runs_def ex_return_def ex_raise_def)

text \<open>
  The executor between two calls: nobody else uses the journal, the heartbeat has not failed, and the
  backend calls so far are \<open>ops\<close>.
\<close>

definition at_work :: "bool \<Rightarrow> operation_event list \<Rightarrow> nat \<Rightarrow> backend_op list \<Rightarrow> unit exec \<Rightarrow> bool" where
  "at_work fresh es n ops s \<longleftrightarrow> live fresh es (ex_jn s) \<and> ex_env s = (\<lambda>_. []) \<and> ex_beats s = (\<lambda>_. None) \<and> ex_failure s = None \<and>
     ex_clock s = (\<lambda>_. Some 1767225600) \<and> ex_uuid s = (\<lambda>n. replicate (Suc n) CHR ''a'') \<and> ex_ids s = n \<and>
     map fst (ex_log s) = ops"

lemma runs_journal:
  assumes "\<And>jn. live fresh es jn \<Longrightarrow> \<exists>jn'. m jn = (Inr x, jn') \<and> live fresh' es' jn'"
  shows "runs (at_work fresh es n ops) (on_journal m) (Inr x) (at_work fresh' es' n ops)"
  unfolding runs_def
proof (intro allI impI)
  fix s
  assume s: "at_work fresh es n ops s"
  then obtain jn' where "m (ex_jn s) = (Inr x, jn')" "live fresh' es' jn'" using assms by (auto simp: at_work_def)
  with s show "\<exists>t. on_journal m s = (Inr x, t) \<and> at_work fresh' es' n ops t"
    by (simp add: on_journal_def interfere_def at_work_def)
qed

lemma runs_reads:
  "runs (at_work fresh es n ops) (on_journal (events ''operation_a'')) (Inr es) (at_work fresh es n ops)"
  "runs (at_work fresh es n ops) (on_journal (load_execution_input ''operation_a'')) (Inr sample_input) (at_work fresh es n ops)"
  "runs (at_work fresh es n ops) (on_journal (active_revision_read ''host_a'' ''demo'' ''prod'')) (Inr None) (at_work fresh es n ops)"
  "runs (at_work True es n ops) (on_journal (revision_history ''operation_a'')) (Inr []) (at_work True es n ops)"
  "runs (at_work fresh es n ops) (on_journal (control ''operation_a'')) (Inr idle_control) (at_work fresh es n ops)"
  by (rule runs_journal; simp add: live_reads)+

lemma runs_local:
  "runs (at_work fresh es n ops) executor_utc_now (Inr ''2026-01-01T00:00:00Z'') (at_work fresh es n ops)"
  "runs (at_work fresh es n ops) executor_clock_sample (Inr 1767225600) (at_work fresh es n ops)"
  "runs (at_work fresh es n ops) (ex_lift (Inr x)) (Inr x) (at_work fresh es n ops)"
  "runs (at_work fresh es n ops) raise_if_failed (Inr ()) (at_work fresh es n ops)"
  "runs (at_work fresh es n ops) executor_uuid (Inr (replicate (Suc n) CHR ''a'')) (at_work fresh es (Suc n) ops)"
  by (simp_all add: runs_def executor_utc_now_def ex_bind_def ex_try_def executor_clock_sample_def ex_lift_def at_work_def sample_now
      raise_if_failed_def executor_uuid_def)

lemma runs_backend:
  "f () = (r, ()) \<Longrightarrow> runs (at_work fresh es n ops) (on_backend op f) r (at_work fresh es n (ops @ [op]))"
  by (simp add: runs_def on_backend_def at_work_def)


lemma runs_construct: "c = None \<Longrightarrow> runs P (construct c x) (Inr x) P"
  by (simp add: runs_def construct_def ex_lift_def guarded_def)

lemma runs_append:
  assumes "ty \<in> set run_types" "length es \<le> 1"
  shows "runs (at_work fresh es n ops) (on_journal (append (run_event es ty) (Some ''worker'') (Some 1))) (Inr ())
    (at_work fresh (es @ [event_norm (run_event es ty)]) n ops)"
  by (rule runs_journal) (use append_live assms in blast)

lemma sample_ref_id: "or_operation_id sample_ref = ''operation_a''"
  by (simp add: sample_ref_def)

lemma runs_event:
  assumes "ty \<in> set run_types" "length es \<le> 1" "n = length es" "\<forall>e \<in> set es. ev_event_type e \<noteq> ty"
  shows "runs (at_work fresh es n ops) (executor_event sample_ref ty OS_EXECUTING live_fence [] None) (Inr (run_event es ty))
    (at_work fresh (es @ [event_norm (run_event es ty)]) (Suc n) ops)"
proof -
  have none: "filter (\<lambda>e. ev_event_type e = ty) es = []" using assms(4) by (simp add: filter_empty_conv)
  have e: "next_event ''operation_a'' es sample_input (replicate (Suc n) CHR ''a'') ''2026-01-01T00:00:00Z'' ty OS_EXECUTING [] None = run_event es ty"
    using assms(3) by (simp add: run_event_def)
  have "runs (at_work fresh es n ops) (append_next_event ''operation_a'' es ty OS_EXECUTING live_fence [] None) (Inr (run_event es ty))
      (at_work fresh (es @ [event_norm (run_event es ty)]) (Suc n) ops)"
    unfolding append_next_event_def Let_def live_fence_fields
    apply (rule runs_bind [OF runs_reads(2)])
    apply (rule runs_bind [OF runs_local(5)])
    apply (rule runs_bind [OF runs_local(1)])
    unfolding e
    apply (rule runs_bind [OF runs_construct [OF run_event_ok [OF assms(1,2)]]])
    apply (rule runs_bind [OF runs_append [OF assms(1,2)]])
    apply (rule runs_return)
    done
  then show ?thesis
    unfolding executor_event_def sample_ref_id by (intro runs_bind [OF runs_reads(1)]) (simp add: none)
qed


lemma runs_created:
  "runs (at_work True es n ops) (ensure_revision_state ''operation_a'' RS_CREATED live_fence) (Inr ()) (at_work False es n ops)"
proof -
  have "runs (at_work True es n ops) (on_journal (append_revision_state ''operation_a'' RS_CREATED live_fence)) (Inr created_entry)
      (at_work False es n ops)"
    by (rule runs_journal) (rule created_live)
  then have "runs (at_work True es n ops) (ex_bind (on_journal (append_revision_state ''operation_a'' RS_CREATED live_fence)) (\<lambda>_. ex_return ()))
      (Inr ()) (at_work False es n ops)"
    by (rule runs_bind) (rule runs_return)
  then show ?thesis unfolding ensure_revision_state_def by (intro runs_bind [OF runs_reads(4)]) simp
qed

text \<open>A backend that names the candidate and has lost the lease when it is asked to check it.\<close>

definition lost :: exec_error where
  "lost = Raised (LeaseConflict ''The lease moved.'')"

definition sample_handle :: runtime_handle where
  "sample_handle = \<lparr>rh_backend = ''sample'', rh_handle_id = ''rev_a'', rh_revision_id = ''rev_a'',
     rh_revision_digest = content_digest sample_revision\<rparr>"

definition losing_backend :: "unit backend" where
  "losing_backend = \<lparr>backend_name = ''sample'', bk_preflight = (\<lambda>_ w. (Inl lost, w)), bk_start = (\<lambda>_ w. (Inl lost, w)),
     bk_handle_for = (\<lambda>_ w. (Inr sample_handle, w)), bk_inspect = (\<lambda>_ w. (Inl lost, w)), bk_verify = (\<lambda>_ _ w. (Inl lost, w)),
     bk_activate = (\<lambda>_ _ w. (Inl lost, w)), bk_verify_active = (\<lambda>_ _ w. (Inl lost, w)), bk_restore = (\<lambda>_ _ w. (Inl lost, w)),
     bk_deactivate = (\<lambda>_ w. (Inl lost, w)), bk_drain_previous = None, bk_remove = (\<lambda>_ w. (Inl lost, w))\<rparr>"

definition losing_executor :: "unit executor" where
  "losing_executor = \<lparr>xc_factory = (\<lambda>_ _ _ w. (Inr losing_backend, w)), xc_lease_ttl_seconds = 60,
     xc_heartbeat_interval = 20, xc_py_str = (\<lambda>_. []), xc_py_type = (\<lambda>_. ''LeaseConflict'')\<rparr>"

definition first_history :: "operation_event list" where
  "first_history = [event_norm (run_event [] ''operation.executing'')]"

definition second_history :: "operation_event list" where
  "second_history = first_history @ [event_norm (run_event first_history ''phase.stage.started'')]"

lemma run_event_type: "ty \<in> set run_types \<Longrightarrow> ev_event_type (event_norm (run_event es ty)) = ty"
  using run_types_plain by (simp add: event_norm_def)

lemma first_types: "list_ex (\<lambda>e. ev_event_type e = ty) first_history \<longleftrightarrow> ty = ''operation.executing''" "length first_history = 1"
  using run_event_type [of "''operation.executing''"] by (auto simp: first_history_def run_types_def)

lemma runs_checkpoint:
  "runs (at_work fresh es n ops) (checkpoint_control ''operation_a'' sample_input) (Inr ()) (at_work fresh es n ops)"
  using sample_now sample_instants
  unfolding checkpoint_control_def
  by (intro runs_bind [OF runs_reads(5)])
    (simp add: idle_control_def require_def runs_def ex_bind_def ex_try_def ex_return_def ex_lift_def executor_clock_sample_def at_work_def)

lemma runs_heartbeat:
  "runs (at_work fresh es n ops) (heartbeat losing_executor live_fence) (Inr live_fence) (at_work fresh es n ops)"
  unfolding heartbeat_def by (rule runs_journal) (simp add: losing_executor_def heartbeat_live)

lemma runs_stage:
  "runs (at_work False first_history 1 ops) (phase_stage losing_executor sample_ref sample_input losing_backend live_fence) (Inl lost)
     (at_work False second_history 2 (ops @ [Op_Preflight PH_STAGE]))"
proof -
  have completed: "runs (at_work False first_history 1 ops) (phase_completed ''operation_a'' PH_STAGE) (Inr False) (at_work False first_history 1 ops)"
    unfolding phase_completed_def event_exists_def
    by (rule runs_bind [OF runs_reads(1)]) (simp add: first_types phase_completed_type_def runs_return)
  have event: "runs (at_work False first_history 1 ops) (executor_event sample_ref (phase_started PH_STAGE) OS_EXECUTING live_fence [] None)
      (Inr (run_event first_history ''phase.stage.started'')) (at_work False second_history 2 ops)"
    using runs_event [of "''phase.stage.started''" first_history 1] first_types(1) [of "''phase.stage.started''"] first_types(2)
    by (simp add: phase_started_def second_history_def run_types_def numeral_2_eq_2 list_ex_iff)
  have before: "runs (at_work False first_history 1 ops) (before_phase losing_executor sample_ref sample_input PH_STAGE live_fence)
      (Inr live_fence) (at_work False second_history 2 ops)"
    unfolding before_phase_def sample_ref_id
    by (rule runs_bind [OF runs_checkpoint], rule runs_bind [OF runs_heartbeat], rule runs_bind [OF event], rule runs_return)
  have call: "runs (at_work False second_history 2 ops) (on_backend (Op_Preflight PH_STAGE) (bk_preflight losing_backend (ei_revision sample_input)))
      (Inl lost) (at_work False second_history 2 (ops @ [Op_Preflight PH_STAGE]))"
    by (rule runs_backend) (simp add: losing_backend_def)
  show ?thesis
    unfolding phase_stage_def phase_checked_def sample_ref_id
    by (rule runs_bind [OF completed]) (simp only: if_False, rule runs_bind [OF before], rule runs_bind_error [OF call])
qed


lemma runs_fenced:
  "runs (at_work True [] 0 []) (run_fenced losing_executor sample_ref sample_input losing_backend live_fence) (Inl lost)
     (at_work False second_history 2 [Op_Handle_For, Op_Preflight PH_STAGE])"
proof -
  have handle: "runs (at_work True [] 0 []) (on_backend Op_Handle_For (bk_handle_for losing_backend sample_revision)) (Inr sample_handle)
      (at_work True [] 0 [Op_Handle_For])"
    using runs_backend [of "bk_handle_for losing_backend sample_revision" _ True "[]" 0 "[]" Op_Handle_For] by (simp add: losing_backend_def)
  have valid: "runs P (validate_handle sample_input sample_handle) (Inr ()) P" for P :: "unit exec \<Rightarrow> bool"
    by (simp add: validate_handle_def require_def sample_handle_def sample_revision_def runs_return)
  have event: "runs (at_work True [] 0 ops) (executor_event sample_ref ''operation.executing'' OS_EXECUTING live_fence [] None)
      (Inr (run_event [] ''operation.executing'')) (at_work True first_history 1 ops)" for ops
    using runs_event [of "''operation.executing''" "[]" 0] by (simp add: first_history_def run_types_def)
  let ?lv = "\<lparr>lv_candidate = sample_handle, lv_verification = None, lv_fence = live_fence, lv_receipt = None\<rparr>"
  have steps: "runs (at_work False first_history 1 [Op_Handle_For])
      (run_steps (pipeline losing_executor sample_ref sample_input losing_backend None t) ?lv) (Inr (?lv, Some lost))
      (at_work False second_history 2 [Op_Handle_For, Op_Preflight PH_STAGE])" for t
    using runs_stage [of "[Op_Handle_For]"]
    by (auto simp: pipeline_def Let_def runs_def ex_try_def ex_bind_def set_fence_def ex_raise_def ex_return_def)
  have conflict: "handle_raised losing_executor sample_ref sample_input losing_backend None t ?lv lost = ex_raise lost" for t
    by (simp add: handle_raised_def is_lease_conflict_def lost_def)
  have state: "or_state sample_ref = OS_ACCEPTED" by (simp add: sample_ref_def)
  show ?thesis
    unfolding run_fenced_def sample_ref_id
    apply (rule runs_bind [OF runs_reads(1)])
    apply (simp only: simp_thms if_False)
    apply (rule runs_bind [OF runs_local(1)])
    apply (simp only: sample_input_fields sample_plan_fields)
    apply (rule runs_bind [OF runs_reads(3)])
    apply (rule runs_bind [OF handle])
    apply (rule runs_bind [OF valid])
    apply (simp add: state)
    apply (rule runs_bind [OF event])
    apply (rule runs_bind [OF runs_created])
    apply (rule runs_bind [OF steps])
    apply (simp add: conflict runs_return)
    done
qed


abbreviation first_lease :: journal where
  "first_lease \<equiv> leased_journal 2 (Some ''worker'') 1 1767225660"

lemma first_lease_live: "live True [] first_lease"
proof -
  have "reachable (\<lambda>_. True) first_lease"
    using reachable.step [OF accepted_journal_reachable, of "Acquire_Fence ''operation_a'' ''worker'' 60"] first_fence
    by (simp add: returning_def tx_run)
  moreover have "verified_events (jn_db first_lease) ''operation_a'' = Inr []"
  proof -
    have "verified_events (jn_db accepted_journal) ''operation_a'' = Inr []"
      using accepted_journal_events by (simp add: events_def tx_read_def split: sum.splits)
    then show ?thesis
      by (simp add: leased_journal_def verified_events_def find_accepted_def find_operation_def event_rows_def find_receipt_def
          cong: option.case_cong)
  qed
  moreover have "find_operation ''operation_a'' (jn_db first_lease) = Some (accepted_row\<lparr>op_state := os_value OS_ACCEPTED\<rparr>)"
    by (simp add: leased_row accepted_row_def operation_row_of_def)
  moreover have "find_input ''operation_a'' (jn_db first_lease) = Some (input_row_of ''operation_a'' sample_input)"
    "db_operation_controls (jn_db first_lease) = []" "db_active_revisions (jn_db first_lease) = []"
    "db_operation_events (jn_db first_lease) = []" "db_host_events (jn_db first_lease) = []" "db_revision_lifecycle (jn_db first_lease) = []"
    by (simp_all add: leased_journal_def accepted_journal_def accepted_db_def empty_database_def find_input_def fetchone_def input_row_of_def)
  ultimately show ?thesis
    using accepted_is_open(2) unfolding live_def by (intro conjI exI [of _ OS_ACCEPTED]) simp_all
qed

lemma releasing_log: "ex_log (snd (releasing f m s)) = ex_log (snd (m s))"
  by (auto simp: releasing_def on_journal_def split: prod.splits sum.splits)

lemma bind_value: "m s = (Inr x, t) \<Longrightarrow> ex_bind m f s = f x t"
  by (simp add: ex_bind_def ex_try_def)

lemma losing_run:
  "map fst (ex_log (snd (run_operation losing_executor ''operation_a'' ''worker'' (sample_exec accepted_journal)))) =
    [Op_Handle_For, Op_Preflight PH_STAGE]"
proof -
  let ?s = "sample_exec accepted_journal"
  let ?t = "?s\<lparr>ex_access := 3, ex_jn := first_lease\<rparr>"
  have read: "receipt ''operation_a'' accepted_journal = (Inr None, accepted_journal)"
    using accepted_journal_events accepted_journal_tables(2)
    by (simp add: receipt_def events_def tx_read_def split: sum.splits)
  have ref: "get ''operation_a'' first_lease = (Inr sample_ref, first_lease)"
    using sample_operation_id
    by (simp add: get_def tx_read_def leased_row accepted_is_open operation_ref_of_def operation_ref_check_def check_run guarded_def
        sample_ref_def accepted_row_def operation_row_of_def Let_def)
  have got: "on_journal (get ''operation_a'') (?s\<lparr>ex_access := 2, ex_jn := first_lease\<rparr>) = (Inr sample_ref, ?t)"
    by (simp add: on_journal_def sample_exec_def interfere_def ref)
  have start: "at_work True [] 0 [] ?t" using first_lease_live by (simp add: at_work_def sample_exec_def)
  have run: "runs (at_work True [] 0 []) (ex_bind (on_journal (load_execution_input ''operation_a'')) (\<lambda>i.
      ex_bind (check_supported_plan i) (\<lambda>_.
      ex_bind (\<lambda>s. case xc_factory losing_executor i sample_ref live_fence (ex_world s) of (r, w) \<Rightarrow> (r, s\<lparr>ex_world := w\<rparr>)) (\<lambda>backend.
      run_fenced losing_executor sample_ref i backend live_fence)))) (Inl lost) (at_work False second_history 2 [Op_Handle_For, Op_Preflight PH_STAGE])"
    (is "runs _ ?m _ _")
  proof -
    have supported: "runs P (check_supported_plan sample_input) (Inr ()) P" for P :: "unit exec \<Rightarrow> bool"
      by (simp add: check_supported_plan_def sample_supported runs_return)
    have factory: "runs (at_work True [] 0 []) (\<lambda>s. case xc_factory losing_executor sample_input sample_ref live_fence (ex_world s) of (r, w) \<Rightarrow> (r, s\<lparr>ex_world := w\<rparr>))
        (Inr losing_backend) (at_work True [] 0 [])"
      by (simp add: runs_def losing_executor_def at_work_def)
    show ?thesis
      by (rule runs_bind [OF runs_reads(2)], rule runs_bind [OF supported], rule runs_bind [OF factory], rule runs_fenced)
  qed
  obtain u where u: "?m ?t = (Inl lost, u)" "at_work False second_history 2 [Op_Handle_For, Op_Preflight PH_STAGE] u"
    using run [unfolded runs_def, rule_format, OF start] by (elim exE conjE)
  have "ex_log (snd (run_operation losing_executor ''operation_a'' ''worker'' ?s)) =
      ex_log (snd (releasing live_fence (ex_bind (on_journal (get ''operation_a'')) (\<lambda>operation.
         ex_bind (on_journal (load_execution_input ''operation_a'')) (\<lambda>i.
         ex_bind (check_supported_plan i) (\<lambda>_.
         ex_bind (\<lambda>s. case xc_factory losing_executor i operation live_fence (ex_world s) of (r, w) \<Rightarrow> (r, s\<lparr>ex_world := w\<rparr>)) (\<lambda>backend.
         run_fenced losing_executor operation i backend live_fence))))) (?s\<lparr>ex_access := 2, ex_jn := first_lease\<rparr>)))"
    using read first_fence
    by (simp add: run_operation_def existing_receipt_def ex_bind_def ex_try_def on_journal_def sample_exec_def interfere_def losing_executor_def
       numeral_2_eq_2 live_fence_def)
  also have "\<dots> = ex_log u"
    by (simp only: releasing_log bind_value [of "on_journal (get ''operation_a'')", OF got] u(1) snd_conv)
  finally show ?thesis using u(2) by (simp add: at_work_def)
qed

theorem journal_first_witness:
  "map fst (ex_log (snd (run_operation losing_executor ''operation_a'' ''worker'' (sample_exec accepted_journal)))) =
     [Op_Handle_For, Op_Preflight PH_STAGE] \<and>
   has_event ''operation_a'' ''phase.stage.started''
     (snd (last (ex_log (snd (run_operation losing_executor ''operation_a'' ''worker'' (sample_exec accepted_journal))))))"
proof -
  let ?log = "ex_log (snd (run_operation losing_executor ''operation_a'' ''worker'' (sample_exec accepted_journal)))"
  have "reachable (\<lambda>_. True) (ex_jn (sample_exec accepted_journal))" "ex_log (sample_exec accepted_journal) = []"
    using accepted_journal_reachable by (simp_all add: sample_exec_def)
  then have all: "list_all (journaled ''operation_a'') ?log" by (rule journal_first)
  obtain a b where log: "?log = [(Op_Handle_For, a), (Op_Preflight PH_STAGE, b)]" using losing_run by auto
  then have "journaled ''operation_a'' (Op_Preflight PH_STAGE, b)" using all by simp
  then have "has_event ''operation_a'' ''phase.stage.started'' b" by (simp add: journaled_def announced_def phase_started_def)
  with log show ?thesis by simp
qed

end
