(* ===== verification/Texts.thy ===== *)
theory Texts
  imports Redaction
begin

text \<open>
  Text as the cron, identifier and path validators see it: the characters 128 to 255 stand for the
  code points of Latin-1. Splitting and joining are inverse to each other on words without the separator.
\<close>

section \<open>Latin-1 text\<close>

text \<open>
  The characters 128 to 255 stand for the code points of Latin-1. \<^verbatim>\<open>str.isdigit\<close> holds for the
  superscripts two, three and one as well, which \<^verbatim>\<open>int\<close> refuses; \<^verbatim>\<open>int\<close> also refuses more than 4300
  digits.
\<close>

definition text_space :: "char \<Rightarrow> bool" where
  "text_space c \<longleftrightarrow> is_space c \<or> code c = 133 \<or> code c = 160"

definition text_digit :: "char \<Rightarrow> bool" where
  "text_digit c \<longleftrightarrow> is_digit c \<or> code c \<in> {178, 179, 185}"

definition text_isdigit :: "string \<Rightarrow> bool" where
  "text_isdigit s \<longleftrightarrow> s \<noteq> [] \<and> list_all text_digit s"

definition text_int :: "string \<Rightarrow> int res" where
  "text_int s = (if list_all is_digit s \<and> length s \<le> 4300 then Inr (int (digits_value s))
     else Inl (ValueError ''invalid literal for int() with base 10''))"

fun split_by :: "(char \<Rightarrow> bool) \<Rightarrow> string \<Rightarrow> string list" where
  "split_by p [] = [[]]"
| "split_by p (c # cs) =
     (if p c then [] # split_by p cs
      else (case split_by p cs of [] \<Rightarrow> [[c]] | w # ws \<Rightarrow> (c # w) # ws))"

definition text_split :: "string \<Rightarrow> string list" where
  "text_split s = filter (\<lambda>w. w \<noteq> []) (split_by text_space s)"

section \<open>Splitting and joining\<close>

lemma split_on_append: "d \<notin> set w \<Longrightarrow> split_on d (w @ d # rest) = w # split_on d rest"
  by (induction w) auto

lemma split_on_single: "d \<notin> set w \<Longrightarrow> split_on d w = [w]"
  by (induction w) auto

lemma split_on_join: "ws \<noteq> [] \<Longrightarrow> \<forall>w \<in> set ws. d \<notin> set w \<Longrightarrow> split_on d (join [d] ws) = ws"
  by (induction ws rule: induct_list012) (auto simp: split_on_single split_on_append)

lemma split_by_append: "list_all (\<lambda>c. \<not> p c) w \<Longrightarrow> p d \<Longrightarrow> split_by p (w @ d # rest) = w # split_by p rest"
  by (induction w) auto

lemma split_by_single: "list_all (\<lambda>c. \<not> p c) w \<Longrightarrow> split_by p w = [w]"
  by (induction w) auto

lemma split_by_join: "ws \<noteq> [] \<Longrightarrow> \<forall>w \<in> set ws. list_all (\<lambda>c. \<not> p c) w \<Longrightarrow> p d \<Longrightarrow> split_by p (join [d] ws) = ws"
  by (induction ws rule: induct_list012) (auto simp: split_by_single split_by_append)

lemma split_first_none: "d \<notin> set w \<Longrightarrow> split_first d w = (w, None)"
  by (induction w) auto

lemma join_split_on: "join [d] (split_on d s) = s"
proof (induction s)
  case (Cons c s)
  then show ?case by (cases "split_on d s"; cases "tl (split_on d s)") auto
qed simp

lemma split_on_words: "w \<in> set (split_on d s) \<Longrightarrow> d \<notin> set w"
proof (induction s arbitrary: w)
  case (Cons c s)
  then show ?case by (cases "split_on d s") (auto split: if_splits)
qed simp

lemma join_Cons_concat: "join [d] (w # ws) = w @ concat (map ((#) d) ws)"
  by (induction ws arbitrary: w) auto

end
