(* ===== verification/Cron.thy ===== *)
theory Cron
  imports Texts
begin

text \<open>
  Five-field cron expressions of \<^verbatim>\<open>src/ophelia/cron.py\<close>: parsing into sets of values and matching an
  instant. The reference semantics is a syntax tree of schedules with an arithmetic meaning: printing
  a well-formed tree and running the parser gives exactly that meaning.
\<close>

section \<open>Ranges\<close>

text \<open>\<^verbatim>\<open>range(start, stop, step)\<close> for a positive step.\<close>

function py_range :: "int \<Rightarrow> int \<Rightarrow> int \<Rightarrow> int list" where
  "py_range start stop step = (if step \<le> 0 \<or> stop \<le> start then [] else start # py_range (start + step) stop step)"
  by auto
termination by (relation "measure (\<lambda>(start, stop, step). nat (stop - start))") auto

declare py_range.simps [simp del]

section \<open>Parsing\<close>

definition RANGES :: "(int \<times> int) list" where
  "RANGES = [(0, 59), (0, 23), (1, 31), (1, 12), (0, 7)]"

definition cron_number :: "string \<Rightarrow> int \<Rightarrow> int \<Rightarrow> int res" where
  "cron_number value minimum maximum =
     (if \<not> text_isdigit value then Inl (CronExpressionError ''Cron values must be integers.'')
      else bind_res (text_int value) (\<lambda>parsed.
        guarded (raise_unless (minimum \<le> parsed \<and> parsed \<le> maximum)
          (CronExpressionError (''Cron value '' @ int_repr parsed @ '' is outside '' @ int_repr minimum @ '' through '' @
            int_repr maximum @ ''.''))) parsed))"

definition cron_span :: "string \<Rightarrow> string option \<Rightarrow> int \<Rightarrow> int \<Rightarrow> (int \<times> int) res" where
  "cron_span base step minimum maximum =
     (if base \<in> {''*'', ''?''} then Inr (minimum, maximum)
      else
        (case split_first CHR ''-'' base of
           (raw_start, Some raw_end) \<Rightarrow>
             bind_res (cron_number raw_start minimum maximum) (\<lambda>start.
             bind_res (cron_number raw_end minimum maximum) (\<lambda>stop.
             guarded (raise_unless (start \<le> stop) (CronExpressionError ''Cron ranges must be ascending.'')) (start, stop)))
         | (_, None) \<Rightarrow>
             bind_res (cron_number base minimum maximum) (\<lambda>start.
             Inr (start, if step \<noteq> None then maximum else start))))"

definition cron_part :: "string \<Rightarrow> int \<Rightarrow> int \<Rightarrow> int list res" where
  "cron_part part minimum maximum =
     (if part = [] then Inl (CronExpressionError ''Cron fields may not contain empty list items.'')
      else
        (case split_first CHR ''/'' part of
           (base, step) \<Rightarrow>
             bind_res (case step of None \<Rightarrow> Inr 1 | Some s \<Rightarrow> cron_number s 1 (maximum - minimum + 1)) (\<lambda>increment.
             bind_res (cron_span base step minimum maximum) (\<lambda>(start, stop).
             Inr (py_range start (stop + 1) increment)))))"

fun cron_parts :: "string list \<Rightarrow> int \<Rightarrow> int \<Rightarrow> int set \<Rightarrow> int set res" where
  "cron_parts [] minimum maximum result = Inr result"
| "cron_parts (part # parts) minimum maximum result =
     bind_res (cron_part part minimum maximum) (\<lambda>values. cron_parts parts minimum maximum (result \<union> set values))"

definition cron_field :: "string \<Rightarrow> int \<Rightarrow> int \<Rightarrow> bool \<Rightarrow> int set res" where
  "cron_field value minimum maximum weekday =
     bind_res (cron_parts (split_on CHR '','' value) minimum maximum {}) (\<lambda>result.
     (let result = (if weekday \<and> 7 \<in> result then insert 0 result - {7} else result)
      in guarded (raise_unless (result \<noteq> {}) (CronExpressionError ''Cron field selects no values.'')) result))"

fun cron_fields :: "nat \<Rightarrow> (string \<times> int \<times> int) list \<Rightarrow> int set list res" where
  "cron_fields index [] = Inr []"
| "cron_fields index ((field, minimum, maximum) # rest) =
     bind_res (cron_field field minimum maximum (index = 4)) (\<lambda>values.
     bind_res (cron_fields (index + 1) rest) (\<lambda>others. Inr (values # others)))"

definition cron_parse :: "string \<Rightarrow> int set list res" where
  "cron_parse expression =
     (let fields = text_split expression in
      if length fields \<noteq> 5 then Inl (CronExpressionError ''Cron expression must contain five fields.'')
      else cron_fields 0 (zip fields RANGES))"

definition validate_cron_expression :: "string \<Rightarrow> unit res" where
  "validate_cron_expression expression = bind_res (cron_parse expression) (\<lambda>_. Inr ())"

text \<open>The parts of a \<^verbatim>\<open>datetime\<close> the matcher reads; Monday is weekday 0.\<close>

record instant =
  in_minute :: int
  in_hour :: int
  in_day :: int
  in_month :: int
  in_weekday :: int

definition observed :: "instant \<Rightarrow> int list" where
  "observed t = [in_minute t, in_hour t, in_day t, in_month t, (in_weekday t + 1) mod 7]"

definition cron_matches :: "string \<Rightarrow> instant \<Rightarrow> bool res" where
  "cron_matches expression t =
     bind_res (cron_parse expression) (\<lambda>values. Inr (list_all (\<lambda>(v, allowed). v \<in> allowed) (zip (observed t) values)))"

section \<open>What is parsed\<close>

lemma set_py_range: "0 < step \<Longrightarrow> set (py_range start stop step) = {v. start \<le> v \<and> v < stop \<and> (v - start) mod step = 0}"
proof (induction start stop step rule: py_range.induct)
  case (1 start stop step)
  show ?case
  proof (cases "stop \<le> start")
    case True
    then show ?thesis by (subst py_range.simps) auto
  next
    case False
    then have IH: "set (py_range (start + step) stop step) = {v. start + step \<le> v \<and> v < stop \<and> (v - (start + step)) mod step = 0}"
      using 1 by simp
    have shift: "(v - (start + step)) mod step = (v - start) mod step" for v
      by (metis (no_types, opaque_lifting) diff_diff_eq mod_diff_right_eq mod_self diff_zero)
    have gap: "v = start \<or> start + step \<le> v" if "start \<le> v" "(v - start) mod step = 0" for v
      using that 1(2) zmod_zminus2_not_zero by (metis (no_types, opaque_lifting) add.commute diff_ge_0_iff_ge
          eq_iff_diff_eq_0 le_diff_eq linorder_not_le mod_pos_pos_trivial)
    show ?thesis
      using False 1(2) by (subst py_range.simps) (auto simp: IH shift dest: gap)
  qed
qed

lemma cron_number_Inr:
  "cron_number s lo hi = Inr n \<Longrightarrow> lo \<le> n \<and> n \<le> hi"
  by (auto simp: cron_number_def bind_res_Inr split: if_splits)

lemma cron_span_Inr: "cron_span base step lo hi = Inr (a, b) \<Longrightarrow> lo \<le> hi \<Longrightarrow> lo \<le> a \<and> a \<le> b \<and> b \<le> hi"
  by (auto simp: cron_span_def bind_res_Inr split: if_splits option.splits prod.splits dest!: cron_number_Inr)

lemma cron_part_Inr:
  assumes "cron_part part lo hi = Inr vs" "lo \<le> hi"
  shows "set vs \<subseteq> {lo..hi} \<and> vs \<noteq> []"
proof -
  obtain base step increment a b where span: "cron_span base step lo hi = Inr (a, b)"
    and inc: "(case step of None \<Rightarrow> Inr 1 | Some s \<Rightarrow> cron_number s 1 (hi - lo + 1)) = Inr increment"
    and vs: "vs = py_range a (b + 1) increment"
    using assms(1) by (auto simp: cron_part_def bind_res_Inr split: if_splits prod.splits)
  have "0 < increment" using inc by (auto split: option.splits dest!: cron_number_Inr)
  moreover have "lo \<le> a" "a \<le> b" "b \<le> hi" using cron_span_Inr [OF span assms(2)] by auto
  ultimately have "set vs \<subseteq> {lo..hi}" "a \<in> set vs" by (auto simp: vs set_py_range)
  then show ?thesis by auto
qed

lemma cron_parts_Inr:
  "cron_parts parts lo hi r = Inr r' \<Longrightarrow> lo \<le> hi \<Longrightarrow> r' \<subseteq> r \<union> {lo..hi} \<and> r \<subseteq> r' \<and> (parts \<noteq> [] \<longrightarrow> r' \<noteq> {})"
proof (induction parts arbitrary: r)
  case (Cons part parts)
  obtain vs where vs: "cron_part part lo hi = Inr vs" "cron_parts parts lo hi (r \<union> set vs) = Inr r'"
    using Cons.prems(1) by (auto simp: bind_res_Inr)
  from Cons.IH [OF vs(2) Cons.prems(2)] cron_part_Inr [OF vs(1) Cons.prems(2)] show ?case by auto
qed simp

lemma cron_field_Inr:
  assumes "cron_field value lo hi weekday = Inr r" "lo \<le> hi"
  shows "r \<noteq> {} \<and> r \<subseteq> {lo..hi} \<union> (if weekday then {0} else {}) \<and> (weekday \<longrightarrow> 7 \<notin> r)"
  using assms cron_parts_Inr [of _ lo hi "{}"] by (fastforce simp: cron_field_def bind_res_Inr Let_def split: if_splits)

lemma cron_fields_Inr:
  "cron_fields i cols = Inr vs \<Longrightarrow> length vs = length cols \<and>
     (\<forall>k < length cols. cron_field (fst (cols ! k)) (fst (snd (cols ! k))) (snd (snd (cols ! k))) (i + k = 4) = Inr (vs ! k))"
proof (induction i cols arbitrary: vs rule: cron_fields.induct)
  case (2 i field lo hi rest)
  then obtain v vs' where "cron_field field lo hi (i = 4) = Inr v" "cron_fields (i + 1) rest = Inr vs'" "vs = v # vs'"
    by (auto simp: bind_res_Inr)
  with "2.IH" show ?case by (auto simp: nth_Cons split: nat.splits)
qed simp

text \<open>
  C23. Whatever text is accepted, the parsed fields are five non-empty sets of values within the bounds
  of their field; Sunday is always written as 0.
\<close>

theorem cron_parse_bounds:
  assumes "cron_parse expression = Inr values"
  shows "length values = 5 \<and> (\<forall>k < 5. values ! k \<noteq> {} \<and> values ! k \<subseteq> {fst (RANGES ! k)..snd (RANGES ! k)}) \<and> values ! 4 \<subseteq> {0..6}"
proof -
  let ?fields = "text_split expression"
  have five: "length ?fields = 5" and fs: "cron_fields 0 (zip ?fields RANGES) = Inr values"
    using assms by (auto simp: cron_parse_def Let_def split: if_splits)
  have len: "length (zip ?fields RANGES) = 5" using five by (simp add: RANGES_def)
  have field: "cron_field (?fields ! k) (fst (RANGES ! k)) (snd (RANGES ! k)) (k = 4) = Inr (values ! k)" if "k < 5" for k
    using cron_fields_Inr [OF fs] that five len by (simp add: RANGES_def)
  have le: "fst (RANGES ! k) \<le> snd (RANGES ! k)" if "k < 5" for k
    using that by (auto simp: RANGES_def less_Suc_eq numeral_eq_Suc)
  have bounds: "values ! k \<noteq> {} \<and> values ! k \<subseteq> {fst (RANGES ! k)..snd (RANGES ! k)} \<and> (k = 4 \<longrightarrow> 7 \<notin> values ! k)" if "k < 5" for k
    using cron_field_Inr [OF field [OF that] le [OF that]] by (auto simp: RANGES_def split: if_splits)
  moreover have "values ! 4 \<subseteq> {0..6}"
  proof
    fix v
    assume "v \<in> values ! 4"
    moreover have "values ! 4 \<subseteq> {0..7}" "7 \<notin> values ! 4" using bounds [of 4] by (auto simp: RANGES_def)
    ultimately have "v \<in> {0..7}" "v \<noteq> 7" by auto
    then show "v \<in> {0..6}" by auto
  qed
  moreover have "length values = 5" using cron_fields_Inr [OF fs] len by simp
  ultimately show ?thesis by blast
qed

section \<open>Schedules\<close>

text \<open>The reference: a schedule lists items per field; each item is a base and an optional step.\<close>

datatype cron_base = Any | At int | Span int int
datatype cron_item = Item cron_base "int option"

fun base_text :: "cron_base \<Rightarrow> string" where
  "base_text Any = ''*''"
| "base_text (At n) = nat_repr (nat n)"
| "base_text (Span a b) = nat_repr (nat a) @ ''-'' @ nat_repr (nat b)"

fun item_text :: "cron_item \<Rightarrow> string" where
  "item_text (Item b None) = base_text b"
| "item_text (Item b (Some step)) = base_text b @ ''/'' @ nat_repr (nat step)"

fun item_span :: "int \<Rightarrow> int \<Rightarrow> cron_item \<Rightarrow> int \<times> int" where
  "item_span lo hi (Item Any step) = (lo, hi)"
| "item_span lo hi (Item (At n) step) = (n, if step = None then n else hi)"
| "item_span lo hi (Item (Span a b) step) = (a, b)"

fun item_step :: "cron_item \<Rightarrow> int" where
  "item_step (Item b step) = (case step of None \<Rightarrow> 1 | Some n \<Rightarrow> n)"

definition item_wf :: "int \<Rightarrow> int \<Rightarrow> cron_item \<Rightarrow> bool" where
  "item_wf lo hi it \<longleftrightarrow> (case item_span lo hi it of (a, b) \<Rightarrow> lo \<le> a \<and> a \<le> b \<and> b \<le> hi) \<and>
     1 \<le> item_step it \<and> item_step it \<le> hi - lo + 1"

definition item_selects :: "int \<Rightarrow> int \<Rightarrow> cron_item \<Rightarrow> int \<Rightarrow> bool" where
  "item_selects lo hi it v \<longleftrightarrow> (case item_span lo hi it of (a, b) \<Rightarrow> a \<le> v \<and> v \<le> b \<and> (v - a) mod item_step it = 0)"

definition field_selects :: "bool \<Rightarrow> int \<Rightarrow> int \<Rightarrow> cron_item list \<Rightarrow> int \<Rightarrow> bool" where
  "field_selects weekday lo hi items v \<longleftrightarrow>
     list_ex (\<lambda>it. item_selects lo hi it v \<or> weekday \<and> v = 0 \<and> item_selects lo hi it 7) items"

definition field_text :: "cron_item list \<Rightarrow> string" where
  "field_text items = join '','' (map item_text items)"

definition schedule_wf :: "cron_item list list \<Rightarrow> bool" where
  "schedule_wf cols \<longleftrightarrow> length cols = 5 \<and>
     list_all (\<lambda>(items, lo, hi). items \<noteq> [] \<and> list_all (item_wf lo hi) items) (zip cols RANGES)"

definition schedule_text :: "cron_item list list \<Rightarrow> string" where
  "schedule_text cols = join '' '' (map field_text cols)"

definition schedule_matches :: "cron_item list list \<Rightarrow> instant \<Rightarrow> bool" where
  "schedule_matches cols t \<longleftrightarrow>
     list_all (\<lambda>(k, items, lo, hi). field_selects (k = 4) lo hi items (observed t ! k)) (zip [0..<5] (zip cols RANGES))"

section \<open>The parser implements the reference\<close>

text \<open>Numbers below one hundred have at most two digits.\<close>

lemma nat_repr_short: "n < 100 \<Longrightarrow> length (nat_repr n) \<le> 2"
proof -
  assume "n < 100"
  then have "n div 10 < 10" by auto
  then show ?thesis by (subst nat_repr.simps) (simp add: nat_repr.simps [of "n div 10"])
qed

lemma digit_not: "is_digit c \<Longrightarrow> c \<notin> {CHR ''-'', CHR ''/'', CHR '','', CHR ''*'', CHR ''?''} \<and> \<not> text_space c"
  by (auto simp: is_digit_def text_space_def is_space_def)

lemma nat_repr_chars:
  "CHR ''-'' \<notin> set (nat_repr n)" "CHR ''/'' \<notin> set (nat_repr n)" "CHR '','' \<notin> set (nat_repr n)"
  "CHR ''*'' \<notin> set (nat_repr n)" "CHR ''?'' \<notin> set (nat_repr n)" "list_all (\<lambda>c. \<not> text_space c) (nat_repr n)"
  using nat_repr_digits [of n] digit_not by (auto simp: list_all_iff)

lemma cron_number_repr:
  assumes "0 \<le> n" "n < 100" "lo \<le> n" "n \<le> hi"
  shows "cron_number (nat_repr (nat n)) lo hi = Inr n"
proof -
  have "list_all is_digit (nat_repr (nat n))" using nat_repr_digits [of "nat n"] by (simp add: list_all_iff)
  moreover have "length (nat_repr (nat n)) \<le> 4300" using nat_repr_short [of "nat n"] assms by linarith
  ultimately show ?thesis
    using assms by (simp add: cron_number_def text_isdigit_def text_int_def text_digit_def list_all_iff)
qed

lemma base_text_chars:
  "CHR ''/'' \<notin> set (base_text b)" "CHR '','' \<notin> set (base_text b)" "list_all (\<lambda>c. \<not> text_space c) (base_text b)" "base_text b \<noteq> []"
  using nat_repr_chars by (cases b; simp add: text_space_def is_space_def)+

lemma item_text_chars:
  "CHR '','' \<notin> set (item_text it)" "list_all (\<lambda>c. \<not> text_space c) (item_text it)" "item_text it \<noteq> []"
  using base_text_chars nat_repr_chars by (cases it rule: item_text.cases; simp add: text_space_def is_space_def)+

lemma cron_span_text:
  assumes "item_wf lo hi (Item b step)" "0 \<le> lo" "hi < 99" "(step = None) = (raw = None)"
  shows "cron_span (base_text b) raw lo hi = Inr (item_span lo hi (Item b step))"
proof (cases b)
  case (At n)
  have "nat_repr (nat n) \<notin> {''*'', ''?''}" using nat_repr_chars [of "nat n"] by auto
  then show ?thesis
    using assms At nat_repr_chars(1) [of "nat n"]
    by (auto simp: cron_span_def split_first_none item_wf_def cron_number_repr)
next
  case (Span a c)
  have "nat_repr (nat a) @ ''-'' @ nat_repr (nat c) \<notin> {''*'', ''?''}" by (auto simp: append_eq_Cons_conv)
  then show ?thesis
    using assms Span nat_repr_chars(1) [of "nat a"]
    by (auto simp: cron_span_def split_first_append item_wf_def cron_number_repr)
qed (simp add: cron_span_def)

lemma cron_part_text:
  assumes "item_wf lo hi it" "0 \<le> lo" "hi < 99"
  shows "\<exists>vs. cron_part (item_text it) lo hi = Inr vs \<and> set vs = {v. item_selects lo hi it v}"
proof -
  obtain b step where it: "it = Item b step" by (cases it)
  let ?raw = "map_option (\<lambda>n. nat_repr (nat n)) step"
  have first: "split_first CHR ''/'' (item_text it) = (base_text b, ?raw)"
    using base_text_chars(1) [of b] by (cases step) (simp_all add: it split_first_none split_first_append)
  have inc: "(case ?raw of None \<Rightarrow> Inr 1 | Some s \<Rightarrow> cron_number s 1 (hi - lo + 1)) = Inr (item_step it)"
    using assms by (cases step) (auto simp: it item_wf_def intro!: cron_number_repr)
  obtain a c where span: "item_span lo hi it = (a, c)" by (cases "item_span lo hi it")
  have "cron_span (base_text b) ?raw lo hi = Inr (a, c)"
    using cron_span_text [of lo hi b step ?raw] assms span by (simp add: it)
  then have "cron_part (item_text it) lo hi = Inr (py_range a (c + 1) (item_step it))"
    using item_text_chars(3) [of it] inc by (simp add: cron_part_def first)
  moreover have "set (py_range a (c + 1) (item_step it)) = {v. item_selects lo hi it v}"
    using assms(1) by (subst set_py_range) (auto simp: item_wf_def item_selects_def span)
  ultimately show ?thesis by blast
qed

lemma cron_parts_text:
  "\<lbrakk>list_all (item_wf lo hi) items; 0 \<le> lo; hi < 99\<rbrakk> \<Longrightarrow>
   cron_parts (map item_text items) lo hi r = Inr (r \<union> {v. list_ex (\<lambda>it. item_selects lo hi it v) items})"
proof (induction items arbitrary: r)
  case (Cons it items)
  then obtain vs where "cron_part (item_text it) lo hi = Inr vs" "set vs = {v. item_selects lo hi it v}"
    using cron_part_text [of lo hi it] by auto
  with Cons show ?case by auto
qed simp

lemma item_selects_first: "item_wf lo hi it \<Longrightarrow> item_selects lo hi it (fst (item_span lo hi it))"
  by (auto simp: item_wf_def item_selects_def)

lemma cron_field_text:
  assumes "items \<noteq> []" "list_all (item_wf lo hi) items" "0 \<le> lo" "hi < 99"
  shows "\<exists>r. cron_field (field_text items) lo hi weekday = Inr r \<and>
    (\<forall>v. (weekday \<longrightarrow> v \<noteq> 7) \<longrightarrow> (v \<in> r \<longleftrightarrow> field_selects weekday lo hi items v))"
proof -
  let ?r = "{v. list_ex (\<lambda>it. item_selects lo hi it v) items}"
  have split: "split_on CHR '','' (field_text items) = map item_text items"
    unfolding field_text_def using assms(1) item_text_chars(1) by (intro split_on_join) auto
  have parts: "cron_parts (map item_text items) lo hi {} = Inr ?r" using cron_parts_text [OF assms(2-4), of "{}"] by simp
  have "?r \<noteq> {}" using assms(1,2) item_selects_first by (cases items) auto
  then show ?thesis
    by (auto simp: cron_field_def split parts Let_def raise_unless_def field_selects_def list_ex_iff)
qed

lemma field_text_word: "items \<noteq> [] \<Longrightarrow> list_all (\<lambda>c. \<not> text_space c) (field_text items) \<and> field_text items \<noteq> []"
proof -
  have "list_all (\<lambda>c. \<not> text_space c) (join '','' ws)" if "\<forall>w \<in> set ws. list_all (\<lambda>c. \<not> text_space c) w" for ws
    using that by (induction ws rule: induct_list012) (auto simp: text_space_def is_space_def)
  moreover have "join '','' ws \<noteq> []" if "ws \<noteq> []" "\<forall>w \<in> set ws. w \<noteq> []" for ws :: "string list"
    using that by (induction ws rule: induct_list012) auto
  ultimately show "items \<noteq> [] \<Longrightarrow> ?thesis" unfolding field_text_def using item_text_chars(2,3) by auto
qed

lemma cron_fields_text:
  assumes "list_all (\<lambda>(items, lo, hi). items \<noteq> [] \<and> list_all (item_wf lo hi) items) (zip cols ranges)"
    and "\<forall>(lo, hi) \<in> set ranges. 0 \<le> lo \<and> hi < 99" and "length cols = length ranges"
  shows "\<exists>vs. cron_fields i (zip (map field_text cols) ranges) = Inr vs \<and> length vs = length cols \<and>
    (\<forall>k < length cols. \<forall>v. (i + k = 4 \<longrightarrow> v \<noteq> 7) \<longrightarrow>
      (v \<in> vs ! k \<longleftrightarrow> field_selects (i + k = 4) (fst (ranges ! k)) (snd (ranges ! k)) (cols ! k) v))"
  using assms
proof (induction cols ranges arbitrary: i rule: list_induct2')
  case (4 items cols range ranges)
  obtain lo hi where r: "range = (lo, hi)" by (cases range)
  obtain v where v: "cron_field (field_text items) lo hi (i = 4) = Inr v"
    "\<forall>x. (i = 4 \<longrightarrow> x \<noteq> 7) \<longrightarrow> (x \<in> v \<longleftrightarrow> field_selects (i = 4) lo hi items x)"
    using cron_field_text [of items lo hi "i = 4"] 4(2,3) r by auto
  obtain vs where vs: "cron_fields (Suc i) (zip (map field_text cols) ranges) = Inr vs" "length vs = length cols"
    "\<forall>k < length cols. \<forall>v. (Suc i + k = 4 \<longrightarrow> v \<noteq> 7) \<longrightarrow>
      (v \<in> vs ! k \<longleftrightarrow> field_selects (Suc i + k = 4) (fst (ranges ! k)) (snd (ranges ! k)) (cols ! k) v)"
    using 4(1) [of "Suc i"] 4(2-4) by auto
  show ?case
    by (rule exI [of _ "v # vs"]) (use v vs in \<open>auto simp: r nth_Cons split: nat.splits\<close>)
qed auto

text \<open>
  C22. The parser and the matcher implement the reference: for every well-formed schedule, written out as
  text, an instant matches exactly when each of its five parts is selected by its field, with Sunday
  selected by 0 and by 7.
\<close>

theorem cron_matches_schedule:
  assumes "schedule_wf cols"
  shows "cron_matches (schedule_text cols) t = Inr (schedule_matches cols t)"
proof -
  have five: "length cols = 5" "length RANGES = 5" using assms by (simp_all add: schedule_wf_def RANGES_def)
  have wf: "list_all (\<lambda>(items, lo, hi). items \<noteq> [] \<and> list_all (item_wf lo hi) items) (zip cols RANGES)"
    using assms by (simp add: schedule_wf_def)
  have "items \<noteq> []" if "items \<in> set cols" for items
    using that wf five by (auto simp: list_all_length in_set_conv_nth)
  then have words: "\<forall>w \<in> set (map field_text cols). list_all (\<lambda>c. \<not> text_space c) w \<and> w \<noteq> []" using field_text_word by auto
  have "split_by text_space (schedule_text cols) = map field_text cols"
    unfolding schedule_text_def using words five by (intro split_by_join) (auto simp: text_space_def is_space_def)
  then have split: "text_split (schedule_text cols) = map field_text cols" using words by (auto simp: text_split_def)
  obtain vs where vs: "cron_fields 0 (zip (map field_text cols) RANGES) = Inr vs" "length vs = 5"
    "\<forall>k < 5. \<forall>v. (k = 4 \<longrightarrow> v \<noteq> 7) \<longrightarrow>
      (v \<in> vs ! k \<longleftrightarrow> field_selects (k = 4) (fst (RANGES ! k)) (snd (RANGES ! k)) (cols ! k) v)"
    using cron_fields_text [OF wf, of 0] five by (auto simp: RANGES_def)
  have len: "length (observed t) = 5" and sunday: "observed t ! 4 \<noteq> 7"
    using pos_mod_bound [of 7 "in_weekday t + 1"] by (auto simp: observed_def)
  have "(list_all (\<lambda>(v, allowed). v \<in> allowed) (zip (observed t) vs)) = schedule_matches cols t"
    using vs(2,3) five len sunday by (auto simp: list_all_length schedule_matches_def split: prod.splits)
  then show ?thesis by (simp add: cron_matches_def cron_parse_def split vs five Let_def)
qed

theorem cron_parse_bounds_witness:
  "\<exists>values. cron_parse ''*/15 9-17 1,15 * 5-7'' = Inr values \<and> length values = 5 \<and>
     (\<forall>k < 5. values ! k \<noteq> {} \<and> values ! k \<subseteq> {fst (RANGES ! k)..snd (RANGES ! k)}) \<and> values ! 4 \<subseteq> {0..6}"
proof -
  have "isl (cron_parse ''*/15 9-17 1,15 * 5-7'') = False" by code_simp
  then obtain vs where "cron_parse ''*/15 9-17 1,15 * 5-7'' = Inr vs" by (auto simp: isl_def) (metis sum.exhaust)
  with cron_parse_bounds [OF this] show ?thesis by blast
qed

definition office_hours :: "cron_item list list" where
  "office_hours = [[Item Any (Some 15)], [Item (Span 9 17) None], [Item (At 1) None, Item (At 15) None], [Item Any None], [Item (Span 5 7) None]]"

theorem cron_matches_schedule_witness:
  "cron_matches (schedule_text office_hours) \<lparr>in_minute = 30, in_hour = 9, in_day = 15, in_month = 3, in_weekday = 6\<rparr> = Inr True"
proof -
  have "schedule_wf office_hours" by code_simp
  moreover have "schedule_matches office_hours \<lparr>in_minute = 30, in_hour = 9, in_day = 15, in_month = 3, in_weekday = 6\<rparr>" by code_simp
  ultimately show ?thesis using cron_matches_schedule [of office_hours] by simp
qed

section \<open>Superscript digits\<close>

lemma digits_no_delimiter:
  "list_all text_digit v \<Longrightarrow> CHR '','' \<notin> set v \<and> CHR ''/'' \<notin> set v \<and> CHR ''-'' \<notin> set v \<and> CHR ''*'' \<notin> set v \<and> CHR ''?'' \<notin> set v"
  by (auto simp: list_all_iff text_digit_def is_digit_def code_def)

lemma superscript_field:
  assumes "list_all text_digit v" "\<not> list_all is_digit v"
  shows "cron_field v lo hi weekday = Inl (ValueError ''invalid literal for int() with base 10'')"
proof -
  have "v \<noteq> []" using assms(2) by auto
  moreover from this have "cron_number v lo hi = Inl (ValueError ''invalid literal for int() with base 10'')"
    using assms by (simp add: cron_number_def text_isdigit_def text_int_def)
  moreover have "v \<noteq> ''*''" "v \<noteq> ''?''" using digits_no_delimiter [OF assms(1)] by auto
  ultimately show ?thesis
    using digits_no_delimiter [OF assms(1)]
    by (simp add: cron_field_def cron_part_def cron_span_def split_on_single split_first_none)
qed

lemma cron_fields_raises:
  "cron_fields n xs = Inr vs \<Longrightarrow> cron_field v lo hi (n + length xs = 4) = Inl e \<Longrightarrow> cron_fields n (xs @ (v, lo, hi) # ys) = Inl e"
  by (induction n xs arbitrary: vs rule: cron_fields.induct) (auto simp: bind_res_Inr)

text \<open>
  C40. A superscript digit passes the digit test and is refused by \<^verbatim>\<open>int\<close>: whenever five fields are
  given, the fields before some field are correct and that field consists of digits, one of them a superscript,
  the expression is rejected with a plain \<^verbatim>\<open>ValueError\<close> and not with the error of the module.
\<close>

theorem cron_superscript_error:
  assumes "text_split expression = before @ v # after" and "length before + length after = 4"
    and "cron_fields 0 (zip before RANGES) = Inr vs" and "list_all text_digit v" and "\<not> list_all is_digit v"
  shows "validate_cron_expression expression = Inl (ValueError ''invalid literal for int() with base 10'')"
proof -
  let ?n = "length before"
  obtain lo hi rs where drop: "drop ?n RANGES = (lo, hi) # rs"
    using assms(2) by (cases "drop ?n RANGES") (auto simp: RANGES_def drop_eq_Nil2)
  have "zip xs (take (length xs) zs) = zip xs zs" for xs :: "string list" and zs :: "(int \<times> int) list"
    by (induction xs zs rule: list_induct2') auto
  then have "zip (before @ v # after) RANGES = zip before RANGES @ (v, lo, hi) # zip after rs"
    by (simp add: zip_append1 drop)
  then have "cron_fields 0 (zip (before @ v # after) RANGES) = Inl (ValueError ''invalid literal for int() with base 10'')"
    using cron_fields_raises [OF assms(3)] superscript_field [OF assms(4,5)] by simp
  then show ?thesis using assms(1,2) by (simp add: validate_cron_expression_def cron_parse_def)
qed

theorem cron_superscript_error_witness:
  "validate_cron_expression (''0 1'' @ chr 178 # '' * * *'') = Inl (ValueError ''invalid literal for int() with base 10'')"
proof -
  have split: "text_split (''0 1'' @ chr 178 # '' * * *'') = [''0''] @ (''1'' @ [chr 178]) # [''*'', ''*'', ''*'']"
    and digits: "list_all text_digit (''1'' @ [chr 178])" "\<not> list_all is_digit (''1'' @ [chr 178])"
    and first: "isl (cron_fields 0 (zip [''0''] RANGES)) = False" by code_simp+
  obtain vs where "cron_fields 0 (zip [''0''] RANGES) = Inr vs"
    using first by (cases "cron_fields 0 (zip [''0''] RANGES)") auto
  from cron_superscript_error [OF split _ this digits] show ?thesis by simp
qed

end
