(* ===== verification/Validation.thy ===== *)
theory Validation
  imports Texts Patterns
begin

text \<open>
  Canonical validation primitives of \<^verbatim>\<open>src/ophelia/validation\<close>: identifiers and environments
  (\<^verbatim>\<open>identifiers.py\<close>) and HTTP paths (\<^verbatim>\<open>routes.py\<close>).
\<close>

section \<open>Issues\<close>

record validation_issue =
  vi_code :: string
  vi_field :: string
  vi_message :: string

type_synonym 'a validated = "validation_issue + 'a"

definition reject :: "string \<Rightarrow> string \<Rightarrow> string \<Rightarrow> 'a validated" where
  "reject issue field message = Inl \<lparr>vi_code = issue, vi_field = field, vi_message = message\<rparr>"

text \<open>A sequence of guards: the first that fails decides.\<close>

fun reject_first :: "(bool \<times> string \<times> string) list \<Rightarrow> string \<Rightarrow> 'a validated \<Rightarrow> 'a validated" where
  "reject_first [] field r = r"
| "reject_first ((bad, issue, message) # guards) field r =
     (if bad then reject issue field (field @ message) else reject_first guards field r)"

lemma reject_first_Inr [simp]:
  "reject_first guards field r = Inr x \<longleftrightarrow> list_all (\<lambda>g. \<not> fst g) guards \<and> r = Inr x"
  by (induction guards) (auto simp: reject_def split: prod.splits if_splits)

section \<open>Identifiers\<close>

definition IDENTIFIER :: rx where
  "IDENTIFIER = RSeq (RClass is_lower) (RSeq (RStar (RClass is_lower_alnum))
     (RStar (RSeq (rlit CHR ''-'') (rplus (RClass is_lower_alnum)))))"

definition parse_identifier :: "string \<Rightarrow> string \<Rightarrow> string validated" where
  "parse_identifier value field =
     (if 63 < length value \<or> \<not> fullmatch IDENTIFIER value
      then reject ''invalid_identifier'' field (field @ '' must be 1-63 lowercase alphanumeric or hyphen characters, '' @
        ''starting with a letter and ending with an alphanumeric character.'')
      else Inr value)"

datatype environment = ENV_DEV | ENV_STAGING | ENV_PRODUCTION

fun env_value :: "environment \<Rightarrow> string" where
  "env_value ENV_DEV = ''dev''"
| "env_value ENV_STAGING = ''staging''"
| "env_value ENV_PRODUCTION = ''production''"

definition parse_environment :: "string option \<Rightarrow> string \<Rightarrow> environment option validated" where
  "parse_environment value field =
     (case value of
        None \<Rightarrow> Inr None
      | Some v \<Rightarrow>
          (case find (\<lambda>e. env_value e = v) [ENV_DEV, ENV_STAGING, ENV_PRODUCTION] of
             Some e \<Rightarrow> Inr (Some e)
           | None \<Rightarrow> reject ''invalid_environment'' field (field @ '' must be one of dev, staging, or production.'')))"

section \<open>HTTP paths\<close>

datatype path_kind = EXACT | PREFIX

record http_path =
  hp_value :: string
  hp_kind :: path_kind

definition UNRESERVED :: "char \<Rightarrow> bool" where
  "UNRESERVED c \<longleftrightarrow> is_alnum c \<or> c \<in> {CHR ''-'', CHR ''.'', CHR ''_'', CHR ''~''}"

definition FORBIDDEN_RENDER_CHARACTERS :: "char set" where
  "FORBIDDEN_RENDER_CHARACTERS = set ([chr 92] @ ''?#{}*'')"

definition hex_digit :: "char \<Rightarrow> nat option" where
  "hex_digit c =
     (if is_digit c then Some (code c - 48)
      else if 97 \<le> code c \<and> code c \<le> 102 then Some (code c - 87)
      else if 65 \<le> code c \<and> code c \<le> 70 then Some (code c - 55)
      else None)"

text \<open>The loop over the characters: the normalized and the decoded text.\<close>

fun scan_path :: "string \<Rightarrow> string \<Rightarrow> (string \<times> string) validated" where
  "scan_path field [] = Inr ([], [])"
| "scan_path field (c # cs) =
     (if c \<noteq> CHR ''%'' then
        (case scan_path field cs of Inl e \<Rightarrow> Inl e | Inr (n, d) \<Rightarrow> Inr (c # n, c # d))
      else
        (case cs of
           h # l # rest \<Rightarrow>
             (case (hex_digit h, hex_digit l) of
                (Some x, Some y) \<Rightarrow>
                  (let byte = 16 * x + y; decoded = chr byte in
                   if byte < 32 \<or> byte = 127
                   then reject ''encoded_http_control'' field (field @ '' contains an encoded control character.'')
                   else if decoded = CHR ''/'' \<or> decoded \<in> FORBIDDEN_RENDER_CHARACTERS
                   then reject ''ambiguous_http_escape'' field (field @ '' contains an ambiguous encoded delimiter.'')
                   else
                     (case scan_path field rest of
                        Inl e \<Rightarrow> Inl e
                      | Inr (n, d) \<Rightarrow>
                          Inr ((if UNRESERVED decoded then [decoded] else CHR ''%'' # upper [h, l]) @ n, decoded # d)))
              | _ \<Rightarrow> reject ''malformed_http_escape'' field (field @ '' contains a malformed percent escape.''))
         | _ \<Rightarrow> reject ''malformed_http_escape'' field (field @ '' contains a malformed percent escape.'')))"

definition raw_path_guards :: "string \<Rightarrow> (bool \<times> string \<times> string) list" where
  "raw_path_guards value =
     [(\<not> starts_with ''/'' value, ''invalid_http_path'', '' must start with /.''),
      (list_ex (\<lambda>c. code c < 32 \<or> code c = 127) value, ''http_path_control_character'', '' contains a control character.''),
      (list_ex (\<lambda>c. 127 < code c) value, ''http_path_non_ascii'', '' must encode non-ASCII bytes with percent escapes.''),
      (list_ex (\<lambda>c. c \<in> FORBIDDEN_RENDER_CHARACTERS) value, ''http_path_forbidden_syntax'', '' contains forbidden route syntax.''),
      (list_ex is_space value, ''http_path_whitespace'', '' may not contain whitespace.''),
      (contains_sub ''//'' value, ''ambiguous_http_path'', '' may not contain empty path segments.'')]"

definition dot_segments :: "string \<Rightarrow> bool" where
  "dot_segments decoded \<longleftrightarrow> list_ex (\<lambda>segment. segment \<in> {''.'', ''..''}) (tl (split_on CHR ''/'' decoded))"

definition parse_http_path :: "string \<Rightarrow> path_kind \<Rightarrow> string \<Rightarrow> http_path validated" where
  "parse_http_path value kind field =
     reject_first (raw_path_guards value) field
       (case scan_path field value of
          Inl e \<Rightarrow> Inl e
        | Inr (canonical, decoded) \<Rightarrow>
            reject_first
              [(dot_segments decoded, ''http_path_dot_segment'', '' may not contain dot segments.''),
               (kind = PREFIX \<and> (canonical = ''/'' \<or> ends_with ''/'' canonical), ''ambiguous_http_prefix'',
                '' prefixes may not be / or end with /.'')] field
              (Inr \<lparr>hp_value = canonical, hp_kind = kind\<rparr>))"

section \<open>The language of identifiers\<close>

definition word_ok :: "string \<Rightarrow> bool" where
  "word_ok w \<longleftrightarrow> w \<noteq> [] \<and> list_all is_lower_alnum w"

lemma star_words:
  "u \<in> star (lang (RSeq (rlit CHR ''-'') (rplus (RClass is_lower_alnum)))) \<longleftrightarrow>
     (\<exists>ws. list_all word_ok ws \<and> u = concat (map ((#) CHR ''-'') ws))"
proof
  assume "u \<in> star (lang (RSeq (rlit CHR ''-'') (rplus (RClass is_lower_alnum))))"
  then show "\<exists>ws. list_all word_ok ws \<and> u = concat (map ((#) CHR ''-'') ws)"
  proof (induction rule: star.induct)
    case (star_step u v)
    then obtain w ws where "u = CHR ''-'' # w" "word_ok w" "list_all word_ok ws" "v = concat (map ((#) CHR ''-'') ws)"
      by (auto simp: lang_rlit lang_plus_class word_ok_def list_all_iff)
    then show ?case by (intro exI [of _ "w # ws"]) simp
  qed (auto intro: exI [of _ "[]"])
next
  assume "\<exists>ws. list_all word_ok ws \<and> u = concat (map ((#) CHR ''-'') ws)"
  then obtain ws where "list_all word_ok ws" "u = concat (map ((#) CHR ''-'') ws)" by blast
  then show "u \<in> star (lang (RSeq (rlit CHR ''-'') (rplus (RClass is_lower_alnum))))"
  proof (induction ws arbitrary: u)
    case (Cons w ws)
    have "CHR ''-'' # w \<in> lang (RSeq (rlit CHR ''-'') (rplus (RClass is_lower_alnum)))"
      using Cons.prems(1) by (auto simp: lang_rlit lang_plus_class word_ok_def list_all_iff)
    from star.star_step [OF this Cons.IH [of "concat (map ((#) CHR ''-'') ws)"]] Cons.prems show ?case by simp
  qed (simp add: star.star_Nil)
qed

lemma lang_identifier:
  "lang IDENTIFIER = {c # v @ u | c v u. is_lower c \<and> (\<forall>d \<in> set v. is_lower_alnum d) \<and>
     u \<in> star (lang (RSeq (rlit CHR ''-'') (rplus (RClass is_lower_alnum))))}"
proof -
  have seq: "lang (RSeq (RStar (RClass p)) (RStar r)) = {v @ u | v u. v \<in> lang (RStar (RClass p)) \<and> u \<in> star (lang r)}" for p r
    by simp
  show ?thesis unfolding IDENTIFIER_def lang_class_seq seq lang_star_class by blast
qed

lemma identifier_language:
  "fullmatch IDENTIFIER s \<longleftrightarrow> list_all word_ok (split_on CHR ''-'' s) \<and> s \<noteq> [] \<and> is_lower (hd s)"
proof
  assume "fullmatch IDENTIFIER s"
  then obtain c v ws where s: "s = c # v @ concat (map ((#) CHR ''-'') ws)" "is_lower c" "\<forall>d \<in> set v. is_lower_alnum d" "list_all word_ok ws"
    unfolding fullmatch_iff lang_identifier star_words by blast
  have word: "word_ok (c # v)" using s(2,3) by (auto simp: word_ok_def list_all_iff is_lower_alnum_def)
  have dash: "CHR ''-'' \<notin> set w" if "word_ok w" for w using that by (auto simp: word_ok_def list_all_iff ascii_defs)
  have "s = join [CHR ''-''] ((c # v) # ws)" unfolding join_Cons_concat using s(1) by simp
  then have "split_on CHR ''-'' s = (c # v) # ws"
    using split_on_join [of "(c # v) # ws" "CHR ''-''"] dash [OF word] dash s(4) by (auto simp: list_all_iff)
  then show "list_all word_ok (split_on CHR ''-'' s) \<and> s \<noteq> [] \<and> is_lower (hd s)" using word s by simp
next
  assume a: "list_all word_ok (split_on CHR ''-'' s) \<and> s \<noteq> [] \<and> is_lower (hd s)"
  obtain w ws where ws: "split_on CHR ''-'' s = w # ws" by (cases "split_on CHR ''-'' s") simp_all
  have s: "s = w @ concat (map ((#) CHR ''-'') ws)" using join_split_on [of "CHR ''-''" s] ws join_Cons_concat by metis
  obtain c v where w: "w = c # v" "is_lower c" "\<forall>d \<in> set v. is_lower_alnum d"
    using a ws s by (cases w) (auto simp: word_ok_def list_all_iff)
  have "concat (map ((#) CHR ''-'') ws) \<in> star (lang (RSeq (rlit CHR ''-'') (rplus (RClass is_lower_alnum))))"
    unfolding star_words using a ws by auto
  then show "fullmatch IDENTIFIER s"
    using s w unfolding fullmatch_iff lang_identifier by force
qed

text \<open>
  C26. The identifiers that are accepted are exactly the texts of at most 63 characters that start with a
  lowercase letter and consist of non-empty lowercase alphanumeric words separated by single hyphens.
\<close>

theorem parse_identifier_iff:
  "parse_identifier s field = Inr v \<longleftrightarrow>
     v = s \<and> length s \<le> 63 \<and> list_all word_ok (split_on CHR ''-'' s) \<and> s \<noteq> [] \<and> is_lower (hd s)"
  by (auto simp: parse_identifier_def reject_def identifier_language)

section \<open>Canonical paths\<close>

lemma hex_digit_upper: "hex_digit h = Some x \<Longrightarrow> hex_digit (to_upper h) = Some x"
  by (auto simp: hex_digit_def to_upper_def ascii_defs split: if_splits)

lemma hex_digit_bound: "hex_digit h = Some x \<Longrightarrow> x < 16"
  by (auto simp: hex_digit_def is_digit_def split: if_splits)

lemma hex_digit_char: "hex_digit h = Some x \<Longrightarrow> is_alnum h \<and> is_alnum (to_upper h) \<and> to_upper (to_upper h) = to_upper h"
  by (auto simp: hex_digit_def to_upper_def ascii_defs split: if_splits)

lemma forbidden_code: "c \<in> FORBIDDEN_RENDER_CHARACTERS \<longleftrightarrow> code c \<in> {92, 63, 35, 123, 125, 42}"
  by (simp add: FORBIDDEN_RENDER_CHARACTERS_def code_inj [symmetric])

lemma unreserved_plain:
  assumes "UNRESERVED c"
  shows "c \<noteq> CHR ''%''" "c \<noteq> CHR ''/''" "c \<notin> FORBIDDEN_RENDER_CHARACTERS" "32 < code c" "code c < 127" "\<not> is_space c"
  using assms by (auto simp: UNRESERVED_def ascii_defs forbidden_code)

lemma scan_charE:
  assumes "scan_path field (c # cs) = Inr (n, d)" "c \<noteq> CHR ''%''"
  obtains n' d' where "scan_path field cs = Inr (n', d')" "n = c # n'" "d = c # d'"
  using assms by (cases "scan_path field cs") auto

lemma scan_escapeE:
  assumes "scan_path field (CHR ''%'' # cs) = Inr (n, d)"
  obtains h l rest x y n' d' where "cs = h # l # rest" "hex_digit h = Some x" "hex_digit l = Some y"
    and "32 \<le> 16 * x + y" "16 * x + y \<noteq> 127" "chr (16 * x + y) \<noteq> CHR ''/''" "chr (16 * x + y) \<notin> FORBIDDEN_RENDER_CHARACTERS"
    and "scan_path field rest = Inr (n', d')" "d = chr (16 * x + y) # d'"
    and "n = (if UNRESERVED (chr (16 * x + y)) then [chr (16 * x + y)] else CHR ''%'' # upper [h, l]) @ n'"
proof -
  obtain h l rest where cs: "cs = h # l # rest"
    using assms by (cases cs; cases "tl cs") (auto simp: reject_def)
  obtain x y where xy: "hex_digit h = Some x" "hex_digit l = Some y"
    using assms cs by (cases "hex_digit h"; cases "hex_digit l") (auto simp: reject_def)
  obtain n' d' where "scan_path field rest = Inr (n', d')"
    using assms cs xy by (cases "scan_path field rest") (auto simp: reject_def Let_def split: if_splits)
  with assms cs xy that show thesis by (auto simp: reject_def Let_def split: if_splits)
qed

text \<open>A scan of the normalized text gives the same texts again.\<close>

lemma scan_again: "scan_path field s = Inr (n, d) \<Longrightarrow> scan_path field n = Inr (n, d)"
proof (induction "length s" arbitrary: s n d rule: less_induct)
  case less
  show ?case
  proof (cases s)
    case (Cons c cs)
    show ?thesis
    proof (cases "c = CHR ''%''")
      case False
      obtain n' d' where "scan_path field cs = Inr (n', d')" "n = c # n'" "d = c # d'"
        using less.prems False unfolding Cons by (rule scan_charE)
      then show ?thesis using less.hyps [of cs n' d'] Cons False by simp
    next
      case True
      from less.prems show ?thesis unfolding Cons True
      proof (rule scan_escapeE)
        fix h l rest x y n' d'
        assume cs: "cs = h # l # rest" "hex_digit h = Some x" "hex_digit l = Some y"
          and ok: "32 \<le> 16 * x + y" "16 * x + y \<noteq> 127" "chr (16 * x + y) \<noteq> CHR ''/''" "chr (16 * x + y) \<notin> FORBIDDEN_RENDER_CHARACTERS"
          and rest: "scan_path field rest = Inr (n', d')" and d: "d = chr (16 * x + y) # d'"
          and n: "n = (if UNRESERVED (chr (16 * x + y)) then [chr (16 * x + y)] else CHR ''%'' # upper [h, l]) @ n'"
        have IH: "scan_path field n' = Inr (n', d')" using less.hyps [of rest n' d'] rest Cons cs(1) by simp
        show ?thesis
          using IH ok cs(2,3) hex_digit_upper hex_digit_char unreserved_plain(1) by (simp add: n d upper_def Let_def)
      qed
    qed
  qed (use less in simp)
qed

text \<open>What the normalized text keeps: its shape and its admissible characters.\<close>

lemma scan_keeps:
  assumes "scan_path field s = Inr (n, d)"
  shows "starts_with ''/'' n = starts_with ''/'' s \<and> (contains_sub ''//'' n \<longrightarrow> contains_sub ''//'' s) \<and>
    (\<forall>c \<in> set n. c \<in> set s \<or> c = CHR ''%'' \<or> is_alnum c \<or> UNRESERVED c)"
  using assms
proof (induction "length s" arbitrary: s n d rule: less_induct)
  case less
  show ?case
  proof (cases s)
    case (Cons c cs)
    show ?thesis
    proof (cases "c = CHR ''%''")
      case False
      obtain n' d' where "scan_path field cs = Inr (n', d')" "n = c # n'" "d = c # d'"
        using less.prems False unfolding Cons by (rule scan_charE)
      moreover from this less.hyps [of cs n' d'] Cons
      have "starts_with ''/'' n' = starts_with ''/'' cs" "contains_sub ''//'' n' \<longrightarrow> contains_sub ''//'' cs"
        "\<forall>c \<in> set n'. c \<in> set cs \<or> c = CHR ''%'' \<or> is_alnum c \<or> UNRESERVED c" by simp_all
      ultimately show ?thesis using Cons by (auto)
    next
      case True
      from less.prems show ?thesis unfolding Cons True
      proof (rule scan_escapeE)
        fix h l rest x y n' d'
        assume cs: "cs = h # l # rest" "hex_digit h = Some x" "hex_digit l = Some y" and rest: "scan_path field rest = Inr (n', d')"
          and n: "n = (if UNRESERVED (chr (16 * x + y)) then [chr (16 * x + y)] else CHR ''%'' # upper [h, l]) @ n'"
        have IH: "contains_sub ''//'' n' \<longrightarrow> contains_sub ''//'' rest" "\<forall>c \<in> set n'. c \<in> set rest \<or> c = CHR ''%'' \<or> is_alnum c \<or> UNRESERVED c"
          using less.hyps [of rest n' d'] rest Cons cs(1) by simp_all
        have hex: "is_alnum (to_upper h)" "is_alnum (to_upper l)" "to_upper h \<noteq> CHR ''/''" "to_upper l \<noteq> CHR ''/''"
          using hex_digit_char [OF cs(2)] hex_digit_char [OF cs(3)] by (auto simp: ascii_defs)
        show "starts_with ''/'' n = starts_with ''/'' (CHR ''%'' # cs) \<and> (contains_sub ''//'' n \<longrightarrow> contains_sub ''//'' (CHR ''%'' # cs)) \<and>
            (\<forall>c \<in> set n. c \<in> set (CHR ''%'' # cs) \<or> c = CHR ''%'' \<or> is_alnum c \<or> UNRESERVED c)"
          using IH hex unreserved_plain(2) [of "chr (16 * x + y)"] by (auto simp: n cs(1) upper_def)
      qed
    qed
  qed (use less in simp)
qed

lemma canonical_guards:
  assumes "scan_path field s = Inr (n, d)" "list_all (\<lambda>g. \<not> fst g) (raw_path_guards s)"
  shows "list_all (\<lambda>g. \<not> fst g) (raw_path_guards n)"
proof -
  have ok: "\<not> code c < 32 \<and> code c \<noteq> 127 \<and> \<not> 127 < code c \<and> c \<notin> FORBIDDEN_RENDER_CHARACTERS \<and> \<not> is_space c"
    if c: "c \<in> set n" for c
  proof -
    from scan_keeps [OF assms(1)] c consider "c \<in> set s" | "c = CHR ''%''" | "is_alnum c" | "UNRESERVED c" by blast
    then show ?thesis
    proof cases
      case 1
      then show ?thesis using assms(2) by (auto simp: raw_path_guards_def list_ex_iff)
    next
      case 4
      then show ?thesis using unreserved_plain [of c] by simp
    qed (auto simp: forbidden_code ascii_defs)
  qed
  then show ?thesis
    using scan_keeps [OF assms(1)] assms(2) by (auto simp: raw_path_guards_def list_ex_iff)
qed

lemma parse_path_Inr:
  "parse_http_path s kind field = Inr p \<longleftrightarrow> list_all (\<lambda>g. \<not> fst g) (raw_path_guards s) \<and>
     (\<exists>d. scan_path field s = Inr (hp_value p, d) \<and> \<not> dot_segments d) \<and> hp_kind p = kind \<and>
     (kind = PREFIX \<longrightarrow> hp_value p \<noteq> ''/'' \<and> \<not> ends_with ''/'' (hp_value p))"
  by (cases p) (auto simp: parse_http_path_def reject_def split: sum.splits)

text \<open>
  C24. A canonical HTTP path is a fixed point: parsing it again gives the same path.
\<close>

theorem parse_http_path_idempotent:
  assumes "parse_http_path s kind field = Inr p"
  shows "parse_http_path (hp_value p) kind field = Inr p"
proof -
  obtain d where d: "scan_path field s = Inr (hp_value p, d)" "\<not> dot_segments d"
    using assms by (auto simp: parse_path_Inr)
  have "scan_path field (hp_value p) = Inr (hp_value p, d)" by (rule scan_again [OF d(1)])
  then show ?thesis
    using assms d canonical_guards [OF d(1)] unfolding parse_path_Inr by blast
qed

text \<open>
  C25. A canonical HTTP path is safe to render: an absolute path of printable ASCII characters without
  route syntax, with no empty segment and no dot segment, plain or percent-encoded, and its decoding is
  the decoding of the original text.
\<close>

theorem parse_http_path_safe:
  assumes "parse_http_path s kind field = Inr p"
  shows "starts_with ''/'' (hp_value p) \<and> \<not> contains_sub ''//'' (hp_value p) \<and>
    list_all (\<lambda>c. 32 < code c \<and> code c < 127 \<and> c \<notin> FORBIDDEN_RENDER_CHARACTERS) (hp_value p) \<and>
    (\<exists>d. scan_path field s = Inr (hp_value p, d) \<and> scan_path field (hp_value p) = Inr (hp_value p, d) \<and>
       \<not> dot_segments d)"
proof -
  obtain d where d: "scan_path field s = Inr (hp_value p, d)" "\<not> dot_segments d" "list_all (\<lambda>g. \<not> fst g) (raw_path_guards s)"
    using assms by (auto simp: parse_path_Inr)
  have "code c \<noteq> 32" if "\<not> is_space c" for c using that by (auto simp: is_space_def)
  then have "list_all (\<lambda>c. 32 < code c \<and> code c < 127 \<and> c \<notin> FORBIDDEN_RENDER_CHARACTERS) (hp_value p)"
    using canonical_guards [OF d(1,3)] by (fastforce simp: raw_path_guards_def list_ex_iff list_all_iff)
  then show ?thesis
    using canonical_guards [OF d(1,3)] d scan_again [OF d(1)] by (auto simp: raw_path_guards_def)
qed

lemma sample_path: "parse_http_path ''/api/%7euser/%2d%c3%a9'' PREFIX ''path'' = Inr \<lparr>hp_value = ''/api/~user/-%C3%A9'', hp_kind = PREFIX\<rparr>"
  by code_simp

theorem parse_http_path_idempotent_witness:
  "parse_http_path ''/api/~user/-%C3%A9'' PREFIX ''path'' = Inr \<lparr>hp_value = ''/api/~user/-%C3%A9'', hp_kind = PREFIX\<rparr>"
  using parse_http_path_idempotent [OF sample_path] by simp

theorem parse_http_path_safe_witness:
  "\<exists>d. scan_path ''path'' ''/api/%7euser/%2d%c3%a9'' = Inr (''/api/~user/-%C3%A9'', d) \<and>
     scan_path ''path'' ''/api/~user/-%C3%A9'' = Inr (''/api/~user/-%C3%A9'', d) \<and> \<not> dot_segments d"
  using parse_http_path_safe [OF sample_path] by auto

end
