(* ===== verification/Archives.thy ===== *)
theory Archives
  imports Texts
begin

text \<open>
  Extraction-free inspection of tar archives, \<^verbatim>\<open>src/ophelia/validation/artifacts.py\<close>. What \<^verbatim>\<open>tarfile\<close> and the
  operating system report is a parameter: the member headers in order, whether reading them breaks off,
  and the bytes at a position. A member name is given by its UTF-8 encoding, with lone surrogates
  encoded like other code points, so that a \<open>char\<close> is a byte here; the tests of the code look only at
  ASCII characters, which are bytes of their own. \<^verbatim>\<open>unicodedata.normalize\<close> is the parameter \<open>nfc\<close>.
\<close>

section \<open>Data\<close>

record archive_error =
  ae_code :: string
  ae_message :: string

type_synonym 'a inspected = "archive_error + 'a"

definition DIAGNOSTIC_LIMIT :: nat where
  "DIAGNOSTIC_LIMIT = 240"

definition refuse :: "string \<Rightarrow> string \<Rightarrow> 'a inspected" where
  "refuse issue message = Inl \<lparr>ae_code = issue, ae_message = take DIAGNOSTIC_LIMIT (join '' '' (text_split message))\<rparr>"

fun refuse_first :: "(bool \<times> string \<times> string) list \<Rightarrow> 'a inspected \<Rightarrow> 'a inspected" where
  "refuse_first [] r = r"
| "refuse_first ((bad, issue, message) # guards) r = (if bad then refuse issue message else refuse_first guards r)"

lemma refuse_first_Inr [simp]: "refuse_first guards r = Inr x \<longleftrightarrow> list_all (\<lambda>g. \<not> fst g) guards \<and> r = Inr x"
  by (induction guards) (auto simp: refuse_def split: prod.splits if_splits)

declare refuse_first.simps [simp del]

record archive_limits =
  max_source_bytes :: int
  max_members :: int
  max_total_unpacked_bytes :: int
  max_member_bytes :: int
  max_path_bytes :: int
  max_path_depth :: int
  max_expansion_ratio :: int

definition default_limits :: archive_limits where
  "default_limits = \<lparr>max_source_bytes = 1024 * 1024 * 1024, max_members = 100000,
     max_total_unpacked_bytes = 4 * 1024 * 1024 * 1024, max_member_bytes = 1024 * 1024 * 1024, max_path_bytes = 4096,
     max_path_depth = 64, max_expansion_ratio = 100\<rparr>"

record archive_member =
  am_path :: string
  am_kind :: string
  am_size :: int

record archive_inspection =
  ai_source_bytes :: int
  ai_member_count :: int
  ai_total_unpacked_bytes :: int
  ai_members :: "archive_member list"

record source_snapshot =
  sn_device :: int
  sn_inode :: int
  sn_size :: int
  sn_mtime_ns :: int
  sn_ctime_ns :: int

text \<open>The header of a member as \<^verbatim>\<open>tarfile\<close> gives it.\<close>

record tar_info =
  ti_name :: string
  ti_type :: char
  ti_size :: int
  ti_offset_data :: int
  ti_sparse :: bool
  ti_pax_headers :: "string list"

record tar_stream =
  ts_members :: "tar_info list"
  ts_broken :: bool
  ts_read :: "int \<Rightarrow> string option"

record archive_source =
  sc_openable :: bool
  sc_regular :: bool
  sc_before :: "source_snapshot option"
  sc_after :: "source_snapshot option"
  sc_name :: string
  sc_magic :: "string option"
  sc_tar :: "tar_stream option"

section \<open>Checks\<close>

definition validate_limits :: "archive_limits \<Rightarrow> unit inspected" where
  "validate_limits limits =
     refuse_first (map (\<lambda>(name, v). (v \<le> 0, ''invalid_archive_limits'', name @ '' must be a positive integer.''))
       [(''max_source_bytes'', max_source_bytes limits), (''max_members'', max_members limits),
        (''max_total_unpacked_bytes'', max_total_unpacked_bytes limits), (''max_member_bytes'', max_member_bytes limits),
        (''max_path_bytes'', max_path_bytes limits), (''max_path_depth'', max_path_depth limits),
        (''max_expansion_ratio'', max_expansion_ratio limits)]) (Inr ())"

definition drive_path :: "string \<Rightarrow> bool" where
  "drive_path s = (case s of c # d # _ \<Rightarrow> (is_lower c \<or> is_upper c) \<and> d = CHR '':'' | _ \<Rightarrow> False)"

text \<open>A text with a surrogate cannot be encoded; in the generalised encoding a surrogate starts with these two bytes.\<close>

fun has_surrogate :: "string \<Rightarrow> bool" where
  "has_surrogate (c # d # s) = (code c = 237 \<and> 160 \<le> code d \<or> has_surrogate (d # s))"
| "has_surrogate s = False"

text \<open>One leading \<^verbatim>\<open>./\<close> and, for a directory, one trailing slash are dropped.\<close>

definition without_prefix :: "string \<Rightarrow> string" where
  "without_prefix name = (if starts_with ''./'' name then drop 2 name else name)"

definition without_slash :: "bool \<Rightarrow> string \<Rightarrow> string" where
  "without_slash is_directory s = (if is_directory \<and> ends_with ''/'' s then butlast s else s)"

definition canonical_path :: "(string \<Rightarrow> string) \<Rightarrow> string \<Rightarrow> bool \<Rightarrow> archive_limits \<Rightarrow> string inspected" where
  "canonical_path nfc name is_directory limits =
     (let relative = without_prefix name;
          candidate = nfc (without_slash is_directory relative);
          segments = split_on CHR ''/'' candidate
      in refuse_first
        [(name = [], ''archive_member_path_invalid'', ''archive member path is empty or invalid.''),
         (chr 92 \<in> set name, ''archive_member_path_backslash'', ''archive member path contains a backslash.''),
         (list_ex (\<lambda>c. code c < 32 \<or> code c = 127) name, ''archive_member_path_control'',
          ''archive member path contains a control character.''),
         (starts_with ''./'' relative, ''archive_member_path_invalid'', ''archive member path has repeated dot prefixes.''),
         (starts_with ''/'' relative \<or> starts_with ''//'' relative \<or> drive_path relative, ''archive_member_path_absolute'',
          ''archive member path is absolute.''),
         (candidate = [] \<or> list_ex (\<lambda>segment. segment \<in> {[], ''.'', ''..''}) segments, ''archive_member_path_invalid'',
          ''archive member path has a non-canonical segment.''),
         (has_surrogate candidate, ''archive_member_path_invalid'', ''archive member path is not valid UTF-8.''),
         (max_path_bytes limits < int (length candidate), ''archive_member_path_too_long'',
          ''archive member path exceeds the configured limit.''),
         (max_path_depth limits < int (length segments), ''archive_member_path_too_deep'',
          ''archive member path exceeds the configured depth.'')]
        (Inr candidate))"

definition unsupported_format :: "string \<Rightarrow> string option \<Rightarrow> unit inspected" where
  "unsupported_format name magic =
     (case magic of
        None \<Rightarrow> refuse ''archive_source_read_failed'' ''archive source header could not be read.''
      | Some m \<Rightarrow>
          refuse_first
            [(list_ex (\<lambda>suffix. ends_with suffix (lower name)) [''.tar.zst'', ''.tar.zstd'', ''.tzst''] \<or>
                m = map chr [40, 181, 47, 253], ''archive_compression_unsupported'',
              ''zstd-compressed tar archives are unsupported.'')] (Inr ()))"

definition member_kind :: "tar_info \<Rightarrow> string inspected" where
  "member_kind info =
     (if ti_type info = CHR ''5'' then Inr ''directory''
      else if ti_type info \<in> {CHR ''0'', chr 0} then Inr ''file''
      else refuse_first
        [(ti_type info = CHR ''2'', ''archive_member_symlink'', ''archive contains a symbolic link.''),
         (ti_type info = CHR ''1'', ''archive_member_hardlink'', ''archive contains a hard link.''),
         (ti_type info \<in> {CHR ''3'', CHR ''4''}, ''archive_member_device'', ''archive contains a device member.''),
         (ti_type info = CHR ''6'', ''archive_member_fifo'', ''archive contains a FIFO member.'')]
        (refuse ''archive_member_special'' ''archive contains an unsupported special member.''))"

text \<open>The directories a member needs.\<close>

definition ancestors :: "string \<Rightarrow> string list" where
  "ancestors path = (let parts = split_on CHR ''/'' path in map (\<lambda>k. join ''/'' (take k parts)) [1..<length parts])"

section \<open>The inspection\<close>

record inspection_state =
  is_members :: "archive_member list"
  is_destinations :: "string list"
  is_files :: "string list"
  is_required :: "string list"
  is_total :: int
  is_payload_end :: int

definition BLOCKSIZE :: int where
  "BLOCKSIZE = 512"

definition sparse_member :: "tar_info \<Rightarrow> bool" where
  "sparse_member info \<longleftrightarrow> ti_type info = CHR ''S'' \<or> ti_sparse info \<or>
     list_ex (\<lambda>key. starts_with ''GNU.sparse'' key \<or> starts_with ''SCHILY.realsize'' key) (ti_pax_headers info)"

definition add_member :: "string \<Rightarrow> string \<Rightarrow> tar_info \<Rightarrow> inspection_state \<Rightarrow> inspection_state" where
  "add_member kind canonical info st =
     (let size = ti_size info; padded_size = ((size + BLOCKSIZE - 1) div BLOCKSIZE) * BLOCKSIZE in
      st\<lparr>is_members := is_members st @ [\<lparr>am_path = canonical, am_kind = kind, am_size = size\<rparr>],
         is_destinations := canonical # is_destinations st,
         is_required := ancestors canonical @ is_required st,
         is_files := (if kind = ''file'' then canonical # is_files st else is_files st),
         is_payload_end := max (is_payload_end st) (ti_offset_data info + padded_size),
         is_total := is_total st + size\<rparr>)"

definition inspect_member ::
  "(string \<Rightarrow> string) \<Rightarrow> archive_limits \<Rightarrow> int \<Rightarrow> tar_info \<Rightarrow> inspection_state \<Rightarrow> inspection_state inspected" where
  "inspect_member nfc limits source_bytes info st =
     refuse_first
       [(max_members limits \<le> int (length (is_members st)), ''archive_member_count_exceeded'',
         ''archive member count exceeds the configured limit.''),
        (sparse_member info, ''archive_member_sparse'', ''archive contains sparse member metadata.'')]
       (case member_kind info of
          Inl e \<Rightarrow> Inl e
        | Inr kind \<Rightarrow>
            refuse_first
              [(ti_size info < 0, ''archive_member_size_invalid'', ''archive member has an invalid declared size.''),
               (kind = ''directory'' \<and> ti_size info \<noteq> 0, ''archive_member_size_invalid'',
                ''archive directory has a non-zero declared size.''),
               (max_member_bytes limits < ti_size info, ''archive_member_size_exceeded'',
                ''archive member exceeds the configured size limit.'')]
              (case canonical_path nfc (ti_name info) (kind = ''directory'') limits of
                 Inl e \<Rightarrow> Inl e
               | Inr canonical \<Rightarrow>
                   (let st' = add_member kind canonical info st in
                    refuse_first
                      [(canonical \<in> set (is_destinations st), ''archive_member_duplicate'',
                        ''archive has duplicate canonical destinations.''),
                       (list_ex (\<lambda>a. a \<in> set (is_files st)) (ancestors canonical), ''archive_member_path_conflict'',
                        ''archive member is nested beneath a file destination.''),
                       (kind = ''file'' \<and> canonical \<in> set (is_required st), ''archive_member_path_conflict'',
                        ''archive file destination is already required as a directory.''),
                       (max_total_unpacked_bytes limits < is_total st', ''archive_total_size_exceeded'',
                        ''archive declared size exceeds the configured limit.''),
                       (source_bytes * max_expansion_ratio limits < is_total st', ''archive_expansion_ratio_exceeded'',
                        ''archive declared expansion ratio exceeds the configured limit.'')]
                      (Inr st'))))"

fun inspect_members :: "(string \<Rightarrow> string) \<Rightarrow> archive_limits \<Rightarrow> int \<Rightarrow> tar_info list \<Rightarrow> inspection_state \<Rightarrow> inspection_state inspected" where
  "inspect_members nfc limits source_bytes [] st = Inr st"
| "inspect_members nfc limits source_bytes (info # infos) st =
     (case inspect_member nfc limits source_bytes info st of
        Inl e \<Rightarrow> Inl e
      | Inr st' \<Rightarrow> inspect_members nfc limits source_bytes infos st')"

definition verify_tar_termination :: "tar_stream \<Rightarrow> int \<Rightarrow> unit inspected" where
  "verify_tar_termination tar final_payload_end =
     (case ts_read tar final_payload_end of
        None \<Rightarrow> refuse ''archive_malformed'' ''archive termination could not be verified.''
      | Some terminator \<Rightarrow>
          refuse_first
            [(int (length terminator) \<noteq> BLOCKSIZE * 2 \<or> list_ex (\<lambda>c. code c \<noteq> 0) terminator, ''archive_malformed'',
              ''archive is missing its required zero-block terminator.'')] (Inr ()))"

definition initial_state :: inspection_state where
  "initial_state = \<lparr>is_members = [], is_destinations = [], is_files = [], is_required = [], is_total = 0, is_payload_end = 0\<rparr>"

definition inspect_open_source :: "(string \<Rightarrow> string) \<Rightarrow> archive_source \<Rightarrow> int \<Rightarrow> archive_limits \<Rightarrow> archive_inspection inspected" where
  "inspect_open_source nfc source source_bytes limits =
     (case unsupported_format (sc_name source) (sc_magic source) of
        Inl e \<Rightarrow> Inl e
      | Inr _ \<Rightarrow>
          (case sc_tar source of
             None \<Rightarrow> refuse ''archive_malformed'' ''archive is malformed, truncated, or unsupported.''
           | Some tar \<Rightarrow>
               (case inspect_members nfc limits source_bytes (ts_members tar) initial_state of
                  Inl e \<Rightarrow> Inl e
                | Inr st \<Rightarrow>
                    refuse_first
                      [(ts_broken tar, ''archive_malformed'', ''archive is malformed, truncated, or unsupported.'')]
                      (case verify_tar_termination tar (is_payload_end st) of
                         Inl e \<Rightarrow> Inl e
                       | Inr _ \<Rightarrow> Inr \<lparr>ai_source_bytes = source_bytes, ai_member_count = int (length (is_members st)),
                           ai_total_unpacked_bytes = is_total st, ai_members = is_members st\<rparr>))))"

definition snapshot :: "source_snapshot option \<Rightarrow> source_snapshot inspected" where
  "snapshot s = (case s of None \<Rightarrow> refuse ''archive_source_stat_failed'' ''archive source metadata could not be read.''
     | Some v \<Rightarrow> Inr v)"

definition inspect_archive :: "(string \<Rightarrow> string) \<Rightarrow> archive_source \<Rightarrow> archive_limits \<Rightarrow> archive_inspection inspected" where
  "inspect_archive nfc source limits =
     (case validate_limits limits of
        Inl e \<Rightarrow> Inl e
      | Inr _ \<Rightarrow>
          refuse_first
            [(\<not> sc_openable source, ''archive_source_open_failed'', ''archive source could not be opened.''),
             (\<not> sc_regular source, ''archive_source_not_regular'', ''archive source must be a regular file.'')]
            (case snapshot (sc_before source) of
               Inl e \<Rightarrow> Inl e
             | Inr before \<Rightarrow>
                 refuse_first
                   [(max_source_bytes limits < sn_size before, ''archive_source_size_exceeded'',
                     ''archive source exceeds the configured size limit.''),
                    (sn_size before \<le> 0, ''archive_malformed'', ''archive is empty.'')]
                   (let result = inspect_open_source nfc source (sn_size before) limits in
                    case snapshot (sc_after source) of
                      Inl e \<Rightarrow> Inl e
                    | Inr after \<Rightarrow>
                        refuse_first
                          [(after \<noteq> before, ''archive_source_mutated'', ''archive source changed during inspection.'')]
                          result)))"

section \<open>Safe extraction\<close>

text \<open>A relative path that stays below the directory it is extracted to, whatever precedes it there.\<close>

definition contained :: "archive_limits \<Rightarrow> string \<Rightarrow> bool" where
  "contained limits path \<longleftrightarrow> path \<noteq> [] \<and> \<not> starts_with ''/'' path \<and> \<not> has_surrogate path \<and>
     list_all (\<lambda>segment. segment \<notin> {[], ''.'', ''..''}) (split_on CHR ''/'' path) \<and>
     int (length path) \<le> max_path_bytes limits \<and> int (length (split_on CHR ''/'' path)) \<le> max_path_depth limits"

text \<open>A path without a drive letter, without backslashes and without control characters.\<close>

definition portable :: "string \<Rightarrow> bool" where
  "portable path \<longleftrightarrow> \<not> drive_path path \<and> list_all (\<lambda>c. 32 \<le> code c \<and> code c \<noteq> 127 \<and> code c \<noteq> 92) path"

text \<open>The normalisation leaves the names of the members alone.\<close>

definition normalized_names :: "(string \<Rightarrow> string) \<Rightarrow> archive_source \<Rightarrow> bool" where
  "normalized_names nfc source \<longleftrightarrow> (\<forall>tar. sc_tar source = Some tar \<longrightarrow>
     list_all (\<lambda>info. \<forall>is_directory. nfc (without_slash is_directory (without_prefix (ti_name info))) =
       without_slash is_directory (without_prefix (ti_name info))) (ts_members tar))"

definition collides :: "archive_member \<Rightarrow> archive_member \<Rightarrow> bool" where
  "collides f m \<longleftrightarrow> am_kind f = ''file'' \<and> am_path f \<in> set (ancestors (am_path m))"

definition extractable :: "archive_limits \<Rightarrow> int \<Rightarrow> archive_member list \<Rightarrow> bool" where
  "extractable limits source_bytes members \<longleftrightarrow>
     int (length members) \<le> max_members limits \<and> distinct (map am_path members) \<and>
     list_all (\<lambda>m. contained limits (am_path m) \<and> am_kind m \<in> {''file'', ''directory''} \<and>
       0 \<le> am_size m \<and> am_size m \<le> max_member_bytes limits) members \<and>
     (\<forall>f \<in> set members. \<forall>m \<in> set members. \<not> collides f m) \<and>
     sum_list (map am_size members) \<le> max_total_unpacked_bytes limits \<and>
     sum_list (map am_size members) \<le> source_bytes * max_expansion_ratio limits"

lemma without_slash_prefix: "\<exists>t. s = without_slash b s @ t"
  by (auto simp: without_slash_def ends_with_iff intro: exI [of _ "[]"])

lemma without_prefix_chars: "set (without_prefix name) \<subseteq> set name"
  by (auto simp: without_prefix_def dest: in_set_dropD)

lemma canonical_path_contained:
  assumes "canonical_path nfc name is_directory limits = Inr path"
  shows "contained limits path"
proof -
  have path: "path = nfc (without_slash is_directory (without_prefix name))"
    and ok: "path \<noteq> []" "\<not> has_surrogate path" "int (length path) \<le> max_path_bytes limits"
      "int (length (split_on CHR ''/'' path)) \<le> max_path_depth limits"
      "list_all (\<lambda>segment. segment \<notin> {[], ''.'', ''..''}) (split_on CHR ''/'' path)"
    using assms by (auto simp: canonical_path_def Let_def list_ex_iff list_all_iff)
  have "\<not> starts_with ''/'' path" using ok(5) by (auto simp: starts_with_iff)
  with ok show ?thesis by (simp add: contained_def)
qed

lemma canonical_path_portable:
  assumes "canonical_path nfc name is_directory limits = Inr path"
    and "nfc (without_slash is_directory (without_prefix name)) = without_slash is_directory (without_prefix name)"
  shows "portable path"
proof -
  let ?rel = "without_prefix name"
  have path: "without_slash is_directory ?rel = path"
    and ok: "\<not> drive_path ?rel" "\<forall>c \<in> set name. \<not> code c < 32 \<and> code c \<noteq> 127" "chr 92 \<notin> set name"
    using assms by (simp_all add: canonical_path_def Let_def list_ex_iff)
  obtain t where t: "?rel = path @ t" using without_slash_prefix [of ?rel is_directory] path by auto
  have sub: "set path \<subseteq> set name" using t without_prefix_chars [of name] by auto
  have "\<not> drive_path path" using ok(1) t by (auto simp: drive_path_def split: list.splits)
  moreover have "list_all (\<lambda>c. 32 \<le> code c \<and> code c \<noteq> 127 \<and> code c \<noteq> 92) path"
    unfolding list_all_iff
  proof
    fix c
    assume "c \<in> set path"
    then have "c \<in> set name" using sub by blast
    then show "32 \<le> code c \<and> code c \<noteq> 127 \<and> code c \<noteq> 92" using ok(2,3) by (metis chr_code not_less)
  qed
  ultimately show ?thesis by (simp add: portable_def)
qed

lemma member_kind_Inr: "member_kind info = Inr kind \<Longrightarrow> kind \<in> {''file'', ''directory''}"
  by (auto simp: member_kind_def refuse_def split: if_splits)

definition recorded :: "inspection_state \<Rightarrow> bool" where
  "recorded st \<longleftrightarrow> set (is_destinations st) = am_path ` set (is_members st) \<and>
     set (is_files st) = am_path ` {m \<in> set (is_members st). am_kind m = ''file''} \<and>
     set (is_required st) = (\<Union>m \<in> set (is_members st). set (ancestors (am_path m))) \<and>
     is_total st = sum_list (map am_size (is_members st))"

lemma ancestors_shorter: "a \<in> set (ancestors path) \<Longrightarrow> a \<noteq> path"
proof
  assume a: "a \<in> set (ancestors path)" "a = path"
  then obtain k where k: "1 \<le> k" "k < length (split_on CHR ''/'' path)" "path = join ''/'' (take k (split_on CHR ''/'' path))"
    by (auto simp: ancestors_def Let_def)
  have "split_on CHR ''/'' (join ''/'' (take k (split_on CHR ''/'' path))) = take k (split_on CHR ''/'' path)"
    using k(1,2) split_on_words by (intro split_on_join) (auto dest: in_set_takeD)
  then have "split_on CHR ''/'' path = take k (split_on CHR ''/'' path)" using k(3) by metis
  then show False using k(2) by (metis length_take min.absorb2 nat_less_le order.strict_implies_order)
qed

lemma inspect_member_Inr:
  assumes "inspect_member nfc limits source_bytes info st = Inr st'"
  obtains kind path where "st' = add_member kind path info st" "kind \<in> {''file'', ''directory''}" "contained limits path"
    "int (length (is_members st)) < max_members limits" "0 \<le> ti_size info" "ti_size info \<le> max_member_bytes limits"
    "path \<notin> set (is_destinations st)" "\<forall>a \<in> set (ancestors path). a \<notin> set (is_files st)"
    "kind = ''file'' \<longrightarrow> path \<notin> set (is_required st)"
    "is_total st' \<le> max_total_unpacked_bytes limits" "is_total st' \<le> source_bytes * max_expansion_ratio limits"
    "canonical_path nfc (ti_name info) (kind = ''directory'') limits = Inr path"
proof -
  obtain kind where kind: "member_kind info = Inr kind"
    using assms by (cases "member_kind info") (auto simp: inspect_member_def)
  obtain path where path: "canonical_path nfc (ti_name info) (kind = ''directory'') limits = Inr path"
    using assms kind by (cases "canonical_path nfc (ti_name info) (kind = ''directory'') limits") (auto simp: inspect_member_def)
  show thesis
    by (rule that [of kind path])
       (use assms kind path member_kind_Inr [OF kind] canonical_path_contained [OF path] in
         \<open>simp_all add: inspect_member_def Let_def list_ex_iff\<close>, auto)
qed

lemma recorded_add:
  assumes "recorded st"
  shows "recorded (add_member kind path info st)"
proof -
  have "{m. (m = x \<or> m \<in> A) \<and> P m} = (if P x then {x} else {}) \<union> {m \<in> A. P m}" for x A and P :: "archive_member \<Rightarrow> bool" by auto
  then show ?thesis using assms by (auto simp: recorded_def add_member_def Let_def)
qed

lemma extractable_add:
  assumes st: "recorded st" "extractable limits source_bytes (is_members st)"
    and run: "inspect_member nfc limits source_bytes info st = Inr st'"
  shows "extractable limits source_bytes (is_members st')"
  using run
proof (rule inspect_member_Inr)
  fix kind path
  let ?m = "\<lparr>am_path = path, am_kind = kind, am_size = ti_size info\<rparr>"
  assume st': "st' = add_member kind path info st" and kind: "kind \<in> {''file'', ''directory''}" and c: "contained limits path"
    and n: "int (length (is_members st)) < max_members limits" and size: "0 \<le> ti_size info" "ti_size info \<le> max_member_bytes limits"
    and fresh: "path \<notin> set (is_destinations st)" "\<forall>a \<in> set (ancestors path). a \<notin> set (is_files st)"
      "kind = ''file'' \<longrightarrow> path \<notin> set (is_required st)"
    and total: "is_total st' \<le> max_total_unpacked_bytes limits" "is_total st' \<le> source_bytes * max_expansion_ratio limits"
  have ms: "is_members st' = is_members st @ [?m]" by (simp add: st' add_member_def Let_def)
  have "is_total st' = sum_list (map am_size (is_members st'))" using recorded_add [OF st(1)] by (simp add: recorded_def st')
  moreover have "\<not> collides f ?m" if "f \<in> set (is_members st)" for f
    using that fresh(2) st(1) by (auto simp: collides_def recorded_def)
  moreover have "\<not> collides ?m m" if "m \<in> set (is_members st)" for m
    using that fresh(3) st(1) by (auto simp: collides_def recorded_def)
  moreover have "\<not> collides ?m ?m" using ancestors_shorter by (auto simp: collides_def)
  moreover have "path \<notin> am_path ` set (is_members st)" using fresh(1) st(1) by (simp add: recorded_def)
  ultimately show ?thesis
    using st(2) kind c n size total unfolding extractable_def ms by auto
qed

lemma inspect_members_extractable:
  assumes "inspect_members nfc limits source_bytes infos st = Inr st'" "recorded st" "extractable limits source_bytes (is_members st)"
  shows "recorded st' \<and> extractable limits source_bytes (is_members st')"
  using assms
proof (induction infos arbitrary: st)
  case (Cons info infos)
  obtain t where t: "inspect_member nfc limits source_bytes info st = Inr t" "inspect_members nfc limits source_bytes infos t = Inr st'"
    using Cons.prems(1) by (auto split: sum.splits)
  have "recorded t" using t(1) Cons.prems(2) recorded_add by (auto elim!: inspect_member_Inr)
  then show ?case using Cons.IH [OF t(2)] extractable_add [OF Cons.prems(2,3) t(1)] by blast
qed simp

lemma inspect_members_portable:
  assumes "inspect_members nfc limits source_bytes infos st = Inr st'" "list_all (\<lambda>m. portable (am_path m)) (is_members st)"
    "list_all (\<lambda>info. \<forall>is_directory. nfc (without_slash is_directory (without_prefix (ti_name info))) =
      without_slash is_directory (without_prefix (ti_name info))) infos"
  shows "list_all (\<lambda>m. portable (am_path m)) (is_members st')"
  using assms
proof (induction infos arbitrary: st)
  case (Cons info infos)
  obtain t where t: "inspect_member nfc limits source_bytes info st = Inr t" "inspect_members nfc limits source_bytes infos t = Inr st'"
    using Cons.prems(1) by (auto split: sum.splits)
  from t(1) obtain kind path where "t = add_member kind path info st"
    "canonical_path nfc (ti_name info) (kind = ''directory'') limits = Inr path" by (rule inspect_member_Inr)
  then have "list_all (\<lambda>m. portable (am_path m)) (is_members t)"
    using Cons.prems(2,3) canonical_path_portable [of nfc "ti_name info" _ limits path] by (simp add: add_member_def Let_def)
  then show ?case using Cons.IH [OF t(2)] Cons.prems(3) by simp
qed simp

text \<open>
  C21. An archive that passes inspection is safe to extract, whatever Unicode normalisation does to the
  names: its members have distinct relative paths without dot segments, no member needs a directory
  where another member is a file, whatever the order of the two, and count, sizes, path lengths and
  expansion stay within the limits. When the names are already normalised, no path has a drive
  letter, a backslash or a control character.
\<close>

theorem inspect_archive_extractable:
  assumes "inspect_archive nfc source limits = Inr result"
  shows "extractable limits (ai_source_bytes result) (ai_members result) \<and> ai_member_count result = int (length (ai_members result)) \<and>
    ai_total_unpacked_bytes result = sum_list (map am_size (ai_members result)) \<and> ai_source_bytes result \<le> max_source_bytes limits \<and>
    (normalized_names nfc source \<longrightarrow> list_all (\<lambda>m. portable (am_path m)) (ai_members result))"
proof -
  obtain b :: source_snapshot where b: "validate_limits limits = Inr ()" "\<not> max_source_bytes limits < sn_size b" "\<not> sn_size b \<le> 0"
    and run: "inspect_open_source nfc source (sn_size b) limits = Inr result"
    using assms by (auto simp: inspect_archive_def Let_def split: sum.splits)
  obtain tar :: tar_stream and st where tar: "sc_tar source = Some tar"
    and st: "inspect_members nfc limits (sn_size b) (ts_members tar) initial_state = Inr st"
    and result: "result = \<lparr>ai_source_bytes = sn_size b, ai_member_count = int (length (is_members st)),
      ai_total_unpacked_bytes = is_total st, ai_members = is_members st\<rparr>"
    using run by (auto simp: inspect_open_source_def refuse_def split: sum.splits option.splits)
  have "0 < max_members limits" "0 < max_total_unpacked_bytes limits" "0 < max_expansion_ratio limits"
    using b(1) by (simp_all add: validate_limits_def)
  then have "recorded initial_state" "extractable limits (sn_size b) (is_members initial_state)"
    using b(3) by (simp_all add: recorded_def extractable_def initial_state_def)
  moreover have "normalized_names nfc source \<Longrightarrow> list_all (\<lambda>m. portable (am_path m)) (is_members st)"
    using inspect_members_portable [OF st] tar by (simp add: normalized_names_def initial_state_def)
  ultimately show ?thesis using inspect_members_extractable [OF st] b(2) by (simp add: result recorded_def)
qed

definition sample_tar :: archive_source where
  "sample_tar = \<lparr>sc_openable = True, sc_regular = True,
     sc_before = Some \<lparr>sn_device = 1, sn_inode = 2, sn_size = 10240, sn_mtime_ns = 3, sn_ctime_ns = 3\<rparr>,
     sc_after = Some \<lparr>sn_device = 1, sn_inode = 2, sn_size = 10240, sn_mtime_ns = 3, sn_ctime_ns = 3\<rparr>,
     sc_name = ''site.tar'', sc_magic = Some ''./si'',
     sc_tar = Some \<lparr>ts_members =
       [\<lparr>ti_name = ''./site/'', ti_type = CHR ''5'', ti_size = 0, ti_offset_data = 512, ti_sparse = False, ti_pax_headers = []\<rparr>,
        \<lparr>ti_name = ''site/index.html'', ti_type = CHR ''0'', ti_size = 700, ti_offset_data = 1024, ti_sparse = False, ti_pax_headers = []\<rparr>],
       ts_broken = False, ts_read = (\<lambda>n. if n = 2048 then Some (replicate 1024 (chr 0)) else None)\<rparr>\<rparr>"

theorem inspect_archive_extractable_witness:
  "\<exists>result. inspect_archive id sample_tar default_limits = Inr result \<and> map am_path (ai_members result) = [''site'', ''site/index.html''] \<and>
     extractable default_limits (ai_source_bytes result) (ai_members result) \<and> list_all (\<lambda>m. portable (am_path m)) (ai_members result)"
proof -
  have "inspect_archive id sample_tar default_limits = Inr \<lparr>ai_source_bytes = 10240, ai_member_count = 2, ai_total_unpacked_bytes = 700,
      ai_members = [\<lparr>am_path = ''site'', am_kind = ''directory'', am_size = 0\<rparr>,
        \<lparr>am_path = ''site/index.html'', am_kind = ''file'', am_size = 700\<rparr>]\<rparr>"
    by code_simp
  moreover have "normalized_names id sample_tar" by (simp add: normalized_names_def list_all_iff)
  ultimately show ?thesis using inspect_archive_extractable by force
qed

section \<open>Drive letters made by normalisation\<close>

text \<open>
  C28. The test for drive letters precedes the normalisation: a printable file name that is not a drive path
  is accepted with its normalised form, and when that form is a drive path within the limits the
  inspection hands out a drive path.
\<close>

theorem normalized_drive_path:
  assumes "portable name" and "\<not> starts_with ''/'' name" and "\<not> starts_with ''./'' name" and "name \<noteq> []"
    and "drive_path (nfc name)" and "contained limits (nfc name)"
  shows "canonical_path nfc name False limits = Inr (nfc name) \<and> \<not> portable (nfc name)"
proof -
  have "without_slash False (without_prefix name) = name" "without_prefix name = name"
    using assms(3) by (simp_all add: without_prefix_def without_slash_def)
  moreover have "chr 92 \<notin> set name" "\<forall>c \<in> set name. \<not> code c < 32 \<and> code c \<noteq> 127"
    using assms(1) by (auto simp: portable_def list_all_iff)
  moreover have "\<not> starts_with ''//'' name" using assms(2) by (auto simp: starts_with_iff)
  ultimately show ?thesis
    using assms by (simp add: canonical_path_def Let_def portable_def contained_def list_ex_iff list_all_iff)
qed

text \<open>The Kelvin sign, whose canonical decomposition is the letter K.\<close>

definition kelvin_nfc :: "string \<Rightarrow> string" where
  "kelvin_nfc s = (if starts_with (map chr [226, 132, 170]) s then CHR ''K'' # drop 3 s else s)"

theorem normalized_drive_path_witness:
  "canonical_path kelvin_nfc (map chr [226, 132, 170] @ '':/x'') False default_limits = Inr ''K:/x'' \<and> \<not> portable ''K:/x''"
proof -
  let ?name = "map chr [226, 132, 170] @ '':/x''"
  have name: "portable ?name" "\<not> starts_with ''/'' ?name" "\<not> starts_with ''./'' ?name" "?name \<noteq> []"
    and k: "drive_path (kelvin_nfc ?name)" "contained default_limits (kelvin_nfc ?name)" "kelvin_nfc ?name = ''K:/x''"
    by code_simp+
  show ?thesis using normalized_drive_path [OF name, of kelvin_nfc default_limits] k by simp
qed

end
