(* ===== verification/Agent_Store.thy ===== *)
theory Agent_Store
  imports Integrity
begin

text \<open>
  \<^verbatim>\<open>AgentStore\<close> of \<^verbatim>\<open>src/ophelia/daemon/agent_store.py\<close>: the inbound commands of the remote control
  plane, numbered without gaps above what was acknowledged, and the delivery of their results in
  order. It works in the transactions of the operation journal, on two tables of the same database.
\<close>

section \<open>Commands\<close>

definition COMMAND_ID :: rx where
  "COMMAND_ID = RSeq (rtext ''command_'') (RSeq (RClass (\<lambda>c. is_alnum c \<or> c = CHR ''_'' \<or> c = CHR ''-''))
     (rupto 246 (RClass (\<lambda>c. is_alnum c \<or> c = CHR ''_'' \<or> c = CHR ''-''))))"

definition AGENT_TERMINAL :: "string list" where
  "AGENT_TERMINAL = [''succeeded'', ''failed'']"

definition BUNDLE_OPERATIONS :: "string list" where
  "BUNDLE_OPERATIONS = [''manifest.plan'', ''host.upgrade'']"

record agent_command =
  cm_command_id :: string
  cm_sequence :: int
  cm_operation :: string
  cm_actor_id :: string
  cm_envelope_digest :: string
  cm_payload :: json
  cm_state :: string
  cm_accepted_at :: string
  cm_started_at :: "string option"
  cm_completed_at :: "string option"
  cm_result_digest :: "string option"
  cm_result :: "json option"

definition agent_command_from_row :: "agent_command_row \<Rightarrow> agent_command res" where
  "agent_command_from_row row =
     bind_res (case ag_result_json row of None \<Rightarrow> Inr None | Some s \<Rightarrow> bind_res (loads s) (\<lambda>j. Inr (Some j))) (\<lambda>result.
     bind_res (loads (ag_payload_json row)) (\<lambda>payload.
     Inr \<lparr>cm_command_id = ag_command_id row, cm_sequence = ag_sequence row, cm_operation = ag_operation row,
       cm_actor_id = ag_actor_id row, cm_envelope_digest = ag_envelope_digest row, cm_payload = payload,
       cm_state = ag_state row, cm_accepted_at = ag_accepted_at row, cm_started_at = ag_started_at row,
       cm_completed_at = ag_completed_at row, cm_result_digest = ag_result_digest row, cm_result = result\<rparr>))"

text \<open>
  The current time as text. A clock sample that is not finite raises here as in the journal; in the
  code \<^verbatim>\<open>datetime.fromtimestamp\<close> raises \<^verbatim>\<open>OverflowError\<close> or \<^verbatim>\<open>ValueError\<close> for it. \<^verbatim>\<open>time.time\<close>, the default
  clock, is finite.
\<close>

definition store_now :: "string tx" where
  "store_now = tx_bind clock_sample (\<lambda>t. tx_lift (utc_now_text t))"

section \<open>Statements\<close>

definition find_agent :: "string \<Rightarrow> database \<Rightarrow> agent_state_row option" where
  "find_agent host_id db = fetchone (\<lambda>r. ag_host_id r = host_id) (db_agent_state db)"

definition find_command :: "string \<Rightarrow> database \<Rightarrow> agent_command_row option" where
  "find_command command_id db = fetchone (\<lambda>r. ag_command_id r = command_id) (db_agent_commands db)"

definition insert_agent :: "agent_state_row \<Rightarrow> database \<Rightarrow> database" where
  "insert_agent r db =
     (if list_ex (\<lambda>q. ag_host_id q = ag_host_id r) (db_agent_state db) then db
      else db\<lparr>db_agent_state := db_agent_state db @ [r]\<rparr>)"

definition update_agent :: "string \<Rightarrow> (agent_state_row \<Rightarrow> agent_state_row) \<Rightarrow> database \<Rightarrow> database" where
  "update_agent host_id f db =
     db\<lparr>db_agent_state := map (\<lambda>r. if ag_host_id r = host_id then f r else r) (db_agent_state db)\<rparr>"

definition insert_command :: "agent_command_row \<Rightarrow> database \<Rightarrow> database res" where
  "insert_command r db = guarded (first_error
     [sql_require (0 < ag_sequence r \<and> bounded_text (ag_payload_json r)) ''CHECK agent_commands'',
      sql_require (\<not> list_ex (\<lambda>q. ag_command_id q = ag_command_id r) (db_agent_commands db)) ''UNIQUE agent_commands.command_id'',
      sql_require (\<not> list_ex (\<lambda>q. ag_sequence q = ag_sequence r) (db_agent_commands db)) ''UNIQUE agent_commands.sequence''])
     (db\<lparr>db_agent_commands := db_agent_commands db @ [r]\<rparr>)"

definition update_command :: "string \<Rightarrow> (agent_command_row \<Rightarrow> agent_command_row) \<Rightarrow> database \<Rightarrow> database" where
  "update_command command_id f db =
     db\<lparr>db_agent_commands := map (\<lambda>r. if ag_command_id r = command_id then f r else r) (db_agent_commands db)\<rparr>"

text \<open>\<^verbatim>\<open>LIMIT\<close>: a negative limit is none.\<close>

definition sql_limit :: "int \<Rightarrow> 'r list \<Rightarrow> 'r list" where
  "sql_limit limit rows = (if limit < 0 then rows else take (nat limit) rows)"

text \<open>\<^verbatim>\<open>ORDER BY sequence\<close>.\<close>

definition commands_by_sequence :: "database \<Rightarrow> agent_command_row list" where
  "commands_by_sequence db = sort_key ag_sequence (db_agent_commands db)"

definition maximum_sequence :: "database \<Rightarrow> int" where
  "maximum_sequence db = max_or_zero (map ag_sequence (db_agent_commands db))"

definition maximum_acknowledged :: "database \<Rightarrow> int" where
  "maximum_acknowledged db = max_or_zero (map ag_acknowledged (db_agent_state db))"

section \<open>The connection\<close>

definition agent_state :: "string \<Rightarrow> agent_state_row tx" where
  "agent_state host_id = tx_read (\<lambda>db.
     case find_agent host_id db of None \<Rightarrow> Inl (KeyError host_id) | Some row \<Rightarrow> Inr row)"

definition agent_register :: "string \<Rightarrow> agent_state_row tx" where
  "agent_register host_id =
     tx_bind store_now (\<lambda>now.
     tx_bind (transaction (tx_update (insert_agent \<lparr>ag_host_id = host_id, ag_acknowledged = 0, ag_connection_state = ''disconnected'',
       ag_connected_at = None, ag_last_exchange_at = None, ag_last_error_type = None, ag_updated_at = now\<rparr>))) (\<lambda>_.
     agent_state host_id))"

definition record_connection :: "string \<Rightarrow> bool \<Rightarrow> bool \<Rightarrow> string option \<Rightarrow> agent_state_row tx" where
  "record_connection host_id online revoked error_type =
     tx_bind store_now (\<lambda>now.
     tx_bind (transaction (
       tx_bind (tx_query (find_agent host_id)) (\<lambda>row.
         case row of
           None \<Rightarrow> tx_raise (KeyError host_id)
         | Some r \<Rightarrow> tx_update (update_agent host_id (\<lambda>q. q\<lparr>
             ag_connection_state := (if online then ''connected'' else if revoked then ''revoked'' else ''disconnected''),
             ag_connected_at := (if online \<and> ag_connection_state r \<noteq> ''connected'' then Some now else ag_connected_at r),
             ag_last_exchange_at := (if online then Some now else ag_last_exchange_at r),
             ag_last_error_type := (if online then None else error_type), ag_updated_at := now\<rparr>))))) (\<lambda>_.
     agent_state host_id))"

section \<open>Acceptance\<close>

definition agent_request :: "string \<Rightarrow> int \<Rightarrow> string \<Rightarrow> string \<Rightarrow> string \<Rightarrow> json \<Rightarrow> pyval" where
  "agent_request command_id sequence operation actor_id envelope_digest payload = VMap
     [(''schema_version'', VInt 1), (''kind'', VStr ''ophelia.agent-command''), (''command_id'', VStr command_id),
      (''sequence'', VInt sequence), (''operation'', VStr operation), (''actor_id'', VStr actor_id),
      (''envelope_digest'', VStr envelope_digest), (''payload'', of_json payload)]"

definition agent_accept_check :: "string \<Rightarrow> int \<Rightarrow> string \<Rightarrow> string \<Rightarrow> string \<Rightarrow> string \<Rightarrow> json \<Rightarrow> check" where
  "agent_accept_check command_id sequence operation actor_id idempotency_key envelope_digest payload = first_error
     [raise_unless (fullmatch COMMAND_ID command_id) (ValueError ''Agent command id is invalid.''),
      raise_unless (1 \<le> sequence) (ValueError ''Agent command sequence must be a positive integer.''),
      raise_unless (operation \<noteq> [] \<and> length operation \<le> 128) (ValueError ''Agent command operation is invalid.''),
      raise_unless (starts_with ''actor_'' actor_id) (ValueError ''Agent command actor is invalid.''),
      raise_unless (idempotency_key \<noteq> [] \<and> length idempotency_key \<le> 255)
        (ValueError ''Agent command idempotency key is invalid.''),
      raise_unless (is_obj payload) (ValueError ''Agent command payload must be an object.''),
      raise_unless (is_digest envelope_digest) (ValueError ''Agent command envelope digest is invalid.'')]"

definition agent_accept_new ::
  "string \<Rightarrow> int \<Rightarrow> string \<Rightarrow> string \<Rightarrow> string \<Rightarrow> string \<Rightarrow> string \<Rightarrow> string \<Rightarrow> agent_command tx" where
  "agent_accept_new command_id sequence operation actor_id key_digest envelope_digest request_digest payload_json =
     tx_bind (tx_query maximum_sequence) (\<lambda>maximum.
     tx_bind (tx_query maximum_acknowledged) (\<lambda>acknowledged.
     tx_bind (tx_check (conflict (sequence = max maximum acknowledged + 1)
       ''Agent command sequence is not the next durable sequence.'')) (\<lambda>_.
     tx_bind store_now (\<lambda>accepted_at.
     (let row = \<lparr>ag_command_id = command_id, ag_sequence = sequence, ag_operation = operation, ag_actor_id = actor_id,
        ag_key_digest = key_digest, ag_envelope_digest = envelope_digest, ag_request_digest = request_digest,
        ag_payload_json = payload_json, ag_state = ''accepted'', ag_accepted_at = accepted_at, ag_started_at = None,
        ag_completed_at = None, ag_result_digest = None, ag_result_json = None, ag_bundle_pruned_at = None\<rparr>
      in tx_bind (tx_execute (insert_command row)) (\<lambda>_. tx_lift (agent_command_from_row row)))))))"

definition agent_accept ::
  "string \<Rightarrow> int \<Rightarrow> string \<Rightarrow> string \<Rightarrow> string \<Rightarrow> string \<Rightarrow> json \<Rightarrow> agent_command tx" where
  "agent_accept command_id sequence operation actor_id idempotency_key envelope_digest payload =
     tx_bind (tx_check (agent_accept_check command_id sequence operation actor_id idempotency_key envelope_digest payload)) (\<lambda>_.
     tx_bind (tx_lift (bounded_json (of_json payload))) (\<lambda>payload_json.
     (let request_digest = canonical_digest (agent_request command_id sequence operation actor_id envelope_digest payload);
          key_digest = digest_text idempotency_key
      in transaction (
        tx_bind (tx_query (\<lambda>db. fetchone (\<lambda>r. ag_command_id r = command_id \<or> ag_sequence r = sequence) (db_agent_commands db))) (\<lambda>existing.
          case existing of
            Some r \<Rightarrow>
              if ag_command_id r \<noteq> command_id \<or> ag_sequence r \<noteq> sequence \<or> ag_request_digest r \<noteq> request_digest \<or>
                 ag_key_digest r \<noteq> key_digest
              then tx_raise (IdempotencyConflict ''Agent command identity was replayed with different content.'')
              else tx_lift (agent_command_from_row r)
          | None \<Rightarrow> agent_accept_new command_id sequence operation actor_id key_digest envelope_digest request_digest payload_json)))))"

section \<open>Execution\<close>

definition agent_pending :: "int \<Rightarrow> agent_command list tx" where
  "agent_pending limit =
     tx_bind (tx_check (raise_unless (1 \<le> limit \<and> limit \<le> 1000)
       (ValueError ''Agent command limit must be from 1 through 1000.''))) (\<lambda>_.
     tx_read (\<lambda>db. map_res agent_command_from_row
       (take (nat limit) (filter (\<lambda>r. ag_state r \<in> {''accepted'', ''running''}) (commands_by_sequence db)))))"

definition mark_running :: "string \<Rightarrow> agent_command tx" where
  "mark_running command_id = transaction (
     tx_bind (tx_query (find_command command_id)) (\<lambda>row.
       case row of
         None \<Rightarrow> tx_raise (KeyError command_id)
       | Some r \<Rightarrow>
           if ag_state r \<in> set AGENT_TERMINAL then tx_lift (agent_command_from_row r)
           else
             tx_bind (case ag_started_at r of Some t \<Rightarrow> if t \<noteq> [] then tx_return t else store_now | None \<Rightarrow> store_now) (\<lambda>started_at.
             tx_bind (tx_update (update_command command_id (\<lambda>q. q\<lparr>ag_state := ''running'', ag_started_at := Some started_at\<rparr>))) (\<lambda>_.
             tx_lift (agent_command_from_row (r\<lparr>ag_state := ''running'', ag_started_at := Some started_at\<rparr>))))))"

definition agent_complete :: "string \<Rightarrow> bool \<Rightarrow> json \<Rightarrow> agent_command tx" where
  "agent_complete command_id succeeded result =
     tx_bind (tx_lift (bounded_json (of_json result))) (\<lambda>result_json.
     (let result_digest = canonical_digest (of_json result);
          state = (if succeeded then ''succeeded'' else ''failed'')
      in transaction (
        tx_bind (tx_query (find_command command_id)) (\<lambda>row.
          case row of
            None \<Rightarrow> tx_raise (KeyError command_id)
          | Some r \<Rightarrow>
              if ag_state r \<in> set AGENT_TERMINAL then
                if ag_state r \<noteq> state \<or> ag_result_digest r \<noteq> Some result_digest \<or> ag_result_json r \<noteq> Some result_json
                then tx_raise (IdempotencyConflict ''Terminal agent command result cannot be replaced.'')
                else tx_lift (agent_command_from_row r)
              else
                tx_bind store_now (\<lambda>completed_at.
                (let f = (\<lambda>q. q\<lparr>ag_state := state, ag_completed_at := Some completed_at, ag_result_digest := Some result_digest,
                       ag_result_json := Some result_json\<rparr>)
                 in tx_bind (tx_update (update_command command_id f)) (\<lambda>_. tx_lift (agent_command_from_row (f r)))))))))"

section \<open>Delivery\<close>

definition pending_results :: "string \<Rightarrow> int \<Rightarrow> agent_command list tx" where
  "pending_results host_id limit =
     tx_bind (agent_state host_id) (\<lambda>state.
     tx_read (\<lambda>db. map_res agent_command_from_row
       (takeWhile (\<lambda>r. ag_state r \<in> set AGENT_TERMINAL)
         (sql_limit limit (filter (\<lambda>r. ag_acknowledged state < ag_sequence r) (commands_by_sequence db))))))"

definition acknowledge_results :: "string \<Rightarrow> int \<Rightarrow> int tx" where
  "acknowledge_results host_id sequence =
     tx_bind (tx_check (raise_unless (0 \<le> sequence)
       (ValueError ''Acknowledged command sequence must be non-negative.''))) (\<lambda>_.
     transaction (
       tx_bind (tx_query (find_agent host_id)) (\<lambda>state.
         case state of
           None \<Rightarrow> tx_raise (KeyError host_id)
         | Some row \<Rightarrow>
             if sequence \<le> ag_acknowledged row then tx_return (ag_acknowledged row)
             else
               tx_bind (tx_query (\<lambda>db. list_ex (\<lambda>r. ag_sequence r \<le> sequence \<and> ag_state r \<notin> set AGENT_TERMINAL) (db_agent_commands db))) (\<lambda>incomplete.
               tx_bind (tx_check (conflict (\<not> incomplete)
                 ''Command acknowledgement crosses a nonterminal durable command.'')) (\<lambda>_.
               tx_bind store_now (\<lambda>now.
               tx_bind (tx_update (update_agent host_id (\<lambda>q. q\<lparr>ag_acknowledged := sequence, ag_updated_at := now\<rparr>))) (\<lambda>_.
               tx_return sequence)))))))"

definition acknowledged_bundle_ids :: "int \<Rightarrow> string list tx" where
  "acknowledged_bundle_ids sequence =
     tx_bind (tx_check (raise_unless (0 \<le> sequence)
       (ValueError ''Acknowledged command sequence must be non-negative.''))) (\<lambda>_.
     tx_query (\<lambda>db. map ag_command_id (filter (\<lambda>r. ag_sequence r \<le> sequence \<and> ag_state r \<in> set AGENT_TERMINAL \<and>
       ag_operation r \<in> set BUNDLE_OPERATIONS \<and> ag_bundle_pruned_at r = None) (commands_by_sequence db))))"

definition mark_bundle_pruned :: "string \<Rightarrow> unit tx" where
  "mark_bundle_pruned command_id =
     tx_bind (tx_check (raise_unless (fullmatch COMMAND_ID command_id) (ValueError ''Agent command id is invalid.''))) (\<lambda>_.
     transaction (
       tx_bind (tx_query (find_command command_id)) (\<lambda>row.
         case row of
           None \<Rightarrow> tx_raise (KeyError command_id)
         | Some r \<Rightarrow>
             tx_bind (tx_check (conflict (ag_operation r \<in> set BUNDLE_OPERATIONS \<and> ag_state r \<in> set AGENT_TERMINAL)
               ''Only terminal source bundles may be pruned.'')) (\<lambda>_.
             tx_bind store_now (\<lambda>now.
             tx_update (update_command command_id (\<lambda>q. q\<lparr>ag_bundle_pruned_at :=
               (case ag_bundle_pruned_at q of None \<Rightarrow> Some now | Some t \<Rightarrow> Some t)\<rparr>)))))))"

section \<open>Integrity\<close>

text \<open>The agent part of \<^verbatim>\<open>_check_integrity\<close>.\<close>

definition optional_utc :: "string option \<Rightarrow> check" where
  "optional_utc v = optional (\<lambda>t. case parse_utc t of Inl e \<Rightarrow> Some e | Inr _ \<Rightarrow> None) v"

definition check_agent_result :: "agent_command_row \<Rightarrow> check" where
  "check_agent_result row =
     (if ag_state row \<in> set AGENT_TERMINAL then
        first_error
          [(case ag_completed_at row of
              None \<Rightarrow> Some (contract_error ''timestamp'' '' must be a UTC timestamp.'')
            | Some t \<Rightarrow> optional_utc (Some t)),
           (case ag_result_json row of
              None \<Rightarrow> Some (TypeError ''the JSON object must be str, bytes or bytearray, not NoneType'')
            | Some s \<Rightarrow>
                (case loads s of
                   Inl e \<Rightarrow> Some e
                 | Inr result \<Rightarrow> integrity (canonical_json (of_json result) = s \<and>
                     Some (canonical_digest (of_json result)) = ag_result_digest row)
                     ''Agent command result failed digest validation.''))]
      else integrity (ag_completed_at row = None \<and> ag_result_digest row = None \<and> ag_result_json row = None)
        ''Nonterminal agent command contains terminal evidence.'')"

definition check_agent_command :: "int \<Rightarrow> int \<Rightarrow> agent_command_row \<Rightarrow> check" where
  "check_agent_command maximum_ack previous_sequence row =
     (case loads (ag_payload_json row) of
        Inl e \<Rightarrow> Some e
      | Inr payload \<Rightarrow> first_error
          [integrity (\<not> (ag_sequence row \<le> previous_sequence \<or>
               ag_sequence row \<noteq> previous_sequence + 1 \<and> ag_sequence row - 1 > maximum_ack \<or>
               canonical_json (of_json payload) \<noteq> ag_payload_json row \<or>
               canonical_digest (agent_request (ag_command_id row) (ag_sequence row) (ag_operation row) (ag_actor_id row)
                 (ag_envelope_digest row) payload) \<noteq> ag_request_digest row \<or>
               ag_state row \<notin> {''accepted'', ''running'', ''succeeded'', ''failed''}))
             ''Agent command history is not canonical.'',
           require_digest (ag_key_digest row) ''idempotency_key_digest'',
           require_digest (ag_envelope_digest row) ''envelope_digest'',
           optional_utc (Some (ag_accepted_at row)), optional_utc (ag_started_at row),
           check_agent_result row,
           (if ag_bundle_pruned_at row = None then None
            else integrity (ag_state row \<in> set AGENT_TERMINAL \<and> ag_operation row \<in> set BUNDLE_OPERATIONS)
              ''Only terminal source-bundle commands may be marked pruned.''),
           optional_utc (ag_bundle_pruned_at row)])"

fun check_agent_commands :: "int \<Rightarrow> int \<Rightarrow> agent_command_row list \<Rightarrow> check" where
  "check_agent_commands maximum_ack previous_sequence [] = None"
| "check_agent_commands maximum_ack previous_sequence (row # rows) =
     (case check_agent_command maximum_ack previous_sequence row of
        Some e \<Rightarrow> Some e
      | None \<Rightarrow> check_agent_commands maximum_ack (ag_sequence row) rows)"

definition check_agent_state :: "int \<Rightarrow> agent_command_row list \<Rightarrow> agent_state_row \<Rightarrow> check" where
  "check_agent_state maximum_command commands row = first_error
     [integrity (ag_connection_state row \<in> {''connected'', ''disconnected'', ''revoked''} \<and>
         0 \<le> ag_acknowledged row \<and> ag_acknowledged row \<le> maximum_command \<and>
         \<not> list_ex (\<lambda>c. ag_sequence c \<le> ag_acknowledged row \<and> ag_state c \<notin> set AGENT_TERMINAL) commands)
       ''Outbound agent state is internally inconsistent.'',
      optional_utc (Some (ag_updated_at row)), optional_utc (ag_connected_at row), optional_utc (ag_last_exchange_at row)]"

definition check_agent :: "database \<Rightarrow> check" where
  "check_agent db =
     (let commands = commands_by_sequence db; maximum_ack = maximum_acknowledged db in
      case check_agent_commands maximum_ack 0 commands of
        Some e \<Rightarrow> Some e
      | None \<Rightarrow>
          (let maximum_command = max (if commands = [] then 0 else ag_sequence (last commands)) maximum_ack in
           first_error (map (check_agent_state maximum_command commands) (sort_key ag_host_id (db_agent_state db)))))"

end
