(* ===== verification/Daemon_Store.thy ===== *)
theory Daemon_Store
  imports Agent_Store
begin

text \<open>
  \<^verbatim>\<open>DaemonStore\<close> of \<^verbatim>\<open>src/ophelia/daemon/store.py\<close>: the host record, plan requests, host observations
  and one-shot workload runs with their leases and event chains, on tables of the journal's database.
  Where SQLite orders by a timestamp only, rows of the same instant stay in the order of insertion.
\<close>

section \<open>Rows\<close>

type_synonym digest = string

record workload_run =
  wk_run_id :: string
  wk_actor_id :: string
  wk_host_id :: string
  wk_app :: string
  wk_environment :: string
  wk_revision_id :: string
  wk_revision_digest :: string
  wk_workload_name :: string
  wk_workload_kind :: string
  wk_trigger_kind :: string
  wk_state :: string
  wk_accepted_at :: string
  wk_started_at :: "string option"
  wk_completed_at :: "string option"
  wk_cancellation_requested_at :: "string option"
  wk_fencing_token :: int
  wk_result_digest :: "string option"
  wk_exit_code :: "int option"
  wk_exit_reason :: "string option"

definition run_from_row :: "workload_run_row \<Rightarrow> workload_run" where
  "run_from_row row = \<lparr>wk_run_id = wr_run_id row, wk_actor_id = wr_actor_id row, wk_host_id = wr_host_id row, wk_app = wr_app row,
     wk_environment = wr_environment row, wk_revision_id = wr_revision_id row, wk_revision_digest = wr_revision_digest row,
     wk_workload_name = wr_workload_name row, wk_workload_kind = wr_workload_kind row, wk_trigger_kind = wr_trigger_kind row,
     wk_state = wr_state row, wk_accepted_at = wr_accepted_at row, wk_started_at = wr_started_at row,
     wk_completed_at = wr_completed_at row, wk_cancellation_requested_at = wr_cancellation_requested_at row,
     wk_fencing_token = wr_fencing_token row, wk_result_digest = wr_result_digest row, wk_exit_code = wr_exit_code row,
     wk_exit_reason = wr_exit_reason row\<rparr>"

definition RUN_TERMINAL :: "string list" where
  "RUN_TERMINAL = [''succeeded'', ''failed'', ''cancelled'']"

definition find_host :: "string \<Rightarrow> database \<Rightarrow> host_row option" where
  "find_host host_id db = fetchone (\<lambda>r. hs_host_id r = host_id) (db_host_state db)"

definition update_host :: "string \<Rightarrow> (host_row \<Rightarrow> host_row) \<Rightarrow> database \<Rightarrow> database" where
  "update_host host_id f db = db\<lparr>db_host_state := map (\<lambda>r. if hs_host_id r = host_id then f r else r) (db_host_state db)\<rparr>"

definition find_run :: "string \<Rightarrow> database \<Rightarrow> workload_run_row option" where
  "find_run run_id db = fetchone (\<lambda>r. wr_run_id r = run_id) (db_workload_runs db)"

definition update_run :: "string \<Rightarrow> (workload_run_row \<Rightarrow> workload_run_row) \<Rightarrow> database \<Rightarrow> database" where
  "update_run run_id f db = db\<lparr>db_workload_runs := map (\<lambda>r. if wr_run_id r = run_id then f r else r) (db_workload_runs db)\<rparr>"

definition insert_run :: "workload_run_row \<Rightarrow> database \<Rightarrow> database res" where
  "insert_run r db = guarded (first_error
     [sql_require (bounded_text (wr_request_json r) \<and> 0 \<le> wr_fencing_token r) ''CHECK workload_runs'',
      sql_require (\<not> list_ex (\<lambda>q. wr_run_id q = wr_run_id r) (db_workload_runs db)) ''UNIQUE workload_runs.run_id'',
      sql_require (\<not> list_ex (\<lambda>q. wr_actor_id q = wr_actor_id r \<and> wr_key_digest q = wr_key_digest r) (db_workload_runs db))
        ''UNIQUE workload_runs.actor_id, workload_runs.idempotency_key_digest''])
     (db\<lparr>db_workload_runs := db_workload_runs db @ [r]\<rparr>)"

definition insert_run_event :: "run_event_row \<Rightarrow> database \<Rightarrow> database res" where
  "insert_run_event r db = guarded (first_error
     [sql_require (0 < we_sequence r \<and> bounded_text (we_payload_json r)) ''CHECK workload_run_events'',
      sql_require (\<not> list_ex (\<lambda>q. we_run_id q = we_run_id r \<and> we_sequence q = we_sequence r) (db_workload_run_events db))
        ''UNIQUE workload_run_events.run_id, workload_run_events.sequence'',
      sql_require (\<not> list_ex (\<lambda>q. we_event_id q = we_event_id r) (db_workload_run_events db)) ''UNIQUE workload_run_events.event_id'',
      sql_require (list_ex (\<lambda>q. wr_run_id q = we_run_id r) (db_workload_runs db)) ''FOREIGN KEY workload_run_events.run_id''])
     (db\<lparr>db_workload_run_events := db_workload_run_events db @ [r]\<rparr>)"

definition run_events :: "string \<Rightarrow> database \<Rightarrow> run_event_row list" where
  "run_events run_id db = sort_key we_sequence (filter (\<lambda>e. we_run_id e = run_id) (db_workload_run_events db))"

section \<open>Hosts\<close>

text \<open>\<^verbatim>\<open>host\<close>: the row with its capabilities loaded.\<close>

definition daemon_host :: "string \<Rightarrow> (host_row \<times> json) tx" where
  "daemon_host host_id = tx_read (\<lambda>db.
     case find_host host_id db of
       None \<Rightarrow> Inl (KeyError host_id)
     | Some row \<Rightarrow> bind_res (loads (hs_capabilities_json row)) (\<lambda>capabilities. Inr (row, capabilities)))"

definition upsert_host :: "host_row \<Rightarrow> database \<Rightarrow> database res" where
  "upsert_host r db = guarded
     (sql_require (bounded_text (hs_capabilities_json r) \<and> 0 < hs_protocol_version r) ''CHECK host_state'')
     (if list_ex (\<lambda>q. hs_host_id q = hs_host_id r) (db_host_state db)
      then update_host (hs_host_id r) (\<lambda>q. q\<lparr>hs_capabilities_json := hs_capabilities_json r, hs_agent_version := hs_agent_version r,
        hs_protocol_version := hs_protocol_version r, hs_heartbeat_at := hs_heartbeat_at r, hs_updated_at := hs_updated_at r\<rparr>) db
      else db\<lparr>db_host_state := db_host_state db @ [r]\<rparr>)"

definition register_host :: "string \<Rightarrow> json \<Rightarrow> string \<Rightarrow> int \<Rightarrow> (host_row \<times> json) tx" where
  "register_host host_id capabilities agent_version protocol_version =
     tx_bind store_now (\<lambda>now.
     tx_bind (tx_lift (bounded_json (of_json capabilities))) (\<lambda>capabilities_json.
     tx_bind (transaction (
       tx_bind (tx_query (\<lambda>db. list_ex (\<lambda>r. hs_host_id r \<noteq> host_id) (db_host_state db))) (\<lambda>different_host.
       tx_bind (tx_check (conflict (\<not> different_host)
         ''This operation journal is already bound to a different host identity.'')) (\<lambda>_.
       tx_execute (upsert_host \<lparr>hs_host_id = host_id, hs_lifecycle_state = ''ready'', hs_maintenance_mode = False, hs_drained = False,
         hs_capabilities_json = capabilities_json, hs_agent_version = agent_version, hs_protocol_version = protocol_version,
         hs_started_at = now, hs_heartbeat_at = now, hs_updated_at = now\<rparr>))))) (\<lambda>_.
     daemon_host host_id)))"

definition daemon_heartbeat :: "string \<Rightarrow> unit tx" where
  "daemon_heartbeat host_id =
     tx_bind store_now (\<lambda>now.
     transaction (
       tx_bind (tx_query (\<lambda>db. length (filter (\<lambda>r. hs_host_id r = host_id) (db_host_state db)))) (\<lambda>updated.
       tx_bind (tx_update (update_host host_id (\<lambda>r. r\<lparr>hs_heartbeat_at := now, hs_updated_at := now\<rparr>))) (\<lambda>_.
       tx_check (raise_unless (updated = 1) (KeyError host_id))))))"

definition set_host_control :: "string \<Rightarrow> bool option \<Rightarrow> bool option \<Rightarrow> (host_row \<times> json) tx" where
  "set_host_control host_id maintenance_mode drained =
     tx_bind (tx_check (raise_unless (maintenance_mode \<noteq> None \<or> drained \<noteq> None)
       (ValueError ''At least one host control must be supplied.''))) (\<lambda>_.
     tx_bind (transaction (
       tx_bind (tx_query (find_host host_id)) (\<lambda>current.
         case current of
           None \<Rightarrow> tx_raise (KeyError host_id)
         | Some row \<Rightarrow>
             (let maintenance = (case maintenance_mode of None \<Rightarrow> hs_maintenance_mode row | Some b \<Rightarrow> b);
                  drain = (case drained of None \<Rightarrow> hs_drained row | Some b \<Rightarrow> b);
                  lifecycle = (if maintenance then ''maintenance'' else if drain then ''drained'' else ''ready'')
              in tx_bind store_now (\<lambda>now.
                 tx_update (update_host host_id (\<lambda>r. r\<lparr>hs_lifecycle_state := lifecycle, hs_maintenance_mode := maintenance,
                   hs_drained := drain, hs_updated_at := now\<rparr>))))))) (\<lambda>_.
     daemon_host host_id))"

section \<open>Plan requests\<close>

definition find_plan_request :: "string \<Rightarrow> string \<Rightarrow> database \<Rightarrow> plan_request_row option" where
  "find_plan_request actor_id key_digest db =
     fetchone (\<lambda>r. pq_actor_id r = actor_id \<and> pq_key_digest r = key_digest) (db_plan_requests db)"

definition insert_plan_request :: "plan_request_row \<Rightarrow> database \<Rightarrow> database" where
  "insert_plan_request r db =
     (if find_plan_request (pq_actor_id r) (pq_key_digest r) db \<noteq> None then db
      else db\<lparr>db_plan_requests := db_plan_requests db @ [r]\<rparr>)"

definition plan_for_request :: "string \<Rightarrow> string \<Rightarrow> string \<Rightarrow> string option tx" where
  "plan_for_request actor_id idempotency_key request_digest = tx_read (\<lambda>db.
     case find_plan_request actor_id (digest_text idempotency_key) db of
       None \<Rightarrow> Inr None
     | Some row \<Rightarrow>
         if pq_request_digest row \<noteq> request_digest
         then Inl (IdempotencyConflict ''Plan idempotency key identifies different manifest input.'')
         else Inr (Some (pq_plan_id row)))"

definition record_plan_request :: "string \<Rightarrow> string \<Rightarrow> string \<Rightarrow> string \<Rightarrow> string tx" where
  "record_plan_request actor_id idempotency_key request_digest plan_id =
     (let key_digest = digest_text idempotency_key in
      transaction (
        tx_bind store_now (\<lambda>now.
        tx_bind (tx_update (insert_plan_request \<lparr>pq_actor_id = actor_id, pq_key_digest = key_digest,
          pq_request_digest = request_digest, pq_plan_id = plan_id, pq_created_at = now\<rparr>)) (\<lambda>_.
        tx_read (\<lambda>db.
          case find_plan_request actor_id key_digest db of
            None \<Rightarrow> Inl (TypeError ''row'')
          | Some row \<Rightarrow>
              if pq_request_digest row \<noteq> request_digest
              then Inl (IdempotencyConflict ''Plan idempotency key identifies different manifest input.'')
              else Inr (pq_plan_id row))))))"

section \<open>Observations\<close>

text \<open>\<^verbatim>\<open>payload.get(k)\<close> of a dictionary.\<close>

definition dict_get :: "(string \<times> json) list \<Rightarrow> string \<Rightarrow> json" where
  "dict_get kvs k = (case map_of kvs k of None \<Rightarrow> JNull | Some v \<Rightarrow> v)"

definition hashable :: "json \<Rightarrow> bool" where
  "hashable j \<longleftrightarrow> (case j of JList _ \<Rightarrow> False | JObj _ \<Rightarrow> False | _ \<Rightarrow> True)"

definition OBSERVATION_STATUS :: "json list" where
  "OBSERVATION_STATUS = [JStr ''ready'', JStr ''warning'', JStr ''critical'']"

definition observation_check :: "string \<Rightarrow> (string \<times> json) list \<Rightarrow> int \<Rightarrow> check" where
  "observation_check host_id observation retention =
     (let invalid = ValueError ''Host observation identity or retention is invalid.'' in first_error
     [raise_unless (1 \<le> retention \<and> retention \<le> 100000) invalid,
      raise_unless (dict_get observation ''host_id'' = JStr host_id) invalid,
      raise_unless (hashable (dict_get observation ''status'')) (TypeError ''unhashable type''),
      raise_unless (dict_get observation ''status'' \<in> set OBSERVATION_STATUS) invalid])"

definition json_is_text :: "json \<Rightarrow> bool" where
  "json_is_text j \<longleftrightarrow> (case j of JStr _ \<Rightarrow> True | _ \<Rightarrow> False)"

definition json_text :: "json \<Rightarrow> string" where
  "json_text j = (case j of JStr s \<Rightarrow> s | _ \<Rightarrow> [])"

definition insert_observation :: "observation_row \<Rightarrow> database \<Rightarrow> database res" where
  "insert_observation r db = guarded (first_error
     [sql_require (JStr (ob_status r) \<in> set OBSERVATION_STATUS \<and> bounded_text (ob_payload_json r)) ''CHECK host_observations'',
      sql_require (find_host (ob_host_id r) db \<noteq> None) ''FOREIGN KEY host_observations.host_id''])
     (db\<lparr>db_host_observations := db_host_observations db @ [r\<lparr>ob_observation_id := db_observation_sequence db + 1\<rparr>],
         db_observation_sequence := db_observation_sequence db + 1\<rparr>)"

text \<open>The observations of a host, newest first.\<close>

definition observations_of :: "string \<Rightarrow> database \<Rightarrow> observation_row list" where
  "observations_of host_id db = rev (sort_key ob_observation_id (filter (\<lambda>r. ob_host_id r = host_id) (db_host_observations db)))"

definition prune_observations :: "string \<Rightarrow> int \<Rightarrow> database \<Rightarrow> database" where
  "prune_observations host_id retention db =
     (let kept = map ob_observation_id (take (nat retention) (observations_of host_id db)) in
      db\<lparr>db_host_observations := filter (\<lambda>r. \<not> (ob_host_id r = host_id \<and> ob_observation_id r \<notin> set kept)) (db_host_observations db)\<rparr>)"

record recorded_observation =
  ro_observation_id :: int
  ro_observation_digest :: string
  ro_observation :: json

definition record_observation :: "string \<Rightarrow> (string \<times> json) list \<Rightarrow> int \<Rightarrow> recorded_observation tx" where
  "record_observation host_id observation retention =
     tx_bind (tx_check (observation_check host_id observation retention)) (\<lambda>_.
     (let observed_at = dict_get observation ''observed_at'' in
      tx_bind (tx_check (raise_unless (json_is_text observed_at) (ValueError ''Host observation timestamp is invalid.''))) (\<lambda>_.
      tx_bind (tx_lift (parse_utc (json_text observed_at))) (\<lambda>_.
      tx_bind (tx_lift (bounded_json (of_json (JObj observation)))) (\<lambda>payload_json.
      (let digest = canonical_digest (of_json (JObj observation)) in
       tx_bind (transaction (
         tx_bind (tx_execute (insert_observation \<lparr>ob_observation_id = 0, ob_host_id = host_id, ob_observed_at = json_text observed_at,
           ob_status = json_text (dict_get observation ''status''), ob_observation_digest = digest, ob_payload_json = payload_json\<rparr>)) (\<lambda>_.
         tx_bind (tx_query db_observation_sequence) (\<lambda>observation_id.
         tx_bind (tx_update (prune_observations host_id retention)) (\<lambda>_.
         tx_return observation_id))))) (\<lambda>observation_id.
       tx_return \<lparr>ro_observation_id = observation_id, ro_observation_digest = digest, ro_observation = JObj observation\<rparr>)))))))"

text \<open>The evidence a stored observation carries.\<close>

definition observation_matches :: "(string \<times> json) list \<Rightarrow> observation_row \<Rightarrow> bool" where
  "observation_matches payload row \<longleftrightarrow>
     canonical_json (of_json (JObj payload)) = ob_payload_json row \<and>
     canonical_digest (of_json (JObj payload)) = ob_observation_digest row \<and>
     dict_get payload ''host_id'' = JStr (ob_host_id row) \<and>
     dict_get payload ''observed_at'' = JStr (ob_observed_at row) \<and>
     dict_get payload ''status'' = JStr (ob_status row)"

definition latest_observation :: "string \<Rightarrow> recorded_observation option tx" where
  "latest_observation host_id = tx_read (\<lambda>db.
     case observations_of host_id db of
       [] \<Rightarrow> Inr None
     | row # _ \<Rightarrow>
         (case loads (ob_payload_json row) of
            Inl e \<Rightarrow> Inl (ValueError ''Host observation payload is malformed.'')
          | Inr (JObj payload) \<Rightarrow>
              if observation_matches payload row
              then Inr (Some \<lparr>ro_observation_id = ob_observation_id row, ro_observation_digest = ob_observation_digest row,
                ro_observation = JObj payload\<rparr>)
              else Inl (ValueError ''Host observation evidence failed validation.'')
          | Inr payload \<Rightarrow>
              if canonical_json (of_json payload) \<noteq> ob_payload_json row \<or> canonical_digest (of_json payload) \<noteq> ob_observation_digest row
              then Inl (ValueError ''Host observation evidence failed validation.'')
              else Inl (AttributeError ''get'')))"

section \<open>Run events\<close>

definition run_event_payload :: "string \<Rightarrow> int \<Rightarrow> string \<Rightarrow> string \<Rightarrow> string option \<Rightarrow> (string \<times> json) list \<Rightarrow> json" where
  "run_event_payload run_id sequence event_type occurred_at previous detail = JObj
     [(''schema_version'', JInt 1), (''kind'', JStr ''ophelia.workload-run-event''), (''run_id'', JStr run_id),
      (''sequence'', JInt sequence), (''event_type'', JStr event_type), (''occurred_at'', JStr occurred_at),
      (''previous_event_digest'', case previous of None \<Rightarrow> JNull | Some d \<Rightarrow> JStr d), (''detail'', JObj detail)]"

definition last_run_event :: "string \<Rightarrow> database \<Rightarrow> run_event_row option" where
  "last_run_event run_id db = (case rev (run_events run_id db) of [] \<Rightarrow> None | e # _ \<Rightarrow> Some e)"

definition append_run_event :: "string \<Rightarrow> string \<Rightarrow> (string \<times> json) list \<Rightarrow> unit tx" where
  "append_run_event run_id event_type detail =
     tx_bind (tx_query (last_run_event run_id)) (\<lambda>previous.
     (let sequence = (case previous of None \<Rightarrow> 1 | Some e \<Rightarrow> we_sequence e + 1) in
      tx_bind store_now (\<lambda>occurred_at.
      (let payload = run_event_payload run_id sequence event_type occurred_at (map_option we_event_digest previous) detail;
           payload_json = canonical_json (of_json payload)
       in
        tx_bind (tx_check (raise_unless (length payload_json \<le> 65536)
          (ValueError ''Workload-run event exceeds its storage bound.''))) (\<lambda>_.
        tx_bind fresh_uuid (\<lambda>hex.
        (let event_digest = canonical_digest (of_json payload); event_id = ''event_'' @ hex in
         tx_bind (tx_execute (insert_run_event \<lparr>we_run_id = run_id, we_sequence = sequence, we_event_id = event_id,
           we_event_digest = event_digest, we_payload_json = payload_json\<rparr>)) (\<lambda>_.
         tx_execute (insert_host_event \<lparr>he_cursor = 0, he_event_id = event_id, he_event_type = ''workload'', he_operation_id = None,
           he_workload_run_id = Some run_id, he_event_digest = event_digest, he_occurred_at = occurred_at,
           he_payload_json = payload_json\<rparr>)))))))))"

text \<open>Reading a run back after its update.\<close>

definition reread_run :: "string \<Rightarrow> workload_run tx" where
  "reread_run run_id = tx_read (\<lambda>db.
     case find_run run_id db of None \<Rightarrow> Inl (TypeError ''NoneType'') | Some row \<Rightarrow> Inr (run_from_row row))"

definition request_cancel_tx :: "workload_run_row \<Rightarrow> actor \<Rightarrow> unit tx" where
  "request_cancel_tx row actor =
     (if wr_cancellation_requested_at row \<noteq> None then tx_return ()
      else
        tx_bind store_now (\<lambda>requested_at.
        tx_bind (tx_update (update_run (wr_run_id row) (\<lambda>r. r\<lparr>wr_cancellation_requested_at := Some requested_at\<rparr>))) (\<lambda>_.
        append_run_event (wr_run_id row) ''cancellation_requested''
          [(''state'', JStr (wr_state row)), (''actor_id'', JStr (ac_actor_id actor))])))"

definition complete_tx :: "workload_run_row \<Rightarrow> string \<Rightarrow> string \<Rightarrow> int option \<Rightarrow> string \<Rightarrow> workload_run tx" where
  "complete_tx row state result_digest exit_code exit_reason =
     tx_bind store_now (\<lambda>completed_at.
     tx_bind (tx_update (update_run (wr_run_id row) (\<lambda>r. r\<lparr>wr_state := state, wr_completed_at := Some completed_at,
       wr_result_digest := Some result_digest, wr_exit_code := exit_code, wr_exit_reason := Some exit_reason,
       wr_lease_owner := None, wr_lease_expires := None\<rparr>))) (\<lambda>_.
     tx_bind (append_run_event (wr_run_id row) state
       [(''state'', JStr state), (''result_digest'', JStr result_digest),
        (''exit_code'', case exit_code of None \<Rightarrow> JNull | Some n \<Rightarrow> JInt n), (''exit_reason'', JStr exit_reason)]) (\<lambda>_.
     reread_run (wr_run_id row))))"

section \<open>Runs\<close>

definition run_request ::
  "string \<Rightarrow> string \<Rightarrow> string \<Rightarrow> string \<Rightarrow> string \<Rightarrow> digest \<Rightarrow> string \<Rightarrow> string \<Rightarrow> string \<Rightarrow> json" where
  "run_request actor_id host_id app environment revision_id revision_digest workload_name workload_kind trigger_kind = JObj
     [(''schema_version'', JInt 1), (''kind'', JStr ''ophelia.workload-run-request''), (''actor_id'', JStr actor_id),
      (''host_id'', JStr host_id), (''app'', JStr app), (''environment'', JStr environment),
      (''revision_id'', JStr revision_id), (''revision_digest'', JStr revision_digest),
      (''workload_name'', JStr workload_name), (''workload_kind'', JStr workload_kind), (''trigger_kind'', JStr trigger_kind)]"

definition active_run :: "workload_run_row \<Rightarrow> bool" where
  "active_run r \<longleftrightarrow> wr_state r \<in> {''accepted'', ''running''}"

definition oldest_active :: "string \<Rightarrow> string \<Rightarrow> string \<Rightarrow> string \<Rightarrow> database \<Rightarrow> workload_run_row option" where
  "oldest_active host_id app environment workload_name db =
     fetchone (\<lambda>r. wr_host_id r = host_id \<and> wr_app r = app \<and> wr_environment r = environment \<and>
       wr_workload_name r = workload_name \<and> active_run r) (sort_key wr_accepted_at (db_workload_runs db))"

definition new_run_row ::
  "string \<Rightarrow> string \<Rightarrow> digest \<Rightarrow> string \<Rightarrow> string \<Rightarrow> string \<Rightarrow> string \<Rightarrow> digest \<Rightarrow> string \<Rightarrow> string \<Rightarrow> string \<Rightarrow> digest \<Rightarrow> string \<Rightarrow> string \<Rightarrow> workload_run_row" where
  "new_run_row run_id actor_id key_digest host_id app environment revision_id revision_digest workload_name workload_kind trigger_kind
     request_digest request_json accepted_at =
     \<lparr>wr_run_id = run_id, wr_actor_id = actor_id, wr_key_digest = key_digest,
      wr_host_id = host_id, wr_app = app, wr_environment = environment, wr_revision_id = revision_id,
      wr_revision_digest = revision_digest, wr_workload_name = workload_name, wr_workload_kind = workload_kind,
      wr_trigger_kind = trigger_kind, wr_state = ''accepted'', wr_request_digest = request_digest,
      wr_request_json = request_json, wr_accepted_at = accepted_at, wr_started_at = None, wr_completed_at = None,
      wr_cancellation_requested_at = None, wr_lease_owner = None, wr_lease_expires = None, wr_fencing_token = 0,
      wr_result_digest = None, wr_exit_code = None, wr_exit_reason = None\<rparr>"

definition accept_run_new ::
  "actor \<Rightarrow> string \<Rightarrow> string \<Rightarrow> string \<Rightarrow> string \<Rightarrow> digest \<Rightarrow> string \<Rightarrow> string \<Rightarrow> string \<Rightarrow> digest \<Rightarrow> string \<Rightarrow> string \<Rightarrow> workload_run tx" where
  "accept_run_new actor host_id app environment revision_id revision_digest workload_name workload_kind trigger_kind key_digest
     concurrency_policy accepted_at =
     (let request = run_request (ac_actor_id actor) host_id app environment revision_id revision_digest workload_name workload_kind trigger_kind in
      tx_bind (tx_query (oldest_active host_id app environment workload_name)) (\<lambda>active.
      tx_bind (tx_check (conflict (\<not> (active \<noteq> None \<and> concurrency_policy = ''forbid''))
        ''A workload run is already active and its concurrency policy forbids overlap.'')) (\<lambda>_.
      tx_bind (case active of
          Some row \<Rightarrow> if concurrency_policy = ''replace'' then request_cancel_tx row actor else tx_return ()
        | None \<Rightarrow> tx_return ()) (\<lambda>_.
      tx_bind fresh_uuid (\<lambda>hex.
      (let run_id = ''run_'' @ hex in
       tx_bind (tx_lift (bounded_json (of_json request))) (\<lambda>request_json.
       tx_bind (tx_execute (insert_run (new_run_row run_id (ac_actor_id actor) key_digest host_id app environment revision_id
         revision_digest workload_name workload_kind trigger_kind (canonical_digest (of_json request)) request_json accepted_at))) (\<lambda>_.
       tx_bind (append_run_event run_id ''accepted'' [(''state'', JStr ''accepted''), (''actor_id'', JStr (ac_actor_id actor))]) (\<lambda>_.
       reread_run run_id)))))))))"

definition accept_run ::
  "actor \<Rightarrow> string \<Rightarrow> string \<Rightarrow> string \<Rightarrow> string \<Rightarrow> digest \<Rightarrow> string \<Rightarrow> string \<Rightarrow> string \<Rightarrow> string \<Rightarrow> string \<Rightarrow> workload_run tx" where
  "accept_run actor host_id app environment revision_id revision_digest workload_name workload_kind trigger_kind idempotency_key
     concurrency_policy =
     (let request = run_request (ac_actor_id actor) host_id app environment revision_id revision_digest workload_name workload_kind trigger_kind;
          request_digest = canonical_digest (of_json request);
          key_digest = digest_text idempotency_key
      in
      tx_bind store_now (\<lambda>accepted_at.
      transaction (
        tx_bind (tx_query (\<lambda>db. fetchone (\<lambda>r. wr_actor_id r = ac_actor_id actor \<and> wr_key_digest r = key_digest) (db_workload_runs db))) (\<lambda>existing.
          case existing of
            Some row \<Rightarrow>
              if wr_request_digest row \<noteq> request_digest
              then tx_raise (IdempotencyConflict ''Workload-run idempotency key identifies different intent.'')
              else tx_return (run_from_row row)
          | None \<Rightarrow> accept_run_new actor host_id app environment revision_id revision_digest workload_name workload_kind trigger_kind
              key_digest concurrency_policy accepted_at))))"

definition acquirable :: "rat \<Rightarrow> workload_run_row \<Rightarrow> bool" where
  "acquirable now r \<longleftrightarrow> active_run r \<and>
     (wr_lease_owner r = None \<or> (case wr_lease_expires r of None \<Rightarrow> False | Some t \<Rightarrow> t \<le> now))"

definition runs_by_acceptance :: "database \<Rightarrow> workload_run_row list" where
  "runs_by_acceptance db = sort_key wr_accepted_at (sort_key wr_run_id (db_workload_runs db))"

definition claim_tx :: "workload_run_row \<Rightarrow> string \<Rightarrow> rat \<Rightarrow> workload_run tx" where
  "claim_tx row owner_id lease_expires =
     (let token = wr_fencing_token row + 1 in
      tx_bind (case wr_started_at row of Some t \<Rightarrow> if t \<noteq> [] then tx_return t else store_now | None \<Rightarrow> store_now) (\<lambda>started_at.
      tx_bind (tx_update (update_run (wr_run_id row) (\<lambda>r. r\<lparr>wr_state := ''running'', wr_started_at := Some started_at,
        wr_lease_owner := Some owner_id, wr_lease_expires := Some lease_expires, wr_fencing_token := token\<rparr>))) (\<lambda>_.
      tx_bind (append_run_event (wr_run_id row) ''running'' [(''state'', JStr ''running''), (''fencing_token'', JInt token)]) (\<lambda>_.
      reread_run (wr_run_id row)))))"

text \<open>
  The clock is read before the transaction. The code uses the sample unchecked; one that is not finite
  raises here.
\<close>

definition acquire_run :: "string \<Rightarrow> rat \<Rightarrow> workload_run option tx" where
  "acquire_run owner_id lease_seconds =
     tx_bind clock_sample (\<lambda>now_epoch.
     transaction (
       tx_bind (tx_query (\<lambda>db. fetchone (acquirable now_epoch) (runs_by_acceptance db))) (\<lambda>candidate.
         case candidate of
           None \<Rightarrow> tx_return None
         | Some row \<Rightarrow>
             tx_bind (if wr_cancellation_requested_at row \<noteq> None \<and> wr_state row = ''accepted''
               then complete_tx row ''cancelled'' (canonical_digest (VMap [(''cancelled'', VBool True)])) None ''cancelled''
               else claim_tx row owner_id (now_epoch + lease_seconds)) (\<lambda>run.
             tx_return (Some run)))))"

definition complete_run :: "string \<Rightarrow> string \<Rightarrow> int \<Rightarrow> string \<Rightarrow> string \<Rightarrow> int option \<Rightarrow> string \<Rightarrow> workload_run tx" where
  "complete_run run_id owner_id fencing_token state result_digest exit_code exit_reason =
     tx_bind (tx_check (raise_unless (state \<in> set RUN_TERMINAL) (ValueError ''Terminal workload-run state is invalid.''))) (\<lambda>_.
     transaction (
       tx_bind (tx_query (find_run run_id)) (\<lambda>row.
         case row of
           None \<Rightarrow> tx_raise (KeyError run_id)
         | Some r \<Rightarrow>
             if wr_state r \<in> set RUN_TERMINAL then tx_return (run_from_row r)
             else
               tx_bind (tx_check (conflict (wr_lease_owner r = Some owner_id \<and> wr_fencing_token r = fencing_token)
                 ''Workload-run execution fence is stale.'')) (\<lambda>_.
               complete_tx r state result_digest exit_code exit_reason))))"

definition renew_run_lease :: "string \<Rightarrow> string \<Rightarrow> int \<Rightarrow> rat \<Rightarrow> bool tx" where
  "renew_run_lease run_id owner_id fencing_token lease_seconds =
     tx_bind (tx_check (raise_unless (\<not> (lease_seconds \<le> 0 \<or> lease_seconds > 3600))
       (ValueError ''Workload-run lease must be greater than zero and at most 3600 seconds.''))) (\<lambda>_.
     (let held = (\<lambda>r. wr_run_id r = run_id \<and> wr_state r = ''running'' \<and> wr_lease_owner r = Some owner_id \<and>
            wr_fencing_token r = fencing_token)
      in transaction (
        tx_bind clock_sample (\<lambda>now.
        tx_bind (tx_query (\<lambda>db. length (filter held (db_workload_runs db)))) (\<lambda>updated.
        tx_bind (tx_update (\<lambda>db. db\<lparr>db_workload_runs :=
          map (\<lambda>r. if held r then r\<lparr>wr_lease_expires := Some (now + lease_seconds)\<rparr> else r) (db_workload_runs db)\<rparr>)) (\<lambda>_.
        tx_return (updated = 1)))))))"

definition run_cancellation_requested :: "string \<Rightarrow> bool tx" where
  "run_cancellation_requested run_id = tx_read (\<lambda>db.
     case find_run run_id db of
       None \<Rightarrow> Inl (KeyError run_id)
     | Some row \<Rightarrow> Inr (wr_cancellation_requested_at row \<noteq> None))"

definition request_run_cancellation :: "string \<Rightarrow> actor \<Rightarrow> workload_run tx" where
  "request_run_cancellation run_id actor = transaction (
     tx_bind (tx_query (find_run run_id)) (\<lambda>row.
       case row of
         None \<Rightarrow> tx_raise (KeyError run_id)
       | Some r \<Rightarrow>
           if wr_state r \<in> set RUN_TERMINAL then tx_return (run_from_row r)
           else tx_bind (request_cancel_tx r actor) (\<lambda>_. reread_run run_id)))"

definition daemon_run :: "string \<Rightarrow> workload_run tx" where
  "daemon_run run_id = tx_read (\<lambda>db.
     case find_run run_id db of None \<Rightarrow> Inl (KeyError run_id) | Some row \<Rightarrow> Inr (run_from_row row))"

definition list_runs :: "int \<Rightarrow> workload_run list tx" where
  "list_runs limit =
     tx_bind (tx_check (raise_unless (1 \<le> limit \<and> limit \<le> 1000) (ValueError ''limit must be from 1 through 1000.''))) (\<lambda>_.
     tx_query (\<lambda>db. map run_from_row (take (nat limit) (rev (runs_by_acceptance db)))))"

section \<open>Integrity\<close>

text \<open>The daemon and workload parts of \<^verbatim>\<open>_check_integrity\<close>.\<close>

definition check_plan_request :: "plan_request_row \<Rightarrow> check" where
  "check_plan_request row = first_error
     [require_text (pq_actor_id row) ''actor_id'' 255, require_digest (pq_key_digest row) ''idempotency_key_digest'',
      require_digest (pq_request_digest row) ''request_digest'', require_text (pq_plan_id row) ''plan_id'' 255,
      optional_utc (Some (pq_created_at row))]"

definition check_host :: "host_row \<Rightarrow> check" where
  "check_host row =
     (case loads (hs_capabilities_json row) of
        Inl e \<Rightarrow> Some e
      | Inr capabilities \<Rightarrow> first_error
          [integrity (is_obj capabilities \<and> canonical_json (of_json capabilities) = hs_capabilities_json row \<and>
              hs_lifecycle_state row = (if hs_maintenance_mode row then ''maintenance'' else if hs_drained row then ''drained'' else ''ready'') \<and>
              \<not> hs_protocol_version row < 1)
            ''Host state is not canonical or internally consistent.'',
           optional_utc (Some (hs_started_at row)), optional_utc (Some (hs_heartbeat_at row)), optional_utc (Some (hs_updated_at row))])"

definition check_hosts :: "database \<Rightarrow> check" where
  "check_hosts db =
     (case integrity (\<not> length (db_host_state db) > 1) ''Single-host authority contains multiple host identities.'' of
        Some e \<Rightarrow> Some e
      | None \<Rightarrow> first_error (map check_host (sort_key hs_host_id (db_host_state db))))"

definition check_observation :: "observation_row \<Rightarrow> check" where
  "check_observation row =
     (case loads (ob_payload_json row) of
        Inl e \<Rightarrow> Some (IntegrityError ''Host observation payload is malformed.'')
      | Inr observation \<Rightarrow> first_error
          [integrity (case observation of
               JObj payload \<Rightarrow> observation_matches payload row \<and> JStr (ob_status row) \<in> set OBSERVATION_STATUS
             | _ \<Rightarrow> False) ''Host observation is not canonical.'',
           optional_utc (Some (ob_observed_at row))])"

definition request_matches :: "(string \<times> json) list \<Rightarrow> workload_run_row \<Rightarrow> bool" where
  "request_matches request row \<longleftrightarrow>
     canonical_json (of_json (JObj request)) = wr_request_json row \<and>
     canonical_digest (of_json (JObj request)) = wr_request_digest row \<and>
     dict_get request ''actor_id'' = JStr (wr_actor_id row) \<and> dict_get request ''host_id'' = JStr (wr_host_id row) \<and>
     dict_get request ''app'' = JStr (wr_app row) \<and> dict_get request ''environment'' = JStr (wr_environment row) \<and>
     dict_get request ''revision_id'' = JStr (wr_revision_id row) \<and>
     dict_get request ''revision_digest'' = JStr (wr_revision_digest row) \<and>
     dict_get request ''workload_name'' = JStr (wr_workload_name row) \<and>
     dict_get request ''workload_kind'' = JStr (wr_workload_kind row) \<and>
     dict_get request ''trigger_kind'' = JStr (wr_trigger_kind row)"

definition check_run_outcome :: "workload_run_row \<Rightarrow> check" where
  "check_run_outcome row =
     (if wr_state row \<in> set RUN_TERMINAL then first_error
        [(case wr_completed_at row of
            None \<Rightarrow> Some (contract_error ''timestamp'' '' must be a UTC timestamp.'')
          | Some t \<Rightarrow> optional_utc (Some t)),
         (case wr_result_digest row of
            None \<Rightarrow> Some (contract_error ''result_digest'' '' must be a sha256:<64 lowercase hex> digest.'')
          | Some d \<Rightarrow> require_digest d ''result_digest''),
         integrity (wr_lease_owner row = None \<and> wr_lease_expires row = None)
           ''Terminal workload run retains an execution lease.'']
      else integrity (wr_completed_at row = None \<and> wr_result_digest row = None)
        ''Nonterminal workload run contains terminal evidence.'')"

definition check_run_identity :: "workload_run_row \<Rightarrow> check" where
  "check_run_identity row =
     (case loads (wr_request_json row) of
        Inl e \<Rightarrow> Some e
      | Inr request \<Rightarrow> first_error
          [integrity (case request of
               JObj kvs \<Rightarrow> request_matches kvs row \<and> wr_state row \<in> {''accepted'', ''running''} \<union> set RUN_TERMINAL
             | _ \<Rightarrow> False) ''Workload-run identity is not canonical.'',
           require_digest (wr_key_digest row) ''idempotency_key_digest'', require_digest (wr_revision_digest row) ''revision_digest'',
           optional_utc (Some (wr_accepted_at row)), optional_utc (wr_started_at row),
           optional_utc (wr_cancellation_requested_at row), check_run_outcome row])"

text \<open>Python compares \<^verbatim>\<open>True\<close> and \<^verbatim>\<open>False\<close> equal to one and zero.\<close>

definition equals_int :: "json \<Rightarrow> int \<Rightarrow> bool" where
  "equals_int j n \<longleftrightarrow> j = JInt n \<or> j = JBool True \<and> n = 1 \<or> j = JBool False \<and> n = 0"

definition event_matches :: "string \<Rightarrow> int \<Rightarrow> string option \<Rightarrow> (string \<times> json) list \<Rightarrow> run_event_row \<Rightarrow> bool" where
  "event_matches run_id expected_sequence previous_digest payload row \<longleftrightarrow>
     we_sequence row = expected_sequence \<and> dict_get payload ''run_id'' = JStr run_id \<and>
     equals_int (dict_get payload ''sequence'') expected_sequence \<and>
     dict_get payload ''previous_event_digest'' = (case previous_digest of None \<Rightarrow> JNull | Some d \<Rightarrow> JStr d) \<and>
     canonical_json (of_json (JObj payload)) = we_payload_json row \<and>
     canonical_digest (of_json (JObj payload)) = we_event_digest row"

fun check_run_chain :: "string \<Rightarrow> int \<Rightarrow> string option \<Rightarrow> run_event_row list \<Rightarrow> check" where
  "check_run_chain run_id expected_sequence previous_digest [] = None"
| "check_run_chain run_id expected_sequence previous_digest (row # rows) =
     (case loads (we_payload_json row) of
        Inl e \<Rightarrow> Some e
      | Inr (JObj payload) \<Rightarrow>
          if event_matches run_id expected_sequence previous_digest payload row
          then check_run_chain run_id (expected_sequence + 1) (Some (we_event_digest row)) rows
          else Some (IntegrityError ''Workload-run event chain is invalid.'')
      | Inr _ \<Rightarrow>
          if we_sequence row \<noteq> expected_sequence then Some (IntegrityError ''Workload-run event chain is invalid.'')
          else Some (AttributeError ''get''))"

definition check_final_event :: "workload_run_row \<Rightarrow> run_event_row list \<Rightarrow> check" where
  "check_final_event row chain =
     (if chain = [] then Some (IntegrityError ''Workload run has no acceptance event.'')
      else
        (case loads (we_payload_json (last chain)) of
           Inl e \<Rightarrow> Some e
         | Inr (JObj payload) \<Rightarrow>
             integrity (\<not> (wr_state row \<in> set RUN_TERMINAL \<and> dict_get payload ''event_type'' \<noteq> JStr (wr_state row)))
               ''Terminal workload event does not match run state.''
         | Inr _ \<Rightarrow> if wr_state row \<in> set RUN_TERMINAL then Some (AttributeError ''get'') else None))"

definition check_run :: "database \<Rightarrow> workload_run_row \<Rightarrow> check" where
  "check_run db row = first_error
     [check_run_identity row, check_run_chain (wr_run_id row) 1 None (run_events (wr_run_id row) db),
      check_final_event row (run_events (wr_run_id row) db)]"

text \<open>The join of the host events with the run events; a comparison with \<^verbatim>\<open>NULL\<close> never selects a row.\<close>

definition mirrors_run_event :: "database \<Rightarrow> host_event_row \<Rightarrow> bool" where
  "mirrors_run_event db h \<longleftrightarrow>
     (case fetchone (\<lambda>w. we_event_id w = he_event_id h) (db_workload_run_events db) of
        None \<Rightarrow> False
      | Some w \<Rightarrow> (case he_workload_run_id h of None \<Rightarrow> True | Some run_id \<Rightarrow> we_run_id w = run_id) \<and> we_event_digest w = he_event_digest h \<and>
          we_payload_json w = he_payload_json h)"

definition workload_stream_reconciles :: "database \<Rightarrow> bool" where
  "workload_stream_reconciles db \<longleftrightarrow>
     (let host_workload_events = filter (\<lambda>h. he_event_type h = ''workload'') (db_host_events db) in
      length host_workload_events = sum_list (map (\<lambda>r. length (run_events (wr_run_id r) db)) (db_workload_runs db)) \<and>
      list_all (mirrors_run_event db) host_workload_events)"

definition check_workload :: "database \<Rightarrow> check" where
  "check_workload db =
     (case first_error (map (check_run db) (sort_key wr_run_id (db_workload_runs db))) of
        Some e \<Rightarrow> Some e
      | None \<Rightarrow> integrity (workload_stream_reconciles db) ''Host event stream does not reconcile with workload-run events.'')"

definition check_daemon :: "database \<Rightarrow> check" where
  "check_daemon db = first_error
     (map check_plan_request (sort_key (\<lambda>r. (pq_actor_id r, pq_key_digest r)) (db_plan_requests db)) @
      [check_hosts db] @ map check_observation (sort_key ob_observation_id (db_host_observations db)))"

text \<open>
  The whole check, in the order of the code. The constraints of the tables are kept by the
  statements, so the two SQLite pragmas before it find nothing.
\<close>

definition check_integrity :: "database \<Rightarrow> unit res" where
  "check_integrity db =
     as_integrity ''Operation journal semantic integrity validation failed.''
       (bind_res (check_histories db) (\<lambda>_.
        bind_res (guarded (check_daemon db) ()) (\<lambda>_.
        bind_res (guarded (check_agent db) ()) (\<lambda>_.
        bind_res (guarded (check_workload db) ()) (\<lambda>_.
        check_records db)))))"

definition integrity_check :: "unit tx" where
  "integrity_check = tx_read check_integrity"

end
