(* ===== verification/Payloads.thy ===== *)
theory Payloads
  imports Integrity
begin

text \<open>
  Free-form JSON payloads in the stores. Agent commands, observations and workload requests are
  stored as \<^verbatim>\<open>canonical_json(payload)\<close> and verified later by loading the text, rendering it again and
  comparing; the lemmas here show when that comparison succeeds. Redaction runs once before the text
  is stored and once more in every verification, so they rest on its idempotence.
\<close>

definition payload_ok :: "json \<Rightarrow> bool" where
  "payload_ok p \<longleftrightarrow> is_obj p \<and> json_wf p \<and> command_free None p \<and> forbidden_free p"

text \<open>What a stored payload loads as.\<close>

definition stored :: "json \<Rightarrow> json" where
  "stored p = json_canon (scrub False None p)"

section \<open>Canonical order\<close>

lemma is_digest_json_canon [simp]: "is_digest_json (json_canon j) \<longleftrightarrow> is_digest_json j"
  by (cases j) (auto simp: is_digest_json_def)

lemma canon_JList: "json_canon j = JList js \<longleftrightarrow> (\<exists>xs. j = JList xs \<and> js = map json_canon xs)"
  by (cases j) auto

lemma is_safe_canon [simp]: "is_safe_digest_metadata k (json_canon j) \<longleftrightarrow> is_safe_digest_metadata k j"
  by (auto simp: is_safe_iff canon_JList)

lemma digest_canon: "is_digest_json j \<Longrightarrow> json_canon j = j"
  by (cases j) (auto simp: is_digest_json_def)

lemma safe_canon: "is_safe_digest_metadata k j \<Longrightarrow> json_canon j = j"
  by (auto simp: is_safe_iff digest_canon map_idI split: if_splits)

lemma json_canon_idem [simp]: "json_canon (json_canon j) = json_canon j"
proof (induction j rule: json_canon.induct)
  case (2 kvs)
  then have "map (\<lambda>p. (fst p, json_canon (json_canon (snd p)))) (sort_key fst kvs) =
      map (\<lambda>p. (fst p, json_canon (snd p))) (sort_key fst kvs)" by simp
  then show ?case
    unfolding json_canon_JObj
    by (simp add: sort_key_map [where h = fst] comp_def sort_key_id_if_sorted [of fst "sort_key fst kvs"])
qed simp_all

lemma canon_member_cong:
  assumes "json_canon x = json_canon y"
  shows "json_canon (JObj (kvs @ [(k, x)])) = json_canon (JObj (kvs @ [(k, y)]))"
  using assms by simp

lemma scrub_canon: "scrub sens kn (json_canon j) = json_canon (scrub sens kn j)"
proof (induction j arbitrary: sens kn rule: json_canon.induct)
  case (2 kvs)
  have "scrub_member sens (fst p) (json_canon (snd p)) = json_canon (scrub_member sens (fst p) (snd p))"
    if "p \<in> set kvs" for p
    using "2.IH" [OF that] safe_canon by (auto simp: scrub_member_def)
  then have "map (\<lambda>p. (fst p, scrub_member sens (fst p) (json_canon (snd p)))) (sort_key fst kvs) =
      map (\<lambda>p. (fst p, json_canon (scrub_member sens (fst p) (snd p)))) (sort_key fst kvs)" by simp
  then show ?case
    unfolding json_canon_JObj scrub_JObj by (simp add: sort_key_map [where h = fst] comp_def)
qed (auto simp: redact_value_def)

lemma command_free_canon [simp]: "command_free kn (json_canon j) \<longleftrightarrow> command_free kn j"
  by (induction j arbitrary: kn rule: json_canon.induct) auto

lemma forbidden_free_canon [simp]: "forbidden_free (json_canon j) \<longleftrightarrow> forbidden_free j"
  by (induction j rule: json_canon.induct) auto

section \<open>Payloads and their stored form\<close>

lemma command_free_obj: "is_obj p \<Longrightarrow> command_free kn p \<longleftrightarrow> command_free None p"
  by (cases p) (auto simp: is_obj_def)

lemma payload_objE:
  assumes "payload_ok p"
  obtains kvs where "p = JObj kvs"
  using assms by (cases p) (auto simp: payload_ok_def is_obj_def)

lemma serialize_payload:
  assumes "payload_ok p"
  shows "serialize (of_json p) = scrub False None p"
proof -
  from assms obtain kvs where p: "p = JObj kvs" by (rule payload_objE)
  have r: "raw (of_json p) = p" using assms by (simp add: payload_ok_def raw_of_json)
  then show ?thesis
    using assms serialize_map [of "map (\<lambda>p. (fst p, of_json (snd p))) kvs"]
    by (simp add: payload_ok_def p del: serialize.simps raw.simps scrub.simps)
qed

lemma payload_ok_stored: "payload_ok p \<Longrightarrow> payload_ok (stored p)"
  by (auto simp: payload_ok_def stored_def command_free_scrub forbidden_free_scrub is_obj_def
      simp del: scrub.simps(2-) split: json.splits)

lemma stored_idem: "payload_ok p \<Longrightarrow> stored (stored p) = stored p"
  by (simp add: stored_def scrub_canon scrub_scrub payload_ok_def)

lemma canonical_json_payload: "payload_ok p \<Longrightarrow> canonical_json (of_json p) = json_dumps (stored p)"
  by (simp add: canonical_json_def serialize_payload stored_def)

lemma loads_payload: "payload_ok p \<Longrightarrow> loads (canonical_json (of_json p)) = Inr (stored p)"
  by (simp add: canonical_json_payload loads_def json_loads_dumps payload_ok_def stored_def)

lemma canonical_json_stored: "payload_ok p \<Longrightarrow> canonical_json (of_json (stored p)) = canonical_json (of_json p)"
  by (simp add: canonical_json_payload payload_ok_stored stored_idem)

lemma canonical_digest_stored: "payload_ok p \<Longrightarrow> canonical_digest (of_json (stored p)) = canonical_digest (of_json p)"
  by (simp add: canonical_digest_def canonical_json_stored)

text \<open>A mapping that carries a payload as its last member.\<close>

definition header_ok :: "(string \<times> pyval) list \<Rightarrow> string \<Rightarrow> bool" where
  "header_ok kvs k \<longleftrightarrow>
     json_wf (raw (VMap kvs)) \<and> command_free None (raw (VMap kvs)) \<and>
     k \<notin> fst ` set kvs \<and> lower k \<notin> set FORBIDDEN_MAPPING_KEYS"

lemma serialize_carrier:
  assumes "header_ok kvs k" "payload_ok p"
  shows "serialize (VMap (kvs @ [(k, of_json p)])) =
    JObj (scrub_members (map (\<lambda>p. (fst p, raw (snd p))) (filter (\<lambda>p. lower (fst p) \<notin> set FORBIDDEN_MAPPING_KEYS) kvs)) @
      [(k, scrub (is_sensitive_key k) (Some k) p)])"
proof -
  let ?fs = "map (\<lambda>p. (fst p, raw (snd p))) (filter (\<lambda>p. lower (fst p) \<notin> set FORBIDDEN_MAPPING_KEYS) kvs)"
  have r: "raw (of_json p) = p" using assms(2) by (simp add: payload_ok_def raw_of_json)
  have raw: "raw (VMap (kvs @ [(k, of_json p)])) = JObj (?fs @ [(k, p)])"
    using assms(1) by (simp add: header_ok_def r)
  have "json_wf (JObj (?fs @ [(k, p)]))" "command_free None (JObj (?fs @ [(k, p)]))"
    using assms by (auto simp: header_ok_def payload_ok_def command_free_obj [of p "Some k"] image_iff)
  then have "serialize (VMap (kvs @ [(k, of_json p)])) = scrub False None (JObj (?fs @ [(k, p)]))"
    by (subst serialize_map) (simp_all only: raw)
  moreover have "\<not> is_safe_digest_metadata k p"
    using assms(2) by (auto simp: payload_ok_def is_obj_def is_safe_iff is_digest_json_def split: json.splits if_splits)
  ultimately show ?thesis
    by (simp add: scrub_JObj scrub_members_def scrub_member_def del: serialize.simps scrub.simps)
qed

lemma canonical_json_carrier_stored:
  assumes "header_ok kvs k" "payload_ok p"
  shows "canonical_json (VMap (kvs @ [(k, of_json (stored p))])) = canonical_json (VMap (kvs @ [(k, of_json p)]))"
proof -
  let ?s = "is_sensitive_key k"
  have "scrub ?s (Some k) (stored p) = json_canon (scrub ?s (Some k) (scrub False None p))"
    by (simp add: stored_def scrub_canon)
  also have "scrub ?s (Some k) (scrub False None p) = scrub ?s (Some k) p"
    using assms(2) by (intro scrub_scrub) (auto simp: payload_ok_def command_free_obj [of p "Some k"])
  finally have "json_canon (scrub ?s (Some k) (stored p)) = json_canon (scrub ?s (Some k) p)" by simp
  then have "json_canon (serialize (VMap (kvs @ [(k, of_json (stored p))]))) =
      json_canon (serialize (VMap (kvs @ [(k, of_json p)])))"
    unfolding serialize_carrier [OF assms] serialize_carrier [OF assms(1) payload_ok_stored [OF assms(2)]]
    by (rule canon_member_cong)
  then show ?thesis unfolding canonical_json_def by (metis json_dumps_canon)
qed

lemma canonical_digest_carrier_stored:
  "header_ok kvs k \<Longrightarrow> payload_ok p \<Longrightarrow>
   canonical_digest (VMap (kvs @ [(k, of_json (stored p))])) = canonical_digest (VMap (kvs @ [(k, of_json p)]))"
  by (simp add: canonical_digest_def canonical_json_carrier_stored)

end
