(* ===== verification/Store_Machine.thy ===== *)
theory Store_Machine
  imports Journal_Calls
begin

text \<open>
  Several stores share the database of the operation journal: the journal itself, the agent store
  and the daemon store. A machine is a set of actions on the shared database; its later states are
  those that any interleaving of its actions reaches, whether each returns or raises.
\<close>

type_synonym machine = "unit tx set"

definition machine_step :: "machine \<Rightarrow> journal \<Rightarrow> journal \<Rightarrow> bool" where
  "machine_step ops s s' \<longleftrightarrow> (\<exists>m \<in> ops. \<exists>r. m s = (r, s'))"

definition later :: "machine \<Rightarrow> journal \<Rightarrow> journal \<Rightarrow> bool" where
  "later ops = (machine_step ops)\<^sup>*\<^sup>*"

definition journal_ops :: machine where
  "journal_ops = {run_call c | c. call_ok c}"

lemma later_refl [simp]: "later ops s s"
  by (simp add: later_def)

lemma later_step: "m \<in> ops \<Longrightarrow> m s = (r, s') \<Longrightarrow> later ops s' t \<Longrightarrow> later ops s t"
  unfolding later_def by (rule converse_rtranclp_into_rtranclp) (auto simp: machine_step_def)

lemma later_trans: "later ops s t \<Longrightarrow> later ops t u \<Longrightarrow> later ops s u"
  by (simp add: later_def)

text \<open>An action moves along a relation when every run of it does, a raising one included.\<close>

definition moves :: "(database \<Rightarrow> database \<Rightarrow> bool) \<Rightarrow> 'a tx \<Rightarrow> bool" where
  "moves R m \<longleftrightarrow> (\<forall>s r s'. m s = (r, s') \<longrightarrow> R (jn_db s) (jn_db s'))"

context db_frame
begin

lemma moves_atomic: "atomic m \<Longrightarrow> frames R m \<Longrightarrow> moves R m"
  unfolding moves_def
proof (intro allI impI)
  fix s r s'
  assume "atomic m" "frames R m" "m s = (r, s')"
  then show "R (jn_db s) (jn_db s')" using refl by (cases r) (auto simp: atomic_def dest: framesD)
qed

lemma moves_readonly: "readonly m \<Longrightarrow> moves R m"
  by (auto simp: moves_def readonly_def refl)

lemma moves_bind: "moves R m \<Longrightarrow> (\<And>x. moves R (f x)) \<Longrightarrow> moves R (tx_bind m f)"
  unfolding moves_def tx_bind_def using trans by (fastforce split: prod.splits sum.splits)

lemma moves_returning: "moves R m \<Longrightarrow> moves R (returning m)"
  unfolding returning_def by (erule moves_bind) (simp add: moves_readonly)

lemma moves_later:
  assumes "\<And>m. m \<in> ops \<Longrightarrow> moves R m" "later ops s s'"
  shows "R (jn_db s) (jn_db s')"
  using assms(2) unfolding later_def
proof (induction rule: rtranclp_induct)
  case (step t u)
  then have "R (jn_db t) (jn_db u)" using assms(1) by (auto simp: machine_step_def moves_def)
  with step.IH show ?case by (rule trans)
qed (simp add: refl)

lemma journal_ops_move: "(\<And>c. call_ok c \<Longrightarrow> frames R (run_call c)) \<Longrightarrow> m \<in> journal_ops \<Longrightarrow> moves R m"
  unfolding journal_ops_def by (auto intro: moves_atomic atomic_run_call)

end

end
