(* ===== verification/Agent_Facts.thy ===== *)
theory Agent_Facts
  imports Agent_Store Payloads Fence_Facts Store_Machine
begin

text \<open>
  Facts about the agent store: the invariant behind the agent part of the integrity check, which
  every call keeps, and the delivery of results in order.
\<close>

section \<open>Timestamps\<close>

lemma parse_utc_iff: "(\<exists>us. parse_utc t = Inr us) \<longleftrightarrow> is_utc t"
proof
  assume "\<exists>us. parse_utc t = Inr us"
  then show "is_utc t"
    unfolding is_utc_def parse_utc_def by (cases "require_utc t ''timestamp''") simp_all
qed (use parse_utc_valid in blast)

lemma optional_utc_None [simp]: "optional_utc v = None \<longleftrightarrow> (\<forall>t. v = Some t \<longrightarrow> is_utc t)"
proof -
  have "(case parse_utc t of Inl e \<Rightarrow> Some e | Inr _ \<Rightarrow> None) = None \<longleftrightarrow> is_utc t" for t
    using parse_utc_iff [of t] by (cases "parse_utc t") auto
  then show ?thesis by (simp add: optional_utc_def)
qed

lemma utc_now_text_is_utc: "utc_now_text t = Inr now \<Longrightarrow> is_utc now"
  by (auto simp: utc_now_text_def split: option.splits dest: is_utc_rendered)

lemma store_now_success [tx_success]:
  "store_now s = (Inr now, s') \<longleftrightarrow>
     (\<exists>t. jn_clock s (jn_tick s) = Some t \<and> utc_now_text t = Inr now \<and> s' = s\<lparr>jn_tick := Suc (jn_tick s)\<rparr>)"
  by (auto simp: store_now_def tx_success)

section \<open>The invariant\<close>

text \<open>Sequences grow, and a sequence is skipped only below what was acknowledged.\<close>

fun numbered :: "int \<Rightarrow> int \<Rightarrow> agent_command_row list \<Rightarrow> bool" where
  "numbered ack previous [] \<longleftrightarrow> True"
| "numbered ack previous (r # rs) \<longleftrightarrow>
     previous < ag_sequence r \<and> (ag_sequence r = previous + 1 \<or> ag_sequence r - 1 \<le> ack) \<and> numbered ack (ag_sequence r) rs"

definition terminal_row :: "agent_command_row \<Rightarrow> bool" where
  "terminal_row r \<longleftrightarrow> ag_state r \<in> set AGENT_TERMINAL"

definition row_ok :: "agent_command_row \<Rightarrow> bool" where
  "row_ok r \<longleftrightarrow> check_agent_command (ag_sequence r) (ag_sequence r - 1) r = None"

definition agent_row_ok :: "agent_state_row \<Rightarrow> bool" where
  "agent_row_ok a \<longleftrightarrow>
     ag_connection_state a \<in> {''connected'', ''disconnected'', ''revoked''} \<and> 0 \<le> ag_acknowledged a \<and>
     is_utc (ag_updated_at a) \<and> (\<forall>t. ag_connected_at a = Some t \<longrightarrow> is_utc t) \<and>
     (\<forall>t. ag_last_exchange_at a = Some t \<longrightarrow> is_utc t)"

definition agent_inv :: "database \<Rightarrow> bool" where
  "agent_inv db \<longleftrightarrow>
     numbered (maximum_acknowledged db) 0 (db_agent_commands db) \<and>
     distinct (map ag_command_id (db_agent_commands db)) \<and> distinct (map ag_host_id (db_agent_state db)) \<and>
     (\<forall>r \<in> set (db_agent_commands db). row_ok r) \<and> (\<forall>a \<in> set (db_agent_state db). agent_row_ok a) \<and>
     (\<forall>a \<in> set (db_agent_state db). \<forall>r \<in> set (db_agent_commands db).
        ag_sequence r \<le> ag_acknowledged a \<longrightarrow> terminal_row r)"

lemma check_agent_command_iff:
  "check_agent_command ack previous r = None \<longleftrightarrow>
     row_ok r \<and> previous < ag_sequence r \<and> (ag_sequence r = previous + 1 \<or> ag_sequence r - 1 \<le> ack)"
  unfolding row_ok_def check_agent_command_def by (cases "loads (ag_payload_json r)") auto

lemma check_agent_commands_iff:
  "check_agent_commands ack previous rs = None \<longleftrightarrow> numbered ack previous rs \<and> (\<forall>r \<in> set rs. row_ok r)"
proof (induction rs arbitrary: previous)
  case (Cons r rs)
  show ?case
    using check_agent_command_iff [of ack previous r] Cons.IH [of "ag_sequence r"]
    by (cases "check_agent_command ack previous r") auto
qed simp

lemma numbered_sorted:
  "numbered ack previous rs \<Longrightarrow> (\<forall>r \<in> set rs. previous < ag_sequence r) \<and> sorted_wrt (\<lambda>a b. ag_sequence a < ag_sequence b) rs"
  by (induction rs arbitrary: previous) force+

lemma numbered_mono: "numbered ack previous rs \<Longrightarrow> ack \<le> ack' \<Longrightarrow> numbered ack' previous rs"
  by (induction rs arbitrary: previous) auto

lemma numbered_map [simp]: "(\<And>r. ag_sequence (f r) = ag_sequence r) \<Longrightarrow> numbered ack previous (map f rs) = numbered ack previous rs"
  by (induction rs arbitrary: previous) auto

lemma numbered_snoc:
  "numbered ack previous (rs @ [r]) \<longleftrightarrow> numbered ack previous rs \<and>
     (let l = (if rs = [] then previous else ag_sequence (last rs)) in
      l < ag_sequence r \<and> (ag_sequence r = l + 1 \<or> ag_sequence r - 1 \<le> ack))"
  by (induction rs arbitrary: previous) (auto simp: Let_def)

lemma ordered_by_sequence:
  assumes "agent_inv db"
  shows "commands_by_sequence db = db_agent_commands db"
proof -
  have "sorted (map ag_sequence (db_agent_commands db))"
    using numbered_sorted assms unfolding agent_inv_def sorted_map
    by (metis (no_types, lifting) less_imp_le sorted_wrt_mono_rel)
  then show ?thesis by (simp add: commands_by_sequence_def sort_key_id_if_sorted)
qed

lemma acknowledged_le: "a \<in> set (db_agent_state db) \<Longrightarrow> ag_acknowledged a \<le> maximum_acknowledged db"
  by (simp add: maximum_acknowledged_def max_or_zero_ge)

lemma agent_inv_checks:
  assumes "agent_inv db"
  shows "check_agent db = None"
proof -
  have "check_agent_commands (maximum_acknowledged db) 0 (db_agent_commands db) = None"
    using assms by (simp add: agent_inv_def check_agent_commands_iff)
  moreover have "check_agent_state (max m (maximum_acknowledged db)) (db_agent_commands db) a = None"
    if "a \<in> set (db_agent_state db)" for a m
    using assms that acknowledged_le [OF that]
    by (auto simp: agent_inv_def check_agent_state_def agent_row_ok_def list_ex_iff terminal_row_def)
  ultimately show ?thesis
    by (auto simp: check_agent_def ordered_by_sequence [OF assms] Let_def)
qed

section \<open>Statements keep the invariant\<close>

lemma agent_inv_insert_agent:
  assumes "agent_inv db" "agent_row_ok a" "ag_acknowledged a = 0"
  shows "agent_inv (insert_agent a db)"
proof -
  have "maximum_acknowledged (db\<lparr>db_agent_state := db_agent_state db @ [a]\<rparr>) = maximum_acknowledged db"
    using assms(3) max_or_zero_nonneg by (simp add: maximum_acknowledged_def max_or_zero_def)
  moreover have "0 < ag_sequence r" if "r \<in> set (db_agent_commands db)" for r
    using assms(1) that numbered_sorted by (auto simp: agent_inv_def)
  ultimately show ?thesis
    using assms by (fastforce simp: agent_inv_def insert_agent_def list_ex_iff)
qed

lemma maximum_acknowledged_mono:
  assumes "\<And>a. a \<in> set as \<Longrightarrow> ag_acknowledged a \<le> ag_acknowledged (f a)"
  shows "max_or_zero (map ag_acknowledged as) \<le> max_or_zero (map ag_acknowledged (map f as))"
  using assms
proof (induction as)
  case (Cons a as)
  then have "max_or_zero (map ag_acknowledged as) \<le> max_or_zero (map ag_acknowledged (map f as))" by simp
  moreover have "ag_acknowledged a \<le> ag_acknowledged (f a)" using Cons.prems by simp
  ultimately show ?case by (auto simp: max_or_zero_def le_max_iff_disj)
qed simp

lemma agent_inv_update_agent:
  assumes "agent_inv db" "find_agent host db = Some a" "ag_acknowledged a \<le> ag_acknowledged (f a)" "agent_row_ok (f a)"
    and acked: "\<And>r. r \<in> set (db_agent_commands db) \<Longrightarrow> ag_sequence r \<le> ag_acknowledged (f a) \<Longrightarrow> terminal_row r"
    and f: "\<And>q. ag_host_id (f q) = ag_host_id q"
  shows "agent_inv (update_agent host f db) \<and> (\<forall>q \<in> set (db_agent_state db). ag_host_id q = host \<longrightarrow> q = a)"
proof -
  let ?g = "\<lambda>q. if ag_host_id q = host then f q else q"
  have a: "a \<in> set (db_agent_state db)" "ag_host_id a = host"
    using assms(2) fetchone_Some unfolding find_agent_def by fastforce+
  have unique: "q = a" if "q \<in> set (db_agent_state db)" "ag_host_id q = host" for q
    using assms(1) a that by (auto simp: agent_inv_def distinct_map inj_on_def)
  have ids: "map ag_host_id (map ?g (db_agent_state db)) = map ag_host_id (db_agent_state db)"
    using f by auto
  have "max_or_zero (map ag_acknowledged (db_agent_state db)) \<le> max_or_zero (map ag_acknowledged (map ?g (db_agent_state db)))"
    using unique assms(3) by (intro maximum_acknowledged_mono) auto
  then have "numbered (max_or_zero (map ag_acknowledged (map ?g (db_agent_state db)))) 0 (db_agent_commands db)"
    using assms(1) numbered_mono by (auto simp: agent_inv_def maximum_acknowledged_def)
  moreover have "\<forall>q \<in> set (map ?g (db_agent_state db)). agent_row_ok q"
    using assms(1,4) unique by (auto simp: agent_inv_def)
  moreover have "\<forall>q \<in> set (map ?g (db_agent_state db)). \<forall>r \<in> set (db_agent_commands db).
      ag_sequence r \<le> ag_acknowledged q \<longrightarrow> terminal_row r"
    using assms(1) unique acked by (auto simp: agent_inv_def)
  ultimately show ?thesis
    using assms(1) ids unique unfolding agent_inv_def update_agent_def maximum_acknowledged_def
    by (simp del: map_map set_map)
qed

lemma maximum_is_last:
  assumes "numbered ack previous rs" "0 \<le> previous"
  shows "max_or_zero (map ag_sequence rs) = (if rs = [] then 0 else ag_sequence (last rs))"
  using assms
proof (induction rs arbitrary: previous)
  case (Cons r rs)
  have "max_or_zero (map ag_sequence rs) = (if rs = [] then 0 else ag_sequence (last rs))"
    using Cons.IH [of "ag_sequence r"] Cons.prems by auto
  moreover have "ag_sequence r < ag_sequence (last rs)" if "rs \<noteq> []"
    using Cons.prems(1) numbered_sorted that by fastforce
  ultimately show ?case using Cons.prems by (auto simp: max_or_zero_def)
qed (simp add: max_or_zero_def)

lemma agent_inv_insert_command:
  assumes "agent_inv db" "insert_command r db = Inr db'" "row_ok r" "ag_sequence r = max (maximum_sequence db) (maximum_acknowledged db) + 1"
  shows "agent_inv db'"
proof -
  let ?rs = "db_agent_commands db" and ?ack = "maximum_acknowledged db"
  have db': "db' = db\<lparr>db_agent_commands := ?rs @ [r]\<rparr>" and fresh: "ag_command_id r \<notin> ag_command_id ` set ?rs"
    using assms(2) by (auto simp: insert_command_def list_ex_iff sql_require_def split: if_splits)
  have "maximum_sequence db = (if ?rs = [] then 0 else ag_sequence (last ?rs))"
    using assms(1) maximum_is_last unfolding agent_inv_def maximum_sequence_def by blast
  moreover have "numbered ?ack 0 ?rs" using assms(1) by (simp add: agent_inv_def)
  ultimately have "numbered ?ack 0 (?rs @ [r])"
    using assms(4) by (auto simp: numbered_snoc Let_def max_def)
  moreover have "maximum_acknowledged db' = ?ack" by (simp add: db' maximum_acknowledged_def)
  moreover have "\<not> ag_sequence r \<le> ag_acknowledged a" if "a \<in> set (db_agent_state db)" for a
    using acknowledged_le [OF that] assms(4) by simp
  ultimately show ?thesis
    using assms(1,3) fresh by (auto simp: agent_inv_def db')
qed

lemma agent_inv_update_command:
  assumes "agent_inv db" "find_command cid db = Some r" "row_ok (f r)" "terminal_row r \<Longrightarrow> terminal_row (f r)"
    and f: "\<And>q. ag_sequence (f q) = ag_sequence q" "\<And>q. ag_command_id (f q) = ag_command_id q"
  shows "agent_inv (update_command cid f db)"
proof -
  let ?g = "\<lambda>q. if ag_command_id q = cid then f q else q"
  have r: "r \<in> set (db_agent_commands db)" "ag_command_id r = cid"
    using assms(2) fetchone_Some unfolding find_command_def by fastforce+
  have unique: "q = r" if "q \<in> set (db_agent_commands db)" "ag_command_id q = cid" for q
    using assms(1) r that by (auto simp: agent_inv_def distinct_map inj_on_def)
  have ids: "map ag_command_id (map ?g (db_agent_commands db)) = map ag_command_id (db_agent_commands db)"
    using f(2) by auto
  have "numbered (maximum_acknowledged db) 0 (map ?g (db_agent_commands db))"
    using assms(1) f(1) by (subst numbered_map) (auto simp: agent_inv_def)
  moreover have "\<forall>q \<in> set (map ?g (db_agent_commands db)). row_ok q"
    using assms(1,3) unique by (auto simp: agent_inv_def)
  moreover have "\<forall>a \<in> set (db_agent_state db). \<forall>q \<in> set (map ?g (db_agent_commands db)).
      ag_sequence q \<le> ag_acknowledged a \<longrightarrow> terminal_row q"
    using assms(1,4) unique f(1) by (auto simp: agent_inv_def)
  ultimately show ?thesis
    using assms(1) ids unfolding agent_inv_def update_command_def maximum_acknowledged_def
    by (simp del: map_map set_map)
qed

section \<open>Rows\<close>

lemma row_ok_iff:
  "row_ok r \<longleftrightarrow>
     (\<exists>payload. loads (ag_payload_json r) = Inr payload \<and> canonical_json (of_json payload) = ag_payload_json r \<and>
        canonical_digest (agent_request (ag_command_id r) (ag_sequence r) (ag_operation r) (ag_actor_id r)
          (ag_envelope_digest r) payload) = ag_request_digest r) \<and>
     ag_state r \<in> {''accepted'', ''running'', ''succeeded'', ''failed''} \<and>
     is_digest (ag_key_digest r) \<and> is_digest (ag_envelope_digest r) \<and> is_utc (ag_accepted_at r) \<and>
     (\<forall>t. ag_started_at r = Some t \<longrightarrow> is_utc t) \<and> check_agent_result r = None \<and>
     (\<forall>t. ag_bundle_pruned_at r = Some t \<longrightarrow> is_utc t \<and> terminal_row r \<and> ag_operation r \<in> set BUNDLE_OPERATIONS)"
  unfolding row_ok_def check_agent_command_def terminal_row_def
  by (cases "loads (ag_payload_json r)"; cases "ag_bundle_pruned_at r") auto

lemma agent_request_carrier:
  "agent_request c n o' a d p = VMap
     ([(''schema_version'', VInt 1), (''kind'', VStr ''ophelia.agent-command''), (''command_id'', VStr c),
       (''sequence'', VInt n), (''operation'', VStr o'), (''actor_id'', VStr a), (''envelope_digest'', VStr d)] @
      [(''payload'', of_json p)])"
  by (simp add: agent_request_def)

lemma agent_header_ok:
  "header_ok [(''schema_version'', VInt 1), (''kind'', VStr ''ophelia.agent-command''), (''command_id'', VStr c),
     (''sequence'', VInt n), (''operation'', VStr o'), (''actor_id'', VStr a), (''envelope_digest'', VStr d)] ''payload''"
  by (simp add: header_ok_def looks_like_command_key_def COMMAND_STRING_KEYS_def FORBIDDEN_MAPPING_KEYS_def
      ends_with_def lower_def to_lower_def is_upper_def)

lemma agent_request_digest_stored:
  "payload_ok p \<Longrightarrow> canonical_digest (agent_request c n o' a d (stored p)) = canonical_digest (agent_request c n o' a d p)"
  unfolding agent_request_carrier by (rule canonical_digest_carrier_stored [OF agent_header_ok])

lemma row_ok_accepted:
  assumes "payload_ok p" "is_digest d" "is_utc now"
  shows "row_ok \<lparr>ag_command_id = c, ag_sequence = n, ag_operation = o', ag_actor_id = a, ag_key_digest = digest_text key,
     ag_envelope_digest = d, ag_request_digest = canonical_digest (agent_request c n o' a d p),
     ag_payload_json = canonical_json (of_json p), ag_state = ''accepted'', ag_accepted_at = now, ag_started_at = None,
     ag_completed_at = None, ag_result_digest = None, ag_result_json = None, ag_bundle_pruned_at = None\<rparr>"
  using assms
  by (simp add: row_ok_iff loads_payload canonical_json_stored agent_request_digest_stored check_agent_result_def AGENT_TERMINAL_def)

lemma row_ok_running:
  assumes "row_ok r" "\<not> terminal_row r" "is_utc t"
  shows "row_ok (r\<lparr>ag_state := ''running'', ag_started_at := Some t\<rparr>)"
  using assms by (simp add: row_ok_iff check_agent_result_def terminal_row_def AGENT_TERMINAL_def)

lemma row_ok_completed:
  assumes "row_ok r" "payload_ok p" "is_utc t" "st \<in> set AGENT_TERMINAL" "\<not> terminal_row r"
  shows "row_ok (r\<lparr>ag_state := st, ag_completed_at := Some t, ag_result_digest := Some (canonical_digest (of_json p)),
     ag_result_json := Some (canonical_json (of_json p))\<rparr>)"
  using assms
  by (auto simp: row_ok_iff check_agent_result_def terminal_row_def loads_payload canonical_json_stored canonical_digest_stored AGENT_TERMINAL_def)

lemma check_agent_result_pruned [simp]: "check_agent_result (r\<lparr>ag_bundle_pruned_at := v\<rparr>) = check_agent_result r"
  by (simp add: check_agent_result_def cong: option.case_cong sum.case_cong)

lemma row_ok_pruned:
  assumes "row_ok r" "terminal_row r" "ag_operation r \<in> set BUNDLE_OPERATIONS" "is_utc t"
  shows "row_ok (r\<lparr>ag_bundle_pruned_at := (case ag_bundle_pruned_at r of None \<Rightarrow> Some t | Some u \<Rightarrow> Some u)\<rparr>)"
  using assms by (simp add: row_ok_iff terminal_row_def split: option.splits)

section \<open>Growth\<close>

text \<open>
  What later states keep: a command keeps its identity and payload, and once it is terminal its
  result; what a host acknowledged never decreases.
\<close>

definition descends :: "agent_command_row \<Rightarrow> agent_command_row \<Rightarrow> bool" where
  "descends r r' \<longleftrightarrow>
     ag_command_id r' = ag_command_id r \<and> ag_sequence r' = ag_sequence r \<and> ag_operation r' = ag_operation r \<and>
     ag_actor_id r' = ag_actor_id r \<and> ag_key_digest r' = ag_key_digest r \<and> ag_envelope_digest r' = ag_envelope_digest r \<and>
     ag_request_digest r' = ag_request_digest r \<and> ag_payload_json r' = ag_payload_json r \<and>
     ag_accepted_at r' = ag_accepted_at r \<and>
     (terminal_row r \<longrightarrow> ag_state r' = ag_state r \<and> ag_completed_at r' = ag_completed_at r \<and>
        ag_result_digest r' = ag_result_digest r \<and> ag_result_json r' = ag_result_json r)"

definition acks_grow :: "agent_state_row \<Rightarrow> agent_state_row \<Rightarrow> bool" where
  "acks_grow a a' \<longleftrightarrow> ag_host_id a' = ag_host_id a \<and> ag_acknowledged a \<le> ag_acknowledged a'"

text \<open>Every row of a table lives on in a later table.\<close>

definition rows_kept :: "('r \<Rightarrow> 'r \<Rightarrow> bool) \<Rightarrow> 'r list \<Rightarrow> 'r list \<Rightarrow> bool" where
  "rows_kept R xs ys \<longleftrightarrow> (\<forall>x \<in> set xs. \<exists>y \<in> set ys. R x y)"

lemma rows_kept_intros:
  assumes "\<And>x. R x x"
  shows "rows_kept R xs xs" "rows_kept R xs (xs @ ys)"
  using assms by (auto simp: rows_kept_def)

lemma rows_kept_map: "(\<And>x. x \<in> set xs \<Longrightarrow> R x (f x)) \<Longrightarrow> rows_kept R xs (map f xs)"
  unfolding rows_kept_def by auto

lemma rows_kept_trans:
  assumes "\<And>x y z. R x y \<Longrightarrow> R y z \<Longrightarrow> R x z" "rows_kept R xs ys" "rows_kept R ys zs"
  shows "rows_kept R xs zs"
  using assms unfolding rows_kept_def by meson

definition agent_grows :: "database \<Rightarrow> database \<Rightarrow> bool" where
  "agent_grows db db' \<longleftrightarrow>
     rows_kept descends (db_agent_commands db) (db_agent_commands db') \<and>
     rows_kept acks_grow (db_agent_state db) (db_agent_state db')"

definition agent_evolves :: "database \<Rightarrow> database \<Rightarrow> bool" where
  "agent_evolves db db' \<longleftrightarrow> (agent_inv db \<longrightarrow> agent_inv db' \<and> agent_grows db db')"

lemma descends_refl [simp]: "descends r r" and acks_refl [simp]: "acks_grow a a"
  by (simp_all add: descends_def acks_grow_def)

lemma descends_trans: "descends r q \<Longrightarrow> descends q p \<Longrightarrow> descends r p"
  by (auto simp: descends_def terminal_row_def)

lemma acks_trans: "acks_grow a b \<Longrightarrow> acks_grow b c \<Longrightarrow> acks_grow a c"
  by (simp add: acks_grow_def)

lemma agent_grows_refl [simp]: "agent_grows db db"
  by (simp add: agent_grows_def rows_kept_intros)

lemma agent_grows_trans: "agent_grows a b \<Longrightarrow> agent_grows b c \<Longrightarrow> agent_grows a c"
  unfolding agent_grows_def 
  by (meson acks_trans descends_trans rows_kept_trans)

interpretation ag: db_frame agent_evolves
  by unfold_locales (auto simp: agent_evolves_def intro: agent_grows_trans)

lemma update_command_evolves:
  assumes "find_command cid db = Some r" "row_ok r \<Longrightarrow> row_ok (f r)" "descends r (f r)"
    and f: "\<And>q. ag_sequence (f q) = ag_sequence q" "\<And>q. ag_command_id (f q) = ag_command_id q"
  shows "agent_evolves db (update_command cid f db)"
  unfolding agent_evolves_def
proof (intro impI conjI)
  assume inv: "agent_inv db"
  have r: "r \<in> set (db_agent_commands db)" "ag_command_id r = cid"
    using assms(1) fetchone_Some unfolding find_command_def by fastforce+
  have unique: "q = r" if "q \<in> set (db_agent_commands db)" "ag_command_id q = cid" for q
    using inv r that by (auto simp: agent_inv_def distinct_map inj_on_def)
  have "row_ok r" using inv r(1) by (simp add: agent_inv_def)
  then show "agent_inv (update_command cid f db)"
    using assms by (intro agent_inv_update_command [OF inv assms(1)]) (auto simp: descends_def terminal_row_def)
  show "agent_grows db (update_command cid f db)"
    using unique assms(3) by (auto simp: agent_grows_def update_command_def intro!: rows_kept_intros rows_kept_map)
qed

lemma update_agent_evolves:
  assumes "find_agent host db = Some a" "ag_acknowledged a \<le> ag_acknowledged (f a)" "agent_row_ok a \<Longrightarrow> agent_row_ok (f a)"
    and acked: "\<And>r. r \<in> set (db_agent_commands db) \<Longrightarrow> \<not> ag_sequence r \<le> ag_acknowledged a \<Longrightarrow>
      ag_sequence r \<le> ag_acknowledged (f a) \<Longrightarrow> terminal_row r"
    and f: "\<And>q. ag_host_id (f q) = ag_host_id q"
  shows "agent_evolves db (update_agent host f db)"
  unfolding agent_evolves_def
proof (intro impI)
  assume inv: "agent_inv db"
  have "a \<in> set (db_agent_state db)" using assms(1) fetchone_Some unfolding find_agent_def by fastforce
  then have "agent_row_ok a" "\<And>r. r \<in> set (db_agent_commands db) \<Longrightarrow> ag_sequence r \<le> ag_acknowledged a \<Longrightarrow> terminal_row r"
    using inv by (simp_all add: agent_inv_def)
  then have "agent_inv (update_agent host f db) \<and> (\<forall>q \<in> set (db_agent_state db). ag_host_id q = host \<longrightarrow> q = a)"
    using acked assms(3) by (intro agent_inv_update_agent [OF inv assms(1,2) _ _ f]) blast+
  then show "agent_inv (update_agent host f db) \<and> agent_grows db (update_agent host f db)"
    using assms(2) f by (auto simp: agent_grows_def update_agent_def acks_grow_def intro!: rows_kept_intros rows_kept_map)
qed

lemma insert_agent_evolves:
  "agent_row_ok a \<Longrightarrow> ag_acknowledged a = 0 \<Longrightarrow> agent_evolves db (insert_agent a db)"
  using agent_inv_insert_agent [of db a]
  by (auto simp: agent_evolves_def agent_grows_def insert_agent_def rows_kept_intros split: if_splits)

lemma insert_command_evolves:
  assumes "insert_command r db = Inr db'" "row_ok r" "ag_sequence r = max (maximum_sequence db) (maximum_acknowledged db) + 1"
  shows "agent_evolves db db'"
  unfolding agent_evolves_def
proof (intro impI conjI)
  assume "agent_inv db"
  then show "agent_inv db'" using assms by (rule agent_inv_insert_command)
  show "agent_grows db db'"
    using assms(1) by (auto simp: insert_command_def agent_grows_def rows_kept_intros)
qed

section \<open>Calls\<close>

datatype agent_call =
    Register string
  | Record_Connection string bool bool "string option"
  | Accept_Command string int string string string string json
  | Mark_Running string
  | Complete_Command string bool json
  | Acknowledge_Results string int
  | Mark_Bundle_Pruned string

fun run_agent_call :: "agent_call \<Rightarrow> unit tx" where
  "run_agent_call (Register host) = returning (agent_register host)"
| "run_agent_call (Record_Connection host online revoked error_type) = returning (record_connection host online revoked error_type)"
| "run_agent_call (Accept_Command command_id sequence operation actor_id key envelope_digest payload) =
     returning (agent_accept command_id sequence operation actor_id key envelope_digest payload)"
| "run_agent_call (Mark_Running command_id) = returning (mark_running command_id)"
| "run_agent_call (Complete_Command command_id succeeded result) = returning (agent_complete command_id succeeded result)"
| "run_agent_call (Acknowledge_Results host sequence) = returning (acknowledge_results host sequence)"
| "run_agent_call (Mark_Bundle_Pruned command_id) = mark_bundle_pruned command_id"

text \<open>
  The screened calls. \<^verbatim>\<open>accept\<close> and \<^verbatim>\<open>complete\<close> take any object; the redaction of scalars below command keys
  is not idempotent, and forbidden keys are dropped, so that what holds of the stored texts is proved
  for payloads and results without such keys. Every other call is screened.
\<close>

fun agent_call_ok :: "agent_call \<Rightarrow> bool" where
  "agent_call_ok (Accept_Command command_id sequence operation actor_id key envelope_digest payload) \<longleftrightarrow> payload_ok payload"
| "agent_call_ok (Complete_Command command_id succeeded result) \<longleftrightarrow> payload_ok result"
| "agent_call_ok _ \<longleftrightarrow> True"

lemma readonly_store [simp]: "readonly store_now" "readonly (agent_state host)"
  by (auto simp: store_now_def agent_state_def intro!: readonly_bind)

lemma insert_agent_frames: "is_utc now \<Longrightarrow> frames agent_evolves (tx_update (insert_agent
    \<lparr>ag_host_id = host, ag_acknowledged = 0, ag_connection_state = ''disconnected'', ag_connected_at = None,
     ag_last_exchange_at = None, ag_last_error_type = None, ag_updated_at = now\<rparr>))"
  by (intro ag.update insert_agent_evolves) (simp_all add: agent_row_ok_def)

lemma moves_at_now:
  assumes "\<And>now. is_utc now \<Longrightarrow> moves agent_evolves (f now)"
  shows "moves agent_evolves (tx_bind store_now f)"
  unfolding moves_def
proof (intro allI impI)
  fix s r s'
  assume run: "tx_bind store_now f s = (r, s')"
  obtain q t where now: "store_now s = (q, t)" by (cases "store_now s")
  have db: "jn_db t = jn_db s" using now readonly_store(1) by (auto simp: readonly_def)
  show "agent_evolves (jn_db s) (jn_db s')"
  proof (cases q)
    case (Inl e)
    with run now db show ?thesis by (auto simp: tx_bind_def ag.refl)
  next
    case (Inr x)
    then have "is_utc x" using now utc_now_text_is_utc by (auto simp: tx_success)
    with assms have "moves agent_evolves (f x)" by blast
    moreover have "f x t = (r, s')" using run now Inr by (simp add: tx_bind_def)
    ultimately show ?thesis using db unfolding moves_def by metis
  qed
qed

lemma register_evolves: "moves agent_evolves (agent_register host)"
  unfolding agent_register_def
  by (intro moves_at_now ag.moves_bind ag.moves_atomic ag.transaction insert_agent_frames ag.moves_readonly) simp_all

lemma connection_frames:
  assumes "is_utc now"
  shows "frames agent_evolves (transaction (tx_bind (tx_query (find_agent host)) (\<lambda>row.
     case row of None \<Rightarrow> tx_raise (KeyError host)
     | Some r \<Rightarrow> tx_update (update_agent host (\<lambda>q. q\<lparr>
         ag_connection_state := (if online then ''connected'' else if revoked then ''revoked'' else ''disconnected''),
         ag_connected_at := (if online \<and> ag_connection_state r \<noteq> ''connected'' then Some now else ag_connected_at r),
         ag_last_exchange_at := (if online then Some now else ag_last_exchange_at r),
         ag_last_error_type := (if online then None else error_type), ag_updated_at := now\<rparr>)))))"
  unfolding frames_def
proof (intro allI impI, goal_cases)
  case (1 s x s')
  then obtain a where a: "find_agent host (jn_db s) = Some a"
    by (auto simp: tx_success split: option.splits)
  with 1 assms show ?case
    by (auto simp: tx_success agent_row_ok_def split: if_splits intro!: update_agent_evolves [OF a])
qed

lemma connection_evolves: "moves agent_evolves (record_connection host online revoked error_type)"
  unfolding record_connection_def
  by (intro moves_at_now ag.moves_bind ag.moves_atomic ag.moves_readonly) (simp_all add: connection_frames)

lemma accept_command_evolves:
  assumes "payload_ok payload"
  shows "frames agent_evolves (agent_accept command_id sequence operation actor_id key envelope_digest payload)"
  unfolding frames_def
proof (intro allI impI)
  fix s x s'
  assume "agent_accept command_id sequence operation actor_id key envelope_digest payload s = (Inr x, s')"
  then show "agent_evolves (jn_db s) (jn_db s')"
    using row_ok_accepted [OF assms]
    by (auto simp: agent_accept_def agent_accept_new_def Let_def tx_success ag.refl agent_accept_check_def utc_now_text_is_utc
        split: option.splits if_splits intro!: insert_command_evolves)
qed

lemma running_row_evolves:
  assumes "find_command cid db = Some r" "\<not> terminal_row r" "row_ok r \<Longrightarrow> is_utc t"
  shows "agent_evolves db (update_command cid (\<lambda>q. q\<lparr>ag_state := ''running'', ag_started_at := Some t\<rparr>) db)"
  using assms by (intro update_command_evolves [OF assms(1)]) (auto simp: row_ok_running descends_def)

lemma running_evolves: "frames agent_evolves (mark_running command_id)"
  unfolding frames_def
proof (intro allI impI)
  fix s x s'
  assume run: "mark_running command_id s = (Inr x, s')"
  then obtain r where r: "find_command command_id (jn_db s) = Some r"
    by (auto simp: mark_running_def tx_success split: option.splits)
  show "agent_evolves (jn_db s) (jn_db s')"
  proof (cases "terminal_row r")
    case True
    with run r show ?thesis by (auto simp: mark_running_def tx_success terminal_row_def ag.refl)
  next
    case False
    have "is_utc t" if "row_ok r" "ag_started_at r = Some t" for t using that by (simp add: row_ok_iff)
    with False run r show ?thesis
      by (auto simp: mark_running_def tx_success terminal_row_def utc_now_text_is_utc split: option.splits if_splits
          intro!: running_row_evolves [OF r])
  qed
qed

lemma complete_row_evolves:
  assumes "find_command cid db = Some r" "\<not> terminal_row r" "payload_ok p" "is_utc t" "st \<in> set AGENT_TERMINAL"
  shows "agent_evolves db (update_command cid (\<lambda>q. q\<lparr>ag_state := st, ag_completed_at := Some t,
     ag_result_digest := Some (canonical_digest (of_json p)), ag_result_json := Some (canonical_json (of_json p))\<rparr>) db)"
  using assms by (intro update_command_evolves [OF assms(1)]) (auto simp: row_ok_completed descends_def)

lemma complete_evolves:
  assumes "payload_ok result"
  shows "frames agent_evolves (agent_complete command_id succeeded result)"
  unfolding frames_def
proof (intro allI impI)
  fix s x s'
  assume run: "agent_complete command_id succeeded result s = (Inr x, s')"
  then obtain r where r: "find_command command_id (jn_db s) = Some r"
    by (auto simp: agent_complete_def Let_def tx_success split: option.splits)
  have st: "(if succeeded then ''succeeded'' else ''failed'') \<in> set AGENT_TERMINAL" by (simp add: AGENT_TERMINAL_def)
  show "agent_evolves (jn_db s) (jn_db s')"
  proof (cases "terminal_row r")
    case True
    with run r show ?thesis by (auto simp: agent_complete_def Let_def tx_success terminal_row_def ag.refl split: if_splits)
  next
    case False
    with run r show ?thesis
      using complete_row_evolves [OF r False assms _ st, OF utc_now_text_is_utc]
      by (auto simp: agent_complete_def Let_def tx_success terminal_row_def simp del: if_split)
  qed
qed

lemma acknowledge_evolves: "frames agent_evolves (acknowledge_results host sequence)"
  unfolding frames_def
proof (intro allI impI)
  fix s x s'
  assume run: "acknowledge_results host sequence s = (Inr x, s')"
  then obtain a where a: "find_agent host (jn_db s) = Some a"
    by (auto simp: acknowledge_results_def tx_success split: option.splits)
  with run show "agent_evolves (jn_db s) (jn_db s')"
    by (auto simp: acknowledge_results_def tx_success terminal_row_def list_ex_iff agent_row_ok_def utc_now_text_is_utc ag.refl
        split: if_splits intro!: update_agent_evolves [OF a])
qed

lemma pruned_row_evolves:
  assumes "find_command cid db = Some r" "terminal_row r" "ag_operation r \<in> set BUNDLE_OPERATIONS" "is_utc now"
  shows "agent_evolves db (update_command cid (\<lambda>q. q\<lparr>ag_bundle_pruned_at :=
      (case ag_bundle_pruned_at q of None \<Rightarrow> Some now | Some t \<Rightarrow> Some t)\<rparr>) db)"
  using assms by (intro update_command_evolves [OF assms(1)]) (auto simp: row_ok_pruned descends_def)

lemma pruned_evolves: "frames agent_evolves (mark_bundle_pruned command_id)"
  unfolding frames_def
proof (intro allI impI)
  fix s x s'
  assume run: "mark_bundle_pruned command_id s = (Inr x, s')"
  then obtain r where r: "find_command command_id (jn_db s) = Some r"
    by (auto simp: mark_bundle_pruned_def tx_success split: option.splits)
  with run show "agent_evolves (jn_db s) (jn_db s')"
    by (auto simp: mark_bundle_pruned_def tx_success terminal_row_def utc_now_text_is_utc intro!: pruned_row_evolves [OF r])
qed

lemma atomic_agent:
  "atomic (agent_accept command_id sequence operation actor_id key envelope_digest payload)"
  "atomic (mark_running command_id)" "atomic (agent_complete command_id succeeded result)"
  "atomic (acknowledge_results host seq)" "atomic (mark_bundle_pruned command_id)"
  by (auto simp: agent_accept_def mark_running_def agent_complete_def acknowledge_results_def mark_bundle_pruned_def Let_def
      intro!: atomic_intros)

lemma agent_calls_evolve: "agent_call_ok c \<Longrightarrow> moves agent_evolves (run_agent_call c)"
  by (cases c) (simp_all add: register_evolves connection_evolves ag.moves_returning ag.moves_atomic atomic_agent accept_command_evolves
      running_evolves complete_evolves acknowledge_evolves pruned_evolves)

section \<open>The machine\<close>

definition agent_ops :: machine where
  "agent_ops = range run_agent_call"

definition screened_agent_ops :: machine where
  "screened_agent_ops = {run_agent_call c | c. agent_call_ok c}"

definition same_agent :: "database \<Rightarrow> database \<Rightarrow> bool" where
  "same_agent db db' \<longleftrightarrow> db_agent_state db' = db_agent_state db \<and> db_agent_commands db' = db_agent_commands db"

interpretation sag: db_frame same_agent
  by unfold_locales (simp_all add: same_agent_def)

lemma same_agent_evolves: "same_agent db db' \<Longrightarrow> agent_evolves db db'"
  unfolding agent_evolves_def agent_inv_def agent_grows_def maximum_acknowledged_def
  by (simp add: same_agent_def rows_kept_intros)

lemma add_event_same_agent: "same_agent db (add_event e p db)"
  by (simp add: same_agent_def add_event_def set_operation_state_def)

lemma calls_same_agent: "frames same_agent (run_call c)"
proof (cases c)
  case (Accept actor request a inp)
  have "same_agent (jn_db s) (jn_db s')" if "accept actor request a inp s = (Inr ref, s')" for s ref s'
    using that by (cases rule: accept_success) (simp_all add: same_agent_def accepted_db_def)
  then show ?thesis unfolding Accept by (auto simp: frames_def tx_success)
qed (auto simp: call_defs Let_def statement_defs same_agent_def
      intro!: sag.intros sag.append_event sag.phase_events add_event_same_agent [unfolded same_agent_def])

lemma journal_calls_evolve_agent: "frames agent_evolves (run_call c)"
  using calls_same_agent same_agent_evolves by (auto simp: frames_def)

lemma agent_inv_empty: "agent_inv empty_database"
  by (simp add: agent_inv_def empty_database_def)

end
