(* ===== verification/Run_Facts.thy ===== *)
theory Run_Facts
  imports Daemon_Store Agent_Facts
begin

text \<open>
  Facts about workload runs: the invariant behind the workload part of the integrity check, the
  event chain of a run and its mirror in the host event stream, and what later states keep.
\<close>

section \<open>Members of a stored payload\<close>

lemma stored_obj: "stored (JObj kvs) = JObj (sort_key fst (map (\<lambda>p. (fst p, json_canon (scrub_member False (fst p) (snd p)))) kvs))"
  by (simp add: stored_def scrub_JObj comp_def del: scrub.simps)

lemma dict_get_stored:
  assumes "distinct (map fst kvs)" "map_of kvs k = Some v" "stored (JObj kvs) = JObj ps"
  shows "dict_get ps k = json_canon (scrub_member False k v)"
proof -
  let ?f = "\<lambda>p. (fst p, json_canon (scrub_member False (fst p) (snd p)))"
  have ps: "ps = sort_key fst (map ?f kvs)" using assms(3) unfolding stored_obj by simp
  have "distinct (map fst (map ?f kvs))" using assms(1) by (simp add: comp_def)
  then have "map_of ps k = map_of (map ?f kvs) k" unfolding ps by (simp only: map_of_sort_key_fst)
  moreover have "map_of (map ?f kvs) k = Some (json_canon (scrub_member False k v))"
    using assms(2) by (induction kvs) (auto split: if_splits)
  ultimately show ?thesis by (simp add: dict_get_def)
qed

lemma stored_is_obj: obtains ps where "stored (JObj kvs) = JObj ps"
  by (simp add: stored_obj)

lemma run_field_names:
  "list_all plain_key [''run_id'', ''detail'', ''exit_code'', ''exit_reason'', ''result_digest'', ''workload_name'', ''trigger_kind'']"
  by (simp add: plain_key_eval)

lemmas run_field_simps [simp] = run_field_names [simplified list.pred_inject simp_thms]

lemma fencing_token_key: "\<not> looks_like_command_key (Some ''fencing_token'')" "lower ''fencing_token'' \<notin> set FORBIDDEN_MAPPING_KEYS"
  by (simp_all add: plain_key_eval)

section \<open>The payload of an event\<close>

definition detail_ok :: "(string \<times> json) list \<Rightarrow> bool" where
  "detail_ok detail \<longleftrightarrow> payload_ok (JObj detail)"

definition plain_text :: "string \<Rightarrow> bool" where
  "plain_text s \<longleftrightarrow> scrub_text s = s"

lemma plain_json_payload: "json_wf (JObj kvs) \<Longrightarrow> plain_json (JObj kvs) \<Longrightarrow> payload_ok (JObj kvs)"
  unfolding payload_ok_def
  using plain_json_free(1) [of "JObj kvs" None] plain_json_free(2) [of "JObj kvs"] by (simp add: is_obj_def)

lemma run_event_payload_ok:
  assumes "detail_ok detail"
  shows "payload_ok (run_event_payload run_id n ty now previous detail)"
proof -
  have "json_wf (JObj detail)" "command_free None (JObj detail)" "forbidden_free (JObj detail)"
    using assms by (simp_all add: detail_ok_def payload_ok_def)
  then show ?thesis
    by (auto simp: payload_ok_def run_event_payload_def is_obj_def plain_keyD split: option.splits)
qed

lemma run_event_payload_fields:
  assumes "stored (run_event_payload run_id n ty now previous detail) = JObj ps" "plain_text run_id" "plain_text ty"
    "\<And>d. previous = Some d \<Longrightarrow> is_digest d"
  shows "dict_get ps ''run_id'' = JStr run_id" "dict_get ps ''sequence'' = JInt n" "dict_get ps ''event_type'' = JStr ty"
    "dict_get ps ''previous_event_digest'' = (case previous of None \<Rightarrow> JNull | Some d \<Rightarrow> JStr d)"
  using assms(2-4) dict_get_stored [OF _ _ assms(1) [unfolded run_event_payload_def]]
  by (simp_all add: plain_text_def split: option.splits)

text \<open>One event against what precedes it.\<close>

definition event_ok :: "string \<Rightarrow> int \<Rightarrow> string option \<Rightarrow> run_event_row \<Rightarrow> bool" where
  "event_ok run_id n previous e \<longleftrightarrow>
     (\<exists>payload. loads (we_payload_json e) = Inr (JObj payload) \<and> event_matches run_id n previous payload e)"

definition chain_end :: "string option \<Rightarrow> run_event_row list \<Rightarrow> string option" where
  "chain_end previous es = (if es = [] then previous else Some (we_event_digest (last es)))"

lemma check_run_chain_Cons:
  "check_run_chain run_id n previous (e # es) = None \<longleftrightarrow>
     event_ok run_id n previous e \<and> check_run_chain run_id (n + 1) (Some (we_event_digest e)) es = None"
  by (auto simp: event_ok_def split: sum.splits json.splits)

declare check_run_chain.simps(2) [simp del]

lemma check_run_chain_snoc:
  "check_run_chain run_id n previous (es @ [e]) = None \<longleftrightarrow>
     check_run_chain run_id n previous es = None \<and> event_ok run_id (n + int (length es)) (chain_end previous es) e"
proof (induction es arbitrary: n previous)
  case (Cons x es)
  show ?case using Cons.IH [of "n + 1" "Some (we_event_digest x)"]
    by (auto simp: check_run_chain_Cons chain_end_def add.assoc)
qed (simp add: check_run_chain_Cons chain_end_def)

lemma event_ok_digest: "event_ok run_id n previous e \<Longrightarrow> we_sequence e = n \<and> is_digest (we_event_digest e)"
  by (auto simp: event_ok_def event_matches_def canonical_digest_def) (metis digest_text_is_digest)

lemma chain_sequences:
  "check_run_chain run_id n previous es = None \<Longrightarrow> map we_sequence es = map (\<lambda>i. n + int i) [0..<length es] \<and> (\<forall>e \<in> set es. is_digest (we_event_digest e))"
proof (induction es arbitrary: n previous)
  case (Cons e es)
  then show ?case
    using event_ok_digest by (auto simp: check_run_chain_Cons upt_conv_Cons map_Suc_upt [symmetric] simp del: upt_Suc)
qed simp

section \<open>The invariant\<close>

definition events_of :: "string \<Rightarrow> run_event_row list \<Rightarrow> run_event_row list" where
  "events_of run_id es = filter (\<lambda>e. we_run_id e = run_id) es"

definition terminal_run :: "workload_run_row \<Rightarrow> bool" where
  "terminal_run r \<longleftrightarrow> wr_state r \<in> set RUN_TERMINAL"

definition run_ok :: "run_event_row list \<Rightarrow> workload_run_row \<Rightarrow> bool" where
  "run_ok es r \<longleftrightarrow>
     check_run_identity r = None \<and> plain_text (wr_run_id r) \<and>
     check_run_chain (wr_run_id r) 1 None (events_of (wr_run_id r) es) = None \<and>
     check_final_event r (events_of (wr_run_id r) es) = None"

definition mirror :: "run_event_row \<Rightarrow> string \<times> string option \<times> string \<times> string" where
  "mirror e = (we_event_id e, Some (we_run_id e), we_event_digest e, we_payload_json e)"

definition mirrored :: "host_event_row \<Rightarrow> string \<times> string option \<times> string \<times> string" where
  "mirrored h = (he_event_id h, he_workload_run_id h, he_event_digest h, he_payload_json h)"

definition workload_stream :: "database \<Rightarrow> host_event_row list" where
  "workload_stream db = filter (\<lambda>h. he_event_type h = ''workload'') (db_host_events db)"

definition run_inv :: "database \<Rightarrow> bool" where
  "run_inv db \<longleftrightarrow>
     distinct (map wr_run_id (db_workload_runs db)) \<and>
     (\<forall>r \<in> set (db_workload_runs db). run_ok (db_workload_run_events db) r) \<and>
     (\<forall>e \<in> set (db_workload_run_events db). we_run_id e \<in> wr_run_id ` set (db_workload_runs db)) \<and>
     distinct (map we_event_id (db_workload_run_events db)) \<and>
     map mirrored (workload_stream db) = map mirror (db_workload_run_events db)"

lemma events_in_order:
  assumes "check_run_chain run_id 1 None (events_of run_id (db_workload_run_events db)) = None"
  shows "run_events run_id db = events_of run_id (db_workload_run_events db)"
proof -
  have "sorted (map we_sequence (events_of run_id (db_workload_run_events db)))"
    using chain_sequences [OF assms] by (simp add: sorted_iff_nth_mono)
  then show ?thesis by (simp add: run_events_def events_of_def sort_key_id_if_sorted)
qed

lemma count_by_run:
  assumes "distinct ids" "\<forall>e \<in> set es. we_run_id e \<in> set ids"
  shows "sum_list (map (\<lambda>i. length (events_of i es)) ids) = length es"
  using assms(2)
proof (induction es)
  case (Cons e es)
  have "sum_list (map (\<lambda>i. length (events_of i (e # es))) ids) =
      sum_list (map (\<lambda>i. length (events_of i es)) ids) + sum_list (map (\<lambda>i. if i = we_run_id e then 1 else 0) ids)"
    unfolding sum_list_addf [symmetric] by (rule arg_cong [where f = sum_list]) (auto simp: events_of_def)
  also have "sum_list (map (\<lambda>i. if i = we_run_id e then 1 else 0) ids) = (1 :: nat)"
    using assms(1) Cons.prems by (simp add: sum_list_distinct_conv_sum_set)
  finally show ?case using Cons by simp
qed (simp add: events_of_def)

lemma mirrors_from_stream:
  assumes "map mirrored hs = map mirror es" "distinct (map we_event_id es)" "h \<in> set hs"
  shows "\<exists>w. fetchone (\<lambda>w. we_event_id w = he_event_id h) es = Some w \<and> mirrored h = mirror w"
proof -
  have "mirrored h \<in> set (map mirrored hs)" using assms(3) by simp
  then obtain w where "w \<in> set es" "mirrored h = mirror w" unfolding assms(1) by auto
  then show ?thesis using assms(2) by (auto simp: fetchone_key mirror_def mirrored_def)
qed

lemma run_inv_checks:
  assumes "run_inv db"
  shows "check_workload db = None"
proof -
  have order: "run_events (wr_run_id r) db = events_of (wr_run_id r) (db_workload_run_events db)" if "r \<in> set (db_workload_runs db)" for r
    using assms that by (intro events_in_order) (simp add: run_inv_def run_ok_def)
  then have "check_run db r = None" if "r \<in> set (db_workload_runs db)" for r
    using assms that by (simp add: run_inv_def run_ok_def check_run_def)
  then have "first_error (map (check_run db) (sort_key wr_run_id (db_workload_runs db))) = None" by simp
  moreover have "length (workload_stream db) = length (db_workload_run_events db)"
    using assms by (metis length_map run_inv_def)
  moreover have "sum_list (map (\<lambda>r. length (run_events (wr_run_id r) db)) (db_workload_runs db)) = length (db_workload_run_events db)"
    using count_by_run [of "map wr_run_id (db_workload_runs db)"] assms order by (simp add: run_inv_def comp_def cong: map_cong)
  moreover have "list_all (mirrors_run_event db) (workload_stream db)"
    using assms mirrors_from_stream [of "workload_stream db" "db_workload_run_events db"]
    by (fastforce simp: run_inv_def list_all_iff mirrors_run_event_def mirror_def mirrored_def)
  ultimately have "workload_stream_reconciles db" by (simp add: workload_stream_reconciles_def workload_stream_def)
  with \<open>first_error _ = None\<close> show ?thesis by (simp add: check_workload_def del: first_error_None)
qed

section \<open>Appending an event\<close>

definition new_event :: "string \<Rightarrow> string \<Rightarrow> (string \<times> json) list \<Rightarrow> string \<Rightarrow> string \<Rightarrow> database \<Rightarrow> run_event_row" where
  "new_event run_id ty detail now hex db =
     (let previous = last_run_event run_id db;
          n = (case previous of None \<Rightarrow> 1 | Some e \<Rightarrow> we_sequence e + 1);
          payload = run_event_payload run_id n ty now (map_option we_event_digest previous) detail
      in \<lparr>we_run_id = run_id, we_sequence = n, we_event_id = ''event_'' @ hex,
          we_event_digest = canonical_digest (of_json payload), we_payload_json = canonical_json (of_json payload)\<rparr>)"

definition add_run_event :: "run_event_row \<Rightarrow> string \<Rightarrow> database \<Rightarrow> database" where
  "add_run_event e now db = db\<lparr>db_workload_run_events := db_workload_run_events db @ [e],
     db_host_events := db_host_events db @ [\<lparr>he_cursor = db_sequence db + 1, he_event_id = we_event_id e, he_event_type = ''workload'',
       he_operation_id = None, he_workload_run_id = Some (we_run_id e), he_event_digest = we_event_digest e, he_occurred_at = now,
       he_payload_json = we_payload_json e\<rparr>],
     db_sequence := db_sequence db + 1\<rparr>"

definition appended :: "string \<Rightarrow> string \<Rightarrow> (string \<times> json) list \<Rightarrow> database \<Rightarrow> database \<Rightarrow> bool" where
  "appended run_id ty detail db db' \<longleftrightarrow>
     (\<exists>now hex. is_utc now \<and> db' = add_run_event (new_event run_id ty detail now hex db) now db \<and>
        we_event_id (new_event run_id ty detail now hex db) \<notin> we_event_id ` set (db_workload_run_events db) \<and>
        run_id \<in> wr_run_id ` set (db_workload_runs db))"

lemma append_run_event_statements:
  assumes "append_run_event run_id ty detail s = (Inr u, s')"
  obtains now e db where "is_utc now" "e = new_event run_id ty detail now (jn_uuid s (jn_ids s)) (jn_db s)"
    "insert_run_event e (jn_db s) = Inr db"
    "insert_host_event \<lparr>he_cursor = 0, he_event_id = we_event_id e, he_event_type = ''workload'', he_operation_id = None,
       he_workload_run_id = Some (we_run_id e), he_event_digest = we_event_digest e, he_occurred_at = now,
       he_payload_json = we_payload_json e\<rparr> db = Inr (jn_db s')"
proof -
  from assms obtain t now db where t: "utc_now_text t = Inr now"
    and e: "insert_run_event (new_event run_id ty detail now (jn_uuid s (jn_ids s)) (jn_db s)) (jn_db s) = Inr db"
    and h: "insert_host_event \<lparr>he_cursor = 0, he_event_id = we_event_id (new_event run_id ty detail now (jn_uuid s (jn_ids s)) (jn_db s)),
       he_event_type = ''workload'', he_operation_id = None, he_workload_run_id = Some run_id,
       he_event_digest = we_event_digest (new_event run_id ty detail now (jn_uuid s (jn_ids s)) (jn_db s)), he_occurred_at = now,
       he_payload_json = we_payload_json (new_event run_id ty detail now (jn_uuid s (jn_ids s)) (jn_db s))\<rparr> db = Inr (jn_db s')"
    unfolding append_run_event_def Let_def tx_success new_event_def by (elim exE conjE) simp
  have "we_run_id (new_event run_id ty detail now (jn_uuid s (jn_ids s)) (jn_db s)) = run_id" by (simp add: new_event_def Let_def)
  then show ?thesis using that [OF utc_now_text_is_utc [OF t] refl e] h by simp
qed

lemma append_run_event_success:
  assumes "append_run_event run_id ty detail s = (Inr u, s')"
  shows "appended run_id ty detail (jn_db s) (jn_db s')"
  using assms
proof (rule append_run_event_statements)
  fix now e db
  assume now: "is_utc now" and e: "e = new_event run_id ty detail now (jn_uuid s (jn_ids s)) (jn_db s)"
    and run: "insert_run_event e (jn_db s) = Inr db"
    and host: "insert_host_event \<lparr>he_cursor = 0, he_event_id = we_event_id e, he_event_type = ''workload'', he_operation_id = None,
       he_workload_run_id = Some (we_run_id e), he_event_digest = we_event_digest e, he_occurred_at = now,
       he_payload_json = we_payload_json e\<rparr> db = Inr (jn_db s')"
  have db: "db = jn_db s\<lparr>db_workload_run_events := db_workload_run_events (jn_db s) @ [e]\<rparr>"
    and fresh: "we_event_id e \<notin> we_event_id ` set (db_workload_run_events (jn_db s))"
    and "list_ex (\<lambda>q. wr_run_id q = we_run_id e) (db_workload_runs (jn_db s))"
    using run by (auto simp: insert_run_event_def list_ex_iff)
  then have known: "we_run_id e \<in> wr_run_id ` set (db_workload_runs (jn_db s))" unfolding list_ex_iff by (metis image_eqI)
  have "jn_db s' = add_run_event e now (jn_db s)" using host by (simp add: insert_host_event_def db add_run_event_def)
  moreover have "we_run_id e = run_id" by (simp add: e new_event_def Let_def)
  ultimately show ?thesis using now fresh known e unfolding appended_def by metis
qed

lemma last_run_event_chain:
  assumes "check_run_chain run_id 1 None (events_of run_id (db_workload_run_events db)) = None"
  shows "last_run_event run_id db =
    (if events_of run_id (db_workload_run_events db) = [] then None else Some (last (events_of run_id (db_workload_run_events db))))"
  unfolding last_run_event_def events_in_order [OF assms]
  by (cases "events_of run_id (db_workload_run_events db)" rule: rev_cases) simp_all

lemma new_event_ok:
  assumes chain: "check_run_chain run_id 1 None es = None" and es: "es = events_of run_id (db_workload_run_events db)"
    and "plain_text run_id" "plain_text ty" "detail_ok detail"
  shows "event_ok run_id (1 + int (length es)) (chain_end None es) (new_event run_id ty detail now hex db)"
    and "\<exists>ps. loads (we_payload_json (new_event run_id ty detail now hex db)) = Inr (JObj ps) \<and> dict_get ps ''event_type'' = JStr ty"
proof -
  note seqs = chain_sequences [OF chain]
  have last: "last_run_event run_id db = (if es = [] then None else Some (last es))"
    using last_run_event_chain chain es by simp
  have prev: "map_option we_event_digest (last_run_event run_id db) = chain_end None es"
    by (simp add: last chain_end_def)
  have n: "(case last_run_event run_id db of None \<Rightarrow> 1 | Some e \<Rightarrow> we_sequence e + 1) = 1 + int (length es)"
  proof (cases "es = []")
    case False
    then have "we_sequence (last es) = map we_sequence es ! (length es - 1)" by (simp add: last_conv_nth)
    also have "\<dots> = int (length es)" using seqs False by (simp add: Suc_le_eq of_nat_diff)
    finally show ?thesis using False by (simp add: last)
  qed (simp add: last)
  let ?p = "run_event_payload run_id (1 + int (length es)) ty now (chain_end None es) detail"
  have e: "new_event run_id ty detail now hex db = \<lparr>we_run_id = run_id, we_sequence = 1 + int (length es), we_event_id = ''event_'' @ hex,
      we_event_digest = canonical_digest (of_json ?p), we_payload_json = canonical_json (of_json ?p)\<rparr>"
    by (simp add: new_event_def Let_def prev n)
  have ok: "payload_ok ?p" using assms(5) by (rule run_event_payload_ok)
  obtain ps where ps: "stored ?p = JObj ps" unfolding run_event_payload_def by (rule stored_is_obj)
  have digests: "is_digest d" if "chain_end None es = Some d" for d
    using that seqs by (auto simp: chain_end_def split: if_splits)
  note fields = run_event_payload_fields [OF ps assms(3,4) digests]
  have loads: "loads (canonical_json (of_json ?p)) = Inr (JObj ps)" using loads_payload [OF ok] ps by simp
  then show "event_ok run_id (1 + int (length es)) (chain_end None es) (new_event run_id ty detail now hex db)"
    using canonical_json_stored [OF ok] canonical_digest_stored [OF ok] fields
    by (simp add: e event_ok_def event_matches_def equals_int_def ps del: of_json.simps split: option.splits)
  show "\<exists>ps. loads (we_payload_json (new_event run_id ty detail now hex db)) = Inr (JObj ps) \<and> dict_get ps ''event_type'' = JStr ty"
    using loads fields by (simp add: e)
qed

section \<open>Growth\<close>

definition run_descends :: "workload_run_row \<Rightarrow> workload_run_row \<Rightarrow> bool" where
  "run_descends r r' \<longleftrightarrow>
     wr_run_id r' = wr_run_id r \<and> wr_actor_id r' = wr_actor_id r \<and> wr_key_digest r' = wr_key_digest r \<and>
     wr_request_digest r' = wr_request_digest r \<and> wr_request_json r' = wr_request_json r \<and> wr_accepted_at r' = wr_accepted_at r \<and>
     wr_fencing_token r \<le> wr_fencing_token r' \<and> (terminal_run r \<longrightarrow> r' = r)"

definition run_grows :: "database \<Rightarrow> database \<Rightarrow> bool" where
  "run_grows db db' \<longleftrightarrow>
     rows_kept run_descends (db_workload_runs db) (db_workload_runs db') \<and>
     (\<forall>r \<in> set (db_workload_runs db). terminal_run r \<longrightarrow>
        events_of (wr_run_id r) (db_workload_run_events db') = events_of (wr_run_id r) (db_workload_run_events db))"

definition run_evolves :: "database \<Rightarrow> database \<Rightarrow> bool" where
  "run_evolves db db' \<longleftrightarrow> (run_inv db \<longrightarrow> run_inv db' \<and> run_grows db db')"

lemma run_descends_refl [simp]: "run_descends r r"
  by (simp add: run_descends_def)

lemma run_descends_trans: "run_descends a b \<Longrightarrow> run_descends b c \<Longrightarrow> run_descends a c"
  by (auto simp: run_descends_def)

lemma run_grows_trans:
  assumes "run_grows a b" "run_grows b c"
  shows "run_grows a c"
proof -
  have kept: "rows_kept run_descends (db_workload_runs a) (db_workload_runs c)"
    using assms run_descends_trans unfolding run_grows_def by (meson rows_kept_trans)
  have "events_of (wr_run_id r) (db_workload_run_events c) = events_of (wr_run_id r) (db_workload_run_events a)"
    if r: "r \<in> set (db_workload_runs a)" "terminal_run r" for r
  proof -
    obtain r' where "r' \<in> set (db_workload_runs b)" "run_descends r r'"
      using assms(1) r(1) unfolding run_grows_def rows_kept_def by blast
    then have "r \<in> set (db_workload_runs b)" using r(2) by (simp add: run_descends_def)
    then show ?thesis using assms r by (simp add: run_grows_def)
  qed
  with kept show ?thesis by (simp add: run_grows_def)
qed

lemma run_grows_refl [simp]: "run_grows db db"
  by (simp add: run_grows_def rows_kept_intros)

interpretation rn: db_frame run_evolves
  by unfold_locales (auto simp: run_evolves_def intro: run_grows_trans)

section \<open>Statements keep the invariant\<close>

lemma events_of_snoc: "events_of i (es @ [e]) = (if we_run_id e = i then events_of i es @ [e] else events_of i es)"
  by (simp add: events_of_def)

lemma chain_extends:
  assumes "check_run_chain rid 1 None (events_of rid (db_workload_run_events db)) = None"
    and "plain_text rid" "plain_text ty" "detail_ok detail" "e = new_event rid ty detail now hex db"
    and "terminal_run r \<Longrightarrow> ty = wr_state r" "wr_run_id r = rid" "check_run_identity r = None"
  shows "run_ok (db_workload_run_events db @ [e]) r"
proof -
  let ?es = "events_of rid (db_workload_run_events db)"
  have id: "we_run_id e = rid" using assms(5) by (simp add: new_event_def Let_def)
  note new = new_event_ok [OF assms(1) refl assms(2,3,4), of now hex, folded assms(5)]
  have "check_run_chain rid 1 None (?es @ [e]) = None" using assms(1) new(1) by (simp add: check_run_chain_snoc)
  moreover have "check_final_event r (?es @ [e]) = None"
    using new(2) assms(6) by (auto simp: check_final_event_def terminal_run_def)
  ultimately show ?thesis using assms(2,7,8) by (simp add: run_ok_def events_of_snoc id)
qed

lemma run_inv_append:
  assumes inv: "run_inv db" and rest: "db_workload_run_events db1 = db_workload_run_events db" "db_host_events db1 = db_host_events db"
    and runs: "distinct (map wr_run_id (db_workload_runs db1))" "wr_run_id ` set (db_workload_runs db) \<subseteq> wr_run_id ` set (db_workload_runs db1)"
    and others: "\<And>r. r \<in> set (db_workload_runs db1) \<Longrightarrow> wr_run_id r \<noteq> rid \<Longrightarrow> r \<in> set (db_workload_runs db)"
    and current: "\<And>r. r \<in> set (db_workload_runs db1) \<Longrightarrow> wr_run_id r = rid \<Longrightarrow>
      check_run_identity r = None \<and> plain_text rid \<and> (terminal_run r \<longrightarrow> ty = wr_state r)"
    and chain: "check_run_chain rid 1 None (events_of rid (db_workload_run_events db)) = None"
    and ty: "plain_text ty" "detail_ok detail" and app: "appended rid ty detail db1 db'"
  shows "run_inv db'"
proof -
  obtain now hex where e: "db' = add_run_event (new_event rid ty detail now hex db1) now db1"
    "we_event_id (new_event rid ty detail now hex db1) \<notin> we_event_id ` set (db_workload_run_events db)"
    "rid \<in> wr_run_id ` set (db_workload_runs db1)"
    using app rest by (auto simp: appended_def)
  define ev where "ev = new_event rid ty detail now hex db1"
  have id: "we_run_id ev = rid" by (simp add: ev_def new_event_def Let_def)
  have "run_ok (db_workload_run_events db @ [ev]) r" if r: "r \<in> set (db_workload_runs db1)" for r
  proof (cases "wr_run_id r = rid")
    case True
    then show ?thesis
      using current [OF r True] chain ty chain_extends [of rid db1 ty detail ev now hex r] by (simp add: rest ev_def)
  next
    case False
    then have "run_ok (db_workload_run_events db) r" using inv others r by (simp add: run_inv_def)
    then show ?thesis using False id by (simp add: run_ok_def events_of_snoc)
  qed
  moreover have "map mirrored (workload_stream db') = map mirror (db_workload_run_events db @ [ev])"
    using inv by (simp add: e(1) ev_def [symmetric] add_run_event_def workload_stream_def rest run_inv_def mirror_def mirrored_def)
  moreover have "we_run_id w \<in> wr_run_id ` set (db_workload_runs db1)" if "w \<in> set (db_workload_run_events db)" for w
    using inv that runs(2) by (auto simp: run_inv_def)
  ultimately show ?thesis
    using inv runs(1) e(2,3) id by (simp add: run_inv_def e(1) ev_def [symmetric] add_run_event_def rest)
qed

lemma run_row_unique:
  assumes "run_inv db" "q \<in> set (db_workload_runs db)" "r \<in> set (db_workload_runs db)" "wr_run_id q = wr_run_id r"
  shows "q = r"
  using assms by (auto simp: run_inv_def distinct_map inj_on_def)

lemma update_append_evolves:
  assumes r: "r \<in> set (db_workload_runs db)" "wr_run_id r = rid" "\<not> terminal_run r"
    and f: "\<And>q. wr_run_id (f q) = wr_run_id q" "run_descends r (f r)" "check_run_identity r = None \<Longrightarrow> check_run_identity (f r) = None"
      "terminal_run (f r) \<longrightarrow> ty = wr_state (f r)"
    and ty: "plain_text ty" "detail_ok detail" and app: "appended rid ty detail (update_run rid f db) db'"
  shows "run_evolves db db'"
  unfolding run_evolves_def
proof (intro impI conjI)
  assume inv: "run_inv db"
  let ?g = "\<lambda>q. if wr_run_id q = rid then f q else q"
  have runs: "db_workload_runs (update_run rid f db) = map ?g (db_workload_runs db)" by (simp add: update_run_def)
  have unique: "q = r" if "q \<in> set (db_workload_runs db)" "wr_run_id q = rid" for q
    using run_row_unique [OF inv that(1) r(1)] that(2) r(2) by simp
  have ids: "map wr_run_id (map ?g (db_workload_runs db)) = map wr_run_id (db_workload_runs db)" using f(1) by auto
  have ok: "run_ok (db_workload_run_events db) r" using inv r(1) by (simp add: run_inv_def)
  show "run_inv db'"
  proof (rule run_inv_append [OF inv _ _ _ _ _ _ _ ty app])
    show "distinct (map wr_run_id (db_workload_runs (update_run rid f db)))"
      using inv unfolding runs ids by (simp add: run_inv_def)
    show "wr_run_id ` set (db_workload_runs db) \<subseteq> wr_run_id ` set (db_workload_runs (update_run rid f db))"
      unfolding runs using ids by (metis order_refl set_map)
    show "check_run_chain rid 1 None (events_of rid (db_workload_run_events db)) = None"
      using ok r(2) by (simp add: run_ok_def)
    show "q \<in> set (db_workload_runs db)" if "q \<in> set (db_workload_runs (update_run rid f db))" "wr_run_id q \<noteq> rid" for q
      using that f(1) by (auto simp: runs)
    show "check_run_identity q = None \<and> plain_text rid \<and> (terminal_run q \<longrightarrow> ty = wr_state q)"
      if "q \<in> set (db_workload_runs (update_run rid f db))" "wr_run_id q = rid" for q
    proof -
      have "q = f r" using that unique f(1) by (auto simp: runs split: if_splits)
      then show ?thesis using ok r(2) f(3,4) by (simp add: run_ok_def)
    qed
  qed (simp_all add: update_run_def)
  have events: "events_of (wr_run_id q) (db_workload_run_events db') = events_of (wr_run_id q) (db_workload_run_events db)"
    if "wr_run_id q \<noteq> rid" for q
    using app that by (auto simp: appended_def add_run_event_def update_run_def events_of_snoc new_event_def Let_def)
  have "db_workload_runs db' = map ?g (db_workload_runs db)"
    using app by (auto simp: appended_def add_run_event_def update_run_def)
  then show "run_grows db db'"
    using unique f(2) events r(3) by (auto simp: run_grows_def intro!: rows_kept_map)
qed

lemma insert_append_evolves:
  assumes ins: "insert_run r db = Inr db1" and r: "check_run_identity r = None" "plain_text (wr_run_id r)" "\<not> terminal_run r"
    and ty: "plain_text ty" "detail_ok detail" and app: "appended (wr_run_id r) ty detail db1 db'"
  shows "run_evolves db db'"
  unfolding run_evolves_def
proof (intro impI conjI)
  assume inv: "run_inv db"
  have db1: "db1 = db\<lparr>db_workload_runs := db_workload_runs db @ [r]\<rparr>" and fresh: "wr_run_id r \<notin> wr_run_id ` set (db_workload_runs db)"
    using ins by (auto simp: insert_run_def list_ex_iff)
  have only: "q = r" if "q \<in> set (db_workload_runs db) \<or> q = r" "wr_run_id q = wr_run_id r" for q
    using fresh that by (metis image_eqI)
  have "events_of (wr_run_id r) (db_workload_run_events db) = []"
    using inv fresh unfolding run_inv_def events_of_def filter_empty_conv by metis
  then show "run_inv db'"
    using inv fresh r only by (intro run_inv_append [OF inv _ _ _ _ _ _ _ ty app]) (auto simp: db1 run_inv_def)
  have "events_of (wr_run_id q) (db_workload_run_events db') = events_of (wr_run_id q) (db_workload_run_events db)"
    if "q \<in> set (db_workload_runs db)" for q
  proof -
    have "wr_run_id q \<noteq> wr_run_id r" using fresh that by (metis image_eqI)
    then show ?thesis using app by (auto simp: appended_def add_run_event_def db1 events_of_snoc new_event_def Let_def)
  qed
  moreover have "db_workload_runs db' = db_workload_runs db @ [r]" using app by (auto simp: appended_def add_run_event_def db1)
  ultimately show "run_grows db db'" by (simp add: run_grows_def rows_kept_intros)
qed

section \<open>Rows\<close>

lemma check_run_identity_iff:
  "check_run_identity r = None \<longleftrightarrow>
     (\<exists>kvs. loads (wr_request_json r) = Inr (JObj kvs) \<and> request_matches kvs r) \<and>
     wr_state r \<in> {''accepted'', ''running''} \<union> set RUN_TERMINAL \<and> is_digest (wr_key_digest r) \<and> is_digest (wr_revision_digest r) \<and>
     is_utc (wr_accepted_at r) \<and> (\<forall>t. wr_started_at r = Some t \<longrightarrow> is_utc t) \<and>
     (\<forall>t. wr_cancellation_requested_at r = Some t \<longrightarrow> is_utc t) \<and> check_run_outcome r = None"
  unfolding check_run_identity_def by (auto split: sum.splits json.splits)

lemma request_matches_updates [simp]:
  "request_matches kvs (r\<lparr>wr_state := st\<rparr>) = request_matches kvs r"
  "request_matches kvs (r\<lparr>wr_started_at := a\<rparr>) = request_matches kvs r"
  "request_matches kvs (r\<lparr>wr_completed_at := a\<rparr>) = request_matches kvs r"
  "request_matches kvs (r\<lparr>wr_cancellation_requested_at := a\<rparr>) = request_matches kvs r"
  "request_matches kvs (r\<lparr>wr_lease_owner := a\<rparr>) = request_matches kvs r"
  "request_matches kvs (r\<lparr>wr_lease_expires := l\<rparr>) = request_matches kvs r"
  "request_matches kvs (r\<lparr>wr_fencing_token := n\<rparr>) = request_matches kvs r"
  "request_matches kvs (r\<lparr>wr_result_digest := a\<rparr>) = request_matches kvs r"
  "request_matches kvs (r\<lparr>wr_exit_code := c\<rparr>) = request_matches kvs r"
  "request_matches kvs (r\<lparr>wr_exit_reason := a\<rparr>) = request_matches kvs r"
  by (simp_all add: request_matches_def)

lemma identity_cancelled:
  assumes "check_run_identity r = None" "is_utc t"
  shows "check_run_identity (r\<lparr>wr_cancellation_requested_at := Some t\<rparr>) = None"
  using assms by (auto simp: check_run_identity_iff check_run_outcome_def cong: option.case_cong)

lemma identity_running:
  assumes "check_run_identity r = None" "\<not> terminal_run r" "is_utc t"
  shows "check_run_identity (r\<lparr>wr_state := ''running'', wr_started_at := Some t, wr_lease_owner := a, wr_lease_expires := l,
    wr_fencing_token := n\<rparr>) = None"
  using assms by (auto simp: check_run_identity_iff check_run_outcome_def terminal_run_def RUN_TERMINAL_def)

lemma identity_completed:
  assumes "check_run_identity r = None" "st \<in> set RUN_TERMINAL" "is_utc t" "is_digest d"
  shows "check_run_identity (r\<lparr>wr_state := st, wr_completed_at := Some t, wr_result_digest := Some d, wr_exit_code := c,
    wr_exit_reason := e, wr_lease_owner := None, wr_lease_expires := None\<rparr>) = None"
  using assms by (auto simp: check_run_identity_iff check_run_outcome_def)

lemma identity_lease:
  assumes "check_run_identity r = None" "\<not> terminal_run r"
  shows "check_run_identity (r\<lparr>wr_lease_expires := l\<rparr>) = None"
  using assms by (auto simp: check_run_identity_iff check_run_outcome_def terminal_run_def)

lemma terminal_run_states: "wr_state r = ''running'' \<Longrightarrow> \<not> terminal_run r" "wr_state r = ''accepted'' \<Longrightarrow> \<not> terminal_run r"
  "active_run r \<Longrightarrow> \<not> terminal_run r"
  by (auto simp: terminal_run_def RUN_TERMINAL_def active_run_def)

lemma final_event_state: "wr_state q = wr_state r \<Longrightarrow> check_final_event q = check_final_event r"
  by (rule ext) (simp only: check_final_event_def)

lemma run_ok_lease:
  assumes "run_ok es r" "\<not> terminal_run r"
  shows "run_ok es (r\<lparr>wr_lease_expires := l\<rparr>)"
proof -
  have "check_final_event (r\<lparr>wr_lease_expires := l\<rparr>) = check_final_event r" by (rule final_event_state) simp
  with assms identity_lease show ?thesis by (simp add: run_ok_def)
qed

text \<open>A change of the lease only.\<close>

lemma lease_evolves:
  assumes "\<And>q. held q \<Longrightarrow> \<not> terminal_run q"
  shows "run_evolves db (db\<lparr>db_workload_runs := map (\<lambda>r. if held r then r\<lparr>wr_lease_expires := Some t\<rparr> else r) (db_workload_runs db)\<rparr>)"
proof -
  let ?g = "\<lambda>r. if held r then r\<lparr>wr_lease_expires := Some t\<rparr> else r"
  have ids: "map wr_run_id (map ?g (db_workload_runs db)) = map wr_run_id (db_workload_runs db)" by simp
  then have "wr_run_id ` set (map ?g (db_workload_runs db)) = wr_run_id ` set (db_workload_runs db)" by (metis set_map)
  moreover have "\<forall>r \<in> set (map ?g rs). run_ok es r" if "\<forall>r \<in> set rs. run_ok es r" for rs es
    using that assms run_ok_lease by auto
  ultimately show ?thesis
    using assms ids
    unfolding run_evolves_def run_inv_def run_grows_def workload_stream_def
    by (auto simp: run_descends_def simp del: map_map set_map intro!: rows_kept_map split: if_splits)
qed

section \<open>Operations\<close>

lemma no_colon_plain: "CHR '':'' \<notin> set s \<Longrightarrow> plain_text s"
  by (simp add: plain_text_def scrub_text_no_colon)

lemma event_types_plain:
  "plain_text ''accepted''" "plain_text ''running''" "plain_text ''cancellation_requested''" "st \<in> set RUN_TERMINAL \<Longrightarrow> plain_text st"
  by (auto simp: RUN_TERMINAL_def intro!: no_colon_plain)

lemma event_details_ok:
  "detail_ok [(''state'', JStr st), (''actor_id'', JStr a)]"
  "detail_ok [(''state'', JStr st), (''fencing_token'', JInt n)]"
  "detail_ok [(''state'', JStr st), (''result_digest'', JStr d), (''exit_code'', case c of None \<Rightarrow> JNull | Some n \<Rightarrow> JInt n), (''exit_reason'', JStr x)]"
  using fencing_token_key by (auto simp: detail_ok_def payload_ok_def is_obj_def plain_keyD split: option.splits)

lemma reread_success [tx_success]:
  "reread_run run_id s = (Inr x, s') \<longleftrightarrow> s' = s \<and> (\<exists>r. find_run run_id (jn_db s) = Some r \<and> x = run_from_row r)"
  by (auto simp: reread_run_def tx_success split: option.splits)

lemma find_run_mem: "find_run run_id db = Some r \<Longrightarrow> r \<in> set (db_workload_runs db) \<and> wr_run_id r = run_id"
  unfolding find_run_def by (rule fetchone_Some)

lemma cancel_evolves:
  assumes "request_cancel_tx row actor s = (Inr u, s')" "row \<in> set (db_workload_runs (jn_db s))" "\<not> terminal_run row"
  shows "run_evolves (jn_db s) (jn_db s')"
proof (cases "wr_cancellation_requested_at row = None")
  case True
  with assms(1) obtain now where now: "is_utc now" and
    app: "appended (wr_run_id row) ''cancellation_requested'' [(''state'', JStr (wr_state row)), (''actor_id'', JStr (ac_actor_id actor))]
      (update_run (wr_run_id row) (\<lambda>r. r\<lparr>wr_cancellation_requested_at := Some now\<rparr>) (jn_db s)) (jn_db s')"
    using utc_now_text_is_utc append_run_event_success by (force simp: request_cancel_tx_def tx_success)
  show ?thesis
    by (rule update_append_evolves [OF assms(2) refl assms(3) _ _ _ _ event_types_plain(3) event_details_ok(1) app])
       (use assms(3) now identity_cancelled in \<open>auto simp: run_descends_def terminal_run_def\<close>)
next
  case False
  with assms(1) show ?thesis by (simp add: request_cancel_tx_def tx_success rn.refl)
qed

lemma complete_tx_evolves:
  assumes "complete_tx row st d c x s = (Inr run, s')" "row \<in> set (db_workload_runs (jn_db s))" "\<not> terminal_run row"
    and "st \<in> set RUN_TERMINAL" "is_digest d"
  shows "run_evolves (jn_db s) (jn_db s')"
proof -
  from assms(1) obtain now where now: "is_utc now" and
    app: "appended (wr_run_id row) st [(''state'', JStr st), (''result_digest'', JStr d),
        (''exit_code'', case c of None \<Rightarrow> JNull | Some n \<Rightarrow> JInt n), (''exit_reason'', JStr x)]
      (update_run (wr_run_id row) (\<lambda>r. r\<lparr>wr_state := st, wr_completed_at := Some now, wr_result_digest := Some d, wr_exit_code := c,
        wr_exit_reason := Some x, wr_lease_owner := None, wr_lease_expires := None\<rparr>) (jn_db s)) (jn_db s')"
    using utc_now_text_is_utc append_run_event_success by (force simp: complete_tx_def tx_success)
  show ?thesis
    by (rule update_append_evolves [OF assms(2) refl assms(3) _ _ _ _ event_types_plain(4) [OF assms(4)] event_details_ok(3) app])
       (use assms(3-5) now identity_completed in \<open>auto simp: run_descends_def terminal_run_def\<close>)
qed

lemma complete_run_evolves:
  assumes "is_digest d"
  shows "frames run_evolves (complete_run run_id owner token st d c x)"
  unfolding frames_def
proof (intro allI impI)
  fix s y s'
  assume run: "complete_run run_id owner token st d c x s = (Inr y, s')"
  then obtain r where r: "find_run run_id (jn_db s) = Some r" by (auto simp: complete_run_def tx_success split: option.splits)
  show "run_evolves (jn_db s) (jn_db s')"
  proof (cases "terminal_run r")
    case True
    with run r show ?thesis by (auto simp: complete_run_def tx_success terminal_run_def rn.refl)
  next
    case False
    with run r have "complete_tx r st d c x s = (Inr y, s')" "st \<in> set RUN_TERMINAL"
      by (auto simp: complete_run_def tx_success terminal_run_def)
    then show ?thesis using complete_tx_evolves False assms find_run_mem [OF r] by blast
  qed
qed

lemma request_cancellation_evolves: "frames run_evolves (request_run_cancellation run_id actor)"
  unfolding frames_def
proof (intro allI impI)
  fix s y s'
  assume run: "request_run_cancellation run_id actor s = (Inr y, s')"
  then obtain r where r: "find_run run_id (jn_db s) = Some r" by (auto simp: request_run_cancellation_def tx_success split: option.splits)
  show "run_evolves (jn_db s) (jn_db s')"
  proof (cases "terminal_run r")
    case True
    with run r show ?thesis by (auto simp: request_run_cancellation_def tx_success terminal_run_def rn.refl)
  next
    case False
    with run r have "request_cancel_tx r actor s = (Inr (), s')"
      by (auto simp: request_run_cancellation_def tx_success terminal_run_def)
    then show ?thesis using cancel_evolves False find_run_mem [OF r] by blast
  qed
qed

lemma renew_evolves: "frames run_evolves (renew_run_lease run_id owner token seconds)"
  unfolding frames_def renew_run_lease_def Let_def
  by (auto simp: tx_success terminal_run_states intro!: lease_evolves)

lemma candidate_mem:
  assumes "fetchone (acquirable now) (runs_by_acceptance db) = Some r"
  shows "r \<in> set (db_workload_runs db)" "\<not> terminal_run r" "acquirable now r"
  using fetchone_Some [OF assms] by (auto simp: runs_by_acceptance_def acquirable_def terminal_run_states)

lemma claim_success:
  assumes "claim_tx row owner expires s = (Inr run, s')"
  obtains started where "check_run_identity row = None \<Longrightarrow> is_utc started"
    "appended (wr_run_id row) ''running'' [(''state'', JStr ''running''), (''fencing_token'', JInt (wr_fencing_token row + 1))]
      (update_run (wr_run_id row) (\<lambda>r. r\<lparr>wr_state := ''running'', wr_started_at := Some started, wr_lease_owner := Some owner,
        wr_lease_expires := Some expires, wr_fencing_token := wr_fencing_token row + 1\<rparr>) (jn_db s)) (jn_db s')"
    "\<exists>q. find_run (wr_run_id row) (jn_db s') = Some q \<and> run = run_from_row q"
proof -
  let ?start = "case wr_started_at row of Some t \<Rightarrow> if t \<noteq> [] then tx_return t else store_now | None \<Rightarrow> store_now"
  from assms obtain started t where started: "?start s = (Inr started, t)" and
    app: "appended (wr_run_id row) ''running'' [(''state'', JStr ''running''), (''fencing_token'', JInt (wr_fencing_token row + 1))]
      (update_run (wr_run_id row) (\<lambda>r. r\<lparr>wr_state := ''running'', wr_started_at := Some started, wr_lease_owner := Some owner,
        wr_lease_expires := Some expires, wr_fencing_token := wr_fencing_token row + 1\<rparr>) (jn_db t)) (jn_db s')" and
    q: "\<exists>q. find_run (wr_run_id row) (jn_db s') = Some q \<and> run = run_from_row q"
    unfolding claim_tx_def Let_def tx_bind_success using append_run_event_success by (force simp: tx_success)
  have "jn_db t = jn_db s" using started by (auto simp: tx_success split: option.splits if_splits)
  moreover have "is_utc started" if "check_run_identity row = None"
    using started that utc_now_text_is_utc by (auto simp: tx_success check_run_identity_iff split: option.splits if_splits)
  ultimately show ?thesis using that [of started] app q by simp
qed

lemma claim_evolves:
  assumes "claim_tx row owner expires s = (Inr run, s')" "row \<in> set (db_workload_runs (jn_db s))" "\<not> terminal_run row"
  shows "run_evolves (jn_db s) (jn_db s')"
  using assms(1)
proof (rule claim_success)
  fix started
  assume started: "check_run_identity row = None \<Longrightarrow> is_utc started"
    and app: "appended (wr_run_id row) ''running'' [(''state'', JStr ''running''), (''fencing_token'', JInt (wr_fencing_token row + 1))]
      (update_run (wr_run_id row) (\<lambda>r. r\<lparr>wr_state := ''running'', wr_started_at := Some started, wr_lease_owner := Some owner,
        wr_lease_expires := Some expires, wr_fencing_token := wr_fencing_token row + 1\<rparr>) (jn_db s)) (jn_db s')"
  show ?thesis
    by (rule update_append_evolves [OF assms(2) refl assms(3) _ _ _ _ event_types_plain(2) event_details_ok(2) app])
       (use assms(3) started identity_running in \<open>auto simp: run_descends_def terminal_run_states\<close>)
qed

lemma acquire_success:
  assumes "acquire_run owner seconds s = (Inr y, s')"
  obtains (none) "y = None" "jn_db s' = jn_db s"
  | (some) row now run t where "y = Some run" "jn_db t = jn_db s" "row \<in> set (db_workload_runs (jn_db s))" "\<not> terminal_run row"
      "complete_tx row ''cancelled'' (canonical_digest (VMap [(''cancelled'', VBool True)])) None ''cancelled'' t = (Inr run, s') \<or>
       claim_tx row owner (now + seconds) t = (Inr run, s')"
proof -
  from assms obtain now where now: "jn_clock s (jn_tick s) = Some now" by (auto simp: acquire_run_def tx_success)
  show ?thesis
  proof (cases "fetchone (acquirable now) (runs_by_acceptance (jn_db s))")
    case None
    with assms now show ?thesis by (intro none) (auto simp: acquire_run_def tx_success)
  next
    case (Some row)
    note mem = candidate_mem [OF Some]
    from assms now Some obtain run where "y = Some run"
      "complete_tx row ''cancelled'' (canonical_digest (VMap [(''cancelled'', VBool True)])) None ''cancelled'' (s\<lparr>jn_tick := Suc (jn_tick s)\<rparr>) = (Inr run, s') \<or>
       claim_tx row owner (now + seconds) (s\<lparr>jn_tick := Suc (jn_tick s)\<rparr>) = (Inr run, s')"
      by (auto simp: acquire_run_def tx_success split: if_splits)
    with mem show ?thesis by (intro some [of run "s\<lparr>jn_tick := Suc (jn_tick s)\<rparr>" row now]) simp_all
  qed
qed

lemma acquire_evolves: "frames run_evolves (acquire_run owner seconds)"
  unfolding frames_def
proof (intro allI impI)
  fix s y s'
  assume "acquire_run owner seconds s = (Inr y, s')"
  then show "run_evolves (jn_db s) (jn_db s')"
  proof (cases rule: acquire_success)
    case (some row now run t)
    then show ?thesis
      using complete_tx_evolves [of row "''cancelled''" _ None "''cancelled''" t run s'] claim_evolves [of row owner "now + seconds" t run s']
      by (auto simp: RUN_TERMINAL_def)
  qed (simp add: rn.refl)
qed

section \<open>Acceptance\<close>

definition request_ok :: "string \<Rightarrow> string \<Rightarrow> string \<Rightarrow> string \<Rightarrow> string \<Rightarrow> digest \<Rightarrow> string \<Rightarrow> string \<Rightarrow> string \<Rightarrow> bool" where
  "request_ok actor_id host_id app environment revision_id revision_digest workload_name workload_kind trigger_kind \<longleftrightarrow>
     list_all plain_text [actor_id, host_id, app, environment, revision_id, workload_name, workload_kind, trigger_kind] \<and>
     is_digest revision_digest"

lemma run_request_payload: "payload_ok (run_request a h p e ri rd wn wk tk)"
  unfolding run_request_def by (rule plain_json_payload) simp_all

lemma run_request_fields:
  assumes "stored (run_request a h p e ri rd wn wk tk) = JObj ps" "request_ok a h p e ri rd wn wk tk"
  shows "dict_get ps ''actor_id'' = JStr a" "dict_get ps ''host_id'' = JStr h" "dict_get ps ''app'' = JStr p"
    "dict_get ps ''environment'' = JStr e" "dict_get ps ''revision_id'' = JStr ri" "dict_get ps ''revision_digest'' = JStr rd"
    "dict_get ps ''workload_name'' = JStr wn" "dict_get ps ''workload_kind'' = JStr wk" "dict_get ps ''trigger_kind'' = JStr tk"
  using assms(2) dict_get_stored [OF _ _ assms(1) [unfolded run_request_def]] by (simp_all add: request_ok_def plain_text_def)

lemma accepted_run_identity:
  assumes ok: "request_ok (wr_actor_id r) (wr_host_id r) (wr_app r) (wr_environment r) (wr_revision_id r) (wr_revision_digest r)
      (wr_workload_name r) (wr_workload_kind r) (wr_trigger_kind r)"
    and req: "req = run_request (wr_actor_id r) (wr_host_id r) (wr_app r) (wr_environment r) (wr_revision_id r) (wr_revision_digest r)
      (wr_workload_name r) (wr_workload_kind r) (wr_trigger_kind r)"
    and "wr_request_json r = canonical_json (of_json req)" "wr_request_digest r = canonical_digest (of_json req)"
      "is_digest (wr_key_digest r)" "is_utc (wr_accepted_at r)" "wr_state r = ''accepted''" "wr_started_at r = None"
      "wr_cancellation_requested_at r = None" "wr_completed_at r = None" "wr_result_digest r = None"
  shows "check_run_identity r = None"
proof -
  obtain ps where ps: "stored req = JObj ps" unfolding req run_request_def by (rule stored_is_obj)
  have pok: "payload_ok req" unfolding req by (rule run_request_payload)
  have "loads (wr_request_json r) = Inr (JObj ps)" using loads_payload [OF pok] assms(3) ps by simp
  moreover have "request_matches ps r"
    using run_request_fields [OF ps [unfolded req] ok] canonical_json_stored [OF pok] canonical_digest_stored [OF pok] assms(3,4)
    by (simp add: request_matches_def ps del: of_json.simps)
  ultimately show ?thesis
    using assms(5-) ok by (simp add: check_run_identity_iff check_run_outcome_def RUN_TERMINAL_def request_ok_def)
qed

text \<open>The identifiers drawn from \<^verbatim>\<open>uuid4\<close> are hexadecimal; no action replaces their source.\<close>

definition no_colons :: "(nat \<Rightarrow> string) \<Rightarrow> bool" where
  "no_colons uuid \<longleftrightarrow> (\<forall>n. CHR '':'' \<notin> set (uuid n))"

definition keeps_uuid :: "'a tx \<Rightarrow> bool" where
  "keeps_uuid m \<longleftrightarrow> (\<forall>s r s'. m s = (r, s') \<longrightarrow> jn_uuid s' = jn_uuid s)"

lemma keeps_uuidD: "keeps_uuid m \<Longrightarrow> m s = (r, s') \<Longrightarrow> jn_uuid s' = jn_uuid s"
  by (simp add: keeps_uuid_def)

lemma keeps_uuid_basic:
  "keeps_uuid (tx_return x)" "keeps_uuid (tx_raise e)" "keeps_uuid (tx_lift r)" "keeps_uuid (tx_check c)"
  "keeps_uuid (tx_query f)" "keeps_uuid (tx_read g)" "keeps_uuid (tx_execute h)" "keeps_uuid (tx_update k)"
  "keeps_uuid clock_sample" "keeps_uuid fresh_uuid"
  by (auto simp: keeps_uuid_def tx_return_def tx_raise_def tx_lift_def tx_check_def tx_query_def tx_read_def tx_update_def
      tx_execute_def clock_sample_def fresh_uuid_def split: option.splits sum.splits)

lemma keeps_uuid_bind: "keeps_uuid m \<Longrightarrow> (\<And>x. keeps_uuid (f x)) \<Longrightarrow> keeps_uuid (tx_bind m f)"
  unfolding keeps_uuid_def tx_bind_def by (fastforce split: prod.splits sum.splits)

lemma keeps_uuid_transaction: "keeps_uuid m \<Longrightarrow> keeps_uuid (transaction m)"
  unfolding keeps_uuid_def transaction_def by (fastforce split: prod.splits sum.splits)

lemma keeps_uuid_control:
  "keeps_uuid m \<Longrightarrow> keeps_uuid m' \<Longrightarrow> keeps_uuid (if b then m else m')"
  "keeps_uuid m \<Longrightarrow> (\<And>x. keeps_uuid (f x)) \<Longrightarrow> keeps_uuid (case v of None \<Rightarrow> m | Some x \<Rightarrow> f x)"
  "(\<And>x y. keeps_uuid (g x y)) \<Longrightarrow> keeps_uuid (case p of (x, y) \<Rightarrow> g x y)"
  by (simp_all split: option.splits prod.splits)

lemmas keeps_uuid_intros = keeps_uuid_basic keeps_uuid_bind keeps_uuid_transaction keeps_uuid_control

lemma keeps_uuid_events [intro!]:
  "keeps_uuid store_now" "keeps_uuid (reread_run run_id)" "keeps_uuid (append_run_event run_id ty detail)"
  "keeps_uuid (request_cancel_tx row actor)" "keeps_uuid (complete_tx row st d c x)" "keeps_uuid (claim_tx row owner expires)"
  unfolding store_now_def reread_run_def append_run_event_def request_cancel_tx_def complete_tx_def claim_tx_def Let_def
  by (intro keeps_uuid_intros)+

lemma insert_accepted_evolves:
  assumes "insert_run r (jn_db s) = Inr db" "append_run_event (wr_run_id r) ''accepted'' [(''state'', JStr ''accepted''), (''actor_id'', JStr a)]
      (s\<lparr>jn_db := db\<rparr>) = (Inr u, s')"
    and "check_run_identity r = None" "plain_text (wr_run_id r)" "wr_state r = ''accepted''"
  shows "run_evolves (jn_db s) (jn_db s')"
  using insert_append_evolves [OF assms(1,3,4) _ event_types_plain(1) event_details_ok(1)] append_run_event_success [OF assms(2)]
    terminal_run_states(2) [OF assms(5)] by simp

lemma new_run_fields [simp]:
  "wr_run_id (new_run_row i a k h p e ri rd wn wk tk qd qj now) = i" "wr_state (new_run_row i a k h p e ri rd wn wk tk qd qj now) = ''accepted''"
  by (simp_all add: new_run_row_def)

lemma new_run_identity:
  assumes "request_ok a h p e ri rd wn wk tk" "is_digest k" "is_utc now" "req = run_request a h p e ri rd wn wk tk"
  shows "check_run_identity (new_run_row i a k h p e ri rd wn wk tk (canonical_digest (of_json req)) (canonical_json (of_json req)) now) = None"
  using assms by (intro accepted_run_identity [where req = req]) (simp_all add: new_run_row_def)

lemma active_mem:
  assumes "oldest_active h p e wn db = Some row"
  shows "row \<in> set (db_workload_runs db)" "\<not> terminal_run row" "active_run row"
  using fetchone_Some [OF assms [unfolded oldest_active_def]] terminal_run_states(3) by auto

lemma accept_new_statements:
  assumes "accept_run_new actor h p e ri rd wn wk tk k policy now s = (Inr y, s')"
  obtains t db where "(case oldest_active h p e wn (jn_db s) of
        Some row \<Rightarrow> if policy = ''replace'' then request_cancel_tx row actor else tx_return () | None \<Rightarrow> tx_return ()) s = (Inr (), t)"
    "insert_run (new_run_row (''run_'' @ jn_uuid t (jn_ids t)) (ac_actor_id actor) k h p e ri rd wn wk tk
       (canonical_digest (of_json (run_request (ac_actor_id actor) h p e ri rd wn wk tk)))
       (canonical_json (of_json (run_request (ac_actor_id actor) h p e ri rd wn wk tk))) now) (jn_db t) = Inr db"
    "append_run_event (''run_'' @ jn_uuid t (jn_ids t)) ''accepted'' [(''state'', JStr ''accepted''), (''actor_id'', JStr (ac_actor_id actor))]
       (t\<lparr>jn_ids := Suc (jn_ids t), jn_db := db\<rparr>) = (Inr (), s')"
    "policy = ''forbid'' \<Longrightarrow> oldest_active h p e wn (jn_db s) = None"
    "\<exists>q. find_run (''run_'' @ jn_uuid t (jn_ids t)) (jn_db s') = Some q \<and> y = run_from_row q"
  using assms unfolding accept_run_new_def Let_def tx_bind_success
  by (auto simp: tx_success simp del: of_json.simps)

lemma accept_new_evolves:
  assumes run: "accept_run_new actor h p e ri rd wn wk tk (digest_text key) policy now s = (Inr y, s')"
    and ok: "request_ok (ac_actor_id actor) h p e ri rd wn wk tk" and now: "is_utc now" and uuid: "no_colons (jn_uuid s)"
  shows "run_evolves (jn_db s) (jn_db s')"
  using run
proof (rule accept_new_statements)
  fix t db
  let ?active = "oldest_active h p e wn (jn_db s)"
  assume t: "(case ?active of Some row \<Rightarrow> if policy = ''replace'' then request_cancel_tx row actor else tx_return () | None \<Rightarrow> tx_return ()) s
      = (Inr (), t)"
    and ins: "insert_run (new_run_row (''run_'' @ jn_uuid t (jn_ids t)) (ac_actor_id actor) (digest_text key) h p e ri rd wn wk tk
       (canonical_digest (of_json (run_request (ac_actor_id actor) h p e ri rd wn wk tk)))
       (canonical_json (of_json (run_request (ac_actor_id actor) h p e ri rd wn wk tk))) now) (jn_db t) = Inr db"
    and app: "append_run_event (''run_'' @ jn_uuid t (jn_ids t)) ''accepted'' [(''state'', JStr ''accepted''), (''actor_id'', JStr (ac_actor_id actor))]
       (t\<lparr>jn_ids := Suc (jn_ids t), jn_db := db\<rparr>) = (Inr (), s')"
  have "run_evolves (jn_db s) (jn_db t)"
    using t active_mem cancel_evolves by (auto simp: tx_success rn.refl split: option.splits if_splits)
  moreover have "jn_uuid t = jn_uuid s"
    using t keeps_uuid_events(4) by (auto simp: tx_success keeps_uuid_def split: option.splits if_splits)
  then have plain: "plain_text (''run_'' @ jn_uuid t (jn_ids t))" using uuid by (intro no_colon_plain) (simp add: no_colons_def)
  have "run_evolves (jn_db t) (jn_db s')"
    using insert_accepted_evolves [where s = "t\<lparr>jn_ids := Suc (jn_ids t)\<rparr>" and db = db and s' = s' and u = "()"] ins app plain
      new_run_identity [OF ok digest_text_is_digest now refl] by fastforce
  ultimately show ?thesis by (rule rn.trans)
qed

lemma accept_run_success:
  assumes "accept_run actor h p e ri rd wn wk tk key policy s = (Inr y, s')"
  obtains (existing) row where "jn_db s' = jn_db s" "row \<in> set (db_workload_runs (jn_db s))" "wr_actor_id row = ac_actor_id actor"
      "wr_key_digest row = digest_text key" "wr_request_digest row = canonical_digest (of_json (run_request (ac_actor_id actor) h p e ri rd wn wk tk))"
      "y = run_from_row row"
  | (new) now t where "is_utc now" "jn_db t = jn_db s" "jn_uuid t = jn_uuid s"
      "accept_run_new actor h p e ri rd wn wk tk (digest_text key) policy now t = (Inr y, s')"
proof (cases "fetchone (\<lambda>r. wr_actor_id r = ac_actor_id actor \<and> wr_key_digest r = digest_text key) (db_workload_runs (jn_db s))")
  case None
  with assms obtain now where "is_utc now" "accept_run_new actor h p e ri rd wn wk tk (digest_text key) policy now (s\<lparr>jn_tick := Suc (jn_tick s)\<rparr>) = (Inr y, s')"
    by (auto simp: accept_run_def Let_def tx_success simp del: of_json.simps dest!: utc_now_text_is_utc)
  then show ?thesis by (intro new [of now "s\<lparr>jn_tick := Suc (jn_tick s)\<rparr>"]) simp_all
next
  case (Some row)
  with assms fetchone_Some [OF Some] show ?thesis
    by (intro existing [of row]) (auto simp: accept_run_def Let_def tx_success simp del: of_json.simps split: if_splits)
qed

lemma accept_run_evolves:
  assumes "accept_run actor h p e ri rd wn wk tk key policy s = (Inr y, s')" "request_ok (ac_actor_id actor) h p e ri rd wn wk tk"
    "no_colons (jn_uuid s)"
  shows "run_evolves (jn_db s) (jn_db s')"
  using assms(1)
proof (cases rule: accept_run_success)
  case (new now t)
  then show ?thesis using accept_new_evolves [OF new(4) assms(2) new(1)] assms(3) by simp
qed (simp add: rn.refl)

end
