(* ===== verification/Store_Calls.thy ===== *)
theory Store_Calls
  imports Run_Facts
begin

text \<open>
  The three stores together: the calls of the daemon store, the machine of all calls on the shared
  database, and the separation of the stores, which leave each other's tables alone.
\<close>

section \<open>Calls\<close>

datatype daemon_call =
    Register_Host string json string int
  | Record_Plan_Request string string string string
  | Daemon_Heartbeat string
  | Record_Observation string "(string \<times> json) list" int
  | Set_Host_Control string "bool option" "bool option"
  | Accept_Run actor string string string string string string string string string string
  | Acquire_Run string rat
  | Complete_Run string string int string string "int option" string
  | Renew_Run_Lease string string int rat
  | Request_Run_Cancellation string actor

fun run_daemon_call :: "daemon_call \<Rightarrow> unit tx" where
  "run_daemon_call (Register_Host host capabilities version protocol) = returning (register_host host capabilities version protocol)"
| "run_daemon_call (Record_Plan_Request actor key digest plan) = returning (record_plan_request actor key digest plan)"
| "run_daemon_call (Daemon_Heartbeat host) = daemon_heartbeat host"
| "run_daemon_call (Record_Observation host observation retention) = returning (record_observation host observation retention)"
| "run_daemon_call (Set_Host_Control host maintenance drained) = returning (set_host_control host maintenance drained)"
| "run_daemon_call (Accept_Run actor host app env revision digest name kind trigger key policy) =
     returning (accept_run actor host app env revision digest name kind trigger key policy)"
| "run_daemon_call (Acquire_Run owner seconds) = returning (acquire_run owner seconds)"
| "run_daemon_call (Complete_Run run_id owner token state digest exit_code reason) =
     returning (complete_run run_id owner token state digest exit_code reason)"
| "run_daemon_call (Renew_Run_Lease run_id owner token seconds) = returning (renew_run_lease run_id owner token seconds)"
| "run_daemon_call (Request_Run_Cancellation run_id actor) = returning (request_run_cancellation run_id actor)"

text \<open>
  The screened calls: the texts of a run request do not look like credentials, and the revision and
  result digests are digests. The daemon store checks neither; its caller \<^verbatim>\<open>daemon/workloads.py\<close> computes
  the result digest and takes the revision digest from the active revision.
\<close>

fun daemon_call_ok :: "daemon_call \<Rightarrow> bool" where
  "daemon_call_ok (Accept_Run actor host app env revision digest name kind trigger key policy) \<longleftrightarrow>
     request_ok (ac_actor_id actor) host app env revision digest name kind trigger"
| "daemon_call_ok (Complete_Run run_id owner token state digest exit_code reason) \<longleftrightarrow> is_digest digest"
| "daemon_call_ok _ \<longleftrightarrow> True"

definition daemon_ops :: machine where
  "daemon_ops = range run_daemon_call"

definition screened_daemon_ops :: machine where
  "screened_daemon_ops = {run_daemon_call c | c. daemon_call_ok c}"

text \<open>
  All calls of the three stores (the journal takes constructed contracts), and the screened ones,
  where the agent store and the daemon store are called with texts that redaction leaves alone and
  with well-formed digests.
\<close>

definition store_ops :: machine where
  "store_ops = journal_ops \<union> agent_ops \<union> daemon_ops"

definition screened_ops :: machine where
  "screened_ops = journal_ops \<union> screened_agent_ops \<union> screened_daemon_ops"

lemma screened_later: "later screened_ops s s' \<Longrightarrow> later store_ops s s'"
  unfolding later_def
proof (erule rtranclp_mono [THEN predicate2D, rotated], clarify)
  fix t u
  assume "machine_step screened_ops t u"
  moreover have "screened_ops \<subseteq> store_ops"
    by (auto simp: screened_ops_def store_ops_def screened_agent_ops_def agent_ops_def screened_daemon_ops_def daemon_ops_def)
  ultimately show "machine_step store_ops t u" unfolding machine_step_def by blast
qed

section \<open>Separation of the stores\<close>

definition same_runs :: "database \<Rightarrow> database \<Rightarrow> bool" where
  "same_runs db db' \<longleftrightarrow> db_workload_runs db' = db_workload_runs db \<and> db_workload_run_events db' = db_workload_run_events db \<and>
     workload_stream db' = workload_stream db"

interpretation sr: db_frame same_runs
  by unfold_locales (simp_all add: same_runs_def)

lemma same_runs_evolves: "same_runs db db' \<Longrightarrow> run_evolves db db'"
  unfolding run_evolves_def run_inv_def run_grows_def by (simp add: same_runs_def rows_kept_intros)

lemma workload_stream_cong [simp]:
  "workload_stream (db\<lparr>db_agent_state := a\<rparr>) = workload_stream db" "workload_stream (db\<lparr>db_agent_commands := c\<rparr>) = workload_stream db"
  "workload_stream (db\<lparr>db_host_state := hs\<rparr>) = workload_stream db" "workload_stream (db\<lparr>db_plan_requests := pq\<rparr>) = workload_stream db"
  by (simp_all add: workload_stream_def)

lemma add_event_same_runs: "same_runs db (add_event e p db)"
  by (simp add: same_runs_def add_event_def set_operation_state_def workload_stream_def host_row_of_def)

lemma journal_same_runs: "frames same_runs (run_call c)"
proof (cases c)
  case (Accept actor request a inp)
  have "same_runs (jn_db s) (jn_db s')" if "accept actor request a inp s = (Inr ref, s')" for s ref s'
    using that by (cases rule: accept_success) (simp_all add: same_runs_def accepted_db_def workload_stream_def)
  then show ?thesis unfolding Accept by (auto simp: frames_def tx_success)
qed (auto simp: call_defs Let_def statement_defs same_runs_def workload_stream_def
      intro!: sr.intros sr.append_event sr.phase_events add_event_same_runs [unfolded same_runs_def workload_stream_def])

lemmas agent_defs = agent_register_def record_connection_def agent_accept_def agent_accept_new_def mark_running_def agent_complete_def
  acknowledge_results_def mark_bundle_pruned_def agent_state_def store_now_def

lemma agent_statements_same_runs:
  "frames same_runs (tx_update (insert_agent a))" "frames same_runs (tx_update (update_agent h f))"
  "frames same_runs (tx_update (update_command i g))" "frames same_runs (tx_execute (insert_command r))"
  by (auto simp: same_runs_def insert_agent_def update_agent_def update_command_def insert_command_def intro!: sr.update sr.execute)

text \<open>
  Most calls do all their work in one transaction; a few read the result after it. The rules follow
  the control structure of a call down to its statements.
\<close>

context db_frame
begin

lemma settled_transaction: "frames R m \<Longrightarrow> moves R (transaction m)"
  by (intro moves_atomic atomic_transaction transaction)

lemma settled_basic:
  "moves R (tx_return x)" "moves R (tx_raise e)" "moves R (tx_lift r)" "moves R (tx_check c)"
  "moves R (tx_query f)" "moves R (tx_read g)" "moves R clock_sample" "moves R fresh_uuid"
  by (simp_all add: moves_readonly)

lemmas settled = settled_basic settled_transaction moves_bind moves_returning basic bind transaction options pairs conditional

end

lemma agent_same_runs: "moves same_runs (run_agent_call c)"
  by (cases c) (auto simp: agent_defs Let_def intro!: sr.settled agent_statements_same_runs)

lemmas daemon_defs = register_host_def daemon_host_def record_plan_request_def daemon_heartbeat_def record_observation_def
  set_host_control_def accept_run_def accept_run_new_def acquire_run_def complete_run_def renew_run_lease_def
  request_run_cancellation_def request_cancel_tx_def complete_tx_def claim_tx_def append_run_event_def reread_run_def store_now_def

lemmas daemon_statement_defs = update_host_def update_run_def insert_plan_request_def prune_observations_def Let_def insert_run_def
  insert_run_event_def insert_host_event_def insert_observation_def upsert_host_def

lemma daemon_statements_same_agent:
  "frames same_agent (tx_update (update_host h f))" "frames same_agent (tx_update (update_run i g))"
  "frames same_agent (tx_update (insert_plan_request q))" "frames same_agent (tx_update (prune_observations h n))"
  "frames same_agent (tx_execute (insert_run r))" "frames same_agent (tx_execute (insert_run_event e))"
  "frames same_agent (tx_execute (insert_host_event he))" "frames same_agent (tx_execute (insert_observation ob))"
  "frames same_agent (tx_execute (upsert_host hr))" "frames same_agent (tx_update (\<lambda>db. db\<lparr>db_workload_runs := k db\<rparr>))"
  by (auto simp: same_agent_def daemon_statement_defs split: if_splits intro!: sag.update sag.execute)

lemma daemon_same_agent: "moves same_agent (run_daemon_call c)"
  by (cases c) (auto simp: daemon_defs Let_def intro!: sag.settled daemon_statements_same_agent)

lemma host_statements_same_runs:
  "frames same_runs (tx_update (update_host h f))" "frames same_runs (tx_update (insert_plan_request q))"
  "frames same_runs (tx_update (prune_observations h n))" "frames same_runs (tx_execute (insert_observation ob))"
  "frames same_runs (tx_execute (upsert_host hr))"
  by (auto simp: same_runs_def daemon_statement_defs workload_stream_def split: if_splits intro!: sr.update sr.execute)

lemma host_calls_same_runs:
  "moves same_runs (register_host h c v p)" "moves same_runs (record_plan_request a k d pl)" "moves same_runs (daemon_heartbeat h)"
  "moves same_runs (record_observation h ob n)" "moves same_runs (set_host_control h mm dr)"
  by (auto simp: daemon_defs Let_def intro!: sr.settled host_statements_same_runs)

end
