(* ===== verification/Store_Facts.thy ===== *)
theory Store_Facts
  imports Store_Calls
begin

text \<open>
  Properties of agent commands over every interleaving of the calls of the three stores on the shared database:
  their integrity check, finality, delivery and replay.
\<close>

section \<open>Evolution of the machine\<close>

lemma store_evolves_agent: "m \<in> screened_ops \<Longrightarrow> moves agent_evolves m"
proof -
  assume "m \<in> screened_ops"
  then consider "m \<in> journal_ops" | c where "m = run_agent_call c" "agent_call_ok c" | c where "m = run_daemon_call c"
    by (auto simp: screened_ops_def screened_agent_ops_def screened_daemon_ops_def)
  then show ?thesis
  proof cases
    case 1
    then show ?thesis using journal_calls_evolve_agent by (intro ag.journal_ops_move)
  next
    case 2
    then show ?thesis by (simp add: agent_calls_evolve)
  next
    case 3
    then show ?thesis using daemon_same_agent same_agent_evolves by (auto simp: moves_def)
  qed
qed

lemma agent_machine_evolves: "later screened_ops s s' \<Longrightarrow> agent_evolves (jn_db s) (jn_db s')"
  using ag.moves_later store_evolves_agent by blast

section \<open>Agent commands\<close>

lemma agent_inv_later:
  assumes "jn_db s0 = empty_database" "later screened_ops s0 s"
  shows "agent_inv (jn_db s)"
  using agent_machine_evolves [OF assms(2)] agent_inv_empty assms(1) by (simp add: agent_evolves_def)

text \<open>
  C12. The agent part of the integrity check of the journal passes in every state of the shared database
  that screened calls of the journal, the agent store and the daemon store reach in any order, failing
  calls included. Screened means here that payloads and results of agent commands are objects without
  command keys and without forbidden keys, which the agent store does not check itself: the
  commands are numbered without unacknowledged gaps, their payloads and results are canonical and
  match their digests, only terminal commands carry results, and no host has acknowledged past a
  command that is not terminal.
\<close>

theorem agent_history_verifies:
  assumes "jn_db s0 = empty_database" and "later screened_ops s0 s"
  shows "check_agent (jn_db s) = None"
  using agent_inv_later [OF assms] by (rule agent_inv_checks)

text \<open>
  C14. A completed agent command is final: whatever screened calls of the three stores follow, in any
  order, the command is still stored with the same identity, payload and result.
\<close>

theorem terminal_command_final:
  assumes "jn_db s0 = empty_database" and "later screened_ops s0 s" and "later screened_ops s s'"
    and "find_command command_id (jn_db s) = Some r" and "ag_state r \<in> set AGENT_TERMINAL"
  shows "\<exists>r'. find_command command_id (jn_db s') = Some r' \<and> ag_state r' = ag_state r \<and> ag_payload_json r' = ag_payload_json r \<and>
    ag_sequence r' = ag_sequence r \<and> ag_result_json r' = ag_result_json r \<and> ag_result_digest r' = ag_result_digest r \<and>
    ag_completed_at r' = ag_completed_at r"
proof -
  have inv: "agent_inv (jn_db s)" "agent_inv (jn_db s')" and grows: "agent_grows (jn_db s) (jn_db s')"
    using agent_inv_later [OF assms(1,2)] agent_machine_evolves [OF assms(3)] by (simp_all add: agent_evolves_def)
  have r: "r \<in> set (db_agent_commands (jn_db s))" "ag_command_id r = command_id"
    using assms(4) fetchone_Some unfolding find_command_def by fastforce+
  then obtain r' where r': "r' \<in> set (db_agent_commands (jn_db s'))" "descends r r'"
    using grows by (auto simp: agent_grows_def rows_kept_def)
  then have "find_command command_id (jn_db s') = Some r'"
    using inv(2) r(2) by (simp add: find_command_def agent_inv_def fetchone_key descends_def)
  with r' assms(5) show ?thesis by (auto simp: descends_def terminal_row_def)
qed

text \<open>The commands a host has not acknowledged, in the order of their sequences.\<close>

definition outstanding :: "int \<Rightarrow> database \<Rightarrow> agent_command_row list" where
  "outstanding acknowledged db = filter (\<lambda>r. acknowledged < ag_sequence r) (commands_by_sequence db)"

lemma outstanding_sorted: "agent_inv db \<Longrightarrow> sorted_wrt (<) (map ag_sequence (outstanding n db))"
  using numbered_sorted [of "maximum_acknowledged db" 0 "db_agent_commands db"]
  by (auto simp: outstanding_def ordered_by_sequence agent_inv_def sorted_wrt_map intro: sorted_wrt_filter)

lemma from_row_Inr:
  "agent_command_from_row r = Inr c \<Longrightarrow> cm_sequence c = ag_sequence r \<and> cm_state c = ag_state r \<and>
     cm_operation c = ag_operation r \<and> loads (ag_payload_json r) = Inr (cm_payload c)"
  unfolding agent_command_from_row_def bind_res_Inr by auto

lemma from_row_fields:
  assumes "map_res agent_command_from_row rs = Inr cs"
  shows "map cm_sequence cs = map ag_sequence rs \<and> map cm_state cs = map ag_state rs"
  using assms unfolding map_res_Inr_iff
  by (induction rule: list_all2_induct) (auto dest: from_row_Inr)

lemma takeWhile_limit:
  assumes "ys = takeWhile p (sql_limit limit xs)"
  shows "ys = take (length ys) xs" "int (length ys) = limit \<or> length ys = length xs \<or> \<not> p (xs ! length ys)"
proof -
  have limit: "sql_limit limit xs = take (length (sql_limit limit xs)) xs" by (simp add: sql_limit_def min_def)
  have "ys = take (length ys) (sql_limit limit xs)" using assms takeWhile_eq_take by blast
  then show "ys = take (length ys) xs"
    using limit by (metis assms length_takeWhile_le min.absorb1 take_take)
  show "int (length ys) = limit \<or> length ys = length xs \<or> \<not> p (xs ! length ys)"
  proof (cases "length ys < length (sql_limit limit xs)")
    case True
    then have "\<not> p (sql_limit limit xs ! length ys)" using assms nth_length_takeWhile by blast
    with True limit show ?thesis by (metis nth_take)
  next
    case False
    then have "length ys = length (sql_limit limit xs)" using assms by (simp add: le_antisym length_takeWhile_le)
    then show ?thesis by (auto simp: sql_limit_def min_def split: if_splits)
  qed
qed

text \<open>
  C13. Results are delivered in order and without holes, in every state that screened calls of the three
  stores reach (agent payloads and results without command keys and forbidden keys):
  \<^verbatim>\<open>pending_results\<close> returns an initial part of the commands that the host has not acknowledged, in
  strictly ascending order and all of them terminal, and it stops only at the limit, at the end or at
  a command that is not terminal.
\<close>

theorem results_in_order:
  assumes "jn_db s0 = empty_database" and "later screened_ops s0 s"
    and "pending_results host limit s = (Inr cs, s')"
  shows "\<exists>a. find_agent host (jn_db s) = Some a \<and>
    map cm_sequence cs = map ag_sequence (take (length cs) (outstanding (ag_acknowledged a) (jn_db s))) \<and>
    sorted_wrt (<) (map cm_sequence cs) \<and> list_all (\<lambda>c. cm_state c \<in> set AGENT_TERMINAL) cs \<and>
    (int (length cs) = limit \<or> length cs = length (outstanding (ag_acknowledged a) (jn_db s)) \<or>
     ag_state (outstanding (ag_acknowledged a) (jn_db s) ! length cs) \<notin> set AGENT_TERMINAL)"
proof -
  obtain a where a: "find_agent host (jn_db s) = Some a"
    and cs: "map_res agent_command_from_row (takeWhile (\<lambda>r. ag_state r \<in> set AGENT_TERMINAL)
      (sql_limit limit (outstanding (ag_acknowledged a) (jn_db s)))) = Inr cs"
    using assms(3) by (auto simp: pending_results_def agent_state_def tx_success outstanding_def split: option.splits)
  define rs where "rs = takeWhile (\<lambda>r. ag_state r \<in> set AGENT_TERMINAL) (sql_limit limit (outstanding (ag_acknowledged a) (jn_db s)))"
  have fields: "map cm_sequence cs = map ag_sequence rs" "map cm_state cs = map ag_state rs"
    using from_row_fields [OF cs] by (simp_all add: rs_def)
  then have len: "length cs = length rs" by (metis length_map)
  note prefix = takeWhile_limit [OF rs_def]
  have "sorted_wrt (<) (map ag_sequence rs)"
    using outstanding_sorted [OF agent_inv_later [OF assms(1,2)]] by (subst prefix(1)) (simp add: take_map [symmetric] sorted_wrt_take)
  moreover have "list_all (\<lambda>st. st \<in> set AGENT_TERMINAL) (map cm_state cs)"
    unfolding fields by (auto simp: list_all_iff rs_def dest: set_takeWhileD)
  then have "list_all (\<lambda>c. cm_state c \<in> set AGENT_TERMINAL) cs" by (simp add: list.pred_map comp_def)
  ultimately show ?thesis
    using a fields prefix by (auto simp: len)
qed

lemma stored_row_reads: "row_ok r \<Longrightarrow> \<exists>c. agent_command_from_row r = Inr c"
  unfolding row_ok_iff agent_command_from_row_def check_agent_result_def
  by (auto simp: bind_res_def split: if_splits option.splits sum.splits)

text \<open>What \<^verbatim>\<open>accept\<close> does when the identifier or the sequence is taken, and the row a success leaves.\<close>

definition same_request ::
  "agent_command_row \<Rightarrow> string \<Rightarrow> int \<Rightarrow> string \<Rightarrow> string \<Rightarrow> string \<Rightarrow> string \<Rightarrow> json \<Rightarrow> bool" where
  "same_request r command_id sequence operation actor_id key envelope_digest payload \<longleftrightarrow>
     ag_command_id r = command_id \<and> ag_sequence r = sequence \<and> ag_key_digest r = digest_text key \<and>
     ag_request_digest r = canonical_digest (agent_request command_id sequence operation actor_id envelope_digest payload)"

lemma accept_leaves_row:
  assumes "agent_accept command_id sequence operation actor_id key envelope_digest payload s = (Inr c, s')"
  obtains r where "r \<in> set (db_agent_commands (jn_db s'))" "agent_command_from_row r = Inr c"
    "same_request r command_id sequence operation actor_id key envelope_digest payload"
    "agent_accept_check command_id sequence operation actor_id key envelope_digest payload = None"
    "\<exists>j. bounded_json (of_json payload) = Inr j"
proof (cases "fetchone (\<lambda>r. ag_command_id r = command_id \<or> ag_sequence r = sequence) (db_agent_commands (jn_db s))")
  case None
  with assms obtain r where r: "insert_command r (jn_db s) = Inr (jn_db s')" "agent_command_from_row r = Inr c"
    "same_request r command_id sequence operation actor_id key envelope_digest payload"
    "agent_accept_check command_id sequence operation actor_id key envelope_digest payload = None"
    "\<exists>j. bounded_json (of_json payload) = Inr j"
    by (fastforce simp: agent_accept_def agent_accept_new_def Let_def tx_success same_request_def)
  then have "r \<in> set (db_agent_commands (jn_db s'))" by (auto simp: insert_command_def)
  with that r show ?thesis by blast
next
  case (Some r)
  then have "r \<in> set (db_agent_commands (jn_db s))" using fetchone_Some by fast
  with assms that [of r] Some show ?thesis
    by (auto simp: agent_accept_def Let_def tx_success same_request_def split: if_splits)
qed

lemma accept_taken:
  assumes "fetchone (\<lambda>r. ag_command_id r = command_id \<or> ag_sequence r = sequence) (db_agent_commands (jn_db s)) = Some r"
  shows "agent_command_from_row r = Inr c \<Longrightarrow>
      agent_accept_check command_id sequence operation actor_id key envelope_digest payload = None \<Longrightarrow>
      bounded_json (of_json payload) = Inr j \<Longrightarrow>
      same_request r command_id sequence operation actor_id key envelope_digest payload \<Longrightarrow>
      agent_accept command_id sequence operation actor_id key envelope_digest payload s = (Inr c, s)"
    "\<not> same_request r command_id sequence operation actor_id key envelope_digest payload \<Longrightarrow>
      \<exists>e. agent_accept command_id sequence operation actor_id key envelope_digest payload s = (Inl e, s)"
  using assms
  by (auto simp: agent_accept_def Let_def same_request_def tx_bind_def tx_check_def tx_lift_def tx_query_def transaction_def tx_raise_def
      tx_return_def bounded_json_def guarded_def split: option.splits)

lemma command_unique:
  assumes "agent_inv db" "q \<in> set (db_agent_commands db)" "r \<in> set (db_agent_commands db)"
    "ag_command_id q = ag_command_id r \<or> ag_sequence q = ag_sequence r"
  shows "q = r"
proof -
  have "distinct (map ag_sequence (db_agent_commands db))"
    using numbered_sorted assms(1) strict_sorted_iff unfolding agent_inv_def by (metis sorted_wrt_map)
  with assms show ?thesis by (auto simp: agent_inv_def distinct_map inj_on_def)
qed

lemma command_fetched:
  assumes "agent_inv db" "r \<in> set (db_agent_commands db)" "command_id = ag_command_id r" "sequence = ag_sequence r"
    and "command_id' = command_id \<or> sequence' = sequence"
  shows "\<exists>q. fetchone (\<lambda>r. ag_command_id r = command_id' \<or> ag_sequence r = sequence') (db_agent_commands db) = Some q \<and>
    (ag_command_id q = command_id' \<and> ag_sequence q = sequence' \<or> command_id' = command_id \<and> sequence' = sequence \<longrightarrow> q = r)"
proof (cases "fetchone (\<lambda>r. ag_command_id r = command_id' \<or> ag_sequence r = sequence') (db_agent_commands db)")
  case None
  then show ?thesis using assms by (auto simp: fetchone_None)
next
  case (Some q)
  then have "q \<in> set (db_agent_commands db)" "ag_command_id q = command_id' \<or> ag_sequence q = sequence'" using fetchone_Some by fast+
  then show ?thesis using Some command_unique [OF assms(1) _ assms(2)] assms(3-5) by auto
qed

text \<open>
  C15. Replaying an accepted agent command succeeds: after any screened calls of the three stores, the
  same call returns the stored command, with the identity and the payload of the first answer, and
  changes nothing. A call that reuses the identifier or the sequence with another identifier,
  sequence, request digest or idempotency key raises and changes nothing. The first payload has no
  command keys and no forbidden keys.
\<close>

theorem agent_accept_replay:
  assumes "jn_db s0 = empty_database" and "later screened_ops s0 s" and "payload_ok payload"
    and "agent_accept command_id sequence operation actor_id key envelope_digest payload s = (Inr c, s1)"
    and "later screened_ops s1 s2"
  shows "(\<exists>c'. agent_accept command_id sequence operation actor_id key envelope_digest payload s2 = (Inr c', s2) \<and>
      cm_command_id c' = cm_command_id c \<and> cm_sequence c' = cm_sequence c \<and> cm_operation c' = cm_operation c \<and>
      cm_actor_id c' = cm_actor_id c \<and> cm_envelope_digest c' = cm_envelope_digest c \<and> cm_payload c' = cm_payload c) \<and>
    (\<forall>command_id' sequence' operation' actor_id' key' envelope_digest' payload'.
      (command_id' = command_id \<or> sequence' = sequence) \<longrightarrow>
      (command_id', sequence', digest_text key',
        canonical_digest (agent_request command_id' sequence' operation' actor_id' envelope_digest' payload')) \<noteq>
      (command_id, sequence, digest_text key,
        canonical_digest (agent_request command_id sequence operation actor_id envelope_digest payload)) \<longrightarrow>
      (\<exists>e. agent_accept command_id' sequence' operation' actor_id' key' envelope_digest' payload' s2 = (Inl e, s2)))"
proof -
  have "agent_evolves (jn_db s) (jn_db s1)" using accept_command_evolves [OF assms(3)] assms(4) by (rule framesD)
  then have inv: "agent_inv (jn_db s2)" and grows: "agent_grows (jn_db s1) (jn_db s2)"
    using agent_inv_later [OF assms(1,2)] agent_machine_evolves [OF assms(5)] by (simp_all add: agent_evolves_def)
  from assms(4) obtain r where r: "r \<in> set (db_agent_commands (jn_db s1))" "agent_command_from_row r = Inr c"
    "same_request r command_id sequence operation actor_id key envelope_digest payload"
    and checks: "agent_accept_check command_id sequence operation actor_id key envelope_digest payload = None"
    "\<exists>j. bounded_json (of_json payload) = Inr j" by (rule accept_leaves_row)
  then obtain r' where r': "r' \<in> set (db_agent_commands (jn_db s2))" and kept: "descends r r'"
    using grows by (auto simp: agent_grows_def rows_kept_def)
  have "row_ok r'" using inv r' by (simp add: agent_inv_def)
  then obtain c' where c': "agent_command_from_row r' = Inr c'" using stored_row_reads by blast
  have same: "same_request r' command_id sequence operation actor_id key envelope_digest payload"
    using r(3) kept by (simp add: same_request_def descends_def)
  note fetched = command_fetched [OF inv r', of command_id sequence]
  show ?thesis
  proof (intro conjI allI impI)
    obtain q where "fetchone (\<lambda>r. ag_command_id r = command_id \<or> ag_sequence r = sequence) (db_agent_commands (jn_db s2)) = Some q"
      "q = r'" using fetched [of command_id sequence] same unfolding same_request_def by blast
    then have "agent_accept command_id sequence operation actor_id key envelope_digest payload s2 = (Inr c', s2)"
      using accept_taken(1) c' checks same by blast
    moreover have "cm_command_id c' = cm_command_id c \<and> cm_sequence c' = cm_sequence c \<and> cm_operation c' = cm_operation c \<and>
      cm_actor_id c' = cm_actor_id c \<and> cm_envelope_digest c' = cm_envelope_digest c \<and> cm_payload c' = cm_payload c"
      using r(2) c' kept by (auto simp: agent_command_from_row_def bind_res_Inr descends_def)
    ultimately show "\<exists>c'. agent_accept command_id sequence operation actor_id key envelope_digest payload s2 = (Inr c', s2) \<and>
      cm_command_id c' = cm_command_id c \<and> cm_sequence c' = cm_sequence c \<and> cm_operation c' = cm_operation c \<and>
      cm_actor_id c' = cm_actor_id c \<and> cm_envelope_digest c' = cm_envelope_digest c \<and> cm_payload c' = cm_payload c" by blast
  next
    fix command_id' sequence' operation' actor_id' key' envelope_digest' payload'
    assume taken: "command_id' = command_id \<or> sequence' = sequence"
      and other: "(command_id', sequence', digest_text key',
          canonical_digest (agent_request command_id' sequence' operation' actor_id' envelope_digest' payload')) \<noteq>
        (command_id, sequence, digest_text key,
          canonical_digest (agent_request command_id sequence operation actor_id envelope_digest payload))"
    then obtain q where q: "fetchone (\<lambda>r. ag_command_id r = command_id' \<or> ag_sequence r = sequence') (db_agent_commands (jn_db s2)) = Some q"
      "ag_command_id q = command_id' \<and> ag_sequence q = sequence' \<longrightarrow> q = r'"
      using fetched [OF _ _ taken] same unfolding same_request_def by blast
    then have "\<not> same_request q command_id' sequence' operation' actor_id' key' envelope_digest' payload'"
      using other same unfolding same_request_def by auto
    then show "\<exists>e. agent_accept command_id' sequence' operation' actor_id' key' envelope_digest' payload' s2 = (Inl e, s2)"
      by (rule accept_taken(2) [OF q(1)])
  qed
qed

end
