(* ===== verification/Agent_Runs.thy ===== *)
theory Agent_Runs
  imports Store_Facts Sample_Runs
begin

text \<open>
  A run of the agent store on an empty database: a host registers, one command is accepted, started
  and completed, its result is listed and acknowledged. The witnesses of the agent theorems use it.
\<close>

definition agent_digest :: string where
  "agent_digest = digest_text ''envelope''"

definition agent_accept_sample :: "agent_command tx" where
  "agent_accept_sample = agent_accept ''command_1'' 1 ''host.upgrade'' ''actor_a'' ''key'' agent_digest (JObj [])"

definition agent_host_row :: "int \<Rightarrow> agent_state_row" where
  "agent_host_row n = \<lparr>ag_host_id = ''host_a'', ag_acknowledged = n, ag_connection_state = ''disconnected'', ag_connected_at = None,
     ag_last_exchange_at = None, ag_last_error_type = None, ag_updated_at = ''2026-01-01T00:00:00Z''\<rparr>"

definition agent_sample_row :: agent_command_row where
  "agent_sample_row = \<lparr>ag_command_id = ''command_1'', ag_sequence = 1, ag_operation = ''host.upgrade'', ag_actor_id = ''actor_a'',
     ag_key_digest = digest_text ''key'', ag_envelope_digest = agent_digest,
     ag_request_digest = canonical_digest (agent_request ''command_1'' 1 ''host.upgrade'' ''actor_a'' agent_digest (JObj [])),
     ag_payload_json = ''{}'', ag_state = ''accepted'', ag_accepted_at = ''2026-01-01T00:00:00Z'', ag_started_at = None,
     ag_completed_at = None, ag_result_digest = None, ag_result_json = None, ag_bundle_pruned_at = None\<rparr>"

definition agent_finished_row :: agent_command_row where
  "agent_finished_row = agent_sample_row\<lparr>ag_state := ''succeeded'', ag_completed_at := Some ''2026-01-01T00:00:00Z'',
     ag_result_digest := Some (canonical_digest (of_json (JObj []))), ag_result_json := Some ''{}''\<rparr>"

definition agent_journal :: "nat \<Rightarrow> agent_command_row list \<Rightarrow> journal" where
  "agent_journal n rows = sample_journal\<lparr>jn_tick := n,
     jn_db := empty_database\<lparr>db_agent_state := [agent_host_row 0], db_agent_commands := rows\<rparr>\<rparr>"

definition agent_sample_command :: "agent_command_row \<Rightarrow> agent_command" where
  "agent_sample_command r = \<lparr>cm_command_id = ag_command_id r, cm_sequence = ag_sequence r, cm_operation = ag_operation r,
     cm_actor_id = ag_actor_id r, cm_envelope_digest = ag_envelope_digest r, cm_payload = JObj [], cm_state = ag_state r,
     cm_accepted_at = ag_accepted_at r, cm_started_at = ag_started_at r, cm_completed_at = ag_completed_at r,
     cm_result_digest = ag_result_digest r, cm_result = map_option (\<lambda>_. JObj []) (ag_result_json r)\<rparr>"

lemma empty_payload: "payload_ok (JObj [])" "canonical_json (of_json (JObj [])) = ''{}''" "loads ''{}'' = Inr (JObj [])"
  by code_simp+

lemma empty_bounded: "bounded_json (of_json (JObj [])) = Inr ''{}''"
  by (simp add: bounded_json_def empty_payload MAX_CANONICAL_JSON_BYTES_def del: of_json.simps)

lemma agent_ids: "fullmatch COMMAND_ID ''command_1''" "is_digest agent_digest"
  by code_simp (simp add: agent_digest_def)

lemma sample_from_row:
  "agent_command_from_row agent_sample_row = Inr (agent_sample_command agent_sample_row)"
  "agent_command_from_row agent_finished_row = Inr (agent_sample_command agent_finished_row)"
  by (simp_all add: agent_command_from_row_def agent_sample_command_def agent_sample_row_def agent_finished_row_def empty_payload)

lemma sample_store_now: "jn_clock s = (\<lambda>_. Some 1767225600) \<Longrightarrow> store_now s = (Inr ''2026-01-01T00:00:00Z'', s\<lparr>jn_tick := Suc (jn_tick s)\<rparr>)"
  by (simp add: store_now_def tx_run sample_now)

lemma agent_registers: "agent_register ''host_a'' sample_journal = (Inr (agent_host_row 0), agent_journal 1 [])"
  by (simp add: agent_register_def tx_run store_now_def sample_now agent_state_def find_agent_def insert_agent_def
      sample_journal_def agent_journal_def agent_host_row_def empty_database_def)

lemma agent_accepts: "agent_accept_sample (agent_journal 1 []) = (Inr (agent_sample_command agent_sample_row), agent_journal 2 [agent_sample_row])"
proof -
  have "agent_accept_check ''command_1'' 1 ''host.upgrade'' ''actor_a'' ''key'' agent_digest (JObj []) = None"
    using agent_ids by (simp add: agent_accept_check_def is_obj_def)
  then show ?thesis
    using sample_from_row(1) empty_payload(2)
    by (simp add: empty_bounded agent_accept_sample_def agent_accept_def agent_accept_new_def Let_def tx_run check_run store_now_def sample_now
        agent_journal_def sample_journal_def agent_sample_row_def maximum_sequence_def maximum_acknowledged_def max_or_zero_def
        agent_host_row_def insert_command_def bounded_text_def MAX_CANONICAL_JSON_BYTES_def empty_database_def del: of_json.simps)
qed

lemma agent_completes:
  "agent_complete ''command_1'' True (JObj []) (agent_journal 2 [agent_sample_row]) =
     (Inr (agent_sample_command agent_finished_row), agent_journal 3 [agent_finished_row])"
  using sample_from_row(2)
  by (simp add: agent_complete_def empty_bounded Let_def tx_run store_now_def sample_now
      agent_journal_def sample_journal_def find_command_def update_command_def agent_finished_row_def agent_sample_row_def
      AGENT_TERMINAL_def empty_database_def del: of_json.simps)

lemma agent_lists:
  "pending_results ''host_a'' 100 (agent_journal 3 [agent_finished_row]) =
     (Inr [agent_sample_command agent_finished_row], agent_journal 3 [agent_finished_row])"
  using sample_from_row(2)
  by (simp add: pending_results_def agent_state_def tx_run find_agent_def agent_journal_def agent_host_row_def
      commands_by_sequence_def sql_limit_def agent_finished_row_def agent_sample_row_def AGENT_TERMINAL_def)

section \<open>Witnesses\<close>

abbreviation agent_machine :: machine where
  "agent_machine \<equiv> screened_ops"

lemma agent_op: "agent_call_ok c \<Longrightarrow> run_agent_call c \<in> agent_machine"
  by (auto simp: screened_ops_def screened_agent_ops_def)

lemma agent_run:
  "later agent_machine sample_journal (agent_journal 1 [])"
  "later agent_machine (agent_journal 1 []) (agent_journal 2 [agent_sample_row])"
  "later agent_machine (agent_journal 2 [agent_sample_row]) (agent_journal 3 [agent_finished_row])"
  using agent_registers agent_accepts agent_completes
    later_step [OF agent_op [of "Register ''host_a''"] _ later_refl]
    later_step [OF agent_op [of "Accept_Command ''command_1'' 1 ''host.upgrade'' ''actor_a'' ''key'' agent_digest (JObj [])"] _ later_refl]
    later_step [OF agent_op [of "Complete_Command ''command_1'' True (JObj [])"] _ later_refl]
  by (simp_all add: empty_payload(1) returning_def tx_run agent_accept_sample_def)

lemma agent_finished_later: "later agent_machine sample_journal (agent_journal 3 [agent_finished_row])"
  using agent_run later_trans by blast

lemma sample_empty: "jn_db sample_journal = empty_database"
  by (simp add: sample_journal_def)

theorem agent_history_verifies_witness: "check_agent (jn_db (agent_journal 3 [agent_finished_row])) = None"
  by (rule agent_history_verifies [OF sample_empty agent_finished_later])

theorem terminal_command_final_witness:
  "\<exists>r'. find_command ''command_1'' (jn_db (agent_journal 3 [agent_finished_row])) = Some r' \<and>
     ag_result_json r' = ag_result_json agent_finished_row"
proof -
  have "find_command ''command_1'' (jn_db (agent_journal 3 [agent_finished_row])) = Some agent_finished_row"
    by (simp add: find_command_def agent_journal_def agent_finished_row_def agent_sample_row_def)
  moreover have "ag_state agent_finished_row \<in> set AGENT_TERMINAL" by (simp add: agent_finished_row_def AGENT_TERMINAL_def)
  ultimately show ?thesis
    using terminal_command_final [OF sample_empty agent_finished_later later_refl] by blast
qed

theorem results_in_order_witness:
  "\<exists>a. find_agent ''host_a'' (jn_db (agent_journal 3 [agent_finished_row])) = Some a \<and>
     [1] = map ag_sequence (take 1 (outstanding (ag_acknowledged a) (jn_db (agent_journal 3 [agent_finished_row]))))"
  using results_in_order [OF sample_empty agent_finished_later agent_lists]
  by (auto simp: agent_sample_command_def agent_finished_row_def agent_sample_row_def)

lemma agent_accepts_again:
  "agent_accept_sample (agent_journal 3 [agent_finished_row]) =
     (Inr (agent_sample_command agent_finished_row), agent_journal 3 [agent_finished_row])"
proof -
  have "agent_accept_check ''command_1'' 1 ''host.upgrade'' ''actor_a'' ''key'' agent_digest (JObj []) = None"
    using agent_ids by (simp add: agent_accept_check_def is_obj_def)
  then show ?thesis
    using sample_from_row(2)
    by (simp add: empty_bounded agent_accept_sample_def agent_accept_def Let_def tx_run agent_journal_def sample_journal_def
        agent_finished_row_def agent_sample_row_def del: of_json.simps)
qed

theorem agent_accept_replay_witness:
  "(\<exists>c. agent_accept_sample (agent_journal 3 [agent_finished_row]) = (Inr c, agent_journal 3 [agent_finished_row]) \<and>
     cm_command_id c = ''command_1'' \<and> cm_payload c = JObj []) \<and>
   (\<exists>e. agent_accept ''command_1'' 2 ''host.upgrade'' ''actor_a'' ''key'' agent_digest (JObj []) (agent_journal 3 [agent_finished_row]) =
     (Inl e, agent_journal 3 [agent_finished_row]))"
  using agent_accept_replay [OF sample_empty agent_run(1) empty_payload(1) agent_accepts [unfolded agent_accept_sample_def]
      agent_run(3)]
  by (auto simp: agent_accept_sample_def agent_sample_command_def agent_sample_row_def)

section \<open>Commands that the integrity check refuses\<close>

definition command_payload :: "string \<Rightarrow> json" where
  "command_payload command = JObj [(''command'', JStr command)]"

lemma command_payload_json:
  "canonical_json (of_json (command_payload command)) = json_dumps (command_payload (redact_command_string command REDACTED))"
  "loads (json_dumps (command_payload command)) = Inr (command_payload command)"
proof -
  have key: "\<not> is_sensitive_key ''command''" "looks_like_command_key (Some ''command'')" "\<not> is_safe_digest_metadata ''command'' (JStr t)"
    "lower ''command'' \<notin> set FORBIDDEN_MAPPING_KEYS" for t
    by (code_simp, code_simp, simp add: is_safe_iff ends_with_def lower_def to_lower_def is_upper_def, code_simp)
  have "serialize (of_json (command_payload command)) = scrub False None (command_payload command)"
    using key(4) secret_safe_scrub [of "JObj [(''command'', JStr command)]"] by (simp add: command_payload_def)
  also have "\<dots> = command_payload (redact_command_string command REDACTED)"
    using key(1-3) by (simp add: command_payload_def)
  finally show "canonical_json (of_json (command_payload command)) = json_dumps (command_payload (redact_command_string command REDACTED))"
    by (simp add: canonical_json_def)
  show "loads (json_dumps (command_payload command)) = Inr (command_payload command)"
    using json_loads_dumps [of "command_payload command"] by (simp add: loads_def command_payload_def del: json_dumps.simps)
qed

lemma command_row_refused:
  assumes "ag_payload_json r = canonical_json (of_json (command_payload command))"
    and "redact_command_string (redact_command_string command REDACTED) REDACTED \<noteq> redact_command_string command REDACTED"
  shows "\<not> row_ok r"
proof
  assume "row_ok r"
  then have "canonical_json (of_json (command_payload (redact_command_string command REDACTED))) = ag_payload_json r"
    using assms(1) by (auto simp: row_ok_iff command_payload_json)
  then have "loads (json_dumps (command_payload (redact_command_string (redact_command_string command REDACTED) REDACTED))) =
      loads (json_dumps (command_payload (redact_command_string command REDACTED)))"
    by (simp add: assms(1) command_payload_json(1))
  then show False using assms(2) unfolding command_payload_json(2) by (simp add: command_payload_def)
qed

text \<open>
  C38. The integrity check refuses a database after an agent command it accepted: whenever a new command
  whose payload is a command string on which redaction is not idempotent is accepted, in whatever state
  of the database, the agent part of the integrity check, which runs whenever the journal is opened,
  fails afterwards. A connection string with another connection string behind an equals sign is such a string:
  the first pass masks what follows the sign, the second the whole word.
\<close>

theorem agent_command_refused_later:
  assumes "agent_accept command_id sequence operation actor_id key envelope_digest (JObj [(''command'', JStr command)]) s = (Inr c, s')"
    and "list_all (\<lambda>r. ag_command_id r \<noteq> command_id \<and> ag_sequence r \<noteq> sequence) (db_agent_commands (jn_db s))"
    and "redact_command_string (redact_command_string command REDACTED) REDACTED \<noteq> redact_command_string command REDACTED"
  shows "check_agent (jn_db s') \<noteq> None"
proof -
  have "fetchone (\<lambda>r. ag_command_id r = command_id \<or> ag_sequence r = sequence) (db_agent_commands (jn_db s)) = None"
    using assms(2) by (auto simp: fetchone_None list_all_iff)
  then obtain r where "insert_command r (jn_db s) = Inr (jn_db s')" and payload: "ag_payload_json r = canonical_json (of_json (command_payload command))"
    using assms(1) unfolding command_payload_def
    by (fastforce simp: agent_accept_def agent_accept_new_def Let_def tx_success bounded_json_def)
  then have "r \<in> set (commands_by_sequence (jn_db s'))" by (auto simp: insert_command_def commands_by_sequence_def)
  moreover have "\<not> row_ok r" using payload assms(3) by (rule command_row_refused)
  ultimately have "check_agent_commands (maximum_acknowledged (jn_db s')) 0 (commands_by_sequence (jn_db s')) \<noteq> None"
    by (auto simp: check_agent_commands_iff)
  then show ?thesis by (auto simp: check_agent_def Let_def)
qed

definition payload_row :: "json \<Rightarrow> string \<Rightarrow> agent_command_row" where
  "payload_row p j = agent_sample_row\<lparr>ag_payload_json := j,
     ag_request_digest := canonical_digest (agent_request ''command_1'' 1 ''host.upgrade'' ''actor_a'' agent_digest p)\<rparr>"

lemma sample_payload_accepted:
  assumes "agent_accept_check ''command_1'' 1 ''host.upgrade'' ''actor_a'' ''key'' agent_digest p = None"
    "bounded_json (of_json p) = Inr j" "length j \<le> 65536" "loads j = Inr q"
  shows "agent_accept ''command_1'' 1 ''host.upgrade'' ''actor_a'' ''key'' agent_digest p (agent_journal 1 []) =
    (Inr ((agent_sample_command agent_sample_row)\<lparr>cm_payload := q\<rparr>), agent_journal 2 [payload_row p j])"
proof -
  have "agent_command_from_row (payload_row p j) = Inr ((agent_sample_command agent_sample_row)\<lparr>cm_payload := q\<rparr>)"
    using assms(4) by (simp add: agent_command_from_row_def payload_row_def agent_sample_row_def agent_sample_command_def)
  then show ?thesis
    by (simp add: assms(1-3) agent_accept_def agent_accept_new_def Let_def tx_run check_run store_now_def sample_now
      agent_journal_def sample_journal_def agent_sample_row_def payload_row_def maximum_sequence_def maximum_acknowledged_def
      max_or_zero_def agent_host_row_def insert_command_def bounded_text_def MAX_CANONICAL_JSON_BYTES_def empty_database_def)
qed

lemma sample_command_accepted:
  assumes "length (canonical_json (of_json (command_payload command))) \<le> 65536"
  shows "\<exists>c s'. agent_accept ''command_1'' 1 ''host.upgrade'' ''actor_a'' ''key'' agent_digest (JObj [(''command'', JStr command)])
     (agent_journal 1 []) = (Inr c, s')"
  unfolding command_payload_def [symmetric]
proof (intro exI, rule sample_payload_accepted)
  show "agent_accept_check ''command_1'' 1 ''host.upgrade'' ''actor_a'' ''key'' agent_digest (command_payload command) = None"
    using agent_ids by (simp add: agent_accept_check_def is_obj_def command_payload_def)
  show "bounded_json (of_json (command_payload command)) = Inr (canonical_json (of_json (command_payload command)))"
    using assms by (simp add: bounded_json_def MAX_CANONICAL_JSON_BYTES_def)
  show "loads (canonical_json (of_json (command_payload command))) = Inr (command_payload (redact_command_string command REDACTED))"
    by (simp add: command_payload_json)
qed (rule assms)

theorem agent_command_refused_later_witness:
  "\<exists>c s'. agent_accept ''command_1'' 1 ''host.upgrade'' ''actor_a'' ''key'' agent_digest
     (JObj [(''command'', JStr ''postgres://h?x=redis://r'')]) (agent_journal 1 []) = (Inr c, s') \<and> check_agent (jn_db s') \<noteq> None"
proof -
  let ?command = "''postgres://h?x=redis://r''"
  have twice: "redact_command_string (redact_command_string ?command REDACTED) REDACTED \<noteq> redact_command_string ?command REDACTED"
    by code_simp
  have "length (json_dumps (command_payload (redact_command_string ?command REDACTED))) = 41" by code_simp
  then have fits: "length (canonical_json (of_json (command_payload ?command))) \<le> 65536" by (simp add: command_payload_json(1))
  obtain c s' where run: "agent_accept ''command_1'' 1 ''host.upgrade'' ''actor_a'' ''key'' agent_digest (JObj [(''command'', JStr ?command)])
     (agent_journal 1 []) = (Inr c, s')" using sample_command_accepted [OF fits] by blast
  have fresh: "list_all (\<lambda>r. ag_command_id r \<noteq> ''command_1'' \<and> ag_sequence r \<noteq> 1) (db_agent_commands (jn_db (agent_journal 1 [])))"
    by (simp add: agent_journal_def)
  show ?thesis using run agent_command_refused_later [OF run fresh twice] by blast
qed

end
