(* ===== verification/Run_Properties.thy ===== *)
theory Run_Properties
  imports Store_Facts Sample_Runs
begin

text \<open>
  Properties of workload runs over every interleaving of calls of the three stores: the workload part
  of the integrity check, finality of completed runs and fencing of superseded workers.
\<close>

section \<open>The source of identifiers\<close>

lemma keeps_uuid_returning: "keeps_uuid m \<Longrightarrow> keeps_uuid (returning m)"
  unfolding returning_def by (intro keeps_uuid_intros)

lemma keeps_uuid_append_event [intro!]: "keeps_uuid (append_event e p allow)"
  unfolding append_event_def Let_def by (intro keeps_uuid_intros)

lemma keeps_uuid_phase_events [intro!]: "keeps_uuid (append_phase_events r n prev required)"
  by (induction r n prev required rule: append_phase_events.induct)
     (auto simp: Let_def intro!: keeps_uuid_intros)

lemma keeps_uuid_journal: "keeps_uuid (run_call c)"
  by (cases c) (auto simp: call_defs accept_def accept_new_def store_plan_def store_approval_def Let_def intro!: keeps_uuid_intros)

lemma keeps_uuid_agent: "keeps_uuid (run_agent_call c)"
  by (cases c) (auto simp: agent_defs returning_def Let_def intro!: keeps_uuid_intros)

lemma keeps_uuid_daemon: "keeps_uuid (run_daemon_call c)"
  by (cases c) (auto simp: register_host_def daemon_host_def record_plan_request_def daemon_heartbeat_def record_observation_def
      set_host_control_def accept_run_def accept_run_new_def acquire_run_def complete_run_def renew_run_lease_def
      request_run_cancellation_def returning_def Let_def intro!: keeps_uuid_intros)

section \<open>Evolution of the runs\<close>

lemma atomic_run_calls:
  "atomic (accept_run actor h p e ri rd wn wk tk key policy)" "atomic (acquire_run owner seconds)"
  "atomic (complete_run i owner token st d c x)" "atomic (renew_run_lease i owner token seconds)" "atomic (request_run_cancellation i actor)"
  by (auto simp: accept_run_def acquire_run_def complete_run_def renew_run_lease_def request_run_cancellation_def Let_def
      intro!: atomic_intros)

lemma moves_weaken: "moves R m \<Longrightarrow> (\<And>db db'. R db db' \<Longrightarrow> R' db db') \<Longrightarrow> moves R' m"
  by (auto simp: moves_def)

lemmas host_calls_evolve = host_calls_same_runs [THEN moves_weaken, OF same_runs_evolves]

lemma accept_run_moves:
  assumes "accept_run actor h p e ri rd wn wk tk key policy s = (r, s')" "request_ok (ac_actor_id actor) h p e ri rd wn wk tk"
    "no_colons (jn_uuid s)"
  shows "run_evolves (jn_db s) (jn_db s')"
  using assms accept_run_evolves atomic_run_calls(1) rn.refl by (cases r) (fastforce simp: atomic_def)+

lemma daemon_call_evolves:
  assumes "run_daemon_call c s = (r, s')" "daemon_call_ok c" "no_colons (jn_uuid s)"
  shows "run_evolves (jn_db s) (jn_db s')"
proof (cases "\<exists>actor h p e ri rd wn wk tk key policy. c = Accept_Run actor h p e ri rd wn wk tk key policy")
  case True
  then obtain actor h p e ri rd wn wk tk key policy where c: "c = Accept_Run actor h p e ri rd wn wk tk key policy" by blast
  obtain r' where "accept_run actor h p e ri rd wn wk tk key policy s = (r', s')"
    using assms(1) by (auto simp: c returning_def tx_bind_def tx_return_def split: prod.splits sum.splits)
  then show ?thesis using accept_run_moves assms(2,3) by (simp add: c)
next
  case False
  have "moves run_evolves (run_daemon_call c)"
    using False assms(2)
    by (cases c) (simp_all add: host_calls_evolve rn.moves_returning rn.moves_atomic atomic_run_calls acquire_evolves
        complete_run_evolves renew_evolves request_cancellation_evolves)
  then show ?thesis using assms(1) by (simp add: moves_def)
qed

lemma store_evolves_runs:
  assumes "m \<in> screened_ops" "m s = (r, s')" "no_colons (jn_uuid s)"
  shows "run_evolves (jn_db s) (jn_db s') \<and> jn_uuid s' = jn_uuid s"
proof -
  consider c where "m = run_call c" "call_ok c" | c where "m = run_agent_call c" | c where "m = run_daemon_call c" "daemon_call_ok c"
    using assms(1) by (auto simp: screened_ops_def journal_ops_def screened_agent_ops_def screened_daemon_ops_def)
  then show ?thesis
  proof cases
    case (1 c)
    have "moves same_runs (run_call c)" by (intro sr.moves_atomic atomic_run_call journal_same_runs)
    then show ?thesis using 1 assms(2) same_runs_evolves keeps_uuidD [OF keeps_uuid_journal] by (auto simp: moves_def)
  next
    case (2 c)
    then show ?thesis using assms(2) agent_same_runs same_runs_evolves keeps_uuidD [OF keeps_uuid_agent] by (auto simp: moves_def)
  next
    case (3 c)
    then show ?thesis using assms(2,3) daemon_call_evolves keeps_uuidD [OF keeps_uuid_daemon] by auto
  qed
qed

lemma run_machine_evolves:
  assumes "later screened_ops s s'" "no_colons (jn_uuid s)"
  shows "run_evolves (jn_db s) (jn_db s') \<and> jn_uuid s' = jn_uuid s"
  using assms(1) unfolding later_def
proof (induction rule: rtranclp_induct)
  case (step t u)
  then obtain m r where "m \<in> screened_ops" "m t = (r, u)" by (auto simp: machine_step_def)
  then have "run_evolves (jn_db t) (jn_db u) \<and> jn_uuid u = jn_uuid t" using store_evolves_runs step.IH assms(2) by simp
  with step.IH show ?case using rn.trans by metis
qed (simp add: rn.refl)

lemma run_inv_later:
  assumes "jn_db s0 = empty_database" "no_colons (jn_uuid s0)" "later screened_ops s0 s"
  shows "run_inv (jn_db s)" "no_colons (jn_uuid s)"
proof -
  have "run_inv empty_database" by (simp add: run_inv_def empty_database_def workload_stream_def)
  then show "run_inv (jn_db s)" "no_colons (jn_uuid s)"
    using run_machine_evolves [OF assms(3,2)] assms(1,2) by (simp_all add: run_evolves_def)
qed

section \<open>Properties\<close>

text \<open>The shape of a run: its state and which columns are filled in that state.\<close>

definition run_shape :: "workload_run_row \<Rightarrow> bool" where
  "run_shape r \<longleftrightarrow>
     (if wr_state r \<in> {''succeeded'', ''failed'', ''cancelled''}
      then (\<exists>t d. wr_completed_at r = Some t \<and> is_utc t \<and> wr_result_digest r = Some d \<and> is_digest d) \<and>
        wr_lease_owner r = None \<and> wr_lease_expires r = None
      else wr_state r \<in> {''accepted'', ''running''} \<and> wr_completed_at r = None \<and> wr_result_digest r = None) \<and>
     is_utc (wr_accepted_at r) \<and> is_digest (wr_request_digest r) \<and> is_digest (wr_key_digest r) \<and> is_digest (wr_revision_digest r)"

lemma run_outcome_iff:
  "check_run_outcome r = None \<longleftrightarrow>
     (if wr_state r \<in> set RUN_TERMINAL
      then (\<exists>t d. wr_completed_at r = Some t \<and> is_utc t \<and> wr_result_digest r = Some d \<and> is_digest d) \<and>
        wr_lease_owner r = None \<and> wr_lease_expires r = None
      else wr_completed_at r = None \<and> wr_result_digest r = None)"
  by (cases "wr_completed_at r"; cases "wr_result_digest r") (simp_all add: check_run_outcome_def)

lemma run_identity_shape:
  assumes "check_run_identity r = None"
  shows "run_shape r"
proof -
  have "wr_state r \<in> {''accepted'', ''running''} \<union> set RUN_TERMINAL" "check_run_outcome r = None" "is_digest (wr_key_digest r)"
    "is_digest (wr_revision_digest r)" "is_utc (wr_accepted_at r)" using assms by (simp_all add: check_run_identity_iff)
  moreover have "is_digest (wr_request_digest r)"
    using assms canonical_digest_is_digest unfolding check_run_identity_iff request_matches_def by metis
  ultimately show ?thesis unfolding run_outcome_iff run_shape_def RUN_TERMINAL_def by (auto split: if_splits)
qed

text \<open>
  C20. Every workload run is well-formed in every state that screened calls of the three stores reach:
  its state is one of the five, a terminal run has a completion time and a result digest and no
  lease, any other run has neither, and its digests and times are digests and UTC times. Screened
  means here that \<^verbatim>\<open>accept_run\<close> and \<^verbatim>\<open>complete_run\<close>, which do not check it themselves, get well-formed
  revision and result digests and texts that are not credential-shaped.
\<close>

theorem runs_well_formed:
  assumes "jn_db s0 = empty_database" and "no_colons (jn_uuid s0)" and "later screened_ops s0 s" and "r \<in> set (db_workload_runs (jn_db s))"
  shows "run_shape r"
  using run_inv_later(1) [OF assms(1-3)] assms(4) by (intro run_identity_shape) (simp add: run_inv_def run_ok_def)

text \<open>
  C16. The workload part of the integrity check passes in every state of the shared database that
  screened calls of the three stores reach in any order, failing calls included: every run has a
  canonical request, a digest-linked chain of events numbered from one that ends in its terminal
  state when it has one, no terminal run keeps a lease, and the host event stream mirrors exactly the
  events of the runs. Screened means here that the texts of a run request are not credential-shaped
  and that revision and result digests are well-formed digests, which \<^verbatim>\<open>accept_run\<close> and \<^verbatim>\<open>complete_run\<close>
  do not check themselves; identifiers are free of colons, as hexadecimal ones are.
\<close>

theorem run_history_verifies:
  assumes "jn_db s0 = empty_database" and "no_colons (jn_uuid s0)" and "later screened_ops s0 s"
  shows "check_workload (jn_db s) = None"
  using run_inv_later(1) [OF assms] by (rule run_inv_checks)

text \<open>
  C18. A finished workload run is final: whatever screened calls of the three stores follow, its record
  and its event chain are the same in every later state.
\<close>

theorem terminal_run_final:
  assumes "jn_db s0 = empty_database" and "no_colons (jn_uuid s0)" and "later screened_ops s0 s" and "later screened_ops s s'"
    and "find_run run_id (jn_db s) = Some r" and "wr_state r \<in> set RUN_TERMINAL"
  shows "find_run run_id (jn_db s') = Some r \<and> run_events run_id (jn_db s') = run_events run_id (jn_db s)"
proof -
  have inv: "run_inv (jn_db s)" "run_inv (jn_db s')" and grows: "run_grows (jn_db s) (jn_db s')"
    using run_inv_later [OF assms(1-3)] run_machine_evolves [OF assms(4)] by (simp_all add: run_evolves_def)
  note r = find_run_mem [OF assms(5)]
  have kept: "r \<in> set (db_workload_runs (jn_db s'))"
    using grows r assms(6) unfolding run_grows_def rows_kept_def run_descends_def terminal_run_def by metis
  then have "find_run run_id (jn_db s') = Some r"
    using inv(2) r by (simp add: find_run_def run_inv_def fetchone_key)
  moreover have "events_of run_id (db_workload_run_events (jn_db s')) = events_of run_id (db_workload_run_events (jn_db s))"
    using grows r assms(6) by (auto simp: run_grows_def terminal_run_def)
  moreover have "run_events run_id (jn_db t) = events_of run_id (db_workload_run_events (jn_db t))"
    if "run_inv (jn_db t)" "r \<in> set (db_workload_runs (jn_db t))" for t
    using that r by (intro events_in_order) (auto simp: run_inv_def run_ok_def)
  ultimately show ?thesis using inv kept r by metis
qed

lemma token_grows:
  assumes "run_evolves db db'" "run_inv db" "find_run run_id db = Some r"
  obtains r' where "find_run run_id db' = Some r'" "wr_fencing_token r \<le> wr_fencing_token r'"
proof -
  have "run_inv db'" "run_grows db db'" using assms(1,2) by (simp_all add: run_evolves_def)
  moreover note find_run_mem [OF assms(3)]
  ultimately obtain r' where "r' \<in> set (db_workload_runs db')" "run_descends r r'" unfolding run_grows_def rows_kept_def by blast
  moreover have "distinct (map wr_run_id (db_workload_runs db'))" using \<open>run_inv db'\<close> by (simp add: run_inv_def)
  ultimately show ?thesis
    using that [of r'] find_run_mem [OF assms(3)] by (simp add: find_run_def fetchone_key run_descends_def)
qed

lemma appended_runs: "appended run_id ty detail db db' \<Longrightarrow> find_run i db' = find_run i db"
  by (auto simp: appended_def add_run_event_def find_run_def)

lemma find_run_update:
  assumes "\<And>q. wr_run_id (f q) = wr_run_id q"
  shows "find_run run_id (update_run run_id f db) = map_option f (find_run run_id db)"
proof -
  have "fetchone (\<lambda>r. wr_run_id r = run_id) (map (\<lambda>r. if wr_run_id r = run_id then f r else r) rs) =
      map_option f (fetchone (\<lambda>r. wr_run_id r = run_id) rs)" for rs
    using assms by (induction rs) auto
  then show ?thesis by (simp add: find_run_def update_run_def)
qed

lemma completed_state:
  assumes "complete_tx row st d c x s = (Inr run, s')"
  shows "wk_state run = st"
proof -
  from assms obtain now q where
    app: "appended (wr_run_id row) st [(''state'', JStr st), (''result_digest'', JStr d),
        (''exit_code'', case c of None \<Rightarrow> JNull | Some n \<Rightarrow> JInt n), (''exit_reason'', JStr x)]
      (update_run (wr_run_id row) (\<lambda>r. r\<lparr>wr_state := st, wr_completed_at := Some now, wr_result_digest := Some d, wr_exit_code := c,
        wr_exit_reason := Some x, wr_lease_owner := None, wr_lease_expires := None\<rparr>) (jn_db s)) (jn_db s')"
    and q: "find_run (wr_run_id row) (jn_db s') = Some q" "run = run_from_row q"
    using append_run_event_success by (force simp: complete_tx_def tx_success)
  show ?thesis using q unfolding appended_runs [OF app] by (subst (asm) find_run_update) (auto simp: run_from_row_def)
qed

lemma claimed_token:
  assumes "claim_tx row owner expires s = (Inr run, s')"
  shows "wk_run_id run = wr_run_id row \<and> wk_fencing_token run = wr_fencing_token row + 1 \<and>
    (\<exists>r'. find_run (wr_run_id row) (jn_db s') = Some r' \<and> wr_fencing_token r' = wr_fencing_token row + 1)"
  using assms
proof (rule claim_success)
  fix started
  assume app: "appended (wr_run_id row) ''running'' [(''state'', JStr ''running''), (''fencing_token'', JInt (wr_fencing_token row + 1))]
      (update_run (wr_run_id row) (\<lambda>r. r\<lparr>wr_state := ''running'', wr_started_at := Some started, wr_lease_owner := Some owner,
        wr_lease_expires := Some expires, wr_fencing_token := wr_fencing_token row + 1\<rparr>) (jn_db s)) (jn_db s')"
    and "\<exists>q. find_run (wr_run_id row) (jn_db s') = Some q \<and> run = run_from_row q"
  then obtain q where q: "find_run (wr_run_id row) (jn_db s') = Some q" "run = run_from_row q" by blast
  then show ?thesis
    using find_run_mem [OF q(1)] q unfolding appended_runs [OF app]
    by (subst (asm) find_run_update) (auto simp: run_from_row_def find_run_update)
qed

lemma acquired_token:
  assumes "acquire_run owner seconds s = (Inr (Some run), s')" "wk_state run = ''running''" "run_inv (jn_db s)"
  obtains r r' where "find_run (wk_run_id run) (jn_db s) = Some r" "find_run (wk_run_id run) (jn_db s') = Some r'"
    "wr_fencing_token r' = wr_fencing_token r + 1" "wk_fencing_token run = wr_fencing_token r'"
  using assms(1)
proof (cases rule: acquire_success)
  case (some row now run' t)
  then have "claim_tx row owner (now + seconds) t = (Inr run, s')"
    using completed_state assms(2) by fastforce
  note token = claimed_token [OF this]
  moreover have "find_run (wr_run_id row) (jn_db s) = Some row"
    using some(3) assms(3) by (simp add: find_run_def run_inv_def fetchone_key)
  ultimately show ?thesis using that by auto
qed simp

lemma keeps_uuid_acquire: "keeps_uuid (acquire_run owner seconds)"
  unfolding acquire_run_def by (intro keeps_uuid_intros keeps_uuid_events)

lemma stale_worker:
  assumes "run_inv (jn_db s)" "find_run run_id (jn_db s) = Some r" "wr_fencing_token r \<noteq> token"
  shows "complete_run run_id owner token st d c x s = (outcome, s') \<Longrightarrow> jn_db s' = jn_db s"
    and "renew_run_lease run_id owner token seconds s = (renewal, s'') \<Longrightarrow> jn_db s'' = jn_db s \<and> renewal \<noteq> Inr True"
proof -
  show "jn_db s' = jn_db s" if "complete_run run_id owner token st d c x s = (outcome, s')"
    using that assms(2,3) by (auto simp: complete_run_def tx_run check_run guarded_def split: if_splits)
  have none: "\<not> (wr_run_id q = run_id \<and> wr_state q = ''running'' \<and> wr_lease_owner q = Some owner \<and> wr_fencing_token q = token)"
    if "q \<in> set (db_workload_runs (jn_db s))" for q
    using run_row_unique [OF assms(1) that] find_run_mem [OF assms(2)] assms(3) by auto
  then have "filter (\<lambda>q. wr_run_id q = run_id \<and> wr_state q = ''running'' \<and> wr_lease_owner q = Some owner \<and> wr_fencing_token q = token)
      (db_workload_runs (jn_db s)) = []" by (simp add: filter_empty_conv)
  moreover have "map (\<lambda>q. if wr_run_id q = run_id \<and> wr_state q = ''running'' \<and> wr_lease_owner q = Some owner \<and> wr_fencing_token q = token
      then q\<lparr>wr_lease_expires := Some t\<rparr> else q) (db_workload_runs (jn_db s)) = db_workload_runs (jn_db s)" for t
    using none by (intro map_idI) auto
  ultimately show "jn_db s'' = jn_db s \<and> renewal \<noteq> Inr True" if "renew_run_lease run_id owner token seconds s = (renewal, s'')"
    using that by (auto simp: renew_run_lease_def tx_run check_run guarded_def Let_def split: if_splits option.splits)
qed

text \<open>
  C17. A superseded worker is fenced out: when a run was claimed by a worker and later claimed again,
  with any screened calls of the three stores in between, the second claim carries a greater fencing
  token, and from then on no call of the first worker can complete the run or renew its lease; the
  attempts leave the database as it is.
\<close>

theorem superseded_worker_fenced:
  assumes "jn_db s0 = empty_database" and "no_colons (jn_uuid s0)" and "later screened_ops s0 s"
    and "acquire_run owner seconds s = (Inr (Some first), s1)" and "wk_state first = ''running''" and "later screened_ops s1 s2"
    and "acquire_run owner' seconds' s2 = (Inr (Some second), s3)" and "wk_state second = ''running''"
    and "wk_run_id second = wk_run_id first" and "later screened_ops s3 s4"
    and "complete_run (wk_run_id first) owner (wk_fencing_token first) st d c x s4 = (outcome, s5)"
    and "renew_run_lease (wk_run_id first) owner (wk_fencing_token first) extra s4 = (renewal, s6)"
  shows "wk_fencing_token first < wk_fencing_token second \<and> jn_db s5 = jn_db s4 \<and> jn_db s6 = jn_db s4 \<and> renewal \<noteq> Inr True"
proof -
  have ev: "run_inv db' \<and> run_evolves db db'" if "run_inv db" "run_evolves db db'" for db db'
    using that by (simp add: run_evolves_def)
  note start = run_inv_later [OF assms(1-3)]
  have e1: "run_evolves (jn_db s) (jn_db s1)" by (rule framesD [OF acquire_evolves assms(4)])
  have u1: "jn_uuid s1 = jn_uuid s" using assms(4) keeps_uuid_acquire keeps_uuidD by blast
  have e2: "run_evolves (jn_db s1) (jn_db s2)" and u2: "jn_uuid s2 = jn_uuid s1"
    using run_machine_evolves [OF assms(6)] start u1 by simp_all
  have e3: "run_evolves (jn_db s2) (jn_db s3)" by (rule framesD [OF acquire_evolves assms(7)])
  have u3: "jn_uuid s3 = jn_uuid s2" using assms(7) keeps_uuid_acquire keeps_uuidD by blast
  have e4: "run_evolves (jn_db s3) (jn_db s4)" using run_machine_evolves [OF assms(10)] start u1 u2 u3 by simp
  have i1: "run_inv (jn_db s1)" and i2: "run_inv (jn_db s2)" and i3: "run_inv (jn_db s3)"
    using start ev e1 e2 e3 by blast+
  obtain r1 where r1: "find_run (wk_run_id first) (jn_db s1) = Some r1" "wk_fencing_token first = wr_fencing_token r1"
    using acquired_token [OF assms(4,5) start(1)] by metis
  obtain r2 where r2: "find_run (wk_run_id first) (jn_db s2) = Some r2" "wr_fencing_token r1 \<le> wr_fencing_token r2"
    using token_grows [OF e2 i1 r1(1)] .
  obtain r3 where r3: "find_run (wk_run_id first) (jn_db s3) = Some r3" "wr_fencing_token r3 = wr_fencing_token r2 + 1"
    "wk_fencing_token second = wr_fencing_token r3"
    using acquired_token [OF assms(7,8) i2] r2(1) assms(9) by (metis option.inject)
  obtain r4 where r4: "find_run (wk_run_id first) (jn_db s4) = Some r4" "wr_fencing_token r3 \<le> wr_fencing_token r4"
    using token_grows [OF e4 i3 r3(1)] .
  have stale: "wr_fencing_token r4 \<noteq> wk_fencing_token first" using r1 r2 r3 r4 by simp
  then show ?thesis
    using stale_worker [OF _ r4(1) stale] ev [OF i3 e4] assms(11,12) r1 r2 r3 by simp
qed

lemma cancelled_again: "wr_cancellation_requested_at row \<noteq> None \<Longrightarrow> request_cancel_tx row actor s = (Inr (), s)"
  by (simp add: request_cancel_tx_def tx_return_def)

lemma inserted_runs: "insert_run r db = Inr db' \<Longrightarrow> db_workload_runs db' = db_workload_runs db @ [r]"
  by (auto simp: insert_run_def)

text \<open>
  C39. Where the policy \<^verbatim>\<open>replace\<close> stops short: only the oldest active run of a workload is asked to
  stop. When that run was asked before and is still active, a new run is accepted beside every other
  active run of the workload, none of which is asked to stop.
\<close>

theorem replace_leaves_others:
  assumes "accept_run actor h p e ri rd wn wk tk key ''replace'' s = (Inr run, s')"
    and "\<forall>r \<in> set (db_workload_runs (jn_db s)). \<not> (wr_actor_id r = ac_actor_id actor \<and> wr_key_digest r = digest_text key)"
    and "oldest_active h p e wn (jn_db s) = Some oldest" and "wr_cancellation_requested_at oldest \<noteq> None"
  shows "\<exists>new. db_workload_runs (jn_db s') = db_workload_runs (jn_db s) @ [new] \<and> active_run new \<and>
    wr_host_id new = h \<and> wr_app new = p \<and> wr_environment new = e \<and> wr_workload_name new = wn"
  using assms(1)
proof (cases rule: accept_run_success)
  case (existing row)
  then show ?thesis using assms(2) by auto
next
  case (new now t)
  from new(4) show ?thesis
  proof (rule accept_new_statements)
    fix u :: journal and db
    let ?new = "new_run_row (''run_'' @ jn_uuid u (jn_ids u)) (ac_actor_id actor) (digest_text key) h p e ri rd wn wk tk
       (canonical_digest (of_json (run_request (ac_actor_id actor) h p e ri rd wn wk tk)))
       (canonical_json (of_json (run_request (ac_actor_id actor) h p e ri rd wn wk tk))) now"
    assume "(case oldest_active h p e wn (jn_db t) of
        Some row \<Rightarrow> if ''replace'' = ''replace'' then request_cancel_tx row actor else tx_return () | None \<Rightarrow> tx_return ()) t = (Inr (), u)"
      and ins: "insert_run ?new (jn_db u) = Inr db"
      and app: "append_run_event (''run_'' @ jn_uuid u (jn_ids u)) ''accepted'' [(''state'', JStr ''accepted''), (''actor_id'', JStr (ac_actor_id actor))]
       (u\<lparr>jn_ids := Suc (jn_ids u), jn_db := db\<rparr>) = (Inr (), s')"
    then have "u = t" using assms(3,4) new(2) by (simp add: cancelled_again)
    then have "db_workload_runs db = db_workload_runs (jn_db s) @ [?new]" using inserted_runs [OF ins] new(2) by simp
    moreover have "db_workload_runs (jn_db s') = db_workload_runs db"
      using append_run_event_success [OF app] by (auto simp: appended_def add_run_event_def)
    ultimately show ?thesis by (simp add: active_run_def new_run_row_def)
  qed
qed

end
