(* ===== verification/Host_Events.thy ===== *)
theory Host_Events
  imports Run_Properties
begin

text \<open>
  The host event stream and its pages (\<^verbatim>\<open>host_events_after\<close> of \<^verbatim>\<open>src/ophelia/execution/operation_store.py\<close>):
  the stream carries the events of operations and of workload runs, and consumers read it page by
  page from a cursor. The identifiers of the operations on a page are visited in the order of their
  first row, where Python visits a set.
\<close>

section \<open>Pages\<close>

record host_event =
  hv_cursor :: int
  hv_event_id :: string
  hv_event_type :: string
  hv_operation_id :: "string option"
  hv_workload_run_id :: "string option"
  hv_event_digest :: string
  hv_occurred_at :: string
  hv_payload :: json

definition host_rows_after :: "int \<Rightarrow> int \<Rightarrow> database \<Rightarrow> host_event_row list" where
  "host_rows_after cursor limit db =
     take (nat limit) (sort_key he_cursor (filter (\<lambda>r. cursor < he_cursor r) (db_host_events db)))"

definition workload_event_reconciles :: "database \<Rightarrow> host_event_row \<Rightarrow> bool" where
  "workload_event_reconciles db row \<longleftrightarrow>
     (case fetchone (\<lambda>w. we_event_id w = he_event_id row) (db_workload_run_events db) of
        None \<Rightarrow> False
      | Some w \<Rightarrow> Some (we_run_id w) = he_workload_run_id row \<and> we_event_digest w = he_event_digest row \<and>
          we_payload_json w = he_payload_json row)"

definition read_host_event :: "database \<Rightarrow> host_event_row \<Rightarrow> host_event res" where
  "read_host_event db row =
     (if he_event_type row = ''workload'' \<and> \<not> workload_event_reconciles db row
      then Inl (IntegrityError ''Host workload event does not reconcile.'')
      else
        (case loads (he_payload_json row) of
           Inl e \<Rightarrow> Inl (IntegrityError ''Host event payload is malformed.'')
         | Inr payload \<Rightarrow>
             if canonical_json (of_json payload) \<noteq> he_payload_json row \<or> canonical_digest (of_json payload) \<noteq> he_event_digest row
             then Inl (IntegrityError ''Host event payload failed digest validation.'')
             else Inr \<lparr>hv_cursor = he_cursor row, hv_event_id = he_event_id row, hv_event_type = he_event_type row,
               hv_operation_id = he_operation_id row, hv_workload_run_id = he_workload_run_id row,
               hv_event_digest = he_event_digest row, hv_occurred_at = he_occurred_at row, hv_payload = payload\<rparr>))"

definition host_events_after :: "int \<Rightarrow> int \<Rightarrow> host_event list tx" where
  "host_events_after cursor limit =
     tx_bind (tx_check (first_error
       [raise_unless (0 \<le> cursor) (ContractValidationError ''cursor must be a non-negative integer.''),
        raise_unless (1 \<le> limit \<and> limit \<le> 1000) (ContractValidationError ''limit must be an integer from 1 through 1000.'')])) (\<lambda>_.
     tx_read (\<lambda>db.
       let rows = host_rows_after cursor limit db in
       bind_res (map_res (verified_events db) (remdups (List.map_filter he_operation_id rows))) (\<lambda>_.
       map_res (read_host_event db) rows)))"

section \<open>The stream only grows\<close>

definition stream_inv :: "database \<Rightarrow> bool" where
  "stream_inv db \<longleftrightarrow> map he_cursor (db_host_events db) = map (\<lambda>i. int i + 1) [0..<length (db_host_events db)] \<and>
     db_sequence db = int (length (db_host_events db))"

definition stream_grows :: "database \<Rightarrow> database \<Rightarrow> bool" where
  "stream_grows db db' \<longleftrightarrow>
     (\<exists>added. db_host_events db' = db_host_events db @ added) \<and> (stream_inv db \<longrightarrow> stream_inv db')"

interpretation hs: db_frame stream_grows
  by unfold_locales (auto simp: stream_grows_def)

lemma stream_same [intro]:
  "db_host_events db' = db_host_events db \<Longrightarrow> db_sequence db' = db_sequence db \<Longrightarrow> stream_grows db db'"
  by (simp add: stream_grows_def stream_inv_def)

lemma stream_snoc:
  assumes "db_host_events db' = db_host_events db @ [h]" "he_cursor h = db_sequence db + 1" "db_sequence db' = db_sequence db + 1"
  shows "stream_grows db db'"
  using assms by (auto simp: stream_grows_def stream_inv_def)

lemma add_event_stream: "stream_grows db (add_event e p db)"
  by (rule stream_snoc [where h = "host_row_of e p (db_sequence db + 1)"]) (simp_all add: add_event_def set_operation_state_def host_row_of_def)

lemma journal_stream: "frames stream_grows (run_call c)"
proof (cases c)
  case (Accept actor request a inp)
  have "stream_grows (jn_db s) (jn_db s')" if "accept actor request a inp s = (Inr ref, s')" for s ref s'
    using that by (cases rule: accept_success) (auto simp: accepted_db_def)
  then show ?thesis unfolding Accept by (auto simp: frames_def tx_success)
qed (auto simp: call_defs Let_def statement_defs intro!: hs.intros hs.append_event hs.phase_events add_event_stream stream_same)

lemma agent_statements_stream:
  "frames stream_grows (tx_update (insert_agent a))" "frames stream_grows (tx_update (update_agent h f))"
  "frames stream_grows (tx_update (update_command i g))" "frames stream_grows (tx_execute (insert_command r))"
  by (auto simp: insert_agent_def update_agent_def update_command_def insert_command_def intro!: hs.update hs.execute stream_same)

lemma agent_stream: "moves stream_grows (run_agent_call c)"
  by (cases c) (auto simp: agent_defs Let_def intro!: hs.settled agent_statements_stream)

lemma daemon_statements_stream:
  "frames stream_grows (tx_update (update_host h f))" "frames stream_grows (tx_update (update_run i g))"
  "frames stream_grows (tx_update (insert_plan_request q))" "frames stream_grows (tx_update (prune_observations h n))"
  "frames stream_grows (tx_execute (insert_run r))" "frames stream_grows (tx_execute (insert_run_event e))"
  "frames stream_grows (tx_execute (insert_observation ob))"
  "frames stream_grows (tx_execute (upsert_host hr))" "frames stream_grows (tx_update (\<lambda>db. db\<lparr>db_workload_runs := k db\<rparr>))"
  by (auto simp: daemon_statement_defs split: if_splits intro!: hs.update hs.execute stream_same)

lemma insert_host_event_stream: "frames stream_grows (tx_execute (insert_host_event h))"
  by (auto simp: insert_host_event_def intro!: hs.execute stream_snoc)

lemma daemon_stream: "moves stream_grows (run_daemon_call c)"
  by (cases c) (auto simp: daemon_defs Let_def intro!: hs.settled daemon_statements_stream insert_host_event_stream)

lemma journal_moves_stream: "moves stream_grows (run_call c)"
  by (intro hs.moves_atomic atomic_run_call journal_stream)

lemma store_stream: "m \<in> store_ops \<Longrightarrow> moves stream_grows m"
  using agent_stream daemon_stream journal_moves_stream by (auto simp: store_ops_def journal_ops_def agent_ops_def daemon_ops_def)

lemma later_stream: "later store_ops s s' \<Longrightarrow> stream_grows (jn_db s) (jn_db s')"
  by (rule hs.moves_later [OF store_stream])

lemma stream_reached: "jn_db s0 = empty_database \<Longrightarrow> later store_ops s0 s \<Longrightarrow> stream_inv (jn_db s)"
  using later_stream [of s0 s] by (simp add: stream_grows_def stream_inv_def empty_database_def)

section \<open>Pages of the stream\<close>

lemma stream_cursors: "stream_inv db \<Longrightarrow> i < length (db_host_events db) \<Longrightarrow> he_cursor (db_host_events db ! i) = int i + 1"
  unfolding stream_inv_def by (metis (no_types, lifting) add_0 length_map length_upt minus_nat.diff_0 nth_map nth_upt)

lemma filter_suffix:
  assumes "\<And>i. i < length xs \<Longrightarrow> P (xs ! i) \<longleftrightarrow> k \<le> i"
  shows "filter P xs = drop k xs"
proof -
  have "filter P (take k xs) = []" using assms by (auto simp: filter_empty_conv in_set_conv_nth)
  moreover have "filter P (drop k xs) = drop k xs" using assms by (auto simp: filter_id_conv in_set_conv_nth)
  ultimately show ?thesis by (metis append_Nil append_take_drop_id filter_append)
qed

lemma rows_after:
  assumes "stream_inv db" "0 \<le> c"
  shows "host_rows_after c n db = take (nat n) (drop (nat c) (db_host_events db))"
proof -
  let ?rows = "db_host_events db"
  have "filter (\<lambda>r. c < he_cursor r) ?rows = drop (nat c) ?rows"
    using stream_cursors [OF assms(1)] assms(2) by (intro filter_suffix) auto
  moreover have "sorted (map he_cursor ?rows)"
    using assms(1) unfolding stream_inv_def by (auto simp: sorted_iff_nth_mono)
  then have "sorted (map he_cursor (drop (nat c) ?rows))" by (simp add: drop_map [symmetric] sorted_wrt_drop)
  ultimately show ?thesis by (simp add: host_rows_after_def sort_key_id_if_sorted)
qed

definition host_event_of :: "host_event_row \<Rightarrow> host_event" where
  "host_event_of row = \<lparr>hv_cursor = he_cursor row, hv_event_id = he_event_id row, hv_event_type = he_event_type row,
     hv_operation_id = he_operation_id row, hv_workload_run_id = he_workload_run_id row, hv_event_digest = he_event_digest row,
     hv_occurred_at = he_occurred_at row, hv_payload = projr (loads (he_payload_json row))\<rparr>"

lemma read_event_of: "read_host_event db row = Inr e \<Longrightarrow> e = host_event_of row"
  by (auto simp: read_host_event_def host_event_of_def split: if_splits sum.splits)

lemma page_of:
  assumes "stream_inv (jn_db s)" "host_events_after c n s = (Inr p, t)"
  shows "0 \<le> c" "1 \<le> n" "p = map host_event_of (take (nat n) (drop (nat c) (db_host_events (jn_db s))))"
proof -
  from assms(2) show c: "0 \<le> c" "1 \<le> n" by (auto simp: host_events_after_def tx_success)
  from assms(2) have "list_all2 (\<lambda>r e. read_host_event (jn_db s) r = Inr e) (host_rows_after c n (jn_db s)) p"
    by (auto simp: host_events_after_def tx_success bind_res_Inr map_res_Inr_iff Let_def)
  then have "list_all2 (\<lambda>r e. e = host_event_of r) (host_rows_after c n (jn_db s)) p"
    by (rule list_all2_mono) (rule read_event_of)
  then show "p = map host_event_of (take (nat n) (drop (nat c) (db_host_events (jn_db s))))"
    unfolding rows_after [OF assms(1) c(1)] by (induction rule: list_all2_induct) simp_all
qed

lemma page_cursors:
  assumes "stream_inv db"
  shows "map hv_cursor (map host_event_of (take k (drop c (db_host_events db)))) =
    [int c + 1..int c + int (length (take k (drop c (db_host_events db))))]"
  using stream_cursors [OF assms] by (intro nth_equalityI) (auto simp: host_event_of_def)

lemma take_upto_int: "k \<le> n \<Longrightarrow> take k [c + 1..c + int n] = [c + 1..c + int k]"
  by (intro nth_equalityI) auto

lemma take_length_take: "take (length (take k ys)) ys = take k ys"
  by (simp add: min_def)

lemma slices:
  assumes p_def: "p = take n (drop c xs)" and q_def: "q = take m (drop (c + length p) (xs @ added))"
  shows "p @ q = take (length (p @ q)) (take (n + m) (drop c (xs @ added)))"
proof -
  let ?ys = "drop c (xs @ added)"
  have p: "take (length p) ?ys = p" by (simp add: p_def min_def)
  have q: "q = take m (drop (length p) ?ys)" unfolding drop_drop by (simp add: q_def add.commute del: drop_append)
  have pq: "p @ q = take (length p + m) ?ys" unfolding take_add p q ..
  have "length p \<le> n" "length q \<le> m" by (simp add: p_def) (simp add: q_def del: drop_append)
  then have "take (length (p @ q)) (take (n + m) ?ys) = take (length (p @ q)) ?ys" by (simp add: min_def del: drop_append)
  also have "\<dots> = p @ q" unfolding pq by (rule take_length_take)
  finally show ?thesis by (rule sym)
qed

lemma page_and_continuation:
  assumes "stream_inv (jn_db s)" and "stream_inv (jn_db s')" and "stream_grows (jn_db s) (jn_db s')"
    and "host_events_after c n s = (Inr p, t)" and "host_events_after (c + int (length p)) m s' = (Inr q, t')"
    and "host_events_after c (n + m) s' = (Inr r, t'')"
  shows "p @ q = take (length (p @ q)) r \<and> map hv_cursor (p @ q) = [c + 1..c + int (length (p @ q))]"
proof -
  note inv = assms(1,2)
  obtain added where grown: "db_host_events (jn_db s') = db_host_events (jn_db s) @ added"
    using assms(3) by (auto simp: stream_grows_def)
  let ?xs = "db_host_events (jn_db s)" and ?k = "nat c"
  let ?p = "take (nat n) (drop ?k ?xs)"
  let ?q = "take (nat m) (drop (?k + length ?p) (?xs @ added))"
  note p = page_of [OF inv(1) assms(4)] and q = page_of [OF inv(2) assms(5)] and r = page_of [OF inv(2) assms(6)]
  have "nat (c + int (length p)) = ?k + length ?p" using p by (simp add: nat_add_distrib)
  then have q': "q = map host_event_of ?q" using q(3) by (simp only: grown)
  have r': "r = map host_event_of (take (nat n + nat m) (drop ?k (?xs @ added)))"
    using r(3) p(2) q(2) by (simp only: grown) (simp add: nat_add_distrib)
  have "p @ q = map host_event_of (?p @ ?q)" by (simp only: p(3) q' map_append)
  also have "\<dots> = map host_event_of (take (length (?p @ ?q)) (take (nat n + nat m) (drop ?k (?xs @ added))))"
    by (rule arg_cong [OF slices [OF refl refl]])
  also have "\<dots> = take (length (p @ q)) r" by (simp only: p(3) q' r' take_map length_map length_append)
  finally have split: "p @ q = take (length (p @ q)) r" .
  have "map hv_cursor r = [c + 1..c + int (length r)]"
    using page_cursors [OF inv(2), of "nat (n + m)" ?k] p(1) unfolding r(3) by simp
  moreover have "length (p @ q) \<le> length r" using arg_cong [OF split, of length] by simp
  ultimately have "map hv_cursor (take (length (p @ q)) r) = [c + 1..c + int (length (p @ q))]"
    by (simp only: take_map [symmetric] take_upto_int)
  with split show ?thesis by metis
qed

end
