(* ===== verification/Store_Histories.thy ===== *)
theory Store_Histories
  imports Host_Events Sample_Runs
begin

text \<open>
  The histories of operations when all three stores work on the shared database. The agent store and
  the daemon store leave the tables of operations alone, so that what the journal keeps of every
  history holds over every interleaving of the calls of the three stores.
\<close>

section \<open>Separation\<close>

interpretation sh: db_frame same_histories
  by unfold_locales (simp_all add: same_histories_def)

lemma agent_statements_histories:
  "frames same_histories (tx_update (insert_agent a))" "frames same_histories (tx_update (update_agent h f))"
  "frames same_histories (tx_update (update_command i g))" "frames same_histories (tx_execute (insert_command r))"
  by (auto simp: same_histories_def insert_agent_def update_agent_def update_command_def insert_command_def intro!: sh.update sh.execute)

lemma agent_same_histories: "moves same_histories (run_agent_call c)"
  by (cases c) (auto simp: agent_defs Let_def intro!: sh.settled agent_statements_histories)

lemma daemon_statements_histories:
  "frames same_histories (tx_update (update_host h f))" "frames same_histories (tx_update (update_run i g))"
  "frames same_histories (tx_update (insert_plan_request q))" "frames same_histories (tx_update (prune_observations h n))"
  "frames same_histories (tx_execute (insert_run r))" "frames same_histories (tx_execute (insert_run_event e))"
  "frames same_histories (tx_execute (insert_host_event he))" "frames same_histories (tx_execute (insert_observation ob))"
  "frames same_histories (tx_execute (upsert_host hr))" "frames same_histories (tx_update (\<lambda>db. db\<lparr>db_workload_runs := k db\<rparr>))"
  by (auto simp: same_histories_def daemon_statement_defs split: if_splits intro!: sh.update sh.execute)

lemma daemon_same_histories: "moves same_histories (run_daemon_call c)"
  by (cases c) (auto simp: daemon_defs Let_def intro!: sh.settled daemon_statements_histories)

section \<open>Evolution\<close>

lemmas history_moves = db_frame.moves_atomic [OF hist.db_frame_axioms] db_frame.moves_later [OF hist.db_frame_axioms]

lemma journal_moves_histories: "call_ok c \<Longrightarrow> moves evolves (run_call c)"
  by (intro history_moves(1) atomic_run_call calls_evolve)

lemma store_evolves_histories:
  assumes "m \<in> store_ops"
  shows "moves evolves m"
proof -
  have "moves evolves n" if "moves same_histories n" for n :: "unit tx"
    using that by (rule moves_weaken) (rule evolves_same_histories)
  then show ?thesis
    using assms agent_same_histories daemon_same_histories journal_moves_histories
    by (auto simp: store_ops_def journal_ops_def agent_ops_def daemon_ops_def)
qed

lemma later_evolves: "later store_ops s s' \<Longrightarrow> evolves (jn_db s) (jn_db s')"
  by (rule history_moves(2) [OF store_evolves_histories])

lemma history_inv_later:
  assumes "jn_db s0 = empty_database" "later store_ops s0 s"
  shows "history_inv (jn_db s)"
proof -
  have "history_inv empty_database" using histories.empty .
  then show ?thesis using later_evolves [OF assms(2)] assms(1) by (simp add: evolves_def)
qed

section \<open>Properties\<close>

text \<open>
  C1. Every history verifies: whatever calls of the journal, the agent store and the daemon store were
  made, in whatever order and however many of them failed, reading the events of an accepted
  operation succeeds and gives a chain numbered from one without gaps, each event naming the digest
  of the one before it, all of them of this operation, and the state of the operation is the state
  of the last event.
\<close>

theorem reachable_history_verifies:
  assumes "jn_db s0 = empty_database" and "later store_ops s0 s" and "find_operation oid (jn_db s) = Some o'"
  shows "\<exists>es. events oid s = (Inr es, s) \<and> linked 1 None es \<and> (\<forall>e \<in> set es. ev_operation_id e = oid) \<and>
    op_state o' = os_value (if es = [] then OS_ACCEPTED else ev_state (last es))"
  by (rule history_inv_verifies [OF history_inv_later [OF assms(1,2)] assms(3)])

text \<open>
  C2. An operation is in a terminal state exactly when a receipt is stored for it: no crash between the
  terminal event and the receipt, and no sequence of calls of the three stores, leaves one without
  the other.
\<close>

theorem terminal_iff_receipt:
  assumes "jn_db s0 = empty_database" and "later store_ops s0 s" and "find_operation oid (jn_db s) = Some o'"
  shows "(\<exists>st. op_state o' = os_value st \<and> terminal st) \<longleftrightarrow> find_receipt oid (jn_db s) \<noteq> None"
  by (rule history_inv_receipt [OF history_inv_later [OF assms(1,2)] assms(3)])

text \<open>
  C3. Histories are append-only and a receipt is final: whatever calls of the three stores follow, the
  events read for an operation later extend the events read before, and once the operation has a
  receipt neither its events nor its receipt ever change.
\<close>

theorem histories_only_grow:
  assumes "jn_db s0 = empty_database" and "later store_ops s0 s" and "events oid s = (Inr es, s)" and "later store_ops s s'"
  shows "\<exists>added. events oid s' = (Inr (es @ added), s') \<and>
    (find_receipt oid (jn_db s) \<noteq> None \<longrightarrow> added = [] \<and> receipt oid s' = (fst (receipt oid s), s'))"
  by (rule evolves_events [OF history_inv_later [OF assms(1,2)] later_evolves [OF assms(4)] assms(3)])

section \<open>The properties at a concrete journal\<close>

lemma accepted_journal_later: "later store_ops sample_journal accepted_journal"
proof (rule later_step [OF _ _ later_refl])
  show "run_call (Accept sample_actor sample_request sample_approval (Some sample_input)) \<in> store_ops"
    unfolding store_ops_def journal_ops_def using sample_actor_ok sample_request_ok sample_approval_ok sample_input_ok
    by (intro UnI1 CollectI exI conjI) (rule refl, simp)
  show "run_call (Accept sample_actor sample_request sample_approval (Some sample_input)) sample_journal = (Inr (), accepted_journal)"
    by (simp add: tx_success sample_accepts)
qed

lemma sample_journal_empty: "jn_db sample_journal = empty_database"
  by (simp add: sample_journal_def)

theorem reachable_history_verifies_witness:
  "find_operation ''operation_a'' (jn_db accepted_journal) = Some accepted_row \<and>
   (\<exists>es. events ''operation_a'' accepted_journal = (Inr es, accepted_journal) \<and> linked 1 None es)"
  using accepted_journal_row
    reachable_history_verifies [OF sample_journal_empty accepted_journal_later accepted_journal_row] by blast

theorem terminal_iff_receipt_witness:
  "find_operation ''operation_a'' (jn_db accepted_journal) = Some accepted_row \<and>
   \<not> (\<exists>st. op_state accepted_row = os_value st \<and> terminal st)"
proof -
  have "find_receipt ''operation_a'' (jn_db accepted_journal) = None"
    by (simp add: find_receipt_def accepted_journal_def accepted_db_def empty_database_def)
  then show ?thesis
    using accepted_journal_row terminal_iff_receipt [OF sample_journal_empty accepted_journal_later accepted_journal_row] by simp
qed

theorem histories_only_grow_witness:
  "events ''operation_a'' accepted_journal = (Inr [], accepted_journal) \<and>
   (\<exists>added. events ''operation_a'' accepted_journal = (Inr ([] @ added), accepted_journal))"
  using accepted_journal_events
    histories_only_grow [OF sample_journal_empty accepted_journal_later accepted_journal_events later_refl] by blast

end
