(* ===== verification/Host_Delivery.thy ===== *)
theory Host_Delivery
  imports Store_Histories
begin

text \<open>
  Every page of the host event stream can be read: the stream mirrors the events of operations and of
  runs, whose payloads verify, so that no call of the three stores ever makes a page unreadable.
\<close>

section \<open>The stream mirrors the events of operations\<close>

definition op_stream :: "database \<Rightarrow> host_event_row list" where
  "op_stream db = filter (\<lambda>h. he_event_type h = ''operation'') (db_host_events db)"

definition ops_mirrored :: "database \<Rightarrow> bool" where
  "ops_mirrored db \<longleftrightarrow>
     map (\<lambda>h. (he_operation_id h, he_event_digest h, he_payload_json h)) (op_stream db) =
     map (\<lambda>e. (Some (oe_operation_id e), oe_event_digest e, oe_payload_json e)) (db_operation_events db) \<and>
     list_all known_host_event (db_host_events db)"

definition keeps_mirror :: "database \<Rightarrow> database \<Rightarrow> bool" where
  "keeps_mirror db db' \<longleftrightarrow> (ops_mirrored db \<longrightarrow> ops_mirrored db')"

interpretation om: db_frame keeps_mirror
  by unfold_locales (simp_all add: keeps_mirror_def)

lemma mirror_same [intro]:
  "db_host_events db' = db_host_events db \<Longrightarrow> db_operation_events db' = db_operation_events db \<Longrightarrow> keeps_mirror db db'"
  by (simp add: keeps_mirror_def ops_mirrored_def op_stream_def)

lemma add_event_mirror: "keeps_mirror db (add_event e p db)"
  by (simp add: keeps_mirror_def ops_mirrored_def op_stream_def add_event_def set_operation_state_def host_row_of_def event_row_of_def
      known_host_event_def)

lemma journal_mirror: "frames keeps_mirror (run_call c)"
proof (cases c)
  case (Accept actor request a inp)
  have "keeps_mirror (jn_db s) (jn_db s')" if "accept actor request a inp s = (Inr ref, s')" for s ref s'
    using that by (cases rule: accept_success) (auto simp: accepted_db_def)
  then show ?thesis unfolding Accept by (auto simp: frames_def tx_success)
qed (auto simp: call_defs Let_def statement_defs intro!: om.intros om.append_event om.phase_events add_event_mirror mirror_same)

lemma agent_statements_mirror:
  "frames keeps_mirror (tx_update (insert_agent a))" "frames keeps_mirror (tx_update (update_agent h f))"
  "frames keeps_mirror (tx_update (update_command i g))" "frames keeps_mirror (tx_execute (insert_command r))"
  by (auto simp: insert_agent_def update_agent_def update_command_def insert_command_def intro!: om.update om.execute mirror_same)

lemma agent_mirror: "moves keeps_mirror (run_agent_call c)"
  by (cases c) (auto simp: agent_defs Let_def intro!: om.settled agent_statements_mirror)

lemma daemon_statements_mirror:
  "frames keeps_mirror (tx_update (update_host h f))" "frames keeps_mirror (tx_update (update_run i g))"
  "frames keeps_mirror (tx_update (insert_plan_request q))" "frames keeps_mirror (tx_update (prune_observations h n))"
  "frames keeps_mirror (tx_execute (insert_run r))" "frames keeps_mirror (tx_execute (insert_run_event e))"
  "frames keeps_mirror (tx_execute (insert_observation ob))"
  "frames keeps_mirror (tx_execute (upsert_host hr))" "frames keeps_mirror (tx_update (\<lambda>db. db\<lparr>db_workload_runs := k db\<rparr>))"
  by (auto simp: daemon_statement_defs split: if_splits intro!: om.update om.execute mirror_same)

lemma workload_event_mirror:
  assumes "he_event_type h = ''workload''" "he_operation_id h = None" "he_workload_run_id h \<noteq> None"
  shows "frames keeps_mirror (tx_execute (insert_host_event h))"
  using assms by (auto simp: insert_host_event_def keeps_mirror_def ops_mirrored_def op_stream_def known_host_event_def intro!: om.execute)

lemma daemon_mirror: "moves keeps_mirror (run_daemon_call c)"
  by (cases c) (auto simp: daemon_defs Let_def intro!: om.settled daemon_statements_mirror workload_event_mirror)

lemma journal_moves_mirror: "moves keeps_mirror (run_call c)"
  by (intro om.moves_atomic atomic_run_call journal_mirror)

lemma mirror_later:
  assumes "jn_db s0 = empty_database" "later store_ops s0 s"
  shows "ops_mirrored (jn_db s)"
proof -
  have "moves keeps_mirror m" if "m \<in> store_ops" for m
    using that agent_mirror daemon_mirror journal_moves_mirror by (auto simp: store_ops_def journal_ops_def agent_ops_def daemon_ops_def)
  then have "keeps_mirror (jn_db s0) (jn_db s)" using om.moves_later assms(2) by blast
  moreover have "ops_mirrored empty_database" by (simp add: ops_mirrored_def op_stream_def empty_database_def)
  ultimately show ?thesis using assms(1) by (simp add: keeps_mirror_def)
qed

section \<open>Payloads of the stream\<close>

definition verifies :: "string \<Rightarrow> string \<Rightarrow> bool" where
  "verifies payload_json digest \<longleftrightarrow>
     (\<exists>p. loads payload_json = Inr p \<and> canonical_json (of_json p) = payload_json \<and> canonical_digest (of_json p) = digest)"

lemma contract_verifies:
  assumes "tame_val v"
  shows "verifies (canonical_json v) (canonical_digest v)"
proof -
  obtain kind fs where v: "v = VContract kind fs" and t: "tame kind fs" using assms by (rule tame_valE)
  have ok: "payload_ok (raw v)" using t by (simp add: v raw_contract payload_ok_def tame_def is_obj_def del: raw.simps)
  have "serialize v = scrub False None (raw v)"
    unfolding v raw_contract scrub_JObj scrub_members_def [symmetric] by (rule serialize_tame [OF t])
  then have rendered: "canonical_json v = canonical_json (of_json (raw v))" using serialize_payload [OF ok] by (simp add: canonical_json_def)
  then have "canonical_digest v = canonical_digest (of_json (raw v))" by (simp add: canonical_digest_def)
  with rendered show ?thesis
    unfolding verifies_def using loads_payload [OF ok] canonical_json_stored [OF ok] canonical_digest_stored [OF ok] by auto
qed

lemma chain_rows_verify:
  "verify_event_chain o' n prev rows = Inr es \<Longrightarrow> row \<in> set rows \<Longrightarrow> verifies (oe_payload_json row) (oe_event_digest row)"
proof (induction o' n prev rows arbitrary: es rule: verify_event_chain.induct)
  case (2 o' n prev r rows)
  then obtain e es' where e: "verify_event_row o' n prev r = Inr e"
    and rest: "verify_event_chain o' (n + 1) (Some (canonical_digest (operation_event_val e))) rows = Inr es'"
    by (auto simp: bind_res_Inr)
  show ?case
  proof (cases "row = r")
    case True
    have "oe_payload_json r = canonical_json (operation_event_val e)" "oe_event_digest r = canonical_digest (operation_event_val e)"
      using e by (auto simp: verify_event_row_def bind_res_Inr)
    then show ?thesis using True contract_verifies [OF event_tame_val] by simp
  next
    case False
    then show ?thesis using "2.IH" [OF rest] "2.prems"(2) by simp
  qed
qed simp

lemma operation_events_verify:
  assumes "history_inv db" "row \<in> set (db_operation_events db)"
  shows "verifies (oe_payload_json row) (oe_event_digest row)" "\<exists>es. verified_events db (oe_operation_id row) = Inr es"
proof -
  have "operation_exists (oe_operation_id row) db" using assms by (simp add: history_inv_def)
  then have "find_operation (oe_operation_id row) db \<noteq> None"
    by (auto simp: operation_exists_def find_operation_def fetchone_None list_ex_iff)
  then show v: "\<exists>es. verified_events db (oe_operation_id row) = Inr es" using assms(1) by (simp add: history_inv_def)
  then obtain es where "verified_events db (oe_operation_id row) = Inr es" by blast
  moreover have "row \<in> set (event_rows (oe_operation_id row) db)" using assms(2) by (simp add: event_rows_def)
  ultimately show "verifies (oe_payload_json row) (oe_event_digest row)" using chain_rows_verify by (elim verified_eventsE) blast
qed

lemma run_chain_verifies:
  "check_run_chain run_id n prev es = None \<Longrightarrow> e \<in> set es \<Longrightarrow> verifies (we_payload_json e) (we_event_digest e)"
  by (induction es arbitrary: n prev) (auto simp: check_run_chain_Cons event_ok_def event_matches_def verifies_def)

lemma run_events_verify:
  assumes "run_inv db" "e \<in> set (db_workload_run_events db)"
  shows "verifies (we_payload_json e) (we_event_digest e)"
proof -
  have "we_run_id e \<in> wr_run_id ` set (db_workload_runs db)" using assms by (simp add: run_inv_def)
  then obtain r where r: "r \<in> set (db_workload_runs db)" "wr_run_id r = we_run_id e" by auto
  then have "check_run_chain (we_run_id e) 1 None (events_of (we_run_id e) (db_workload_run_events db)) = None"
    using assms(1) unfolding run_inv_def run_ok_def by metis
  moreover have "e \<in> set (events_of (we_run_id e) (db_workload_run_events db))" using assms(2) by (simp add: events_of_def)
  ultimately show ?thesis by (rule run_chain_verifies)
qed

section \<open>Every page can be read\<close>

lemma workload_row_reads:
  assumes "run_inv db" "h \<in> set (workload_stream db)"
  shows "workload_event_reconciles db h" "verifies (he_payload_json h) (he_event_digest h)"
proof -
  obtain w where w: "fetchone (\<lambda>w. we_event_id w = he_event_id h) (db_workload_run_events db) = Some w" "mirrored h = mirror w"
    using mirrors_from_stream [of "workload_stream db" "db_workload_run_events db" h] assms by (auto simp: run_inv_def)
  then show "workload_event_reconciles db h" by (simp add: workload_event_reconciles_def mirrored_def mirror_def)
  show "verifies (he_payload_json h) (he_event_digest h)"
    using run_events_verify [OF assms(1)] fetchone_Some [OF w(1)] w(2) by (auto simp: mirrored_def mirror_def)
qed

lemma operation_row_reads:
  assumes "history_inv db" "ops_mirrored db" "h \<in> set (op_stream db)"
  obtains oid es where "he_operation_id h = Some oid" "verified_events db oid = Inr es" "verifies (he_payload_json h) (he_event_digest h)"
proof -
  let ?f = "\<lambda>h. (he_operation_id h, he_event_digest h, he_payload_json h)"
  let ?g = "\<lambda>e. (Some (oe_operation_id e), oe_event_digest e, oe_payload_json e)"
  have "map ?f (op_stream db) = map ?g (db_operation_events db)" using assms(2) by (simp add: ops_mirrored_def)
  moreover have "?f h \<in> set (map ?f (op_stream db))" using assms(3) by simp
  ultimately have "?f h \<in> ?g ` set (db_operation_events db)" by (simp only: list.set_map)
  then obtain e where "e \<in> set (db_operation_events db)" "he_operation_id h = Some (oe_operation_id e)"
    "he_event_digest h = oe_event_digest e" "he_payload_json h = oe_payload_json e" by auto
  then show ?thesis using that operation_events_verify [OF assms(1)] by metis
qed

lemma verified_row_reads:
  assumes "verifies (he_payload_json h) (he_event_digest h)" "he_event_type h = ''workload'' \<Longrightarrow> workload_event_reconciles db h"
  shows "\<exists>e. read_host_event db h = Inr e"
  using assms by (auto simp: read_host_event_def verifies_def)

lemma row_reads:
  assumes "run_inv db" "history_inv db" "ops_mirrored db" "h \<in> set (db_host_events db)"
  shows "\<exists>e. read_host_event db h = Inr e" "he_operation_id h = Some oid \<Longrightarrow> \<exists>es. verified_events db oid = Inr es"
proof -
  have known: "known_host_event h" using assms(3,4) by (simp add: ops_mirrored_def list_all_iff)
  consider "h \<in> set (workload_stream db)" "he_operation_id h = None" | "h \<in> set (op_stream db)" "he_event_type h \<noteq> ''workload''"
    using known assms(4) by (auto simp: known_host_event_def workload_stream_def op_stream_def)
  then show "\<exists>e. read_host_event db h = Inr e"
  proof cases
    case 1
    then show ?thesis using workload_row_reads [OF assms(1)] by (intro verified_row_reads)
  next
    case 2
    then show ?thesis using operation_row_reads [OF assms(2,3) 2(1)] by (intro verified_row_reads) auto
  qed
  show "\<exists>es. verified_events db oid = Inr es" if "he_operation_id h = Some oid"
    using known that assms(4) operation_row_reads [OF assms(2,3), of h] by (auto simp: known_host_event_def op_stream_def)
qed

lemma map_res_total: "(\<And>x. x \<in> set xs \<Longrightarrow> \<exists>y. f x = Inr y) \<Longrightarrow> \<exists>ys. map_res f xs = Inr ys"
proof -
  assume "\<And>x. x \<in> set xs \<Longrightarrow> \<exists>y. f x = Inr y"
  then have "list_all2 (\<lambda>x y. f x = Inr y) xs (map (\<lambda>x. projr (f x)) xs)" by (auto simp: list_all2_conv_all_nth) (metis nth_mem sum.sel(2))
  then show ?thesis unfolding map_res_Inr_iff by blast
qed

lemma page_reads:
  assumes "jn_db s0 = empty_database" "no_colons (jn_uuid s0)" "later screened_ops s0 s" "0 \<le> c" "1 \<le> n" "n \<le> 1000"
  obtains p where "host_events_after c n s = (Inr p, s)"
proof -
  let ?db = "jn_db s"
  note row = row_reads [OF run_inv_later(1) [OF assms(1-3)] history_inv_later [OF assms(1) screened_later [OF assms(3)]] mirror_later [OF assms(1) screened_later [OF assms(3)]]]
  have sub: "set (host_rows_after c n ?db) \<subseteq> set (db_host_events ?db)"
    unfolding host_rows_after_def by (auto dest: in_set_takeD)
  have "\<exists>ys. map_res (verified_events ?db) (remdups (List.map_filter he_operation_id (host_rows_after c n ?db))) = Inr ys"
    using sub row(2) by (intro map_res_total) (auto simp: List.map_filter_def)
  moreover have "\<exists>p. map_res (read_host_event ?db) (host_rows_after c n ?db) = Inr p"
    using sub row(1) by (intro map_res_total) blast
  ultimately show ?thesis using that assms(4-6) by (auto simp: host_events_after_def tx_run check_run Let_def)
qed

text \<open>
  C19. Consumers of the host event stream miss nothing and see nothing twice: every page can be read,
  and a consumer that reads a page and, after any screened calls of the three stores, continues behind it
  holds the events with the consecutive cursors that follow its starting cursor, exactly as one
  longer page read at the end shows them. A page is only short when the stream ends there.
\<close>

theorem host_pages_gapless:
  assumes "jn_db s0 = empty_database" and "no_colons (jn_uuid s0)" and "later screened_ops s0 s" and "later screened_ops s s'"
    and "0 \<le> c" and "1 \<le> n" and "1 \<le> m" and "n + m \<le> 1000"
  shows "\<exists>p q r. host_events_after c n s = (Inr p, s) \<and> host_events_after (c + int (length p)) m s' = (Inr q, s') \<and>
    host_events_after c (n + m) s' = (Inr r, s') \<and> p @ q = take (length (p @ q)) r \<and>
    map hv_cursor (p @ q) = [c + 1..c + int (length (p @ q))] \<and>
    length p = min (nat n) (length (db_host_events (jn_db s)) - nat c)"
proof -
  have s': "later screened_ops s0 s'" using assms(3,4) later_trans by blast
  obtain p where p: "host_events_after c n s = (Inr p, s)" using page_reads [OF assms(1-3,5,6)] assms(7,8) by auto
  obtain q where q: "host_events_after (c + int (length p)) m s' = (Inr q, s')"
    using page_reads [OF assms(1,2) s', of "c + int (length p)" m] assms(5-8) by auto
  obtain r where r: "host_events_after c (n + m) s' = (Inr r, s')"
    using page_reads [OF assms(1,2) s', of c "n + m"] assms(5-8) by auto
  note inv = stream_reached [OF assms(1) screened_later [OF assms(3)]] stream_reached [OF assms(1) screened_later [OF s']]
  have "length p = min (nat n) (length (db_host_events (jn_db s)) - nat c)"
    using page_of(3) [OF inv(1) p] by (simp add: min.commute)
  then show ?thesis using p q r page_and_continuation [OF inv later_stream [OF screened_later [OF assms(4)]] p q r] by blast
qed

end
