(* ===== verification/Run_Runs.thy ===== *)
theory Run_Runs
  imports Host_Delivery Agent_Runs
begin

text \<open>
  Workload runs on an empty database. In the first, a run is accepted, claimed twice (the first lease
  has run out by the time of the second claim) and completed by the second worker; in the second,
  three runs of one workload are accepted under the policy \<^verbatim>\<open>replace\<close>.
\<close>

section \<open>Payloads fit\<close>

lemma payload_length: "payload_ok p \<Longrightarrow> length (canonical_json (of_json p)) \<le> weight p"
  by (simp add: canonical_json_def serialize_payload length_scrub payload_ok_def)

lemma small_reprs: "length (int_repr 1) = 1" "length (int_repr 2) = 1" "length (int_repr 3) = 1" "length (int_repr 4) = 1" "length (int_repr 0) = 1"
  by code_simp+

lemma payload_fits: "payload_ok p \<Longrightarrow> weight p \<le> 65536 \<Longrightarrow> length (canonical_json (of_json p)) \<le> 65536"
  using payload_length order_trans by blast

section \<open>Journals with runs only\<close>

definition sample_time :: string where
  "sample_time = ''2026-01-01T00:00:00Z''"

lemma sample_time_nonempty: "sample_time \<noteq> []"
  by (simp add: sample_time_def)

definition sample_uuid :: "nat \<Rightarrow> string" where
  "sample_uuid n = replicate (Suc n) CHR ''a''"

definition run_db :: "workload_run_row list \<Rightarrow> run_event_row list \<Rightarrow> database" where
  "run_db rows es = foldl (\<lambda>db e. add_run_event e sample_time db) (empty_database\<lparr>db_workload_runs := rows\<rparr>) es"

definition run_journal :: "nat \<Rightarrow> nat \<Rightarrow> workload_run_row list \<Rightarrow> run_event_row list \<Rightarrow> journal" where
  "run_journal t i rows es = \<lparr>jn_db = run_db rows es, jn_clock = (\<lambda>_. Some 1767225600), jn_tick = t, jn_uuid = sample_uuid, jn_ids = i\<rparr>"

lemma run_db_snoc: "run_db rows (es @ [e]) = add_run_event e sample_time (run_db rows es)"
  by (simp add: run_db_def)

lemma run_db_runs [simp]: "db_workload_runs (run_db rows es) = rows"
  by (induction es rule: rev_induct) (simp_all add: run_db_snoc add_run_event_def, simp add: run_db_def)

lemma run_db_events [simp]: "db_workload_run_events (run_db rows es) = es"
  by (induction es rule: rev_induct) (simp_all add: run_db_snoc add_run_event_def, simp add: run_db_def empty_database_def)

lemma run_db_stream: "map he_event_id (db_host_events (run_db rows es)) = map we_event_id es"
  by (induction es rule: rev_induct) (simp_all add: run_db_snoc add_run_event_def, simp add: run_db_def empty_database_def)

lemma run_db_replace [simp]: "run_db rows es\<lparr>db_workload_runs := rows'\<rparr> = run_db rows' es"
proof (induction es rule: rev_induct)
  case (snoc e es)
  have "add_run_event e sample_time db\<lparr>db_workload_runs := rows'\<rparr> = add_run_event e sample_time (db\<lparr>db_workload_runs := rows'\<rparr>)" for db
    by (simp add: add_run_event_def)
  with snoc show ?case by (simp add: run_db_snoc)
qed (simp add: run_db_def)

lemma run_journal_fields [simp]:
  "jn_db (run_journal t i rows es) = run_db rows es" "jn_tick (run_journal t i rows es) = t" "jn_ids (run_journal t i rows es) = i"
  "jn_clock (run_journal t i rows es) = (\<lambda>_. Some 1767225600)" "jn_uuid (run_journal t i rows es) = sample_uuid"
  "(run_journal t i rows es)\<lparr>jn_tick := t'\<rparr> = run_journal t' i rows es" "(run_journal t i rows es)\<lparr>jn_ids := i'\<rparr> = run_journal t i' rows es"
  "(run_journal t i rows es)\<lparr>jn_db := run_db rows' es'\<rparr> = run_journal t i rows' es'"
  by (simp_all add: run_journal_def)

lemma sample_run_journal: "sample_journal = run_journal 0 0 [] []"
  by (simp add: sample_journal_def run_journal_def run_db_def empty_database_def sample_uuid_def fun_eq_iff)

lemma run_store_now [simp]: "store_now (run_journal t i rows es) = (Inr sample_time, run_journal (Suc t) i rows es)"
  by (simp add: sample_store_now sample_time_def)

text \<open>An event that fits and is new is appended.\<close>

definition sample_event :: "string \<Rightarrow> string \<Rightarrow> (string \<times> json) list \<Rightarrow> nat \<Rightarrow> workload_run_row list \<Rightarrow> run_event_row list \<Rightarrow> run_event_row" where
  "sample_event run_id ty detail i rows es = new_event run_id ty detail sample_time (sample_uuid i) (run_db rows es)"

lemma run_appends:
  assumes "detail_ok detail" "weight (run_event_payload run_id n ty sample_time (map_option we_event_digest (last_run_event run_id (run_db rows es))) detail) \<le> 65536"
    "n = (case last_run_event run_id (run_db rows es) of None \<Rightarrow> 1 | Some e \<Rightarrow> we_sequence e + 1)" "0 < n"
    "\<forall>e \<in> set es. we_event_id e \<noteq> ''event_'' @ sample_uuid i \<and> (we_run_id e = run_id \<longrightarrow> we_sequence e \<noteq> n)"
    "run_id \<in> wr_run_id ` set rows"
  shows "append_run_event run_id ty detail (run_journal t i rows es) =
    (Inr (), run_journal (Suc t) (Suc i) rows (es @ [sample_event run_id ty detail i rows es]))"
proof -
  let ?db = "run_db rows es"
  define p where "p = run_event_payload run_id n ty sample_time (map_option we_event_digest (last_run_event run_id ?db)) detail"
  define e where "e = \<lparr>we_run_id = run_id, we_sequence = n, we_event_id = ''event_'' @ sample_uuid i,
    we_event_digest = canonical_digest (of_json p), we_payload_json = canonical_json (of_json p)\<rparr>"
  have new: "sample_event run_id ty detail i rows es = e"
    by (simp add: sample_event_def new_event_def Let_def e_def p_def assms(3))
  have fits: "length (canonical_json (of_json p)) \<le> 65536"
    unfolding p_def using payload_fits [OF run_event_payload_ok [OF assms(1)] assms(2)] .
  have run: "insert_run_event e ?db = Inr (?db\<lparr>db_workload_run_events := es @ [e]\<rparr>)"
    using assms(4,5,6) fits by (auto simp: insert_run_event_def e_def list_ex_iff check_run bounded_text_def guarded_def)
  have "\<forall>q \<in> set (db_host_events ?db). he_event_id q \<noteq> we_event_id e"
    using assms(5) arg_cong [OF run_db_stream [of rows es], where f = set] unfolding e_def by force
  then have host: "insert_host_event \<lparr>he_cursor = 0, he_event_id = ''event_'' @ sample_uuid i, he_event_type = ''workload'', he_operation_id = None,
      he_workload_run_id = Some run_id, he_event_digest = canonical_digest (of_json p), he_occurred_at = sample_time,
      he_payload_json = canonical_json (of_json p)\<rparr> (?db\<lparr>db_workload_run_events := es @ [e]\<rparr>) = Inr (run_db rows (es @ [e]))"
    using fits by (auto simp: insert_host_event_def list_ex_iff check_run bounded_text_def guarded_def run_db_snoc add_run_event_def e_def)
  show ?thesis
    unfolding new using run host fits
    by (simp add: append_run_event_def tx_run Let_def check_run assms(3) [symmetric] p_def [symmetric] e_def)
qed

section \<open>Accepting runs\<close>

definition sample_worker :: "string \<Rightarrow> actor" where
  "sample_worker a = \<lparr>ac_actor_id = a, ac_source = ''cli'', ac_authenticated_by = ''local''\<rparr>"

definition accept_sample :: "string \<Rightarrow> workload_run tx" where
  "accept_sample a = accept_run (sample_worker a) ''host_a'' ''app'' ''staging'' ''revision_a'' zero_digest ''job'' ''job'' ''manual'' ''key'' ''replace''"

definition sample_run :: "nat \<Rightarrow> string \<Rightarrow> workload_run_row" where
  "sample_run i a = new_run_row (''run_'' @ sample_uuid i) a (digest_text ''key'') ''host_a'' ''app'' ''staging'' ''revision_a'' zero_digest
     ''job'' ''job'' ''manual'' (canonical_digest (of_json (run_request a ''host_a'' ''app'' ''staging'' ''revision_a'' zero_digest ''job'' ''job'' ''manual'')))
     (canonical_json (of_json (run_request a ''host_a'' ''app'' ''staging'' ''revision_a'' zero_digest ''job'' ''job'' ''manual''))) sample_time"

definition accepted_detail :: "string \<Rightarrow> (string \<times> json) list" where
  "accepted_detail a = [(''state'', JStr ''accepted''), (''actor_id'', JStr a)]"

lemma request_fits:
  assumes "length a \<le> 100"
  shows "length (canonical_json (of_json (run_request a ''host_a'' ''app'' ''staging'' ''revision_a'' zero_digest ''job'' ''job'' ''manual''))) \<le> 65536"
  using assms by (intro payload_fits run_request_payload) (simp add: run_request_def one_repr digest_lengths)

lemma event_weight:
  assumes "length run_id \<le> 100" "length ty \<le> 100" "weight (JObj detail) \<le> 10000" "length (int_repr n) \<le> 100"
    "\<And>d. previous = Some d \<Longrightarrow> is_digest d"
  shows "weight (run_event_payload run_id n ty sample_time previous detail) \<le> 65536"
  using assms by (cases previous) (simp_all add: run_event_payload_def sample_time_def one_repr digest_length)

lemma sample_run_fields [simp]:
  "wr_run_id (sample_run i a) = ''run_'' @ sample_uuid i" "wr_actor_id (sample_run i a) = a" "wr_key_digest (sample_run i a) = digest_text ''key''"
  "wr_state (sample_run i a) = ''accepted''" "wr_accepted_at (sample_run i a) = sample_time" "wr_cancellation_requested_at (sample_run i a) = None"
  "wr_lease_owner (sample_run i a) = None" "wr_started_at (sample_run i a) = None" "wr_fencing_token (sample_run i a) = 0"
  by (simp_all add: sample_run_def new_run_row_def)

lemma no_previous: "\<forall>e \<in> set es. we_run_id e \<noteq> run_id \<Longrightarrow> last_run_event run_id (run_db rows es) = None"
proof -
  assume "\<forall>e \<in> set es. we_run_id e \<noteq> run_id"
  then have "filter (\<lambda>e. we_run_id e = run_id) es = []" by (simp add: filter_empty_conv)
  then show ?thesis by (simp add: last_run_event_def run_events_def)
qed

lemma accepted_appends:
  assumes "i \<le> 90" "length a \<le> 100" "\<forall>e \<in> set es. we_run_id e \<noteq> ''run_'' @ sample_uuid i \<and> we_event_id e \<noteq> ''event_'' @ sample_uuid (Suc i)"
    "''run_'' @ sample_uuid i \<in> wr_run_id ` set rows"
  shows "append_run_event (''run_'' @ sample_uuid i) ''accepted'' (accepted_detail a) (run_journal t (Suc i) rows es) =
    (Inr (), run_journal (Suc t) (Suc (Suc i)) rows (es @ [sample_event (''run_'' @ sample_uuid i) ''accepted'' (accepted_detail a) (Suc i) rows es]))"
proof (rule run_appends [where n = 1])
  have none: "last_run_event (''run_'' @ sample_uuid i) (run_db rows es) = None" using assms(3) by (intro no_previous) blast
  show "detail_ok (accepted_detail a)" by (simp add: accepted_detail_def event_details_ok)
  show "weight (run_event_payload (''run_'' @ sample_uuid i) 1 ''accepted'' sample_time
      (map_option we_event_digest (last_run_event (''run_'' @ sample_uuid i) (run_db rows es))) (accepted_detail a)) \<le> 65536"
    unfolding none using assms(1,2) by (intro event_weight) (simp_all add: accepted_detail_def one_repr sample_uuid_def)
  show "1 = (case last_run_event (''run_'' @ sample_uuid i) (run_db rows es) of None \<Rightarrow> 1 | Some e \<Rightarrow> we_sequence e + 1)"
    unfolding none by simp
qed (use assms(3,4) in auto)

lemma tx_bind_run: "m s = (Inr x, t) \<Longrightarrow> f x t = r \<Longrightarrow> tx_bind m f s = r"
  by (simp add: tx_bind_def)

lemma run_accepts:
  assumes cancel: "(case oldest_active ''host_a'' ''app'' ''staging'' ''job'' (run_db rows es) of
      Some row \<Rightarrow> request_cancel_tx row (sample_worker a) | None \<Rightarrow> tx_return ()) (run_journal (Suc t) j rows es) =
      (Inr (), run_journal t' i rows' es')"
    and fits: "i \<le> 90" "length a \<le> 100"
    and fresh: "\<forall>r \<in> set rows. wr_actor_id r \<noteq> a" "\<forall>r \<in> set rows'. wr_actor_id r \<noteq> a \<and> wr_run_id r \<noteq> ''run_'' @ sample_uuid i"
      "\<forall>e \<in> set es'. we_run_id e \<noteq> ''run_'' @ sample_uuid i \<and> we_event_id e \<noteq> ''event_'' @ sample_uuid (Suc i)"
  shows "accept_sample a (run_journal t j rows es) = (Inr (run_from_row (sample_run i a)), run_journal (Suc t') (Suc (Suc i)) (rows' @ [sample_run i a])
    (es' @ [sample_event (''run_'' @ sample_uuid i) ''accepted'' (accepted_detail a) (Suc i) (rows' @ [sample_run i a]) es']))"
proof -
  let ?request = "run_request a ''host_a'' ''app'' ''staging'' ''revision_a'' zero_digest ''job'' ''job'' ''manual''"
  have "\<not> (\<exists>r \<in> set rows. wr_actor_id r = a \<and> wr_key_digest r = digest_text ''key'')" using fresh(1) by auto
  then have key: "fetchone (\<lambda>r. wr_actor_id r = a \<and> wr_key_digest r = digest_text ''key'') rows = None"
    by (simp add: fetchone_None)
  have request: "bounded_json (of_json ?request) = Inr (canonical_json (of_json ?request))"
    using request_fits [OF fits(2)] by (simp add: MAX_CANONICAL_JSON_BYTES_def)
  have ins: "insert_run (sample_run i a) (run_db rows' es') = Inr (run_db (rows' @ [sample_run i a]) es')"
    using fresh(2) request_fits [OF fits(2)]
    by (auto simp: insert_run_def list_ex_iff check_run bounded_text_def guarded_def) (auto simp: sample_run_def new_run_row_def)
  have app: "append_run_event (''run_'' @ sample_uuid i) ''accepted'' (accepted_detail a) (run_journal t' (Suc i) (rows' @ [sample_run i a]) es') =
    (Inr (), run_journal (Suc t') (Suc (Suc i)) (rows' @ [sample_run i a])
      (es' @ [sample_event (''run_'' @ sample_uuid i) ''accepted'' (accepted_detail a) (Suc i) (rows' @ [sample_run i a]) es']))"
    using fits fresh(3) by (intro accepted_appends) auto
  have row: "find_run (''run_'' @ sample_uuid i) (run_db (rows' @ [sample_run i a]) es'') = Some (sample_run i a)" for es''
    using fresh(2) by (auto simp: find_run_def fetchone_append fetchone_None split: option.splits dest!: fetchone_Some)
  have worker: "ac_actor_id (sample_worker a) = a" by (simp add: sample_worker_def)
  have query: "tx_query f s = (Inr (f (jn_db s)), s)" for f :: "database \<Rightarrow> 'b" and s by (simp add: tx_run)
  have free: "tx_check (conflict (\<not> (x \<noteq> None \<and> ''replace'' = ''forbid'')) m) s = (Inr (), s)" for x :: "workload_run_row option" and m s
    by (simp add: tx_run check_run)
  have cancel': "(case oldest_active ''host_a'' ''app'' ''staging'' ''job'' (jn_db (run_journal (Suc t) j rows es)) of
      Some row \<Rightarrow> if ''replace'' = ''replace'' then request_cancel_tx row (sample_worker a) else tx_return () | None \<Rightarrow> tx_return ())
      (run_journal (Suc t) j rows es) = (Inr (), run_journal t' i rows' es')" using cancel by (simp split: option.splits)
  have uuid: "fresh_uuid (run_journal t' i rows' es') = (Inr (sample_uuid i), run_journal t' (Suc i) rows' es')" by (simp add: tx_run)
  have request': "tx_lift (bounded_json (of_json ?request)) s = (Inr (canonical_json (of_json ?request)), s)" for s
    by (simp only: tx_lift_def request sum.case)
  have ins': "tx_execute (insert_run (new_run_row (''run_'' @ sample_uuid i) a (digest_text ''key'') ''host_a'' ''app'' ''staging'' ''revision_a'' zero_digest
     ''job'' ''job'' ''manual'' (canonical_digest (of_json ?request)) (canonical_json (of_json ?request)) sample_time)) (run_journal t' (Suc i) rows' es') =
     (Inr (), run_journal t' (Suc i) (rows' @ [sample_run i a]) es')"
    using ins unfolding sample_run_def [symmetric] by (simp add: tx_run)
  have accepts: "accept_run_new (sample_worker a) ''host_a'' ''app'' ''staging'' ''revision_a'' zero_digest ''job'' ''job'' ''manual'' (digest_text ''key'')
      ''replace'' sample_time (run_journal (Suc t) j rows es) = (Inr (run_from_row (sample_run i a)), run_journal (Suc t') (Suc (Suc i)) (rows' @ [sample_run i a])
        (es' @ [sample_event (''run_'' @ sample_uuid i) ''accepted'' (accepted_detail a) (Suc i) (rows' @ [sample_run i a]) es']))"
    unfolding accept_run_new_def Let_def worker
    by ((rule tx_bind_run, rule query free cancel' uuid request' ins' app [unfolded accepted_detail_def])+)
       (use row in \<open>simp add: reread_run_def tx_run accepted_detail_def\<close>)
  show ?thesis
    using key accepts
    by (simp add: accept_sample_def accept_run_def Let_def tx_run sample_worker_def)
qed

section \<open>A run from acceptance to completion\<close>

definition run_a :: string where
  "run_a = ''run_'' @ sample_uuid 0"

definition claimed_run :: "string \<Rightarrow> int \<Rightarrow> workload_run_row" where
  "claimed_run owner n = (sample_run 0 ''actor_a'')\<lparr>wr_state := ''running'', wr_started_at := Some sample_time, wr_lease_owner := Some owner,
     wr_lease_expires := Some 1767225600, wr_fencing_token := n\<rparr>"

definition finished_run :: workload_run_row where
  "finished_run = (claimed_run ''worker_b'' 2)\<lparr>wr_state := ''succeeded'', wr_completed_at := Some sample_time,
     wr_result_digest := Some zero_digest, wr_exit_code := Some 0, wr_exit_reason := Some ''completed'',
     wr_lease_owner := None, wr_lease_expires := None\<rparr>"

definition claim_detail :: "int \<Rightarrow> (string \<times> json) list" where
  "claim_detail n = [(''state'', JStr ''running''), (''fencing_token'', JInt n)]"

definition finish_detail :: "(string \<times> json) list" where
  "finish_detail = [(''state'', JStr ''succeeded''), (''result_digest'', JStr zero_digest), (''exit_code'', JInt 0), (''exit_reason'', JStr ''completed'')]"

definition events_1 :: "run_event_row list" where
  "events_1 = [sample_event run_a ''accepted'' (accepted_detail ''actor_a'') 1 [sample_run 0 ''actor_a''] []]"

definition events_2 :: "run_event_row list" where
  "events_2 = events_1 @ [sample_event run_a ''running'' (claim_detail 1) 2 [claimed_run ''worker_a'' 1] events_1]"

definition events_3 :: "run_event_row list" where
  "events_3 = events_2 @ [sample_event run_a ''running'' (claim_detail 2) 3 [claimed_run ''worker_b'' 2] events_2]"

definition events_4 :: "run_event_row list" where
  "events_4 = events_3 @ [sample_event run_a ''succeeded'' finish_detail 4 [finished_run] events_3]"

text \<open>The journals between the calls.\<close>

definition journal_1 :: journal where
  "journal_1 = run_journal 2 2 [sample_run 0 ''actor_a''] events_1"

definition journal_2 :: journal where
  "journal_2 = run_journal 5 3 [claimed_run ''worker_a'' 1] events_2"

definition journal_3 :: journal where
  "journal_3 = run_journal 7 4 [claimed_run ''worker_b'' 2] events_3"

definition journal_4 :: journal where
  "journal_4 = run_journal 9 5 [finished_run] events_4"

lemma sample_event_fields [simp]:
  "we_run_id (sample_event r ty d i rows es) = r" "we_event_id (sample_event r ty d i rows es) = ''event_'' @ sample_uuid i"
  "is_digest (we_event_digest (sample_event r ty d i rows es))"
  "we_sequence (sample_event r ty d i rows es) = (case last_run_event r (run_db rows es) of None \<Rightarrow> 1 | Some e \<Rightarrow> we_sequence e + 1)"
  by (simp_all add: sample_event_def new_event_def Let_def)

definition chain_of :: "string \<Rightarrow> nat \<Rightarrow> run_event_row list \<Rightarrow> bool" where
  "chain_of r i es \<longleftrightarrow> map we_sequence es = map int [1..<Suc (length es)] \<and>
     (\<forall>e \<in> set es. we_run_id e = r \<and> is_digest (we_event_digest e) \<and> (\<exists>k < i. we_event_id e = ''event_'' @ sample_uuid k))"

lemma uuid_inj [simp]: "sample_uuid i = sample_uuid j \<longleftrightarrow> i = j"
  by (auto simp: sample_uuid_def dest: arg_cong [where f = length])

lemma chain_sorted:
  assumes "chain_of r i es"
  shows "run_events r (run_db rows es) = es"
proof -
  have "filter (\<lambda>e. we_run_id e = r) es = es" using assms by (simp add: chain_of_def filter_id_conv)
  moreover have "sorted (map we_sequence es)"
    using assms by (simp add: chain_of_def sorted_map sorted_wrt_upt [THEN sorted_wrt_mono_rel [rotated]] del: upt_Suc)
  ultimately show ?thesis by (simp add: run_events_def sort_key_id_if_sorted)
qed

lemma chain_last:
  assumes "chain_of r i es"
  shows "last_run_event r (run_db rows es) = (if es = [] then None else Some (last es))"
  unfolding last_run_event_def chain_sorted [OF assms] by (cases es rule: rev_cases) simp_all

lemma chain_next:
  assumes "chain_of r i es"
  shows "(case last_run_event r (run_db rows es) of None \<Rightarrow> 1 | Some e \<Rightarrow> we_sequence e + 1) = int (length es) + 1"
proof (cases es rule: rev_cases)
  case (snoc xs e)
  then have "we_sequence e = int (length es)"
    using assms by (simp add: chain_of_def)
  then show ?thesis using snoc unfolding chain_last [OF assms] by simp
qed (simp add: last_run_event_def run_events_def)

lemma chain_appends:
  assumes chain: "chain_of r i es" and "r \<in> wr_run_id ` set rows"
    and "detail_ok detail" "weight (JObj detail) \<le> 10000" "length r \<le> 100" "length ty \<le> 100" "length (int_repr (int (length es) + 1)) \<le> 100"
  shows "append_run_event r ty detail (run_journal t i rows es) =
      (Inr (), run_journal (Suc t) (Suc i) rows (es @ [sample_event r ty detail i rows es]))"
    and "chain_of r (Suc i) (es @ [sample_event r ty detail i rows es])"
proof -
  have seqs: "we_sequence e \<le> int (length es)" if "e \<in> set es" for e
  proof -
    have "we_sequence e \<in> set (map int [1..<Suc (length es)])"
      using chain that unfolding chain_of_def by (metis image_eqI list.set_map)
    then show ?thesis by auto
  qed
  show "append_run_event r ty detail (run_journal t i rows es) =
      (Inr (), run_journal (Suc t) (Suc i) rows (es @ [sample_event r ty detail i rows es]))"
  proof (rule run_appends [where n = "int (length es) + 1"])
    show "weight (run_event_payload r (int (length es) + 1) ty sample_time (map_option we_event_digest (last_run_event r (run_db rows es))) detail) \<le> 65536"
      using chain assms(4-7) by (intro event_weight) (auto simp: chain_last [OF chain] chain_of_def split: if_splits)
    show "\<forall>e \<in> set es. we_event_id e \<noteq> ''event_'' @ sample_uuid i \<and> (we_run_id e = r \<longrightarrow> we_sequence e \<noteq> int (length es) + 1)"
      using chain seqs unfolding chain_of_def by fastforce
  qed (use assms(2,3) chain_next [OF chain] in simp_all)
  show "chain_of r (Suc i) (es @ [sample_event r ty detail i rows es])"
    using chain chain_next [OF chain] by (auto simp: chain_of_def intro: less_SucI)
qed

lemma run_a_length: "length run_a \<le> 100"
  by (simp add: run_a_def sample_uuid_def)

lemma claim_detail_ok: "detail_ok (claim_detail n)" "length (int_repr n) \<le> 100 \<Longrightarrow> weight (JObj (claim_detail n)) \<le> 10000"
  by (simp_all add: claim_detail_def event_details_ok)

lemma finish_detail_ok: "detail_ok finish_detail" "weight (JObj finish_detail) \<le> 10000"
  using event_details_ok(3) [of "''succeeded''" zero_digest "Some 0" "''completed''"]
  by (simp_all add: finish_detail_def digest_lengths small_reprs)

lemma run_a_rows [simp]:
  "wr_run_id (sample_run 0 a) = run_a" "wr_run_id (claimed_run owner n) = run_a" "wr_run_id finished_run = run_a"
  by (simp_all add: run_a_def claimed_run_def finished_run_def)

lemma chain_1: "chain_of run_a 2 events_1"
  by (auto simp: chain_of_def events_1_def no_previous intro: exI [of _ 1])

lemma events_1_length: "length events_1 = 1"
  by (simp add: events_1_def)

lemmas append_2 = chain_appends [OF chain_1, of "[claimed_run ''worker_a'' 1]" "claim_detail 1" "''running''" for t, folded events_2_def]

lemma appends_2:
  "append_run_event run_a ''running'' (claim_detail 1) (run_journal t 2 [claimed_run ''worker_a'' 1] events_1) =
     (Inr (), run_journal (Suc t) 3 [claimed_run ''worker_a'' 1] events_2)" "chain_of run_a 3 events_2" "length events_2 = 2"
  using append_2 run_a_length claim_detail_ok by (simp_all add: events_1_length small_reprs events_2_def)

lemmas append_3 = chain_appends [OF appends_2(2), of "[claimed_run ''worker_b'' 2]" "claim_detail 2" "''running''" for t, folded events_3_def]

lemma appends_3:
  "append_run_event run_a ''running'' (claim_detail 2) (run_journal t 3 [claimed_run ''worker_b'' 2] events_2) =
     (Inr (), run_journal (Suc t) 4 [claimed_run ''worker_b'' 2] events_3)" "chain_of run_a 4 events_3" "length events_3 = 3"
  using append_3 run_a_length claim_detail_ok by (simp_all add: appends_2(3) small_reprs events_3_def)

lemmas append_4 = chain_appends [OF appends_3(2), of "[finished_run]" finish_detail "''succeeded''" for t, folded events_4_def]

lemma appends_4:
  "append_run_event run_a ''succeeded'' finish_detail (run_journal t 4 [finished_run] events_3) =
     (Inr (), run_journal (Suc t) 5 [finished_run] events_4)"
  using append_4 run_a_length finish_detail_ok by (simp add: appends_3(3) small_reprs)

lemma first_accepted:
  "accept_sample ''actor_a'' sample_journal = (Inr (run_from_row (sample_run 0 ''actor_a'')), journal_1)"
proof -
  have "(case oldest_active ''host_a'' ''app'' ''staging'' ''job'' (run_db [] []) of
      Some row \<Rightarrow> request_cancel_tx row (sample_worker ''actor_a'') | None \<Rightarrow> tx_return ()) (run_journal (Suc 0) 0 [] []) =
      (Inr (), run_journal 1 0 [] [])" by (simp add: oldest_active_def tx_return_def)
  from run_accepts [OF this] show ?thesis
    by (simp add: sample_run_journal journal_1_def events_1_def run_a_def numeral_2_eq_2)
qed

lemma run_claims:
  assumes row: "wr_run_id row = r" "acquirable 1767225600 row" "wr_cancellation_requested_at row = None"
    and started: "(case wr_started_at row of Some u \<Rightarrow> if u \<noteq> [] then tx_return u else store_now | None \<Rightarrow> store_now) (run_journal (Suc t) i [row] es) =
      (Inr sample_time, run_journal t' i [row] es)"
    and row': "row' = row\<lparr>wr_state := ''running'', wr_started_at := Some sample_time, wr_lease_owner := Some owner,
      wr_lease_expires := Some 1767225600, wr_fencing_token := wr_fencing_token row + 1\<rparr>"
    and app: "append_run_event r ''running'' (claim_detail (wr_fencing_token row + 1)) (run_journal t' i [row'] es) = (Inr (), run_journal u j [row'] es')"
  shows "acquire_run owner 0 (run_journal t i [row] es) = (Inr (Some (run_from_row row')), run_journal u j [row'] es')"
proof -
  have up: "tx_update (update_run r (\<lambda>q. q\<lparr>wr_state := ''running'', wr_started_at := Some sample_time, wr_lease_owner := Some owner,
      wr_lease_expires := Some 1767225600, wr_fencing_token := wr_fencing_token row + 1\<rparr>)) (run_journal t' i [row] es) =
      (Inr (), run_journal t' i [row'] es)"
    using row(1) by (simp add: tx_run update_run_def row')
  have "claim_tx row owner 1767225600 (run_journal (Suc t) i [row] es) = (Inr (run_from_row row'), run_journal u j [row'] es')"
    unfolding claim_tx_def Let_def row(1)
    by ((rule tx_bind_run, rule started up app [unfolded claim_detail_def])+) (simp add: reread_run_def tx_run find_run_def row' row(1))
  then show ?thesis
    using row by (simp add: acquire_run_def tx_run runs_by_acceptance_def)
qed

lemma first_claim: "acquire_run ''worker_a'' 0 journal_1 = (Inr (Some (run_from_row (claimed_run ''worker_a'' 1))), journal_2)"
  unfolding journal_1_def journal_2_def
proof (rule run_claims)
  show "append_run_event run_a ''running'' (claim_detail (wr_fencing_token (sample_run 0 ''actor_a'') + 1))
      (run_journal 4 2 [claimed_run ''worker_a'' 1] events_1) = (Inr (), run_journal 5 3 [claimed_run ''worker_a'' 1] events_2)"
    using appends_2(1) [of 4] by simp
qed (simp_all add: acquirable_def active_run_def claimed_run_def run_a_def)

lemma second_claim: "acquire_run ''worker_b'' 0 journal_2 = (Inr (Some (run_from_row (claimed_run ''worker_b'' 2))), journal_3)"
  unfolding journal_2_def journal_3_def
proof (rule run_claims)
  show "append_run_event run_a ''running'' (claim_detail (wr_fencing_token (claimed_run ''worker_a'' 1) + 1))
      (run_journal 6 3 [claimed_run ''worker_b'' 2] events_2) = (Inr (), run_journal 7 4 [claimed_run ''worker_b'' 2] events_3)"
    using appends_3(1) [of 6] by (simp add: claimed_run_def)
qed (simp_all add: acquirable_def active_run_def claimed_run_def run_a_def tx_return_def sample_time_nonempty)

lemma run_finishes:
  "complete_run run_a ''worker_b'' 2 ''succeeded'' zero_digest (Some 0) ''completed'' journal_3 = (Inr (run_from_row finished_run), journal_4)"
proof -
  let ?row = "claimed_run ''worker_b'' 2"
  have now: "store_now (run_journal 7 4 [?row] events_3) = (Inr sample_time, run_journal 8 4 [?row] events_3)" by simp
  have up: "tx_update (update_run run_a (\<lambda>r. r\<lparr>wr_state := ''succeeded'', wr_completed_at := Some sample_time,
      wr_result_digest := Some zero_digest, wr_exit_code := Some 0, wr_exit_reason := Some ''completed'',
      wr_lease_owner := None, wr_lease_expires := None\<rparr>)) (run_journal 8 4 [?row] events_3) = (Inr (), run_journal 8 4 [finished_run] events_3)"
    by (simp add: tx_run update_run_def finished_run_def)
  have app: "append_run_event run_a ''succeeded'' [(''state'', JStr ''succeeded''), (''result_digest'', JStr zero_digest),
      (''exit_code'', case Some 0 of None \<Rightarrow> JNull | Some n \<Rightarrow> JInt n), (''exit_reason'', JStr ''completed'')]
      (run_journal 8 4 [finished_run] events_3) = (Inr (), run_journal 9 5 [finished_run] events_4)"
    using appends_4 [unfolded finish_detail_def, of 8] by simp
  have "complete_tx ?row ''succeeded'' zero_digest (Some 0) ''completed'' (run_journal 7 4 [?row] events_3) =
      (Inr (run_from_row finished_run), run_journal 9 5 [finished_run] events_4)"
    unfolding complete_tx_def run_a_rows
    by ((rule tx_bind_run, rule now up app)+) (simp add: reread_run_def tx_run find_run_def)
  moreover have "wr_lease_owner ?row = Some ''worker_b''" "wr_fencing_token ?row = 2" "wr_state ?row = ''running''" by (simp_all add: claimed_run_def)
  ultimately show ?thesis
    by (simp add: complete_run_def journal_3_def journal_4_def tx_run check_run find_run_def RUN_TERMINAL_def)
qed

section \<open>Replacing runs\<close>

definition run_b :: string where
  "run_b = ''run_'' @ sample_uuid 3"

definition cancelled_run :: workload_run_row where
  "cancelled_run = (sample_run 0 ''actor_a'')\<lparr>wr_cancellation_requested_at := Some sample_time\<rparr>"

definition cancel_detail :: "(string \<times> json) list" where
  "cancel_detail = [(''state'', JStr ''accepted''), (''actor_id'', JStr ''actor_b'')]"

definition events_c :: "run_event_row list" where
  "events_c = events_1 @ [sample_event run_a ''cancellation_requested'' cancel_detail 2 [cancelled_run] events_1]"

definition events_b :: "run_event_row list" where
  "events_b = events_c @ [sample_event run_b ''accepted'' (accepted_detail ''actor_b'') 4 [cancelled_run, sample_run 3 ''actor_b''] events_c]"

definition journal_b :: journal where
  "journal_b = run_journal 6 5 [cancelled_run, sample_run 3 ''actor_b''] events_b"

lemma cancelled_run_fields [simp]:
  "wr_run_id cancelled_run = run_a" "wr_actor_id cancelled_run = ''actor_a''" "wr_state cancelled_run = ''accepted''"
  "wr_accepted_at cancelled_run = sample_time" "wr_cancellation_requested_at cancelled_run = Some sample_time"
  by (simp_all add: cancelled_run_def run_a_def)

lemma sample_run_scope [simp]:
  "wr_host_id (sample_run i a) = ''host_a''" "wr_app (sample_run i a) = ''app''" "wr_environment (sample_run i a) = ''staging''"
  "wr_workload_name (sample_run i a) = ''job''" "wr_host_id cancelled_run = ''host_a''" "wr_app cancelled_run = ''app''"
  "wr_environment cancelled_run = ''staging''" "wr_workload_name cancelled_run = ''job''"
  by (simp_all add: cancelled_run_def sample_run_def new_run_row_def)

lemma run_a_fresh: "run_a \<noteq> ''run_'' @ sample_uuid (Suc i)"
  by (simp add: run_a_def)

lemma cancels:
  "request_cancel_tx (sample_run 0 ''actor_a'') (sample_worker ''actor_b'') (run_journal 3 2 [sample_run 0 ''actor_a''] events_1) =
     (Inr (), run_journal 5 3 [cancelled_run] events_c)" "chain_of run_a 3 events_c"
proof -
  have "append_run_event run_a ''cancellation_requested'' cancel_detail (run_journal 4 2 [cancelled_run] events_1) =
      (Inr (), run_journal 5 3 [cancelled_run] events_c)" and "chain_of run_a 3 events_c"
    using chain_appends [OF chain_1, of "[cancelled_run]" cancel_detail "''cancellation_requested''"] run_a_length event_details_ok(1)
    by (simp_all add: cancel_detail_def events_1_length small_reprs events_c_def)
  then show "request_cancel_tx (sample_run 0 ''actor_a'') (sample_worker ''actor_b'') (run_journal 3 2 [sample_run 0 ''actor_a''] events_1) =
     (Inr (), run_journal 5 3 [cancelled_run] events_c)" "chain_of run_a 3 events_c"
    by (simp_all add: request_cancel_tx_def tx_run update_run_def cancel_detail_def sample_worker_def cancelled_run_def run_a_def)
qed

lemma chain_ids: "chain_of r i es \<Longrightarrow> i \<le> k \<Longrightarrow> \<forall>e \<in> set es. we_run_id e = r \<and> we_event_id e \<noteq> ''event_'' @ sample_uuid k"
  by (force simp: chain_of_def)

lemma second_accepted:
  "accept_sample ''actor_b'' journal_1 = (Inr (run_from_row (sample_run 3 ''actor_b'')), journal_b)"
proof -
  have cancel: "(case oldest_active ''host_a'' ''app'' ''staging'' ''job'' (run_db [sample_run 0 ''actor_a''] events_1) of
      Some row \<Rightarrow> request_cancel_tx row (sample_worker ''actor_b'') | None \<Rightarrow> tx_return ()) (run_journal (Suc 2) 2 [sample_run 0 ''actor_a''] events_1) =
      (Inr (), run_journal 5 3 [cancelled_run] events_c)"
    using cancels(1) by (simp add: oldest_active_def active_run_def)
  have "\<forall>e \<in> set events_c. we_run_id e \<noteq> ''run_'' @ sample_uuid 3 \<and> we_event_id e \<noteq> ''event_'' @ sample_uuid (Suc 3)"
    using chain_ids [OF cancels(2), of "Suc 3"] run_a_fresh [of 2] by auto
  then show ?thesis
    using run_accepts [OF cancel] run_a_fresh [of 2]
    by (simp add: journal_1_def journal_b_def events_b_def run_b_def)
qed

definition third_journal :: journal where
  "third_journal = run_journal 8 7 [cancelled_run, sample_run 3 ''actor_b'', sample_run 5 ''actor_c'']
     (events_b @ [sample_event (''run_'' @ sample_uuid 5) ''accepted'' (accepted_detail ''actor_c'') 6
       [cancelled_run, sample_run 3 ''actor_b'', sample_run 5 ''actor_c''] events_b])"

lemma third_accepted:
  "accept_sample ''actor_c'' journal_b = (Inr (run_from_row (sample_run 5 ''actor_c'')), third_journal)"
proof -
  let ?rows = "[cancelled_run, sample_run 3 ''actor_b'']"
  have cancel: "(case oldest_active ''host_a'' ''app'' ''staging'' ''job'' (run_db ?rows events_b) of
      Some row \<Rightarrow> request_cancel_tx row (sample_worker ''actor_c'') | None \<Rightarrow> tx_return ()) (run_journal (Suc 6) 5 ?rows events_b) =
      (Inr (), run_journal 7 5 ?rows events_b)"
    by (simp add: oldest_active_def active_run_def cancelled_again)
  have "\<forall>e \<in> set events_b. we_run_id e \<noteq> ''run_'' @ sample_uuid 5 \<and> we_event_id e \<noteq> ''event_'' @ sample_uuid (Suc 5)"
    using chain_ids [OF cancels(2), of "Suc 5"] run_a_fresh [of 4] by (auto simp: events_b_def run_b_def)
  then show ?thesis
    using run_accepts [OF cancel] run_a_fresh [of 4] by (simp add: journal_b_def third_journal_def)
qed

section \<open>Witnesses\<close>

lemma daemon_op: "daemon_call_ok c \<Longrightarrow> run_daemon_call c \<in> screened_ops"
  by (auto simp: screened_ops_def screened_daemon_ops_def)

lemma sample_no_colons: "no_colons (jn_uuid sample_journal)"
  by (simp add: no_colons_def sample_journal_def)

lemma sample_request_texts: "request_ok ''actor_a'' ''host_a'' ''app'' ''staging'' ''revision_a'' zero_digest ''job'' ''job'' ''manual''"
  by (simp add: request_ok_def no_colon_plain)

lemma accepted_later: "later screened_ops sample_journal journal_1"
  using first_accepted
    later_step [OF daemon_op [of "Accept_Run (sample_worker ''actor_a'') ''host_a'' ''app'' ''staging'' ''revision_a'' zero_digest ''job'' ''job'' ''manual''
      ''key'' ''replace''"] _ later_refl]
  by (simp add: sample_request_texts returning_def tx_run accept_sample_def sample_worker_def)

lemma claimed_later: "later screened_ops journal_1 journal_2" "later screened_ops journal_2 journal_3"
  using first_claim second_claim later_step [OF daemon_op [of "Acquire_Run ''worker_a'' 0"] _ later_refl]
    later_step [OF daemon_op [of "Acquire_Run ''worker_b'' 0"] _ later_refl]
  by (simp_all add: returning_def tx_run)

lemma finished_later: "later screened_ops journal_3 journal_4"
  using run_finishes later_step [OF daemon_op [of "Complete_Run run_a ''worker_b'' 2 ''succeeded'' zero_digest (Some 0) ''completed''"] _ later_refl]
  by (simp add: returning_def tx_run)

lemma runs_later: "later screened_ops sample_journal journal_4"
  using accepted_later claimed_later finished_later later_trans by metis

theorem run_history_verifies_witness: "check_workload (jn_db journal_4) = None"
  by (rule run_history_verifies [OF sample_empty sample_no_colons runs_later])

theorem terminal_run_final_witness:
  "find_run run_a (jn_db journal_4) = Some finished_run \<and> run_events run_a (jn_db journal_4) = run_events run_a (jn_db journal_4)"
proof (rule terminal_run_final [OF sample_empty sample_no_colons runs_later later_refl])
  show "find_run run_a (jn_db journal_4) = Some finished_run" by (simp add: journal_4_def find_run_def)
  show "wr_state finished_run \<in> set RUN_TERMINAL" by (simp add: finished_run_def RUN_TERMINAL_def)
qed

theorem superseded_worker_fenced_witness:
  "wk_fencing_token (run_from_row (claimed_run ''worker_a'' 1)) < wk_fencing_token (run_from_row (claimed_run ''worker_b'' 2)) \<and>
   jn_db (snd (complete_run run_a ''worker_a'' 1 ''failed'' zero_digest None ''lost'' journal_3)) = jn_db journal_3"
proof -
  have ids: "wk_run_id (run_from_row (claimed_run owner n)) = run_a" "wk_state (run_from_row (claimed_run owner n)) = ''running''"
    "wk_fencing_token (run_from_row (claimed_run owner n)) = n" for owner n
    by (simp_all add: run_from_row_def) (simp_all add: claimed_run_def)
  show ?thesis
    using superseded_worker_fenced [OF sample_empty sample_no_colons accepted_later first_claim _ later_refl second_claim _ _ later_refl
        prod.collapse [symmetric] prod.collapse [symmetric]]
    by (auto simp: ids)
qed

theorem replace_leaves_others_witness:
  "\<exists>new. db_workload_runs (jn_db third_journal) = [cancelled_run, sample_run 3 ''actor_b'', new] \<and> active_run new \<and>
     active_run (sample_run 3 ''actor_b'') \<and> wr_cancellation_requested_at (sample_run 3 ''actor_b'') = None"
proof -
  have run: "accept_run (sample_worker ''actor_c'') ''host_a'' ''app'' ''staging'' ''revision_a'' zero_digest ''job'' ''job'' ''manual'' ''key'' ''replace''
      journal_b = (Inr (run_from_row (sample_run 5 ''actor_c'')), third_journal)"
    using third_accepted by (simp add: accept_sample_def)
  have fresh: "\<forall>r \<in> set (db_workload_runs (jn_db journal_b)).
      \<not> (wr_actor_id r = ac_actor_id (sample_worker ''actor_c'') \<and> wr_key_digest r = digest_text ''key'')"
    by (simp add: journal_b_def sample_worker_def)
  have oldest: "oldest_active ''host_a'' ''app'' ''staging'' ''job'' (jn_db journal_b) = Some cancelled_run"
    by (simp add: journal_b_def oldest_active_def active_run_def)
  show ?thesis
    using replace_leaves_others [OF run fresh oldest] by (auto simp: journal_b_def active_run_def)
qed

lemma stream_lengths: "length (db_host_events (run_db rows es)) = length es"
  using arg_cong [OF run_db_stream [of rows es], of length] by simp

theorem host_pages_gapless_witness:
  "\<exists>p q. host_events_after 0 1 journal_1 = (Inr p, journal_1) \<and> host_events_after 1 1 journal_2 = (Inr q, journal_2) \<and>
     length p = 1 \<and> map hv_cursor (p @ q) = [1..1 + int (length q)]"
proof -
  obtain p q where read: "host_events_after 0 1 journal_1 = (Inr p, journal_1)"
      "host_events_after (0 + int (length p)) 1 journal_2 = (Inr q, journal_2)"
      "map hv_cursor (p @ q) = [0 + 1..0 + int (length (p @ q))]"
      "length p = min (nat 1) (length (db_host_events (jn_db journal_1)) - nat 0)"
    using host_pages_gapless [OF sample_empty sample_no_colons accepted_later claimed_later(1), of 0 1 1] by auto
  moreover have "length p = 1" using read(4) by (simp add: journal_1_def stream_lengths events_1_length)
  ultimately show ?thesis by auto
qed

theorem runs_well_formed_witness: "run_shape finished_run"
  by (rule runs_well_formed [OF sample_empty sample_no_colons runs_later]) (simp add: journal_4_def)

end
