(* ===== verification/Spec2Isabelle.thy ===== *)
theory Spec2Isabelle
  imports Domain_Facts Fence_Facts Pipeline_Runs Cron Validation Archives Agent_Runs Run_Runs
begin

text \<open>
  A verification library for the execution kernel of Ophelia, a host-level deployment tool written
  in Python. All paths below are relative to \<^verbatim>\<open>src/src/ophelia\<close>.

  \<^bold>\<open>The program.\<close> A request to change an application is described by immutable contracts
  (\<^verbatim>\<open>domain/\<close>, \<^verbatim>\<open>execution/contracts.py\<close>): a request by an actor, a plan, an approval bound to the
  plan by digests, a revision, an execution input and, at the end, a terminal receipt. Contracts are
  identified by SHA-256 digests of their canonical JSON text, which is redacted first
  (\<^verbatim>\<open>domain/_contracts.py\<close>, \<^verbatim>\<open>redaction.py\<close>). One SQLite database per host (\<^verbatim>\<open>execution/migrations.py\<close>)
  is the authority over everything that happened. Three stores share it: the operation journal
  (\<^verbatim>\<open>execution/operation_store.py\<close>), the store of commands of the remote control plane
  (\<^verbatim>\<open>daemon/agent_store.py\<close>) and the daemon's store of hosts, plan requests, observations and workload
  runs (\<^verbatim>\<open>daemon/store.py\<close>). The executor (\<^verbatim>\<open>execution/executor.py\<close>) carries out one accepted operation
  phase by phase against a runtime backend and records every phase in the journal before it touches
  the runtime. Validators guard the edges: \<^verbatim>\<open>cron.py\<close> and \<^verbatim>\<open>validation/\<close>.

  \<^bold>\<open>How the code is modelled.\<close> Functions of the source are HOL functions with the source's names, all
  of them executable. A dataclass is a record, an enumeration a datatype with its values, an
  exception a value of \<open>py_error\<close>; a function that may raise returns \<open>py_error + 'a\<close>, and the chain of
  checks of a constructor is \<open>first_error\<close>. A method of a store is a state transformer \<open>'a tx\<close> on the
  record \<open>journal\<close>: the database, the clock (a sequence of samples, \<open>None\<close> where the sample is not
  finite), the source of random identifiers, and how far both have been used. \<open>transaction\<close> rolls the
  database back when its body raises, and never the clock or the identifiers. Tables are lists of rows
  in the order of insertion; primary keys, unique columns, foreign keys and \<^verbatim>\<open>CHECK\<close> clauses are guards
  of the statements. Where the code orders rows by a column that can have ties, tied rows stay in the
  order of insertion. Text is \<open>string\<close>: ASCII in the kernel, Latin-1 in the validators (\<open>Texts\<close>), and the
  bytes of the UTF-8 encoding for the names in an archive (\<open>Archives\<close>);
  Python's integers are \<open>int\<close>, epoch seconds and lease times are rational numbers.

  \<^bold>\<open>Parameters.\<close> Code outside the repository is an argument of the definitions that use it: the clock
  and the identifiers of the journal, the runtime backend and its world in \<open>Executor\<close>, the calls that
  other workers and the heartbeat thread make between two steps of the executor, and what
  \<^verbatim>\<open>tarfile\<close> reports of an archive and \<^verbatim>\<open>unicodedata.normalize\<close> makes of a name in \<open>Archives\<close>. The theorems hold for every value of them; where one
  relies on a documented property of them, as on identifiers without colons, it is a hypothesis and a
  witness instantiates it.

  \<^bold>\<open>Fuel.\<close> The only function with fuel is the JSON loader of \<open>Json\<close>: it spends one unit per parser
  call, gets \<open>2 * length s + 2\<close> units for the text \<open>s\<close>, and \<open>load_fuel_irrelevant\<close> shows that more
  never changes its result. Everything else is structurally recursive or has a termination proof.

  \<^bold>\<open>The theories.\<close>
  \<^item> \<open>Prelude\<close>: exceptions, results, checks, text helpers, queries on rows.
  \<^item> \<open>Json\<close>, \<open>Sha256\<close>, \<open>Patterns\<close>, \<open>Datetime\<close>: what the source uses of Python's \<^verbatim>\<open>json\<close>, \<^verbatim>\<open>hashlib\<close>, \<^verbatim>\<open>re\<close> and
    \<^verbatim>\<open>datetime\<close>. Printing and loading JSON are inverse up to the order of keys.
  \<^item> \<open>Redaction\<close>, \<open>Contracts\<close>, \<open>Canonical\<close>: \<^verbatim>\<open>redaction.py\<close> and \<^verbatim>\<open>domain/_contracts.py\<close>. Redaction masks
    every scalar below a sensitive key, canonical forms disclose none except validated digests, and
    the nested redactions of the code amount to one pass, idempotent outside command strings.
  \<^item> \<open>Enums\<close>, \<open>Domain\<close>, \<open>Digests\<close>, \<open>Domain_Facts\<close>: the contracts, their checks and digests; receipts are
    truthful, approvals bind one plan, inputs bind exactly when their parts reconcile.
  \<^item> \<open>Codec\<close>, \<open>Contract_Codec\<close>, \<open>Contract_Fields\<close>, \<open>Utc_Text\<close>: the readers of durable payloads; every
    contract is an instance of the locale \<open>contract_codec\<close>, whose law is the round trip through the
    stored text.
  \<^item> \<open>Schema\<close>, \<open>Journal\<close>, \<open>Lifecycle\<close>, \<open>Receipts\<close>, \<open>Integrity\<close>: the tables and every method of the journal
    that reads or writes them.
  \<^item> \<open>Journal_Effects\<close>, \<open>Journal_Calls\<close>: what an action does when it succeeds and leaves when it raises;
    the locale \<open>db_frame\<close> carries a reflexive and transitive relation through the control structure of
    an action, the locale \<open>journal_invariant\<close> an invariant through every call.
  \<^item> \<open>Acceptance_Facts\<close>, \<open>Event_Facts\<close>, \<open>Receipt_Facts\<close>, \<open>History_Facts\<close>, \<open>Fence_Facts\<close>: idempotent
    acceptance, verified event chains, receipts that are stored with their terminal event, fences.
  \<^item> \<open>Executor\<close>, \<open>Executor_Facts\<close>: the pipeline, recovery and compensation; no backend call but
    \<^verbatim>\<open>handle_for\<close> without its \<open>evidence\<close> in the journal (the announcement of its phase and the completions
    of all earlier ones), and the returned receipt is the stored one.
  \<^item> \<open>Payloads\<close>, \<open>Agent_Store\<close>, \<open>Agent_Facts\<close>: commands of the control plane.
  \<^item> \<open>Daemon_Store\<close>, \<open>Run_Facts\<close>, \<open>Run_Properties\<close>: hosts, plan requests, observations and workload runs,
    and the whole integrity check (\<open>check_integrity\<close>).
  \<^item> \<open>Store_Machine\<close>, \<open>Store_Calls\<close>, \<open>Store_Facts\<close>, \<open>Store_Histories\<close>, \<open>Host_Events\<close>, \<open>Host_Delivery\<close>: the three
    stores together. \<open>store_ops\<close> is the set of all their calls, where the calls of the journal take
    constructed contracts, and \<open>later store_ops\<close> relates a state to every state that any interleaving of
    them reaches, failing calls included. The histories of operations keep verifying and only grow
    whatever these calls are. What concerns agent commands, workload runs and the host event stream is
    proved for \<open>screened_ops\<close>, the calls whose agent payloads and results have no command keys and no
    forbidden keys and whose run texts are not credential-shaped, with well-formed revision and
    result digests: the two stores do not check this themselves, and \<open>Agent_Runs\<close> shows what an
    unscreened command string does. Under screened calls commands and runs keep verifying, finished
    ones are final, and consumers of the host event stream can read every page and miss nothing.
  \<^item> \<open>Texts\<close>, \<open>Cron\<close>, \<open>Validation\<close>, \<open>Archives\<close>: the validators, against reference definitions.
  \<^item> \<open>Samples\<close>, \<open>Sizes\<close>, \<open>Sample_Runs\<close>, \<open>Executor_Runs\<close>, \<open>Pipeline_Runs\<close>, \<open>Agent_Runs\<close>, \<open>Run_Runs\<close>: concrete contracts and
    concrete runs of the stores from an empty database, on which the properties with hypotheses are
    instantiated.

  \<^bold>\<open>What the model showed.\<close> Some theorems state behaviour the code does not intend. Under the policy
  \<^verbatim>\<open>replace\<close> only the oldest active run is asked to stop (\<open>Run_Properties\<close>); redaction of command strings
  is not idempotent, so that an accepted agent command can make the integrity check fail
  (\<open>Agent_Runs\<close>), and it keeps a credential before an equals sign (\<open>Redaction\<close>); the drive test of archive
  names precedes their normalisation (\<open>Archives\<close>); a superscript digit raises an exception of the wrong
  kind (\<open>Cron\<close>); and an artifact root of single dots is accepted (\<open>Domain_Facts\<close>).

  \<^bold>\<open>What the theorems do not cover.\<close> The integrity check is modelled for every table; that it passes in
  every reachable state is proved for the event chains of operations, the agent tables and the
  workload tables. It is not proved for the delivery cursors, for plan requests, hosts and
  observations, whose texts the daemon store takes from its callers unchecked, nor for the execution
  inputs, controls, leases and revision lifecycle it reads last. Leases and fences are compared with
  the clock as the code does; nothing is assumed about how clocks of different processes relate.

  \<^bold>\<open>Not modelled.\<close> Opening the database file, its permissions, WAL mode and the migration runner
  (\<^verbatim>\<open>operation_store.py\<close>, \<^verbatim>\<open>migrations.py\<close>) are file-system and SQLite effects. The runtime backends
  (\<^verbatim>\<open>execution/compose_backend.py\<close>, \<^verbatim>\<open>static_backend.py\<close> and others) drive Docker and processes and appear as
  the backend parameter. The daemon around its stores is sockets, HTTP and threads; manifests are
  YAML parsing and rendering; portability, product recovery, workflows, providers, reports and the
  command line are programs over files, services and terminal output. \<^verbatim>\<open>redact_url\<close> rests on
  \<^verbatim>\<open>urllib\<close>, \<^verbatim>\<open>validation/paths.py\<close> on the host's file system and \<^verbatim>\<open>validation/domains.py\<close> on IDNA.
\<close>

end
